(* ===== verification/Prelude.thy ===== *)
theory Prelude
  imports Main "HOL-Library.AList" "HOL-Library.Char_ord" "HOL-Library.List_Lexorder"
    "HOL-Library.Product_Lexorder" "HOL-Library.Multiset" "HOL-Library.Code_Target_Nat"
begin

text \<open>
  Shared vocabulary of the development.
  Go errors are values: a sentinel of the package, an error wrapped by \<open>fmt.Errorf("...: %w")\<close>,
  an opaque error of another package, or a join of errors.
  A Go method that reads and writes shared state is an \<open>op\<close>: a function from the state to a result
  and the state it leaves behind. The state survives an error return, as it does in the program: a
  record that was committed before the audit failed stays committed.
  A Go map is an association list with distinct keys; the order of the list is one iteration order.
  Reasoning about operations goes through the weakest precondition \<open>wp\<close>, whose equations (the
  collection \<open>wp_simps\<close>) push a postcondition through the body of an operation.
\<close>

named_theorems wp_simps \<open>equations that evaluate \<open>wp\<close> of an operation\<close>
named_theorems go_defs \<open>definitions of small total helpers, unfolded freely\<close>

section \<open>Errors\<close>

datatype 'e err =
    Sentinel 'e
  | Wrapf string "'e err"
  | Errorf string
  | Joined "'e err list"

text \<open>\<open>errors.Is\<close>: the sentinel itself, or reached through wrapping and joining.\<close>

fun err_is :: "'e err \<Rightarrow> 'e \<Rightarrow> bool" where
  "err_is (Sentinel x) y = (x = y)"
| "err_is (Wrapf _ e) y = err_is e y"
| "err_is (Errorf _) y = False"
| "err_is (Joined es) y = list_ex (\<lambda>e. err_is e y) es"

text \<open>The opaque errors of another package become errors of the calling package.\<close>

fun foreign :: "'f err \<Rightarrow> 'e err" where
  "foreign (Sentinel x) = Errorf ''''"
| "foreign (Wrapf s e) = Wrapf s (foreign e)"
| "foreign (Errorf s) = Errorf s"
| "foreign (Joined es) = Joined (map foreign es)"

section \<open>Operations\<close>

type_synonym ('s, 'e, 'a) op = "'s \<Rightarrow> ('e err + 'a) \<times> 's"

definition returnE :: "'a \<Rightarrow> ('s, 'e, 'a) op" where
  "returnE a s = (Inr a, s)"

definition raiseE :: "'e err \<Rightarrow> ('s, 'e, 'a) op" where
  "raiseE e s = (Inl e, s)"

definition tryE :: "('s, 'e, 'a) op \<Rightarrow> ('a \<Rightarrow> ('s, 'e, 'b) op) \<Rightarrow> ('s, 'e, 'b) op" where
  "tryE m k s = (case m s of (Inl e, s') \<Rightarrow> (Inl e, s') | (Inr a, s') \<Rightarrow> k a s')"

definition liftE :: "'e err + 'a \<Rightarrow> ('s, 'e, 'a) op" where
  "liftE r s = (r, s)"

definition queryE :: "('s \<Rightarrow> 'e err + 'a) \<Rightarrow> ('s, 'e, 'a) op" where
  "queryE f s = (f s, s)"

definition requireE :: "bool \<Rightarrow> 'e err \<Rightarrow> ('s, 'e, unit) op" where
  "requireE b e s = (if b then (Inr (), s) else (Inl e, s))"

definition checkE :: "'e err option \<Rightarrow> ('s, 'e, unit) op" where
  "checkE o' s = (case o' of None \<Rightarrow> (Inr (), s) | Some e \<Rightarrow> (Inl e, s))"

definition wrapE :: "string \<Rightarrow> ('s, 'e, 'a) op \<Rightarrow> ('s, 'e, 'a) op" where
  "wrapE msg m s = (case m s of (Inl e, s') \<Rightarrow> (Inl (Wrapf msg e), s') | (Inr a, s') \<Rightarrow> (Inr a, s'))"

text \<open>Run an operation and look at its error instead of returning it.\<close>

definition attemptE :: "('s, 'e, 'a) op \<Rightarrow> ('s, 'e, 'e err + 'a) op" where
  "attemptE m s = (case m s of (r, s') \<Rightarrow> (Inr r, s'))"

definition modifyE :: "('s \<Rightarrow> 's) \<Rightarrow> ('s, 'e, unit) op" where
  "modifyE f s = (Inr (), f s)"

lemma tryE_assoc: "tryE (tryE m k) f = tryE m (\<lambda>a. tryE (k a) f)"
  by (auto simp: tryE_def fun_eq_iff split: prod.splits sum.splits)

lemma tryE_branches:
  "tryE (returnE a) f = f a" "tryE (raiseE e) f' = raiseE e"
  "tryE (if b then m else m') f'' = (if b then tryE m f'' else tryE m' f'')"
  by (simp_all add: tryE_def returnE_def raiseE_def fun_eq_iff)

text \<open>The error of a method that returns a value and an error side by side.\<close>

definition err_of :: "'e err + 'a \<Rightarrow> 'e err option" where
  "err_of r = (case r of Inl e \<Rightarrow> Some e | Inr _ \<Rightarrow> None)"

section \<open>Weakest preconditions\<close>

definition wp :: "('s, 'e, 'a) op \<Rightarrow> ('a \<Rightarrow> 's \<Rightarrow> bool) \<Rightarrow> ('e err \<Rightarrow> 's \<Rightarrow> bool) \<Rightarrow> 's \<Rightarrow> bool" where
  "wp m Q E s = (case m s of (Inl e, s') \<Rightarrow> E e s' | (Inr a, s') \<Rightarrow> Q a s')"

lemma wp_returnE [wp_simps]: "wp (returnE a) Q E s = Q a s"
  by (simp add: wp_def returnE_def)

lemma wp_raiseE [wp_simps]: "wp (raiseE e) Q E s = E e s"
  by (simp add: wp_def raiseE_def)

lemma wp_tryE [wp_simps]: "wp (tryE m k) Q E s = wp m (\<lambda>a. wp (k a) Q E) E s"
  by (simp add: wp_def tryE_def split: prod.splits sum.splits)

lemma wp_liftE [wp_simps]: "wp (liftE r) Q E s = (case r of Inl e \<Rightarrow> E e s | Inr a \<Rightarrow> Q a s)"
  by (simp add: wp_def liftE_def)

lemma wp_queryE [wp_simps]: "wp (queryE f) Q E s = (case f s of Inl e \<Rightarrow> E e s | Inr a \<Rightarrow> Q a s)"
  by (simp add: wp_def queryE_def)

lemma wp_requireE [wp_simps]: "wp (requireE b e) Q E s = (if b then Q () s else E e s)"
  by (simp add: wp_def requireE_def)

lemma wp_checkE [wp_simps]: "wp (checkE o') Q E s = (case o' of None \<Rightarrow> Q () s | Some e \<Rightarrow> E e s)"
  by (simp add: wp_def checkE_def split: option.splits)

lemma wp_wrapE [wp_simps]: "wp (wrapE msg m) Q E s = wp m Q (\<lambda>e. E (Wrapf msg e)) s"
  by (simp add: wp_def wrapE_def split: prod.splits sum.splits)

lemma wp_attemptE [wp_simps]:
  "wp (attemptE m) Q E s = wp m (\<lambda>a. Q (Inr a)) (\<lambda>e. Q (Inl e)) s"
  by (simp add: wp_def attemptE_def split: prod.splits sum.splits)

lemma wp_modifyE [wp_simps]: "wp (modifyE f) Q E s = Q () (f s)"
  by (simp add: wp_def modifyE_def)

lemma wp_if [wp_simps]: "wp (if b then m else m') Q E s = (if b then wp m Q E s else wp m' Q E s)"
  by simp

lemma wp_case_prod [wp_simps]:
  "wp (case p of (x, y) \<Rightarrow> f x y) Q E s = (case p of (x, y) \<Rightarrow> wp (f x y) Q E s)"
  by (cases p) simp

lemma wp_case_option [wp_simps]:
  "wp (case p of None \<Rightarrow> f | Some x \<Rightarrow> g x) Q E s =
     (case p of None \<Rightarrow> wp f Q E s | Some x \<Rightarrow> wp (g x) Q E s)"
  by (cases p) simp_all

lemma wp_case_sum [wp_simps]:
  "wp (case p of Inl x \<Rightarrow> f x | Inr y \<Rightarrow> g y) Q E s =
     (case p of Inl x \<Rightarrow> wp (f x) Q E s | Inr y \<Rightarrow> wp (g y) Q E s)"
  by (cases p) simp_all

lemma wp_Let [wp_simps]: "wp (let x = v in f x) Q E s = (let x = v in wp (f x) Q E s)"
  by (simp add: Let_def)

text \<open>A fact about the result of an operation is a fact about its weakest precondition.\<close>

lemma wp_iff:
  "wp m Q E s \<longleftrightarrow> (\<forall>a s'. m s = (Inr a, s') \<longrightarrow> Q a s') \<and> (\<forall>e s'. m s = (Inl e, s') \<longrightarrow> E e s')"
  by (auto simp: wp_def split: prod.splits sum.splits)

lemma wp_Inr: "wp m Q E s \<Longrightarrow> m s = (Inr a, s') \<Longrightarrow> Q a s'"
  by (auto simp: wp_iff)

lemma wp_Inl: "wp m Q E s \<Longrightarrow> m s = (Inl e, s') \<Longrightarrow> E e s'"
  by (auto simp: wp_iff)

lemma wp_snd: "wp m (\<lambda>_. P) (\<lambda>_. P) s \<Longrightarrow> P (snd (m s))"
  by (auto simp: wp_def split: prod.splits sum.splits)

lemma wp_mono:
  "wp m Q E s \<Longrightarrow> (\<And>a s'. Q a s' \<Longrightarrow> Q' a s') \<Longrightarrow> (\<And>e s'. E e s' \<Longrightarrow> E' e s') \<Longrightarrow> wp m Q' E' s"
  by (auto simp: wp_iff)

lemma wp_conj: "wp m Q E s \<Longrightarrow> wp m Q' E' s \<Longrightarrow>
  wp m (\<lambda>a s. Q a s \<and> Q' a s) (\<lambda>e s. E e s \<and> E' e s) s"
  by (auto simp: wp_iff)

lemma wp_result: "wp m (\<lambda>a s'. m s = (Inr a, s')) (\<lambda>e s'. m s = (Inl e, s')) s"
  by (auto simp: wp_iff)

section \<open>Signed 64-bit integers\<close>

definition max_i64 :: int where "max_i64 = 2 ^ 63 - 1"
definition min_i64 :: int where "min_i64 = - (2 ^ 63)"

text \<open>Two's complement wrap-around of Go's \<open>int64\<close> arithmetic.\<close>

definition i64 :: "int \<Rightarrow> int" where
  "i64 x = (x + 2 ^ 63) mod 2 ^ 64 - 2 ^ 63"

definition is_i64 :: "int \<Rightarrow> bool" where
  "is_i64 x \<longleftrightarrow> min_i64 \<le> x \<and> x \<le> max_i64"

lemma i64_bounds: "is_i64 (i64 x)"
proof -
  have "0 \<le> (x + 2 ^ 63) mod 2 ^ 64" and "(x + 2 ^ 63) mod 2 ^ 64 < 2 ^ 64" by simp_all
  then show ?thesis
    by (simp add: is_i64_def i64_def max_i64_def min_i64_def)
qed

lemma i64_id: "is_i64 x \<Longrightarrow> i64 x = x"
  by (simp add: is_i64_def i64_def max_i64_def min_i64_def)

section \<open>Maps as association lists\<close>

type_synonym ('k, 'v) gomap = "('k \<times> 'v) list"

definition well_keyed :: "('v \<Rightarrow> 'k) \<Rightarrow> ('k, 'v) gomap \<Rightarrow> bool" where
  "well_keyed key m \<longleftrightarrow> distinct (map fst m) \<and> (\<forall>(k, v) \<in> set m. k = key v)"

lemma map_of_update [simp]: "map_of (AList.update k v m) = (map_of m)(k \<mapsto> v)"
  by (rule update_conv')

lemma map_of_delete [simp]: "map_of (AList.delete k m) = (map_of m)(k := None)"
  by (rule delete_conv')

lemma set_update_distinct:
  "distinct (map fst m) \<Longrightarrow> set (AList.update k v m) = insert (k, v) {p \<in> set m. fst p \<noteq> k}"
  by (induction m) (auto simp: image_iff)

lemma set_delete: "set (AList.delete k m) = {p \<in> set m. fst p \<noteq> k}"
  by (auto simp: AList.delete_eq)

lemma set_map_of: "distinct (map fst m) \<Longrightarrow> (k, v) \<in> set m \<longleftrightarrow> map_of m k = Some v"
  by simp

lemma well_keyed_Nil [simp]: "well_keyed key []"
  by (simp add: well_keyed_def)

lemma well_keyed_distinct: "well_keyed key m \<Longrightarrow> distinct (map fst m)"
  by (simp add: well_keyed_def)

lemma well_keyed_update: "well_keyed key m \<Longrightarrow> k = key v \<Longrightarrow> well_keyed key (AList.update k v m)"
  by (auto simp: well_keyed_def distinct_update set_update_distinct)

lemma well_keyed_delete: "well_keyed key m \<Longrightarrow> well_keyed key (AList.delete k m)"
  by (auto simp: well_keyed_def distinct_delete set_delete)

lemma well_keyed_lookup: "well_keyed key m \<Longrightarrow> map_of m k = Some v \<Longrightarrow> k = key v"
  by (auto simp: well_keyed_def dest: map_of_SomeD)

text \<open>The values of a map, as the set a \<open>range\<close> loop visits.\<close>

definition vals :: "('k, 'v) gomap \<Rightarrow> 'v set" where
  "vals m = snd ` set m"

lemma vals_Nil [simp]: "vals [] = {}"
  by (simp add: vals_def)

lemma map_of_vals: "map_of m k = Some v \<Longrightarrow> v \<in> vals m"
  by (force simp: vals_def dest: map_of_SomeD)

lemma vals_iff: "well_keyed key m \<Longrightarrow> v \<in> vals m \<longleftrightarrow> map_of m (key v) = Some v"
  by (force simp: well_keyed_def vals_def image_iff dest: map_of_SomeD)

lemma vals_update:
  "well_keyed key m \<Longrightarrow> k = key v \<Longrightarrow> vals (AList.update k v m) = insert v {v' \<in> vals m. key v' \<noteq> key v}"
  by (force simp: well_keyed_def set_update_distinct image_iff vals_def)

lemma vals_delete: "vals (AList.delete k m) \<subseteq> vals m"
  by (auto simp: set_delete vals_def)

lemma list_ex_vals: "list_ex (\<lambda>(k, v). P v) m \<longleftrightarrow> (\<exists>v \<in> vals m. P v)"
  by (force simp: list_ex_iff vals_def)

lemma set_map_snd: "set (map snd m) = vals m"
  by (simp add: vals_def)

lemma length_update_absent: "map_of m k = None \<Longrightarrow> length (AList.update k v m) = Suc (length m)"
  by (induction m) (auto split: if_splits)

lemma length_update_present: "map_of m k \<noteq> None \<Longrightarrow> length (AList.update k v m) = length m"
  by (induction m) (auto split: if_splits)

lemma length_delete_le: "length (AList.delete k m) \<le> length m"
  by (simp add: AList.delete_eq)

lemma length_delete_present:
  "map_of m k \<noteq> None \<Longrightarrow> length (AList.delete k m) < length m"
  by (induction m) (auto simp: AList.delete_eq split: if_splits intro: le_imp_less_Suc)

section \<open>Joined strings\<close>

text \<open>A separator that occurs in neither right part splits a joined string in one way.\<close>

lemma separator_split:
  assumes "a @ [z] @ b = a' @ [z] @ b'" and "z \<notin> set b" and "z \<notin> set b'"
  shows "a = a' \<and> b = b'"
proof -
  have "rev b @ z # rev a = rev b' @ z # rev a'" using assms(1) by (metis append_Cons append_Nil rev.simps(2) rev_append append_assoc)
  moreover have "takeWhile (\<lambda>c. c \<noteq> z) (rev b @ z # rev a) = rev b"
    using assms(2) by (subst takeWhile_append2) auto
  moreover have "takeWhile (\<lambda>c. c \<noteq> z) (rev b' @ z # rev a') = rev b'"
    using assms(3) by (subst takeWhile_append2) auto
  ultimately have "rev b = rev b'" by metis
  then show ?thesis using assms(1) by simp
qed

section \<open>Backward rules\<close>

text \<open>
  The equations above as introduction rules (collection \<open>wp_intro\<close>). Applying them leaves one subgoal for
  each way through an operation, with the conditions met on the way as assumptions.
\<close>

named_theorems wp_intro \<open>backward rules for \<open>wp\<close>\<close>

lemma wpI_returnE [wp_intro]: "Q a s \<Longrightarrow> wp (returnE a) Q E s"
  by (simp add: wp_simps)

lemma wpI_raiseE [wp_intro]: "E e s \<Longrightarrow> wp (raiseE e) Q E s"
  by (simp add: wp_simps)

lemma wpI_tryE [wp_intro]: "wp m (\<lambda>a. wp (k a) Q E) E s \<Longrightarrow> wp (tryE m k) Q E s"
  by (simp add: wp_simps)

lemma wpI_liftE [wp_intro]:
  "(\<And>e. r = Inl e \<Longrightarrow> E e s) \<Longrightarrow> (\<And>a. r = Inr a \<Longrightarrow> Q a s) \<Longrightarrow> wp (liftE r) Q E s"
  by (simp add: wp_simps split: sum.splits)

lemma wpI_queryE [wp_intro]:
  "(\<And>e. f s = Inl e \<Longrightarrow> E e s) \<Longrightarrow> (\<And>a. f s = Inr a \<Longrightarrow> Q a s) \<Longrightarrow> wp (queryE f) Q E s"
  by (simp add: wp_simps split: sum.splits)

lemma wpI_requireE [wp_intro]: "(b \<Longrightarrow> Q () s) \<Longrightarrow> (\<not> b \<Longrightarrow> E e s) \<Longrightarrow> wp (requireE b e) Q E s"
  by (simp add: wp_simps)

lemma wpI_checkE [wp_intro]:
  "(o' = None \<Longrightarrow> Q () s) \<Longrightarrow> (\<And>e. o' = Some e \<Longrightarrow> E e s) \<Longrightarrow> wp (checkE o') Q E s"
  by (simp add: wp_simps split: option.splits)

lemma wpI_wrapE [wp_intro]: "wp m Q (\<lambda>e. E (Wrapf msg e)) s \<Longrightarrow> wp (wrapE msg m) Q E s"
  by (simp add: wp_simps)

lemma wpI_attemptE [wp_intro]:
  "wp m (\<lambda>a. Q (Inr a)) (\<lambda>e. Q (Inl e)) s \<Longrightarrow> wp (attemptE m) Q E s"
  by (simp add: wp_simps)

lemma wpI_if [wp_intro]:
  "(b \<Longrightarrow> wp m Q E s) \<Longrightarrow> (\<not> b \<Longrightarrow> wp m' Q E s) \<Longrightarrow> wp (if b then m else m') Q E s"
  by simp

lemma wpI_case_prod [wp_intro]:
  "(\<And>x y. p = (x, y) \<Longrightarrow> wp (f x y) Q E s) \<Longrightarrow> wp (case p of (x, y) \<Rightarrow> f x y) Q E s"
  by (cases p) simp

lemma wpI_case_option [wp_intro]:
  "(p = None \<Longrightarrow> wp f Q E s) \<Longrightarrow> (\<And>x. p = Some x \<Longrightarrow> wp (g x) Q E s) \<Longrightarrow>
     wp (case p of None \<Rightarrow> f | Some x \<Rightarrow> g x) Q E s"
  by (cases p) simp_all

lemma wpI_case_sum [wp_intro]:
  "(\<And>x. p = Inl x \<Longrightarrow> wp (f x) Q E s) \<Longrightarrow> (\<And>y. p = Inr y \<Longrightarrow> wp (g y) Q E s) \<Longrightarrow>
     wp (case p of Inl x \<Rightarrow> f x | Inr y \<Rightarrow> g y) Q E s"
  by (cases p) simp_all

lemma wpI_Let [wp_intro]: "(\<And>x. x = v \<Longrightarrow> wp (f x) Q E s) \<Longrightarrow> wp (let x = v in f x) Q E s"
  by simp

text \<open>Running an operation and branching on whether it failed.\<close>

lemma wpI_attempt_case:
  "wp m (\<lambda>a. wp (g a) Q E) (\<lambda>e. wp (f e) Q E) s \<Longrightarrow>
     wp (tryE (attemptE m) (\<lambda>r. case r of Inl e \<Rightarrow> f e | Inr a \<Rightarrow> g a)) Q E s"
  by (simp add: wp_simps)

end
