(* ===== verification/Go_Strings.thy ===== *)
theory Go_Strings
  imports Prelude
begin

text \<open>
  The string functions of Go's standard library that the program calls, on byte strings.
  A Go string is a sequence of bytes; a \<open>string\<close> here is a list of \<open>char\<close>, one \<open>char\<close> per byte.
  \<open>utf8.DecodeRune\<close>, \<open>utf8.ValidString\<close>, \<open>utf8.RuneCountInString\<close>, \<open>strings.TrimSpace\<close>,
  \<open>strings.ToLower\<close>, \<open>strings.ToUpper\<close>, \<open>strings.EqualFold\<close>, \<open>strconv.FormatInt\<close> and
  \<open>strconv.ParseInt\<close> are written out. The case tables of the package \<open>unicode\<close> for code points
  outside ASCII are a parameter (the record \<open>unicode\<close>): no theorem depends on their contents.
\<close>

section \<open>UTF-8\<close>

type_synonym rune = nat

abbreviation byte :: "char \<Rightarrow> nat" where "byte c \<equiv> of_char c"

definition rune_error :: rune where "rune_error = 65533"

definition cont :: "char \<Rightarrow> bool" where
  "cont c \<longleftrightarrow> 128 \<le> byte c \<and> byte c \<le> 191"

definition within :: "nat \<Rightarrow> nat \<Rightarrow> char \<Rightarrow> bool" where
  "within lo hi c \<longleftrightarrow> lo \<le> byte c \<and> byte c \<le> hi"

text \<open>The second byte of a three- or four-byte sequence has a narrower range for some first bytes.\<close>

definition second_ok :: "char \<Rightarrow> char \<Rightarrow> bool" where
  "second_ok b0 b1 =
     (if byte b0 = 224 then within 160 191 b1
      else if byte b0 = 237 then within 128 159 b1
      else if byte b0 = 240 then within 144 191 b1
      else if byte b0 = 244 then within 128 143 b1
      else cont b1)"

fun decode_rune :: "string \<Rightarrow> rune \<times> nat" where
  "decode_rune [] = (rune_error, 0)"
| "decode_rune (b0 # s) =
     (if byte b0 < 128 then (byte b0, 1)
      else if within 194 223 b0 then
        (case s of b1 # _ \<Rightarrow> if cont b1 then ((byte b0 - 192) * 64 + (byte b1 - 128), 2) else (rune_error, 1)
         | _ \<Rightarrow> (rune_error, 1))
      else if within 224 239 b0 then
        (case s of b1 # b2 # _ \<Rightarrow>
             if second_ok b0 b1 \<and> cont b2
             then ((byte b0 - 224) * 4096 + (byte b1 - 128) * 64 + (byte b2 - 128), 3) else (rune_error, 1)
         | _ \<Rightarrow> (rune_error, 1))
      else if within 240 244 b0 then
        (case s of b1 # b2 # b3 # _ \<Rightarrow>
             if second_ok b0 b1 \<and> cont b2 \<and> cont b3
             then ((byte b0 - 240) * 262144 + (byte b1 - 128) * 4096 + (byte b2 - 128) * 64 + (byte b3 - 128), 4)
             else (rune_error, 1)
         | _ \<Rightarrow> (rune_error, 1))
      else (rune_error, 1))"

fun runes :: "string \<Rightarrow> rune list" where
  "runes [] = []"
| "runes (c # cs) = (case decode_rune (c # cs) of (r, w) \<Rightarrow> r # runes (drop (w - 1) cs))"

fun valid_string :: "string \<Rightarrow> bool" where
  "valid_string [] = True"
| "valid_string (c # cs) =
     (case decode_rune (c # cs) of (r, w) \<Rightarrow>
        \<not> (r = rune_error \<and> w = 1) \<and> valid_string (drop (w - 1) cs))"

definition rune_count :: "string \<Rightarrow> nat" where
  "rune_count s = length (runes s)"

definition bytes_of :: "nat list \<Rightarrow> string" where
  "bytes_of ns = map char_of ns"

definition encode_rune :: "rune \<Rightarrow> string" where
  "encode_rune r0 =
     (let r = (if r0 > 1114111 \<or> (55296 \<le> r0 \<and> r0 \<le> 57343) then rune_error else r0) in
      bytes_of
       (if r < 128 then [r]
        else if r < 2048 then [192 + r div 64, 128 + r mod 64]
        else if r < 65536 then [224 + r div 4096, 128 + r div 64 mod 64, 128 + r mod 64]
        else [240 + r div 262144, 128 + r div 4096 mod 64, 128 + r div 64 mod 64, 128 + r mod 64]))"

section \<open>strings.TrimSpace\<close>

text \<open>The UTF-8 encodings of the code points for which \<open>unicode.IsSpace\<close> holds.\<close>

definition space_encodings :: "string list" where
  "space_encodings =
     [[CHR 0x20], [CHR 0x09], [CHR 0x0A], [CHR 0x0B], [CHR 0x0C], [CHR 0x0D],
      [CHR 0xC2, CHR 0x85], [CHR 0xC2, CHR 0xA0], [CHR 0xE1, CHR 0x9A, CHR 0x80],
      [CHR 0xE2, CHR 0x80, CHR 0x80], [CHR 0xE2, CHR 0x80, CHR 0x81], [CHR 0xE2, CHR 0x80, CHR 0x82],
      [CHR 0xE2, CHR 0x80, CHR 0x83], [CHR 0xE2, CHR 0x80, CHR 0x84], [CHR 0xE2, CHR 0x80, CHR 0x85],
      [CHR 0xE2, CHR 0x80, CHR 0x86], [CHR 0xE2, CHR 0x80, CHR 0x87], [CHR 0xE2, CHR 0x80, CHR 0x88],
      [CHR 0xE2, CHR 0x80, CHR 0x89], [CHR 0xE2, CHR 0x80, CHR 0x8A], [CHR 0xE2, CHR 0x80, CHR 0xA8],
      [CHR 0xE2, CHR 0x80, CHR 0xA9], [CHR 0xE2, CHR 0x80, CHR 0xAF], [CHR 0xE2, CHR 0x81, CHR 0x9F],
      [CHR 0xE3, CHR 0x80, CHR 0x80]]"

definition starts_with :: "string \<Rightarrow> string \<Rightarrow> bool" where
  "starts_with s e \<longleftrightarrow> e \<noteq> [] \<and> take (length e) s = e"

function skip_any :: "string list \<Rightarrow> string \<Rightarrow> string" where
  "skip_any encs s =
     (case find (starts_with s) encs of None \<Rightarrow> s | Some e \<Rightarrow> skip_any encs (drop (length e) s))"
  by pat_completeness auto
termination
proof (relation "measure (\<lambda>(encs, s). length s)", simp, goal_cases)
  case (1 encs s e)
  then have "starts_with s e" by (auto simp: find_Some_iff)
  then have "e \<noteq> [] \<and> s \<noteq> []" by (auto simp: starts_with_def)
  then show ?case by (simp add: diff_less)
qed

declare skip_any.simps [simp del]

definition trim_left :: "string \<Rightarrow> string" where
  "trim_left s = skip_any space_encodings s"

definition trim_right :: "string \<Rightarrow> string" where
  "trim_right s = rev (skip_any (map rev space_encodings) (rev s))"

definition TrimSpace :: "string \<Rightarrow> string" where
  "TrimSpace s = trim_right (trim_left s)"

section \<open>Case mapping and folding\<close>

record unicode =
  ucd_lower :: "rune \<Rightarrow> rune"
  ucd_upper :: "rune \<Rightarrow> rune"
  ucd_fold :: "rune \<Rightarrow> rune"

definition ascii_lower :: "nat \<Rightarrow> nat" where
  "ascii_lower n = (if 65 \<le> n \<and> n \<le> 90 then n + 32 else n)"

definition ascii_upper :: "nat \<Rightarrow> nat" where
  "ascii_upper n = (if 97 \<le> n \<and> n \<le> 122 then n - 32 else n)"

definition is_ascii :: "string \<Rightarrow> bool" where
  "is_ascii s = list_all (\<lambda>c. byte c < 128) s"

text \<open>\<open>strings.Map\<close> of a rune mapping: ASCII strings bytewise, others rune by rune, re-encoded.\<close>

definition map_runes :: "(nat \<Rightarrow> nat) \<Rightarrow> (rune \<Rightarrow> rune) \<Rightarrow> string \<Rightarrow> string" where
  "map_runes asc uni s =
     (if is_ascii s then map (\<lambda>c. char_of (asc (byte c))) s
      else concat (map (\<lambda>r. encode_rune (if r < 128 then asc r else uni r)) (runes s)))"

definition ToLower :: "unicode \<Rightarrow> string \<Rightarrow> string" where
  "ToLower u s = map_runes ascii_lower (ucd_lower u) s"

definition ToUpper :: "unicode \<Rightarrow> string \<Rightarrow> string" where
  "ToUpper u s = map_runes ascii_upper (ucd_upper u) s"

text \<open>\<open>ucd_fold\<close> names one representative of each orbit of \<open>unicode.SimpleFold\<close> (its lower case
  ASCII letter when the orbit has one).\<close>

definition fold_rune :: "unicode \<Rightarrow> rune \<Rightarrow> rune" where
  "fold_rune u r = (if r < 128 then ascii_lower r else ucd_fold u r)"

definition EqualFold :: "unicode \<Rightarrow> string \<Rightarrow> string \<Rightarrow> bool" where
  "EqualFold u s t \<longleftrightarrow> map (fold_rune u) (runes s) = map (fold_rune u) (runes t)"

section \<open>Character classes and the identifier pattern\<close>

definition is_digit :: "char \<Rightarrow> bool" where "is_digit c \<longleftrightarrow> within 48 57 c"
definition is_upper :: "char \<Rightarrow> bool" where "is_upper c \<longleftrightarrow> within 65 90 c"
definition is_lower :: "char \<Rightarrow> bool" where "is_lower c \<longleftrightarrow> within 97 122 c"
definition is_alnum :: "char \<Rightarrow> bool" where "is_alnum c \<longleftrightarrow> is_digit c \<or> is_upper c \<or> is_lower c"

definition is_id_char :: "char \<Rightarrow> bool" where
  "is_id_char c \<longleftrightarrow> is_alnum c \<or> c \<in> {CHR ''.'', CHR ''_'', CHR '':'', CHR ''-''}"

text \<open>A pattern of the form \<^verbatim>\<open>^[first][rest]{0,n}$\<close>.\<close>

definition match_head_tail :: "(char \<Rightarrow> bool) \<Rightarrow> (char \<Rightarrow> bool) \<Rightarrow> nat \<Rightarrow> string \<Rightarrow> bool" where
  "match_head_tail f g n s = (case s of [] \<Rightarrow> False | c # cs \<Rightarrow> f c \<and> list_all g cs \<and> length cs \<le> n)"

lemmas char_class_defs = is_alnum_def is_digit_def is_upper_def is_lower_def is_id_char_def within_def

section \<open>strconv\<close>

definition digit_char :: "nat \<Rightarrow> char" where
  "digit_char d = char_of (48 + d)"

fun format_nat :: "nat \<Rightarrow> string" where
  "format_nat n = (if n < 10 then [digit_char n] else format_nat (n div 10) @ [digit_char (n mod 10)])"

declare format_nat.simps [simp del]

definition FormatInt :: "int \<Rightarrow> string" where
  "FormatInt i = (if i < 0 then CHR ''-'' # format_nat (nat (- i)) else format_nat (nat i))"

definition parse_nat :: "string \<Rightarrow> nat option" where
  "parse_nat s = (if s = [] \<or> \<not> list_all is_digit s then None
     else Some (foldl (\<lambda>acc c. acc * 10 + (byte c - 48)) 0 s))"

text \<open>\<open>strconv.ParseInt(s, 10, 64)\<close>: \<open>None\<close> for a syntax or range error.\<close>

definition ParseInt :: "string \<Rightarrow> int option" where
  "ParseInt s =
     (case s of [] \<Rightarrow> None
      | c # cs \<Rightarrow>
          let v = (if c = CHR ''-'' then map_option (\<lambda>n. - int n) (parse_nat cs)
                   else if c = CHR ''+'' then map_option int (parse_nat cs)
                   else map_option int (parse_nat s))
          in case v of None \<Rightarrow> None | Some i \<Rightarrow> if is_i64 i then Some i else None)"

text \<open>\<open>strings.Join(parts, "\x00")\<close>.\<close>

definition join_nul :: "string list \<Rightarrow> string" where
  "join_nul parts = concat (case parts of [] \<Rightarrow> [] | p # ps \<Rightarrow> p # map (\<lambda>q. CHR 0x00 # q) ps)"

section \<open>Lemmas\<close>

lemma skip_any_no_start: "find (starts_with (skip_any encs s)) encs = None"
proof (induction encs s rule: skip_any.induct)
  case (1 encs s)
  then show ?case
    by (subst (1) skip_any.simps) (auto split: option.split)
qed

lemma skip_any_id: "find (starts_with s) encs = None \<Longrightarrow> skip_any encs s = s"
  by (subst skip_any.simps) simp

lemma skip_any_suffix: "\<exists>p. s = p @ skip_any encs s"
proof (induction encs s rule: skip_any.induct)
  case (1 encs s)
  show ?case
  proof (cases "find (starts_with s) encs")
    case None
    then show ?thesis by (simp add: skip_any_id)
  next
    case (Some e)
    then have eq: "skip_any encs s = skip_any encs (drop (length e) s)"
      by (subst skip_any.simps) simp
    from 1[OF Some] obtain p where "drop (length e) s = p @ skip_any encs (drop (length e) s)" by blast
    then have "s = (take (length e) s @ p) @ skip_any encs (drop (length e) s)"
      by (metis append.assoc append_take_drop_id)
    then show ?thesis by (metis eq)
  qed
qed

lemma starts_with_append: "starts_with t e \<Longrightarrow> starts_with (t @ u) e"
  by (auto simp: starts_with_def) (metis append_Nil2 append_take_drop_id cancel_comm_monoid_add_class.diff_cancel length_take min.absorb_iff2 nat_le_linear take0 take_all_iff)

lemma trim_right_prefix: "\<exists>u. s = trim_right s @ u"
proof -
  from skip_any_suffix[of "rev s" "map rev space_encodings"] obtain p
    where "rev s = p @ skip_any (map rev space_encodings) (rev s)" by blast
  then have "s = trim_right s @ rev p"
    unfolding trim_right_def by (metis rev_append rev_rev_ident)
  then show ?thesis by blast
qed

lemma trim_right_idem: "trim_right (trim_right s) = trim_right s"
  by (simp add: trim_right_def skip_any_id skip_any_no_start)

lemma trim_left_no_start: "trim_left s = s \<longleftrightarrow> find (starts_with s) space_encodings = None"
  by (metis skip_any_id skip_any_no_start trim_left_def)

lemma trim_left_trim_right: "trim_left s = s \<Longrightarrow> trim_left (trim_right s) = trim_right s"
proof -
  assume a: "trim_left s = s"
  obtain u where u: "s = trim_right s @ u" using trim_right_prefix by blast
  have "\<not> starts_with (trim_right s) e" if "e \<in> set space_encodings" for e
  proof
    assume "starts_with (trim_right s) e"
    then have "starts_with s e" using u starts_with_append by metis
    with a that show False by (auto simp: trim_left_no_start find_None_iff)
  qed
  then show ?thesis by (auto simp: trim_left_no_start find_None_iff)
qed

lemma trim_left_idem: "trim_left (trim_left s) = trim_left s"
  by (simp add: trim_left_def skip_any_id skip_any_no_start)

lemma TrimSpace_idem [simp]: "TrimSpace (TrimSpace s) = TrimSpace s"
  by (simp add: TrimSpace_def trim_left_trim_right trim_left_idem trim_right_idem)

lemma TrimSpace_Nil [simp]: "TrimSpace [] = []"
  by code_simp

lemma byte_inj: "byte c = byte d \<longleftrightarrow> c = d"
  by (metis char_of_char)

lemma space_encodings_ends:
  "list_all (\<lambda>e. \<not> within 33 126 (hd e) \<and> \<not> within 33 126 (last e)) space_encodings"
  by code_simp

lemma starts_with_hd: "starts_with s e \<Longrightarrow> s \<noteq> [] \<and> hd e = hd s"
  by (cases s; cases e) (auto simp: starts_with_def)

lemma printable_ends_trim:
  assumes "s \<noteq> []" "within 33 126 (hd s)" "within 33 126 (last s)"
  shows "TrimSpace s = s"
proof -
  have l: "find (starts_with s) space_encodings = None"
    using assms(2) space_encodings_ends starts_with_hd
    by (fastforce simp: find_None_iff list_all_iff)
  have "\<not> starts_with (rev s) (rev e)" if "e \<in> set space_encodings" for e
  proof
    assume a: "starts_with (rev s) (rev e)"
    then have "hd (rev e) = hd (rev s)" and "e \<noteq> []"
      using starts_with_hd[OF a] by (auto simp: starts_with_def)
    then have "last e = last s" using assms(1) by (simp add: hd_rev)
    with assms(3) that space_encodings_ends show False by (auto simp: list_all_iff)
  qed
  then have r: "find (starts_with (rev s)) (map rev space_encodings) = None"
    by (auto simp: find_None_iff)
  show ?thesis
    using l r by (simp add: TrimSpace_def trim_left_def trim_right_def skip_any_id)
qed

lemma id_char_printable: "is_id_char c \<Longrightarrow> within 33 126 c"
  by (auto simp: char_class_defs)

lemma match_id_trim:
  assumes "match_head_tail is_alnum is_id_char n s"
  shows "TrimSpace s = s"
proof -
  have "\<forall>c \<in> set s. is_id_char c" "s \<noteq> []"
    using assms by (auto simp: match_head_tail_def list_all_iff is_id_char_def split: list.splits)
  then show ?thesis
    by (intro printable_ends_trim) (auto dest: id_char_printable)
qed

lemma match_id_no_nul: "match_head_tail is_alnum is_id_char n s \<Longrightarrow> CHR 0x00 \<notin> set s"
  by (auto simp: match_head_tail_def list_all_iff char_class_defs split: list.splits)

lemma digit_char_digit: "d < 10 \<Longrightarrow> is_digit (digit_char d) \<and> byte (digit_char d) - 48 = d"
  by (simp add: digit_char_def is_digit_def within_def)

lemma format_nat_digits: "list_all is_digit (format_nat n) \<and> format_nat n \<noteq> []"
proof (induction n rule: format_nat.induct)
  case (1 n)
  then show ?case by (subst (1 2) format_nat.simps) (auto simp: digit_char_digit)
qed

lemma parse_format_fold: "foldl (\<lambda>acc c. acc * 10 + (byte c - 48)) 0 (format_nat n) = n"
proof (induction n rule: format_nat.induct)
  case (1 n)
  show ?case
  proof (cases "n < 10")
    case True
    then show ?thesis by (subst format_nat.simps) (simp add: digit_char_digit)
  next
    case False
    with 1 have "foldl (\<lambda>acc c. acc * 10 + (byte c - 48)) 0 (format_nat (n div 10)) = n div 10" by simp
    with False show ?thesis by (subst format_nat.simps) (simp add: digit_char_digit)
  qed
qed

lemma parse_format_nat: "parse_nat (format_nat n) = Some n"
  using format_nat_digits[of n] by (simp add: parse_nat_def parse_format_fold)

lemma format_nat_head: "format_nat n = c # cs \<Longrightarrow> c \<noteq> CHR ''-'' \<and> c \<noteq> CHR ''+''"
  using format_nat_digits[of n] by (auto simp: is_digit_def within_def)

lemma ParseInt_FormatInt: "is_i64 i \<Longrightarrow> ParseInt (FormatInt i) = Some i"
proof (cases "i < 0")
  case True
  assume "is_i64 i"
  with True show ?thesis by (simp add: ParseInt_def FormatInt_def parse_format_nat)
next
  case False
  assume a: "is_i64 i"
  obtain c cs where c: "format_nat (nat i) = c # cs"
    using format_nat_digits[of "nat i"] by (cases "format_nat (nat i)") auto
  have "parse_nat (c # cs) = Some (nat i)" using c parse_format_nat by metis
  with False a c format_nat_head[OF c] show ?thesis by (simp add: ParseInt_def FormatInt_def)
qed

lemma EqualFold_refl [simp]: "EqualFold u s s" by (simp add: EqualFold_def)
lemma EqualFold_sym: "EqualFold u s t \<Longrightarrow> EqualFold u t s" by (simp add: EqualFold_def)
lemma EqualFold_trans: "EqualFold u s t \<Longrightarrow> EqualFold u t r \<Longrightarrow> EqualFold u s r" by (simp add: EqualFold_def)

end
