(* ===== verification/Go_Time.thy ===== *)
theory Go_Time
  imports Prelude
begin

text \<open>
  \<open>time.Time\<close> as an instant in nanoseconds since January 1 of year 1 (so that the zero \<open>Time\<close> is the
  instant 0) and whether its location is UTC, which is the only thing the program asks of a location.
  The calendar year follows the proleptic Gregorian cycles of 400, 100, 4 and 1 years, as package
  \<open>time\<close> does. The second part models the package \<open>internal/portabletime\<close>.
\<close>

datatype gotime = GoTime (nanos: int) (is_utc: bool)

type_synonym duration = int

definition zero_time :: gotime where "zero_time = GoTime 0 True"
definition UTC :: "gotime \<Rightarrow> gotime" where "UTC t = GoTime (nanos t) True"
definition Before :: "gotime \<Rightarrow> gotime \<Rightarrow> bool" where "Before t u \<longleftrightarrow> nanos t < nanos u"
definition Equal :: "gotime \<Rightarrow> gotime \<Rightarrow> bool" where "Equal t u \<longleftrightarrow> nanos t = nanos u"
definition IsZero :: "gotime \<Rightarrow> bool" where "IsZero t \<longleftrightarrow> nanos t = 0"
definition Add :: "gotime \<Rightarrow> duration \<Rightarrow> gotime" where "Add t d = GoTime (nanos t + d) (is_utc t)"

definition Millisecond :: duration where "Millisecond = 1000000"
definition Second :: duration where "Second = 1000000000"
definition Minute :: duration where "Minute = 60 * Second"

definition day_nanos :: int where "day_nanos = 86400 * 1000000000"

text \<open>The start of the UTC calendar day of an instant, \<open>time.Date(y, m, d, 0, 0, 0, 0, time.UTC)\<close>.\<close>

definition day_start :: "gotime \<Rightarrow> gotime" where
  "day_start t = GoTime (nanos t div day_nanos * day_nanos) True"

definition year_of_day :: "int \<Rightarrow> int" where
  "year_of_day d =
     (let n400 = d div 146097; r400 = d mod 146097;
          n100 = min 3 (r400 div 36524); r100 = r400 - n100 * 36524;
          n4 = r100 div 1461; r4 = r100 mod 1461;
          n1 = min 3 (r4 div 365)
      in 400 * n400 + 100 * n100 + 4 * n4 + n1 + 1)"

text \<open>The UTC year of an instant (every caller converts to UTC before it asks).\<close>

definition Year :: "gotime \<Rightarrow> int" where
  "Year t = year_of_day (nanos t div day_nanos)"

lemmas time_defs = UTC_def Before_def Equal_def IsZero_def Add_def zero_time_def

section \<open>Package portabletime\<close>

definition Normalize :: "gotime \<Rightarrow> gotime" where
  "Normalize t = (let u = UTC t in GoTime (nanos u - nanos u mod 1000) (is_utc u))"

definition Max :: "gotime \<Rightarrow> gotime \<Rightarrow> gotime" where
  "Max left right =
     (let l = Normalize left; r = Normalize right in if Before l r then r else l)"

definition IsCanonical :: "gotime \<Rightarrow> bool" where
  "IsCanonical t \<longleftrightarrow> is_utc t \<and> nanos t mod 1000000000 mod 1000 = 0"

lemma IsCanonical_iff: "IsCanonical t \<longleftrightarrow> is_utc t \<and> nanos t mod 1000 = 0"
proof -
  have "nanos t mod 1000000000 mod 1000 = nanos t mod 1000"
    by (rule mod_mod_cancel) (simp add: dvd_def)
  then show ?thesis by (simp add: IsCanonical_def)
qed

lemma Normalize_canonical: "IsCanonical (Normalize t)"
  by (simp add: IsCanonical_iff Normalize_def UTC_def Let_def minus_mod_eq_mult_div)

lemma Normalize_id: "IsCanonical t \<Longrightarrow> Normalize t = t"
  by (cases t) (simp add: IsCanonical_iff Normalize_def UTC_def)

lemma Normalize_le: "nanos (Normalize t) \<le> nanos t" "nanos t - nanos (Normalize t) < 1000"
  by (simp_all add: Normalize_def UTC_def)

lemma Max_canonical: "IsCanonical (Max t u)"
  by (simp add: Max_def Let_def Normalize_canonical)

lemma Max_nanos: "nanos (Max t u) = max (nanos (Normalize t)) (nanos (Normalize u))"
  by (simp add: Max_def Let_def Before_def)

end
