(* ===== verification/Foundation.thy ===== *)
theory Foundation
  imports Go_Strings Go_Time
begin

text \<open>
  Package \<open>internal/foundation\<close> and the PostgreSQL audit adapter
  \<open>internal/repository/postgres/audit.go\<close>: request scope, correlation ids, audit events and the
  append-only audit log.
  The record \<open>world\<close> holds what every service shares: the readings of its clock, the bytes the
  system's random source delivers, the table \<open>audit_events\<close> and the faults of the database
  connection under the audit adapter. Readings, bytes and faults are unknown sequences, consumed one
  by one; components extend the record with their own store.
\<close>

section \<open>Scope and correlation ids\<close>

record Scope =
  sc_OrganizationID :: string
  sc_ActorID :: string
  sc_CorrelationID :: string

definition Scope_Validate :: "Scope \<Rightarrow> string option" where
  "Scope_Validate s =
     (if TrimSpace (sc_OrganizationID s) = '''' then Some ''organization id is required''
      else if TrimSpace (sc_CorrelationID s) = '''' then Some ''correlation id is required''
      else None)"

text \<open>A request context, as far as the services look into it.\<close>

record ctx =
  cx_scope :: "Scope option"

definition hex_digit :: "nat \<Rightarrow> char" where
  "hex_digit d = (if d < 10 then char_of (48 + d) else char_of (87 + d))"

definition hex_encode :: "string \<Rightarrow> string" where
  "hex_encode s = concat (map (\<lambda>c. [hex_digit (byte c div 16), hex_digit (byte c mod 16)]) s)"

record AuditEvent =
  ae_ID :: string
  ae_OrganizationID :: string
  ae_ActorID :: string
  ae_CorrelationID :: string
  ae_Action :: string
  ae_ResourceType :: string
  ae_ResourceID :: string
  ae_OccurredAt :: gotime
  ae_Metadata :: "(string, string) gomap"

datatype audit_fault = ExecFails string | RowsAffectedFails string | QueryFails string

record world =
  clock :: "nat \<Rightarrow> gotime"
  ticks :: nat
  entropy :: "nat \<Rightarrow> string option"
  draws :: nat
  audits :: "AuditEvent list"
  audit_faults :: "nat \<Rightarrow> audit_fault option"
  audit_calls :: nat

definition read_clock :: "('a world_scheme, 'e, gotime) op" where
  "read_clock w = (Inr (clock w (ticks w)), w\<lparr>ticks := Suc (ticks w)\<rparr>)"

text \<open>\<open>make([]byte, 16)\<close>, filled by \<open>rand.Read\<close>.\<close>

definition fill_buffer :: "string \<Rightarrow> string" where
  "fill_buffer b = take 16 (b @ replicate 16 (CHR 0x00))"

definition NewCorrelationID :: "('a world_scheme, 'e, string) op" where
  "NewCorrelationID w =
     (case entropy w (draws w) of
        None \<Rightarrow> (Inl (Errorf ''read random bytes''), w\<lparr>draws := Suc (draws w)\<rparr>)
      | Some b \<Rightarrow> (Inr (hex_encode (fill_buffer b)), w\<lparr>draws := Suc (draws w)\<rparr>))"

section \<open>The audit adapter\<close>

definition audit_complete :: "AuditEvent \<Rightarrow> bool" where
  "audit_complete e \<longleftrightarrow> ae_ID e \<noteq> '''' \<and> ae_OrganizationID e \<noteq> '''' \<and> ae_CorrelationID e \<noteq> '''' \<and>
     ae_Action e \<noteq> '''' \<and> ae_ResourceType e \<noteq> '''' \<and> ae_ResourceID e \<noteq> '''' \<and> \<not> IsZero (ae_OccurredAt e)"

text \<open>The immutable content of two events agrees. The table keeps microseconds, and JSON objects are
  compared without regard to the order of their members.\<close>

definition audit_identical :: "AuditEvent \<Rightarrow> AuditEvent \<Rightarrow> bool" where
  "audit_identical a b \<longleftrightarrow> ae_OrganizationID a = ae_OrganizationID b \<and> ae_ActorID a = ae_ActorID b \<and>
     ae_CorrelationID a = ae_CorrelationID b \<and> ae_Action a = ae_Action b \<and>
     ae_ResourceType a = ae_ResourceType b \<and> ae_ResourceID a = ae_ResourceID b \<and>
     nanos (ae_OccurredAt a) div 1000 = nanos (ae_OccurredAt b) div 1000 \<and>
     set (ae_Metadata a) = set (ae_Metadata b)"

definition audit_insert :: "AuditEvent \<Rightarrow> AuditEvent list \<Rightarrow> AuditEvent list" where
  "audit_insert ev log = (if ae_ID ev \<in> ae_ID ` set log then log else log @ [ev])"

definition AuditorRecord :: "AuditEvent \<Rightarrow> ('a world_scheme, 'e, unit) op" where
  "AuditorRecord ev w =
     (if \<not> audit_complete ev
      then (Inl (Errorf ''complete audit identity, action, resource, and timestamp are required''), w)
      else
        let fault = audit_faults w (audit_calls w);
            w1 = w\<lparr>audit_calls := Suc (audit_calls w)\<rparr>;
            w2 = w1\<lparr>audits := audit_insert ev (audits w)\<rparr>
        in case fault of
             Some (ExecFails m) \<Rightarrow> (Inl (Wrapf ''record audit event'' (Errorf m)), w1)
           | Some (RowsAffectedFails m) \<Rightarrow> (Inl (Wrapf ''inspect audit event write'' (Errorf m)), w2)
           | _ \<Rightarrow>
               (case find (\<lambda>e. ae_ID e = ae_ID ev) (audits w) of
                  None \<Rightarrow> (Inr (), w2)
                | Some old \<Rightarrow>
                    (case fault of
                       Some (QueryFails m) \<Rightarrow> (Inl (Wrapf ''verify audit event replay'' (Errorf m)), w2)
                     | _ \<Rightarrow> if audit_identical old ev then (Inr (), w2)
                            else (Inl (Errorf ''audit event id conflicts with different immutable content''), w2))))"

section \<open>Lemmas\<close>

lemma wp_read_clock [wp_simps]:
  "wp read_clock Q E w = Q (clock w (ticks w)) (w\<lparr>ticks := Suc (ticks w)\<rparr>)"
  by (simp add: wp_def read_clock_def)

lemma wp_NewCorrelationID [wp_simps]:
  "wp NewCorrelationID Q E w =
     (case entropy w (draws w) of
        None \<Rightarrow> E (Errorf ''read random bytes'') (w\<lparr>draws := Suc (draws w)\<rparr>)
      | Some b \<Rightarrow> Q (hex_encode (fill_buffer b)) (w\<lparr>draws := Suc (draws w)\<rparr>))"
  by (simp add: wp_def NewCorrelationID_def split: option.splits)

lemma wpI_read_clock [wp_intro]:
  "(\<And>t. t = clock w (ticks w) \<Longrightarrow> Q t (w\<lparr>ticks := Suc (ticks w)\<rparr>)) \<Longrightarrow> wp read_clock Q E w"
  by (simp add: wp_simps)

lemma wpI_NewCorrelationID [wp_intro]:
  "E (Errorf ''read random bytes'') (w\<lparr>draws := Suc (draws w)\<rparr>) \<Longrightarrow>
   (\<And>b. entropy w (draws w) = Some b \<Longrightarrow> Q (hex_encode (fill_buffer b)) (w\<lparr>draws := Suc (draws w)\<rparr>)) \<Longrightarrow>
   wp NewCorrelationID Q E w"
  by (simp add: wp_simps split: option.splits)

lemma hex_digit_alnum: "d < 16 \<Longrightarrow> is_alnum (hex_digit d)"
  by (auto simp: hex_digit_def char_class_defs)

lemma hex_encode_alnum: "\<forall>c \<in> set (hex_encode s). is_alnum c"
  by (auto simp: hex_encode_def intro!: hex_digit_alnum less_mult_imp_div_less)

lemma length_hex_encode: "length (hex_encode s) = 2 * length s"
  by (induction s) (auto simp: hex_encode_def)

text \<open>An id drawn from a non-empty block of random bytes has the shape the services ask of ids.\<close>

lemma hex_encode_id:
  assumes "s \<noteq> []" and "2 * length s \<le> Suc n"
  shows "match_head_tail is_alnum is_id_char n (hex_encode s)"
proof -
  have "hex_encode s \<noteq> []" using assms(1) length_hex_encode[of s] by (cases s) auto
  then obtain c cs where c: "hex_encode s = c # cs" by (cases "hex_encode s") auto
  moreover have "length cs \<le> n" using assms(2) c length_hex_encode[of s] by simp
  moreover have "\<forall>x \<in> set (c # cs). is_alnum x" using hex_encode_alnum[of s] c by simp
  ultimately show ?thesis by (auto simp: match_head_tail_def list_all_iff is_id_char_def)
qed

lemma length_fill_buffer: "length (fill_buffer b) = 16"
  by (simp add: fill_buffer_def)

lemma correlation_id: "match_head_tail is_alnum is_id_char 127 (hex_encode (fill_buffer b))"
  using length_fill_buffer[of b] by (intro hex_encode_id) auto

lemma audit_identical_refl [simp]: "audit_identical a a"
  by (simp add: audit_identical_def)

lemma audit_identical_sym: "audit_identical a b \<Longrightarrow> audit_identical b a"
  by (simp add: audit_identical_def)

lemma audit_identical_trans: "audit_identical a b \<Longrightarrow> audit_identical b c \<Longrightarrow> audit_identical a c"
  by (simp add: audit_identical_def)

lemma audit_insert_append: "\<exists>evs. audit_insert ev log = log @ evs"
  by (simp add: audit_insert_def)

lemma audit_insert_distinct:
  "distinct (map ae_ID log) \<Longrightarrow> distinct (map ae_ID (audit_insert ev log))"
  by (auto simp: audit_insert_def)

text \<open>The audit adapter changes the audit table and its own call counter, nothing else.\<close>

lemma AuditorRecord_frame:
  "snd (AuditorRecord ev w) \<in>
     {w, w\<lparr>audit_calls := Suc (audit_calls w)\<rparr>,
      w\<lparr>audit_calls := Suc (audit_calls w), audits := audit_insert ev (audits w)\<rparr>}"
  by (auto simp: AuditorRecord_def Let_def split: option.splits audit_fault.splits)

lemma AuditorRecord_append: "\<exists>evs. audits (snd (AuditorRecord ev w)) = audits w @ evs"
  by (auto simp: AuditorRecord_def Let_def audit_insert_append
      split: option.splits audit_fault.splits)

lemma AuditorRecord_distinct:
  "distinct (map ae_ID (audits w)) \<Longrightarrow> distinct (map ae_ID (audits (snd (AuditorRecord ev w))))"
  by (auto simp: AuditorRecord_def Let_def audit_insert_distinct
      split: option.splits audit_fault.splits)

lemma AuditorRecord_Inr:
  "AuditorRecord ev w = (Inr (), w') \<Longrightarrow>
     audit_complete ev \<and>
     (w' = w\<lparr>audit_calls := Suc (audit_calls w), audits := audit_insert ev (audits w)\<rparr>) \<and>
     (\<exists>e \<in> set (audits w'). ae_ID e = ae_ID ev \<and> audit_identical e ev)"
  by (auto simp: AuditorRecord_def Let_def audit_insert_def find_Some_iff find_None_iff image_iff
      split: option.splits audit_fault.splits if_splits)

section \<open>The contract of an audit sink\<close>

text \<open>
  What every service relies on when it calls \<open>foundation.Auditor\<close>: the log only grows, an event id
  names one immutable content, and a recording that reports success is in the log.
\<close>

locale audit_sink =
  fixes record_event :: "AuditEvent \<Rightarrow> 's \<Rightarrow> ('e err + unit) \<times> 's"
    and log :: "'s \<Rightarrow> AuditEvent list"
  assumes append_only: "\<exists>evs. log (snd (record_event ev s)) = log s @ evs"
    and ids_kept_unique: "distinct (map ae_ID (log s)) \<Longrightarrow> distinct (map ae_ID (log (snd (record_event ev s))))"
    and success_recorded: "record_event ev s = (Inr (), s') \<Longrightarrow>
      \<exists>e \<in> set (log s'). ae_ID e = ae_ID ev \<and> audit_identical e ev"
begin

lemma recorded_all:
  "distinct (map ae_ID (log s)) \<Longrightarrow>
     (\<exists>evs'. log (foldl (\<lambda>t ev. snd (record_event ev t)) s evs) = log s @ evs') \<and>
     distinct (map ae_ID (log (foldl (\<lambda>t ev. snd (record_event ev t)) s evs)))"
proof (induction evs arbitrary: s)
  case Nil
  then show ?case by simp
next
  case (Cons ev evs)
  from Cons.prems have d: "distinct (map ae_ID (log (snd (record_event ev s))))"
    by (rule ids_kept_unique)
  from Cons.IH[OF d] append_only[of ev s] show ?case
    by (auto simp del: append_assoc simp: append_assoc[symmetric]) (metis append_assoc)
qed

text \<open>Whatever is recorded in between, two successful recordings under one id agree in content.\<close>

lemma replay_agrees:
  assumes d: "distinct (map ae_ID (log s))"
    and first: "record_event ev s = (Inr (), s1)"
    and later: "record_event ev' (foldl (\<lambda>t e. snd (record_event e t)) s1 evs) = (Inr (), s3)"
    and same: "ae_ID ev' = ae_ID ev"
  shows "audit_identical ev ev'"
proof -
  let ?s2 = "foldl (\<lambda>t e. snd (record_event e t)) s1 evs"
  have d1: "distinct (map ae_ID (log s1))" using ids_kept_unique[OF d, of ev] first by simp
  obtain e where e: "e \<in> set (log s1)" "ae_ID e = ae_ID ev" "audit_identical e ev"
    using success_recorded[OF first] by blast
  obtain evs' where "log ?s2 = log s1 @ evs'" and d2: "distinct (map ae_ID (log ?s2))"
    using recorded_all[OF d1] by blast
  moreover obtain evs'' where "log s3 = log ?s2 @ evs''"
    using append_only[of ev' ?s2] later by auto
  ultimately have "e \<in> set (log s3)" using e(1) by simp
  moreover have d3: "distinct (map ae_ID (log s3))" using ids_kept_unique[OF d2, of ev'] later by simp
  moreover obtain e' where e': "e' \<in> set (log s3)" "ae_ID e' = ae_ID ev'" "audit_identical e' ev'"
    using success_recorded[OF later] by blast
  ultimately have "e = e'" using e(2) same by (metis inj_on_eq_iff distinct_map)
  then show ?thesis using e(3) e'(3) audit_identical_sym audit_identical_trans by blast
qed

end

interpretation pg_audit: audit_sink AuditorRecord audits
  by unfold_locales (rule AuditorRecord_append, erule AuditorRecord_distinct, blast dest: AuditorRecord_Inr)

end
