(* ===== verification/Threads_Types.thy ===== *)
theory Threads_Types
  imports Foundation
begin

text \<open>
  Data of the package \<open>internal/threads\<close> (\<open>contracts.go\<close>): tags and goals with parent links, tag rules
  on targets, goal links, and the inputs of the service. Field names carry the record as a prefix.
  \<open>TargetType\<close> and \<open>RuleMode\<close> are string types in Go and may hold any string until they are validated,
  so they stay strings here.
\<close>

datatype threads_sentinel = ThreadsErrInvalidInput | ThreadsErrNotFound | ThreadsErrConflict | ThreadsErrCycle

type_synonym threads_error = "threads_sentinel err"

definition TargetAsset :: string where "TargetAsset = ''asset''"
definition TargetPurchase :: string where "TargetPurchase = ''purchase''"
definition TargetContract :: string where "TargetContract = ''contract''"
definition TargetSoftware :: string where "TargetSoftware = ''software''"
definition TargetBudget :: string where "TargetBudget = ''budget''"
definition TargetGoal :: string where "TargetGoal = ''goal''"

definition RuleInclude :: string where "RuleInclude = ''include''"
definition RuleSuppress :: string where "RuleSuppress = ''suppress''"

record Tag =
  tag_ID :: string
  tag_OrganizationID :: string
  tag_Name :: string
  tag_ParentID :: string
  tag_InheritByDefault :: bool
  tag_Revision :: int
  tag_CreatedAt :: gotime
  tag_UpdatedAt :: gotime

record Goal =
  goal_ID :: string
  goal_OrganizationID :: string
  goal_Name :: string
  goal_Description :: string
  goal_ParentID :: string
  goal_Revision :: int
  goal_CreatedAt :: gotime
  goal_UpdatedAt :: gotime

record TagRule =
  rule_OrganizationID :: string
  rule_TargetType :: string
  rule_TargetID :: string
  rule_TagID :: string
  rule_Mode :: string
  rule_Revision :: int
  rule_UpdatedBy :: string
  rule_CreatedAt :: gotime
  rule_UpdatedAt :: gotime

record EffectiveTag =
  eff_Tag :: Tag
  eff_State :: string
  eff_SourceTagID :: string
  eff_Rule :: "TagRule option"

record GoalLink =
  link_OrganizationID :: string
  link_GoalID :: string
  link_TargetType :: string
  link_TargetID :: string
  link_CreatedBy :: string
  link_CreatedAt :: gotime

record ThreadsSnapshot =
  snap_Tags :: "Tag list"
  snap_Goals :: "Goal list"
  snap_TagRules :: "TagRule list"
  snap_GoalLinks :: "GoalLink list"

record CreateTagInput =
  cti_ID :: string
  cti_Name :: string
  cti_ParentID :: string
  cti_InheritByDefault :: bool

record UpdateTagInput =
  uti_ID :: string
  uti_Name :: string
  uti_ParentID :: string
  uti_InheritByDefault :: bool
  uti_Revision :: int

record CreateGoalInput =
  cgi_ID :: string
  cgi_Name :: string
  cgi_Description :: string
  cgi_ParentID :: string

record UpdateGoalInput =
  ugi_ID :: string
  ugi_Name :: string
  ugi_Description :: string
  ugi_ParentID :: string
  ugi_Revision :: int

record SetTagRuleInput =
  sri_TargetType :: string
  sri_TargetID :: string
  sri_TagID :: string
  sri_Mode :: string
  sri_Revision :: int

record LinkGoalInput =
  lgi_GoalID :: string
  lgi_TargetType :: string
  lgi_TargetID :: string

record ThreadsImportOperation =
  op_Token :: string
  op_OccurredAt :: gotime

record ExchangeImportResult =
  res_Committed :: bool
  res_Created :: bool

text \<open>The private context value that marks a call as made by Exchange.\<close>

record threadsImportContext =
  ic_operation :: ThreadsImportOperation
  ic_revision :: int

record threads_ctx = ctx +
  cx_import :: "threadsImportContext option"

end
