(* ===== verification/Store_Contract.thy ===== *)
theory Store_Contract
  imports Prelude
begin

text \<open>
  The contract the services rely on when they write records with optimistic revisions: a record is
  created once per key, an update names the revision it was computed from, and a refused write leaves
  the store as it was. The in-memory stores of Threads and Ledger are instances; the consequences a
  client of such a store needs (no lost update, create-then-read) are proved once, here.
\<close>

locale revisioned_store =
  fixes get :: "'s \<Rightarrow> string \<Rightarrow> 'r option"
    and create :: "'r \<Rightarrow> 's \<Rightarrow> ('e err + 'r) \<times> 's"
    and update :: "'r \<Rightarrow> int \<Rightarrow> 's \<Rightarrow> ('e err + 'r) \<times> 's"
    and key :: "'r \<Rightarrow> string"
    and rev_of :: "'r \<Rightarrow> int"
  assumes create_ok: "create r s = (Inr r', s') \<Longrightarrow> get s (key r) = None \<and> get s' = (get s)(key r \<mapsto> r')"
    and create_refused: "create r s = (Inl e, s') \<Longrightarrow> s' = s"
    and create_taken: "get s (key r) \<noteq> None \<Longrightarrow> \<exists>e. create r s = (Inl e, s)"
    and update_ok: "update r n s = (Inr r', s') \<Longrightarrow>
      (\<exists>old. get s (key r) = Some old \<and> rev_of old = n) \<and> get s' = (get s)(key r \<mapsto> r')"
    and update_refused: "update r n s = (Inl e, s') \<Longrightarrow> s' = s"
begin

text \<open>Of two updates computed from the same revision at most one is applied.\<close>

lemma no_lost_update:
  assumes first: "update r n s = (Inr a, s1)" and moved: "rev_of a \<noteq> n" and same: "key r' = key r"
  shows "\<exists>e. update r' n s1 = (Inl e, s1)"
proof (cases "update r' n s1")
  case (Pair res s2)
  show ?thesis
  proof (cases res)
    case (Inl e)
    then show ?thesis using Pair update_refused by auto
  next
    case (Inr b)
    with Pair have "update r' n s1 = (Inr b, s2)" by simp
    from update_ok[OF this] update_ok[OF first] same moved show ?thesis by auto
  qed
qed

lemma create_then_get: "create r s = (Inr r', s') \<Longrightarrow> get s' (key r) = Some r'"
  by (simp add: create_ok)

lemma create_once: "create r s = (Inr r', s') \<Longrightarrow> key r'' = key r \<Longrightarrow> \<exists>e. create r'' s' = (Inl e, s')"
  by (rule create_taken) (simp add: create_ok)

text \<open>A write touches one key only.\<close>

lemma create_frame: "create r s = (res, s') \<Longrightarrow> k \<noteq> key r \<Longrightarrow> get s' k = get s k"
  by (cases res) (auto dest: create_ok create_refused)

lemma update_frame: "update r n s = (res, s') \<Longrightarrow> k \<noteq> key r \<Longrightarrow> get s' k = get s k"
  by (cases res) (auto dest: update_ok update_refused)

text \<open>No write removes a record.\<close>

lemma create_keeps: "get s k \<noteq> None \<Longrightarrow> get (snd (create r s)) k \<noteq> None"
  by (cases "create r s"; cases "fst (create r s)") (auto dest: create_ok create_refused)

lemma update_keeps: "get s k \<noteq> None \<Longrightarrow> get (snd (update r n s)) k \<noteq> None"
  by (cases "update r n s"; cases "fst (update r n s)") (auto dest: update_ok update_refused)

end

end
