(* ===== verification/Threads_Store.thy ===== *)
theory Threads_Store
  imports Threads_Types Store_Contract
begin

text \<open>
  \<open>internal/repository/memory_threads.go\<close>: the in-memory store of tags, goals, tag rules and goal links.
  Every method runs under the store's mutex, so it is one atomic step. The keys of the four maps are
  built by \<open>threadsRecordKey\<close> and \<open>threadsTargetKey\<close>.
\<close>

record threads_world = world +
  tags :: "(string, Tag) gomap"
  goals :: "(string, Goal) gomap"
  tagRules :: "(string, TagRule) gomap"
  goalLinks :: "(string, GoalLink) gomap"

definition threadsRecordKey :: "string \<Rightarrow> string \<Rightarrow> string" where
  "threadsRecordKey organizationID id' = organizationID @ [CHR 0x00] @ id'"

definition threadsTargetKey :: "string \<Rightarrow> string \<Rightarrow> string \<Rightarrow> string \<Rightarrow> string" where
  "threadsTargetKey organizationID targetType targetID relationID =
     organizationID @ [CHR 0x00] @ targetType @ [CHR 0x00] @ targetID @ [CHR 0x00] @ relationID"

definition tag_key :: "Tag \<Rightarrow> string" where
  "tag_key t = threadsRecordKey (tag_OrganizationID t) (tag_ID t)"

definition goal_key :: "Goal \<Rightarrow> string" where
  "goal_key g = threadsRecordKey (goal_OrganizationID g) (goal_ID g)"

definition rule_key :: "TagRule \<Rightarrow> string" where
  "rule_key r = threadsTargetKey (rule_OrganizationID r) (rule_TargetType r) (rule_TargetID r) (rule_TagID r)"

definition link_key :: "GoalLink \<Rightarrow> string" where
  "link_key l = threadsTargetKey (link_OrganizationID l) (link_TargetType l) (link_TargetID l) (link_GoalID l)"

definition sortTags :: "unicode \<Rightarrow> Tag list \<Rightarrow> Tag list" where
  "sortTags u items = sort_key (\<lambda>t. (ToLower u (tag_Name t), tag_ID t)) items"

definition sortGoals :: "unicode \<Rightarrow> Goal list \<Rightarrow> Goal list" where
  "sortGoals u items = sort_key (\<lambda>g. (ToLower u (goal_Name g), goal_ID g)) items"

definition tagNameConflict :: "unicode \<Rightarrow> (string, Tag) gomap \<Rightarrow> Tag \<Rightarrow> string \<Rightarrow> bool" where
  "tagNameConflict u m candidate excludingID =
     list_ex (\<lambda>(_, existing). tag_OrganizationID existing = tag_OrganizationID candidate \<and>
        tag_ID existing \<noteq> excludingID \<and> EqualFold u (tag_Name existing) (tag_Name candidate)) m"

definition goalNameConflict :: "unicode \<Rightarrow> (string, Goal) gomap \<Rightarrow> Goal \<Rightarrow> string \<Rightarrow> bool" where
  "goalNameConflict u m candidate excludingID =
     list_ex (\<lambda>(_, existing). goal_OrganizationID existing = goal_OrganizationID candidate \<and>
        goal_ID existing \<noteq> excludingID \<and> EqualFold u (goal_Name existing) (goal_Name candidate)) m"

type_synonym 'a threads_op = "(threads_world, threads_sentinel, 'a) op"

definition storeSnapshot :: "unicode \<Rightarrow> string \<Rightarrow> ThreadsSnapshot threads_op" where
  "storeSnapshot u organizationID = queryE (\<lambda>w. Inr
     \<lparr>snap_Tags = sortTags u (filter (\<lambda>t. tag_OrganizationID t = organizationID) (map snd (tags w))),
      snap_Goals = sortGoals u (filter (\<lambda>g. goal_OrganizationID g = organizationID) (map snd (goals w))),
      snap_TagRules = sort_key rule_key (filter (\<lambda>r. rule_OrganizationID r = organizationID) (map snd (tagRules w))),
      snap_GoalLinks = sort_key link_key (filter (\<lambda>l. link_OrganizationID l = organizationID) (map snd (goalLinks w)))\<rparr>)"

definition storeListTags :: "unicode \<Rightarrow> string \<Rightarrow> Tag list threads_op" where
  "storeListTags u organizationID = queryE (\<lambda>w.
     Inr (sortTags u (filter (\<lambda>t. tag_OrganizationID t = organizationID) (map snd (tags w)))))"

definition storeGetTag :: "string \<Rightarrow> string \<Rightarrow> Tag threads_op" where
  "storeGetTag organizationID id' = queryE (\<lambda>w.
     case map_of (tags w) (threadsRecordKey organizationID id') of
       None \<Rightarrow> Inl (Sentinel ThreadsErrNotFound) | Some tag \<Rightarrow> Inr tag)"

definition storeCreateTag :: "unicode \<Rightarrow> Tag \<Rightarrow> Tag threads_op" where
  "storeCreateTag u tag w =
     (let key = threadsRecordKey (tag_OrganizationID tag) (tag_ID tag) in
      if map_of (tags w) key \<noteq> None \<or> tagNameConflict u (tags w) tag ''''
      then (Inl (Sentinel ThreadsErrConflict), w)
      else (Inr tag, w\<lparr>tags := AList.update key tag (tags w)\<rparr>))"

definition storeUpdateTag :: "unicode \<Rightarrow> Tag \<Rightarrow> int \<Rightarrow> Tag threads_op" where
  "storeUpdateTag u tag expectedRevision w =
     (let key = threadsRecordKey (tag_OrganizationID tag) (tag_ID tag) in
      case map_of (tags w) key of
        None \<Rightarrow> (Inl (Sentinel ThreadsErrNotFound), w)
      | Some existing \<Rightarrow>
          if tag_Revision existing \<noteq> expectedRevision \<or> tag_Revision tag \<noteq> i64 (expectedRevision + 1) \<or>
             tagNameConflict u (tags w) tag (tag_ID tag)
          then (Inl (Sentinel ThreadsErrConflict), w)
          else (Inr tag, w\<lparr>tags := AList.update key tag (tags w)\<rparr>))"

definition storeListGoals :: "unicode \<Rightarrow> string \<Rightarrow> Goal list threads_op" where
  "storeListGoals u organizationID = queryE (\<lambda>w.
     Inr (sortGoals u (filter (\<lambda>g. goal_OrganizationID g = organizationID) (map snd (goals w)))))"

definition storeGetGoal :: "string \<Rightarrow> string \<Rightarrow> Goal threads_op" where
  "storeGetGoal organizationID id' = queryE (\<lambda>w.
     case map_of (goals w) (threadsRecordKey organizationID id') of
       None \<Rightarrow> Inl (Sentinel ThreadsErrNotFound) | Some goal \<Rightarrow> Inr goal)"

definition storeCreateGoal :: "unicode \<Rightarrow> Goal \<Rightarrow> Goal threads_op" where
  "storeCreateGoal u goal w =
     (let key = threadsRecordKey (goal_OrganizationID goal) (goal_ID goal) in
      if map_of (goals w) key \<noteq> None \<or> goalNameConflict u (goals w) goal ''''
      then (Inl (Sentinel ThreadsErrConflict), w)
      else (Inr goal, w\<lparr>goals := AList.update key goal (goals w)\<rparr>))"

definition storeUpdateGoal :: "unicode \<Rightarrow> Goal \<Rightarrow> int \<Rightarrow> Goal threads_op" where
  "storeUpdateGoal u goal expectedRevision w =
     (let key = threadsRecordKey (goal_OrganizationID goal) (goal_ID goal) in
      case map_of (goals w) key of
        None \<Rightarrow> (Inl (Sentinel ThreadsErrNotFound), w)
      | Some existing \<Rightarrow>
          if goal_Revision existing \<noteq> expectedRevision \<or> goal_Revision goal \<noteq> i64 (expectedRevision + 1) \<or>
             goalNameConflict u (goals w) goal (goal_ID goal)
          then (Inl (Sentinel ThreadsErrConflict), w)
          else (Inr goal, w\<lparr>goals := AList.update key goal (goals w)\<rparr>))"

definition storeListTagRules :: "string \<Rightarrow> string \<Rightarrow> string \<Rightarrow> TagRule list threads_op" where
  "storeListTagRules organizationID targetType targetID = queryE (\<lambda>w.
     Inr (sort_key rule_TagID (filter (\<lambda>r. rule_OrganizationID r = organizationID \<and>
       rule_TargetType r = targetType \<and> rule_TargetID r = targetID) (map snd (tagRules w)))))"

definition storeCreateTagRule :: "TagRule \<Rightarrow> TagRule threads_op" where
  "storeCreateTagRule rule w =
     (let key = threadsTargetKey (rule_OrganizationID rule) (rule_TargetType rule) (rule_TargetID rule) (rule_TagID rule) in
      if map_of (tagRules w) key \<noteq> None then (Inl (Sentinel ThreadsErrConflict), w)
      else (Inr rule, w\<lparr>tagRules := AList.update key rule (tagRules w)\<rparr>))"

definition storePutTagRule :: "TagRule \<Rightarrow> int \<Rightarrow> TagRule threads_op" where
  "storePutTagRule rule expectedRevision w =
     (let key = threadsTargetKey (rule_OrganizationID rule) (rule_TargetType rule) (rule_TargetID rule) (rule_TagID rule);
          existing = map_of (tagRules w) key
      in if expectedRevision = 0 then
           (if existing \<noteq> None \<or> rule_Revision rule \<noteq> 1 then (Inl (Sentinel ThreadsErrConflict), w)
            else (Inr rule, w\<lparr>tagRules := AList.update key rule (tagRules w)\<rparr>))
         else (case existing of
             None \<Rightarrow> (Inl (Sentinel ThreadsErrConflict), w)
           | Some ex \<Rightarrow>
               if rule_Revision ex \<noteq> expectedRevision \<or> rule_Revision rule \<noteq> i64 (expectedRevision + 1)
               then (Inl (Sentinel ThreadsErrConflict), w)
               else (let rule' = rule\<lparr>rule_CreatedAt := rule_CreatedAt ex\<rparr>
                     in (Inr rule', w\<lparr>tagRules := AList.update key rule' (tagRules w)\<rparr>))))"

definition storeDeleteTagRule :: "string \<Rightarrow> string \<Rightarrow> string \<Rightarrow> string \<Rightarrow> int \<Rightarrow> unit threads_op" where
  "storeDeleteTagRule organizationID targetType targetID tagID expectedRevision w =
     (let key = threadsTargetKey organizationID targetType targetID tagID in
      case map_of (tagRules w) key of
        None \<Rightarrow> (Inl (Sentinel ThreadsErrNotFound), w)
      | Some existing \<Rightarrow>
          if rule_Revision existing \<noteq> expectedRevision then (Inl (Sentinel ThreadsErrConflict), w)
          else (Inr (), w\<lparr>tagRules := AList.delete key (tagRules w)\<rparr>))"

definition storeListGoalLinks :: "string \<Rightarrow> string \<Rightarrow> string \<Rightarrow> GoalLink list threads_op" where
  "storeListGoalLinks organizationID targetType targetID = queryE (\<lambda>w.
     Inr (sort_key link_GoalID (filter (\<lambda>l. link_OrganizationID l = organizationID \<and>
       link_TargetType l = targetType \<and> link_TargetID l = targetID) (map snd (goalLinks w)))))"

definition storeCreateGoalLink :: "GoalLink \<Rightarrow> (GoalLink \<times> bool) threads_op" where
  "storeCreateGoalLink link w =
     (let key = threadsTargetKey (link_OrganizationID link) (link_TargetType link) (link_TargetID link) (link_GoalID link) in
      case map_of (goalLinks w) key of
        Some existing \<Rightarrow> (Inr (existing, False), w)
      | None \<Rightarrow> (Inr (link, True), w\<lparr>goalLinks := AList.update key link (goalLinks w)\<rparr>))"

definition storeDeleteGoalLink :: "string \<Rightarrow> string \<Rightarrow> string \<Rightarrow> string \<Rightarrow> bool threads_op" where
  "storeDeleteGoalLink organizationID targetType targetID goalID w =
     (let key = threadsTargetKey organizationID targetType targetID goalID in
      if map_of (goalLinks w) key = None then (Inr False, w)
      else (Inr True, w\<lparr>goalLinks := AList.delete key (goalLinks w)\<rparr>))"

section \<open>Lemmas\<close>

lemma threadsRecordKey_inj [simp]: "threadsRecordKey org a = threadsRecordKey org b \<longleftrightarrow> a = b"
  by (simp add: threadsRecordKey_def)

lemma wp_storeGetTag [wp_simps]:
  "wp (storeGetTag org i) Q E w =
     (case map_of (tags w) (threadsRecordKey org i) of
        None \<Rightarrow> E (Sentinel ThreadsErrNotFound) w | Some t \<Rightarrow> Q t w)"
  by (simp add: storeGetTag_def wp_simps split: option.splits)

lemma wp_storeGetGoal [wp_simps]:
  "wp (storeGetGoal org i) Q E w =
     (case map_of (goals w) (threadsRecordKey org i) of
        None \<Rightarrow> E (Sentinel ThreadsErrNotFound) w | Some g \<Rightarrow> Q g w)"
  by (simp add: storeGetGoal_def wp_simps split: option.splits)

lemma wp_storeCreateTag [wp_simps]:
  "wp (storeCreateTag u t) Q E w =
     (if map_of (tags w) (tag_key t) \<noteq> None \<or> tagNameConflict u (tags w) t ''''
      then E (Sentinel ThreadsErrConflict) w
      else Q t (w\<lparr>tags := AList.update (tag_key t) t (tags w)\<rparr>))"
  by (simp add: storeCreateTag_def wp_def tag_key_def Let_def)

lemma wp_storeUpdateTag [wp_simps]:
  "wp (storeUpdateTag u t n) Q E w =
     (case map_of (tags w) (tag_key t) of
        None \<Rightarrow> E (Sentinel ThreadsErrNotFound) w
      | Some old \<Rightarrow>
          if tag_Revision old \<noteq> n \<or> tag_Revision t \<noteq> i64 (n + 1) \<or> tagNameConflict u (tags w) t (tag_ID t)
          then E (Sentinel ThreadsErrConflict) w
          else Q t (w\<lparr>tags := AList.update (tag_key t) t (tags w)\<rparr>))"
  by (auto simp: storeUpdateTag_def wp_def tag_key_def Let_def split: option.splits)

lemma wp_storeCreateGoal [wp_simps]:
  "wp (storeCreateGoal u g) Q E w =
     (if map_of (goals w) (goal_key g) \<noteq> None \<or> goalNameConflict u (goals w) g ''''
      then E (Sentinel ThreadsErrConflict) w
      else Q g (w\<lparr>goals := AList.update (goal_key g) g (goals w)\<rparr>))"
  by (simp add: storeCreateGoal_def wp_def goal_key_def Let_def)

lemma wp_storeUpdateGoal [wp_simps]:
  "wp (storeUpdateGoal u g n) Q E w =
     (case map_of (goals w) (goal_key g) of
        None \<Rightarrow> E (Sentinel ThreadsErrNotFound) w
      | Some old \<Rightarrow>
          if goal_Revision old \<noteq> n \<or> goal_Revision g \<noteq> i64 (n + 1) \<or> goalNameConflict u (goals w) g (goal_ID g)
          then E (Sentinel ThreadsErrConflict) w
          else Q g (w\<lparr>goals := AList.update (goal_key g) g (goals w)\<rparr>))"
  by (auto simp: storeUpdateGoal_def wp_def goal_key_def Let_def split: option.splits)

lemma wp_storeCreateTagRule [wp_simps]:
  "wp (storeCreateTagRule r) Q E w =
     (if map_of (tagRules w) (rule_key r) \<noteq> None then E (Sentinel ThreadsErrConflict) w
      else Q r (w\<lparr>tagRules := AList.update (rule_key r) r (tagRules w)\<rparr>))"
  by (simp add: storeCreateTagRule_def wp_def rule_key_def Let_def)

lemma wp_storePutTagRule [wp_simps]:
  "wp (storePutTagRule r n) Q E w =
     (if n = 0 then
        (if map_of (tagRules w) (rule_key r) \<noteq> None \<or> rule_Revision r \<noteq> 1 then E (Sentinel ThreadsErrConflict) w
         else Q r (w\<lparr>tagRules := AList.update (rule_key r) r (tagRules w)\<rparr>))
      else case map_of (tagRules w) (rule_key r) of
        None \<Rightarrow> E (Sentinel ThreadsErrConflict) w
      | Some old \<Rightarrow>
          if rule_Revision old \<noteq> n \<or> rule_Revision r \<noteq> i64 (n + 1) then E (Sentinel ThreadsErrConflict) w
          else Q (r\<lparr>rule_CreatedAt := rule_CreatedAt old\<rparr>)
                 (w\<lparr>tagRules := AList.update (rule_key r) (r\<lparr>rule_CreatedAt := rule_CreatedAt old\<rparr>) (tagRules w)\<rparr>))"
  by (auto simp: storePutTagRule_def wp_def rule_key_def Let_def split: option.splits)

lemma wp_storeDeleteTagRule [wp_simps]:
  "wp (storeDeleteTagRule org tt ti tg n) Q E w =
     (case map_of (tagRules w) (threadsTargetKey org tt ti tg) of
        None \<Rightarrow> E (Sentinel ThreadsErrNotFound) w
      | Some old \<Rightarrow>
          if rule_Revision old \<noteq> n then E (Sentinel ThreadsErrConflict) w
          else Q () (w\<lparr>tagRules := AList.delete (threadsTargetKey org tt ti tg) (tagRules w)\<rparr>))"
  by (simp add: storeDeleteTagRule_def wp_def Let_def split: option.splits)

lemma wp_storeCreateGoalLink [wp_simps]:
  "wp (storeCreateGoalLink l) Q E w =
     (case map_of (goalLinks w) (link_key l) of
        Some old \<Rightarrow> Q (old, False) w
      | None \<Rightarrow> Q (l, True) (w\<lparr>goalLinks := AList.update (link_key l) l (goalLinks w)\<rparr>))"
  by (simp add: storeCreateGoalLink_def wp_def link_key_def Let_def split: option.splits)

lemma wp_storeDeleteGoalLink [wp_simps]:
  "wp (storeDeleteGoalLink org tt ti g) Q E w =
     (if map_of (goalLinks w) (threadsTargetKey org tt ti g) = None then Q False w
      else Q True (w\<lparr>goalLinks := AList.delete (threadsTargetKey org tt ti g) (goalLinks w)\<rparr>))"
  by (simp add: storeDeleteGoalLink_def wp_def Let_def)

text \<open>The same as backward rules.\<close>

lemma wpI_storeGetTag [wp_intro]:
  "(map_of (tags w) (threadsRecordKey org i) = None \<Longrightarrow> E (Sentinel ThreadsErrNotFound) w) \<Longrightarrow>
   (\<And>t. map_of (tags w) (threadsRecordKey org i) = Some t \<Longrightarrow> Q t w) \<Longrightarrow> wp (storeGetTag org i) Q E w"
  by (simp add: wp_simps split: option.splits)

lemma wpI_storeGetGoal [wp_intro]:
  "(map_of (goals w) (threadsRecordKey org i) = None \<Longrightarrow> E (Sentinel ThreadsErrNotFound) w) \<Longrightarrow>
   (\<And>t. map_of (goals w) (threadsRecordKey org i) = Some t \<Longrightarrow> Q t w) \<Longrightarrow> wp (storeGetGoal org i) Q E w"
  by (simp add: wp_simps split: option.splits)

lemma wpI_storeCreateTag [wp_intro]:
  "E (Sentinel ThreadsErrConflict) w \<Longrightarrow>
   (map_of (tags w) (tag_key t) = None \<Longrightarrow> \<not> tagNameConflict u (tags w) t '''' \<Longrightarrow>
      Q t (w\<lparr>tags := AList.update (tag_key t) t (tags w)\<rparr>)) \<Longrightarrow> wp (storeCreateTag u t) Q E w"
  by (simp add: wp_simps)

lemma wpI_storeUpdateTag [wp_intro]:
  "E (Sentinel ThreadsErrNotFound) w \<Longrightarrow> E (Sentinel ThreadsErrConflict) w \<Longrightarrow>
   (\<And>old. map_of (tags w) (tag_key t) = Some old \<Longrightarrow> tag_Revision old = n \<Longrightarrow> tag_Revision t = i64 (n + 1) \<Longrightarrow>
      \<not> tagNameConflict u (tags w) t (tag_ID t) \<Longrightarrow> Q t (w\<lparr>tags := AList.update (tag_key t) t (tags w)\<rparr>)) \<Longrightarrow>
   wp (storeUpdateTag u t n) Q E w"
  by (simp add: wp_simps split: option.splits)

lemma wpI_storeCreateGoal [wp_intro]:
  "E (Sentinel ThreadsErrConflict) w \<Longrightarrow>
   (map_of (goals w) (goal_key t) = None \<Longrightarrow> \<not> goalNameConflict u (goals w) t '''' \<Longrightarrow>
      Q t (w\<lparr>goals := AList.update (goal_key t) t (goals w)\<rparr>)) \<Longrightarrow> wp (storeCreateGoal u t) Q E w"
  by (simp add: wp_simps)

lemma wpI_storeUpdateGoal [wp_intro]:
  "E (Sentinel ThreadsErrNotFound) w \<Longrightarrow> E (Sentinel ThreadsErrConflict) w \<Longrightarrow>
   (\<And>old. map_of (goals w) (goal_key t) = Some old \<Longrightarrow> goal_Revision old = n \<Longrightarrow> goal_Revision t = i64 (n + 1) \<Longrightarrow>
      \<not> goalNameConflict u (goals w) t (goal_ID t) \<Longrightarrow> Q t (w\<lparr>goals := AList.update (goal_key t) t (goals w)\<rparr>)) \<Longrightarrow>
   wp (storeUpdateGoal u t n) Q E w"
  by (simp add: wp_simps split: option.splits)

lemma wpI_storeCreateTagRule [wp_intro]:
  "E (Sentinel ThreadsErrConflict) w \<Longrightarrow>
   (map_of (tagRules w) (rule_key r) = None \<Longrightarrow> Q r (w\<lparr>tagRules := AList.update (rule_key r) r (tagRules w)\<rparr>)) \<Longrightarrow>
   wp (storeCreateTagRule r) Q E w"
  by (simp add: wp_simps)

lemma wpI_storePutTagRule [wp_intro]:
  "E (Sentinel ThreadsErrConflict) w \<Longrightarrow>
   (n = 0 \<Longrightarrow> map_of (tagRules w) (rule_key r) = None \<Longrightarrow> rule_Revision r = 1 \<Longrightarrow>
      Q r (w\<lparr>tagRules := AList.update (rule_key r) r (tagRules w)\<rparr>)) \<Longrightarrow>
   (\<And>old. n \<noteq> 0 \<Longrightarrow> map_of (tagRules w) (rule_key r) = Some old \<Longrightarrow> rule_Revision old = n \<Longrightarrow>
      rule_Revision r = i64 (n + 1) \<Longrightarrow>
      Q (r\<lparr>rule_CreatedAt := rule_CreatedAt old\<rparr>)
        (w\<lparr>tagRules := AList.update (rule_key r) (r\<lparr>rule_CreatedAt := rule_CreatedAt old\<rparr>) (tagRules w)\<rparr>)) \<Longrightarrow>
   wp (storePutTagRule r n) Q E w"
  by (simp add: wp_simps split: option.splits)

lemma wpI_storeDeleteTagRule [wp_intro]:
  "E (Sentinel ThreadsErrNotFound) w \<Longrightarrow> E (Sentinel ThreadsErrConflict) w \<Longrightarrow>
   (\<And>old. map_of (tagRules w) (threadsTargetKey org tt ti tg) = Some old \<Longrightarrow> rule_Revision old = n \<Longrightarrow>
      Q () (w\<lparr>tagRules := AList.delete (threadsTargetKey org tt ti tg) (tagRules w)\<rparr>)) \<Longrightarrow>
   wp (storeDeleteTagRule org tt ti tg n) Q E w"
  by (simp add: wp_simps split: option.splits)

lemma wpI_storeCreateGoalLink [wp_intro]:
  "(\<And>old. map_of (goalLinks w) (link_key l) = Some old \<Longrightarrow> Q (old, False) w) \<Longrightarrow>
   (map_of (goalLinks w) (link_key l) = None \<Longrightarrow>
      Q (l, True) (w\<lparr>goalLinks := AList.update (link_key l) l (goalLinks w)\<rparr>)) \<Longrightarrow>
   wp (storeCreateGoalLink l) Q E w"
  by (simp add: wp_simps split: option.splits)

lemma wpI_storeDeleteGoalLink [wp_intro]:
  "Q False w \<Longrightarrow>
   (map_of (goalLinks w) (threadsTargetKey org tt ti g) \<noteq> None \<Longrightarrow>
      Q True (w\<lparr>goalLinks := AList.delete (threadsTargetKey org tt ti g) (goalLinks w)\<rparr>)) \<Longrightarrow>
   wp (storeDeleteGoalLink org tt ti g) Q E w"
  by (simp add: wp_simps)

text \<open>The two families of revisioned records meet the contract of the services.\<close>

interpretation tag_store: revisioned_store "\<lambda>w. map_of (tags w)" "storeCreateTag u" "storeUpdateTag u" tag_key tag_Revision for u
  by unfold_locales
    (auto simp: storeCreateTag_def storeUpdateTag_def tag_key_def Let_def split: if_splits option.splits)

interpretation goal_store: revisioned_store "\<lambda>w. map_of (goals w)" "storeCreateGoal u" "storeUpdateGoal u" goal_key goal_Revision for u
  by unfold_locales
    (auto simp: storeCreateGoal_def storeUpdateGoal_def goal_key_def Let_def split: if_splits option.splits)

end
