(* ===== verification/Threads_Evaluate.thy ===== *)
theory Threads_Evaluate
  imports Threads_Types
begin

text \<open>
  \<open>evaluateTags\<close> of \<open>internal/threads/service.go\<close>: the effective tags of a target, from the tags of the
  organization and the rules on the target. An included tag applies, its ancestors with
  \<open>InheritByDefault\<close> are inherited, and a direct rule on an ancestor wins over inheritance.
  \<open>climb\<close> is the inner loop over the ancestors and \<open>visit\<close> its body.
\<close>

definition index_tags :: "Tag list \<Rightarrow> (string, Tag) gomap" where
  "index_tags items = foldl (\<lambda>m t. AList.update (tag_ID t) t m) [] items"

definition index_rules :: "TagRule list \<Rightarrow> (string, TagRule) gomap" where
  "index_rules rules = foldl (\<lambda>m r. AList.update (rule_TagID r) r m) [] rules"

definition visit :: "(string, TagRule) gomap \<Rightarrow> string \<Rightarrow> Tag \<Rightarrow> (string, EffectiveTag) gomap \<Rightarrow> (string, EffectiveTag) gomap" where
  "visit byTag sourceTagID parent result =
     (case map_of byTag (tag_ID parent) of
        Some direct \<Rightarrow>
          AList.update (tag_ID parent)
            \<lparr>eff_Tag = parent,
             eff_State = (if rule_Mode direct = RuleSuppress then ''suppressed'' else ''explicit''),
             eff_SourceTagID = sourceTagID, eff_Rule = Some direct\<rparr> result
      | None \<Rightarrow>
          if tag_InheritByDefault parent then
            (let item = \<lparr>eff_Tag = parent, eff_State = ''inherited'', eff_SourceTagID = sourceTagID, eff_Rule = None\<rparr> in
             case map_of result (tag_ID parent) of
               None \<Rightarrow> AList.update (tag_ID parent) item result
             | Some current \<Rightarrow>
                 if eff_State current = ''inherited'' \<and> sourceTagID < eff_SourceTagID current
                 then AList.update (tag_ID parent) item result else result)
          else result)"

function climb :: "(string, Tag) gomap \<Rightarrow> (string, TagRule) gomap \<Rightarrow> string \<Rightarrow> string list \<Rightarrow> string \<Rightarrow>
    (string, EffectiveTag) gomap \<Rightarrow> (string, EffectiveTag) gomap" where
  "climb byID byTag sourceTagID seen parentID result =
     (if parentID = '''' \<or> parentID \<in> set seen then result
      else case map_of byID parentID of
             None \<Rightarrow> result
           | Some parent \<Rightarrow>
               climb byID byTag sourceTagID (parentID # seen) (tag_ParentID parent)
                 (visit byTag sourceTagID parent result))"
  by pat_completeness auto
termination
proof (relation "measure (\<lambda>(byID, _, _, seen, _, _). card (dom (map_of byID) - set seen))", simp, goal_cases)
  case (1 byID byTag source seen parentID result parent)
  then have "dom (map_of byID) - set (parentID # seen) \<subset> dom (map_of byID) - set seen" by auto
  then show ?case by (simp add: psubset_card_mono finite_dom_map_of)
qed

declare climb.simps [simp del]

definition apply_rule :: "(string, Tag) gomap \<Rightarrow> (string, TagRule) gomap \<Rightarrow> (string, EffectiveTag) gomap \<Rightarrow>
    TagRule \<Rightarrow> (string, EffectiveTag) gomap" where
  "apply_rule byID byTag result rule =
     (case map_of byID (rule_TagID rule) of
        None \<Rightarrow> result
      | Some tag \<Rightarrow>
          if rule_Mode rule = RuleSuppress then
            AList.update (tag_ID tag)
              \<lparr>eff_Tag = tag, eff_State = ''suppressed'', eff_SourceTagID = '''', eff_Rule = Some rule\<rparr> result
          else
            climb byID byTag (tag_ID tag) [tag_ID tag] (tag_ParentID tag)
              (AList.update (tag_ID tag)
                 \<lparr>eff_Tag = tag, eff_State = ''explicit'', eff_SourceTagID = '''', eff_Rule = Some rule\<rparr> result))"

definition evaluateTags :: "unicode \<Rightarrow> Tag list \<Rightarrow> TagRule list \<Rightarrow> EffectiveTag list" where
  "evaluateTags u items rules =
     (let byID = index_tags items; byTag = index_rules rules;
          result = foldl (apply_rule byID byTag) [] rules
      in sort_key (\<lambda>e. (ToLower u (tag_Name (eff_Tag e)), tag_ID (eff_Tag e))) (map snd result))"

end
