(* ===== verification/Threads_Service.thy ===== *)
theory Threads_Service
  imports Threads_Store Threads_Evaluate
begin

text \<open>
  \<open>internal/threads/service.go\<close> and \<open>internal/threads/exchange.go\<close>: the service in front of the store and
  the importer Exchange holds. The service record carries what \<open>NewServiceWithExchangeImporter\<close> is
  given: the organization, the validator of targets owned by other features, the optional write gate,
  and two functions of the standard library that stay parameters (the case tables and SHA-256).
\<close>

record threads_service =
  svc_organizationID :: string
  svc_targets :: "string \<Rightarrow> string \<Rightarrow> string \<Rightarrow> threads_error option"
  svc_writes :: "(string \<Rightarrow> string \<Rightarrow> threads_error option) option"
  svc_unicode :: unicode
  svc_sha256 :: "string \<Rightarrow> string"

definition NewThreadsService ::
  "(string \<Rightarrow> string \<Rightarrow> string \<Rightarrow> threads_error option) option \<Rightarrow> (string \<Rightarrow> string \<Rightarrow> threads_error option) option \<Rightarrow>
   unicode \<Rightarrow> (string \<Rightarrow> string) \<Rightarrow> string \<Rightarrow> string + threads_service" where
  "NewThreadsService targets writes u sha organizationID =
     (case targets of
        None \<Rightarrow> Inl ''Threads store, target validator, and auditor are required''
      | Some tv \<Rightarrow>
          if TrimSpace organizationID = '''' then Inl ''Threads organization id is required''
          else Inr \<lparr>svc_organizationID = TrimSpace organizationID, svc_targets = tv, svc_writes = writes,
                    svc_unicode = u, svc_sha256 = sha\<rparr>)"

abbreviation threads_fail :: "threads_sentinel \<Rightarrow> 'a threads_op" where
  "threads_fail e \<equiv> raiseE (Sentinel e)"

definition stableIDPattern :: "string \<Rightarrow> bool" where
  "stableIDPattern s = match_head_tail is_alnum is_id_char 127 s"

definition validText :: "string \<Rightarrow> nat \<Rightarrow> bool" where
  "validText value maximum \<longleftrightarrow> valid_string value \<and> rune_count value \<le> maximum"

definition validTextRange :: "string \<Rightarrow> nat \<Rightarrow> nat \<Rightarrow> bool" where
  "validTextRange value minimum maximum \<longleftrightarrow>
     valid_string value \<and> minimum \<le> rune_count value \<and> rune_count value \<le> maximum"

definition validTagTarget :: "string \<Rightarrow> bool" where
  "validTagTarget value \<longleftrightarrow>
     value \<in> {TargetAsset, TargetPurchase, TargetContract, TargetSoftware, TargetBudget, TargetGoal}"

definition validGoalTarget :: "string \<Rightarrow> bool" where
  "validGoalTarget value \<longleftrightarrow> value = TargetAsset \<or> value = TargetPurchase"

definition normalizeTagInput :: "CreateTagInput \<Rightarrow> threads_error + CreateTagInput" where
  "normalizeTagInput input0 =
     (let input = input0\<lparr>cti_ID := TrimSpace (cti_ID input0), cti_Name := TrimSpace (cti_Name input0),
                         cti_ParentID := TrimSpace (cti_ParentID input0)\<rparr>
      in if (cti_ID input \<noteq> '''' \<and> \<not> stableIDPattern (cti_ID input)) \<or> \<not> validTextRange (cti_Name input) 1 100 \<or>
            (cti_ParentID input \<noteq> '''' \<and> \<not> stableIDPattern (cti_ParentID input))
         then Inl (Sentinel ThreadsErrInvalidInput) else Inr input)"

definition normalizeGoalInput :: "CreateGoalInput \<Rightarrow> threads_error + CreateGoalInput" where
  "normalizeGoalInput input0 =
     (let input = input0\<lparr>cgi_ID := TrimSpace (cgi_ID input0), cgi_Name := TrimSpace (cgi_Name input0),
                         cgi_Description := TrimSpace (cgi_Description input0),
                         cgi_ParentID := TrimSpace (cgi_ParentID input0)\<rparr>
      in if (cgi_ID input \<noteq> '''' \<and> \<not> stableIDPattern (cgi_ID input)) \<or> \<not> validTextRange (cgi_Name input) 1 160 \<or>
            \<not> validText (cgi_Description input) 2000 \<or>
            (cgi_ParentID input \<noteq> '''' \<and> \<not> stableIDPattern (cgi_ParentID input))
         then Inl (Sentinel ThreadsErrInvalidInput) else Inr input)"

section \<open>Context, clock, audit\<close>

definition threads_actorFromContext :: "threads_ctx \<Rightarrow> string" where
  "threads_actorFromContext cx =
     (case cx_scope cx of
        Some sc \<Rightarrow> if TrimSpace (sc_ActorID sc) \<noteq> '''' then sc_ActorID sc else ''system:threads''
      | None \<Rightarrow> ''system:threads'')"

definition threads_now :: "gotime threads_op" where
  "threads_now = tryE read_clock (\<lambda>t. returnE (UTC t))"

definition threads_creationState :: "threads_ctx \<Rightarrow> (gotime \<times> int) threads_op" where
  "threads_creationState cx =
     (case cx_import cx of
        Some st \<Rightarrow> if ic_revision st > 0 then returnE (UTC (op_OccurredAt (ic_operation st)), ic_revision st)
                  else tryE threads_now (\<lambda>t. returnE (t, 1))
      | None \<Rightarrow> tryE threads_now (\<lambda>t. returnE (t, 1)))"

definition threads_checkWrite :: "threads_service \<Rightarrow> threads_ctx \<Rightarrow> string \<Rightarrow> string \<Rightarrow> unit threads_op" where
  "threads_checkWrite sv cx recordType recordID =
     checkE (case cx_import cx of
        Some _ \<Rightarrow> None
      | None \<Rightarrow> (case svc_writes sv of None \<Rightarrow> None | Some gate \<Rightarrow> gate recordType recordID))"

definition relationshipRecordID :: "(string \<Rightarrow> string) \<Rightarrow> string \<Rightarrow> string list \<Rightarrow> string" where
  "relationshipRecordID sha kind parts = kind @ ''-'' @ hex_encode (sha (join_nul parts))"

definition TagRuleRecordID :: "(string \<Rightarrow> string) \<Rightarrow> string \<Rightarrow> string \<Rightarrow> string \<Rightarrow> string" where
  "TagRuleRecordID sha targetType targetID tagID = relationshipRecordID sha ''tag-rule'' [targetType, targetID, tagID]"

definition GoalLinkRecordID :: "(string \<Rightarrow> string) \<Rightarrow> string \<Rightarrow> string \<Rightarrow> string \<Rightarrow> string" where
  "GoalLinkRecordID sha targetType targetID goalID = relationshipRecordID sha ''goal-link'' [targetType, targetID, goalID]"

definition threads_exchangeAuditEventID :: "threads_service \<Rightarrow> ThreadsImportOperation \<Rightarrow> string \<Rightarrow> string \<Rightarrow> string \<Rightarrow> string" where
  "threads_exchangeAuditEventID sv operation action resourceType resourceID =
     hex_encode (svc_sha256 sv (join_nul [svc_organizationID sv, op_Token operation, action, resourceType, resourceID]))"

definition threads_audit ::
  "threads_service \<Rightarrow> threads_ctx \<Rightarrow> string \<Rightarrow> string \<Rightarrow> string \<Rightarrow> (string, string) gomap \<Rightarrow> unit threads_op" where
  "threads_audit sv cx action resourceType resourceID metadata =
     (let metadata' = AList.update ''requirementId'' ''REQ-THREADS-001'' metadata in
      case cx_import cx of
        Some st \<Rightarrow>
          AuditorRecord
            \<lparr>ae_ID = threads_exchangeAuditEventID sv (ic_operation st) action resourceType resourceID,
             ae_OrganizationID = svc_organizationID sv, ae_ActorID = ''system:exchange'',
             ae_CorrelationID = op_Token (ic_operation st), ae_Action = action,
             ae_ResourceType = resourceType, ae_ResourceID = resourceID,
             ae_OccurredAt = op_OccurredAt (ic_operation st), ae_Metadata = metadata'\<rparr>
      | None \<Rightarrow>
          tryE (case cx_scope cx of
                  None \<Rightarrow> NewCorrelationID
                | Some sc \<Rightarrow> if sc_CorrelationID sc = '''' then NewCorrelationID else returnE (sc_CorrelationID sc)) (\<lambda>correlationID.
          tryE NewCorrelationID (\<lambda>eventID.
          tryE threads_now (\<lambda>now.
          AuditorRecord
            \<lparr>ae_ID = eventID, ae_OrganizationID = svc_organizationID sv, ae_ActorID = threads_actorFromContext cx,
             ae_CorrelationID = correlationID, ae_Action = action, ae_ResourceType = resourceType,
             ae_ResourceID = resourceID, ae_OccurredAt = now, ae_Metadata = metadata'\<rparr>))))"

section \<open>Parent validation\<close>

text \<open>
  The loop of \<open>validateTagParent\<close> and \<open>validateGoalParent\<close>: follow parent links from \<open>parentID\<close>, collecting
  what has been seen. It stops because every step adds a stored record of the organization to \<open>seen\<close>.
\<close>

function walk_parents :: "string \<Rightarrow> ('r \<Rightarrow> string) \<Rightarrow> (string, 'r) gomap \<Rightarrow> string list \<Rightarrow> string \<Rightarrow> threads_error option" where
  "walk_parents org parent m seen parentID =
     (if parentID = '''' then None
      else if parentID \<in> set seen then Some (Sentinel ThreadsErrCycle)
      else case map_of m (threadsRecordKey org parentID) of
             None \<Rightarrow> Some (Sentinel ThreadsErrNotFound)
           | Some r \<Rightarrow> walk_parents org parent m (parentID # seen) (parent r))"
  by pat_completeness auto
termination
proof (relation "measure (\<lambda>(org, _, m, seen, _). card (dom (map_of m) - threadsRecordKey org ` set seen))", simp, goal_cases)
  case (1 org parent m seen parentID r)
  have "threadsRecordKey org parentID \<notin> threadsRecordKey org ` set seen"
    using 1 by (auto simp: threadsRecordKey_def)
  with 1 have "dom (map_of m) - threadsRecordKey org ` set (parentID # seen) \<subset>
      dom (map_of m) - threadsRecordKey org ` set seen" by auto
  then show ?case by (simp add: psubset_card_mono finite_dom_map_of)
qed

declare walk_parents.simps [simp del]

definition validateTagParent :: "threads_service \<Rightarrow> string \<Rightarrow> string \<Rightarrow> unit threads_op" where
  "validateTagParent sv tagID parentID w =
     checkE (walk_parents (svc_organizationID sv) tag_ParentID (tags w) [tagID] parentID) w"

definition validateGoalParent :: "threads_service \<Rightarrow> string \<Rightarrow> string \<Rightarrow> unit threads_op" where
  "validateGoalParent sv goalID parentID w =
     checkE (walk_parents (svc_organizationID sv) goal_ParentID (goals w) [goalID] parentID) w"

definition validateTarget :: "threads_service \<Rightarrow> string \<Rightarrow> string \<Rightarrow> unit threads_op" where
  "validateTarget sv targetType targetID =
     (if targetType = TargetGoal
      then tryE (storeGetGoal (svc_organizationID sv) targetID) (\<lambda>_. returnE ())
      else checkE (svc_targets sv (svc_organizationID sv) targetType targetID))"

section \<open>Service operations\<close>

definition threads_Snapshot :: "threads_service \<Rightarrow> ThreadsSnapshot threads_op" where
  "threads_Snapshot sv = storeSnapshot (svc_unicode sv) (svc_organizationID sv)"

definition ListTags :: "threads_service \<Rightarrow> Tag list threads_op" where
  "ListTags sv = storeListTags (svc_unicode sv) (svc_organizationID sv)"

definition GetTag :: "threads_service \<Rightarrow> string \<Rightarrow> Tag threads_op" where
  "GetTag sv id0 =
     (let id' = TrimSpace id0 in
      if \<not> stableIDPattern id' then threads_fail ThreadsErrInvalidInput
      else storeGetTag (svc_organizationID sv) id')"

definition CreateTag :: "threads_service \<Rightarrow> threads_ctx \<Rightarrow> CreateTagInput \<Rightarrow> Tag threads_op" where
  "CreateTag sv cx input =
     tryE (liftE (normalizeTagInput input)) (\<lambda>normalized.
     tryE (if cti_ParentID normalized \<noteq> ''''
           then tryE (storeGetTag (svc_organizationID sv) (cti_ParentID normalized)) (\<lambda>_. returnE ())
           else returnE ()) (\<lambda>_.
     tryE (if cti_ID normalized = '''' then wrapE ''create tag id'' NewCorrelationID
           else returnE (cti_ID normalized)) (\<lambda>id'.
     tryE (threads_checkWrite sv cx ''threads.tag'' id') (\<lambda>_.
     tryE (threads_creationState cx) (\<lambda>(now, revision).
     tryE (storeCreateTag (svc_unicode sv)
        \<lparr>tag_ID = id', tag_OrganizationID = svc_organizationID sv, tag_Name = cti_Name normalized,
         tag_ParentID = cti_ParentID normalized, tag_InheritByDefault = cti_InheritByDefault normalized,
         tag_Revision = revision, tag_CreatedAt = now, tag_UpdatedAt = now\<rparr>) (\<lambda>created.
     tryE (wrapE ''audit tag creation'' (threads_audit sv cx ''threads.tag.created'' ''tag'' (tag_ID created)
        [(''parentId'', tag_ParentID created), (''revision'', FormatInt (tag_Revision created))])) (\<lambda>_.
     returnE created)))))))"

definition UpdateTag :: "threads_service \<Rightarrow> threads_ctx \<Rightarrow> UpdateTagInput \<Rightarrow> Tag threads_op" where
  "UpdateTag sv cx input0 =
     (let input = input0\<lparr>uti_ID := TrimSpace (uti_ID input0)\<rparr> in
      if \<not> stableIDPattern (uti_ID input) \<or> uti_Revision input < 1 then threads_fail ThreadsErrInvalidInput else
      tryE (threads_checkWrite sv cx ''threads.tag'' (uti_ID input)) (\<lambda>_.
      tryE (liftE (normalizeTagInput \<lparr>cti_ID = '''', cti_Name = uti_Name input, cti_ParentID = uti_ParentID input,
                     cti_InheritByDefault = uti_InheritByDefault input\<rparr>)) (\<lambda>normalized.
      tryE (storeGetTag (svc_organizationID sv) (uti_ID input)) (\<lambda>existing.
      if tag_Revision existing \<noteq> uti_Revision input then threads_fail ThreadsErrConflict else
      if cti_ParentID normalized = uti_ID input then threads_fail ThreadsErrCycle else
      tryE (validateTagParent sv (uti_ID input) (cti_ParentID normalized)) (\<lambda>_.
      tryE threads_now (\<lambda>now.
      tryE (storeUpdateTag (svc_unicode sv)
         (existing\<lparr>tag_Name := cti_Name normalized, tag_ParentID := cti_ParentID normalized,
                   tag_InheritByDefault := cti_InheritByDefault normalized,
                   tag_Revision := i64 (tag_Revision existing + 1), tag_UpdatedAt := now\<rparr>)
         (uti_Revision input)) (\<lambda>updated.
      tryE (wrapE ''audit tag update'' (threads_audit sv cx ''threads.tag.updated'' ''tag'' (tag_ID updated)
         [(''revision'', FormatInt (tag_Revision updated)), (''parentId'', tag_ParentID updated)])) (\<lambda>_.
      returnE updated))))))))"

definition ListGoals :: "threads_service \<Rightarrow> Goal list threads_op" where
  "ListGoals sv = storeListGoals (svc_unicode sv) (svc_organizationID sv)"

definition GetGoal :: "threads_service \<Rightarrow> string \<Rightarrow> Goal threads_op" where
  "GetGoal sv id0 =
     (let id' = TrimSpace id0 in
      if \<not> stableIDPattern id' then threads_fail ThreadsErrInvalidInput
      else storeGetGoal (svc_organizationID sv) id')"

definition CreateGoal :: "threads_service \<Rightarrow> threads_ctx \<Rightarrow> CreateGoalInput \<Rightarrow> Goal threads_op" where
  "CreateGoal sv cx input =
     tryE (liftE (normalizeGoalInput input)) (\<lambda>normalized.
     tryE (if cgi_ParentID normalized \<noteq> ''''
           then tryE (storeGetGoal (svc_organizationID sv) (cgi_ParentID normalized)) (\<lambda>_. returnE ())
           else returnE ()) (\<lambda>_.
     tryE (if cgi_ID normalized = '''' then wrapE ''create goal id'' NewCorrelationID
           else returnE (cgi_ID normalized)) (\<lambda>id'.
     tryE (threads_checkWrite sv cx ''threads.goal'' id') (\<lambda>_.
     tryE (threads_creationState cx) (\<lambda>(now, revision).
     tryE (storeCreateGoal (svc_unicode sv)
        \<lparr>goal_ID = id', goal_OrganizationID = svc_organizationID sv, goal_Name = cgi_Name normalized,
         goal_Description = cgi_Description normalized, goal_ParentID = cgi_ParentID normalized,
         goal_Revision = revision, goal_CreatedAt = now, goal_UpdatedAt = now\<rparr>) (\<lambda>created.
     tryE (wrapE ''audit goal creation'' (threads_audit sv cx ''threads.goal.created'' ''goal'' (goal_ID created)
        [(''parentId'', goal_ParentID created), (''revision'', FormatInt (goal_Revision created))])) (\<lambda>_.
     returnE created)))))))"

definition UpdateGoal :: "threads_service \<Rightarrow> threads_ctx \<Rightarrow> UpdateGoalInput \<Rightarrow> Goal threads_op" where
  "UpdateGoal sv cx input0 =
     (let input = input0\<lparr>ugi_ID := TrimSpace (ugi_ID input0)\<rparr> in
      if \<not> stableIDPattern (ugi_ID input) \<or> ugi_Revision input < 1 then threads_fail ThreadsErrInvalidInput else
      tryE (threads_checkWrite sv cx ''threads.goal'' (ugi_ID input)) (\<lambda>_.
      tryE (liftE (normalizeGoalInput \<lparr>cgi_ID = '''', cgi_Name = ugi_Name input,
                     cgi_Description = ugi_Description input, cgi_ParentID = ugi_ParentID input\<rparr>)) (\<lambda>normalized.
      tryE (storeGetGoal (svc_organizationID sv) (ugi_ID input)) (\<lambda>existing.
      if goal_Revision existing \<noteq> ugi_Revision input then threads_fail ThreadsErrConflict else
      if cgi_ParentID normalized = ugi_ID input then threads_fail ThreadsErrCycle else
      tryE (validateGoalParent sv (ugi_ID input) (cgi_ParentID normalized)) (\<lambda>_.
      tryE threads_now (\<lambda>now.
      tryE (storeUpdateGoal (svc_unicode sv)
         (existing\<lparr>goal_Name := cgi_Name normalized, goal_Description := cgi_Description normalized,
                   goal_ParentID := cgi_ParentID normalized,
                   goal_Revision := i64 (goal_Revision existing + 1), goal_UpdatedAt := now\<rparr>)
         (ugi_Revision input)) (\<lambda>updated.
      tryE (wrapE ''audit goal update'' (threads_audit sv cx ''threads.goal.updated'' ''goal'' (goal_ID updated)
         [(''revision'', FormatInt (goal_Revision updated)), (''parentId'', goal_ParentID updated)])) (\<lambda>_.
      returnE updated))))))))"

definition SetTagRule :: "threads_service \<Rightarrow> threads_ctx \<Rightarrow> SetTagRuleInput \<Rightarrow> TagRule threads_op" where
  "SetTagRule sv cx input0 =
     (let input = input0\<lparr>sri_TargetID := TrimSpace (sri_TargetID input0), sri_TagID := TrimSpace (sri_TagID input0)\<rparr> in
      if \<not> validTagTarget (sri_TargetType input) \<or> \<not> stableIDPattern (sri_TargetID input) \<or>
         \<not> stableIDPattern (sri_TagID input) \<or> (sri_Mode input \<noteq> RuleInclude \<and> sri_Mode input \<noteq> RuleSuppress) \<or>
         sri_Revision input < 0
      then threads_fail ThreadsErrInvalidInput else
      tryE (threads_checkWrite sv cx ''threads.tag-rule''
              (TagRuleRecordID (svc_sha256 sv) (sri_TargetType input) (sri_TargetID input) (sri_TagID input))) (\<lambda>_.
      tryE (storeGetTag (svc_organizationID sv) (sri_TagID input)) (\<lambda>_.
      tryE (validateTarget sv (sri_TargetType input) (sri_TargetID input)) (\<lambda>_.
      tryE threads_now (\<lambda>now.
      tryE (storePutTagRule
         \<lparr>rule_OrganizationID = svc_organizationID sv, rule_TargetType = sri_TargetType input,
          rule_TargetID = sri_TargetID input, rule_TagID = sri_TagID input, rule_Mode = sri_Mode input,
          rule_Revision = i64 (sri_Revision input + 1), rule_UpdatedBy = threads_actorFromContext cx,
          rule_CreatedAt = now, rule_UpdatedAt = now\<rparr> (sri_Revision input)) (\<lambda>stored.
      tryE (wrapE ''audit tag rule'' (threads_audit sv cx ''threads.tag.rule.set'' ''tag-rule''
         (sri_TargetID input @ '':'' @ sri_TagID input)
         [(''targetType'', sri_TargetType input), (''mode'', sri_Mode input),
          (''revision'', FormatInt (rule_Revision stored))])) (\<lambda>_.
      returnE stored)))))))"

definition DeleteTagRule :: "threads_service \<Rightarrow> threads_ctx \<Rightarrow> string \<Rightarrow> string \<Rightarrow> string \<Rightarrow> int \<Rightarrow> unit threads_op" where
  "DeleteTagRule sv cx targetType targetID0 tagID0 revision =
     (let targetID = TrimSpace targetID0; tagID = TrimSpace tagID0 in
      if \<not> validTagTarget targetType \<or> \<not> stableIDPattern targetID \<or> \<not> stableIDPattern tagID \<or> revision < 1
      then threads_fail ThreadsErrInvalidInput else
      tryE (threads_checkWrite sv cx ''threads.tag-rule'' (TagRuleRecordID (svc_sha256 sv) targetType targetID tagID)) (\<lambda>_.
      tryE (storeDeleteTagRule (svc_organizationID sv) targetType targetID tagID revision) (\<lambda>_.
      threads_audit sv cx ''threads.tag.rule.deleted'' ''tag-rule'' (targetID @ '':'' @ tagID)
        [(''targetType'', targetType)])))"

definition EvaluateTags :: "threads_service \<Rightarrow> string \<Rightarrow> string \<Rightarrow> EffectiveTag list threads_op" where
  "EvaluateTags sv targetType targetID0 =
     (let targetID = TrimSpace targetID0 in
      if \<not> validTagTarget targetType \<or> \<not> stableIDPattern targetID then threads_fail ThreadsErrInvalidInput else
      tryE (validateTarget sv targetType targetID) (\<lambda>_.
      tryE (storeListTags (svc_unicode sv) (svc_organizationID sv)) (\<lambda>items.
      tryE (storeListTagRules (svc_organizationID sv) targetType targetID) (\<lambda>rules.
      returnE (evaluateTags (svc_unicode sv) items rules)))))"

definition LinkGoal :: "threads_service \<Rightarrow> threads_ctx \<Rightarrow> LinkGoalInput \<Rightarrow> GoalLink threads_op" where
  "LinkGoal sv cx input0 =
     (let input = input0\<lparr>lgi_GoalID := TrimSpace (lgi_GoalID input0), lgi_TargetID := TrimSpace (lgi_TargetID input0)\<rparr> in
      if \<not> validGoalTarget (lgi_TargetType input) \<or> \<not> stableIDPattern (lgi_GoalID input) \<or>
         \<not> stableIDPattern (lgi_TargetID input)
      then threads_fail ThreadsErrInvalidInput else
      tryE (threads_checkWrite sv cx ''threads.goal-link''
              (GoalLinkRecordID (svc_sha256 sv) (lgi_TargetType input) (lgi_TargetID input) (lgi_GoalID input))) (\<lambda>_.
      tryE (storeGetGoal (svc_organizationID sv) (lgi_GoalID input)) (\<lambda>_.
      tryE (checkE (svc_targets sv (svc_organizationID sv) (lgi_TargetType input) (lgi_TargetID input))) (\<lambda>_.
      tryE threads_now (\<lambda>now.
      tryE (storeCreateGoalLink
         \<lparr>link_OrganizationID = svc_organizationID sv, link_GoalID = lgi_GoalID input,
          link_TargetType = lgi_TargetType input, link_TargetID = lgi_TargetID input,
          link_CreatedBy = threads_actorFromContext cx, link_CreatedAt = now\<rparr>) (\<lambda>(created, inserted).
      tryE (if inserted
            then wrapE ''audit goal link'' (threads_audit sv cx ''threads.goal.linked'' ''goal-link''
                   (lgi_TargetID input @ '':'' @ lgi_GoalID input) [(''targetType'', lgi_TargetType input)])
            else returnE ()) (\<lambda>_.
      returnE created)))))))"

definition ListGoalLinks :: "threads_service \<Rightarrow> string \<Rightarrow> string \<Rightarrow> GoalLink list threads_op" where
  "ListGoalLinks sv targetType targetID0 =
     (let targetID = TrimSpace targetID0 in
      if \<not> validGoalTarget targetType \<or> \<not> stableIDPattern targetID then threads_fail ThreadsErrInvalidInput else
      tryE (checkE (svc_targets sv (svc_organizationID sv) targetType targetID)) (\<lambda>_.
      storeListGoalLinks (svc_organizationID sv) targetType targetID))"

definition UnlinkGoal :: "threads_service \<Rightarrow> threads_ctx \<Rightarrow> string \<Rightarrow> string \<Rightarrow> string \<Rightarrow> unit threads_op" where
  "UnlinkGoal sv cx targetType targetID0 goalID0 =
     (let targetID = TrimSpace targetID0; goalID = TrimSpace goalID0 in
      if \<not> validGoalTarget targetType \<or> \<not> stableIDPattern targetID \<or> \<not> stableIDPattern goalID
      then threads_fail ThreadsErrInvalidInput else
      tryE (threads_checkWrite sv cx ''threads.goal-link'' (GoalLinkRecordID (svc_sha256 sv) targetType targetID goalID)) (\<lambda>_.
      tryE (storeDeleteGoalLink (svc_organizationID sv) targetType targetID goalID) (\<lambda>removed.
      if \<not> removed then threads_fail ThreadsErrNotFound else
      threads_audit sv cx ''threads.goal.unlinked'' ''goal-link'' (targetID @ '':'' @ goalID)
        [(''targetType'', targetType)])))"

end
