(* ===== verification/Threads_Hierarchy.thy ===== *)
theory Threads_Hierarchy
  imports Threads_Service
begin

text \<open>
  The parent links of tags and goals. \<open>parent_rel\<close> is the relation from a record of the organization to
  its parent; a hierarchy is in order when every named parent exists and the relation has no cycle. The
  lemmas say what the loop \<open>walk_parents\<close> decides and that the two writes the service makes (a new record
  under an existing parent, a changed record whose new parent passed the loop) keep a hierarchy in order.
\<close>

definition parent_rel :: "string \<Rightarrow> ('r \<Rightarrow> string) \<Rightarrow> (string, 'r) gomap \<Rightarrow> (string \<times> string) set" where
  "parent_rel org parent m =
     {(c, p). c \<noteq> '''' \<and> p \<noteq> '''' \<and> (\<exists>r. map_of m (threadsRecordKey org c) = Some r \<and> parent r = p)}"

definition hierarchy_ok :: "string \<Rightarrow> ('r \<Rightarrow> string) \<Rightarrow> (string, 'r) gomap \<Rightarrow> bool" where
  "hierarchy_ok org parent m \<longleftrightarrow>
     acyclic (parent_rel org parent m) \<and>
     (\<forall>(c, p) \<in> parent_rel org parent m. map_of m (threadsRecordKey org p) \<noteq> None)"

lemma hierarchy_ok_Nil [simp]: "hierarchy_ok org parent []"
  by (simp add: hierarchy_ok_def parent_rel_def acyclic_def)

lemma parent_rel_from_empty: "('''', x) \<in> (parent_rel org parent m)\<^sup>* \<Longrightarrow> x = ''''"
  by (erule converse_rtranclE) (auto simp: parent_rel_def)

lemma parent_rel_step:
  assumes "(p, x) \<in> (parent_rel org parent m)\<^sup>*" "p \<noteq> x"
    and "map_of m (threadsRecordKey org p) = Some r"
  shows "(parent r, x) \<in> (parent_rel org parent m)\<^sup>*"
  using assms by (auto elim: converse_rtranclE simp: parent_rel_def)

text \<open>When the loop returns without error, nothing seen before can be reached from its start.\<close>

lemma walk_parents_None:
  "walk_parents org parent m seen p = None \<Longrightarrow> '''' \<notin> set seen \<Longrightarrow> x \<in> set seen \<Longrightarrow>
     (p, x) \<notin> (parent_rel org parent m)\<^sup>*"
proof (induction org parent m seen p rule: walk_parents.induct)
  case (1 org parent m seen p)
  show ?case
  proof (cases "p = ''''")
    case True
    with "1.prems" show ?thesis by (auto dest: parent_rel_from_empty)
  next
    case False
    with "1.prems"(1) obtain r where r: "p \<notin> set seen" "map_of m (threadsRecordKey org p) = Some r"
        "walk_parents org parent m (p # seen) (parent r) = None"
      by (subst (asm) walk_parents.simps) (auto split: if_splits option.splits)
    from "1.IH"[OF False r(1,2,3)] "1.prems"(2,3) False
    have "(parent r, x) \<notin> (parent_rel org parent m)\<^sup>*" by simp
    with r(1,2) "1.prems"(3) show ?thesis using parent_rel_step by metis
  qed
qed

lemma walk_parents_exists:
  "walk_parents org parent m seen p = None \<Longrightarrow> p \<noteq> '''' \<Longrightarrow> map_of m (threadsRecordKey org p) \<noteq> None"
  by (subst (asm) walk_parents.simps) (auto split: if_splits option.splits)

text \<open>Conversely, in a hierarchy that is in order the loop only fails for a reason: the start does
  not exist, or it reaches something seen.\<close>

lemma walk_parents_Some:
  "walk_parents org parent m seen p = Some e \<Longrightarrow> hierarchy_ok org parent m \<Longrightarrow>
     (\<forall>y \<in> set seen - S. (y, p) \<in> (parent_rel org parent m)\<^sup>+) \<Longrightarrow>
     (e = Sentinel ThreadsErrNotFound \<and> p \<noteq> '''' \<and> map_of m (threadsRecordKey org p) = None) \<or>
     (e = Sentinel ThreadsErrCycle \<and> (\<exists>x \<in> S. (p, x) \<in> (parent_rel org parent m)\<^sup>*))"
proof (induction org parent m seen p rule: walk_parents.induct)
  case (1 org parent m seen p)
  let ?R = "parent_rel org parent m"
  have ne: "p \<noteq> ''''" using "1.prems"(1) by (subst (asm) walk_parents.simps) (auto split: if_splits)
  consider (seen) "p \<in> set seen" | (gone) "p \<notin> set seen" "map_of m (threadsRecordKey org p) = None"
    | (up) r where "p \<notin> set seen" "map_of m (threadsRecordKey org p) = Some r"
    by (cases "map_of m (threadsRecordKey org p)") auto
  then show ?case
  proof cases
    case seen
    have "p \<in> S"
    proof (rule ccontr)
      assume "p \<notin> S"
      with seen "1.prems"(3) have "(p, p) \<in> ?R\<^sup>+" by auto
      with "1.prems"(2) show False by (auto simp: hierarchy_ok_def acyclic_def)
    qed
    moreover have "e = Sentinel ThreadsErrCycle"
      using "1.prems"(1) seen ne by (subst (asm) walk_parents.simps) simp
    ultimately show ?thesis by auto
  next
    case gone
    then show ?thesis using "1.prems"(1) ne by (subst (asm) walk_parents.simps) simp
  next
    case up
    have rec: "walk_parents org parent m (p # seen) (parent r) = Some e"
      using "1.prems"(1) up ne by (subst (asm) walk_parents.simps) simp
    then have pne: "parent r \<noteq> ''''" by (subst (asm) walk_parents.simps) (auto split: if_splits)
    then have edge: "(p, parent r) \<in> ?R" using up(2) ne by (auto simp: parent_rel_def)
    then have there: "map_of m (threadsRecordKey org (parent r)) \<noteq> None"
      using "1.prems"(2) by (auto simp: hierarchy_ok_def)
    have "\<forall>y \<in> set (p # seen) - S. (y, parent r) \<in> ?R\<^sup>+"
      using "1.prems"(3) edge by (auto intro: trancl.trancl_into_trancl)
    from "1.IH"[OF ne up rec "1.prems"(2) this] there edge show ?thesis
      by (auto intro: converse_rtrancl_into_rtrancl)
  qed
qed

lemma parent_rel_update:
  "parent_rel org parent (AList.update (threadsRecordKey org c) r m) \<subseteq>
     (if parent r = '''' then {} else {(c, parent r)}) \<union> parent_rel org parent m"
  by (auto simp: parent_rel_def split: if_splits)

lemma hierarchy_ok_write:
  assumes ok: "hierarchy_ok org parent m"
    and exists: "parent r \<noteq> '''' \<Longrightarrow> map_of m (threadsRecordKey org (parent r)) \<noteq> None"
    and safe: "parent r \<noteq> '''' \<Longrightarrow> (parent r, c) \<notin> (parent_rel org parent m)\<^sup>*"
  shows "hierarchy_ok org parent (AList.update (threadsRecordKey org c) r m)"
proof -
  let ?R = "parent_rel org parent m" and ?m = "AList.update (threadsRecordKey org c) r m"
  have sub: "parent_rel org parent ?m \<subseteq> (if parent r = '''' then {} else {(c, parent r)}) \<union> ?R"
    by (rule parent_rel_update)
  have "acyclic ((if parent r = '''' then {} else {(c, parent r)}) \<union> ?R)"
    using ok safe by (auto simp: hierarchy_ok_def acyclic_insert)
  then have "acyclic (parent_rel org parent ?m)" using sub by (rule acyclic_subset)
  moreover have "map_of ?m (threadsRecordKey org p) \<noteq> None"
    if "(c', p) \<in> parent_rel org parent ?m" for c' p
    using that sub ok exists by (auto simp: hierarchy_ok_def split: if_splits)
  ultimately show ?thesis unfolding hierarchy_ok_def by blast
qed

text \<open>A new record under an existing parent, and a record moved under a parent that passed the loop.\<close>

lemma hierarchy_ok_create:
  assumes ok: "hierarchy_ok org parent m" and fresh: "map_of m (threadsRecordKey org c) = None"
    and exists: "parent r \<noteq> '''' \<Longrightarrow> map_of m (threadsRecordKey org (parent r)) \<noteq> None"
  shows "hierarchy_ok org parent (AList.update (threadsRecordKey org c) r m)"
proof (rule hierarchy_ok_write[OF ok exists])
  assume ne: "parent r \<noteq> ''''"
  show "(parent r, c) \<notin> (parent_rel org parent m)\<^sup>*"
  proof
    assume "(parent r, c) \<in> (parent_rel org parent m)\<^sup>*"
    then consider "parent r = c" | y where "(y, c) \<in> parent_rel org parent m" by (auto elim: rtranclE)
    then show False using fresh exists[OF ne] ok by cases (auto simp: hierarchy_ok_def)
  qed
qed

lemma hierarchy_ok_move:
  assumes ok: "hierarchy_ok org parent m" and c: "c \<noteq> ''''"
    and walk: "walk_parents org parent m [c] (parent r) = None"
  shows "hierarchy_ok org parent (AList.update (threadsRecordKey org c) r m)"
  using walk_parents_exists[OF walk] walk_parents_None[OF walk, of c] c
  by (intro hierarchy_ok_write[OF ok]) auto

end
