(* ===== verification/Threads_Exchange.thy ===== *)
theory Threads_Exchange
  imports Threads_Service
begin

text \<open>
  The importer of \<open>internal/threads/exchange.go\<close>. Its methods return a result and an error at the same
  time (a record can be committed although its audit failed), so an import is an operation whose value is
  the pair of both.
\<close>

type_synonym import_outcome = "ExchangeImportResult \<times> threads_error option"

definition threads_no_result :: ExchangeImportResult where
  "threads_no_result = \<lparr>res_Committed = False, res_Created = False\<rparr>"

definition threads_normalizeImport :: "ThreadsImportOperation \<Rightarrow> threads_error + ThreadsImportOperation" where
  "threads_normalizeImport operation0 =
     (let operation = operation0\<lparr>op_Token := TrimSpace (op_Token operation0), op_OccurredAt := UTC (op_OccurredAt operation0)\<rparr> in
      if \<not> stableIDPattern (op_Token operation) \<or> IsZero (op_OccurredAt operation) \<or>
         Year (op_OccurredAt operation) < 2000 \<or> Year (op_OccurredAt operation) > 9999
      then Inl (Sentinel ThreadsErrInvalidInput) else Inr operation)"

definition threads_withImport :: "threads_ctx \<Rightarrow> ThreadsImportOperation \<Rightarrow> int \<Rightarrow> threads_ctx" where
  "threads_withImport cx operation revision = cx\<lparr>cx_import := Some \<lparr>ic_operation = operation, ic_revision = revision\<rparr>\<rparr>"

definition validExchangeTag :: "Tag \<Rightarrow> bool" where
  "validExchangeTag candidate =
     (case normalizeTagInput \<lparr>cti_ID = tag_ID candidate, cti_Name = tag_Name candidate,
              cti_ParentID = tag_ParentID candidate, cti_InheritByDefault = tag_InheritByDefault candidate\<rparr> of
        Inl _ \<Rightarrow> False
      | Inr normalized \<Rightarrow> tag_OrganizationID candidate = '''' \<and> IsZero (tag_CreatedAt candidate) \<and>
          IsZero (tag_UpdatedAt candidate) \<and> tag_Revision candidate \<ge> 1 \<and> cti_ID normalized = tag_ID candidate \<and>
          cti_Name normalized = tag_Name candidate \<and> cti_ParentID normalized = tag_ParentID candidate)"

definition validExchangeGoal :: "Goal \<Rightarrow> bool" where
  "validExchangeGoal candidate =
     (case normalizeGoalInput \<lparr>cgi_ID = goal_ID candidate, cgi_Name = goal_Name candidate,
              cgi_Description = goal_Description candidate, cgi_ParentID = goal_ParentID candidate\<rparr> of
        Inl _ \<Rightarrow> False
      | Inr normalized \<Rightarrow> goal_OrganizationID candidate = '''' \<and> IsZero (goal_CreatedAt candidate) \<and>
          IsZero (goal_UpdatedAt candidate) \<and> goal_Revision candidate \<ge> 1 \<and> cgi_ID normalized = goal_ID candidate \<and>
          cgi_Name normalized = goal_Name candidate \<and> cgi_Description normalized = goal_Description candidate \<and>
          cgi_ParentID normalized = goal_ParentID candidate)"

definition validExchangeTagRule :: "TagRule \<Rightarrow> bool" where
  "validExchangeTagRule candidate \<longleftrightarrow> rule_OrganizationID candidate = '''' \<and> validTagTarget (rule_TargetType candidate) \<and>
     stableIDPattern (rule_TargetID candidate) \<and> stableIDPattern (rule_TagID candidate) \<and>
     (rule_Mode candidate = RuleInclude \<or> rule_Mode candidate = RuleSuppress) \<and> rule_Revision candidate \<ge> 1 \<and>
     rule_UpdatedBy candidate = '''' \<and> IsZero (rule_CreatedAt candidate) \<and> IsZero (rule_UpdatedAt candidate)"

definition validExchangeGoalLink :: "GoalLink \<Rightarrow> bool" where
  "validExchangeGoalLink candidate \<longleftrightarrow> link_OrganizationID candidate = '''' \<and> validGoalTarget (link_TargetType candidate) \<and>
     stableIDPattern (link_TargetID candidate) \<and> stableIDPattern (link_GoalID candidate) \<and>
     link_CreatedBy candidate = '''' \<and> IsZero (link_CreatedAt candidate)"

definition sameExchangeTag :: "Tag \<Rightarrow> Tag \<Rightarrow> bool" where
  "sameExchangeTag left right \<longleftrightarrow> tag_ID left = tag_ID right \<and> tag_Name left = tag_Name right \<and>
     tag_ParentID left = tag_ParentID right \<and> tag_InheritByDefault left = tag_InheritByDefault right \<and>
     tag_Revision left = tag_Revision right"

definition sameExchangeGoal :: "Goal \<Rightarrow> Goal \<Rightarrow> bool" where
  "sameExchangeGoal left right \<longleftrightarrow> goal_ID left = goal_ID right \<and> goal_Name left = goal_Name right \<and>
     goal_Description left = goal_Description right \<and> goal_ParentID left = goal_ParentID right \<and>
     goal_Revision left = goal_Revision right"

definition sameExchangeTagRule :: "TagRule \<Rightarrow> TagRule \<Rightarrow> bool" where
  "sameExchangeTagRule left right \<longleftrightarrow> rule_TargetType left = rule_TargetType right \<and>
     rule_TargetID left = rule_TargetID right \<and> rule_TagID left = rule_TagID right \<and>
     rule_Mode left = rule_Mode right \<and> rule_Revision left = rule_Revision right"

definition sameExchangeGoalLink :: "GoalLink \<Rightarrow> GoalLink \<Rightarrow> bool" where
  "sameExchangeGoalLink left right \<longleftrightarrow> link_GoalID left = link_GoalID right \<and>
     link_TargetType left = link_TargetType right \<and> link_TargetID left = link_TargetID right"

definition getTagRule :: "threads_service \<Rightarrow> string \<Rightarrow> string \<Rightarrow> string \<Rightarrow> TagRule option threads_op" where
  "getTagRule sv targetType targetID tagID =
     tryE (storeListTagRules (svc_organizationID sv) targetType targetID) (\<lambda>items.
     returnE (find (\<lambda>item. rule_TagID item = tagID) items))"

definition getGoalLink :: "threads_service \<Rightarrow> string \<Rightarrow> string \<Rightarrow> string \<Rightarrow> GoalLink option threads_op" where
  "getGoalLink sv targetType targetID goalID =
     tryE (storeListGoalLinks (svc_organizationID sv) targetType targetID) (\<lambda>items.
     returnE (find (\<lambda>item. link_GoalID item = goalID) items))"

definition auditTagRuleImport :: "threads_service \<Rightarrow> threads_ctx \<Rightarrow> TagRule \<Rightarrow> unit threads_op" where
  "auditTagRuleImport sv cx rule =
     threads_audit sv cx ''threads.tag.rule.set'' ''tag-rule'' (rule_TargetID rule @ '':'' @ rule_TagID rule)
       [(''targetType'', rule_TargetType rule), (''mode'', rule_Mode rule), (''revision'', FormatInt (rule_Revision rule))]"

definition auditGoalLinkImport :: "threads_service \<Rightarrow> threads_ctx \<Rightarrow> GoalLink \<Rightarrow> unit threads_op" where
  "auditGoalLinkImport sv cx link =
     threads_audit sv cx ''threads.goal.linked'' ''goal-link'' (link_TargetID link @ '':'' @ link_GoalID link)
       [(''targetType'', link_TargetType link)]"

definition ImportTag :: "threads_service \<Rightarrow> threads_ctx \<Rightarrow> ThreadsImportOperation \<Rightarrow> Tag \<Rightarrow> import_outcome threads_op" where
  "ImportTag sv cx0 operation0 candidate =
     (case threads_normalizeImport operation0 of
        Inl _ \<Rightarrow> returnE (threads_no_result, Some (Sentinel ThreadsErrInvalidInput))
      | Inr operation \<Rightarrow>
          if \<not> validExchangeTag candidate then returnE (threads_no_result, Some (Sentinel ThreadsErrInvalidInput)) else
          let cx = threads_withImport cx0 operation (tag_Revision candidate) in
          tryE (attemptE (GetTag sv (tag_ID candidate))) (\<lambda>got. case got of
            Inr existing \<Rightarrow>
              if \<not> sameExchangeTag existing candidate then returnE (threads_no_result, Some (Sentinel ThreadsErrConflict)) else
              tryE (attemptE (threads_audit sv cx ''threads.tag.created'' ''tag'' (tag_ID existing)
                [(''parentId'', tag_ParentID existing), (''revision'', FormatInt (tag_Revision existing))])) (\<lambda>audited.
              returnE (\<lparr>res_Committed = True, res_Created = False\<rparr>, err_of audited))
          | Inl e \<Rightarrow>
              if \<not> err_is e ThreadsErrNotFound then returnE (threads_no_result, Some e) else
              tryE (attemptE (CreateTag sv cx \<lparr>cti_ID = tag_ID candidate, cti_Name = tag_Name candidate,
                cti_ParentID = tag_ParentID candidate, cti_InheritByDefault = tag_InheritByDefault candidate\<rparr>)) (\<lambda>made. case made of
                Inr _ \<Rightarrow> returnE (\<lparr>res_Committed = True, res_Created = True\<rparr>, None)
              | Inl e' \<Rightarrow>
                  tryE (attemptE (GetTag sv (tag_ID candidate))) (\<lambda>seen. case seen of
                    Inr observed \<Rightarrow>
                      if sameExchangeTag observed candidate
                      then returnE (\<lparr>res_Committed = True, res_Created = True\<rparr>, Some e')
                      else returnE (threads_no_result, Some e')
                  | Inl _ \<Rightarrow> returnE (threads_no_result, Some e')))))"

definition ImportGoal :: "threads_service \<Rightarrow> threads_ctx \<Rightarrow> ThreadsImportOperation \<Rightarrow> Goal \<Rightarrow> import_outcome threads_op" where
  "ImportGoal sv cx0 operation0 candidate =
     (case threads_normalizeImport operation0 of
        Inl _ \<Rightarrow> returnE (threads_no_result, Some (Sentinel ThreadsErrInvalidInput))
      | Inr operation \<Rightarrow>
          if \<not> validExchangeGoal candidate then returnE (threads_no_result, Some (Sentinel ThreadsErrInvalidInput)) else
          let cx = threads_withImport cx0 operation (goal_Revision candidate) in
          tryE (attemptE (GetGoal sv (goal_ID candidate))) (\<lambda>got. case got of
            Inr existing \<Rightarrow>
              if \<not> sameExchangeGoal existing candidate then returnE (threads_no_result, Some (Sentinel ThreadsErrConflict)) else
              tryE (attemptE (threads_audit sv cx ''threads.goal.created'' ''goal'' (goal_ID existing)
                [(''parentId'', goal_ParentID existing), (''revision'', FormatInt (goal_Revision existing))])) (\<lambda>audited.
              returnE (\<lparr>res_Committed = True, res_Created = False\<rparr>, err_of audited))
          | Inl e \<Rightarrow>
              if \<not> err_is e ThreadsErrNotFound then returnE (threads_no_result, Some e) else
              tryE (attemptE (CreateGoal sv cx \<lparr>cgi_ID = goal_ID candidate, cgi_Name = goal_Name candidate,
                cgi_Description = goal_Description candidate, cgi_ParentID = goal_ParentID candidate\<rparr>)) (\<lambda>made. case made of
                Inr _ \<Rightarrow> returnE (\<lparr>res_Committed = True, res_Created = True\<rparr>, None)
              | Inl e' \<Rightarrow>
                  tryE (attemptE (GetGoal sv (goal_ID candidate))) (\<lambda>seen. case seen of
                    Inr observed \<Rightarrow>
                      if sameExchangeGoal observed candidate
                      then returnE (\<lparr>res_Committed = True, res_Created = True\<rparr>, Some e')
                      else returnE (threads_no_result, Some e')
                  | Inl _ \<Rightarrow> returnE (threads_no_result, Some e')))))"

text \<open>The tail of \<open>ImportTagRule\<close> after a failed creation or audit: was the record committed all the same?\<close>

definition reobserveTagRule :: "threads_service \<Rightarrow> TagRule \<Rightarrow> threads_error \<Rightarrow> import_outcome threads_op" where
  "reobserveTagRule sv candidate e =
     tryE (attemptE (getTagRule sv (rule_TargetType candidate) (rule_TargetID candidate) (rule_TagID candidate))) (\<lambda>seen.
     case seen of
       Inr (Some observed) \<Rightarrow>
         if sameExchangeTagRule observed candidate
         then returnE (\<lparr>res_Committed = True, res_Created = True\<rparr>, Some e) else returnE (threads_no_result, Some e)
     | _ \<Rightarrow> returnE (threads_no_result, Some e))"

definition ImportTagRule :: "threads_service \<Rightarrow> threads_ctx \<Rightarrow> ThreadsImportOperation \<Rightarrow> TagRule \<Rightarrow> import_outcome threads_op" where
  "ImportTagRule sv cx0 operation0 candidate =
     (case threads_normalizeImport operation0 of
        Inl _ \<Rightarrow> returnE (threads_no_result, Some (Sentinel ThreadsErrInvalidInput))
      | Inr operation \<Rightarrow>
          if \<not> validExchangeTagRule candidate then returnE (threads_no_result, Some (Sentinel ThreadsErrInvalidInput)) else
          let cx = threads_withImport cx0 operation (rule_Revision candidate) in
          tryE (attemptE (getTagRule sv (rule_TargetType candidate) (rule_TargetID candidate) (rule_TagID candidate))) (\<lambda>got. case got of
            Inl e \<Rightarrow> returnE (threads_no_result, Some e)
          | Inr (Some existing) \<Rightarrow>
              if \<not> sameExchangeTagRule existing candidate then returnE (threads_no_result, Some (Sentinel ThreadsErrConflict)) else
              tryE (attemptE (auditTagRuleImport sv cx existing)) (\<lambda>audited.
              returnE (\<lparr>res_Committed = True, res_Created = False\<rparr>, err_of audited))
          | Inr None \<Rightarrow>
              tryE (attemptE (storeGetTag (svc_organizationID sv) (rule_TagID candidate))) (\<lambda>tag. case tag of
                Inl e \<Rightarrow> returnE (threads_no_result, Some e)
              | Inr _ \<Rightarrow>
              tryE (attemptE (validateTarget sv (rule_TargetType candidate) (rule_TargetID candidate))) (\<lambda>target. case target of
                Inl e \<Rightarrow> returnE (threads_no_result, Some e)
              | Inr _ \<Rightarrow>
              tryE (attemptE (storeCreateTagRule (candidate\<lparr>rule_OrganizationID := svc_organizationID sv,
                rule_UpdatedBy := ''system:exchange'', rule_CreatedAt := op_OccurredAt operation,
                rule_UpdatedAt := op_OccurredAt operation\<rparr>))) (\<lambda>made. case made of
                Inl e \<Rightarrow> reobserveTagRule sv candidate e
              | Inr created \<Rightarrow>
                  tryE (attemptE (auditTagRuleImport sv cx created)) (\<lambda>audited. case audited of
                    Inr _ \<Rightarrow> returnE (\<lparr>res_Committed = True, res_Created = True\<rparr>, None)
                  | Inl e \<Rightarrow> reobserveTagRule sv candidate e))))))"

definition reobserveGoalLink :: "threads_service \<Rightarrow> GoalLink \<Rightarrow> bool \<Rightarrow> threads_error \<Rightarrow> import_outcome threads_op" where
  "reobserveGoalLink sv candidate inserted e =
     tryE (attemptE (getGoalLink sv (link_TargetType candidate) (link_TargetID candidate) (link_GoalID candidate))) (\<lambda>seen.
     case seen of
       Inr (Some observed) \<Rightarrow>
         if sameExchangeGoalLink observed candidate
         then returnE (\<lparr>res_Committed = True, res_Created = inserted\<rparr>, Some e) else returnE (threads_no_result, Some e)
     | _ \<Rightarrow> returnE (threads_no_result, Some e))"

definition ImportGoalLink :: "threads_service \<Rightarrow> threads_ctx \<Rightarrow> ThreadsImportOperation \<Rightarrow> GoalLink \<Rightarrow> import_outcome threads_op" where
  "ImportGoalLink sv cx0 operation0 candidate =
     (case threads_normalizeImport operation0 of
        Inl _ \<Rightarrow> returnE (threads_no_result, Some (Sentinel ThreadsErrInvalidInput))
      | Inr operation \<Rightarrow>
          if \<not> validExchangeGoalLink candidate then returnE (threads_no_result, Some (Sentinel ThreadsErrInvalidInput)) else
          let cx = threads_withImport cx0 operation 1 in
          tryE (attemptE (getGoalLink sv (link_TargetType candidate) (link_TargetID candidate) (link_GoalID candidate))) (\<lambda>got. case got of
            Inl e \<Rightarrow> returnE (threads_no_result, Some e)
          | Inr (Some existing) \<Rightarrow>
              if \<not> sameExchangeGoalLink existing candidate then returnE (threads_no_result, Some (Sentinel ThreadsErrConflict)) else
              tryE (attemptE (auditGoalLinkImport sv cx existing)) (\<lambda>audited.
              returnE (\<lparr>res_Committed = True, res_Created = False\<rparr>, err_of audited))
          | Inr None \<Rightarrow>
              tryE (attemptE (storeGetGoal (svc_organizationID sv) (link_GoalID candidate))) (\<lambda>goal. case goal of
                Inl e \<Rightarrow> returnE (threads_no_result, Some e)
              | Inr _ \<Rightarrow>
              tryE (attemptE (checkE (svc_targets sv (svc_organizationID sv) (link_TargetType candidate) (link_TargetID candidate)))) (\<lambda>target. case target of
                Inl e \<Rightarrow> returnE (threads_no_result, Some e)
              | Inr _ \<Rightarrow>
              tryE (attemptE (storeCreateGoalLink (candidate\<lparr>link_OrganizationID := svc_organizationID sv,
                link_CreatedBy := ''system:exchange'', link_CreatedAt := op_OccurredAt operation\<rparr>))) (\<lambda>made. case made of
                Inl e \<Rightarrow> reobserveGoalLink sv candidate False e
              | Inr (created, inserted) \<Rightarrow>
                  if \<not> inserted \<and> \<not> sameExchangeGoalLink created candidate
                  then reobserveGoalLink sv candidate inserted (Sentinel ThreadsErrConflict) else
                  tryE (attemptE (auditGoalLinkImport sv cx created)) (\<lambda>audited. case audited of
                    Inr _ \<Rightarrow> returnE (\<lparr>res_Committed = True, res_Created = inserted\<rparr>, None)
                  | Inl e \<Rightarrow> reobserveGoalLink sv candidate inserted e))))))"

end
