(* ===== verification/Threads_Invariant.thy ===== *)
theory Threads_Invariant
  imports Threads_Hierarchy Threads_Exchange
begin

text \<open>
  The invariant of the Threads store and its preservation by every operation of the service and of the
  importer: records sit under their own keys, identifiers have the accepted shape, names are unique up to
  case in an organization, both hierarchies are in order, and rules and links point to stored tags and
  goals. The relation \<open>threads_step\<close> has one rule per operation; the invariant holds in every state
  reachable from an empty store.
\<close>

definition tags_ok :: "unicode \<Rightarrow> string \<Rightarrow> (string, Tag) gomap \<Rightarrow> bool" where
  "tags_ok u org m \<longleftrightarrow> well_keyed tag_key m \<and> (\<forall>t \<in> vals m. stableIDPattern (tag_ID t)) \<and>
     (\<forall>t \<in> vals m. \<forall>t' \<in> vals m. tag_OrganizationID t = tag_OrganizationID t' \<longrightarrow>
        EqualFold u (tag_Name t) (tag_Name t') \<longrightarrow> t = t') \<and>
     hierarchy_ok org tag_ParentID m"

definition goals_ok :: "unicode \<Rightarrow> string \<Rightarrow> (string, Goal) gomap \<Rightarrow> bool" where
  "goals_ok u org m \<longleftrightarrow> well_keyed goal_key m \<and> (\<forall>g \<in> vals m. stableIDPattern (goal_ID g)) \<and>
     (\<forall>g \<in> vals m. \<forall>g' \<in> vals m. goal_OrganizationID g = goal_OrganizationID g' \<longrightarrow>
        EqualFold u (goal_Name g) (goal_Name g') \<longrightarrow> g = g') \<and>
     hierarchy_ok org goal_ParentID m"

definition rule_ok :: "string \<Rightarrow> (string, Tag) gomap \<Rightarrow> TagRule \<Rightarrow> bool" where
  "rule_ok org tm r \<longleftrightarrow> stableIDPattern (rule_TargetID r) \<and> stableIDPattern (rule_TagID r) \<and>
     validTagTarget (rule_TargetType r) \<and> (rule_Mode r = RuleInclude \<or> rule_Mode r = RuleSuppress) \<and>
     (rule_OrganizationID r = org \<longrightarrow> map_of tm (threadsRecordKey org (rule_TagID r)) \<noteq> None)"

definition rules_ok :: "string \<Rightarrow> (string, Tag) gomap \<Rightarrow> (string, TagRule) gomap \<Rightarrow> bool" where
  "rules_ok org tm m \<longleftrightarrow> well_keyed rule_key m \<and> (\<forall>r \<in> vals m. rule_ok org tm r)"

definition link_ok :: "string \<Rightarrow> (string, Goal) gomap \<Rightarrow> GoalLink \<Rightarrow> bool" where
  "link_ok org gm l \<longleftrightarrow> stableIDPattern (link_TargetID l) \<and> stableIDPattern (link_GoalID l) \<and>
     validGoalTarget (link_TargetType l) \<and>
     (link_OrganizationID l = org \<longrightarrow> map_of gm (threadsRecordKey org (link_GoalID l)) \<noteq> None)"

definition links_ok :: "string \<Rightarrow> (string, Goal) gomap \<Rightarrow> (string, GoalLink) gomap \<Rightarrow> bool" where
  "links_ok org gm m \<longleftrightarrow> well_keyed link_key m \<and> (\<forall>l \<in> vals m. link_ok org gm l)"

definition store_inv :: "unicode \<Rightarrow> string \<Rightarrow> (string, Tag) gomap \<Rightarrow> (string, Goal) gomap \<Rightarrow>
    (string, TagRule) gomap \<Rightarrow> (string, GoalLink) gomap \<Rightarrow> bool" where
  "store_inv u org tm gm rm lm \<longleftrightarrow> tags_ok u org tm \<and> goals_ok u org gm \<and> rules_ok org tm rm \<and> links_ok org gm lm"

definition threads_inv :: "threads_service \<Rightarrow> threads_world \<Rightarrow> bool" where
  "threads_inv sv w \<longleftrightarrow>
     store_inv (svc_unicode sv) (svc_organizationID sv) (tags w) (goals w) (tagRules w) (goalLinks w)"

section \<open>Writes to the four maps\<close>

lemma tags_ok_create:
  assumes ok: "tags_ok u org m" and t: "tag_OrganizationID t = org" "stableIDPattern (tag_ID t)"
    and fresh: "map_of m (tag_key t) = None" and names: "\<not> tagNameConflict u m t ''''"
    and parent: "tag_ParentID t \<noteq> '''' \<Longrightarrow> map_of m (threadsRecordKey org (tag_ParentID t)) \<noteq> None"
  shows "tags_ok u org (AList.update (tag_key t) t m)"
proof -
  have h: "hierarchy_ok org tag_ParentID (AList.update (tag_key t) t m)"
    using ok fresh parent t(1) unfolding tag_key_def
    by (auto simp: tags_ok_def intro!: hierarchy_ok_create)
  have ids: "\<forall>t' \<in> vals m. tag_ID t' \<noteq> ''''"
    using ok by (auto simp: tags_ok_def stableIDPattern_def match_head_tail_def)
  with names have n: "\<forall>t' \<in> vals m. tag_OrganizationID t' = org \<longrightarrow> \<not> EqualFold u (tag_Name t') (tag_Name t)"
    using t(1) by (force simp: tagNameConflict_def list_ex_vals)
  show ?thesis
    using ok t n h by (auto simp: tags_ok_def vals_update well_keyed_update) (blast dest: EqualFold_sym)
qed

lemma tags_ok_update:
  assumes ok: "tags_ok u org m" and t: "tag_OrganizationID t = org" "stableIDPattern (tag_ID t)"
    and names: "\<not> tagNameConflict u m t (tag_ID t)"
    and walk: "walk_parents org tag_ParentID m [tag_ID t] (tag_ParentID t) = None"
  shows "tags_ok u org (AList.update (tag_key t) t m)"
proof -
  have ne: "tag_ID t \<noteq> ''''" using t(2) by (auto simp: stableIDPattern_def match_head_tail_def)
  have h: "hierarchy_ok org tag_ParentID (AList.update (tag_key t) t m)"
    using ok walk t(1) ne unfolding tag_key_def by (auto simp: tags_ok_def intro!: hierarchy_ok_move)
  have n: "\<forall>t' \<in> vals m. tag_OrganizationID t' = org \<longrightarrow> tag_key t' \<noteq> tag_key t \<longrightarrow>
      \<not> EqualFold u (tag_Name t') (tag_Name t)"
    using t(1) names by (force simp: tagNameConflict_def list_ex_vals tag_key_def)
  show ?thesis
    using ok t n h by (auto simp: tags_ok_def vals_update well_keyed_update) (blast dest: EqualFold_sym)
qed

lemma goals_ok_create:
  assumes ok: "goals_ok u org m" and t: "goal_OrganizationID t = org" "stableIDPattern (goal_ID t)"
    and fresh: "map_of m (goal_key t) = None" and names: "\<not> goalNameConflict u m t ''''"
    and parent: "goal_ParentID t \<noteq> '''' \<Longrightarrow> map_of m (threadsRecordKey org (goal_ParentID t)) \<noteq> None"
  shows "goals_ok u org (AList.update (goal_key t) t m)"
proof -
  have h: "hierarchy_ok org goal_ParentID (AList.update (goal_key t) t m)"
    using ok fresh parent t(1) unfolding goal_key_def
    by (auto simp: goals_ok_def intro!: hierarchy_ok_create)
  have ids: "\<forall>t' \<in> vals m. goal_ID t' \<noteq> ''''"
    using ok by (auto simp: goals_ok_def stableIDPattern_def match_head_tail_def)
  with names have n: "\<forall>t' \<in> vals m. goal_OrganizationID t' = org \<longrightarrow> \<not> EqualFold u (goal_Name t') (goal_Name t)"
    using t(1) by (force simp: goalNameConflict_def list_ex_vals)
  show ?thesis
    using ok t n h by (auto simp: goals_ok_def vals_update well_keyed_update) (blast dest: EqualFold_sym)
qed

lemma goals_ok_update:
  assumes ok: "goals_ok u org m" and t: "goal_OrganizationID t = org" "stableIDPattern (goal_ID t)"
    and names: "\<not> goalNameConflict u m t (goal_ID t)"
    and walk: "walk_parents org goal_ParentID m [goal_ID t] (goal_ParentID t) = None"
  shows "goals_ok u org (AList.update (goal_key t) t m)"
proof -
  have ne: "goal_ID t \<noteq> ''''" using t(2) by (auto simp: stableIDPattern_def match_head_tail_def)
  have h: "hierarchy_ok org goal_ParentID (AList.update (goal_key t) t m)"
    using ok walk t(1) ne unfolding goal_key_def by (auto simp: goals_ok_def intro!: hierarchy_ok_move)
  have n: "\<forall>t' \<in> vals m. goal_OrganizationID t' = org \<longrightarrow> goal_key t' \<noteq> goal_key t \<longrightarrow>
      \<not> EqualFold u (goal_Name t') (goal_Name t)"
    using t(1) names by (force simp: goalNameConflict_def list_ex_vals goal_key_def)
  show ?thesis
    using ok t n h by (auto simp: goals_ok_def vals_update well_keyed_update) (blast dest: EqualFold_sym)
qed

text \<open>No operation removes a tag or a goal, so what rules and links point to stays.\<close>

lemma rules_ok_tags: "rules_ok org tm m \<Longrightarrow> rules_ok org (AList.update k t tm) m"
  by (auto simp: rules_ok_def rule_ok_def)

lemma links_ok_goals: "links_ok org gm m \<Longrightarrow> links_ok org (AList.update k g gm) m"
  by (auto simp: links_ok_def link_ok_def)

lemma rules_ok_put: "rules_ok org tm m \<Longrightarrow> rule_ok org tm r \<Longrightarrow> k = rule_key r \<Longrightarrow> rules_ok org tm (AList.update k r m)"
  by (auto simp: rules_ok_def vals_update well_keyed_update)

lemma links_ok_put: "links_ok org gm m \<Longrightarrow> link_ok org gm l \<Longrightarrow> k = link_key l \<Longrightarrow> links_ok org gm (AList.update k l m)"
  by (auto simp: links_ok_def vals_update well_keyed_update)

lemma rules_ok_delete: "rules_ok org tm m \<Longrightarrow> rules_ok org tm (AList.delete k m)"
  using vals_delete[of k m] by (auto simp: rules_ok_def well_keyed_delete)

lemma links_ok_delete: "links_ok org gm m \<Longrightarrow> links_ok org gm (AList.delete k m)"
  using vals_delete[of k m] by (auto simp: links_ok_def well_keyed_delete)

section \<open>Operations keep the invariant\<close>

definition same_store :: "threads_world \<Rightarrow> threads_world \<Rightarrow> bool" where
  "same_store w w' \<longleftrightarrow> tags w' = tags w \<and> goals w' = goals w \<and> tagRules w' = tagRules w \<and> goalLinks w' = goalLinks w"

lemma same_store_refl [simp]: "same_store w w"
  by (simp add: same_store_def)

lemma threads_inv_cong: "same_store w w' \<Longrightarrow> threads_inv sv w' = threads_inv sv w"
  by (simp add: same_store_def threads_inv_def)

lemma AuditorRecord_same_store:
  "wp (AuditorRecord ev) (\<lambda>_. same_store w) (\<lambda>_. same_store w) w"
  by (auto simp: wp_def AuditorRecord_def Let_def same_store_def
      split: option.splits audit_fault.splits)

lemma threads_audit_same_store:
  "wp (threads_audit sv cx a t i md) (\<lambda>_. same_store w) (\<lambda>_. same_store w) w"
  by (auto simp: threads_audit_def threads_now_def wp_simps Let_def same_store_def split: option.splits
      intro!: wp_mono[OF AuditorRecord_same_store])

lemma wp_audit_store:
  "(\<And>w'. same_store w w' \<Longrightarrow> Q () w') \<Longrightarrow> (\<And>e w'. same_store w w' \<Longrightarrow> E e w') \<Longrightarrow>
     wp (threads_audit sv cx a t i md) Q E w"
  by (rule wp_mono[OF threads_audit_same_store]) auto

lemma wpI_audit_inv [wp_intro]:
  "threads_inv sv w \<Longrightarrow> (\<And>w'. threads_inv sv w' \<Longrightarrow> Q () w') \<Longrightarrow> (\<And>e w'. threads_inv sv w' \<Longrightarrow> E e w') \<Longrightarrow>
     wp (threads_audit sv cx a t i md) Q E w"
  by (rule wp_audit_store) (simp_all add: threads_inv_cong)

lemma wpI_threads_now [wp_intro]:
  "(\<And>t. Q t (w\<lparr>ticks := Suc (ticks w)\<rparr>)) \<Longrightarrow> wp threads_now Q E w"
  by (simp add: threads_now_def wp_simps)

lemma wpI_checkWrite [wp_intro]:
  "Q () w \<Longrightarrow> (\<And>e. E e w) \<Longrightarrow> wp (threads_checkWrite sv cx rt ri) Q E w"
  by (simp add: threads_checkWrite_def wp_simps split: option.splits)

lemma wpI_validateTagParent [wp_intro]:
  "(walk_parents (svc_organizationID sv) tag_ParentID (tags w) [i] p = None \<Longrightarrow> Q () w) \<Longrightarrow>
   (\<And>e. walk_parents (svc_organizationID sv) tag_ParentID (tags w) [i] p = Some e \<Longrightarrow> E e w) \<Longrightarrow>
   wp (validateTagParent sv i p) Q E w"
  by (simp add: validateTagParent_def wp_def checkE_def split: option.splits)

lemma wpI_validateGoalParent [wp_intro]:
  "(walk_parents (svc_organizationID sv) goal_ParentID (goals w) [i] p = None \<Longrightarrow> Q () w) \<Longrightarrow>
   (\<And>e. walk_parents (svc_organizationID sv) goal_ParentID (goals w) [i] p = Some e \<Longrightarrow> E e w) \<Longrightarrow>
   wp (validateGoalParent sv i p) Q E w"
  by (simp add: validateGoalParent_def wp_def checkE_def split: option.splits)

lemma wpI_validateTarget [wp_intro]: "Q () w \<Longrightarrow> (\<And>e. E e w) \<Longrightarrow> wp (validateTarget sv tt ti) Q E w"
  by (simp add: validateTarget_def wp_simps split: option.splits)

lemma wpI_creationState [wp_intro]:
  "(\<And>now rev. Q (now, rev) w) \<Longrightarrow> (\<And>now rev. Q (now, rev) (w\<lparr>ticks := Suc (ticks w)\<rparr>)) \<Longrightarrow>
     wp (threads_creationState cx) Q E w"
  by (simp add: threads_creationState_def threads_now_def wp_simps split: option.splits)

lemma normalizeTagInput_Inr:
  "normalizeTagInput input = Inr n \<Longrightarrow>
     (cti_ID n = '''' \<or> stableIDPattern (cti_ID n)) \<and> validTextRange (cti_Name n) 1 100 \<and>
     (cti_ParentID n = '''' \<or> stableIDPattern (cti_ParentID n)) \<and>
     n = input\<lparr>cti_ID := TrimSpace (cti_ID input), cti_Name := TrimSpace (cti_Name input), cti_ParentID := TrimSpace (cti_ParentID input)\<rparr>"
  by (auto simp: normalizeTagInput_def Let_def split: if_splits)

lemma normalizeGoalInput_Inr:
  "normalizeGoalInput input = Inr n \<Longrightarrow>
     (cgi_ID n = '''' \<or> stableIDPattern (cgi_ID n)) \<and> validTextRange (cgi_Name n) 1 160 \<and>
     (cgi_ParentID n = '''' \<or> stableIDPattern (cgi_ParentID n)) \<and>
     n = input\<lparr>cgi_ID := TrimSpace (cgi_ID input), cgi_Name := TrimSpace (cgi_Name input),
       cgi_Description := TrimSpace (cgi_Description input), cgi_ParentID := TrimSpace (cgi_ParentID input)\<rparr>"
  by (auto simp: normalizeGoalInput_def Let_def split: if_splits)

lemma correlation_stable: "stableIDPattern (hex_encode (fill_buffer b))"
  by (simp add: stableIDPattern_def correlation_id)

text \<open>The writes, with what the service has checked before each of them.\<close>

lemma store_inv_create_tag:
  "store_inv u org tm gm rm lm \<Longrightarrow> tag_OrganizationID t = org \<Longrightarrow> stableIDPattern (tag_ID t) \<Longrightarrow>
   map_of tm (tag_key t) = None \<Longrightarrow> \<not> tagNameConflict u tm t '''' \<Longrightarrow>
   (tag_ParentID t \<noteq> '''' \<Longrightarrow> map_of tm (threadsRecordKey org (tag_ParentID t)) \<noteq> None) \<Longrightarrow>
   store_inv u org (AList.update (tag_key t) t tm) gm rm lm"
  by (auto simp: store_inv_def intro: tags_ok_create rules_ok_tags)

lemma store_inv_update_tag:
  "store_inv u org tm gm rm lm \<Longrightarrow> tag_OrganizationID t = org \<Longrightarrow> stableIDPattern (tag_ID t) \<Longrightarrow>
   \<not> tagNameConflict u tm t (tag_ID t) \<Longrightarrow>
   walk_parents org tag_ParentID tm [tag_ID t] (tag_ParentID t) = None \<Longrightarrow>
   store_inv u org (AList.update (tag_key t) t tm) gm rm lm"
  by (auto simp: store_inv_def intro: tags_ok_update rules_ok_tags)

lemma store_inv_create_goal:
  "store_inv u org tm gm rm lm \<Longrightarrow> goal_OrganizationID g = org \<Longrightarrow> stableIDPattern (goal_ID g) \<Longrightarrow>
   map_of gm (goal_key g) = None \<Longrightarrow> \<not> goalNameConflict u gm g '''' \<Longrightarrow>
   (goal_ParentID g \<noteq> '''' \<Longrightarrow> map_of gm (threadsRecordKey org (goal_ParentID g)) \<noteq> None) \<Longrightarrow>
   store_inv u org tm (AList.update (goal_key g) g gm) rm lm"
  by (auto simp: store_inv_def intro: goals_ok_create links_ok_goals)

lemma store_inv_update_goal:
  "store_inv u org tm gm rm lm \<Longrightarrow> goal_OrganizationID g = org \<Longrightarrow> stableIDPattern (goal_ID g) \<Longrightarrow>
   \<not> goalNameConflict u gm g (goal_ID g) \<Longrightarrow>
   walk_parents org goal_ParentID gm [goal_ID g] (goal_ParentID g) = None \<Longrightarrow>
   store_inv u org tm (AList.update (goal_key g) g gm) rm lm"
  by (auto simp: store_inv_def intro: goals_ok_update links_ok_goals)

lemma store_inv_put_rule:
  "store_inv u org tm gm rm lm \<Longrightarrow> rule_ok org tm r \<Longrightarrow> k = rule_key r \<Longrightarrow> store_inv u org tm gm (AList.update k r rm) lm"
  by (auto simp: store_inv_def intro: rules_ok_put)

lemma store_inv_put_link:
  "store_inv u org tm gm rm lm \<Longrightarrow> link_ok org gm l \<Longrightarrow> k = link_key l \<Longrightarrow> store_inv u org tm gm rm (AList.update k l lm)"
  by (auto simp: store_inv_def intro: links_ok_put)

lemma store_inv_delete:
  "store_inv u org tm gm rm lm \<Longrightarrow> store_inv u org tm gm (AList.delete k rm) lm"
  "store_inv u org tm gm rm lm \<Longrightarrow> store_inv u org tm gm rm (AList.delete k lm)"
  by (auto simp: store_inv_def intro: rules_ok_delete links_ok_delete)

text \<open>Accepted identifiers hold no NUL byte, so a record key determines organization and identifier.\<close>

lemma stable_no_nul: "stableIDPattern s \<Longrightarrow> CHR 0x00 \<notin> set s"
  by (simp add: stableIDPattern_def match_id_no_nul)

lemma threadsRecordKey_eq:
  "stableIDPattern a \<Longrightarrow> stableIDPattern b \<Longrightarrow> threadsRecordKey org a = threadsRecordKey org' b \<longleftrightarrow> org = org' \<and> a = b"
  using separator_split[of org "CHR 0x00" a org' b] by (auto simp: threadsRecordKey_def dest: stable_no_nul)

lemma store_inv_lookup_tag:
  "store_inv u org tm gm rm lm \<Longrightarrow> map_of tm (threadsRecordKey org' i) = Some t \<Longrightarrow> stableIDPattern i \<Longrightarrow>
     tag_OrganizationID t = org' \<and> tag_ID t = i"
  by (auto simp: store_inv_def tags_ok_def tag_key_def threadsRecordKey_eq dest!: well_keyed_lookup dest: map_of_vals)

lemma store_inv_lookup_goal:
  "store_inv u org tm gm rm lm \<Longrightarrow> map_of gm (threadsRecordKey org' i) = Some g \<Longrightarrow> stableIDPattern i \<Longrightarrow>
     goal_OrganizationID g = org' \<and> goal_ID g = i"
  by (auto simp: store_inv_def goals_ok_def goal_key_def threadsRecordKey_eq dest!: well_keyed_lookup dest: map_of_vals)

end
