(* ===== verification/Threads_Steps.thy ===== *)
theory Threads_Steps
  imports Threads_Invariant
begin

text \<open>
  Every operation of the Threads service and of its importer keeps the invariant, whether it succeeds or
  fails. \<open>threads_step\<close> has one rule per operation; the invariant holds in every state that is reachable from
  a store with no records.
\<close>

lemma CreateTag_inv:
  assumes inv: "threads_inv sv w"
  shows "wp (CreateTag sv cx input) (\<lambda>_. threads_inv sv) (\<lambda>_. threads_inv sv) w"
  unfolding CreateTag_def
  apply (intro wp_intro)
  using inv
  by (auto simp: threads_inv_def correlation_stable dest!: normalizeTagInput_Inr intro!: store_inv_create_tag)

lemma CreateGoal_inv:
  assumes inv: "threads_inv sv w"
  shows "wp (CreateGoal sv cx input) (\<lambda>_. threads_inv sv) (\<lambda>_. threads_inv sv) w"
  unfolding CreateGoal_def
  apply (intro wp_intro)
  using inv
  by (auto simp: threads_inv_def correlation_stable dest!: normalizeGoalInput_Inr intro!: store_inv_create_goal)

lemma UpdateTag_inv:
  assumes inv: "threads_inv sv w"
  shows "wp (UpdateTag sv cx input) (\<lambda>_. threads_inv sv) (\<lambda>_. threads_inv sv) w"
  unfolding UpdateTag_def
  apply (intro wp_intro)
  using inv
  by (auto simp: threads_inv_def dest!: normalizeTagInput_Inr dest: store_inv_lookup_tag intro!: store_inv_update_tag)

lemma UpdateGoal_inv:
  assumes inv: "threads_inv sv w"
  shows "wp (UpdateGoal sv cx input) (\<lambda>_. threads_inv sv) (\<lambda>_. threads_inv sv) w"
  unfolding UpdateGoal_def
  apply (intro wp_intro)
  using inv
  by (auto simp: threads_inv_def dest!: normalizeGoalInput_Inr dest: store_inv_lookup_goal intro!: store_inv_update_goal)

lemma SetTagRule_inv:
  assumes inv: "threads_inv sv w"
  shows "wp (SetTagRule sv cx input) (\<lambda>_. threads_inv sv) (\<lambda>_. threads_inv sv) w"
  unfolding SetTagRule_def
  apply (intro wp_intro)
  using inv
  by (auto simp: threads_inv_def rule_ok_def rule_key_def intro!: store_inv_put_rule)

lemma DeleteTagRule_inv:
  assumes inv: "threads_inv sv w"
  shows "wp (DeleteTagRule sv cx tt ti tg n) (\<lambda>_. threads_inv sv) (\<lambda>_. threads_inv sv) w"
  unfolding DeleteTagRule_def
  apply (intro wp_intro)
  using inv
  by (auto simp: threads_inv_def intro!: store_inv_delete)

lemma LinkGoal_inv:
  assumes inv: "threads_inv sv w"
  shows "wp (LinkGoal sv cx input) (\<lambda>_. threads_inv sv) (\<lambda>_. threads_inv sv) w"
  unfolding LinkGoal_def
  apply (intro wp_intro)
  using inv
  by (auto simp: threads_inv_def link_ok_def link_key_def intro!: store_inv_put_link)

lemma UnlinkGoal_inv:
  assumes inv: "threads_inv sv w"
  shows "wp (UnlinkGoal sv cx tt ti g) (\<lambda>_. threads_inv sv) (\<lambda>_. threads_inv sv) w"
  unfolding UnlinkGoal_def
  apply (intro wp_intro)
  using inv
  by (auto simp: threads_inv_def intro!: store_inv_delete)

section \<open>Imports\<close>

lemma wpI_CreateTag:
  "threads_inv sv w \<Longrightarrow> (\<And>t w'. threads_inv sv w' \<Longrightarrow> Q t w') \<Longrightarrow> (\<And>e w'. threads_inv sv w' \<Longrightarrow> E e w') \<Longrightarrow>
     wp (CreateTag sv cx input) Q E w"
  by (rule wp_mono[OF CreateTag_inv])

lemma wpI_CreateGoal:
  "threads_inv sv w \<Longrightarrow> (\<And>t w'. threads_inv sv w' \<Longrightarrow> Q t w') \<Longrightarrow> (\<And>e w'. threads_inv sv w' \<Longrightarrow> E e w') \<Longrightarrow>
     wp (CreateGoal sv cx input) Q E w"
  by (rule wp_mono[OF CreateGoal_inv])

lemma wpI_reads:
  "(\<And>e. E e w) \<Longrightarrow> (\<And>t. Q t w) \<Longrightarrow> wp (GetTag sv i) Q E w"
  "(\<And>e. E' e w) \<Longrightarrow> (\<And>g. Q' g w) \<Longrightarrow> wp (GetGoal sv i) Q' E' w"
  "(\<And>r. Q1 r w) \<Longrightarrow> wp (getTagRule sv tt ti tg) Q1 E1 w"
  "(\<And>l. Q2 l w) \<Longrightarrow> wp (getGoalLink sv tt ti g) Q2 E2 w"
  by (simp_all add: GetTag_def GetGoal_def getTagRule_def getGoalLink_def storeListTagRules_def
      storeListGoalLinks_def wp_simps Let_def split: option.splits)

lemma ImportTag_inv:
  assumes inv: "threads_inv sv w"
  shows "wp (ImportTag sv cx oper cand) (\<lambda>_. threads_inv sv) (\<lambda>_. threads_inv sv) w"
  unfolding ImportTag_def
  by (intro wpI_attempt_case wp_intro wpI_CreateTag wpI_reads inv) assumption+

lemma ImportGoal_inv:
  assumes inv: "threads_inv sv w"
  shows "wp (ImportGoal sv cx oper cand) (\<lambda>_. threads_inv sv) (\<lambda>_. threads_inv sv) w"
  unfolding ImportGoal_def
  by (intro wpI_attempt_case wp_intro wpI_CreateGoal wpI_reads inv) assumption+

lemma ImportTagRule_inv:
  assumes inv: "threads_inv sv w"
  shows "wp (ImportTagRule sv cx oper cand) (\<lambda>_. threads_inv sv) (\<lambda>_. threads_inv sv) w"
  unfolding ImportTagRule_def auditTagRuleImport_def reobserveTagRule_def
  apply (intro wpI_attempt_case wp_intro wpI_reads inv)
  using inv
  by (auto simp: threads_inv_def rule_ok_def rule_key_def validExchangeTagRule_def intro!: store_inv_put_rule)

lemma ImportGoalLink_inv:
  assumes inv: "threads_inv sv w"
  shows "wp (ImportGoalLink sv cx oper cand) (\<lambda>_. threads_inv sv) (\<lambda>_. threads_inv sv) w"
  unfolding ImportGoalLink_def auditGoalLinkImport_def reobserveGoalLink_def
  apply (intro wpI_attempt_case wp_intro wpI_reads inv)
  using inv
  by (auto simp: threads_inv_def link_ok_def link_key_def validExchangeGoalLink_def intro!: store_inv_put_link)

section \<open>Reachable states\<close>

inductive threads_step :: "threads_service \<Rightarrow> threads_world \<Rightarrow> threads_world \<Rightarrow> bool" for sv where
  step_CreateTag: "threads_step sv w (snd (CreateTag sv cx input w))"
| step_UpdateTag: "threads_step sv w (snd (UpdateTag sv cx input w))"
| step_CreateGoal: "threads_step sv w (snd (CreateGoal sv cx input w))"
| step_UpdateGoal: "threads_step sv w (snd (UpdateGoal sv cx input w))"
| step_SetTagRule: "threads_step sv w (snd (SetTagRule sv cx input w))"
| step_DeleteTagRule: "threads_step sv w (snd (DeleteTagRule sv cx tt ti tg n w))"
| step_LinkGoal: "threads_step sv w (snd (LinkGoal sv cx input w))"
| step_UnlinkGoal: "threads_step sv w (snd (UnlinkGoal sv cx tt ti g w))"
| step_ImportTag: "threads_step sv w (snd (ImportTag sv cx oper tag w))"
| step_ImportGoal: "threads_step sv w (snd (ImportGoal sv cx oper goal w))"
| step_ImportTagRule: "threads_step sv w (snd (ImportTagRule sv cx oper rule w))"
| step_ImportGoalLink: "threads_step sv w (snd (ImportGoalLink sv cx oper link w))"

definition empty_store :: "threads_world \<Rightarrow> bool" where
  "empty_store w \<longleftrightarrow> tags w = [] \<and> goals w = [] \<and> tagRules w = [] \<and> goalLinks w = []"

lemma threads_step_inv: "threads_step sv w w' \<Longrightarrow> threads_inv sv w \<Longrightarrow> threads_inv sv w'"
  by (induction rule: threads_step.induct)
    (rule wp_snd, rule CreateTag_inv UpdateTag_inv CreateGoal_inv UpdateGoal_inv SetTagRule_inv DeleteTagRule_inv
      LinkGoal_inv UnlinkGoal_inv ImportTag_inv ImportGoal_inv ImportTagRule_inv ImportGoalLink_inv, assumption)+

lemma empty_store_inv: "empty_store w \<Longrightarrow> threads_inv sv w"
  by (simp add: empty_store_def threads_inv_def store_inv_def tags_ok_def goals_ok_def rules_ok_def links_ok_def)

lemma threads_reachable_inv: "(threads_step sv)\<^sup>*\<^sup>* w0 w \<Longrightarrow> empty_store w0 \<Longrightarrow> threads_inv sv w"
  by (induction rule: rtranclp_induct) (auto simp: empty_store_inv dest: threads_step_inv)

end
