(* ===== verification/Audit_Log.thy ===== *)
theory Audit_Log
  imports Foundation
begin

text \<open>
  What the audit log holds after an operation. \<open>audited\<close> says that the log has an event for an action on a resource of the
  organization, and \<open>log_grows\<close> that a log continues an earlier one.
\<close>

definition audited :: "string \<Rightarrow> string \<Rightarrow> string \<Rightarrow> string \<Rightarrow> AuditEvent list \<Rightarrow> bool" where
  "audited org action rtype rid log \<longleftrightarrow> (\<exists>e \<in> set log. ae_OrganizationID e = org \<and> ae_Action e = action \<and>
     ae_ResourceType e = rtype \<and> ae_ResourceID e = rid)"

definition log_grows :: "AuditEvent list \<Rightarrow> AuditEvent list \<Rightarrow> bool" where
  "log_grows log log' \<longleftrightarrow> (\<exists>evs. log' = log @ evs)"

lemma log_grows_refl [simp]: "log_grows log log"
  by (simp add: log_grows_def)

lemma log_grows_trans: "log_grows a b \<Longrightarrow> log_grows b c \<Longrightarrow> log_grows a c"
  by (auto simp: log_grows_def)

lemma AuditorRecord_recorded:
  "wp (AuditorRecord ev)
     (\<lambda>_ w'. log_grows (audits w) (audits w') \<and>
        audited (ae_OrganizationID ev) (ae_Action ev) (ae_ResourceType ev) (ae_ResourceID ev) (audits w'))
     (\<lambda>_ w'. log_grows (audits w) (audits w')) w"
proof -
  have "audited (ae_OrganizationID ev) (ae_Action ev) (ae_ResourceType ev) (ae_ResourceID ev) (audits w')"
    if "AuditorRecord ev w = (Inr (), w')" for w'
    using AuditorRecord_Inr[OF that] by (auto simp: audited_def audit_identical_def)
  moreover have "log_grows (audits w) (audits w')" if "AuditorRecord ev w = (r, w')" for r w'
    using that unfolding log_grows_def by (metis AuditorRecord_append snd_conv)
  ultimately show ?thesis by (auto simp: wp_iff)
qed

end
