(* ===== verification/Threads_Audit.thy ===== *)
theory Threads_Audit
  imports Threads_Steps Audit_Log
begin

text \<open>
  What the audit log holds after an operation of the Threads service, and what a failed operation leaves
  behind.
\<close>

lemma threads_audit_recorded:
  "wp (threads_audit sv cx a t i md)
     (\<lambda>_ w'. same_store w w' \<and> log_grows (audits w) (audits w') \<and> audited (svc_organizationID sv) a t i (audits w'))
     (\<lambda>_ w'. same_store w w' \<and> log_grows (audits w) (audits w')) w"
proof -
  have "wp (threads_audit sv cx a t i md)
     (\<lambda>_ w'. log_grows (audits w) (audits w') \<and> audited (svc_organizationID sv) a t i (audits w'))
     (\<lambda>_ w'. log_grows (audits w) (audits w')) w"
    by (auto simp: threads_audit_def threads_now_def wp_simps Let_def split: option.splits
        intro!: wp_mono[OF AuditorRecord_recorded])
  from wp_conj[OF threads_audit_same_store this] show ?thesis by (rule wp_mono) auto
qed

lemma wpI_audit_recorded:
  "(\<And>w'. same_store w w' \<Longrightarrow> log_grows (audits w) (audits w') \<Longrightarrow> audited (svc_organizationID sv) a t i (audits w') \<Longrightarrow> Q () w') \<Longrightarrow>
   (\<And>e w'. same_store w w' \<Longrightarrow> log_grows (audits w) (audits w') \<Longrightarrow> E e w') \<Longrightarrow> wp (threads_audit sv cx a t i md) Q E w"
  by (rule wp_mono[OF threads_audit_recorded]) auto

section \<open>Success is audited, and a failure before the audit changes nothing\<close>

text \<open>The outcome of a write: on success the event is in the log; on failure either nothing was stored, or the
  failure is the one of the audit and carries the message of that stage. The log only grows.\<close>

definition write_outcome :: "threads_service \<Rightarrow> string \<Rightarrow> string \<Rightarrow> ('a \<Rightarrow> string) \<Rightarrow> string \<Rightarrow> threads_world \<Rightarrow>
    (threads_error + 'a) \<times> threads_world \<Rightarrow> bool" where
  "write_outcome sv action rtype rid stage w out \<longleftrightarrow>
     log_grows (audits w) (audits (snd out)) \<and>
     (case fst out of
        Inr a \<Rightarrow> audited (svc_organizationID sv) action rtype (rid a) (audits (snd out))
      | Inl e \<Rightarrow> same_store w (snd out) \<or> (\<exists>e'. e = Wrapf stage e'))"

lemma write_outcomeI:
  assumes "wp m
    (\<lambda>a w'. log_grows (audits w) (audits w') \<and> audited (svc_organizationID sv) action rtype (rid a) (audits w'))
    (\<lambda>e w'. log_grows (audits w) (audits w') \<and> (same_store w w' \<or> (\<exists>e'. e = Wrapf stage e'))) w"
  shows "write_outcome sv action rtype rid stage w (m w)"
  using assms by (auto simp: wp_def write_outcome_def split: prod.splits sum.splits)

lemmas outcome_rules = wpI_audit_recorded wp_intro

lemma CreateTag_outcome:
  "write_outcome sv ''threads.tag.created'' ''tag'' tag_ID ''audit tag creation'' w (CreateTag sv cx input w)"
  unfolding CreateTag_def
  by (rule write_outcomeI, intro outcome_rules) (auto simp: same_store_def)

lemma UpdateTag_outcome:
  "write_outcome sv ''threads.tag.updated'' ''tag'' tag_ID ''audit tag update'' w (UpdateTag sv cx input w)"
  unfolding UpdateTag_def
  by (rule write_outcomeI, intro outcome_rules) (auto simp: same_store_def)

lemma CreateGoal_outcome:
  "write_outcome sv ''threads.goal.created'' ''goal'' goal_ID ''audit goal creation'' w (CreateGoal sv cx input w)"
  unfolding CreateGoal_def
  by (rule write_outcomeI, intro outcome_rules) (auto simp: same_store_def)

lemma UpdateGoal_outcome:
  "write_outcome sv ''threads.goal.updated'' ''goal'' goal_ID ''audit goal update'' w (UpdateGoal sv cx input w)"
  unfolding UpdateGoal_def
  by (rule write_outcomeI, intro outcome_rules) (auto simp: same_store_def)

lemma SetTagRule_outcome:
  "write_outcome sv ''threads.tag.rule.set'' ''tag-rule'' (\<lambda>r. rule_TargetID r @ '':'' @ rule_TagID r) ''audit tag rule'' w
     (SetTagRule sv cx input w)"
  unfolding SetTagRule_def
  by (rule write_outcomeI, intro outcome_rules) (auto simp: same_store_def)

section \<open>The log over a run\<close>

lemma outcome_grows: "write_outcome sv a t i s w out \<Longrightarrow> log_grows (audits w) (audits (snd out))"
  by (simp add: write_outcome_def)

lemma wpI_CreateTag_log:
  "(\<And>t w'. log_grows (audits w) (audits w') \<Longrightarrow> Q t w') \<Longrightarrow> (\<And>e w'. log_grows (audits w) (audits w') \<Longrightarrow> E e w') \<Longrightarrow>
     wp (CreateTag sv cx input) Q E w"
  using outcome_grows[OF CreateTag_outcome[of sv w cx input]] by (auto simp: wp_iff)

lemma wpI_CreateGoal_log:
  "(\<And>t w'. log_grows (audits w) (audits w') \<Longrightarrow> Q t w') \<Longrightarrow> (\<And>e w'. log_grows (audits w) (audits w') \<Longrightarrow> E e w') \<Longrightarrow>
     wp (CreateGoal sv cx input) Q E w"
  using outcome_grows[OF CreateGoal_outcome[of sv w cx input]] by (auto simp: wp_iff)

lemmas log_rules = wpI_attempt_case wpI_audit_recorded wp_intro wpI_reads wpI_CreateTag_log wpI_CreateGoal_log

lemma rest_grow:
  "log_grows (audits w) (audits (snd (DeleteTagRule sv cx tt ti tg n w)))"
  "log_grows (audits w) (audits (snd (LinkGoal sv cx lg w)))"
  "log_grows (audits w) (audits (snd (UnlinkGoal sv cx tt ti g w)))"
  unfolding DeleteTagRule_def LinkGoal_def UnlinkGoal_def by (rule wp_snd, intro log_rules, simp_all)+

lemma imports_grow:
  "log_grows (audits w) (audits (snd (ImportTag sv cx oper tag w)))"
  "log_grows (audits w) (audits (snd (ImportGoal sv cx oper goal w)))"
  "log_grows (audits w) (audits (snd (ImportTagRule sv cx oper rule w)))"
  "log_grows (audits w) (audits (snd (ImportGoalLink sv cx oper link w)))"
  unfolding ImportTag_def ImportGoal_def ImportTagRule_def ImportGoalLink_def auditTagRuleImport_def
    auditGoalLinkImport_def reobserveTagRule_def reobserveGoalLink_def
  by (rule wp_snd, intro log_rules, simp_all)+

lemma threads_step_log: "threads_step sv w w' \<Longrightarrow> log_grows (audits w) (audits w')"
  by (induction rule: threads_step.induct)
    (simp_all add: rest_grow imports_grow outcome_grows[OF CreateTag_outcome] outcome_grows[OF UpdateTag_outcome]
      outcome_grows[OF CreateGoal_outcome] outcome_grows[OF UpdateGoal_outcome] outcome_grows[OF SetTagRule_outcome])

lemma threads_run_log: "(threads_step sv)\<^sup>*\<^sup>* w w' \<Longrightarrow> log_grows (audits w) (audits w')"
  by (induction rule: rtranclp_induct) (auto dest: threads_step_log log_grows_trans)

section \<open>A closed write gate\<close>

definition refused :: "threads_world \<Rightarrow> (threads_error + 'a) \<times> threads_world \<Rightarrow> bool" where
  "refused w out \<longleftrightarrow> isl (fst out) \<and> same_store w (snd out) \<and> audits (snd out) = audits w"

definition closed_gate :: "threads_service \<Rightarrow> bool" where
  "closed_gate sv \<longleftrightarrow> (\<exists>gate. svc_writes sv = Some gate \<and> (\<forall>t i. \<exists>e. gate t i = Some e))"

lemma refusedI:
  "wp m (\<lambda>_ _. False) (\<lambda>_ w'. same_store w w' \<and> audits w' = audits w) w \<Longrightarrow> refused w (m w)"
  by (auto simp: wp_def refused_def split: prod.splits sum.splits)

lemma wpI_gate_closed:
  "closed_gate sv \<Longrightarrow> cx_import cx = None \<Longrightarrow> (\<And>e. E e w) \<Longrightarrow> wp (threads_checkWrite sv cx rt ri) Q E w"
  by (auto simp: closed_gate_def threads_checkWrite_def wp_simps split: option.splits) (metis option.distinct(1))

lemma gate_refuses:
  assumes "closed_gate sv" "cx_import cx = None"
  shows "refused w (CreateTag sv cx ct w)" "refused w (UpdateTag sv cx ut w)" "refused w (CreateGoal sv cx cg w)"
    "refused w (UpdateGoal sv cx ug w)" "refused w (SetTagRule sv cx sr w)" "refused w (DeleteTagRule sv cx tt ti tg n w)"
    "refused w (LinkGoal sv cx lg w)" "refused w (UnlinkGoal sv cx tt ti g w)"
  unfolding CreateTag_def UpdateTag_def CreateGoal_def UpdateGoal_def SetTagRule_def DeleteTagRule_def LinkGoal_def UnlinkGoal_def
  by (rule refusedI, intro wpI_gate_closed[OF assms] wp_intro, simp_all add: same_store_def)+

section \<open>Replayed imports\<close>

text \<open>An event that was recorded is accepted again without a second entry.\<close>

lemma find_snoc: "find P (xs @ [x]) = (case find P xs of None \<Rightarrow> if P x then Some x else None | Some y \<Rightarrow> Some y)"
  by (induction xs) auto

lemma find_id: "ae_ID ev \<in> ae_ID ` set log \<longleftrightarrow> find (\<lambda>e. ae_ID e = ae_ID ev) log \<noteq> None"
  by (induction log) auto

lemma AuditorRecord_replay:
  assumes first: "AuditorRecord ev w0 = (Inr (), w1)" and same: "audits w2 = audits w1"
    and quiet: "audit_faults w2 (audit_calls w2) = None"
  shows "AuditorRecord ev w2 = (Inr (), w2\<lparr>audit_calls := Suc (audit_calls w2)\<rparr>)"
proof -
  have "audit_complete ev \<and> (\<exists>e. find (\<lambda>e. ae_ID e = ae_ID ev) (audits w1) = Some e \<and> audit_identical e ev)"
    using first
    by (auto simp: AuditorRecord_def Let_def audit_insert_def find_id find_snoc
        split: option.splits audit_fault.splits if_splits)
  then show ?thesis using same quiet
    by (auto simp: AuditorRecord_def Let_def audit_insert_def find_id)
qed

definition import_event :: "threads_service \<Rightarrow> ThreadsImportOperation \<Rightarrow> Tag \<Rightarrow> AuditEvent" where
  "import_event sv oper t =
     \<lparr>ae_ID = threads_exchangeAuditEventID sv oper ''threads.tag.created'' ''tag'' (tag_ID t),
      ae_OrganizationID = svc_organizationID sv, ae_ActorID = ''system:exchange'', ae_CorrelationID = op_Token oper,
      ae_Action = ''threads.tag.created'', ae_ResourceType = ''tag'', ae_ResourceID = tag_ID t,
      ae_OccurredAt = op_OccurredAt oper,
      ae_Metadata = AList.update ''requirementId'' ''REQ-THREADS-001''
        [(''parentId'', tag_ParentID t), (''revision'', FormatInt (tag_Revision t))]\<rparr>"

lemma import_audit:
  "threads_audit sv (threads_withImport cx oper n) ''threads.tag.created'' ''tag'' (tag_ID t)
     [(''parentId'', tag_ParentID t), (''revision'', FormatInt (tag_Revision t))] = AuditorRecord (import_event sv oper t)"
  by (simp add: threads_audit_def threads_withImport_def import_event_def)

lemma import_event_same: "sameExchangeTag t t' \<Longrightarrow> import_event sv oper t = import_event sv oper t'"
  by (simp add: import_event_def sameExchangeTag_def)

definition imported :: "threads_service \<Rightarrow> ThreadsImportOperation \<Rightarrow> Tag \<Rightarrow> threads_world \<Rightarrow> bool" where
  "imported sv oper0 cand w \<longleftrightarrow>
     (\<exists>oper existing (w0 :: threads_world) w1. threads_normalizeImport oper0 = Inr oper \<and> validExchangeTag cand \<and> stableIDPattern (tag_ID cand) \<and>
        map_of (tags w) (threadsRecordKey (svc_organizationID sv) (tag_ID cand)) = Some existing \<and>
        sameExchangeTag existing cand \<and>
        AuditorRecord (import_event sv oper cand) w0 = (Inr () :: threads_error + unit, w1) \<and> audits w1 = audits w)"

lemma importedI:
  "threads_normalizeImport oper0 = Inr oper \<Longrightarrow> validExchangeTag cand \<Longrightarrow> stableIDPattern (tag_ID cand) \<Longrightarrow>
   AuditorRecord ev w0 = (Inr () :: threads_error + unit, w) \<Longrightarrow> ev = import_event sv oper cand \<Longrightarrow>
   map_of (tags w) (threadsRecordKey (svc_organizationID sv) (tag_ID cand)) = Some existing \<Longrightarrow>
   sameExchangeTag existing cand \<Longrightarrow> imported sv oper0 cand w"
  unfolding imported_def by blast

lemma imported_again:
  assumes "AuditorRecord (import_event sv oper t) w0 = (Inr () :: threads_error + unit, w)" and "sameExchangeTag t cand"
    and "threads_normalizeImport oper0 = Inr oper" "validExchangeTag cand" "stableIDPattern (tag_ID cand)"
    and "map_of (tags w0) (threadsRecordKey (svc_organizationID sv) (tag_ID cand)) = Some t" "tags w = tags w0"
  shows "imported sv oper0 cand w"
  by (rule importedI[OF assms(3-5,1)]) (use assms import_event_same[OF assms(2)] in simp_all)

lemma wp_AuditorRecord_inv:
  assumes "\<And>w'. AuditorRecord ev w = (Inr () :: threads_error + unit, w') \<Longrightarrow> same_store w w' \<Longrightarrow> Q () w'"
    and "\<And>e w'. same_store w w' \<Longrightarrow> E e w'"
  shows "wp (AuditorRecord ev :: unit threads_op) Q E w"
  by (rule wp_mono[OF wp_conj[OF wp_result AuditorRecord_same_store]]) (use assms in auto)

lemma CreateTag_imported:
  assumes "cx_import cx = Some \<lparr>ic_operation = oper, ic_revision = tag_Revision cand\<rparr>" and "validExchangeTag cand"
    and "stableIDPattern (tag_ID cand)" and "threads_normalizeImport oper0 = Inr oper"
  shows "wp (CreateTag sv cx \<lparr>cti_ID = tag_ID cand, cti_Name = tag_Name cand, cti_ParentID = tag_ParentID cand,
      cti_InheritByDefault = tag_InheritByDefault cand\<rparr>) (\<lambda>_. imported sv oper0 cand) (\<lambda>_ _. True) w"
proof -
  have n: "normalizeTagInput \<lparr>cti_ID = tag_ID cand, cti_Name = tag_Name cand, cti_ParentID = tag_ParentID cand,
      cti_InheritByDefault = tag_InheritByDefault cand\<rparr> = Inr \<lparr>cti_ID = tag_ID cand, cti_Name = tag_Name cand,
      cti_ParentID = tag_ParentID cand, cti_InheritByDefault = tag_InheritByDefault cand\<rparr>" and rev: "tag_Revision cand \<ge> 1"
    using assms(2) by (auto simp: validExchangeTag_def split: sum.splits dest!: normalizeTagInput_Inr)
  have ne: "tag_ID cand \<noteq> ''''" using assms(3) by (auto simp: stableIDPattern_def match_head_tail_def)
  show ?thesis
    unfolding CreateTag_def threads_creationState_def threads_audit_def n
    apply (intro wp_AuditorRecord_inv wp_intro)
    using assms rev ne
    by (auto simp: same_store_def tag_key_def sameExchangeTag_def import_event_def
        intro!: importedI[where oper = oper])
qed

lemma validExchangeTag_id: "validExchangeTag cand \<Longrightarrow> tag_ID cand = '''' \<or> stableIDPattern (tag_ID cand)"
  by (auto simp: validExchangeTag_def split: sum.splits dest!: normalizeTagInput_Inr)

lemma wp_GetTag:
  "stableIDPattern i \<Longrightarrow> wp (GetTag sv i) Q E w =
     (case map_of (tags w) (threadsRecordKey (svc_organizationID sv) i) of
        None \<Rightarrow> E (Sentinel ThreadsErrNotFound) w | Some t \<Rightarrow> Q t w)"
  by (simp add: GetTag_def wp_simps stableIDPattern_def match_id_trim)

lemma wp_GetTag_empty: "wp (GetTag sv '''') Q E w = E (Sentinel ThreadsErrInvalidInput) w"
  by (simp add: GetTag_def wp_simps stableIDPattern_def match_head_tail_def)

lemma ImportTag_imported:
  "wp (ImportTag sv cx oper0 cand) (\<lambda>(res, err) w'. res_Committed res \<and> err = None \<longrightarrow> imported sv oper0 cand w') (\<lambda>_ _. True) w"
proof (cases "tag_ID cand = ''''")
  case True
  then show ?thesis
    by (auto simp: ImportTag_def wp_simps wp_GetTag_empty threads_no_result_def Let_def split: sum.splits)
next
  case False
  show ?thesis
  proof (cases "validExchangeTag cand")
    case valid: True
    with False have st: "stableIDPattern (tag_ID cand)" by (auto dest: validExchangeTag_id)
    show ?thesis
    proof (cases "map_of (tags w) (threadsRecordKey (svc_organizationID sv) (tag_ID cand))")
      case None
      then show ?thesis
        using valid st
        by (auto simp: ImportTag_def wp_simps wp_GetTag threads_no_result_def Let_def threads_withImport_def
            split: sum.splits option.splits intro!: wp_mono[OF CreateTag_imported])
    next
      case (Some t)
      then show ?thesis
        using valid st
        by (auto simp: ImportTag_def wp_simps wp_GetTag threads_no_result_def Let_def import_audit err_of_def same_store_def
            split: sum.splits option.splits intro!: wp_AuditorRecord_inv elim: imported_again)
    qed
  qed (auto simp: ImportTag_def wp_simps threads_no_result_def split: sum.splits)
qed

lemma ImportTag_replay:
  assumes "imported sv oper0 cand w" and quiet: "audit_faults w (audit_calls w) = None"
  shows "ImportTag sv cx oper0 cand w =
    (Inr (\<lparr>res_Committed = True, res_Created = False\<rparr>, None), w\<lparr>audit_calls := Suc (audit_calls w)\<rparr>)"
proof -
  obtain oper t w0 w1 where i: "threads_normalizeImport oper0 = Inr oper" "validExchangeTag cand" "stableIDPattern (tag_ID cand)"
      "map_of (tags w) (threadsRecordKey (svc_organizationID sv) (tag_ID cand)) = Some t" "sameExchangeTag t cand"
      "AuditorRecord (import_event sv oper cand) (w0 :: threads_world) = (Inr () :: threads_error + unit, w1)" "audits w1 = audits w"
    using assms(1) unfolding imported_def by blast
  have "AuditorRecord (import_event sv oper t) w = (Inr () :: threads_error + unit, w\<lparr>audit_calls := Suc (audit_calls w)\<rparr>)"
    using AuditorRecord_replay[OF i(6) _ quiet] i(7) import_event_same[OF i(5)] by simp
  then show ?thesis using i(1-5)
    by (simp add: ImportTag_def tryE_def attemptE_def GetTag_def storeGetTag_def queryE_def returnE_def import_audit err_of_def
        stableIDPattern_def match_id_trim Let_def)
qed

end
