(* ===== verification/Threads_Effective.thy ===== *)
theory Threads_Effective
  imports Threads_Evaluate
begin

text \<open>
  What \<open>evaluateTags\<close> computes. \<open>ancestor_ids\<close> lists the tags the inner loop visits; they are the proper
  ancestors of the included tag. The invariant \<open>eval_ok\<close> of the accumulated result is indexed by the
  sources seen so far for each tag: a tag with a direct rule can only carry that rule, a tag without one is
  inherited from the smallest source, and it is absent when there is no source or it does not inherit.
\<close>

definition tag_edges :: "(string, Tag) gomap \<Rightarrow> (string \<times> string) set" where
  "tag_edges byID = {(c, p). p \<noteq> '''' \<and> (\<exists>t. map_of byID c = Some t \<and> tag_ParentID t = p)}"

definition direct_state :: "TagRule \<Rightarrow> string" where
  "direct_state r = (if rule_Mode r = RuleSuppress then ''suppressed'' else ''explicit'')"

function ancestor_tags :: "(string, Tag) gomap \<Rightarrow> string list \<Rightarrow> string \<Rightarrow> Tag list" where
  "ancestor_tags byID seen p =
     (if p = '''' \<or> p \<in> set seen then []
      else case map_of byID p of None \<Rightarrow> [] | Some t \<Rightarrow> t # ancestor_tags byID (p # seen) (tag_ParentID t))"
  by pat_completeness auto
termination
proof (relation "measure (\<lambda>(byID, seen, _). card (dom (map_of byID) - set seen))", simp, goal_cases)
  case (1 byID seen p t)
  then have "dom (map_of byID) - set (p # seen) \<subset> dom (map_of byID) - set seen" by auto
  then show ?case by (simp add: psubset_card_mono finite_dom_map_of)
qed

declare ancestor_tags.simps [simp del]

lemma climb_foldl:
  "climb byID byTag src seen p res = foldl (\<lambda>r t. visit byTag src t r) res (ancestor_tags byID seen p)"
  by (induction byID byTag src seen p res rule: climb.induct)
    (subst climb.simps, subst ancestor_tags.simps, auto split: option.splits)

lemma ancestor_tags_cases:
  assumes "t \<in> set (ancestor_tags byID seen p)"
  obtains t0 where "\<not> (p = '''' \<or> p \<in> set seen)" "map_of byID p = Some t0"
    "t = t0 \<or> t \<in> set (ancestor_tags byID (p # seen) (tag_ParentID t0))"
  using assms ancestor_tags.simps[of byID seen p] by (auto split: if_splits option.splits)

text \<open>The visited tags are stored under their own id and reachable; everything reachable is visited
  unless the way to it leads through something seen before.\<close>

lemma ancestor_tags_sound:
  "well_keyed tag_ID byID \<Longrightarrow> t \<in> set (ancestor_tags byID seen p) \<Longrightarrow>
     map_of byID (tag_ID t) = Some t \<and> (p, tag_ID t) \<in> (tag_edges byID)\<^sup>* \<and> p \<noteq> ''''"
proof (induction byID seen p rule: ancestor_tags.induct)
  case (1 byID seen p)
  from "1.prems"(2) obtain t0 where t0: "\<not> (p = '''' \<or> p \<in> set seen)" "map_of byID p = Some t0"
      "t = t0 \<or> t \<in> set (ancestor_tags byID (p # seen) (tag_ParentID t0))"
    by (rule ancestor_tags_cases)
  have id: "tag_ID t0 = p" using well_keyed_lookup[OF "1.prems"(1) t0(2)] by simp
  show ?case
  proof (cases "t = t0")
    case True
    then show ?thesis using t0 id by simp
  next
    case False
    with t0(3) have m: "t \<in> set (ancestor_tags byID (p # seen) (tag_ParentID t0))" by simp
    from "1.IH"[OF t0(1,2) "1.prems"(1) m] t0(2) t0(1) show ?thesis
      by (auto simp: tag_edges_def intro: converse_rtrancl_into_rtrancl)
  qed
qed

lemma ancestor_tags_fresh:
  "well_keyed tag_ID byID \<Longrightarrow> t \<in> set (ancestor_tags byID seen p) \<Longrightarrow> tag_ID t \<notin> set seen"
proof (induction byID seen p rule: ancestor_tags.induct)
  case (1 byID seen p)
  from "1.prems"(2) obtain t0 where t0: "\<not> (p = '''' \<or> p \<in> set seen)" "map_of byID p = Some t0"
      "t = t0 \<or> t \<in> set (ancestor_tags byID (p # seen) (tag_ParentID t0))"
    by (rule ancestor_tags_cases)
  then show ?case using "1.IH"[OF t0(1,2) "1.prems"(1)] well_keyed_lookup[OF "1.prems"(1) t0(2)] by auto
qed

lemma simple_path:
  "(s, k) \<in> R\<^sup>* \<Longrightarrow>
     \<exists>xs. distinct (s # xs) \<and> successively (\<lambda>a b. (a, b) \<in> R) (s # xs) \<and> last (s # xs) = k"
proof (induction rule: converse_rtrancl_induct)
  case base
  show ?case by (rule exI[of _ "[]"]) simp
next
  case (step s y)
  then obtain xs where xs: "distinct (y # xs)" "successively (\<lambda>a b. (a, b) \<in> R) (y # xs)" "last (y # xs) = k" by blast
  show ?case
  proof (cases "s \<in> set (y # xs)")
    case True
    then obtain as bs where "y # xs = as @ s # bs" by (meson split_list)
    with xs show ?thesis by (intro exI[of _ bs]) (auto simp: successively_append_iff)
  next
    case False
    with xs step(1) show ?thesis by (intro exI[of _ "y # xs"]) auto
  qed
qed

lemma ancestor_tags_path:
  "successively (\<lambda>a b. (a, b) \<in> tag_edges byID) (p # xs) \<Longrightarrow> distinct (p # xs) \<Longrightarrow>
     set (p # xs) \<inter> set seen = {} \<Longrightarrow> p \<noteq> '''' \<Longrightarrow> map_of byID (last (p # xs)) = Some t \<Longrightarrow>
     t \<in> set (ancestor_tags byID seen p)"
proof (induction xs arbitrary: p seen)
  case Nil
  then show ?case by (subst ancestor_tags.simps) simp
next
  case (Cons q xs)
  then obtain t0 where t0: "map_of byID p = Some t0" "tag_ParentID t0 = q" "q \<noteq> ''''" by (auto simp: tag_edges_def)
  have "t \<in> set (ancestor_tags byID (p # seen) q)"
    using Cons.prems t0(3) by (intro Cons.IH) auto
  with Cons.prems t0 show ?case by (subst ancestor_tags.simps) auto
qed

definition proper_ancestors :: "(string, Tag) gomap \<Rightarrow> string \<Rightarrow> string set" where
  "proper_ancestors byID s = {k. (s, k) \<in> (tag_edges byID)\<^sup>+ \<and> k \<noteq> s \<and> map_of byID k \<noteq> None}"

text \<open>The inner loop visits the proper ancestors of the tag it starts from, each under its own id.\<close>

lemma ancestor_tags_visited:
  assumes wk: "well_keyed tag_ID byID" and s: "map_of byID s = Some t"
  shows "tag_ID ` set (ancestor_tags byID [s] (tag_ParentID t)) = proper_ancestors byID s" (is "?A = ?B")
proof (intro equalityI subsetI)
  fix k assume "k \<in> ?A"
  then obtain a where a: "a \<in> set (ancestor_tags byID [s] (tag_ParentID t))" "k = tag_ID a" by auto
  note snd = ancestor_tags_sound[OF wk a(1)]
  have "(s, tag_ParentID t) \<in> tag_edges byID" using s snd by (auto simp: tag_edges_def)
  then have "(s, k) \<in> (tag_edges byID)\<^sup>+" using snd a(2) by auto
  then show "k \<in> ?B" using snd a ancestor_tags_fresh[OF wk a(1)] by (auto simp: proper_ancestors_def)
next
  fix k assume k: "k \<in> ?B"
  then obtain a where a: "map_of byID k = Some a" "(s, k) \<in> (tag_edges byID)\<^sup>+" "k \<noteq> s" by (auto simp: proper_ancestors_def)
  then have ida: "tag_ID a = k" using well_keyed_lookup[OF wk] by auto
  obtain xs where xs: "distinct (s # xs)" "successively (\<lambda>a b. (a, b) \<in> tag_edges byID) (s # xs)" "last (s # xs) = k"
    using simple_path a(2) by (metis trancl_into_rtrancl)
  with a(3) obtain q ys where q: "xs = q # ys" by (cases xs) auto
  then have "(s, q) \<in> tag_edges byID" using xs by simp
  then have "q = tag_ParentID t" "q \<noteq> ''''" using s by (auto simp: tag_edges_def)
  with xs q a(1) have "a \<in> set (ancestor_tags byID [s] (tag_ParentID t))" by (intro ancestor_tags_path) auto
  then show "k \<in> ?A" using ida by force
qed

section \<open>The accumulated result\<close>

definition eff_key :: "EffectiveTag \<Rightarrow> string" where
  "eff_key e = tag_ID (eff_Tag e)"

definition entry_ok :: "Tag \<Rightarrow> TagRule option \<Rightarrow> string set \<Rightarrow> EffectiveTag option \<Rightarrow> bool" where
  "entry_ok t direct sources entry \<longleftrightarrow>
     (case direct of
        Some r \<Rightarrow> (\<forall>e. entry = Some e \<longrightarrow> eff_Tag e = t \<and> eff_State e = direct_state r \<and> eff_Rule e = Some r)
      | None \<Rightarrow> entry = (if tag_InheritByDefault t \<and> sources \<noteq> {}
                     then Some \<lparr>eff_Tag = t, eff_State = ''inherited'', eff_SourceTagID = Min sources, eff_Rule = None\<rparr>
                     else None))"

definition eval_ok :: "(string, Tag) gomap \<Rightarrow> (string, TagRule) gomap \<Rightarrow> (string \<Rightarrow> string set) \<Rightarrow>
    (string, EffectiveTag) gomap \<Rightarrow> bool" where
  "eval_ok byID byTag sources res \<longleftrightarrow> well_keyed eff_key res \<and> (\<forall>k. finite (sources k)) \<and>
     (\<forall>k. map_of byID k = None \<longrightarrow> map_of res k = None) \<and>
     (\<forall>k t. map_of byID k = Some t \<longrightarrow> entry_ok t (map_of byTag k) (sources k) (map_of res k))"

lemma entry_ok_tag: "entry_ok t direct sources (Some e) \<Longrightarrow> eff_Tag e = t"
  by (cases direct; cases e) (auto simp: entry_ok_def split: if_splits)

lemma eval_ok_visit:
  assumes ok: "eval_ok byID byTag sources res" and t: "map_of byID k = Some t" "tag_ID t = k"
  shows "eval_ok byID byTag (sources(k := insert src (sources k))) (visit byTag src t res)"
proof -
  have "entry_ok t (map_of byTag k) (sources k) (map_of res k)" and fin: "finite (sources k)"
    and wk: "well_keyed eff_key res" using ok t by (auto simp: eval_ok_def)
  then have "entry_ok t (map_of byTag k) (insert src (sources k)) (map_of (visit byTag src t res) k)"
    using t(2) by (auto simp: visit_def entry_ok_def Let_def direct_state_def Min_insert min_def not_less
        split: option.splits if_splits) (metis Min_in all_not_in_conv order_antisym)
  moreover have "map_of (visit byTag src t res) k' = map_of res k'" if "k' \<noteq> k" for k'
    using that t(2) by (auto simp: visit_def Let_def split: option.splits)
  moreover have "well_keyed eff_key (visit byTag src t res)"
    using wk by (auto simp: visit_def Let_def eff_key_def split: option.splits intro!: well_keyed_update)
  ultimately show ?thesis using ok t unfolding eval_ok_def by (auto, metis option.distinct(1))
qed

lemma eval_ok_visits:
  assumes "eval_ok byID byTag sources res" and "\<forall>t \<in> set ts. map_of byID (tag_ID t) = Some t"
  shows "eval_ok byID byTag (\<lambda>k. if k \<in> tag_ID ` set ts then insert src (sources k) else sources k)
           (foldl (\<lambda>r t. visit byTag src t r) res ts)"
  using assms
proof (induction ts arbitrary: sources res)
  case Nil
  then show ?case by simp
next
  case (Cons t ts)
  have "eval_ok byID byTag (sources(tag_ID t := insert src (sources (tag_ID t)))) (visit byTag src t res)"
    using Cons.prems by (intro eval_ok_visit) auto
  from Cons.IH[OF this] Cons.prems(2) show ?case
    by (auto simp: fun_eq_iff elim!: back_subst[of "\<lambda>S. eval_ok byID byTag S _"])
qed

text \<open>The tags a tag inherits from, given the rules applied so far.\<close>

definition included_sources :: "(string, Tag) gomap \<Rightarrow> TagRule list \<Rightarrow> string \<Rightarrow> string set" where
  "included_sources byID rules k =
     {rule_TagID r | r. r \<in> set rules \<and> rule_Mode r \<noteq> RuleSuppress \<and> map_of byID (rule_TagID r) \<noteq> None \<and>
        k \<in> proper_ancestors byID (rule_TagID r)}"

lemma included_sources_snoc:
  "included_sources byID (rs @ [r]) k =
     (if rule_Mode r \<noteq> RuleSuppress \<and> map_of byID (rule_TagID r) \<noteq> None \<and> k \<in> proper_ancestors byID (rule_TagID r)
      then insert (rule_TagID r) (included_sources byID rs k) else included_sources byID rs k)"
  by (auto simp: included_sources_def)

lemma eval_ok_own:
  assumes ok: "eval_ok byID byTag sources res" and t: "map_of byID k = Some t" "tag_ID t = k"
    and r: "map_of byTag k = Some r"
  shows "eval_ok byID byTag sources (AList.update k \<lparr>eff_Tag = t, eff_State = direct_state r, eff_SourceTagID = s, eff_Rule = Some r\<rparr> res)"
  using assms by (auto simp: eval_ok_def entry_ok_def eff_key_def intro!: well_keyed_update)

lemma eval_ok_rule:
  assumes wk: "well_keyed tag_ID byID" and ok: "eval_ok byID byTag (included_sources byID rs) res"
    and r: "map_of byTag (rule_TagID r) = Some r"
  shows "eval_ok byID byTag (included_sources byID (rs @ [r])) (apply_rule byID byTag res r)"
proof (cases "map_of byID (rule_TagID r)")
  case None
  then show ?thesis using ok by (simp add: apply_rule_def included_sources_snoc[abs_def])
next
  case (Some t)
  then have id: "tag_ID t = rule_TagID r" using well_keyed_lookup[OF wk] by auto
  note own = eval_ok_own[OF ok Some id r, of "''''"]
  show ?thesis
  proof (cases "rule_Mode r = RuleSuppress")
    case True
    then show ?thesis using own Some id by (simp add: apply_rule_def included_sources_snoc[abs_def] direct_state_def)
  next
    case False
    let ?ts = "ancestor_tags byID [rule_TagID r] (tag_ParentID t)"
    have "\<forall>a \<in> set ?ts. map_of byID (tag_ID a) = Some a" using ancestor_tags_sound[OF wk] by blast
    from eval_ok_visits[OF own this, of "rule_TagID r"] show ?thesis
      using Some id False ancestor_tags_visited[OF wk Some]
      by (simp add: apply_rule_def climb_foldl included_sources_snoc[abs_def] direct_state_def)
  qed
qed

section \<open>The evaluation\<close>

lemma foldl_index:
  "distinct (map key items) \<Longrightarrow> map_of (foldl (\<lambda>m x. AList.update (key x) x m) m0 items) k = Some x \<longleftrightarrow>
     (x \<in> set items \<and> key x = k) \<or> (k \<notin> key ` set items \<and> map_of m0 k = Some x)"
  by (induction items arbitrary: m0) (auto simp: image_iff)

lemma foldl_well_keyed:
  "well_keyed key m0 \<Longrightarrow> well_keyed key (foldl (\<lambda>m x. AList.update (key x) x m) m0 items)"
  by (induction items arbitrary: m0) (auto intro: well_keyed_update)

lemma index_tags_lookup:
  "distinct (map tag_ID items) \<Longrightarrow> map_of (index_tags items) k = Some t \<longleftrightarrow> t \<in> set items \<and> tag_ID t = k"
  by (simp add: index_tags_def foldl_index)

lemma index_rules_lookup:
  "distinct (map rule_TagID rules) \<Longrightarrow> map_of (index_rules rules) k = Some r \<longleftrightarrow> r \<in> set rules \<and> rule_TagID r = k"
  by (simp add: index_rules_def foldl_index)

lemma index_tags_keyed: "well_keyed tag_ID (index_tags items)"
  by (simp add: index_tags_def foldl_well_keyed)

lemma eval_ok_all:
  assumes wk: "well_keyed tag_ID byID" and "\<forall>r \<in> set (rs @ rules). map_of byTag (rule_TagID r) = Some r"
    and "eval_ok byID byTag (included_sources byID rs) res"
  shows "eval_ok byID byTag (included_sources byID (rs @ rules)) (foldl (apply_rule byID byTag) res rules)"
  using assms(2,3)
proof (induction rules arbitrary: rs res)
  case (Cons r rules)
  from eval_ok_rule[OF wk Cons.prems(2), of r] Cons.prems(1) show ?case
    using Cons.IH[of "rs @ [r]"] by simp
qed simp

lemma visit_keeps: "map_of res k \<noteq> None \<Longrightarrow> map_of (visit byTag src t res) k \<noteq> None"
  by (auto simp: visit_def Let_def split: option.splits)

lemma visits_keep: "map_of res k \<noteq> None \<Longrightarrow> map_of (foldl (\<lambda>r t. visit byTag src t r) res ts) k \<noteq> None"
  by (induction ts arbitrary: res) (simp_all add: visit_keeps del: not_None_eq)

lemma apply_rule_keeps: "map_of res k \<noteq> None \<Longrightarrow> map_of (apply_rule byID byTag res r) k \<noteq> None"
  by (auto simp: apply_rule_def climb_foldl simp del: not_None_eq split: option.splits intro!: visits_keep)

lemma apply_rule_own:
  "well_keyed tag_ID byID \<Longrightarrow> map_of byID (rule_TagID r) \<noteq> None \<Longrightarrow>
     map_of (apply_rule byID byTag res r) (rule_TagID r) \<noteq> None"
  by (auto simp: apply_rule_def climb_foldl simp del: not_None_eq split: option.splits intro!: visits_keep
      dest: well_keyed_lookup)

lemma apply_rules_own:
  "well_keyed tag_ID byID \<Longrightarrow> map_of byID k \<noteq> None \<Longrightarrow> map_of res k \<noteq> None \<or> k \<in> rule_TagID ` set rules \<Longrightarrow>
     map_of (foldl (apply_rule byID byTag) res rules) k \<noteq> None"
proof (induction rules arbitrary: res)
  case (Cons r rules)
  then have "map_of (apply_rule byID byTag res r) k \<noteq> None \<or> k \<in> rule_TagID ` set rules"
    using apply_rule_keeps[of res k byID byTag r] apply_rule_own[of byID r byTag res] by auto
  with Cons.IH[of "apply_rule byID byTag res r"] Cons.prems show ?case by simp
qed simp

lemma evaluateTags_result:
  assumes "distinct (map tag_ID items)" "distinct (map rule_TagID rules)"
  obtains res where "set (evaluateTags u items rules) = vals res"
    "length (evaluateTags u items rules) = length res" "mset (evaluateTags u items rules) = mset (map snd res)"
    "eval_ok (index_tags items) (index_rules rules) (included_sources (index_tags items) rules) res"
    "\<And>k. map_of (index_tags items) k \<noteq> None \<Longrightarrow> map_of (index_rules rules) k \<noteq> None \<Longrightarrow> map_of res k \<noteq> None"
proof -
  let ?byID = "index_tags items" and ?byTag = "index_rules rules"
  let ?res = "foldl (apply_rule ?byID ?byTag) [] rules"
  have own: "\<forall>r \<in> set ([] @ rules). map_of ?byTag (rule_TagID r) = Some r"
    using index_rules_lookup[OF assms(2)] by auto
  have "eval_ok ?byID ?byTag (included_sources ?byID []) []"
    by (auto simp: eval_ok_def entry_ok_def included_sources_def split: option.splits)
  from eval_ok_all[OF index_tags_keyed own this]
  have "eval_ok ?byID ?byTag (included_sources ?byID rules) ?res" by simp
  moreover have "map_of ?res k \<noteq> None" if "map_of ?byID k \<noteq> None" "map_of ?byTag k \<noteq> None" for k
    using that index_rules_lookup[OF assms(2)] by (intro apply_rules_own[OF index_tags_keyed]) auto
  ultimately show ?thesis
    by (intro that[of ?res]) (auto simp: evaluateTags_def Let_def vals_def)
qed

end
