(* ===== verification/Threads_Properties.thy ===== *)
theory Threads_Properties
  imports Threads_Audit Threads_Effective
begin

text \<open>
  The properties of the Threads feature: what holds in every reachable store, what the parent check
  decides, what the evaluation of effective tags returns, how revisions, write gates, failures and imports
  behave, and two places where the code does less than it means to.
\<close>

section \<open>Concrete instances\<close>

text \<open>A service and an empty store with a running clock and random source, used to instantiate the properties.\<close>

definition ex_unicode :: unicode where
  "ex_unicode = \<lparr>ucd_lower = id, ucd_upper = id, ucd_fold = id\<rparr>"

definition ex_service :: threads_service where
  "ex_service = \<lparr>svc_organizationID = ''org'', svc_targets = (\<lambda>_ _ _. None), svc_writes = None,
     svc_unicode = ex_unicode, svc_sha256 = id\<rparr>"

definition ex_world :: threads_world where
  "ex_world = \<lparr>clock = (\<lambda>n. GoTime (int n + 1) True), ticks = 0, entropy = (\<lambda>n. Some [char_of n]), draws = 0,
     audits = [], audit_faults = (\<lambda>_. None), audit_calls = 0, tags = [], goals = [], tagRules = [], goalLinks = []\<rparr>"

definition ex_ctx :: threads_ctx where
  "ex_ctx = \<lparr>cx_scope = None, cx_import = None\<rparr>"

definition ex_tag :: "string \<Rightarrow> string \<Rightarrow> Tag" where
  "ex_tag i p = \<lparr>tag_ID = i, tag_OrganizationID = ''org'', tag_Name = i, tag_ParentID = p, tag_InheritByDefault = True,
     tag_Revision = 1, tag_CreatedAt = GoTime 1 True, tag_UpdatedAt = GoTime 1 True\<rparr>"

definition ex_input :: "string \<Rightarrow> string \<Rightarrow> CreateTagInput" where
  "ex_input i p = \<lparr>cti_ID = i, cti_Name = i, cti_ParentID = p, cti_InheritByDefault = True\<rparr>"

text \<open>The store after the tags \<open>a\<close> and, below it, \<open>b\<close> have been created.\<close>

definition ex_two :: threads_world where
  "ex_two = snd (CreateTag ex_service ex_ctx (ex_input ''b'' ''a'')
     (snd (CreateTag ex_service ex_ctx (ex_input ''a'' '''') ex_world)))"

lemma ex_world_empty: "empty_store ex_world"
  by (simp add: empty_store_def ex_world_def)

lemma ex_reaches: "(threads_step ex_service)\<^sup>*\<^sup>* ex_world ex_two"
  unfolding ex_two_def by (rule rtranclp.rtrancl_into_rtrancl[OF r_into_rtranclp]) (rule step_CreateTag)+

lemma ex_two_parent: "(case map_of (tags ex_two) (threadsRecordKey ''org'' ''b'') of Some t \<Rightarrow> tag_ParentID t = ''a'' | None \<Rightarrow> False)"
  by code_simp

lemma ex_two_edge: "(''b'', ''a'') \<in> parent_rel ''org'' tag_ParentID (tags ex_two)"
  using ex_two_parent by (auto simp: parent_rel_def split: option.splits)

text \<open>The same store with a rule that includes \<open>b\<close> on an asset.\<close>

definition ex_set :: SetTagRuleInput where
  "ex_set = \<lparr>sri_TargetType = TargetAsset, sri_TargetID = ''x'', sri_TagID = ''b'', sri_Mode = RuleInclude, sri_Revision = 0\<rparr>"

definition ex_ruled :: threads_world where
  "ex_ruled = snd (SetTagRule ex_service ex_ctx ex_set ex_two)"

lemma ex_reaches_ruled: "(threads_step ex_service)\<^sup>*\<^sup>* ex_world ex_ruled"
  unfolding ex_ruled_def by (rule rtranclp.rtrancl_into_rtrancl[OF ex_reaches]) (rule step_SetTagRule)

lemma ex_ruled_rules: "tagRules ex_ruled \<noteq> []"
  by code_simp

lemma ex_two_distinct:
  "(case (map_of (tags ex_two) (threadsRecordKey ''org'' ''a''), map_of (tags ex_two) (threadsRecordKey ''org'' ''b'')) of
      (Some t, Some t') \<Rightarrow> t \<noteq> t' \<and> tag_OrganizationID t = tag_OrganizationID t' | _ \<Rightarrow> False)"
  by code_simp

section \<open>Reachable stores\<close>

text \<open>C1: in every state the service and its importer can reach from an empty store, no tag and no goal is
  its own ancestor, and every parent a tag or goal of the organization names is stored.\<close>

theorem threads_reachable_hierarchy:
  assumes "empty_store w0" and "(threads_step sv)\<^sup>*\<^sup>* w0 w"
  shows "acyclic (parent_rel (svc_organizationID sv) tag_ParentID (tags w)) \<and>
    acyclic (parent_rel (svc_organizationID sv) goal_ParentID (goals w)) \<and>
    (\<forall>(c, p) \<in> parent_rel (svc_organizationID sv) tag_ParentID (tags w).
       map_of (tags w) (threadsRecordKey (svc_organizationID sv) p) \<noteq> None) \<and>
    (\<forall>(c, p) \<in> parent_rel (svc_organizationID sv) goal_ParentID (goals w).
       map_of (goals w) (threadsRecordKey (svc_organizationID sv) p) \<noteq> None)"
  using threads_reachable_inv[OF assms(2,1)]
  unfolding threads_inv_def store_inv_def tags_ok_def goals_ok_def hierarchy_ok_def by blast

theorem threads_reachable_hierarchy_witness:
  "(''b'', ''a'') \<in> parent_rel ''org'' tag_ParentID (tags ex_two) \<and>
   acyclic (parent_rel ''org'' tag_ParentID (tags ex_two)) \<and>
   map_of (tags ex_two) (threadsRecordKey ''org'' ''a'') \<noteq> None"
  using threads_reachable_hierarchy[OF ex_world_empty ex_reaches] ex_two_edge
  by (auto simp: ex_service_def simp del: not_None_eq)

text \<open>C2: in every reachable state each tag rule and goal link of the organization refers to a stored tag or
  goal, with a valid target and mode, and each record sits under the key of its own identity.\<close>

theorem threads_reachable_references:
  assumes "empty_store w0" and "(threads_step sv)\<^sup>*\<^sup>* w0 w"
  shows "(\<forall>r \<in> vals (tagRules w). rule_ok (svc_organizationID sv) (tags w) r) \<and>
    (\<forall>l \<in> vals (goalLinks w). link_ok (svc_organizationID sv) (goals w) l) \<and>
    well_keyed tag_key (tags w) \<and> well_keyed goal_key (goals w) \<and>
    well_keyed rule_key (tagRules w) \<and> well_keyed link_key (goalLinks w)"
  using threads_reachable_inv[OF assms(2,1)]
  unfolding threads_inv_def store_inv_def tags_ok_def goals_ok_def rules_ok_def links_ok_def by blast

theorem threads_reachable_references_witness:
  "(\<exists>r \<in> vals (tagRules ex_ruled). rule_ok ''org'' (tags ex_ruled) r) \<and> well_keyed rule_key (tagRules ex_ruled)"
proof -
  obtain p ps where "tagRules ex_ruled = p # ps" using ex_ruled_rules by (cases "tagRules ex_ruled") auto
  then have "snd p \<in> vals (tagRules ex_ruled)" by (simp add: vals_def)
  then show ?thesis
    using threads_reachable_references[OF ex_world_empty ex_reaches_ruled] by (auto simp: ex_service_def)
qed

text \<open>C3: in every reachable state two tags of one organization whose names are equal under case folding
  are the same tag, and likewise for goals.\<close>

theorem threads_reachable_names:
  assumes "empty_store w0" and "(threads_step sv)\<^sup>*\<^sup>* w0 w"
  shows "(\<forall>t \<in> vals (tags w). \<forall>t' \<in> vals (tags w). tag_OrganizationID t = tag_OrganizationID t' \<longrightarrow>
      EqualFold (svc_unicode sv) (tag_Name t) (tag_Name t') \<longrightarrow> t = t') \<and>
    (\<forall>g \<in> vals (goals w). \<forall>g' \<in> vals (goals w). goal_OrganizationID g = goal_OrganizationID g' \<longrightarrow>
      EqualFold (svc_unicode sv) (goal_Name g) (goal_Name g') \<longrightarrow> g = g')"
  using threads_reachable_inv[OF assms(2,1)]
  unfolding threads_inv_def store_inv_def tags_ok_def goals_ok_def by blast

theorem threads_reachable_names_witness:
  "\<exists>t \<in> vals (tags ex_two). \<exists>t' \<in> vals (tags ex_two). \<not> EqualFold ex_unicode (tag_Name t) (tag_Name t')"
proof -
  obtain t t' where "map_of (tags ex_two) (threadsRecordKey ''org'' ''a'') = Some t"
    and "map_of (tags ex_two) (threadsRecordKey ''org'' ''b'') = Some t'"
    and d: "t \<noteq> t'" "tag_OrganizationID t = tag_OrganizationID t'"
    using ex_two_distinct by (auto split: option.splits)
  then have "t \<in> vals (tags ex_two)" "t' \<in> vals (tags ex_two)" by (auto intro: map_of_vals)
  then show ?thesis
    using threads_reachable_names[OF ex_world_empty ex_reaches] d by (auto simp: ex_service_def)
qed

section \<open>The parent check\<close>

text \<open>C4: in a store whose tag hierarchy is in order, \<open>validateTagParent\<close> changes nothing and decides exactly
  whether a tag may move under a parent: it answers \<open>ErrNotFound\<close> when the parent is not stored, \<open>ErrCycle\<close>
  when the tag is the parent or one of its ancestors, and succeeds in all other cases.\<close>

theorem validateTagParent_decides:
  assumes ok: "hierarchy_ok (svc_organizationID sv) tag_ParentID (tags w)" and i: "i \<noteq> ''''"
  shows "validateTagParent sv i p w =
    ((if p = '''' then Inr ()
      else if (p, i) \<in> (parent_rel (svc_organizationID sv) tag_ParentID (tags w))\<^sup>* then Inl (Sentinel ThreadsErrCycle)
      else if map_of (tags w) (threadsRecordKey (svc_organizationID sv) p) = None then Inl (Sentinel ThreadsErrNotFound)
      else Inr ()), w)"
proof (cases "walk_parents (svc_organizationID sv) tag_ParentID (tags w) [i] p")
  case None
  then show ?thesis
    using walk_parents_None[OF None, of i] walk_parents_exists[OF None] i
    by (auto simp: validateTagParent_def checkE_def)
next
  case (Some e)
  let ?R = "parent_rel (svc_organizationID sv) tag_ParentID (tags w)"
  have "p \<noteq> ''''" using Some by (subst (asm) walk_parents.simps) (auto split: if_splits)
  moreover have "(p, i) \<notin> ?R\<^sup>*" if "map_of (tags w) (threadsRecordKey (svc_organizationID sv) p) = None" "p \<noteq> i"
    using that by (auto elim: converse_rtranclE simp: parent_rel_def)
  moreover have "e = Sentinel ThreadsErrCycle" if "p = i"
    using that Some i by (subst (asm) walk_parents.simps) simp
  ultimately show ?thesis
    using walk_parents_Some[OF Some ok, of "{i}"] Some
    by (cases "p = i") (auto simp: validateTagParent_def checkE_def)
qed

lemma ex_two_ok: "hierarchy_ok (svc_organizationID ex_service) tag_ParentID (tags ex_two)"
  using threads_reachable_inv[OF ex_reaches ex_world_empty] by (simp add: threads_inv_def store_inv_def tags_ok_def)

theorem validateTagParent_decides_witness:
  "validateTagParent ex_service ''a'' ''b'' ex_two = (Inl (Sentinel ThreadsErrCycle), ex_two)"
  using validateTagParent_decides[OF ex_two_ok, of "''a''" "''b''"] ex_two_edge by (auto simp: ex_service_def)

section \<open>Effective tags\<close>

definition ex_rule :: "string \<Rightarrow> string \<Rightarrow> TagRule" where
  "ex_rule i m = \<lparr>rule_OrganizationID = ''org'', rule_TargetType = TargetAsset, rule_TargetID = ''x'', rule_TagID = i,
     rule_Mode = m, rule_Revision = 1, rule_UpdatedBy = ''u'', rule_CreatedAt = GoTime 1 True, rule_UpdatedAt = GoTime 1 True\<rparr>"

text \<open>C5: a direct rule decides the state of its tag, whatever the hierarchy says: the tag of an include rule is
  effective as explicit, the tag of a suppress rule as suppressed, exactly once, and the entry carries the rule.\<close>

theorem evaluateTags_direct:
  assumes d: "distinct (map tag_ID items)" "distinct (map rule_TagID rules)"
    and t: "t \<in> set items" and r: "r \<in> set rules" "rule_TagID r = tag_ID t"
  shows "\<exists>e. {e' \<in> set (evaluateTags u items rules). tag_ID (eff_Tag e') = tag_ID t} = {e} \<and>
    eff_Tag e = t \<and> eff_Rule e = Some r \<and>
    eff_State e = (if rule_Mode r = RuleSuppress then ''suppressed'' else ''explicit'')"
proof -
  obtain res where res: "set (evaluateTags u items rules) = vals res"
      "eval_ok (index_tags items) (index_rules rules) (included_sources (index_tags items) rules) res"
      "\<And>k. map_of (index_tags items) k \<noteq> None \<Longrightarrow> map_of (index_rules rules) k \<noteq> None \<Longrightarrow> map_of res k \<noteq> None"
    using evaluateTags_result[OF d] by metis
  have l: "map_of (index_tags items) (tag_ID t) = Some t" "map_of (index_rules rules) (tag_ID t) = Some r"
    using index_tags_lookup[OF d(1)] index_rules_lookup[OF d(2)] t r by auto
  with res(3)[of "tag_ID t"] obtain e where e: "map_of res (tag_ID t) = Some e" by auto
  have wk: "well_keyed eff_key res" using res(2) by (simp add: eval_ok_def)
  have "{e' \<in> vals res. tag_ID (eff_Tag e') = tag_ID t} = {e}"
    using e vals_iff[OF wk] well_keyed_lookup[OF wk e] by (auto simp: eff_key_def)
  moreover have "entry_ok t (Some r) (included_sources (index_tags items) rules (tag_ID t)) (Some e)"
    using res(2) l e unfolding eval_ok_def by metis
  ultimately show ?thesis using res(1) by (auto simp: entry_ok_def direct_state_def)
qed

theorem evaluateTags_direct_witness:
  "\<exists>e. {e' \<in> set (evaluateTags ex_unicode [ex_tag ''a'' '''', ex_tag ''b'' ''a''] [ex_rule ''a'' RuleSuppress, ex_rule ''b'' RuleInclude]).
      tag_ID (eff_Tag e') = ''a''} = {e} \<and> eff_Tag e = ex_tag ''a'' '''' \<and>
    eff_Rule e = Some (ex_rule ''a'' RuleSuppress) \<and> eff_State e = ''suppressed''"
  using evaluateTags_direct[of "[ex_tag ''a'' '''', ex_tag ''b'' ''a'']" "[ex_rule ''a'' RuleSuppress, ex_rule ''b'' RuleInclude]"
      "ex_tag ''a'' ''''" "ex_rule ''a'' RuleSuppress" ex_unicode]
  by (simp add: ex_tag_def ex_rule_def)

text \<open>A tag without a direct rule is effective only by inheritance: exactly when it inherits by default and
  some included tag lies below it, and then its source is the smallest id among the included tags below it.\<close>

theorem evaluateTags_inherited:
  assumes d: "distinct (map tag_ID items)" "distinct (map rule_TagID rules)"
    and t: "t \<in> set items" and none: "\<forall>r \<in> set rules. rule_TagID r \<noteq> tag_ID t"
  shows "{e \<in> set (evaluateTags u items rules). tag_ID (eff_Tag e) = tag_ID t} =
    (let below = {rule_TagID r | r. r \<in> set rules \<and> rule_Mode r \<noteq> RuleSuppress \<and> (\<exists>s \<in> set items. tag_ID s = rule_TagID r) \<and>
                    (rule_TagID r, tag_ID t) \<in> (tag_edges (index_tags items))\<^sup>+}
     in if tag_InheritByDefault t \<and> below \<noteq> {}
        then {\<lparr>eff_Tag = t, eff_State = ''inherited'', eff_SourceTagID = Min below, eff_Rule = None\<rparr>} else {})"
proof -
  let ?byID = "index_tags items"
  obtain res where res: "set (evaluateTags u items rules) = vals res"
      "eval_ok ?byID (index_rules rules) (included_sources ?byID rules) res"
    using evaluateTags_result[OF d] by metis
  have l: "map_of ?byID (tag_ID t) = Some t" using index_tags_lookup[OF d(1)] t by auto
  have n: "map_of (index_rules rules) (tag_ID t) = None"
    using index_rules_lookup[OF d(2)] none by (metis not_None_eq)
  have wk: "well_keyed eff_key res" using res(2) by (simp add: eval_ok_def)
  have have_id: "map_of ?byID k \<noteq> None \<longleftrightarrow> (\<exists>s \<in> set items. tag_ID s = k)" for k
    using index_tags_lookup[OF d(1), of k] by auto
  have src: "included_sources ?byID rules (tag_ID t) = {rule_TagID r | r. r \<in> set rules \<and> rule_Mode r \<noteq> RuleSuppress \<and>
      (\<exists>s \<in> set items. tag_ID s = rule_TagID r) \<and> (rule_TagID r, tag_ID t) \<in> (tag_edges ?byID)\<^sup>+}"
    using l none unfolding included_sources_def proper_ancestors_def have_id[symmetric] by fastforce
  have "entry_ok t None (included_sources ?byID rules (tag_ID t)) (map_of res (tag_ID t))"
    using res(2) l n unfolding eval_ok_def by metis
  moreover have "{e \<in> vals res. tag_ID (eff_Tag e) = tag_ID t} = set_option (map_of res (tag_ID t))"
    using vals_iff[OF wk] well_keyed_lookup[OF wk] by (fastforce simp: eff_key_def)
  ultimately show ?thesis unfolding res(1) src[symmetric] Let_def by (auto simp: entry_ok_def)
qed

lemma ex_edges: "(''b'', ''a'') \<in> (tag_edges (index_tags [ex_tag ''a'' '''', ex_tag ''b'' ''a'']))\<^sup>+"
  by (rule r_into_trancl) (simp add: tag_edges_def index_tags_def ex_tag_def)

theorem evaluateTags_inherited_witness:
  "{e \<in> set (evaluateTags ex_unicode [ex_tag ''a'' '''', ex_tag ''b'' ''a''] [ex_rule ''b'' RuleInclude]). tag_ID (eff_Tag e) = ''a''} =
     {\<lparr>eff_Tag = ex_tag ''a'' '''', eff_State = ''inherited'', eff_SourceTagID = ''b'', eff_Rule = None\<rparr>}"
  using evaluateTags_inherited[of "[ex_tag ''a'' '''', ex_tag ''b'' ''a'']" "[ex_rule ''b'' RuleInclude]" "ex_tag ''a'' ''''" ex_unicode]
    ex_edges
  by (simp add: ex_tag_def ex_rule_def RuleInclude_def RuleSuppress_def)

text \<open>The answer is determined: it holds each tag at most once, only tags of the organization, in the order of
  lower-cased names and then ids, and it is the only list with these entries in that order. So it does not depend
  on the order in which the program iterates over its maps.\<close>

theorem evaluateTags_determined:
  assumes d: "distinct (map tag_ID items)" "distinct (map rule_TagID rules)"
  shows "distinct (map (\<lambda>e. tag_ID (eff_Tag e)) (evaluateTags u items rules)) \<and>
    eff_Tag ` set (evaluateTags u items rules) \<subseteq> set items \<and>
    sorted (map (\<lambda>e. (ToLower u (tag_Name (eff_Tag e)), tag_ID (eff_Tag e))) (evaluateTags u items rules)) \<and>
    (\<forall>xs. mset xs = mset (evaluateTags u items rules) \<longrightarrow>
       sort_key (\<lambda>e. (ToLower u (tag_Name (eff_Tag e)), tag_ID (eff_Tag e))) xs = evaluateTags u items rules)"
proof -
  let ?k = "\<lambda>e. (ToLower u (tag_Name (eff_Tag e)), tag_ID (eff_Tag e))" and ?ev = "evaluateTags u items rules"
  obtain res where res: "set ?ev = vals res" "mset ?ev = mset (map snd res)"
      "eval_ok (index_tags items) (index_rules rules) (included_sources (index_tags items) rules) res"
    using evaluateTags_result[OF d] by metis
  then have wk: "well_keyed eff_key res" by (simp add: eval_ok_def)
  then have "map fst res = map eff_key (map snd res)" by (auto simp: well_keyed_def)
  then have "distinct (map eff_key (map snd res))" using wk by (metis well_keyed_distinct)
  then have dist: "distinct (map eff_key ?ev)" using res(2) by (metis mset_eq_imp_distinct_iff mset_map)
  then have kd: "inj_on ?k (set ?ev)" by (auto simp: distinct_map eff_key_def inj_on_def)
  have srt: "sorted (map ?k ?ev)" by (simp add: evaluateTags_def Let_def)
  have "sort_key ?k xs = ?ev" if m: "mset xs = mset ?ev" for xs
    using sort_key_inj_key_eq[of xs ?ev ?k] m kd srt by (metis mset_eq_setD)
  moreover have "eff_Tag e \<in> set items" if e: "e \<in> set ?ev" for e
  proof -
    have m: "map_of res (eff_key e) = Some e" using e res(1) vals_iff[OF wk] by simp
    then obtain t where t: "map_of (index_tags items) (eff_key e) = Some t" using res(3) by (fastforce simp: eval_ok_def)
    then have "entry_ok t (map_of (index_rules rules) (eff_key e)) (included_sources (index_tags items) rules (eff_key e)) (Some e)"
      using res(3) m unfolding eval_ok_def by metis
    then have "eff_Tag e = t" by (rule entry_ok_tag)
    then show ?thesis using t index_tags_lookup[OF d(1)] by simp
  qed
  ultimately show ?thesis using dist srt by (auto simp: eff_key_def[abs_def])
qed

theorem evaluateTags_determined_witness:
  "distinct (map (\<lambda>e. tag_ID (eff_Tag e)) (evaluateTags ex_unicode [ex_tag ''a'' '''', ex_tag ''b'' ''a''] [ex_rule ''b'' RuleInclude]))"
  using evaluateTags_determined[of "[ex_tag ''a'' '''', ex_tag ''b'' ''a'']" "[ex_rule ''b'' RuleInclude]" ex_unicode]
  by (simp add: ex_tag_def ex_rule_def)

section \<open>Writes\<close>

lemma UpdateTag_success_wp:
  "wp (UpdateTag sv cx input) (\<lambda>t w'. \<exists>old now.
      map_of (tags w) (threadsRecordKey (svc_organizationID sv) (TrimSpace (uti_ID input))) = Some old \<and>
      tag_Revision old = uti_Revision input \<and>
      t = old\<lparr>tag_Name := TrimSpace (uti_Name input), tag_ParentID := TrimSpace (uti_ParentID input),
              tag_InheritByDefault := uti_InheritByDefault input, tag_Revision := i64 (uti_Revision input + 1), tag_UpdatedAt := now\<rparr> \<and>
      tags w' = AList.update (tag_key old) t (tags w) \<and>
      goals w' = goals w \<and> tagRules w' = tagRules w \<and> goalLinks w' = goalLinks w) (\<lambda>_ _. True) w"
  unfolding UpdateTag_def
  by (intro outcome_rules) (auto simp: same_store_def tag_key_def dest!: normalizeTagInput_Inr)

text \<open>An update of a tag that succeeds was computed from the stored revision, replaces exactly that tag by one with
  the given name, parent and inheritance and the next revision, and leaves every other record of the store alone.\<close>

theorem UpdateTag_success:
  assumes "UpdateTag sv cx input w = (Inr t, w')"
  shows "\<exists>old now. map_of (tags w) (threadsRecordKey (svc_organizationID sv) (TrimSpace (uti_ID input))) = Some old \<and>
    tag_Revision old = uti_Revision input \<and>
    t = old\<lparr>tag_Name := TrimSpace (uti_Name input), tag_ParentID := TrimSpace (uti_ParentID input),
            tag_InheritByDefault := uti_InheritByDefault input, tag_Revision := i64 (uti_Revision input + 1), tag_UpdatedAt := now\<rparr> \<and>
    tags w' = AList.update (tag_key old) t (tags w) \<and>
    goals w' = goals w \<and> tagRules w' = tagRules w \<and> goalLinks w' = goalLinks w"
  using wp_Inr[OF UpdateTag_success_wp assms] .

definition ex_update :: "string \<Rightarrow> string \<Rightarrow> UpdateTagInput" where
  "ex_update i p = \<lparr>uti_ID = i, uti_Name = i, uti_ParentID = p, uti_InheritByDefault = True, uti_Revision = 1\<rparr>"

definition ok_tag :: "(threads_error + Tag) \<Rightarrow> Tag" where
  "ok_tag r = (case r of Inr t \<Rightarrow> t | Inl _ \<Rightarrow> ex_tag '''' '''')"

lemma ex_update_runs: "isl (fst (UpdateTag ex_service ex_ctx (ex_update ''b'' '''') ex_two)) = False"
  by code_simp

lemma ex_update_result:
  "UpdateTag ex_service ex_ctx (ex_update ''b'' '''') ex_two =
     (Inr (ok_tag (fst (UpdateTag ex_service ex_ctx (ex_update ''b'' '''') ex_two))),
      snd (UpdateTag ex_service ex_ctx (ex_update ''b'' '''') ex_two))"
  using ex_update_runs by (cases "UpdateTag ex_service ex_ctx (ex_update ''b'' '''') ex_two"; cases "fst (UpdateTag ex_service ex_ctx (ex_update ''b'' '''') ex_two)")
    (auto simp: ok_tag_def)

theorem UpdateTag_success_witness:
  "\<exists>old. map_of (tags ex_two) (threadsRecordKey ''org'' ''b'') = Some old \<and> tag_Revision old = 1 \<and>
     tags (snd (UpdateTag ex_service ex_ctx (ex_update ''b'' '''') ex_two)) =
       AList.update (tag_key old) (ok_tag (fst (UpdateTag ex_service ex_ctx (ex_update ''b'' '''') ex_two))) (tags ex_two)"
proof -
  have "TrimSpace ''b'' = ''b''" by code_simp
  with UpdateTag_success[OF ex_update_result] show ?thesis by (auto simp: ex_service_def ex_update_def)
qed

text \<open>No update is lost. After an update of a tag has succeeded, a second update that was computed from the same
  revision fails and leaves the store as it is, as long as the revision counter has not run out.\<close>

theorem UpdateTag_no_lost_update:
  assumes first: "UpdateTag sv cx input w = (Inr t, w1)" and inv: "threads_inv sv w"
    and same: "TrimSpace (uti_ID input') = TrimSpace (uti_ID input)" "uti_Revision input' = uti_Revision input"
    and counter: "uti_Revision input < max_i64"
  shows "\<exists>e w2. UpdateTag sv cx' input' w1 = (Inl e, w2) \<and> same_store w1 w2"
proof -
  let ?k = "threadsRecordKey (svc_organizationID sv) (TrimSpace (uti_ID input))"
  have valid: "stableIDPattern (TrimSpace (uti_ID input))" "uti_Revision input \<ge> 1"
    using first by (auto simp: UpdateTag_def raiseE_def Let_def split: if_splits)
  obtain old where old: "map_of (tags w) ?k = Some old" "tags w1 = AList.update (tag_key old) t (tags w)"
      "tag_Revision t = i64 (uti_Revision input + 1)"
    using wp_Inr[OF UpdateTag_success_wp first] by auto
  have "tag_key old = ?k"
    using store_inv_lookup_tag[OF inv[unfolded threads_inv_def] old(1) valid(1)] by (simp add: tag_key_def)
  moreover have "i64 (uti_Revision input + 1) = uti_Revision input + 1"
    using counter valid(2) by (intro i64_id) (simp add: is_i64_def max_i64_def min_i64_def)
  ultimately have "map_of (tags w1) ?k = Some t" "tag_Revision t \<noteq> uti_Revision input" using old by simp_all
  then have "wp (UpdateTag sv cx' input') (\<lambda>_ _. False) (\<lambda>_ w2. same_store w1 w2) w1"
    using same unfolding UpdateTag_def by (intro outcome_rules) auto
  then show ?thesis by (cases "UpdateTag sv cx' input' w1"; cases "fst (UpdateTag sv cx' input' w1)") (auto simp: wp_def)
qed

theorem UpdateTag_no_lost_update_witness:
  "\<exists>e w2. UpdateTag ex_service ex_ctx (ex_update ''b'' ''a'') (snd (UpdateTag ex_service ex_ctx (ex_update ''b'' '''') ex_two)) = (Inl e, w2) \<and>
     same_store (snd (UpdateTag ex_service ex_ctx (ex_update ''b'' '''') ex_two)) w2"
  by (rule UpdateTag_no_lost_update[OF ex_update_result threads_reachable_inv[OF ex_reaches ex_world_empty]])
    (simp_all add: ex_update_def max_i64_def)

text \<open>C6: every successful creation and update is in the audit log, and a failed one has stored nothing unless the
  failure is that of the audit after the write; the log never loses an event.\<close>

theorem threads_writes_audited:
  "write_outcome sv ''threads.tag.created'' ''tag'' tag_ID ''audit tag creation'' w (CreateTag sv cx ct w) \<and>
   write_outcome sv ''threads.tag.updated'' ''tag'' tag_ID ''audit tag update'' w (UpdateTag sv cx ut w) \<and>
   write_outcome sv ''threads.goal.created'' ''goal'' goal_ID ''audit goal creation'' w (CreateGoal sv cx cg w) \<and>
   write_outcome sv ''threads.goal.updated'' ''goal'' goal_ID ''audit goal update'' w (UpdateGoal sv cx ug w) \<and>
   write_outcome sv ''threads.tag.rule.set'' ''tag-rule'' (\<lambda>r. rule_TargetID r @ '':'' @ rule_TagID r) ''audit tag rule'' w
     (SetTagRule sv cx sr w)"
  using CreateTag_outcome UpdateTag_outcome CreateGoal_outcome UpdateGoal_outcome SetTagRule_outcome by blast

text \<open>Along any run of the service and its importer the audit log is append-only.\<close>

theorem threads_log_append_only:
  assumes "(threads_step sv)\<^sup>*\<^sup>* w w'"
  shows "\<exists>evs. audits w' = audits w @ evs"
  using threads_run_log[OF assms] by (simp add: log_grows_def)

theorem threads_log_append_only_witness: "\<exists>evs. audits ex_two = audits ex_world @ evs"
  using threads_log_append_only[OF ex_reaches] .

text \<open>A write gate that refuses every record stops each of the eight writing operations of an ordinary request:
  it fails, stores nothing and logs nothing. (Only calls of the importer pass by the gate.)\<close>

theorem threads_gate_closed:
  assumes "closed_gate sv" and "cx_import cx = None"
  shows "refused w (CreateTag sv cx ct w) \<and> refused w (UpdateTag sv cx ut w) \<and> refused w (CreateGoal sv cx cg w) \<and>
    refused w (UpdateGoal sv cx ug w) \<and> refused w (SetTagRule sv cx sr w) \<and> refused w (DeleteTagRule sv cx tt ti tg n w) \<and>
    refused w (LinkGoal sv cx lg w) \<and> refused w (UnlinkGoal sv cx tt ti g w)"
  by (simp add: gate_refuses[OF assms])

theorem threads_gate_closed_witness:
  "refused ex_two (UpdateTag (ex_service\<lparr>svc_writes := Some (\<lambda>_ _. Some (Errorf ''locked''))\<rparr>) ex_ctx (ex_update ''b'' '''') ex_two)"
  using threads_gate_closed[of "ex_service\<lparr>svc_writes := Some (\<lambda>_ _. Some (Errorf ''locked''))\<rparr>" ex_ctx]
  by (simp add: closed_gate_def ex_ctx_def)

text \<open>C7: importing a tag is idempotent. After an import that committed without error, the same import with the same
  operation token, in any request, reports the record as committed and not created, stores nothing and logs nothing,
  provided the database under the audit log answers.\<close>

theorem ImportTag_idempotent:
  assumes "ImportTag sv cx oper cand w = (Inr (res, None), w1)" and "res_Committed res"
    and "audit_faults w1 (audit_calls w1) = None"
  shows "ImportTag sv cx' oper cand w1 =
    (Inr (\<lparr>res_Committed = True, res_Created = False\<rparr>, None), w1\<lparr>audit_calls := Suc (audit_calls w1)\<rparr>)"
  by (rule ImportTag_replay[OF _ assms(3)]) (use wp_Inr[OF ImportTag_imported assms(1)] assms(2) in simp)

definition ex_import :: Tag where
  "ex_import = \<lparr>tag_ID = ''c'', tag_OrganizationID = '''', tag_Name = ''C'', tag_ParentID = ''a'', tag_InheritByDefault = False,
     tag_Revision = 4, tag_CreatedAt = zero_time, tag_UpdatedAt = zero_time\<rparr>"

definition ex_oper :: ThreadsImportOperation where
  "ex_oper = \<lparr>op_Token = ''job1'', op_OccurredAt = GoTime (63600000000 * 1000000000) True\<rparr>"

definition ex_imported :: threads_world where
  "ex_imported = snd (ImportTag ex_service ex_ctx ex_oper ex_import ex_two)"

lemma ex_import_runs:
  "fst (ImportTag ex_service ex_ctx ex_oper ex_import ex_two) = Inr (\<lparr>res_Committed = True, res_Created = True\<rparr>, None)"
  by code_simp

lemma ex_import_quiet: "audit_faults ex_imported (audit_calls ex_imported) = None"
  by code_simp

theorem ImportTag_idempotent_witness:
  "fst (ImportTag ex_service ex_ctx ex_oper ex_import ex_imported) = Inr (\<lparr>res_Committed = True, res_Created = False\<rparr>, None)"
  using ImportTag_idempotent[OF _ _ ex_import_quiet, of ex_service ex_ctx ex_oper ex_import ex_two] ex_import_runs
  by (cases "ImportTag ex_service ex_ctx ex_oper ex_import ex_two") (simp add: ex_imported_def)

text \<open>Two rules of valid targets and tags have the same store key exactly when organization, target type, target
  and tag agree, so no rule can shadow another.\<close>

theorem threadsTargetKey_injective:
  assumes "validTagTarget tt" "validTagTarget tt'" "stableIDPattern ti" "stableIDPattern ti'" "stableIDPattern r" "stableIDPattern r'"
  shows "threadsTargetKey org tt ti r = threadsTargetKey org' tt' ti' r' \<longleftrightarrow> org = org' \<and> tt = tt' \<and> ti = ti' \<and> r = r'"
proof -
  have nul: "CHR 0x00 \<notin> set x" if "x \<in> {tt, tt', ti, ti', r, r'}" for x
    using that assms stable_no_nul
    by (auto simp: validTagTarget_def TargetAsset_def TargetPurchase_def TargetContract_def TargetSoftware_def TargetBudget_def TargetGoal_def)
  show ?thesis
    using separator_split[of "org @ [CHR 0x00] @ tt @ [CHR 0x00] @ ti" "CHR 0x00" r "org' @ [CHR 0x00] @ tt' @ [CHR 0x00] @ ti'" r']
      separator_split[of "org @ [CHR 0x00] @ tt" "CHR 0x00" ti "org' @ [CHR 0x00] @ tt'" ti']
      separator_split[of org "CHR 0x00" tt org' tt'] nul
    by (auto simp: threadsTargetKey_def)
qed

theorem threadsTargetKey_injective_witness:
  "threadsTargetKey ''org'' TargetAsset ''x'' ''a'' \<noteq> threadsTargetKey ''org'' TargetAsset ''x'' ''b''"
proof -
  have "validTagTarget TargetAsset" "stableIDPattern ''x''" "stableIDPattern ''a''" "stableIDPattern ''b''" by code_simp+
  then show ?thesis using threadsTargetKey_injective[of TargetAsset TargetAsset "''x''" "''x''" "''a''" "''b''" "''org''" "''org''"] by simp
qed

section \<open>Rules come and go\<close>

lemma delete_update_absent: "map_of m k = None \<Longrightarrow> AList.delete k (AList.update k v m) = m"
  by (induction m) (auto simp: AList.delete_eq filter_id_conv split: if_splits)

text \<open>Removing a rule restores what held before it was set: after a rule has been set where there was none and then
  deleted, the store's rules are those of the start, so every evaluation of tags is too.\<close>

theorem DeleteTagRule_restores:
  assumes set: "SetTagRule sv cx input w = (Inr r, w1)" and new: "sri_Revision input = 0"
    and del: "DeleteTagRule sv cx' (sri_TargetType input) (sri_TargetID input) (sri_TagID input) (rule_Revision r) w1 = (Inr (), w2)"
  shows "tags w2 = tags w \<and> tagRules w2 = tagRules w"
proof -
  let ?k = "threadsTargetKey (svc_organizationID sv) (sri_TargetType input) (TrimSpace (sri_TargetID input)) (TrimSpace (sri_TagID input))"
  have "wp (SetTagRule sv cx input) (\<lambda>r w1. map_of (tagRules w) ?k = None \<and> tagRules w1 = AList.update ?k r (tagRules w) \<and> tags w1 = tags w)
      (\<lambda>_ _. True) w"
    unfolding SetTagRule_def using new by (intro outcome_rules) (auto simp: same_store_def rule_key_def)
  from wp_Inr[OF this set]
  have s: "map_of (tagRules w) ?k = None" "tagRules w1 = AList.update ?k r (tagRules w)" "tags w1 = tags w" by blast+
  have "wp (DeleteTagRule sv cx' (sri_TargetType input) (sri_TargetID input) (sri_TagID input) (rule_Revision r))
      (\<lambda>_ w2. tagRules w2 = AList.delete ?k (tagRules w1) \<and> tags w2 = tags w1) (\<lambda>_ _. True) w1"
    unfolding DeleteTagRule_def by (intro outcome_rules) (auto simp: same_store_def)
  from wp_Inr[OF this del] s show ?thesis by (simp add: delete_update_absent)
qed

definition ex_unruled :: threads_world where
  "ex_unruled = snd (DeleteTagRule ex_service ex_ctx TargetAsset ''x'' ''b'' 1 ex_ruled)"

lemma ex_set_runs: "(case fst (SetTagRule ex_service ex_ctx ex_set ex_two) of Inr r \<Rightarrow> rule_Revision r = 1 | Inl _ \<Rightarrow> False)"
  by code_simp

lemma ex_delete_runs: "isl (fst (DeleteTagRule ex_service ex_ctx TargetAsset ''x'' ''b'' 1 ex_ruled)) = False"
  by code_simp

theorem DeleteTagRule_restores_witness: "tagRules ex_unruled = tagRules ex_two"
proof -
  obtain r where r: "SetTagRule ex_service ex_ctx ex_set ex_two = (Inr r, ex_ruled)" "rule_Revision r = 1"
    using ex_set_runs by (cases "SetTagRule ex_service ex_ctx ex_set ex_two") (auto simp: ex_ruled_def split: sum.splits)
  have "DeleteTagRule ex_service ex_ctx TargetAsset ''x'' ''b'' 1 ex_ruled = (Inr (), ex_unruled)"
    using ex_delete_runs by (cases "DeleteTagRule ex_service ex_ctx TargetAsset ''x'' ''b'' 1 ex_ruled";
      cases "fst (DeleteTagRule ex_service ex_ctx TargetAsset ''x'' ''b'' 1 ex_ruled)") (auto simp: ex_unruled_def)
  then show ?thesis using DeleteTagRule_restores[OF r(1), of ex_ctx ex_unruled] r(2) by (simp add: ex_set_def)
qed

section \<open>Where the code does less than it means to\<close>

text \<open>
  The checks of \<open>UpdateTag\<close> and its write are separate calls of the store. \<open>UpdateTag_checks\<close> is the operation up to the
  write and \<open>UpdateTag_commit\<close> the rest; together they are the operation. \<open>racing_updates\<close> interleaves two updates as
  two concurrent requests can: both check before either writes.
\<close>

definition UpdateTag_checks :: "threads_service \<Rightarrow> threads_ctx \<Rightarrow> UpdateTagInput \<Rightarrow> (Tag \<times> int) threads_op" where
  "UpdateTag_checks sv cx input0 =
     (let input = input0\<lparr>uti_ID := TrimSpace (uti_ID input0)\<rparr> in
      if \<not> stableIDPattern (uti_ID input) \<or> uti_Revision input < 1 then threads_fail ThreadsErrInvalidInput else
      tryE (threads_checkWrite sv cx ''threads.tag'' (uti_ID input)) (\<lambda>_.
      tryE (liftE (normalizeTagInput \<lparr>cti_ID = '''', cti_Name = uti_Name input, cti_ParentID = uti_ParentID input,
                     cti_InheritByDefault = uti_InheritByDefault input\<rparr>)) (\<lambda>normalized.
      tryE (storeGetTag (svc_organizationID sv) (uti_ID input)) (\<lambda>existing.
      if tag_Revision existing \<noteq> uti_Revision input then threads_fail ThreadsErrConflict else
      if cti_ParentID normalized = uti_ID input then threads_fail ThreadsErrCycle else
      tryE (validateTagParent sv (uti_ID input) (cti_ParentID normalized)) (\<lambda>_.
      tryE threads_now (\<lambda>now.
      returnE (existing\<lparr>tag_Name := cti_Name normalized, tag_ParentID := cti_ParentID normalized,
                tag_InheritByDefault := cti_InheritByDefault normalized,
                tag_Revision := i64 (tag_Revision existing + 1), tag_UpdatedAt := now\<rparr>, uti_Revision input)))))))"

definition UpdateTag_commit :: "threads_service \<Rightarrow> threads_ctx \<Rightarrow> Tag \<times> int \<Rightarrow> Tag threads_op" where
  "UpdateTag_commit sv cx p =
     tryE (storeUpdateTag (svc_unicode sv) (fst p) (snd p)) (\<lambda>updated.
     tryE (wrapE ''audit tag update'' (threads_audit sv cx ''threads.tag.updated'' ''tag'' (tag_ID updated)
        [(''revision'', FormatInt (tag_Revision updated)), (''parentId'', tag_ParentID updated)])) (\<lambda>_.
     returnE updated))"

lemma UpdateTag_phases: "UpdateTag sv cx input = tryE (UpdateTag_checks sv cx input) (UpdateTag_commit sv cx)"
  by (simp add: UpdateTag_def UpdateTag_checks_def UpdateTag_commit_def Let_def tryE_assoc tryE_branches if_distribR cong: if_cong)

definition racing_updates :: "threads_service \<Rightarrow> threads_ctx \<Rightarrow> UpdateTagInput \<Rightarrow> UpdateTagInput \<Rightarrow> (Tag \<times> Tag) threads_op" where
  "racing_updates sv cx a b =
     tryE (UpdateTag_checks sv cx a) (\<lambda>pa.
     tryE (UpdateTag_checks sv cx b) (\<lambda>pb.
     tryE (UpdateTag_commit sv cx pa) (\<lambda>ta.
     tryE (UpdateTag_commit sv cx pb) (\<lambda>tb.
     returnE (ta, tb)))))"

text \<open>The store after the tags \<open>a\<close> and \<open>b\<close> have been created side by side.\<close>

definition ex_flat :: threads_world where
  "ex_flat = snd (CreateTag ex_service ex_ctx (ex_input ''b'' '''')
     (snd (CreateTag ex_service ex_ctx (ex_input ''a'' '''') ex_world)))"

lemma race_runs:
  "(case racing_updates ex_service ex_ctx (ex_update ''a'' ''b'') (ex_update ''b'' ''a'') ex_flat of
      (Inr (ta, tb), w) \<Rightarrow>
        map_option tag_ParentID (map_of (tags w) (threadsRecordKey ''org'' ''a'')) = Some ''b'' \<and>
        map_option tag_ParentID (map_of (tags w) (threadsRecordKey ''org'' ''b'')) = Some ''a''
    | _ \<Rightarrow> False)"
  by code_simp

text \<open>C8: the hierarchy is safe only for updates that do not overlap. The operation is its checks
  followed by its write; from a reachable store with two unrelated tags, two updates whose checks both run before either write put each tag under the other: both succeed, and the tags form a cycle.\<close>

theorem racing_updates_cycle:
  "(\<forall>sv cx input. UpdateTag sv cx input = tryE (UpdateTag_checks sv cx input) (UpdateTag_commit sv cx)) \<and>
   (\<exists>w ta tb w'. (threads_step ex_service)\<^sup>*\<^sup>* ex_world w \<and>
     racing_updates ex_service ex_ctx (ex_update ''a'' ''b'') (ex_update ''b'' ''a'') w = (Inr (ta, tb), w') \<and>
     (''a'', ''a'') \<in> (parent_rel (svc_organizationID ex_service) tag_ParentID (tags w'))\<^sup>+)"
proof -
  have reach: "(threads_step ex_service)\<^sup>*\<^sup>* ex_world ex_flat"
    unfolding ex_flat_def by (rule rtranclp.rtrancl_into_rtrancl[OF r_into_rtranclp]) (rule step_CreateTag)+
  obtain ta tb w' where w': "racing_updates ex_service ex_ctx (ex_update ''a'' ''b'') (ex_update ''b'' ''a'') ex_flat = (Inr (ta, tb), w')"
      "map_option tag_ParentID (map_of (tags w') (threadsRecordKey ''org'' ''a'')) = Some ''b''"
      "map_option tag_ParentID (map_of (tags w') (threadsRecordKey ''org'' ''b'')) = Some ''a''"
    using race_runs by (auto split: prod.splits sum.splits)
  then have "(''a'', ''b'') \<in> parent_rel ''org'' tag_ParentID (tags w')" "(''b'', ''a'') \<in> parent_rel ''org'' tag_ParentID (tags w')"
    by (auto simp: parent_rel_def)
  then have "(''a'', ''a'') \<in> (parent_rel (svc_organizationID ex_service) tag_ParentID (tags w'))\<^sup>+"
    by (auto simp: ex_service_def intro: trancl.trancl_into_trancl)
  with reach w'(1) show ?thesis using UpdateTag_phases by blast
qed

text \<open>C9: the revision counter can run out. An import may bring any positive revision; a tag imported with the largest one
  is updated once, to a negative revision, and from then on every update of it fails, whatever revision it names.\<close>

theorem revision_wraps:
  assumes "UpdateTag sv cx input w = (Inr t, w1)" and "uti_Revision input = max_i64" and "threads_inv sv w"
    and "TrimSpace (uti_ID input') = TrimSpace (uti_ID input)"
  shows "tag_Revision t = min_i64 \<and> (\<exists>e w2. UpdateTag sv cx' input' w1 = (Inl e, w2) \<and> same_store w1 w2)"
proof -
  let ?k = "threadsRecordKey (svc_organizationID sv) (TrimSpace (uti_ID input))"
  have valid: "stableIDPattern (TrimSpace (uti_ID input))"
    using assms(1) by (auto simp: UpdateTag_def raiseE_def Let_def split: if_splits)
  obtain old where old: "map_of (tags w) ?k = Some old" "tags w1 = AList.update (tag_key old) t (tags w)"
      "tag_Revision t = i64 (max_i64 + 1)"
    using wp_Inr[OF UpdateTag_success_wp assms(1)] assms(2) by auto
  then have neg: "tag_Revision t = min_i64" by (simp add: i64_def max_i64_def min_i64_def)
  have "tag_key old = ?k"
    using store_inv_lookup_tag[OF assms(3)[unfolded threads_inv_def] old(1) valid] by (simp add: tag_key_def)
  then have "map_of (tags w1) ?k = Some t" using old by simp
  then have "wp (UpdateTag sv cx' input') (\<lambda>_ _. False) (\<lambda>_ w2. same_store w1 w2) w1"
    using assms(4) neg unfolding UpdateTag_def by (intro outcome_rules) (auto simp: min_i64_def)
  then show ?thesis using neg
    by (cases "UpdateTag sv cx' input' w1"; cases "fst (UpdateTag sv cx' input' w1)") (auto simp: wp_def)
qed

definition ex_max_tag :: Tag where
  "ex_max_tag = ex_import\<lparr>tag_ParentID := '''', tag_Revision := max_i64\<rparr>"

definition ex_maxed :: threads_world where
  "ex_maxed = snd (ImportTag ex_service ex_ctx ex_oper ex_max_tag ex_world)"

definition ex_last :: UpdateTagInput where
  "ex_last = \<lparr>uti_ID = ''c'', uti_Name = ''D'', uti_ParentID = '''', uti_InheritByDefault = True, uti_Revision = max_i64\<rparr>"

definition ex_full :: Tag where
  "ex_full = (ex_tag ''c'' '''')\<lparr>tag_Revision := max_i64\<rparr>"

definition ex_full_world :: threads_world where
  "ex_full_world = ex_world\<lparr>tags := [(tag_key ex_full, ex_full)]\<rparr>"

lemma ex_maxed_revision: "map_option tag_Revision (map_of (tags ex_maxed) (threadsRecordKey ''org'' ''c'')) = Some max_i64"
  by code_simp

lemma ex_last_runs: "isl (fst (UpdateTag ex_service ex_ctx ex_last ex_full_world)) = False"
  by code_simp

lemma ex_full_inv: "threads_inv ex_service ex_full_world"
proof -
  have st: "stableIDPattern ''c''" by code_simp
  have "parent_rel ''org'' tag_ParentID [(tag_key ex_full, ex_full)] = {}"
    by (auto simp: parent_rel_def ex_full_def ex_tag_def split: if_splits)
  then have "hierarchy_ok ''org'' tag_ParentID [(tag_key ex_full, ex_full)]" by (simp add: hierarchy_ok_def acyclic_def)
  then show ?thesis using st
    by (simp add: threads_inv_def store_inv_def tags_ok_def goals_ok_def rules_ok_def links_ok_def
        ex_full_world_def ex_service_def ex_world_def well_keyed_def vals_def)
      (simp add: ex_full_def ex_tag_def)
qed

theorem revision_wraps_witness:
  "map_option tag_Revision (map_of (tags ex_maxed) (threadsRecordKey ''org'' ''c'')) = Some max_i64 \<and>
   (\<exists>t w1. UpdateTag ex_service ex_ctx ex_last ex_full_world = (Inr t, w1) \<and> tag_Revision t = min_i64 \<and>
     (\<exists>e w2. UpdateTag ex_service ex_ctx ex_last w1 = (Inl e, w2)))"
proof -
  obtain t w1 where r: "UpdateTag ex_service ex_ctx ex_last ex_full_world = (Inr t, w1)"
    using ex_last_runs
    by (cases "UpdateTag ex_service ex_ctx ex_last ex_full_world"; cases "fst (UpdateTag ex_service ex_ctx ex_last ex_full_world)") auto
  from revision_wraps[OF r _ ex_full_inv, of ex_last ex_ctx] r ex_maxed_revision show ?thesis
    by (auto simp: ex_last_def)
qed

end
