(* ===== verification/Cache_Store.thy ===== *)
theory Cache_Store
  imports Go_Strings Go_Time Foundation
begin

text \<open>
  Package \<open>internal/cache\<close>: the bounded memory store, the disabled store and key namespaces. The memory
  store's methods run under its mutex, so each is one step on the record \<open>memory_store\<close>. Its clock is a
  sequence of readings; \<open>ms_reads\<close> counts the readings taken, one per call of \<open>s.now()\<close>.
  A context is nil or carries the error it reports when it is asked before the lock and under the lock.
\<close>

datatype cache_sentinel =
  CacheErrNotFound | CacheErrClosed | CacheErrCapacity | CacheErrInvalidKey | CacheErrInvalidTTL | CacheErrInvalidCounter

type_synonym cache_error = "cache_sentinel err"

record cache_ctx =
  cc_nil :: bool
  cc_before :: "string option"
  cc_locked :: "string option"

definition maximumKeyBytes :: nat where "maximumKeyBytes = 1024"

definition validateKey :: "string \<Rightarrow> cache_error option" where
  "validateKey key = (if length key = 0 \<or> length key > maximumKeyBytes then Some (Sentinel CacheErrInvalidKey) else None)"

definition validateTTL :: "duration \<Rightarrow> cache_error option" where
  "validateTTL ttl = (if ttl < Millisecond then Some (Sentinel CacheErrInvalidTTL) else None)"

definition validateContext :: "cache_ctx \<Rightarrow> cache_error option" where
  "validateContext cx = (if cc_nil cx then Some (Errorf ''cache context is required'') else map_option Errorf (cc_before cx))"

section \<open>The memory store\<close>

record memoryEntry =
  me_value :: string
  me_expiresAt :: gotime

record memory_store =
  ms_entries :: "(string, memoryEntry) gomap"
  ms_maxEntries :: int
  ms_now :: "nat \<Rightarrow> gotime"
  ms_reads :: nat
  ms_closed :: bool

type_synonym 'a cache_op = "(memory_store, cache_sentinel, 'a) op"

definition DefaultMemoryCapacity :: int where "DefaultMemoryCapacity = 10000"

definition newMemoryStore :: "int \<Rightarrow> (nat \<Rightarrow> gotime) option \<Rightarrow> string + memory_store" where
  "newMemoryStore maxEntries now =
     (if maxEntries < 1 then Inl ''positive memory cache capacity is required''
      else case now of
        None \<Rightarrow> Inl ''memory cache clock is required''
      | Some clk \<Rightarrow> Inr \<lparr>ms_entries = [], ms_maxEntries = maxEntries, ms_now = clk, ms_reads = 0, ms_closed = False\<rparr>)"

definition NewDefaultMemoryStore :: "(nat \<Rightarrow> gotime) \<Rightarrow> memory_store" where
  "NewDefaultMemoryStore clk =
     \<lparr>ms_entries = [], ms_maxEntries = DefaultMemoryCapacity, ms_now = clk, ms_reads = 0, ms_closed = False\<rparr>"

definition store_now :: "gotime cache_op" where
  "store_now s = (Inr (ms_now s (ms_reads s)), s\<lparr>ms_reads := Suc (ms_reads s)\<rparr>)"

definition operationError :: "cache_ctx \<Rightarrow> unit cache_op" where
  "operationError cx =
     tryE (checkE (map_option Errorf (cc_locked cx))) (\<lambda>_ s.
       if ms_closed s then (Inl (Sentinel CacheErrClosed), s) else (Inr (), s))"

definition live_at :: "gotime \<Rightarrow> memoryEntry \<Rightarrow> bool" where
  "live_at now entry = Before now (me_expiresAt entry)"

definition removeExpired :: "unit cache_op" where
  "removeExpired = tryE store_now (\<lambda>now.
     modifyE (\<lambda>s. s\<lparr>ms_entries := filter (\<lambda>(_, entry). live_at now entry) (ms_entries s)\<rparr>))"

definition reserve :: "string \<Rightarrow> unit cache_op" where
  "reserve key s =
     (if map_of (ms_entries s) key \<noteq> None then (Inr (), s)
      else tryE removeExpired (\<lambda>_ s'.
        if int (length (ms_entries s')) \<ge> ms_maxEntries s' then (Inl (Sentinel CacheErrCapacity), s') else (Inr (), s')) s)"

definition MemoryGet :: "cache_ctx \<Rightarrow> string \<Rightarrow> string cache_op" where
  "MemoryGet cx key =
     tryE (checkE (validateContext cx)) (\<lambda>_.
     tryE (checkE (validateKey key)) (\<lambda>_.
     tryE (operationError cx) (\<lambda>_ s.
       case map_of (ms_entries s) key of
         None \<Rightarrow> (Inl (Sentinel CacheErrNotFound), s)
       | Some entry \<Rightarrow>
           tryE store_now (\<lambda>now s'.
             if \<not> live_at now entry
             then (Inl (Sentinel CacheErrNotFound), s'\<lparr>ms_entries := AList.delete key (ms_entries s')\<rparr>)
             else (Inr (me_value entry), s')) s)))"

definition MemorySet :: "cache_ctx \<Rightarrow> string \<Rightarrow> string \<Rightarrow> duration \<Rightarrow> unit cache_op" where
  "MemorySet cx key value' ttl =
     tryE (checkE (validateContext cx)) (\<lambda>_.
     tryE (checkE (validateKey key)) (\<lambda>_.
     tryE (checkE (validateTTL ttl)) (\<lambda>_.
     tryE (operationError cx) (\<lambda>_.
     tryE (reserve key) (\<lambda>_.
     tryE store_now (\<lambda>now.
     modifyE (\<lambda>s. s\<lparr>ms_entries := AList.update key \<lparr>me_value = value', me_expiresAt = Add now ttl\<rparr> (ms_entries s)\<rparr>)))))))"

definition MemoryDelete :: "cache_ctx \<Rightarrow> string \<Rightarrow> unit cache_op" where
  "MemoryDelete cx key =
     tryE (checkE (validateContext cx)) (\<lambda>_.
     tryE (checkE (validateKey key)) (\<lambda>_.
     tryE (operationError cx) (\<lambda>_.
     modifyE (\<lambda>s. s\<lparr>ms_entries := AList.delete key (ms_entries s)\<rparr>))))"

definition MemoryIncrement :: "cache_ctx \<Rightarrow> string \<Rightarrow> duration \<Rightarrow> int cache_op" where
  "MemoryIncrement cx key ttl =
     tryE (checkE (validateContext cx)) (\<lambda>_.
     tryE (checkE (validateKey key)) (\<lambda>_.
     tryE (checkE (validateTTL ttl)) (\<lambda>_.
     tryE (operationError cx) (\<lambda>_.
     tryE store_now (\<lambda>now s.
       case map_of (ms_entries s) key of
         Some entry \<Rightarrow>
           if live_at now entry then
             (case ParseInt (me_value entry) of
                None \<Rightarrow> (Inl (Sentinel CacheErrInvalidCounter), s)
              | Some v \<Rightarrow>
                  if v = max_i64 then (Inl (Sentinel CacheErrInvalidCounter), s)
                  else (Inr (v + 1),
                        s\<lparr>ms_entries := AList.update key (entry\<lparr>me_value := FormatInt (v + 1)\<rparr>) (ms_entries s)\<rparr>))
           else
             tryE (reserve key) (\<lambda>_ s'.
               (Inr 1, s'\<lparr>ms_entries := AList.update key \<lparr>me_value = ''1'', me_expiresAt = Add now ttl\<rparr> (ms_entries s')\<rparr>))
             (s\<lparr>ms_entries := AList.delete key (ms_entries s)\<rparr>)
       | None \<Rightarrow>
           tryE (reserve key) (\<lambda>_ s'.
             (Inr 1, s'\<lparr>ms_entries := AList.update key \<lparr>me_value = ''1'', me_expiresAt = Add now ttl\<rparr> (ms_entries s')\<rparr>)) s)))))"

definition MemoryPing :: "cache_ctx \<Rightarrow> unit cache_op" where
  "MemoryPing cx = tryE (checkE (validateContext cx)) (\<lambda>_. operationError cx)"

definition MemoryClose :: "unit cache_op" where
  "MemoryClose s = (if ms_closed s then (Inr (), s) else (Inr (), s\<lparr>ms_closed := True, ms_entries := []\<rparr>))"

section \<open>The disabled store\<close>

definition NoopGet :: "cache_ctx \<Rightarrow> string \<Rightarrow> ('s, cache_sentinel, string) op" where
  "NoopGet cx key =
     tryE (checkE (validateContext cx)) (\<lambda>_.
     tryE (checkE (validateKey key)) (\<lambda>_.
     raiseE (Sentinel CacheErrNotFound)))"

definition NoopSet :: "cache_ctx \<Rightarrow> string \<Rightarrow> string \<Rightarrow> duration \<Rightarrow> ('s, cache_sentinel, unit) op" where
  "NoopSet cx key value' ttl =
     tryE (checkE (validateContext cx)) (\<lambda>_.
     tryE (checkE (validateKey key)) (\<lambda>_.
     checkE (validateTTL ttl)))"

definition NoopDelete :: "cache_ctx \<Rightarrow> string \<Rightarrow> ('s, cache_sentinel, unit) op" where
  "NoopDelete cx key = tryE (checkE (validateContext cx)) (\<lambda>_. checkE (validateKey key))"

definition NoopIncrement :: "cache_ctx \<Rightarrow> string \<Rightarrow> duration \<Rightarrow> ('s, cache_sentinel, int) op" where
  "NoopIncrement cx key ttl =
     tryE (checkE (validateContext cx)) (\<lambda>_.
     tryE (checkE (validateKey key)) (\<lambda>_.
     tryE (checkE (validateTTL ttl)) (\<lambda>_.
     returnE 1)))"

definition NoopPing :: "cache_ctx \<Rightarrow> ('s, cache_sentinel, unit) op" where
  "NoopPing cx = checkE (validateContext cx)"

definition NoopClose :: "('s, cache_sentinel, unit) op" where
  "NoopClose = returnE ()"

section \<open>Namespaces\<close>

record Namespace =
  ns_prefix :: string
  ns_schemaVersion :: string
  ns_organizationID :: string

definition segment_char :: "rune \<Rightarrow> bool" where
  "segment_char c \<longleftrightarrow> (97 \<le> c \<and> c \<le> 122) \<or> (65 \<le> c \<and> c \<le> 90) \<or> (48 \<le> c \<and> c \<le> 57) \<or> c = 45 \<or> c = 95 \<or> c = 46"

definition validNamespaceSegment :: "string \<Rightarrow> bool" where
  "validNamespaceSegment value' \<longleftrightarrow> length value' \<noteq> 0 \<and> length value' \<le> 128 \<and> list_all segment_char (runes value')"

definition NewNamespace :: "string \<Rightarrow> string \<Rightarrow> string \<Rightarrow> string + Namespace" where
  "NewNamespace prefix schemaVersion organizationID =
     (if \<not> validNamespaceSegment prefix then Inl ''invalid cache namespace prefix''
      else if \<not> validNamespaceSegment schemaVersion then Inl ''invalid cache namespace schema version''
      else if \<not> validNamespaceSegment organizationID then Inl ''invalid cache namespace organization ID''
      else Inr \<lparr>ns_prefix = prefix, ns_schemaVersion = schemaVersion, ns_organizationID = organizationID\<rparr>)"

text \<open>The loop over the dimensions: the key built so far grows by the digest of each.\<close>

fun key_dimensions :: "(string \<Rightarrow> string) \<Rightarrow> string \<Rightarrow> string list \<Rightarrow> cache_error + string" where
  "key_dimensions sha key [] = Inr key"
| "key_dimensions sha key (d # ds) =
     (if d = '''' then Inl (Wrapf ''cache key dimensions must not be empty'' (Sentinel CacheErrInvalidKey))
      else key_dimensions sha (key @ '':'' @ hex_encode (sha d)) ds)"

definition Namespace_Key :: "(string \<Rightarrow> string) \<Rightarrow> Namespace \<Rightarrow> string \<Rightarrow> string list \<Rightarrow> cache_error + string" where
  "Namespace_Key sha n resource dimensions =
     (if \<not> validNamespaceSegment (ns_prefix n) \<or> \<not> validNamespaceSegment (ns_schemaVersion n) \<or>
         \<not> validNamespaceSegment (ns_organizationID n)
      then Inl (Wrapf ''invalid cache namespace'' (Sentinel CacheErrInvalidKey))
      else if \<not> validNamespaceSegment resource then Inl (Wrapf ''invalid cache key resource'' (Sentinel CacheErrInvalidKey))
      else case key_dimensions sha (ns_prefix n @ '':'' @ ns_schemaVersion n @ '':org:'' @ ns_organizationID n @ '':'' @ resource) dimensions of
        Inl e \<Rightarrow> Inl e
      | Inr key \<Rightarrow> if length key > maximumKeyBytes then Inl (Sentinel CacheErrInvalidKey) else Inr key)"

end
