(* ===== verification/Cache_Properties.thy ===== *)
theory Cache_Properties
  imports Cache_Store
begin

text \<open>
  What the memory store guarantees: it never holds more entries than its capacity, it never drops an entry
  that is still live, a value can be read until it expires and not after, counters count and keep the
  expiry of their first increment, and a closed store refuses everything. Keys built by a namespace keep
  organizations apart.
\<close>

section \<open>Equations\<close>

text \<open>The checks every operation makes first: context, key, time to live, cancellation, closed store.\<close>

definition pre_error :: "cache_ctx \<Rightarrow> string \<Rightarrow> duration \<Rightarrow> memory_store \<Rightarrow> cache_error option" where
  "pre_error cx key ttl s =
     (if validateContext cx \<noteq> None then validateContext cx
      else if validateKey key \<noteq> None then validateKey key
      else if validateTTL ttl \<noteq> None then validateTTL ttl
      else if cc_locked cx \<noteq> None then map_option Errorf (cc_locked cx)
      else if ms_closed s then Some (Sentinel CacheErrClosed) else None)"

definition expire :: "gotime \<Rightarrow> (string, memoryEntry) gomap \<Rightarrow> (string, memoryEntry) gomap" where
  "expire now m = filter (\<lambda>(_, entry). live_at now entry) m"

lemma reserve_eq:
  "reserve key s =
     (if map_of (ms_entries s) key \<noteq> None then (Inr (), s)
      else let s' = s\<lparr>ms_reads := Suc (ms_reads s), ms_entries := expire (ms_now s (ms_reads s)) (ms_entries s)\<rparr> in
        if int (length (ms_entries s')) \<ge> ms_maxEntries s then (Inl (Sentinel CacheErrCapacity), s') else (Inr (), s'))"
  by (simp add: reserve_def removeExpired_def store_now_def tryE_def modifyE_def expire_def Let_def)

lemma pre_steps:
  "tryE (checkE (validateContext cx)) (\<lambda>_. tryE (checkE (validateKey key)) (\<lambda>_. tryE (checkE (validateTTL ttl)) (\<lambda>_.
     tryE (operationError cx) (\<lambda>_. m)))) s = (case pre_error cx key ttl s of Some e \<Rightarrow> (Inl e, s) | None \<Rightarrow> m s)"
  by (auto simp: tryE_def checkE_def operationError_def pre_error_def split: option.splits)

lemma pre_steps_no_ttl:
  "tryE (checkE (validateContext cx)) (\<lambda>_. tryE (checkE (validateKey key)) (\<lambda>_. tryE (operationError cx) (\<lambda>_. m))) s =
     (case pre_error cx key Millisecond s of Some e \<Rightarrow> (Inl e, s) | None \<Rightarrow> m s)"
  by (auto simp: tryE_def checkE_def operationError_def pre_error_def validateTTL_def split: option.splits)

lemma MemoryGet_eq:
  "MemoryGet cx key s =
     (case pre_error cx key Millisecond s of
        Some e \<Rightarrow> (Inl e, s)
      | None \<Rightarrow> (case map_of (ms_entries s) key of
          None \<Rightarrow> (Inl (Sentinel CacheErrNotFound), s)
        | Some entry \<Rightarrow>
            let s' = s\<lparr>ms_reads := Suc (ms_reads s)\<rparr> in
            if live_at (ms_now s (ms_reads s)) entry then (Inr (me_value entry), s')
            else (Inl (Sentinel CacheErrNotFound), s'\<lparr>ms_entries := AList.delete key (ms_entries s)\<rparr>)))"
  unfolding MemoryGet_def pre_steps_no_ttl
  by (simp add: tryE_def store_now_def Let_def split: option.splits)

lemma MemorySet_eq:
  "MemorySet cx key v ttl s =
     (case pre_error cx key ttl s of
        Some e \<Rightarrow> (Inl e, s)
      | None \<Rightarrow> (case reserve key s of
          (Inl e, s') \<Rightarrow> (Inl e, s')
        | (Inr _, s') \<Rightarrow> (Inr (), s'\<lparr>ms_reads := Suc (ms_reads s'),
            ms_entries := AList.update key \<lparr>me_value = v, me_expiresAt = Add (ms_now s' (ms_reads s')) ttl\<rparr> (ms_entries s')\<rparr>)))"
  unfolding MemorySet_def pre_steps
  by (simp add: tryE_def store_now_def modifyE_def split: option.splits prod.splits sum.splits)

lemma MemoryDelete_eq:
  "MemoryDelete cx key s =
     (case pre_error cx key Millisecond s of
        Some e \<Rightarrow> (Inl e, s) | None \<Rightarrow> (Inr (), s\<lparr>ms_entries := AList.delete key (ms_entries s)\<rparr>))"
  unfolding MemoryDelete_def pre_steps_no_ttl by (simp add: modifyE_def split: option.splits)

definition start_counter :: "string \<Rightarrow> gotime \<Rightarrow> duration \<Rightarrow> int cache_op" where
  "start_counter key now ttl s =
     (case reserve key s of
        (Inl e, s') \<Rightarrow> (Inl e, s')
      | (Inr _, s') \<Rightarrow>
          (Inr 1, s'\<lparr>ms_entries := AList.update key \<lparr>me_value = ''1'', me_expiresAt = Add now ttl\<rparr> (ms_entries s')\<rparr>))"

lemma MemoryIncrement_eq:
  "MemoryIncrement cx key ttl s =
     (case pre_error cx key ttl s of
        Some e \<Rightarrow> (Inl e, s)
      | None \<Rightarrow>
          (let now = ms_now s (ms_reads s); s1 = s\<lparr>ms_reads := Suc (ms_reads s)\<rparr> in
           case map_of (ms_entries s) key of
             None \<Rightarrow> start_counter key now ttl s1
           | Some entry \<Rightarrow>
               if \<not> live_at now entry then start_counter key now ttl (s1\<lparr>ms_entries := AList.delete key (ms_entries s)\<rparr>)
               else (case ParseInt (me_value entry) of
                   None \<Rightarrow> (Inl (Sentinel CacheErrInvalidCounter), s1)
                 | Some v \<Rightarrow>
                     if v = max_i64 then (Inl (Sentinel CacheErrInvalidCounter), s1)
                     else (Inr (v + 1), s1\<lparr>ms_entries := AList.update key (entry\<lparr>me_value := FormatInt (v + 1)\<rparr>) (ms_entries s)\<rparr>))))"
  unfolding MemoryIncrement_def pre_steps
  by (simp add: tryE_def store_now_def start_counter_def Let_def split: option.splits prod.splits sum.splits)

section \<open>The capacity invariant\<close>

definition cache_ok :: "memory_store \<Rightarrow> bool" where
  "cache_ok s \<longleftrightarrow> distinct (map fst (ms_entries s)) \<and> int (length (ms_entries s)) \<le> ms_maxEntries s \<and> 1 \<le> ms_maxEntries s \<and>
     (\<forall>k \<in> fst ` set (ms_entries s). validateKey k = None) \<and> (ms_closed s \<longrightarrow> ms_entries s = [])"

lemma expire_map_of:
  "distinct (map fst m) \<Longrightarrow> map_of (expire now m) k = (case map_of m k of Some e \<Rightarrow> if live_at now e then Some e else None | None \<Rightarrow> None)"
  by (induction m) (auto simp: expire_def map_of_eq_None_iff split: option.splits)

lemma expire_keys: "fst ` set (expire now m) \<subseteq> fst ` set m" "length (expire now m) \<le> length m"
  "distinct (map fst m) \<Longrightarrow> distinct (map fst (expire now m))"
  by (auto simp: expire_def distinct_map_filter)

lemma cache_ok_write:
  assumes "cache_ok s" "validateKey k = None" "\<not> ms_closed s"
    and "map_of (ms_entries s) k \<noteq> None \<or> int (length (ms_entries s)) < ms_maxEntries s"
  shows "cache_ok (s\<lparr>ms_entries := AList.update k e (ms_entries s)\<rparr>)"
proof -
  have "int (length (AList.update k e (ms_entries s))) \<le> ms_maxEntries s"
    using assms by (cases "map_of (ms_entries s) k") (auto simp: cache_ok_def length_update_absent length_update_present)
  then show ?thesis using assms by (auto simp: cache_ok_def distinct_update dom_update)
qed

lemma cache_ok_delete: "cache_ok s \<Longrightarrow> cache_ok (s\<lparr>ms_entries := AList.delete k (ms_entries s)\<rparr>)"
  using length_delete_le[of k "ms_entries s"] by (auto simp: cache_ok_def distinct_delete set_delete)

lemma cache_ok_reads [simp]: "cache_ok (s\<lparr>ms_reads := n\<rparr>) = cache_ok s"
  by (simp add: cache_ok_def)

lemma cache_ok_expire: "cache_ok s \<Longrightarrow> cache_ok (s\<lparr>ms_reads := n, ms_entries := expire now (ms_entries s)\<rparr>)"
  using expire_keys[where now = now and m = "ms_entries s"] by (auto simp: cache_ok_def) (auto simp: expire_def)

lemma reserve_ok:
  assumes "cache_ok s" "reserve key s = (r, s')"
  shows "cache_ok s' \<and> ms_closed s' = ms_closed s \<and>
    (r = Inr () \<longrightarrow> map_of (ms_entries s') key \<noteq> None \<or> int (length (ms_entries s')) < ms_maxEntries s')"
  using assms by (auto simp: reserve_eq Let_def cache_ok_expire split: if_splits)

lemma start_counter_ok:
  assumes "cache_ok s" "validateKey key = None" "\<not> ms_closed s"
  shows "cache_ok (snd (start_counter key now ttl s))"
proof (cases "reserve key s")
  case (Pair r s')
  show ?thesis
    using reserve_ok[OF assms(1) Pair] assms Pair
    by (cases r) (auto simp: start_counter_def intro!: cache_ok_write)
qed

lemma pre_error_None:
  "pre_error cx key ttl s = None \<longleftrightarrow>
     \<not> cc_nil cx \<and> cc_before cx = None \<and> cc_locked cx = None \<and> validateKey key = None \<and> Millisecond \<le> ttl \<and> \<not> ms_closed s"
  by (auto simp: pre_error_def validateContext_def validateTTL_def)

lemma MemoryGet_ok: "cache_ok s \<Longrightarrow> cache_ok (snd (MemoryGet cx key s))"
  using cache_ok_delete[of "s\<lparr>ms_reads := Suc (ms_reads s)\<rparr>" key]
  by (auto simp: MemoryGet_eq Let_def split: option.splits)

lemma MemorySet_ok:
  assumes ok: "cache_ok s"
  shows "cache_ok (snd (MemorySet cx key v ttl s))"
proof (cases "pre_error cx key ttl s")
  case None
  obtain r s' where r: "reserve key s = (r, s')" by (cases "reserve key s")
  have k: "validateKey key = None" "\<not> ms_closed s" using None by (auto simp: pre_error_None)
  from reserve_ok[OF ok r] None k show ?thesis
    using cache_ok_write[of "s'\<lparr>ms_reads := Suc (ms_reads s')\<rparr>" key]
    by (cases r) (auto simp: MemorySet_eq r)
qed (simp add: MemorySet_eq ok)

lemma MemoryIncrement_ok:
  assumes ok: "cache_ok s"
  shows "cache_ok (snd (MemoryIncrement cx key ttl s))"
proof (cases "pre_error cx key ttl s")
  case None
  then have k: "validateKey key = None" "\<not> ms_closed s" by (auto simp: pre_error_None)
  let ?s1 = "s\<lparr>ms_reads := Suc (ms_reads s)\<rparr>"
  have s1: "cache_ok ?s1" using ok by simp
  have "cache_ok (?s1\<lparr>ms_entries := AList.delete key (ms_entries s)\<rparr>)" using cache_ok_delete[OF s1, of key] by simp
  then have "cache_ok (snd (start_counter key now ttl (?s1\<lparr>ms_entries := AList.delete key (ms_entries s)\<rparr>)))" for now
    using k by (intro start_counter_ok) auto
  moreover have "cache_ok (snd (start_counter key now ttl ?s1))" for now using k s1 by (intro start_counter_ok) auto
  moreover have "cache_ok (?s1\<lparr>ms_entries := AList.update key e (ms_entries s)\<rparr>)" if "map_of (ms_entries s) key \<noteq> None" for e
    using cache_ok_write[OF s1 k(1), of e] k that by simp
  ultimately show ?thesis using None s1
    by (auto simp: MemoryIncrement_eq Let_def simp del: memory_store.update_convs split: option.splits)
qed (simp add: MemoryIncrement_eq ok)

inductive cache_step :: "memory_store \<Rightarrow> memory_store \<Rightarrow> bool" where
  "cache_step s (snd (MemoryGet cx key s))"
| "cache_step s (snd (MemorySet cx key v ttl s))"
| "cache_step s (snd (MemoryDelete cx key s))"
| "cache_step s (snd (MemoryIncrement cx key ttl s))"
| "cache_step s (snd (MemoryPing cx s))"
| "cache_step s (snd (MemoryClose s))"

lemma cache_step_ok: "cache_step s s' \<Longrightarrow> cache_ok s \<Longrightarrow> cache_ok s'"
proof (induction rule: cache_step.induct)
  case (3 s cx key)
  then show ?case by (auto simp: MemoryDelete_eq cache_ok_delete split: option.splits)
next
  case (5 s cx)
  then show ?case by (auto simp: MemoryPing_def tryE_def checkE_def operationError_def split: option.splits)
next
  case (6 s)
  then show ?case by (simp add: MemoryClose_def cache_ok_def)
qed (simp_all add: MemoryGet_ok MemorySet_ok MemoryIncrement_ok)

lemma cache_reachable_ok: "cache_step\<^sup>*\<^sup>* s s' \<Longrightarrow> cache_ok s \<Longrightarrow> cache_ok s'"
  by (induction rule: rtranclp_induct) (auto dest: cache_step_ok)

section \<open>Properties\<close>

definition ex_clock :: "nat \<Rightarrow> gotime" where
  "ex_clock n = GoTime (int n) True"

definition ex_cache :: memory_store where
  "ex_cache = \<lparr>ms_entries = [], ms_maxEntries = 2, ms_now = ex_clock, ms_reads = 0, ms_closed = False\<rparr>"

definition ex_cctx :: cache_ctx where
  "ex_cctx = \<lparr>cc_nil = False, cc_before = None, cc_locked = None\<rparr>"

lemma ex_cache_new: "newMemoryStore 2 (Some ex_clock) = Inr ex_cache"
  by (simp add: newMemoryStore_def ex_cache_def)

text \<open>C10: whatever is called on a new memory store, it never holds more entries than its capacity, each under a valid
  key and at most once, and a closed store holds nothing.\<close>

theorem cache_bounded:
  assumes "newMemoryStore n clk = Inr s0" and "cache_step\<^sup>*\<^sup>* s0 s"
  shows "int (length (ms_entries s)) \<le> ms_maxEntries s \<and> distinct (map fst (ms_entries s)) \<and>
    (\<forall>k \<in> fst ` set (ms_entries s). 0 < length k \<and> length k \<le> maximumKeyBytes) \<and> (ms_closed s \<longrightarrow> ms_entries s = [])"
proof -
  have "cache_ok s0" using assms(1) by (auto simp: newMemoryStore_def cache_ok_def split: if_splits option.splits)
  from cache_reachable_ok[OF assms(2) this] show ?thesis
    by (auto simp: cache_ok_def validateKey_def split: if_splits)
qed

theorem cache_bounded_witness:
  "int (length (ms_entries (snd (MemorySet ex_cctx ''k'' ''v'' Second ex_cache)))) \<le>
     ms_maxEntries (snd (MemorySet ex_cctx ''k'' ''v'' Second ex_cache))"
  using cache_bounded[OF ex_cache_new r_into_rtranclp[of cache_step, OF cache_step.intros(2)]] by blast

text \<open>An entry that is still live is never dropped to make room. Reading, or writing and counting under another key,
  keeps every entry that is live at all later clock readings.\<close>

theorem cache_keeps_live:
  assumes ok: "cache_ok s" and e: "map_of (ms_entries s) k = Some e" and live: "\<forall>i \<ge> ms_reads s. live_at (ms_now s i) e"
    and other: "k' \<noteq> k"
  shows "map_of (ms_entries (snd (MemoryGet cx key s))) k = Some e \<and>
    map_of (ms_entries (snd (MemorySet cx k' v ttl s))) k = Some e \<and>
    map_of (ms_entries (snd (MemoryIncrement cx k' ttl s))) k = Some e"
proof -
  have d: "distinct (map fst (ms_entries s))" using ok by (simp add: cache_ok_def)
  have keep: "map_of (ms_entries t') k = Some e"
    if "reserve k' t = (r, t')" "map_of (ms_entries t) k = Some e" "distinct (map fst (ms_entries t))"
      "ms_now t = ms_now s" "ms_reads s \<le> ms_reads t" for t t' r
    using that live by (auto simp: reserve_eq Let_def expire_map_of split: if_splits)
  have start: "map_of (ms_entries (snd (start_counter k' now ttl t))) k = Some e"
    if "map_of (ms_entries t) k = Some e" "distinct (map fst (ms_entries t))" "ms_now t = ms_now s" "ms_reads s \<le> ms_reads t" for t now
    using keep[OF _ that] other by (auto simp: start_counter_def split: prod.splits sum.splits)
  have "map_of (ms_entries (snd (MemoryGet cx key s))) k = Some e"
    using e live by (auto simp: MemoryGet_eq Let_def split: option.splits)
  moreover have "map_of (ms_entries (snd (MemorySet cx k' v ttl s))) k = Some e"
    using keep[OF _ e d] e other by (auto simp: MemorySet_eq split: option.splits prod.splits sum.splits)
  moreover have "map_of (ms_entries (snd (MemoryIncrement cx k' ttl s))) k = Some e"
    using e d other start[of "s\<lparr>ms_reads := Suc (ms_reads s)\<rparr>"]
      start[of "s\<lparr>ms_reads := Suc (ms_reads s), ms_entries := AList.delete k' (ms_entries s)\<rparr>"]
    by (auto simp: MemoryIncrement_eq Let_def distinct_delete split: option.splits)
  ultimately show ?thesis by blast
qed

definition ex_entry :: memoryEntry where
  "ex_entry = \<lparr>me_value = ''v'', me_expiresAt = GoTime 1000 True\<rparr>"

definition ex_frozen :: memory_store where
  "ex_frozen = ex_cache\<lparr>ms_entries := [(''k'', ex_entry)], ms_now := (\<lambda>_. GoTime 5 True)\<rparr>"

lemma ex_frozen_ok: "cache_ok ex_frozen"
  by (simp add: cache_ok_def ex_frozen_def ex_cache_def validateKey_def maximumKeyBytes_def)

theorem cache_keeps_live_witness:
  "map_of (ms_entries (snd (MemorySet ex_cctx ''j'' ''x'' Second ex_frozen))) ''k'' = Some ex_entry"
  using cache_keeps_live[OF ex_frozen_ok, of "''k''" ex_entry "''j''"]
  by (simp add: ex_frozen_def ex_cache_def ex_entry_def live_at_def Before_def)

text \<open>A stored value can be read back until its time to live has passed since the clock reading of the write, and
  from that instant on the key is reported as missing.\<close>

theorem cache_read_back:
  assumes "MemorySet cx key v ttl s = (Inr (), s1)"
  shows "fst (MemoryGet cx key s1) =
    (if nanos (ms_now s1 (ms_reads s1)) < nanos (ms_now s1 (ms_reads s1 - 1)) + ttl then Inr v else Inl (Sentinel CacheErrNotFound))"
proof -
  have pre: "pre_error cx key ttl s = None" using assms by (cases "pre_error cx key ttl s") (auto simp: MemorySet_eq)
  obtain s' where r: "reserve key s = (Inr (), s')" and s1: "s1 = s'\<lparr>ms_reads := Suc (ms_reads s'),
      ms_entries := AList.update key \<lparr>me_value = v, me_expiresAt = Add (ms_now s' (ms_reads s')) ttl\<rparr> (ms_entries s')\<rparr>"
    using assms pre by (auto simp: MemorySet_eq split: prod.splits sum.splits)
  have "ms_closed s' = ms_closed s" using r by (auto simp: reserve_eq Let_def split: if_splits)
  then have "pre_error cx key Millisecond s1 = None" using pre s1 by (auto simp: pre_error_None)
  then show ?thesis using s1 by (simp add: MemoryGet_eq Let_def live_at_def Before_def Add_def)
qed

theorem cache_read_back_witness:
  "fst (MemoryGet ex_cctx ''k'' (snd (MemorySet ex_cctx ''k'' ''v'' Second ex_cache))) = Inr ''v''"
proof -
  have "MemorySet ex_cctx ''k'' ''v'' Second ex_cache = (Inr (), snd (MemorySet ex_cctx ''k'' ''v'' Second ex_cache))"
    by (simp add: MemorySet_eq pre_error_def validateContext_def validateKey_def validateTTL_def reserve_eq Let_def expire_def
        ex_cctx_def ex_cache_def maximumKeyBytes_def Millisecond_def Second_def)
  from cache_read_back[OF this] show ?thesis
    by (simp add: MemorySet_eq pre_error_def validateContext_def validateKey_def validateTTL_def reserve_eq Let_def expire_def
        ex_cctx_def ex_cache_def maximumKeyBytes_def Millisecond_def Second_def ex_clock_def)
qed

section \<open>Counters\<close>

fun increments :: "cache_ctx \<Rightarrow> string \<Rightarrow> duration \<Rightarrow> nat \<Rightarrow> memory_store \<Rightarrow> (cache_error + int) list \<times> memory_store" where
  "increments cx key ttl 0 s = ([], s)"
| "increments cx key ttl (Suc n) s =
     (case MemoryIncrement cx key ttl s of (r, s1) \<Rightarrow> (case increments cx key ttl n s1 of (rs, s2) \<Rightarrow> (r # rs, s2)))"

text \<open>A counter entry: its value reads as a number.\<close>

definition counts :: "string \<Rightarrow> int \<Rightarrow> gotime \<Rightarrow> memory_store \<Rightarrow> bool" where
  "counts key c until s \<longleftrightarrow>
     (\<exists>e. map_of (ms_entries s) key = Some e \<and> ParseInt (me_value e) = Some c \<and> me_expiresAt e = until)"

lemma increment_live:
  assumes "counts key c until s" "pre_error cx key ttl s = None" "Before (ms_now s (ms_reads s)) until" "0 \<le> c" "c < max_i64"
  shows "\<exists>s1. MemoryIncrement cx key ttl s = (Inr (c + 1), s1) \<and> counts key (c + 1) until s1 \<and>
    ms_now s1 = ms_now s \<and> ms_reads s1 = Suc (ms_reads s) \<and> ms_closed s1 = ms_closed s \<and>
    (\<forall>k. k \<noteq> key \<longrightarrow> map_of (ms_entries s1) k = map_of (ms_entries s) k)"
proof -
  have "ParseInt (FormatInt (c + 1)) = Some (c + 1)"
    using assms(4,5) by (intro ParseInt_FormatInt) (simp add: is_i64_def min_i64_def)
  then show ?thesis using assms by (auto simp: counts_def MemoryIncrement_eq Let_def live_at_def)
qed

lemma ParseInt_one: "ParseInt ''1'' = Some 1"
  by code_simp

lemma start_counter_counts: "start_counter key now ttl s = (Inr c, s1) \<Longrightarrow> c = 1 \<and> counts key 1 (Add now ttl) s1 \<and> ms_closed s1 = ms_closed s"
  by (auto simp: start_counter_def counts_def ParseInt_one reserve_eq Let_def split: prod.splits sum.splits if_splits)

lemma ParseInt_range: "ParseInt str = Some v \<Longrightarrow> is_i64 v"
  by (auto simp: ParseInt_def Let_def split: list.splits option.splits if_splits)

lemma increment_counts:
  assumes inc: "MemoryIncrement cx key ttl s = (Inr c, s1)"
  shows "pre_error cx key ttl s = None \<and> (\<exists>until. counts key c until s1) \<and> ms_closed s1 = ms_closed s"
proof -
  have pre: "pre_error cx key ttl s = None" using inc by (cases "pre_error cx key ttl s") (auto simp: MemoryIncrement_eq)
  have parse: "ParseInt (FormatInt (v + 1)) = Some (v + 1)" if "ParseInt str = Some v" "v \<noteq> max_i64" for v str
  proof (rule ParseInt_FormatInt)
    have "is_i64 v" using that(1) by (rule ParseInt_range)
    then show "is_i64 (v + 1)" using that(2) by (auto simp: is_i64_def)
  qed
  show ?thesis
    using inc pre parse
    by (auto simp: MemoryIncrement_eq Let_def counts_def split: option.splits if_splits dest!: start_counter_counts)
qed

text \<open>Counters count. When a key holds a counter that stands at \<open>c\<close>, the next \<open>n\<close> increments of the key return \<open>c + 1\<close> to
  \<open>c + n\<close>, as long as the clock stays before the expiry of the entry and the numbers fit; the expiry stays that of the
  first increment, whatever time to live the later ones ask for.\<close>

theorem cache_counts:
  assumes "counts key c until s" "pre_error cx key ttl s = None" "0 \<le> c" "c + int n \<le> max_i64"
    and "\<forall>i < n. Before (ms_now s (ms_reads s + i)) until"
  shows "\<exists>s2. increments cx key ttl n s = (map (\<lambda>i. Inr (c + 1 + int i)) [0..<n], s2) \<and> counts key (c + int n) until s2"
  using assms
proof (induction n arbitrary: c s)
  case 0
  then show ?case by simp
next
  case (Suc n)
  then obtain s1 where s1: "MemoryIncrement cx key ttl s = (Inr (c + 1), s1)" "counts key (c + 1) until s1"
      "ms_now s1 = ms_now s" "ms_reads s1 = Suc (ms_reads s)" "ms_closed s1 = ms_closed s"
    using increment_live[of key c until s cx ttl] by force
  have "pre_error cx key ttl s1 = None" using Suc.prems(2) s1(5) by (simp add: pre_error_None)
  moreover have "\<forall>i < n. Before (ms_now s1 (ms_reads s1 + i)) until" using Suc.prems(5) s1 by auto
  ultimately obtain s2 where s2: "increments cx key ttl n s1 = (map (\<lambda>i. Inr (c + 1 + 1 + int i)) [0..<n], s2)"
      "counts key (c + 1 + int n) until s2"
    using Suc.IH[of "c + 1" s1] s1(2) Suc.prems by auto
  have "[0..<Suc n] = 0 # map Suc [0..<n]" by (metis map_Suc_upt upt_conv_Cons zero_less_Suc)
  then show ?case using s1(1) s2 by (simp add: comp_def algebra_simps)
qed

definition ex_counter :: memory_store where
  "ex_counter = ex_cache\<lparr>ms_entries := [(''k'', \<lparr>me_value = ''1'', me_expiresAt = GoTime 1000 True\<rparr>)]\<rparr>"

theorem cache_counts_witness:
  "\<exists>s2. increments ex_cctx ''k'' Second 3 ex_counter = (map (\<lambda>i. Inr (1 + 1 + int i)) [0..<3], s2) \<and>
     counts ''k'' (1 + int 3) (GoTime 1000 True) s2"
  by (rule cache_counts)
    (simp_all add: counts_def ex_counter_def ex_cache_def ParseInt_one pre_error_def validateContext_def validateKey_def
      validateTTL_def maximumKeyBytes_def Millisecond_def Second_def ex_cctx_def max_i64_def Before_def ex_clock_def)

text \<open>An increment that succeeds leaves a counter with the number it returned, so a counter can be read back.\<close>

theorem cache_increment_reads_back:
  assumes "MemoryIncrement cx key ttl s = (Inr c, s1)"
  shows "\<exists>e. map_of (ms_entries s1) key = Some e \<and> ParseInt (me_value e) = Some c"
  using increment_counts[OF assms] by (auto simp: counts_def)

theorem cache_increment_reads_back_witness:
  "\<exists>e. map_of (ms_entries (snd (MemoryIncrement ex_cctx ''k'' Second ex_cache))) ''k'' = Some e \<and> ParseInt (me_value e) = Some 1"
proof -
  have "MemoryIncrement ex_cctx ''k'' Second ex_cache = (Inr 1, snd (MemoryIncrement ex_cctx ''k'' Second ex_cache))"
    by (simp add: MemoryIncrement_eq start_counter_def pre_error_def validateContext_def validateKey_def validateTTL_def reserve_eq
        Let_def expire_def ex_cctx_def ex_cache_def maximumKeyBytes_def Millisecond_def Second_def)
  from cache_increment_reads_back[OF this] show ?thesis .
qed

section \<open>Namespaces\<close>

section \<open>Closed stores and namespaces\<close>

text \<open>A closed store is closed for good: closing drops every entry, and every later operation with a valid key and
  time to live in a context that is not cancelled reports \<open>ErrClosed\<close> and changes nothing.\<close>

theorem cache_closed:
  assumes "\<not> cc_nil cx" "cc_before cx = None" "cc_locked cx = None" "validateKey key = None" "validateTTL ttl = None"
    and "s' = snd (MemoryClose s)"
  shows "MemoryGet cx key s' = (Inl (Sentinel CacheErrClosed), s') \<and> MemorySet cx key v ttl s' = (Inl (Sentinel CacheErrClosed), s') \<and>
    MemoryDelete cx key s' = (Inl (Sentinel CacheErrClosed), s') \<and> MemoryIncrement cx key ttl s' = (Inl (Sentinel CacheErrClosed), s') \<and>
    MemoryPing cx s' = (Inl (Sentinel CacheErrClosed), s') \<and> MemoryClose s' = (Inr (), s') \<and>
    (\<not> ms_closed s \<longrightarrow> ms_entries s' = [])"
proof -
  have c: "ms_closed s'" using assms(6) by (simp add: MemoryClose_def)
  then have "pre_error cx key ttl s' = Some (Sentinel CacheErrClosed)" "pre_error cx key Millisecond s' = Some (Sentinel CacheErrClosed)"
    using assms by (auto simp: pre_error_def validateContext_def validateTTL_def)
  then show ?thesis using assms c
    by (auto simp: MemoryGet_eq MemorySet_eq MemoryDelete_eq MemoryIncrement_eq MemoryClose_def)
      (simp_all add: MemoryPing_def tryE_def checkE_def validateContext_def operationError_def MemoryClose_def)
qed

theorem cache_closed_witness:
  "MemoryGet ex_cctx ''k'' (snd (MemoryClose ex_cache)) = (Inl (Sentinel CacheErrClosed), snd (MemoryClose ex_cache))"
  using cache_closed[of ex_cctx "''k''" Second "snd (MemoryClose ex_cache)" ex_cache]
  by (simp add: ex_cctx_def validateKey_def maximumKeyBytes_def validateTTL_def Second_def Millisecond_def)

lemma decode_ascii:
  "decode_rune (c # cs) = (r, w) \<Longrightarrow> r < 128 \<Longrightarrow> byte c < 128 \<and> r = byte c \<and> w = 1"
  by (auto simp: within_def cont_def second_ok_def rune_error_def split: if_splits list.splits)

lemma segment_bytes: "list_all segment_char (runes v) \<Longrightarrow> \<forall>c \<in> set v. segment_char (byte c)"
proof (induction v rule: runes.induct)
  case (2 c cs)
  obtain r w where d: "decode_rune (c # cs) = (r, w)" by (cases "decode_rune (c # cs)")
  have "r < 128" using "2.prems" d by (auto simp: segment_char_def)
  from decode_ascii[OF d this] "2.IH"[OF d[symmetric]] "2.prems" d show ?case by auto
qed simp

lemma segment_no_colon: "validNamespaceSegment v \<Longrightarrow> CHR '':'' \<notin> set v"
  using segment_bytes[of v] by (auto simp: validNamespaceSegment_def segment_char_def)

lemma takeWhile_split:
  assumes "a @ z # x = b @ z # y" "z \<notin> set a" "z \<notin> set b"
  shows "a = b \<and> x = y"
proof -
  have "takeWhile (\<lambda>c. c \<noteq> z) (a @ z # x) = a" "takeWhile (\<lambda>c. c \<noteq> z) (b @ z # y) = b"
    using assms(2,3) by (subst takeWhile_append2; auto)+
  then show ?thesis using assms(1) by auto
qed

text \<open>The part of a key after the resource: empty, or a colon and the rest.\<close>

lemma key_dimensions_shape:
  "key_dimensions sha key ds = Inr k \<Longrightarrow> k = key \<or> (\<exists>rest. k = key @ CHR '':'' # rest)"
  by (induction ds arbitrary: key) (auto split: if_splits, metis append.assoc append_Cons)

lemma Namespace_Key_shape:
  assumes "Namespace_Key sha n r ds = Inr key"
  shows "\<exists>rest. key @ '':'' = ns_prefix n @ CHR '':'' # ns_schemaVersion n @ CHR '':'' # CHR ''o'' # CHR ''r'' # CHR ''g'' # CHR '':'' #
      ns_organizationID n @ CHR '':'' # r @ CHR '':'' # rest"
    and "\<forall>v \<in> {ns_prefix n, ns_schemaVersion n, ns_organizationID n, r}. CHR '':'' \<notin> set v"
  using assms
  by (auto simp: Namespace_Key_def segment_no_colon split: if_splits sum.splits dest!: key_dimensions_shape)

text \<open>C11: keys of different organizations never collide, whatever the hash does: a key determines the prefix, schema
  version, organization and resource it was built from.\<close>

theorem namespace_key_isolates:
  assumes "Namespace_Key sha n r ds = Inr key" and "Namespace_Key sha' n' r' ds' = Inr key"
  shows "ns_prefix n = ns_prefix n' \<and> ns_schemaVersion n = ns_schemaVersion n' \<and>
    ns_organizationID n = ns_organizationID n' \<and> r = r'"
proof -
  note a = Namespace_Key_shape[OF assms(1)] and b = Namespace_Key_shape[OF assms(2)]
  obtain x y where "ns_prefix n @ CHR '':'' # ns_schemaVersion n @ CHR '':'' # CHR ''o'' # CHR ''r'' # CHR ''g'' # CHR '':'' #
      ns_organizationID n @ CHR '':'' # r @ CHR '':'' # x =
      ns_prefix n' @ CHR '':'' # ns_schemaVersion n' @ CHR '':'' # CHR ''o'' # CHR ''r'' # CHR ''g'' # CHR '':'' #
      ns_organizationID n' @ CHR '':'' # r' @ CHR '':'' # y"
    using a(1) b(1) by metis
  then show ?thesis using a(2) b(2) by (auto dest!: takeWhile_split)
qed

definition ex_ns :: Namespace where
  "ex_ns = \<lparr>ns_prefix = ''p'', ns_schemaVersion = ''v1'', ns_organizationID = ''o''\<rparr>"

theorem namespace_key_isolates_witness:
  "Namespace_Key id ex_ns ''r'' [''d''] = Inr ''p:v1:org:o:r:64'' \<and>
   Namespace_Key id (ex_ns\<lparr>ns_organizationID := ''q''\<rparr>) ''r'' [''d''] \<noteq> Inr ''p:v1:org:o:r:64''"
proof
  show k: "Namespace_Key id ex_ns ''r'' [''d''] = Inr ''p:v1:org:o:r:64''" by code_simp
  show "Namespace_Key id (ex_ns\<lparr>ns_organizationID := ''q''\<rparr>) ''r'' [''d''] \<noteq> Inr ''p:v1:org:o:r:64''"
    by (rule notI) (drule namespace_key_isolates[OF k], simp add: ex_ns_def)
qed

end
