(* ===== verification/Attempt_Limiter.thy ===== *)
theory Attempt_Limiter
  imports Cache_Properties
begin

text \<open>
  \<open>internal/guard/rate_limiter.go\<close> and \<open>internal/guard/cache_rate_limiter.go\<close>: the two limiters of failed
  logins. The memory limiter keeps the instants of recent failures per key and fails closed when too many
  keys are tracked; the cache limiter keeps a counter per key in a cache store. Keys are stored under
  their HMAC, which is the parameter \<open>hmac\<close>. A cache limiter is given the operations of its store, as it is
  given a \<open>cache.Store\<close>.
\<close>

section \<open>The memory limiter\<close>

definition maximumTrackedAttemptKeys :: nat where "maximumTrackedAttemptKeys = 10000"

record memory_limiter =
  ml_key :: string
  ml_maxFailures :: int
  ml_window :: duration
  ml_failures :: "(string, gotime list) gomap"
  ml_saturatedTo :: gotime

type_synonym 'a limiter_op = "(memory_limiter, cache_sentinel, 'a) op"

definition NewMemoryAttemptLimiter :: "string option \<Rightarrow> int \<Rightarrow> duration \<Rightarrow> string + memory_limiter" where
  "NewMemoryAttemptLimiter random maxFailures window =
     (if maxFailures < 1 \<or> window \<le> 0 then Inl ''positive rate limit and window are required''
      else case random of
        None \<Rightarrow> Inl ''initialize rate limiter''
      | Some key \<Rightarrow> Inr \<lparr>ml_key = take 32 (key @ replicate 32 (CHR 0x00)), ml_maxFailures = maxFailures, ml_window = window,
                          ml_failures = [], ml_saturatedTo = zero_time\<rparr>)"

definition limiterContextError :: "cache_ctx \<Rightarrow> cache_error option" where
  "limiterContextError cx = (if cc_nil cx then Some (Errorf ''rate limiter context is required'') else map_option Errorf (cc_before cx))"

definition digest :: "(string \<Rightarrow> string \<Rightarrow> string) \<Rightarrow> memory_limiter \<Rightarrow> string \<Rightarrow> string" where
  "digest hmac l value' = hex_encode (hmac (ml_key l) value')"

definition activeFailures :: "gotime list \<Rightarrow> gotime \<Rightarrow> gotime list" where
  "activeFailures entries cutoff = dropWhile (\<lambda>t. Before t cutoff) entries"

definition pruneExpired :: "gotime \<Rightarrow> memory_limiter \<Rightarrow> memory_limiter" where
  "pruneExpired now l =
     (let cutoff = Add now (- ml_window l) in
      l\<lparr>ml_failures := filter (\<lambda>(_, active). active \<noteq> [])
          (map (\<lambda>(d, entries). (d, activeFailures entries cutoff)) (ml_failures l))\<rparr>)"

text \<open>The common start of \<open>Allow\<close> and \<open>Failure\<close> once a past saturation is over.\<close>

definition leave_saturation :: "gotime \<Rightarrow> memory_limiter \<Rightarrow> memory_limiter" where
  "leave_saturation now l =
     (if \<not> IsZero (ml_saturatedTo l) then (pruneExpired now l)\<lparr>ml_saturatedTo := zero_time\<rparr> else l)"

definition failures_of :: "memory_limiter \<Rightarrow> string \<Rightarrow> gotime list" where
  "failures_of l d = (case map_of (ml_failures l) d of None \<Rightarrow> [] | Some entries \<Rightarrow> entries)"

definition limiter_Allow :: "(string \<Rightarrow> string \<Rightarrow> string) \<Rightarrow> cache_ctx \<Rightarrow> string \<Rightarrow> gotime \<Rightarrow> bool limiter_op" where
  "limiter_Allow hmac cx key now =
     tryE (checkE (limiterContextError cx)) (\<lambda>_.
     tryE (checkE (map_option Errorf (cc_locked cx))) (\<lambda>_ l0.
       if Before now (ml_saturatedTo l0) then (Inr False, l0)
       else
         let l = leave_saturation now l0; d = digest hmac l key;
             entries = activeFailures (failures_of l d) (Add now (- ml_window l))
         in if entries = [] then (Inr True, l\<lparr>ml_failures := AList.delete d (ml_failures l)\<rparr>)
            else (Inr (int (length entries) < ml_maxFailures l), l\<lparr>ml_failures := AList.update d entries (ml_failures l)\<rparr>)))"

definition limiter_Failure :: "(string \<Rightarrow> string \<Rightarrow> string) \<Rightarrow> cache_ctx \<Rightarrow> string \<Rightarrow> gotime \<Rightarrow> unit limiter_op" where
  "limiter_Failure hmac cx key now =
     tryE (checkE (limiterContextError cx)) (\<lambda>_.
     tryE (checkE (map_option Errorf (cc_locked cx))) (\<lambda>_ l0.
       if Before now (ml_saturatedTo l0) then (Inr (), l0)
       else
         let l = leave_saturation now l0; d = digest hmac l key;
             entries = activeFailures (failures_of l d) (Add now (- ml_window l));
             l1 = (if entries = [] then l\<lparr>ml_failures := AList.delete d (ml_failures l)\<rparr> else l);
             l2 = (if entries = [] \<and> length (ml_failures l1) \<ge> maximumTrackedAttemptKeys then pruneExpired now l1 else l1)
         in if entries = [] \<and> length (ml_failures l2) \<ge> maximumTrackedAttemptKeys
            then (Inr (), l2\<lparr>ml_saturatedTo := Add now (ml_window l)\<rparr>)
            else (Inr (), l2\<lparr>ml_failures := AList.update d (entries @ [now]) (ml_failures l2)\<rparr>)))"

definition limiter_Reset :: "(string \<Rightarrow> string \<Rightarrow> string) \<Rightarrow> cache_ctx \<Rightarrow> string \<Rightarrow> unit limiter_op" where
  "limiter_Reset hmac cx key =
     tryE (checkE (limiterContextError cx)) (\<lambda>_.
     tryE (checkE (map_option Errorf (cc_locked cx))) (\<lambda>_ l.
       (Inr (), l\<lparr>ml_failures := AList.delete (digest hmac l key) (ml_failures l)\<rparr>)))"

section \<open>The cache limiter\<close>

record 's cache_ops =
  co_Get :: "cache_ctx \<Rightarrow> string \<Rightarrow> ('s, cache_sentinel, string) op"
  co_Delete :: "cache_ctx \<Rightarrow> string \<Rightarrow> ('s, cache_sentinel, unit) op"
  co_Increment :: "cache_ctx \<Rightarrow> string \<Rightarrow> duration \<Rightarrow> ('s, cache_sentinel, int) op"

definition memory_ops :: "memory_store cache_ops" where
  "memory_ops = \<lparr>co_Get = MemoryGet, co_Delete = MemoryDelete, co_Increment = MemoryIncrement\<rparr>"

definition noop_ops :: "'s cache_ops" where
  "noop_ops = \<lparr>co_Get = NoopGet, co_Delete = NoopDelete, co_Increment = NoopIncrement\<rparr>"

record 's cache_limiter =
  cl_store :: "'s cache_ops"
  cl_namespace :: Namespace
  cl_keySecret :: string
  cl_maxFailures :: int
  cl_window :: duration

definition NewCacheAttemptLimiter ::
  "(string \<Rightarrow> string) \<Rightarrow> 's cache_ops option \<Rightarrow> Namespace \<Rightarrow> string \<Rightarrow> int \<Rightarrow> duration \<Rightarrow> cache_error + 's cache_limiter" where
  "NewCacheAttemptLimiter sha store namespace keySecret maxFailures window =
     (case store of
        None \<Rightarrow> Inl (Errorf ''cache store is required for shared login rate limiting'')
      | Some ops \<Rightarrow>
          if length keySecret < 32 then Inl (Errorf ''shared login rate-limit key secret must contain at least 32 bytes'')
          else if maxFailures < 1 \<or> window < Millisecond then Inl (Errorf ''positive shared rate limit and window are required'')
          else case Namespace_Key sha namespace ''guard-login-failures'' [''validation''] of
            Inl e \<Rightarrow> Inl (Wrapf ''valid shared login rate-limit namespace is required'' e)
          | Inr _ \<Rightarrow> Inr \<lparr>cl_store = ops, cl_namespace = namespace, cl_keySecret = keySecret, cl_maxFailures = maxFailures,
                            cl_window = window\<rparr>)"

definition NewDefaultCacheAttemptLimiter ::
  "(string \<Rightarrow> string) \<Rightarrow> 's cache_ops option \<Rightarrow> Namespace \<Rightarrow> string \<Rightarrow> cache_error + 's cache_limiter" where
  "NewDefaultCacheAttemptLimiter sha store namespace keySecret = NewCacheAttemptLimiter sha store namespace keySecret 5 (15 * Minute)"

definition cacheKey ::
  "(string \<Rightarrow> string) \<Rightarrow> (string \<Rightarrow> string \<Rightarrow> string) \<Rightarrow> 's cache_limiter \<Rightarrow> cache_ctx \<Rightarrow> string \<Rightarrow> cache_error + string" where
  "cacheKey sha hmac l cx key =
     (case limiterContextError cx of
        Some e \<Rightarrow> Inl e
      | None \<Rightarrow>
          (case Namespace_Key sha (cl_namespace l) ''guard-login-failures'' [hex_encode (hmac (cl_keySecret l) key)] of
             Inl e \<Rightarrow> Inl (Wrapf ''build shared login failure key'' e)
           | Inr k \<Rightarrow> Inr k))"

definition shared_Allow ::
  "(string \<Rightarrow> string) \<Rightarrow> (string \<Rightarrow> string \<Rightarrow> string) \<Rightarrow> 's cache_limiter \<Rightarrow> cache_ctx \<Rightarrow> string \<Rightarrow> ('s, cache_sentinel, bool) op" where
  "shared_Allow sha hmac l cx key =
     tryE (liftE (cacheKey sha hmac l cx key)) (\<lambda>k.
     tryE (attemptE (co_Get (cl_store l) cx k)) (\<lambda>got. case got of
       Inl e \<Rightarrow> if err_is e CacheErrNotFound then returnE True else raiseE (Wrapf ''read shared login failure count'' e)
     | Inr value' \<Rightarrow>
         (case ParseInt value' of
            None \<Rightarrow> raiseE (Errorf ''shared login failure count is invalid'')
          | Some n \<Rightarrow>
              if n < 1 then raiseE (Errorf ''shared login failure count is invalid'')
              else returnE (n < cl_maxFailures l))))"

definition shared_Failure ::
  "(string \<Rightarrow> string) \<Rightarrow> (string \<Rightarrow> string \<Rightarrow> string) \<Rightarrow> 's cache_limiter \<Rightarrow> cache_ctx \<Rightarrow> string \<Rightarrow> ('s, cache_sentinel, unit) op" where
  "shared_Failure sha hmac l cx key =
     tryE (liftE (cacheKey sha hmac l cx key)) (\<lambda>k.
     tryE (wrapE ''increment shared login failure count'' (co_Increment (cl_store l) cx k (cl_window l))) (\<lambda>n.
     if n < 1 then raiseE (Errorf ''shared login failure count is invalid'') else returnE ()))"

definition shared_Reset ::
  "(string \<Rightarrow> string) \<Rightarrow> (string \<Rightarrow> string \<Rightarrow> string) \<Rightarrow> 's cache_limiter \<Rightarrow> cache_ctx \<Rightarrow> string \<Rightarrow> ('s, cache_sentinel, unit) op" where
  "shared_Reset sha hmac l cx key =
     tryE (liftE (cacheKey sha hmac l cx key)) (\<lambda>k.
     wrapE ''reset shared login failure count'' (co_Delete (cl_store l) cx k))"

end
