(* ===== verification/Limiter_Properties.thy ===== *)
theory Limiter_Properties
  imports Attempt_Limiter
begin

text \<open>
  What a limiter of failed logins promises to the login service, as the locale \<open>attempt_limiter\<close>: the wrong
  guesses it lets through and records for one key within one window do not exceed the limit, whatever
  other keys are tried in between. Both limiters are instances.
\<close>

section \<open>The contract\<close>

definition in_window :: "duration \<Rightarrow> gotime \<Rightarrow> gotime \<Rightarrow> bool" where
  "in_window window t0 t \<longleftrightarrow> nanos t0 \<le> nanos t \<and> nanos t < nanos t0 + window"

text \<open>A wrong guess: it is let through by \<open>Allow\<close>, and \<open>Failure\<close> records it.\<close>

definition guess :: "(string \<Rightarrow> gotime \<Rightarrow> 's \<Rightarrow> ('e err + bool) \<times> 's) \<Rightarrow> (string \<Rightarrow> gotime \<Rightarrow> 's \<Rightarrow> ('e err + unit) \<times> 's) \<Rightarrow>
    string \<Rightarrow> gotime \<Rightarrow> 's \<Rightarrow> bool \<times> 's" where
  "guess allow fail k t s =
     (case allow k t s of
        (Inr True, s1) \<Rightarrow> (case fail k t s1 of (Inr _, s2) \<Rightarrow> (True, s2) | (Inl _, s2) \<Rightarrow> (False, s2))
      | (_, s1) \<Rightarrow> (False, s1))"

fun wrong_guesses :: "(string \<Rightarrow> gotime \<Rightarrow> 's \<Rightarrow> ('e err + bool) \<times> 's) \<Rightarrow> (string \<Rightarrow> gotime \<Rightarrow> 's \<Rightarrow> ('e err + unit) \<times> 's) \<Rightarrow>
    string \<Rightarrow> (string \<times> gotime) list \<Rightarrow> 's \<Rightarrow> nat" where
  "wrong_guesses allow fail k [] s = 0"
| "wrong_guesses allow fail k ((k', t) # rest) s =
     (case guess allow fail k' t s of (b, s') \<Rightarrow> (if b \<and> k' = k then 1 else 0) + wrong_guesses allow fail k rest s')"

locale attempt_limiter =
  fixes allow :: "string \<Rightarrow> gotime \<Rightarrow> 's \<Rightarrow> ('e err + bool) \<times> 's"
    and fail :: "string \<Rightarrow> gotime \<Rightarrow> 's \<Rightarrow> ('e err + unit) \<times> 's"
    and tracked :: "'s \<Rightarrow> string \<Rightarrow> gotime \<Rightarrow> nat \<Rightarrow> bool"
    and limit :: nat
    and window :: duration
  assumes blocks: "tracked s k t0 n \<Longrightarrow> limit \<le> n \<Longrightarrow> in_window window t0 t \<Longrightarrow> fst (allow k t s) \<noteq> Inr True"
    and allow_keeps: "tracked s k t0 n \<Longrightarrow> in_window window t0 t \<Longrightarrow> tracked (snd (allow k' t s)) k t0 n"
    and fail_keeps: "tracked s k t0 n \<Longrightarrow> in_window window t0 t \<Longrightarrow> tracked (snd (fail k' t s)) k t0 n"
    and fail_counts: "tracked s k t0 n \<Longrightarrow> in_window window t0 t \<Longrightarrow> fail k t s = (Inr (), s') \<Longrightarrow> tracked s' k t0 (Suc n)"
begin

lemma guess_tracked:
  assumes "tracked s k t0 n" "in_window window t0 t" "guess allow fail k' t s = (b, s')"
  shows "tracked s' k t0 (if b \<and> k' = k then Suc n else n) \<and> (b \<and> k' = k \<longrightarrow> n < limit)"
proof -
  obtain r s1 where a: "allow k' t s = (r, s1)" by (cases "allow k' t s")
  have t1: "tracked s1 k t0 n" using allow_keeps[OF assms(1,2), of k'] a by simp
  show ?thesis
  proof (cases "r = Inr True")
    case True
    obtain r' s2 where f: "fail k' t s1 = (r', s2)" by (cases "fail k' t s1")
    have "tracked s2 k t0 n" using fail_keeps[OF t1 assms(2), of k'] f by simp
    moreover have "n < limit" if "k' = k" using blocks[OF assms(1) _ assms(2)] a True that by force
    moreover have "tracked s2 k t0 (Suc n)" if "k' = k" "r' = Inr ()" using fail_counts[OF t1 assms(2)] f that by simp
    ultimately show ?thesis using assms(3) a f True by (auto simp: guess_def split: sum.splits if_splits)
  next
    case False
    then show ?thesis using assms(3) a t1 by (auto simp: guess_def split: sum.splits bool.splits)
  qed
qed

theorem guesses_bounded:
  assumes "tracked s k t0 n" "n \<le> limit" "\<forall>(k', t) \<in> set trials. in_window window t0 t"
  shows "n + wrong_guesses allow fail k trials s \<le> limit"
  using assms
proof (induction trials arbitrary: s n)
  case (Cons a trials)
  obtain k' t where a: "a = (k', t)" by (cases a)
  obtain b s' where g: "guess allow fail k' t s = (b, s')" by (cases "guess allow fail k' t s")
  have "in_window window t0 t" using Cons.prems(3) a by simp
  from guess_tracked[OF Cons.prems(1) this g] Cons.IH[of s' "if b \<and> k' = k then Suc n else n"] Cons.prems g a
  show ?case by (auto split: if_splits)
qed simp

end

section \<open>The memory limiter\<close>

lemma filter_dropWhile: "(\<And>x. Q x \<Longrightarrow> \<not> P x) \<Longrightarrow> filter Q (dropWhile P xs) = filter Q xs"
  by (induction xs) auto

definition since :: "gotime \<Rightarrow> gotime list \<Rightarrow> gotime list" where
  "since t0 es = filter (\<lambda>e. nanos t0 \<le> nanos e) es"

lemma since_active: "nanos t < nanos t0 + window \<Longrightarrow> since t0 (activeFailures es (Add t (- window))) = since t0 es"
  unfolding since_def activeFailures_def by (rule filter_dropWhile) (simp add: Before_def Add_def)

definition limiter_ok :: "memory_limiter \<Rightarrow> bool" where
  "limiter_ok l \<longleftrightarrow> distinct (map fst (ml_failures l)) \<and> length (ml_failures l) \<le> maximumTrackedAttemptKeys"

lemma pruned_map_of:
  "distinct (map fst m) \<Longrightarrow>
     map_of (filter (\<lambda>(_, active). active \<noteq> []) (map (\<lambda>(d, es). (d, f es)) m)) d =
       (case map_of m d of None \<Rightarrow> None | Some es \<Rightarrow> if f es = [] then None else Some (f es))"
  by (induction m) (auto simp: map_of_eq_None_iff image_iff split: option.splits)

lemma failures_prune:
  "distinct (map fst (ml_failures l)) \<Longrightarrow>
     failures_of (pruneExpired now l) d = activeFailures (failures_of l d) (Add now (- ml_window l))"
  by (simp add: failures_of_def pruneExpired_def Let_def pruned_map_of split: option.splits)
    (simp add: activeFailures_def)

lemma pruned_keys: "map fst (map (\<lambda>(d, es). (d, f es)) m) = map fst m"
  by auto

lemma limiter_ok_prune:
  assumes "limiter_ok l"
  shows "limiter_ok (pruneExpired now l)"
proof -
  let ?m = "map (\<lambda>(d, es). (d, activeFailures es (Add now (- ml_window l)))) (ml_failures l)"
  have "distinct (map fst ?m)" using assms by (simp only: pruned_keys) (simp add: limiter_ok_def)
  moreover have "length (filter (\<lambda>(_, active). active \<noteq> []) ?m) \<le> maximumTrackedAttemptKeys"
    using assms by (intro order_trans[OF length_filter_le]) (simp add: limiter_ok_def)
  ultimately show ?thesis by (simp add: limiter_ok_def pruneExpired_def Let_def distinct_map_filter)
qed

lemma prune_fields [simp]:
  "ml_window (pruneExpired now l) = ml_window l" "ml_key (pruneExpired now l) = ml_key l"
  "ml_maxFailures (pruneExpired now l) = ml_maxFailures l" "ml_saturatedTo (pruneExpired now l) = ml_saturatedTo l"
  by (simp_all add: pruneExpired_def Let_def)

lemma leave_fields [simp]:
  "ml_window (leave_saturation now l) = ml_window l" "ml_key (leave_saturation now l) = ml_key l"
  "ml_maxFailures (leave_saturation now l) = ml_maxFailures l" "ml_saturatedTo (leave_saturation now l) = GoTime 0 True \<or> ml_saturatedTo (leave_saturation now l) = ml_saturatedTo l"
  by (simp_all add: leave_saturation_def zero_time_def)

lemma failures_update [simp]:
  "failures_of (l\<lparr>ml_failures := AList.update d es (ml_failures l)\<rparr>) d' = (if d' = d then es else failures_of l d')"
  "failures_of (l\<lparr>ml_failures := AList.delete d (ml_failures l)\<rparr>) d' = (if d' = d then [] else failures_of l d')"
  "failures_of (l\<lparr>ml_saturatedTo := z\<rparr>) d' = failures_of l d'"
  by (simp_all add: failures_of_def)

lemma failures_leave:
  "limiter_ok l \<Longrightarrow> nanos t < nanos t0 + ml_window l \<Longrightarrow> since t0 (failures_of (leave_saturation t l) d) = since t0 (failures_of l d)"
  by (simp add: leave_saturation_def failures_prune since_active limiter_ok_def)

lemma limiter_ok_leave: "limiter_ok l \<Longrightarrow> limiter_ok (leave_saturation t l)"
  using limiter_ok_prune[of l t] by (simp add: leave_saturation_def limiter_ok_def)

lemma limiter_ok_delete: "limiter_ok l \<Longrightarrow> limiter_ok (l\<lparr>ml_failures := AList.delete d (ml_failures l)\<rparr>)"
  using length_delete_le[of d "ml_failures l"] by (simp add: limiter_ok_def distinct_delete)

lemma limiter_ok_update:
  "limiter_ok l \<Longrightarrow> map_of (ml_failures l) d \<noteq> None \<or> length (ml_failures l) < maximumTrackedAttemptKeys \<Longrightarrow>
     limiter_ok (l\<lparr>ml_failures := AList.update d es (ml_failures l)\<rparr>)"
  by (cases "map_of (ml_failures l) d")
    (auto simp: limiter_ok_def distinct_update length_update_absent length_update_present)

lemma limiter_ok_saturated [simp]: "limiter_ok (l\<lparr>ml_saturatedTo := z\<rparr>) = limiter_ok l"
  by (simp add: limiter_ok_def)

lemma active_nonempty: "activeFailures (failures_of l d) c \<noteq> [] \<Longrightarrow> map_of (ml_failures l) d \<noteq> None"
  by (cases "map_of (ml_failures l) d") (auto simp: failures_of_def activeFailures_def)

lemma limiter_Allow_eq:
  "limiter_Allow hmac cx key now l0 =
     (case limiterContextError cx of Some e \<Rightarrow> (Inl e, l0) | None \<Rightarrow>
      case cc_locked cx of Some m \<Rightarrow> (Inl (Errorf m), l0) | None \<Rightarrow>
       if Before now (ml_saturatedTo l0) then (Inr False, l0)
       else
         let l = leave_saturation now l0; d = digest hmac l key;
             entries = activeFailures (failures_of l d) (Add now (- ml_window l))
         in if entries = [] then (Inr True, l\<lparr>ml_failures := AList.delete d (ml_failures l)\<rparr>)
            else (Inr (int (length entries) < ml_maxFailures l), l\<lparr>ml_failures := AList.update d entries (ml_failures l)\<rparr>))"
  by (simp add: limiter_Allow_def tryE_def checkE_def split: option.splits)

text \<open>\<open>Failure\<close> in two steps: what it records when no saturation is in force.\<close>

definition record_failure :: "string \<Rightarrow> gotime \<Rightarrow> memory_limiter \<Rightarrow> memory_limiter" where
  "record_failure d now l =
     (let entries = activeFailures (failures_of l d) (Add now (- ml_window l));
          l1 = (if entries = [] then l\<lparr>ml_failures := AList.delete d (ml_failures l)\<rparr> else l);
          l2 = (if entries = [] \<and> length (ml_failures l1) \<ge> maximumTrackedAttemptKeys then pruneExpired now l1 else l1)
      in if entries = [] \<and> length (ml_failures l2) \<ge> maximumTrackedAttemptKeys
         then l2\<lparr>ml_saturatedTo := Add now (ml_window l)\<rparr>
         else l2\<lparr>ml_failures := AList.update d (entries @ [now]) (ml_failures l2)\<rparr>)"

lemma limiter_Failure_eq:
  "limiter_Failure hmac cx key now l0 =
     (case limiterContextError cx of Some e \<Rightarrow> (Inl e, l0) | None \<Rightarrow>
      case cc_locked cx of Some m \<Rightarrow> (Inl (Errorf m), l0) | None \<Rightarrow>
       (Inr (), if Before now (ml_saturatedTo l0) then l0
                else record_failure (digest hmac l0 key) now (leave_saturation now l0)))"
  by (simp add: limiter_Failure_def tryE_def checkE_def record_failure_def Let_def digest_def split: option.splits)

lemma record_failure_ok: "limiter_ok l \<Longrightarrow> limiter_ok (record_failure d now l)"
  using limiter_ok_delete[of l d] limiter_ok_prune[of "l\<lparr>ml_failures := AList.delete d (ml_failures l)\<rparr>" now]
    limiter_ok_update[of "l\<lparr>ml_failures := AList.delete d (ml_failures l)\<rparr>" d "[now]"]
  by (auto simp: record_failure_def Let_def not_le intro!: limiter_ok_update dest: active_nonempty)

lemma limiter_steps_ok:
  assumes "limiter_ok l"
  shows "limiter_ok (snd (limiter_Allow hmac cx key now l))" "limiter_ok (snd (limiter_Failure hmac cx key now l))"
    "limiter_ok (snd (limiter_Reset hmac cx key l))"
proof -
  show "limiter_ok (snd (limiter_Allow hmac cx key now l))"
    using assms limiter_ok_leave[OF assms, of now]
    by (auto simp: limiter_Allow_eq Let_def limiter_ok_delete limiter_ok_update dest: active_nonempty split: option.splits)
  show "limiter_ok (snd (limiter_Failure hmac cx key now l))"
    using assms by (auto simp: limiter_Failure_eq record_failure_ok limiter_ok_leave split: option.splits)
  show "limiter_ok (snd (limiter_Reset hmac cx key l))"
    using assms by (auto simp: limiter_Reset_def tryE_def checkE_def limiter_ok_delete split: option.splits)
qed

definition tracked_memory :: "(string \<Rightarrow> string \<Rightarrow> string) \<Rightarrow> string \<Rightarrow> int \<Rightarrow> duration \<Rightarrow> memory_limiter \<Rightarrow> string \<Rightarrow> gotime \<Rightarrow> nat \<Rightarrow> bool" where
  "tracked_memory hmac secret limit window l k t0 n \<longleftrightarrow>
     limiter_ok l \<and> ml_key l = secret \<and> ml_maxFailures l = limit \<and> ml_window l = window \<and> 0 < window \<and> 0 < limit \<and> 0 \<le> nanos t0 \<and>
     (nanos t0 + window \<le> nanos (ml_saturatedTo l) \<or>
      (nanos (ml_saturatedTo l) \<le> nanos t0 \<and> n \<le> length (since t0 (failures_of l (digest hmac l k)))))"

lemma digest_key: "ml_key l = ml_key l' \<Longrightarrow> digest hmac l = digest hmac l'"
  by (simp add: digest_def fun_eq_iff)

lemma leave_saturated_early: "0 \<le> nanos t0 \<Longrightarrow> nanos (ml_saturatedTo l) \<le> nanos t0 \<Longrightarrow> nanos (ml_saturatedTo (leave_saturation t l)) \<le> nanos t0"
  by (simp add: leave_saturation_def zero_time_def)

lemma since_record:
  assumes ok: "limiter_ok l" and t: "nanos t0 \<le> nanos t" "nanos t < nanos t0 + ml_window l"
  shows "nanos t0 + ml_window l \<le> nanos (ml_saturatedTo (record_failure d t l)) \<or>
    (ml_saturatedTo (record_failure d t l) = ml_saturatedTo l \<and>
     since t0 (failures_of (record_failure d t l) d') = since t0 (failures_of l d') @ (if d' = d then [t] else []))"
proof -
  let ?c = "Add t (- ml_window l)" and ?del = "l\<lparr>ml_failures := AList.delete d (ml_failures l)\<rparr>"
  have act: "since t0 (activeFailures es ?c) = since t0 es" for es using t(2) by (rule since_active)
  have app: "since t0 (es @ [t]) = since t0 es @ [t]" for es using t(1) by (simp add: since_def)
  have nil: "since t0 (failures_of l d) = []" if "activeFailures (failures_of l d) ?c = []"
    using act[of "failures_of l d"] that by (simp add: since_def)
  have "distinct (map fst (ml_failures ?del))" using ok by (simp add: limiter_ok_def distinct_delete)
  then have pr: "since t0 (failures_of (pruneExpired t ?del) d') = since t0 (failures_of ?del d')"
    using failures_prune[of ?del t d'] act[of "failures_of ?del d'"] by simp
  show ?thesis
    using act[of "failures_of l d'"] act[of "failures_of l d"] app nil pr t
    by (auto simp: record_failure_def Let_def Add_def)
qed

lemma tracked_memory_same:
  "tracked_memory hmac secret limit window l k t0 n \<Longrightarrow> ml_key l' = ml_key l \<Longrightarrow> ml_maxFailures l' = ml_maxFailures l \<Longrightarrow>
   ml_window l' = ml_window l \<Longrightarrow> limiter_ok l' \<Longrightarrow>
   nanos t0 + window \<le> nanos (ml_saturatedTo l') \<or>
     (nanos (ml_saturatedTo l') \<le> nanos t0 \<and> m \<le> length (since t0 (failures_of l' (digest hmac l' k)))) \<Longrightarrow>
   tracked_memory hmac secret limit window l' k t0 m"
  by (simp add: tracked_memory_def)

lemma tracked_memory_less:
  "tracked_memory hmac secret limit window l k t0 (if b then Suc n else n) \<Longrightarrow> tracked_memory hmac secret limit window l k t0 n"
  by (auto simp: tracked_memory_def split: if_splits)

lemma memory_blocks:
  assumes tr: "tracked_memory hmac secret (int limit) window l k t0 n" and n: "limit \<le> n" and w: "in_window window t0 t"
  shows "fst (limiter_Allow hmac cx k t l) \<noteq> Inr True"
proof (cases "Before t (ml_saturatedTo l)")
  case True
  then show ?thesis by (simp add: limiter_Allow_eq split: option.splits)
next
  case False
  have t: "nanos t < nanos t0 + ml_window l" using tr w by (auto simp: tracked_memory_def in_window_def)
  have ok: "limiter_ok l" and fs: "limit \<le> length (since t0 (failures_of l (digest hmac l k)))" and pos: "0 < limit"
    using tr n w False by (auto simp: tracked_memory_def in_window_def Before_def)
  let ?es = "activeFailures (failures_of (leave_saturation t l) (digest hmac l k)) (Add t (- ml_window l))"
  have "limit \<le> length (since t0 ?es)" using fs since_active[OF t] failures_leave[OF ok t] by simp
  then have "limit \<le> length ?es" by (metis since_def length_filter_le order_trans)
  moreover have "tracked_memory hmac secret (int limit) window l k t0 n \<Longrightarrow> ml_maxFailures l = int limit" by (simp add: tracked_memory_def)
  ultimately show ?thesis
    using False pos tr digest_key[of "leave_saturation t l" l hmac] by (auto simp: limiter_Allow_eq Let_def split: option.splits)
qed

lemma memory_allow_keeps:
  assumes tr: "tracked_memory hmac secret limit window l k t0 n" and w: "in_window window t0 t"
  shows "tracked_memory hmac secret limit window (snd (limiter_Allow hmac cx k' t l)) k t0 n"
proof (cases "limiterContextError cx \<noteq> None \<or> cc_locked cx \<noteq> None \<or> Before t (ml_saturatedTo l)")
  case True
  then show ?thesis using tr by (auto simp: limiter_Allow_eq split: option.splits)
next
  case False
  let ?l = "leave_saturation t l" and ?d = "digest hmac l k'"
  have t: "nanos t < nanos t0 + ml_window l" and ok: "limiter_ok l" using tr w by (auto simp: tracked_memory_def in_window_def)
  have fs: "n \<le> length (since t0 (failures_of ?l (digest hmac l k)))" "nanos (ml_saturatedTo ?l) \<le> nanos t0"
    using tr w False leave_saturated_early failures_leave[OF ok t]
    by (auto simp: tracked_memory_def in_window_def Before_def)
  have act: "since t0 (activeFailures es (Add t (- ml_window l))) = since t0 es" for es using t by (rule since_active)
  have nil: "since t0 (failures_of ?l ?d) = []" if "activeFailures (failures_of ?l ?d) (Add t (- ml_window l)) = []"
    using act[of "failures_of ?l ?d"] that by (simp add: since_def)
  show ?thesis
    using False fs act nil tr limiter_steps_ok(1)[OF ok, of hmac cx k' t] digest_key[of ?l l hmac]
    by (intro tracked_memory_same[OF tr])
      (auto simp: limiter_Allow_eq Let_def digest_def since_def split: if_splits)
qed

lemma memory_fail:
  assumes tr: "tracked_memory hmac secret limit window l k t0 n" and w: "in_window window t0 t"
    and f: "limiter_Failure hmac cx k' t l = (r, l')"
  shows "tracked_memory hmac secret limit window l' k t0 (if r = Inr () \<and> k' = k then Suc n else n)"
proof (cases "limiterContextError cx \<noteq> None \<or> cc_locked cx \<noteq> None \<or> Before t (ml_saturatedTo l)")
  case True
  then show ?thesis using tr f w
    by (auto simp: limiter_Failure_eq tracked_memory_def in_window_def Before_def split: option.splits)
next
  case False
  let ?l = "leave_saturation t l" and ?d = "digest hmac l k'"
  have t: "nanos t0 \<le> nanos t" "nanos t < nanos t0 + ml_window ?l" and ok: "limiter_ok l" and win: "ml_window l = window"
    using tr w by (auto simp: tracked_memory_def in_window_def)
  have fs: "n \<le> length (since t0 (failures_of ?l (digest hmac l k)))" "nanos (ml_saturatedTo ?l) \<le> nanos t0"
    using tr w False leave_saturated_early failures_leave[OF ok, of t t0]
    by (auto simp: tracked_memory_def in_window_def Before_def)
  have l': "l' = record_failure ?d t ?l" using f False by (auto simp: limiter_Failure_eq)
  have fields: "ml_key l' = ml_key l" "ml_maxFailures l' = ml_maxFailures l" "ml_window l' = ml_window l"
    by (auto simp: l' record_failure_def Let_def)
  have ok': "limiter_ok l'" using limiter_steps_ok(2)[OF ok, of hmac cx k' t] f by simp
  have dig: "digest hmac l' = digest hmac l" using fields(1) by (rule digest_key)
  have "nanos t0 + window \<le> nanos (ml_saturatedTo l') \<or> (ml_saturatedTo l' = ml_saturatedTo ?l \<and>
      since t0 (failures_of l' (digest hmac l k)) = since t0 (failures_of ?l (digest hmac l k)) @ (if digest hmac l k = ?d then [t] else []))"
    using since_record[OF limiter_ok_leave[OF ok] t, of ?d "digest hmac l k"] win unfolding l' by simp
  then have "nanos t0 + window \<le> nanos (ml_saturatedTo l') \<or> (nanos (ml_saturatedTo l') \<le> nanos t0 \<and>
      (if r = Inr () \<and> k' = k then Suc n else n) \<le> length (since t0 (failures_of l' (digest hmac l' k))))"
  proof
    assume a: "ml_saturatedTo l' = ml_saturatedTo ?l \<and> since t0 (failures_of l' (digest hmac l k)) =
      since t0 (failures_of ?l (digest hmac l k)) @ (if digest hmac l k = ?d then [t] else [])"
    then have "length (since t0 (failures_of l' (digest hmac l' k))) =
        length (since t0 (failures_of ?l (digest hmac l k))) + (if digest hmac l k = ?d then 1 else 0)"
      unfolding dig by simp
    then show ?thesis using fs a by (cases "k' = k") simp_all
  qed simp
  then show ?thesis by (rule tracked_memory_same[OF tr fields ok'])
qed

interpretation mem_limiter: attempt_limiter "limiter_Allow hmac cx" "limiter_Failure hmac cx"
  "tracked_memory hmac secret (int limit) window" limit window for hmac cx secret limit window
proof (unfold_locales, goal_cases)
  case 1 then show ?case by (rule memory_blocks)
next
  case 2 then show ?case by (rule memory_allow_keeps)
next
  case (3 s k t0 n t k')
  then show ?case
    by (cases "limiter_Failure hmac cx k' t s") (auto dest: memory_fail intro: tracked_memory_less)
next
  case 4 then show ?case using memory_fail[OF 4(1,2) 4(3)] by simp
qed

section \<open>The cache limiter on the memory store\<close>

text \<open>The operations while the store's clock reads \<open>t\<close>.\<close>

definition at_time :: "gotime \<Rightarrow> memory_store \<Rightarrow> memory_store" where
  "at_time t s = s\<lparr>ms_now := (\<lambda>_. t)\<rparr>"

definition held :: "duration \<Rightarrow> string \<Rightarrow> gotime \<Rightarrow> nat \<Rightarrow> memory_store \<Rightarrow> bool" where
  "held window ck t0 n s \<longleftrightarrow> cache_ok s \<and>
     (n = 0 \<and> (\<forall>e. map_of (ms_entries s) ck = Some e \<longrightarrow> nanos (me_expiresAt e) \<le> nanos t0) \<or>
      (\<exists>c until. counts ck c until s \<and> 1 \<le> c \<and> int n \<le> c \<and> nanos t0 + window \<le> nanos until))"

lemma held_at_time [simp]: "held window ck t0 n (at_time t s) = held window ck t0 n s"
  by (simp add: held_def cache_ok_def counts_def at_time_def)

lemma held_less: "held window ck t0 (Suc n) s \<Longrightarrow> held window ck t0 n s"
  unfolding held_def by fastforce

lemma held_entries:
  assumes "held window ck t0 n s" "cache_ok s'"
    and "map_of (ms_entries s') ck = map_of (ms_entries s) ck \<or>
      (map_of (ms_entries s') ck = None \<and> (\<forall>e. map_of (ms_entries s) ck = Some e \<longrightarrow> \<not> live_at t e) \<and> nanos t < nanos t0 + window)"
  shows "held window ck t0 n s'"
  using assms by (auto simp: held_def counts_def live_at_def Before_def)

lemma held_get:
  assumes "held window ck t0 n s" "nanos t < nanos t0 + window"
  shows "held window ck t0 n (snd (MemoryGet cx k (at_time t s)))"
proof (rule held_entries[of _ _ _ _ s _ t])
  show "cache_ok (snd (MemoryGet cx k (at_time t s)))"
    using assms by (intro MemoryGet_ok) (simp add: held_def cache_ok_def at_time_def)
  show "map_of (ms_entries (snd (MemoryGet cx k (at_time t s)))) ck = map_of (ms_entries s) ck \<or>
      (map_of (ms_entries (snd (MemoryGet cx k (at_time t s)))) ck = None \<and>
       (\<forall>e. map_of (ms_entries s) ck = Some e \<longrightarrow> \<not> live_at t e) \<and> nanos t < nanos t0 + window)"
    using assms(2) by (auto simp: MemoryGet_eq Let_def at_time_def split: option.splits)
qed (rule assms)

lemma reserve_frame:
  assumes "reserve k s = (r, s')" "distinct (map fst (ms_entries s))" "ms_now s = (\<lambda>_. t)"
  shows "map_of (ms_entries s') ck = map_of (ms_entries s) ck \<or>
    (map_of (ms_entries s') ck = None \<and> (\<forall>e. map_of (ms_entries s) ck = Some e \<longrightarrow> \<not> live_at t e))"
  using assms by (auto simp: reserve_eq Let_def expire_map_of simp del: map_of_eq_Some_iff split: if_splits option.splits)

lemma start_counter_frame:
  assumes "start_counter k now ttl s = (r, s')" "distinct (map fst (ms_entries s))" "ms_now s = (\<lambda>_. t)" "isl r \<or> k \<noteq> ck"
  shows "map_of (ms_entries s') ck = map_of (ms_entries s) ck \<or>
    (map_of (ms_entries s') ck = None \<and> (\<forall>e. map_of (ms_entries s) ck = Some e \<longrightarrow> \<not> live_at t e))"
  using assms reserve_frame[of k s _ _ t ck] by (auto simp: start_counter_def split: prod.splits sum.splits)

text \<open>An increment of another key, or one that fails, at most drops the entry when it has expired.\<close>

lemma increment_frame:
  assumes "MemoryIncrement cx k ttl s = (r, s')" "distinct (map fst (ms_entries s))" "ms_now s = (\<lambda>_. t)" "isl r \<or> k \<noteq> ck"
  shows "map_of (ms_entries s') ck = map_of (ms_entries s) ck \<or>
    (map_of (ms_entries s') ck = None \<and> (\<forall>e. map_of (ms_entries s) ck = Some e \<longrightarrow> \<not> live_at t e))"
proof (cases "pre_error cx k ttl s")
  case None
  show ?thesis
    using assms None
      start_counter_frame[of k t ttl "s\<lparr>ms_reads := Suc (ms_reads s)\<rparr>" r s' t ck]
      start_counter_frame[of k t ttl "s\<lparr>ms_reads := Suc (ms_reads s), ms_entries := AList.delete k (ms_entries s)\<rparr>" r s' t ck]
    by (auto simp: MemoryIncrement_eq Let_def distinct_delete simp del: map_of_eq_Some_iff split: option.splits if_splits)
qed (use assms in \<open>simp add: MemoryIncrement_eq\<close>)

lemma increment_own:
  assumes inc: "MemoryIncrement cx ck window s = (Inr c, s')" and h: "held window ck t0 n s" and now: "ms_now s = (\<lambda>_. t)"
    and w: "in_window window t0 t"
  shows "held window ck t0 (Suc n) s'"
proof -
  have pre: "pre_error cx ck window s = None" using increment_counts[OF inc] by simp
  have ok: "cache_ok s'" using MemoryIncrement_ok[of s cx ck window] inc h by (simp add: held_def)
  have t: "nanos t0 \<le> nanos t" "nanos t < nanos t0 + window" using w by (auto simp: in_window_def)
  show ?thesis
  proof (cases "\<exists>e. map_of (ms_entries s) ck = Some e \<and> live_at t e")
    case True
    then obtain c0 until where c0: "counts ck c0 until s" "1 \<le> c0" "int n \<le> c0" "nanos t0 + window \<le> nanos until"
      using h t by (auto simp: held_def live_at_def Before_def)
    show ?thesis
    proof (cases "c0 = max_i64")
      case True
      then show ?thesis using inc pre c0(1) now c0(4) t
        by (auto simp: MemoryIncrement_eq Let_def counts_def live_at_def Before_def split: option.splits if_splits)
    next
      case False
      have "c0 \<le> max_i64" using c0(1) by (auto simp: counts_def is_i64_def dest!: ParseInt_range)
      then obtain s1 where "MemoryIncrement cx ck window s = (Inr (c0 + 1), s1)" "counts ck (c0 + 1) until s1"
        using increment_live[OF c0(1) pre] c0 t now False by (force simp: Before_def)
      then show ?thesis using inc ok c0 unfolding held_def by (intro conjI disjI2 exI[of _ "c0 + 1"] exI[of _ until]) auto
    qed
  next
    case False
    then obtain s0 where "start_counter ck t window s0 = (Inr c, s')"
      using inc pre now by (auto simp: MemoryIncrement_eq Let_def split: option.splits if_splits)
    then have "counts ck 1 (Add t window) s'" using start_counter_counts by blast
    moreover have "n = 0" using False h t by (auto simp: held_def counts_def live_at_def Before_def)
    ultimately show ?thesis using ok t unfolding held_def
      by (intro conjI disjI2 exI[of _ 1] exI[of _ "Add t window"]) (auto simp: Add_def)
  qed
qed

definition shared_allow_at ::
  "(string \<Rightarrow> string) \<Rightarrow> (string \<Rightarrow> string \<Rightarrow> string) \<Rightarrow> memory_store cache_limiter \<Rightarrow> cache_ctx \<Rightarrow> string \<Rightarrow> gotime \<Rightarrow> bool cache_op" where
  "shared_allow_at sha hmac l cx k t s = shared_Allow sha hmac l cx k (at_time t s)"

definition shared_fail_at ::
  "(string \<Rightarrow> string) \<Rightarrow> (string \<Rightarrow> string \<Rightarrow> string) \<Rightarrow> memory_store cache_limiter \<Rightarrow> cache_ctx \<Rightarrow> string \<Rightarrow> gotime \<Rightarrow> unit cache_op" where
  "shared_fail_at sha hmac l cx k t s = shared_Failure sha hmac l cx k (at_time t s)"

definition tracked_cache ::
  "(string \<Rightarrow> string) \<Rightarrow> (string \<Rightarrow> string \<Rightarrow> string) \<Rightarrow> memory_store cache_limiter \<Rightarrow> cache_ctx \<Rightarrow> nat \<Rightarrow> duration \<Rightarrow>
   memory_store \<Rightarrow> string \<Rightarrow> gotime \<Rightarrow> nat \<Rightarrow> bool" where
  "tracked_cache sha hmac l cx limit window s k t0 n \<longleftrightarrow>
     cl_store l = memory_ops \<and> cl_maxFailures l = int limit \<and> cl_window l = window \<and> 0 < limit \<and>
     (\<exists>ck. cacheKey sha hmac l cx k = Inr ck \<and> held window ck t0 n s)"

lemma shared_Allow_eq:
  "cl_store l = memory_ops \<Longrightarrow> shared_Allow sha hmac l cx k s =
     (case cacheKey sha hmac l cx k of
        Inl e \<Rightarrow> (Inl e, s)
      | Inr ck \<Rightarrow> (case MemoryGet cx ck s of
          (Inl e, s') \<Rightarrow> if err_is e CacheErrNotFound then (Inr True, s') else (Inl (Wrapf ''read shared login failure count'' e), s')
        | (Inr v, s') \<Rightarrow> (case ParseInt v of
            None \<Rightarrow> (Inl (Errorf ''shared login failure count is invalid''), s')
          | Some n \<Rightarrow> if n < 1 then (Inl (Errorf ''shared login failure count is invalid''), s') else (Inr (n < cl_maxFailures l), s'))))"
  by (simp add: shared_Allow_def tryE_def liftE_def attemptE_def memory_ops_def returnE_def raiseE_def
      split: sum.splits prod.splits option.splits)

lemma shared_Failure_eq:
  "cl_store l = memory_ops \<Longrightarrow> shared_Failure sha hmac l cx k s =
     (case cacheKey sha hmac l cx k of
        Inl e \<Rightarrow> (Inl e, s)
      | Inr ck \<Rightarrow> (case MemoryIncrement cx ck (cl_window l) s of
          (Inl e, s') \<Rightarrow> (Inl (Wrapf ''increment shared login failure count'' e), s')
        | (Inr n, s') \<Rightarrow> if n < 1 then (Inl (Errorf ''shared login failure count is invalid''), s') else (Inr (), s')))"
  by (simp add: shared_Failure_def tryE_def liftE_def wrapE_def memory_ops_def returnE_def raiseE_def
      split: sum.splits prod.splits)

lemma cache_blocks:
  assumes tr: "tracked_cache sha hmac l cx limit window s k t0 n" and n: "limit \<le> n" and w: "in_window window t0 t"
  shows "fst (shared_allow_at sha hmac l cx k t s) \<noteq> Inr True"
proof -
  obtain ck c e where ck: "cacheKey sha hmac l cx k = Inr ck"
    and e: "map_of (ms_entries s) ck = Some e" "ParseInt (me_value e) = Some c" "int n \<le> c" "live_at t e"
    using tr n w by (auto simp: tracked_cache_def held_def counts_def in_window_def live_at_def Before_def)
  have m: "cl_store l = memory_ops" "cl_maxFailures l = int limit" using tr by (auto simp: tracked_cache_def)
  show ?thesis
  proof (cases "pre_error cx ck Millisecond (at_time t s)")
    case None
    then show ?thesis using ck e m n by (simp add: shared_allow_at_def shared_Allow_eq MemoryGet_eq at_time_def Let_def)
  next
    case (Some err)
    then have "\<not> err_is err CacheErrNotFound"
      by (auto simp: pre_error_def validateContext_def validateKey_def validateTTL_def split: if_splits)
    then show ?thesis using Some ck m by (simp add: shared_allow_at_def shared_Allow_eq MemoryGet_eq)
  qed
qed

lemma cache_allow_keeps:
  assumes tr: "tracked_cache sha hmac l cx limit window s k t0 n" and w: "in_window window t0 t"
  shows "tracked_cache sha hmac l cx limit window (snd (shared_allow_at sha hmac l cx k' t s)) k t0 n"
proof -
  have m: "cl_store l = memory_ops" using tr by (simp add: tracked_cache_def)
  obtain ck where ck: "cacheKey sha hmac l cx k = Inr ck" "held window ck t0 n s" using tr by (auto simp: tracked_cache_def)
  have "held window ck t0 n (snd (MemoryGet cx ck' (at_time t s)))" for ck' using ck(2) w by (intro held_get) (auto simp: in_window_def)
  then have "held window ck t0 n (snd (shared_allow_at sha hmac l cx k' t s))"
    using ck(2) by (auto simp: shared_allow_at_def shared_Allow_eq[OF m] split: sum.splits prod.splits option.splits) (metis snd_conv)+
  then show ?thesis using tr ck by (auto simp: tracked_cache_def)
qed

lemma cache_fail:
  assumes tr: "tracked_cache sha hmac l cx limit window s k t0 n" and w: "in_window window t0 t"
    and f: "shared_fail_at sha hmac l cx k' t s = (r, s')"
  shows "tracked_cache sha hmac l cx limit window s' k t0 (if r = Inr () \<and> k' = k then Suc n else n)"
proof -
  have m: "cl_store l = memory_ops" "cl_window l = window" using tr by (auto simp: tracked_cache_def)
  obtain ck where ck: "cacheKey sha hmac l cx k = Inr ck" "held window ck t0 n s" using tr by (auto simp: tracked_cache_def)
  show ?thesis
  proof (cases "cacheKey sha hmac l cx k'")
    case (Inl e)
    then have "s' = at_time t s" "k' \<noteq> k" using f ck(1) by (auto simp: shared_fail_at_def shared_Failure_eq[OF m(1)])
    then show ?thesis using tr by (auto simp: tracked_cache_def)
  next
    case (Inr ck')
    obtain q s1 where q: "MemoryIncrement cx ck' window (at_time t s) = (q, s1)" by (cases "MemoryIncrement cx ck' window (at_time t s)")
    have s': "s' = s1" and r: "r = Inr () \<Longrightarrow> \<not> isl q"
      using f Inr q m(2) by (auto simp: shared_fail_at_def shared_Failure_eq[OF m(1)] split: sum.splits if_splits)
    have h: "held window ck t0 n (at_time t s)" using ck(2) by simp
    have ok1: "cache_ok s1" using MemoryIncrement_ok[of "at_time t s" cx ck' window] q h by (simp add: held_def)
    have "held window ck t0 (if \<not> isl q \<and> ck' = ck then Suc n else n) s1"
    proof (cases "\<not> isl q \<and> ck' = ck")
      case True
      then obtain c where "q = Inr c" by (cases q) auto
      then show ?thesis using True increment_own[of cx ck window "at_time t s" c s1 t0 n t] q h w by (simp add: at_time_def)
    next
      case False
      have "distinct (map fst (ms_entries (at_time t s)))" using h by (simp add: held_def cache_ok_def)
      then show ?thesis
        using held_entries[OF h ok1, of t] increment_frame[OF q _ _, of t ck] False w by (auto simp: at_time_def in_window_def)
    qed
    moreover have "held window ck t0 n s1" if "held window ck t0 (Suc n) s1" using that by (rule held_less)
    ultimately show ?thesis using tr ck(1) Inr r s' by (auto simp: tracked_cache_def split: if_splits)
  qed
qed

interpretation shared_limiter: attempt_limiter "shared_allow_at sha hmac l cx" "shared_fail_at sha hmac l cx"
  "tracked_cache sha hmac l cx limit window" limit window for sha hmac l cx limit window
proof (unfold_locales, goal_cases)
  case 1 then show ?case by (rule cache_blocks)
next
  case 2 then show ?case by (rule cache_allow_keeps)
next
  case (3 s k t0 n t k')
  obtain r s' where f: "shared_fail_at sha hmac l cx k' t s = (r, s')" by (cases "shared_fail_at sha hmac l cx k' t s")
  with cache_fail[OF 3 f] show ?case by (auto simp: tracked_cache_def held_less split: if_splits)
next
  case 4 then show ?case using cache_fail[OF 4(1,2) 4(3)] by simp
qed

section \<open>Properties\<close>

definition ex_limiter :: memory_limiter where
  "ex_limiter = \<lparr>ml_key = ''secret'', ml_maxFailures = 2, ml_window = Minute, ml_failures = [], ml_saturatedTo = zero_time\<rparr>"

definition ex_hmac :: "string \<Rightarrow> string \<Rightarrow> string" where
  "ex_hmac secret v = v"

text \<open>C12: the memory limiter bounds guessing: however guesses at any keys are ordered within one window that does not start
  inside a saturation, the wrong guesses it lets through for one key are at most \<open>maxFailures\<close>.\<close>

theorem memory_limiter_bounds_guesses:
  assumes "limiter_ok l" "0 < ml_maxFailures l" "0 < ml_window l" "0 \<le> nanos t0" "nanos (ml_saturatedTo l) \<le> nanos t0"
    and "\<forall>(k', t) \<in> set trials. in_window (ml_window l) t0 t"
  shows "int (wrong_guesses (limiter_Allow hmac cx) (limiter_Failure hmac cx) k trials l) \<le> ml_maxFailures l"
proof -
  have "tracked_memory hmac (ml_key l) (int (nat (ml_maxFailures l))) (ml_window l) l k t0 0"
    using assms by (simp add: tracked_memory_def)
  from mem_limiter.guesses_bounded[OF this _ assms(6), of cx] assms(2) show ?thesis by simp
qed

theorem memory_limiter_bounds_guesses_witness:
  "int (wrong_guesses (limiter_Allow ex_hmac ex_cctx) (limiter_Failure ex_hmac ex_cctx) ''u''
     [(''u'', GoTime 1 True), (''u'', GoTime 2 True), (''v'', GoTime 2 True), (''u'', GoTime 3 True)] ex_limiter) \<le> 2"
  using memory_limiter_bounds_guesses[of ex_limiter "GoTime 1 True"
      "[(''u'', GoTime 1 True), (''u'', GoTime 2 True), (''v'', GoTime 2 True), (''u'', GoTime 3 True)]" ex_hmac ex_cctx "''u''"]
  by (simp add: ex_limiter_def limiter_ok_def Minute_def Second_def zero_time_def in_window_def)

text \<open>C13: the shared limiter on the memory cache bounds guessing from a key without a live counter: within one window from
  then on, the wrong guesses it lets through and records for the key are at most \<open>maxFailures\<close>.\<close>

theorem shared_limiter_bounds_guesses:
  assumes "cl_store l = memory_ops" "0 < cl_maxFailures l" "cache_ok s" "cacheKey sha hmac l cx k = Inr ck"
    and "\<forall>e. map_of (ms_entries s) ck = Some e \<longrightarrow> nanos (me_expiresAt e) \<le> nanos t0"
    and "\<forall>(k', t) \<in> set trials. in_window (cl_window l) t0 t"
  shows "int (wrong_guesses (shared_allow_at sha hmac l cx) (shared_fail_at sha hmac l cx) k trials s) \<le> cl_maxFailures l"
proof -
  have "tracked_cache sha hmac l cx (nat (cl_maxFailures l)) (cl_window l) s k t0 0"
    using assms by (simp add: tracked_cache_def held_def)
  from shared_limiter.guesses_bounded[OF this _ assms(6)] assms(2) show ?thesis by simp
qed

definition ex_shared :: "memory_store cache_limiter" where
  "ex_shared = \<lparr>cl_store = memory_ops, cl_namespace = ex_ns, cl_keySecret = ''secret'', cl_maxFailures = 2, cl_window = Minute\<rparr>"

lemma ex_shared_key: "cacheKey id ex_hmac ex_shared ex_cctx ''u'' = Inr ''p:v1:org:o:guard-login-failures:3735''"
  by code_simp

lemma ex_cache_ok: "cache_ok ex_cache"
  by (simp add: cache_ok_def ex_cache_def)

theorem shared_limiter_bounds_guesses_witness:
  "int (wrong_guesses (shared_allow_at id ex_hmac ex_shared ex_cctx) (shared_fail_at id ex_hmac ex_shared ex_cctx) ''u''
     [(''u'', GoTime 1 True), (''v'', GoTime 2 True), (''u'', GoTime 3 True)] ex_cache) \<le> 2"
  using shared_limiter_bounds_guesses[OF _ _ ex_cache_ok ex_shared_key, of "GoTime 1 True"
      "[(''u'', GoTime 1 True), (''v'', GoTime 2 True), (''u'', GoTime 3 True)]"]
  by (simp add: ex_shared_def ex_cache_def Minute_def Second_def in_window_def)

inductive limiter_step :: "(string \<Rightarrow> string \<Rightarrow> string) \<Rightarrow> memory_limiter \<Rightarrow> memory_limiter \<Rightarrow> bool" for hmac where
  step_Allow: "limiter_step hmac l (snd (limiter_Allow hmac cx key now l))"
| step_Failure: "limiter_step hmac l (snd (limiter_Failure hmac cx key now l))"
| step_Reset: "limiter_step hmac l (snd (limiter_Reset hmac cx key l))"

text \<open>A flood of keys cannot exhaust memory: whatever is called on a new memory limiter, it never tracks more than
  \<open>maximumTrackedAttemptKeys\<close> keys.\<close>

theorem memory_limiter_bounded:
  assumes "NewMemoryAttemptLimiter random limit window = Inr l0" and "(limiter_step hmac)\<^sup>*\<^sup>* l0 l"
  shows "length (ml_failures l) \<le> maximumTrackedAttemptKeys"
proof -
  have "limiter_ok l0" using assms(1)
    by (auto simp: NewMemoryAttemptLimiter_def limiter_ok_def split: if_splits option.splits)
  with assms(2) have "limiter_ok l"
    by (induction rule: rtranclp_induct) (auto elim!: limiter_step.cases intro: limiter_steps_ok)
  then show ?thesis by (simp add: limiter_ok_def)
qed

theorem memory_limiter_bounded_witness:
  "\<exists>l0. NewMemoryAttemptLimiter (Some ''x'') 5 Minute = Inr l0 \<and>
     length (ml_failures (snd (limiter_Failure ex_hmac ex_cctx ''u'' (GoTime 1 True) l0))) \<le> maximumTrackedAttemptKeys"
proof -
  obtain l0 where l0: "NewMemoryAttemptLimiter (Some ''x'') 5 Minute = Inr l0"
    by (simp add: NewMemoryAttemptLimiter_def Minute_def Second_def)
  from memory_limiter_bounded[OF l0 r_into_rtranclp[of "limiter_step ex_hmac", OF step_Failure]] l0 show ?thesis by blast
qed

lemma delete_absent: "map_of m k = None \<Longrightarrow> AList.delete k m = m"
  by (induction m) (auto simp: AList.delete_eq split: if_splits)

text \<open>The memory limiter fails closed: when all its places are taken by keys with recent failures, a failure of another
  key blocks every key for a whole window.\<close>

theorem memory_limiter_fails_closed:
  assumes full: "maximumTrackedAttemptKeys \<le> length (ml_failures l)" and d: "map_of (ml_failures l) (digest hmac l key) = None"
    and recent: "\<forall>(d, es) \<in> set (ml_failures l). activeFailures es (Add t (- ml_window l)) \<noteq> []"
    and calm: "IsZero (ml_saturatedTo l)" "0 \<le> nanos t"
    and ctx: "limiterContextError cx = None" "cc_locked cx = None"
    and later: "nanos t' < nanos t + ml_window l"
  shows "fst (limiter_Allow hmac cx k' t' (snd (limiter_Failure hmac cx key t l))) = Inr False"
proof -
  have l: "leave_saturation t l = l" using calm by (simp add: leave_saturation_def)
  have fresh: "failures_of l (digest hmac l key) = []" using d by (simp add: failures_of_def)
  have del: "AList.delete (digest hmac l key) (ml_failures l) = ml_failures l"
    using d by (rule delete_absent)
  have "filter (\<lambda>(_, active). active \<noteq> []) (map (\<lambda>(d, es). (d, activeFailures es (Add t (- ml_window l)))) (ml_failures l)) =
      map (\<lambda>(d, es). (d, activeFailures es (Add t (- ml_window l)))) (ml_failures l)"
    using recent by (auto simp: filter_id_conv)
  then have "maximumTrackedAttemptKeys \<le> length (ml_failures (pruneExpired t l))"
    using full by (simp add: pruneExpired_def Let_def)
  then have "ml_saturatedTo (record_failure (digest hmac l key) t l) = Add t (ml_window l)"
    using full unfolding record_failure_def fresh del Let_def by (simp add: activeFailures_def)
  then have "ml_saturatedTo (snd (limiter_Failure hmac cx key t l)) = Add t (ml_window l)"
    using calm ctx by (simp add: limiter_Failure_eq l Before_def IsZero_def)
  then show ?thesis using ctx later by (simp add: limiter_Allow_eq Before_def Add_def)
qed

definition ex_flood :: memory_limiter where
  "ex_flood = ex_limiter\<lparr>ml_failures := map (\<lambda>n. (''k'' @ replicate n (CHR ''x''), [GoTime 5 True])) [0..<10000]\<rparr>"

theorem memory_limiter_fails_closed_witness:
  "fst (limiter_Allow ex_hmac ex_cctx ''other'' (GoTime 7 True) (snd (limiter_Failure ex_hmac ex_cctx ''u'' (GoTime 6 True) ex_flood))) = Inr False"
proof (rule memory_limiter_fails_closed)
  show "map_of (ml_failures ex_flood) (digest ex_hmac ex_flood ''u'') = None"
  proof -
    have "hex_encode ''u'' = ''75''" by code_simp
    then show ?thesis by (simp add: ex_flood_def digest_def ex_hmac_def map_of_eq_None_iff image_iff)
  qed
qed (auto simp: ex_flood_def ex_limiter_def maximumTrackedAttemptKeys_def activeFailures_def Before_def Add_def Minute_def Second_def
      IsZero_def zero_time_def limiterContextError_def ex_cctx_def)

text \<open>A reset clears the record of its key: unless a saturation is in force, the key is allowed again at once.\<close>

theorem memory_limiter_reset:
  assumes "limiter_ok l" "limiter_Reset hmac cx key l = (Inr (), l')" "\<not> Before now (ml_saturatedTo l)"
  shows "fst (limiter_Allow hmac cx key now l') = Inr True"
proof -
  have ctx: "limiterContextError cx = None" "cc_locked cx = None" and l': "l' = l\<lparr>ml_failures := AList.delete (digest hmac l key) (ml_failures l)\<rparr>"
    using assms(2) by (auto simp: limiter_Reset_def tryE_def checkE_def split: option.splits)
  have ok: "limiter_ok l'" using assms(1) l' limiter_ok_delete by simp
  have "failures_of l' (digest hmac l' key) = []" using l' by (simp add: digest_def)
  then have "activeFailures (failures_of (leave_saturation now l') (digest hmac (leave_saturation now l') key)) c = []" for c
    using failures_prune[of l' now "digest hmac l' key"] ok
    by (simp add: leave_saturation_def limiter_ok_def activeFailures_def digest_def)
  then show ?thesis using ctx assms(3) l' by (simp add: limiter_Allow_eq Let_def)
qed

theorem memory_limiter_reset_witness:
  "fst (limiter_Allow ex_hmac ex_cctx ''u'' (GoTime 6 True) (snd (limiter_Reset ex_hmac ex_cctx ''u'' ex_limiter))) = Inr True"
  by (rule memory_limiter_reset[of ex_limiter])
    (auto simp: limiter_ok_def ex_limiter_def limiter_Reset_def tryE_def checkE_def limiterContextError_def ex_cctx_def Before_def zero_time_def)

text \<open>C14: the shared limiter fails open when its cache is full: while the store is filled with live entries of other keys,
  a wrong guess of a new key is let through, recording it fails with \<open>ErrCapacity\<close>, and the store is left as it was, so the
  same holds after any number of such guesses.\<close>

theorem shared_limiter_open_at_capacity:
  assumes ops: "cl_store l = memory_ops" and ck: "cacheKey sha hmac l cx k = Inr ck" "validateKey ck = None" "Millisecond \<le> cl_window l"
    and ctx: "\<not> cc_nil cx" "cc_before cx = None" "cc_locked cx = None" "\<not> ms_closed s"
    and full: "ms_maxEntries s \<le> int (length (ms_entries s))" and absent: "map_of (ms_entries s) ck = None"
    and live: "\<forall>e \<in> snd ` set (ms_entries s). live_at t e"
  shows "\<exists>s'. ((\<lambda>s. snd (shared_fail_at sha hmac l cx k t (snd (shared_allow_at sha hmac l cx k t s)))) ^^ n) s = s' \<and>
    ms_entries s' = ms_entries s \<and> fst (shared_allow_at sha hmac l cx k t s') = Inr True \<and>
    fst (shared_fail_at sha hmac l cx k t s') = Inl (Wrapf ''increment shared login failure count'' (Sentinel CacheErrCapacity))"
proof -
  define round where "round = (\<lambda>s. snd (shared_fail_at sha hmac l cx k t (snd (shared_allow_at sha hmac l cx k t s))))"
  have keep: "expire t (ms_entries s) = ms_entries s" using live by (auto simp: expire_def filter_id_conv)
  have pre: "pre_error cx ck ttl (at_time t s1) = None" if "\<not> ms_closed s1" "Millisecond \<le> ttl" for s1 ttl
    using ck ctx that by (simp add: pre_error_None at_time_def)
  have a: "shared_allow_at sha hmac l cx k t s1 = (Inr True, at_time t s1)" if "ms_entries s1 = ms_entries s" "\<not> ms_closed s1" for s1
    using ck absent that pre[of s1 Millisecond] by (simp add: shared_allow_at_def shared_Allow_eq[OF ops] MemoryGet_eq at_time_def)
  have f: "shared_fail_at sha hmac l cx k t s1 =
      (Inl (Wrapf ''increment shared login failure count'' (Sentinel CacheErrCapacity)),
       (at_time t s1)\<lparr>ms_reads := Suc (Suc (ms_reads s1))\<rparr>)"
    if "ms_entries s1 = ms_entries s" "\<not> ms_closed s1" "ms_maxEntries s1 = ms_maxEntries s" for s1
    using ck absent that pre[of s1 "cl_window l"] full keep
    by (simp add: shared_fail_at_def shared_Failure_eq[OF ops] MemoryIncrement_eq start_counter_def reserve_eq at_time_def Let_def)
  have inv: "ms_entries ((round ^^ n) s) = ms_entries s \<and> \<not> ms_closed ((round ^^ n) s) \<and> ms_maxEntries ((round ^^ n) s) = ms_maxEntries s"
  proof (induction n)
    case (Suc n)
    then show ?case using a[of "(round ^^ n) s"] f[of "at_time t ((round ^^ n) s)"] by (simp add: round_def at_time_def)
  qed (use ctx in simp)
  then show ?thesis using a f unfolding round_def by fastforce
qed

definition ex_full_cache :: memory_store where
  "ex_full_cache = ex_cache\<lparr>ms_entries := [(''a'', ex_entry), (''b'', ex_entry)]\<rparr>"

theorem shared_limiter_open_at_capacity_witness:
  "\<exists>s'. ((\<lambda>s. snd (shared_fail_at id ex_hmac ex_shared ex_cctx ''u'' (GoTime 5 True)
       (snd (shared_allow_at id ex_hmac ex_shared ex_cctx ''u'' (GoTime 5 True) s)))) ^^ 1000) ex_full_cache = s' \<and>
     ms_entries s' = ms_entries ex_full_cache \<and> fst (shared_allow_at id ex_hmac ex_shared ex_cctx ''u'' (GoTime 5 True) s') = Inr True \<and>
     fst (shared_fail_at id ex_hmac ex_shared ex_cctx ''u'' (GoTime 5 True) s') =
       Inl (Wrapf ''increment shared login failure count'' (Sentinel CacheErrCapacity))"
  by (rule shared_limiter_open_at_capacity[OF _ ex_shared_key])
    (simp_all add: ex_shared_def ex_full_cache_def ex_cache_def ex_cctx_def ex_entry_def validateKey_def maximumKeyBytes_def
      Millisecond_def Minute_def Second_def live_at_def Before_def)

end
