(* ===== verification/Ledger_Types.thy ===== *)
theory Ledger_Types
  imports Foundation Store_Contract
begin

text \<open>
  Data of the package \<open>internal/ledger\<close> (\<open>contracts.go\<close>): vendors, purchase orders with lines, contracts,
  commitments, budgets, costs, the inputs of the service and its reports. Amounts and revisions are \<open>int64\<close>
  in Go and \<open>int\<close> here, with the wrap-around written out where the code adds without a check. A pointer to a
  time is an option.
\<close>

datatype ledger_sentinel =
  LedgerErrInvalidInput | LedgerErrNotFound | LedgerErrConflict | LedgerErrReferenceMissing | LedgerErrInvalidTransition | LedgerErrTooLarge

type_synonym ledger_error = "ledger_sentinel err"

record Vendor =
  ven_ID :: string
  ven_OrganizationID :: string
  ven_Name :: string
  ven_ExternalID :: string
  ven_Status :: string
  ven_Revision :: int
  ven_CreatedAt :: gotime
  ven_UpdatedAt :: gotime

record PurchaseOrderLine =
  pol_ID :: string
  pol_Description :: string
  pol_Kind :: string
  pol_AssetID :: string
  pol_ModelID :: string
  pol_LicenseID :: string
  pol_Quantity :: int
  pol_UnitCostMinor :: int
  pol_AmountMinor :: int

record PurchaseOrder =
  po_ID :: string
  po_OrganizationID :: string
  po_Number :: string
  po_VendorID :: string
  po_Status :: string
  po_Currency :: string
  po_TotalMinor :: int
  po_OrderedOn :: "gotime option"
  po_AssetIDs :: "string list"
  po_ReceiptDocumentIDs :: "string list"
  po_Lines :: "PurchaseOrderLine list"
  po_Revision :: int
  po_CreatedAt :: gotime
  po_UpdatedAt :: gotime

record Contract =
  con_ID :: string
  con_OrganizationID :: string
  con_Name :: string
  con_VendorID :: string
  con_OperationalStatus :: string
  con_FinancialStatus :: string
  con_Currency :: string
  con_CeilingMinor :: int
  con_StartsOn :: gotime
  con_EndsOn :: gotime
  con_RenewsOn :: "gotime option"
  con_DocumentIDs :: "string list"
  con_Revision :: int
  con_CreatedAt :: gotime
  con_UpdatedAt :: gotime

record Commitment =
  com_ID :: string
  com_OrganizationID :: string
  com_ContractID :: string
  com_Kind :: string
  com_Description :: string
  com_Currency :: string
  com_AmountMinor :: int
  com_StartsOn :: gotime
  com_EndsOn :: gotime
  com_FiscalPeriod :: string
  com_Scenario :: string
  com_Revision :: int
  com_CreatedAt :: gotime
  com_UpdatedAt :: gotime

record Budget =
  bud_ID :: string
  bud_OrganizationID :: string
  bud_Name :: string
  bud_FiscalPeriod :: string
  bud_Scenario :: string
  bud_DepartmentID :: string
  bud_SiteID :: string
  bud_Currency :: string
  bud_AllocatedMinor :: int
  bud_Revision :: int
  bud_CreatedAt :: gotime
  bud_UpdatedAt :: gotime

record CostRecord =
  cost_ID :: string
  cost_OrganizationID :: string
  cost_Description :: string
  cost_Kind :: string
  cost_Currency :: string
  cost_AmountMinor :: int
  cost_FiscalPeriod :: string
  cost_Scenario :: string
  cost_PurchaseOrderID :: string
  cost_ContractID :: string
  cost_AssetID :: string
  cost_DepartmentID :: string
  cost_SiteID :: string
  cost_DocumentID :: string
  cost_ExternalReference :: string
  cost_SourceSystemID :: string
  cost_SourceRecordID :: string
  cost_Revision :: int
  cost_CreatedAt :: gotime
  cost_UpdatedAt :: gotime

record LedgerSnapshot =
  ls_Vendors :: "Vendor list"
  ls_PurchaseOrders :: "PurchaseOrder list"
  ls_Contracts :: "Contract list"
  ls_Commitments :: "Commitment list"
  ls_Budgets :: "Budget list"
  ls_Costs :: "CostRecord list"

record BudgetVarianceReport =
  bv_FiscalPeriod :: string
  bv_Scenario :: string
  bv_Currency :: string
  bv_AllocatedMinor :: int
  bv_RecognizedMinor :: int
  bv_VarianceMinor :: int
  bv_OverBudget :: bool
  bv_AmountsByKindMinor :: "(string, int) gomap"

record CreateVendorInput =
  cvi_ID :: string
  cvi_Name :: string
  cvi_ExternalID :: string
  cvi_Status :: string

record CreatePurchaseOrderInput =
  cpi_ID :: string
  cpi_Number :: string
  cpi_VendorID :: string
  cpi_Status :: string
  cpi_Currency :: string
  cpi_TotalMinor :: int
  cpi_OrderedOn :: "gotime option"
  cpi_AssetIDs :: "string list"
  cpi_ReceiptDocumentIDs :: "string list"
  cpi_Lines :: "PurchaseOrderLine list"

record UpdatePurchaseOrderStatusInput =
  upi_ID :: string
  upi_Status :: string
  upi_Revision :: int

record CreateContractInput =
  cci_ID :: string
  cci_Name :: string
  cci_VendorID :: string
  cci_OperationalStatus :: string
  cci_FinancialStatus :: string
  cci_Currency :: string
  cci_CeilingMinor :: int
  cci_StartsOn :: gotime
  cci_EndsOn :: gotime
  cci_RenewsOn :: "gotime option"
  cci_DocumentIDs :: "string list"

record UpdateContractStatusInput =
  uci_ID :: string
  uci_OperationalStatus :: string
  uci_FinancialStatus :: string
  uci_Revision :: int

record CreateCommitmentInput =
  cmi_ID :: string
  cmi_ContractID :: string
  cmi_Kind :: string
  cmi_Description :: string
  cmi_Currency :: string
  cmi_AmountMinor :: int
  cmi_StartsOn :: gotime
  cmi_EndsOn :: gotime
  cmi_FiscalPeriod :: string
  cmi_Scenario :: string

record CreateBudgetInput =
  cbi_ID :: string
  cbi_Name :: string
  cbi_FiscalPeriod :: string
  cbi_Scenario :: string
  cbi_DepartmentID :: string
  cbi_SiteID :: string
  cbi_Currency :: string
  cbi_AllocatedMinor :: int

record ReconcileCostInput =
  rci_ID :: string
  rci_Description :: string
  rci_Kind :: string
  rci_Currency :: string
  rci_AmountMinor :: int
  rci_FiscalPeriod :: string
  rci_Scenario :: string
  rci_PurchaseOrderID :: string
  rci_ContractID :: string
  rci_AssetID :: string
  rci_DepartmentID :: string
  rci_SiteID :: string
  rci_DocumentID :: string
  rci_ExternalReference :: string
  rci_SourceSystemID :: string
  rci_SourceRecordID :: string

record ReconcileResult =
  rr_Record :: CostRecord
  rr_Applied :: bool
  rr_Created :: bool

record LedgerImportOperation =
  lop_Token :: string
  lop_OccurredAt :: gotime

record LedgerImportResult =
  lres_Committed :: bool
  lres_Created :: bool

text \<open>A request context of Ledger: the importer marks its own calls.\<close>

record ledger_ctx = ctx +
  lcx_import :: "LedgerImportOperation option"

end
