(* ===== verification/Ledger_Store.thy ===== *)
theory Ledger_Store
  imports Ledger_Types
begin

text \<open>
  \<open>internal/repository/memory_ledger.go\<close>: the in-memory store of Ledger. Every method runs under the store's
  mutex and is one atomic step. \<open>costSources\<close> maps the identity of a source record to the id of its cost.
  Go's \<open>sort.Slice\<close> leaves the order of equal elements open; the stable sort here is one of its results.
\<close>

record ledger_world = world +
  vendors :: "(string, Vendor) gomap"
  purchaseOrders :: "(string, PurchaseOrder) gomap"
  contracts :: "(string, Contract) gomap"
  commitments :: "(string, Commitment) gomap"
  budgets :: "(string, Budget) gomap"
  costs :: "(string, CostRecord) gomap"
  costSources :: "(string, string) gomap"

type_synonym 'a ledger_op = "(ledger_world, ledger_sentinel, 'a) op"

definition ledgerKey :: "string \<Rightarrow> string \<Rightarrow> string" where
  "ledgerKey organizationID id' = organizationID @ [CHR 0x00] @ id'"

definition ledgerSourceKey :: "unicode \<Rightarrow> string \<Rightarrow> string \<Rightarrow> string \<Rightarrow> string" where
  "ledgerSourceKey u organizationID sourceSystemID sourceRecordID =
     organizationID @ [CHR 0x00] @ ToLower u sourceSystemID @ [CHR 0x00] @ sourceRecordID"

definition vendor_key :: "Vendor \<Rightarrow> string" where "vendor_key v = ledgerKey (ven_OrganizationID v) (ven_ID v)"
definition po_key :: "PurchaseOrder \<Rightarrow> string" where "po_key p = ledgerKey (po_OrganizationID p) (po_ID p)"
definition contract_key :: "Contract \<Rightarrow> string" where "contract_key c = ledgerKey (con_OrganizationID c) (con_ID c)"
definition commitment_key :: "Commitment \<Rightarrow> string" where "commitment_key c = ledgerKey (com_OrganizationID c) (com_ID c)"
definition budget_key :: "Budget \<Rightarrow> string" where "budget_key b = ledgerKey (bud_OrganizationID b) (bud_ID b)"
definition cost_key :: "CostRecord \<Rightarrow> string" where "cost_key c = ledgerKey (cost_OrganizationID c) (cost_ID c)"

definition zero_cost :: CostRecord where
  "zero_cost = \<lparr>cost_ID = '''', cost_OrganizationID = '''', cost_Description = '''', cost_Kind = '''', cost_Currency = '''',
     cost_AmountMinor = 0, cost_FiscalPeriod = '''', cost_Scenario = '''', cost_PurchaseOrderID = '''', cost_ContractID = '''',
     cost_AssetID = '''', cost_DepartmentID = '''', cost_SiteID = '''', cost_DocumentID = '''', cost_ExternalReference = '''',
     cost_SourceSystemID = '''', cost_SourceRecordID = '''', cost_Revision = 0, cost_CreatedAt = zero_time, cost_UpdatedAt = zero_time\<rparr>"

definition ledger_snapshot :: "string \<Rightarrow> ledger_world \<Rightarrow> LedgerSnapshot" where
  "ledger_snapshot organizationID w =
     \<lparr>ls_Vendors = sort_key ven_Name (filter (\<lambda>x. ven_OrganizationID x = organizationID) (map snd (vendors w))),
      ls_PurchaseOrders = sort_key po_Number (filter (\<lambda>x. po_OrganizationID x = organizationID) (map snd (purchaseOrders w))),
      ls_Contracts = sort_key con_Name (filter (\<lambda>x. con_OrganizationID x = organizationID) (map snd (contracts w))),
      ls_Commitments = sort_key (\<lambda>x. nanos (com_CreatedAt x)) (filter (\<lambda>x. com_OrganizationID x = organizationID) (map snd (commitments w))),
      ls_Budgets = sort_key (\<lambda>x. (bud_FiscalPeriod x, bud_Name x)) (filter (\<lambda>x. bud_OrganizationID x = organizationID) (map snd (budgets w))),
      ls_Costs = sort_key (\<lambda>x. nanos (cost_CreatedAt x)) (filter (\<lambda>x. cost_OrganizationID x = organizationID) (map snd (costs w)))\<rparr>"

definition storeLedgerSnapshot :: "string \<Rightarrow> LedgerSnapshot ledger_op" where
  "storeLedgerSnapshot organizationID = queryE (\<lambda>w. Inr (ledger_snapshot organizationID w))"

definition storeExchangeSnapshot :: "string \<Rightarrow> int \<Rightarrow> LedgerSnapshot ledger_op" where
  "storeExchangeSnapshot organizationID maximum =
     (if organizationID = '''' \<or> maximum < 1 then raiseE (Sentinel LedgerErrInvalidInput)
      else queryE (\<lambda>w.
        let result = ledger_snapshot organizationID w;
            total = length (ls_Vendors result) + length (ls_PurchaseOrders result) + length (ls_Contracts result) +
              length (ls_Commitments result) + length (ls_Budgets result) + length (ls_Costs result)
        in if int total > maximum then Inl (Sentinel LedgerErrTooLarge) else Inr result))"

text \<open>Every lookup by id has this shape.\<close>

definition ledger_get :: "(ledger_world \<Rightarrow> (string, 'r) gomap) \<Rightarrow> string \<Rightarrow> string \<Rightarrow> 'r ledger_op" where
  "ledger_get field organizationID id' = queryE (\<lambda>w.
     case map_of (field w) (ledgerKey organizationID id') of None \<Rightarrow> Inl (Sentinel LedgerErrNotFound) | Some item \<Rightarrow> Inr item)"

definition storeGetVendor :: "string \<Rightarrow> string \<Rightarrow> Vendor ledger_op" where
  "storeGetVendor = ledger_get vendors"
definition storeGetPurchaseOrder :: "string \<Rightarrow> string \<Rightarrow> PurchaseOrder ledger_op" where
  "storeGetPurchaseOrder = ledger_get purchaseOrders"
definition storeGetContract :: "string \<Rightarrow> string \<Rightarrow> Contract ledger_op" where
  "storeGetContract = ledger_get contracts"
definition storeGetCommitment :: "string \<Rightarrow> string \<Rightarrow> Commitment ledger_op" where
  "storeGetCommitment = ledger_get commitments"
definition storeGetBudget :: "string \<Rightarrow> string \<Rightarrow> Budget ledger_op" where
  "storeGetBudget = ledger_get budgets"
definition storeGetCost :: "string \<Rightarrow> string \<Rightarrow> CostRecord ledger_op" where
  "storeGetCost = ledger_get costs"

definition storeCreateVendor :: "unicode \<Rightarrow> Vendor \<Rightarrow> Vendor ledger_op" where
  "storeCreateVendor u item w =
     (let key = ledgerKey (ven_OrganizationID item) (ven_ID item) in
      if map_of (vendors w) key \<noteq> None then (Inl (Sentinel LedgerErrConflict), w)
      else if list_ex (\<lambda>(_, existing). ven_OrganizationID existing = ven_OrganizationID item \<and> EqualFold u (ven_Name existing) (ven_Name item)) (vendors w)
      then (Inl (Sentinel LedgerErrConflict), w)
      else (Inr item, w\<lparr>vendors := AList.update key item (vendors w)\<rparr>))"

definition storeCreatePurchaseOrder :: "unicode \<Rightarrow> PurchaseOrder \<Rightarrow> PurchaseOrder ledger_op" where
  "storeCreatePurchaseOrder u item w =
     (let key = ledgerKey (po_OrganizationID item) (po_ID item) in
      if map_of (purchaseOrders w) key \<noteq> None then (Inl (Sentinel LedgerErrConflict), w)
      else if list_ex (\<lambda>(_, existing). po_OrganizationID existing = po_OrganizationID item \<and> EqualFold u (po_Number existing) (po_Number item)) (purchaseOrders w)
      then (Inl (Sentinel LedgerErrConflict), w)
      else (Inr item, w\<lparr>purchaseOrders := AList.update key item (purchaseOrders w)\<rparr>))"

definition storeUpdatePurchaseOrder :: "PurchaseOrder \<Rightarrow> int \<Rightarrow> PurchaseOrder ledger_op" where
  "storeUpdatePurchaseOrder item expectedRevision w =
     (let key = ledgerKey (po_OrganizationID item) (po_ID item) in
      case map_of (purchaseOrders w) key of
        None \<Rightarrow> (Inl (Sentinel LedgerErrNotFound), w)
      | Some existing \<Rightarrow>
          if po_Revision existing \<noteq> expectedRevision then (Inl (Sentinel LedgerErrConflict), w)
          else (Inr item, w\<lparr>purchaseOrders := AList.update key item (purchaseOrders w)\<rparr>))"

definition storeCreateContract :: "Contract \<Rightarrow> Contract ledger_op" where
  "storeCreateContract item w =
     (let key = ledgerKey (con_OrganizationID item) (con_ID item) in
      if map_of (contracts w) key \<noteq> None then (Inl (Sentinel LedgerErrConflict), w)
      else (Inr item, w\<lparr>contracts := AList.update key item (contracts w)\<rparr>))"

definition storeUpdateContract :: "Contract \<Rightarrow> int \<Rightarrow> Contract ledger_op" where
  "storeUpdateContract item expectedRevision w =
     (let key = ledgerKey (con_OrganizationID item) (con_ID item) in
      case map_of (contracts w) key of
        None \<Rightarrow> (Inl (Sentinel LedgerErrNotFound), w)
      | Some existing \<Rightarrow>
          if con_Revision existing \<noteq> expectedRevision then (Inl (Sentinel LedgerErrConflict), w)
          else (Inr item, w\<lparr>contracts := AList.update key item (contracts w)\<rparr>))"

definition storeCreateCommitment :: "Commitment \<Rightarrow> Commitment ledger_op" where
  "storeCreateCommitment item w =
     (let key = ledgerKey (com_OrganizationID item) (com_ID item) in
      if map_of (commitments w) key \<noteq> None then (Inl (Sentinel LedgerErrConflict), w)
      else (Inr item, w\<lparr>commitments := AList.update key item (commitments w)\<rparr>))"

definition storeCreateBudget :: "unicode \<Rightarrow> Budget \<Rightarrow> Budget ledger_op" where
  "storeCreateBudget u item w =
     (let key = ledgerKey (bud_OrganizationID item) (bud_ID item) in
      if map_of (budgets w) key \<noteq> None then (Inl (Sentinel LedgerErrConflict), w)
      else if list_ex (\<lambda>(_, existing). bud_OrganizationID existing = bud_OrganizationID item \<and>
             bud_FiscalPeriod existing = bud_FiscalPeriod item \<and> bud_Scenario existing = bud_Scenario item \<and>
             bud_DepartmentID existing = bud_DepartmentID item \<and> bud_SiteID existing = bud_SiteID item \<and>
             EqualFold u (bud_Name existing) (bud_Name item)) (budgets w)
      then (Inl (Sentinel LedgerErrConflict), w)
      else (Inr item, w\<lparr>budgets := AList.update key item (budgets w)\<rparr>))"

definition storeGetCostBySource :: "unicode \<Rightarrow> string \<Rightarrow> string \<Rightarrow> string \<Rightarrow> CostRecord ledger_op" where
  "storeGetCostBySource u organizationID sourceSystemID sourceRecordID = queryE (\<lambda>w.
     case map_of (costSources w) (ledgerSourceKey u organizationID sourceSystemID sourceRecordID) of
       None \<Rightarrow> Inl (Sentinel LedgerErrNotFound)
     | Some id' \<Rightarrow> (case map_of (costs w) (ledgerKey organizationID id') of None \<Rightarrow> Inr zero_cost | Some item \<Rightarrow> Inr item))"

definition storeCreateCost :: "unicode \<Rightarrow> CostRecord \<Rightarrow> CostRecord ledger_op" where
  "storeCreateCost u item w =
     (let key = ledgerKey (cost_OrganizationID item) (cost_ID item);
          sourceKey = ledgerSourceKey u (cost_OrganizationID item) (cost_SourceSystemID item) (cost_SourceRecordID item) in
      if map_of (costs w) key \<noteq> None then (Inl (Sentinel LedgerErrConflict), w)
      else if cost_SourceSystemID item \<noteq> '''' \<and> map_of (costSources w) sourceKey \<noteq> None then (Inl (Sentinel LedgerErrConflict), w)
      else (Inr item, w\<lparr>costSources := (if cost_SourceSystemID item \<noteq> '''' then AList.update sourceKey (cost_ID item) (costSources w) else costSources w),
                        costs := AList.update key item (costs w)\<rparr>))"

definition storeUpdateCost :: "CostRecord \<Rightarrow> int \<Rightarrow> CostRecord ledger_op" where
  "storeUpdateCost item expectedRevision w =
     (let key = ledgerKey (cost_OrganizationID item) (cost_ID item) in
      case map_of (costs w) key of
        None \<Rightarrow> (Inl (Sentinel LedgerErrNotFound), w)
      | Some existing \<Rightarrow>
          if cost_Revision existing \<noteq> expectedRevision then (Inl (Sentinel LedgerErrConflict), w)
          else if cost_SourceSystemID existing \<noteq> cost_SourceSystemID item \<or> cost_SourceRecordID existing \<noteq> cost_SourceRecordID item
          then (Inl (Sentinel LedgerErrConflict), w)
          else (Inr item, w\<lparr>costs := AList.update key item (costs w)\<rparr>))"

section \<open>The contract of the services\<close>

interpretation po_store: revisioned_store "\<lambda>w. map_of (purchaseOrders w)" "storeCreatePurchaseOrder u" storeUpdatePurchaseOrder po_key po_Revision for u
  by unfold_locales
    (auto simp: storeCreatePurchaseOrder_def storeUpdatePurchaseOrder_def po_key_def Let_def split: if_splits option.splits)

interpretation contract_store: revisioned_store "\<lambda>w. map_of (contracts w)" storeCreateContract storeUpdateContract contract_key con_Revision
  by unfold_locales
    (auto simp: storeCreateContract_def storeUpdateContract_def contract_key_def Let_def split: if_splits option.splits)

interpretation cost_store: revisioned_store "\<lambda>w. map_of (costs w)" "storeCreateCost u" storeUpdateCost cost_key cost_Revision for u
  by unfold_locales
    (auto simp: storeCreateCost_def storeUpdateCost_def cost_key_def Let_def split: if_splits option.splits)

section \<open>Backward rules\<close>

lemma wpI_ledger_get [wp_intro]:
  "(map_of (field w) (ledgerKey org i) = None \<Longrightarrow> E (Sentinel LedgerErrNotFound) w) \<Longrightarrow>
   (\<And>r. map_of (field w) (ledgerKey org i) = Some r \<Longrightarrow> Q r w) \<Longrightarrow> wp (ledger_get field org i) Q E w"
  by (simp add: ledger_get_def wp_simps split: option.splits)

lemmas store_get_defs = storeGetVendor_def storeGetPurchaseOrder_def storeGetContract_def storeGetCommitment_def
  storeGetBudget_def storeGetCost_def

lemma wpI_storeCreateVendor [wp_intro]:
  "E (Sentinel LedgerErrConflict) w \<Longrightarrow>
   (map_of (vendors w) (vendor_key v) = None \<Longrightarrow>
      \<not> (\<exists>x \<in> vals (vendors w). ven_OrganizationID x = ven_OrganizationID v \<and> EqualFold u (ven_Name x) (ven_Name v)) \<Longrightarrow>
      Q v (w\<lparr>vendors := AList.update (vendor_key v) v (vendors w)\<rparr>)) \<Longrightarrow> wp (storeCreateVendor u v) Q E w"
  by (simp add: storeCreateVendor_def wp_def vendor_key_def Let_def list_ex_vals)

lemma wpI_storeCreatePurchaseOrder [wp_intro]:
  "E (Sentinel LedgerErrConflict) w \<Longrightarrow>
   (map_of (purchaseOrders w) (po_key p) = None \<Longrightarrow>
      \<not> (\<exists>x \<in> vals (purchaseOrders w). po_OrganizationID x = po_OrganizationID p \<and> EqualFold u (po_Number x) (po_Number p)) \<Longrightarrow>
      Q p (w\<lparr>purchaseOrders := AList.update (po_key p) p (purchaseOrders w)\<rparr>)) \<Longrightarrow> wp (storeCreatePurchaseOrder u p) Q E w"
  by (simp add: storeCreatePurchaseOrder_def wp_def po_key_def Let_def list_ex_vals)

lemma wpI_storeUpdatePurchaseOrder [wp_intro]:
  "E (Sentinel LedgerErrNotFound) w \<Longrightarrow> E (Sentinel LedgerErrConflict) w \<Longrightarrow>
   (\<And>old. map_of (purchaseOrders w) (po_key p) = Some old \<Longrightarrow> po_Revision old = n \<Longrightarrow>
      Q p (w\<lparr>purchaseOrders := AList.update (po_key p) p (purchaseOrders w)\<rparr>)) \<Longrightarrow> wp (storeUpdatePurchaseOrder p n) Q E w"
  by (simp add: storeUpdatePurchaseOrder_def wp_def po_key_def Let_def split: option.splits)

lemma wpI_storeCreateContract [wp_intro]:
  "E (Sentinel LedgerErrConflict) w \<Longrightarrow>
   (map_of (contracts w) (contract_key c) = None \<Longrightarrow> Q c (w\<lparr>contracts := AList.update (contract_key c) c (contracts w)\<rparr>)) \<Longrightarrow>
   wp (storeCreateContract c) Q E w"
  by (simp add: storeCreateContract_def wp_def contract_key_def Let_def)

lemma wpI_storeUpdateContract [wp_intro]:
  "E (Sentinel LedgerErrNotFound) w \<Longrightarrow> E (Sentinel LedgerErrConflict) w \<Longrightarrow>
   (\<And>old. map_of (contracts w) (contract_key c) = Some old \<Longrightarrow> con_Revision old = n \<Longrightarrow>
      Q c (w\<lparr>contracts := AList.update (contract_key c) c (contracts w)\<rparr>)) \<Longrightarrow> wp (storeUpdateContract c n) Q E w"
  by (simp add: storeUpdateContract_def wp_def contract_key_def Let_def split: option.splits)

lemma wpI_storeCreateCommitment [wp_intro]:
  "E (Sentinel LedgerErrConflict) w \<Longrightarrow>
   (map_of (commitments w) (commitment_key c) = None \<Longrightarrow> Q c (w\<lparr>commitments := AList.update (commitment_key c) c (commitments w)\<rparr>)) \<Longrightarrow>
   wp (storeCreateCommitment c) Q E w"
  by (simp add: storeCreateCommitment_def wp_def commitment_key_def Let_def)

lemma wpI_storeCreateBudget [wp_intro]:
  "E (Sentinel LedgerErrConflict) w \<Longrightarrow>
   (map_of (budgets w) (budget_key b) = None \<Longrightarrow>
    \<not> (\<exists>x \<in> vals (budgets w). bud_OrganizationID x = bud_OrganizationID b \<and> bud_FiscalPeriod x = bud_FiscalPeriod b \<and>
      bud_Scenario x = bud_Scenario b \<and> bud_DepartmentID x = bud_DepartmentID b \<and> bud_SiteID x = bud_SiteID b \<and>
      EqualFold u (bud_Name x) (bud_Name b)) \<Longrightarrow>
      Q b (w\<lparr>budgets := AList.update (budget_key b) b (budgets w)\<rparr>)) \<Longrightarrow>
   wp (storeCreateBudget u b) Q E w"
  by (simp add: storeCreateBudget_def wp_def budget_key_def Let_def list_ex_vals)

lemma wpI_storeGetCostBySource [wp_intro]:
  "(map_of (costSources w) (ledgerSourceKey u org s r) = None \<Longrightarrow> E (Sentinel LedgerErrNotFound) w) \<Longrightarrow>
   (\<And>i. map_of (costSources w) (ledgerSourceKey u org s r) = Some i \<Longrightarrow>
      Q (case map_of (costs w) (ledgerKey org i) of None \<Rightarrow> zero_cost | Some c \<Rightarrow> c) w) \<Longrightarrow>
   wp (storeGetCostBySource u org s r) Q E w"
  by (cases "map_of (costSources w) (ledgerSourceKey u org s r)") (simp_all add: storeGetCostBySource_def wp_simps split: option.splits)

lemma wpI_storeCreateCost [wp_intro]:
  "E (Sentinel LedgerErrConflict) w \<Longrightarrow>
   (map_of (costs w) (cost_key c) = None \<Longrightarrow>
      (cost_SourceSystemID c \<noteq> '''' \<Longrightarrow>
         map_of (costSources w) (ledgerSourceKey u (cost_OrganizationID c) (cost_SourceSystemID c) (cost_SourceRecordID c)) = None) \<Longrightarrow>
      Q c (w\<lparr>costSources := (if cost_SourceSystemID c \<noteq> ''''
               then AList.update (ledgerSourceKey u (cost_OrganizationID c) (cost_SourceSystemID c) (cost_SourceRecordID c)) (cost_ID c) (costSources w)
               else costSources w),
             costs := AList.update (cost_key c) c (costs w)\<rparr>)) \<Longrightarrow>
   wp (storeCreateCost u c) Q E w"
  by (cases "cost_SourceSystemID c = ''''") (simp_all add: storeCreateCost_def wp_def cost_key_def Let_def)

lemma wpI_storeUpdateCost [wp_intro]:
  "E (Sentinel LedgerErrNotFound) w \<Longrightarrow> E (Sentinel LedgerErrConflict) w \<Longrightarrow>
   (\<And>old. map_of (costs w) (cost_key c) = Some old \<Longrightarrow> cost_Revision old = n \<Longrightarrow>
      cost_SourceSystemID old = cost_SourceSystemID c \<Longrightarrow> cost_SourceRecordID old = cost_SourceRecordID c \<Longrightarrow>
      Q c (w\<lparr>costs := AList.update (cost_key c) c (costs w)\<rparr>)) \<Longrightarrow> wp (storeUpdateCost c n) Q E w"
  by (simp add: storeUpdateCost_def wp_def cost_key_def Let_def split: option.splits)

end
