(* ===== verification/Go_CSV.thy ===== *)
theory Go_CSV
  imports Go_Strings
begin

text \<open>
  \<open>csv.Writer\<close> of package \<open>encoding/csv\<close> with its default comma and line ends, and a reader of RFC 4180 that recovers what it wrote. The reports of Ledger and
  Signals are written through it.
\<close>

section \<open>Writing\<close>

text \<open>Which fields are quoted, and how.\<close>

definition csv_needs_quotes :: "string \<Rightarrow> bool" where
  "csv_needs_quotes field \<longleftrightarrow> field \<noteq> '''' \<and>
     (field = [CHR 0x5C, CHR ''.''] \<or>
      list_ex (\<lambda>c. c = CHR 0x0A \<or> c = CHR 0x0D \<or> c = CHR 0x22 \<or> c = CHR '','') field \<or>
      find (starts_with field) space_encodings \<noteq> None)"

definition csv_field :: "string \<Rightarrow> string" where
  "csv_field field = (if csv_needs_quotes field
     then [CHR 0x22] @ concat (map (\<lambda>c. if c = CHR 0x22 then [c, c] else [c]) field) @ [CHR 0x22] else field)"

fun csv_fields :: "string list \<Rightarrow> string" where
  "csv_fields [] = []"
| "csv_fields [f] = csv_field f"
| "csv_fields (f # fs) = csv_field f @ [CHR '',''] @ csv_fields fs"

definition csv_write :: "string list \<Rightarrow> string" where
  "csv_write row = csv_fields row @ [CHR 0x0A]"

section \<open>Reading\<close>

text \<open>A reader of comma-separated records as RFC 4180 describes them, with a line feed as the record separator: a field is either plain, up to the next
  comma or line feed, or quoted, where a doubled quote stands for a quote.\<close>

datatype csv_mode = Field_Start | Plain | Quoted | Quote_Seen

fun csv_scan :: "csv_mode \<Rightarrow> string \<Rightarrow> string list \<Rightarrow> string \<Rightarrow> string list list option" where
  "csv_scan mode field row [] = (if mode = Field_Start \<and> row = [] then Some [] else None)"
| "csv_scan Quoted field row (c # cs) =
     (if c = CHR 0x22 then csv_scan Quote_Seen field row cs else csv_scan Quoted (field @ [c]) row cs)"
| "csv_scan mode field row (c # cs) =
     (if c = CHR '','' then csv_scan Field_Start [] (row @ [field]) cs
      else if c = CHR 0x0A then map_option ((#) (row @ [field])) (csv_scan Field_Start [] [] cs)
      else if c = CHR 0x22 then
        (case mode of Field_Start \<Rightarrow> csv_scan Quoted [] row cs | Quote_Seen \<Rightarrow> csv_scan Quoted (field @ [CHR 0x22]) row cs | _ \<Rightarrow> None)
      else if mode = Quote_Seen then None
      else csv_scan Plain (field @ [c]) row cs)"

definition csv_read :: "string \<Rightarrow> string list list option" where
  "csv_read s = csv_scan Field_Start [] [] s"

definition csv_end :: "string list \<Rightarrow> char \<Rightarrow> string \<Rightarrow> string list list option" where
  "csv_end row c cs = (if c = CHR '','' then csv_scan Field_Start [] row cs else map_option ((#) row) (csv_scan Field_Start [] [] cs))"

lemma csv_scan_quoted:
  "csv_scan Quoted field row (concat (map (\<lambda>c. if c = CHR 0x22 then [c, c] else [c]) f) @ CHR 0x22 # cs) = csv_scan Quote_Seen (field @ f) row cs"
  by (induction f arbitrary: field) auto

definition csv_plain_char :: "char \<Rightarrow> bool" where
  "csv_plain_char c \<longleftrightarrow> c \<noteq> CHR 0x0A \<and> c \<noteq> CHR 0x22 \<and> c \<noteq> CHR '',''"

lemma csv_scan_plain:
  "\<forall>c \<in> set f. csv_plain_char c \<Longrightarrow> mode = Plain \<or> mode = Field_Start \<Longrightarrow> d = CHR '','' \<or> d = CHR 0x0A \<Longrightarrow>
     csv_scan mode field row (f @ d # cs) = csv_end (row @ [field @ f]) d cs"
  by (induction f arbitrary: field mode) (auto simp: csv_plain_char_def csv_end_def)

lemma csv_scan_field:
  assumes "d = CHR '','' \<or> d = CHR 0x0A"
  shows "csv_scan Field_Start [] row (csv_field f @ d # cs) = csv_end (row @ [f]) d cs"
proof (cases "csv_needs_quotes f")
  case True
  then show ?thesis using assms by (auto simp: csv_field_def csv_scan_quoted csv_end_def)
next
  case False
  then have "\<forall>c \<in> set f. csv_plain_char c" by (auto simp: csv_needs_quotes_def csv_plain_char_def list_ex_iff)
  then show ?thesis using False assms by (simp add: csv_field_def csv_scan_plain)
qed

lemma csv_scan_row:
  "fs \<noteq> [] \<Longrightarrow> csv_scan Field_Start [] row (csv_fields fs @ CHR 0x0A # cs) = map_option ((#) (row @ fs)) (csv_scan Field_Start [] [] cs)"
proof (induction fs arbitrary: row rule: csv_fields.induct)
  case (2 f)
  then show ?case by (simp add: csv_scan_field csv_end_def)
next
  case (3 f g fs)
  then show ?case by (simp add: csv_scan_field csv_end_def)
qed simp

lemma csv_read_write: "[] \<notin> set rows \<Longrightarrow> csv_read (concat (map csv_write rows)) = Some rows"
  by (induction rows) (auto simp: csv_read_def csv_write_def csv_scan_row)

end
