(* ===== verification/Ledger_Normalize.thy ===== *)
theory Ledger_Normalize
  imports Ledger_Types Go_CSV
begin

text \<open>
  The pure part of \<open>internal/ledger/service.go\<close>: patterns and vocabularies, the normalization of every
  input, the status machines, checked addition and the cells of the CSV export. A regular expression of the
  source is a bool-valued function; a pointer to a date is an option.
\<close>

section \<open>Patterns and vocabularies\<close>

definition ledger_idPattern :: "string \<Rightarrow> bool" where
  "ledger_idPattern s = match_head_tail is_alnum is_id_char 127 s"

definition currencyPattern :: "string \<Rightarrow> bool" where
  "currencyPattern s \<longleftrightarrow> length s = 3 \<and> list_all is_upper s"

definition fiscalPeriodPattern :: "string \<Rightarrow> bool" where
  "fiscalPeriodPattern s = match_head_tail is_alnum is_id_char 31 s"

definition scenarioPattern :: "string \<Rightarrow> bool" where
  "scenarioPattern s = match_head_tail (\<lambda>c. is_lower c \<or> is_digit c)
     (\<lambda>c. is_lower c \<or> is_digit c \<or> c = CHR ''.'' \<or> c = CHR ''_'' \<or> c = CHR ''-'') 63 s"

definition validVendorStatuses :: "string set" where
  "validVendorStatuses = {''active'', ''inactive''}"
definition validPurchaseOrderStatuses :: "string set" where
  "validPurchaseOrderStatuses = {''draft'', ''approved'', ''ordered'', ''partially_received'', ''received'', ''cancelled''}"
definition validOperationalStatuses :: "string set" where
  "validOperationalStatuses = {''planned'', ''active'', ''suspended'', ''expired'', ''terminated'', ''cancelled''}"
definition validFinancialStatuses :: "string set" where
  "validFinancialStatuses = {''planned'', ''committed'', ''billed'', ''paid'', ''closed'', ''cancelled''}"
definition validCommitmentKinds :: "string set" where
  "validCommitmentKinds = {''savings_plan'', ''subscription'', ''reserved_capacity'', ''lease'', ''maintenance'', ''license'', ''financing'', ''other''}"
definition validCostKinds :: "string set" where
  "validCostKinds = {''planned'', ''estimated'', ''actual'', ''billed'', ''paid'', ''committed'', ''normalized_real'', ''tco''}"

lemmas vocabulary_defs = validVendorStatuses_def validPurchaseOrderStatuses_def validOperationalStatuses_def
  validFinancialStatuses_def validCommitmentKinds_def validCostKinds_def

definition optionalID :: "string \<Rightarrow> bool" where
  "optionalID value \<longleftrightarrow> value = '''' \<or> ledger_idPattern value"

definition allOptionalIDs :: "string list \<Rightarrow> bool" where
  "allOptionalIDs values = list_all optionalID values"

definition allIDs :: "string list \<Rightarrow> bool" where
  "allIDs values = list_all ledger_idPattern values"

definition ledger_validText :: "string \<Rightarrow> nat \<Rightarrow> bool" where
  "ledger_validText value maximum \<longleftrightarrow> valid_string value \<and> rune_count value \<le> maximum"

definition ledger_validTextRange :: "string \<Rightarrow> nat \<Rightarrow> nat \<Rightarrow> bool" where
  "ledger_validTextRange value minimum maximum \<longleftrightarrow>
     valid_string value \<and> minimum \<le> rune_count value \<and> rune_count value \<le> maximum"

section \<open>Lists of ids\<close>

definition normalizeIDs :: "string list \<Rightarrow> string list" where
  "normalizeIDs values = sort (filter (\<lambda>value. value \<noteq> '''') (map TrimSpace values))"

text \<open>The loop of \<open>uniqueSortedIDs\<close>: \<open>latest\<close> is the element at the end of \<open>result\<close>.\<close>

fun drop_repeats :: "string \<Rightarrow> string list \<Rightarrow> string list" where
  "drop_repeats latest [] = []"
| "drop_repeats latest (value # values) =
     (if value \<noteq> latest then value # drop_repeats value values else drop_repeats latest values)"

definition uniqueSortedIDs :: "string list \<Rightarrow> string list" where
  "uniqueSortedIDs values = (case normalizeIDs values of [] \<Rightarrow> [] | v # vs \<Rightarrow> v # drop_repeats v vs)"

fun hasDuplicates :: "string list \<Rightarrow> bool" where
  "hasDuplicates (x # y # zs) = (y = x \<or> hasDuplicates (y # zs))"
| "hasDuplicates _ = False"

section \<open>Dates and amounts\<close>

definition normalizeDate :: "gotime \<Rightarrow> gotime option" where
  "normalizeDate value0 =
     (let value = UTC value0 in
      if IsZero value \<or> Year value < 1970 \<or> Year value > 9999 then None else Some (day_start value))"

definition addMinor :: "int \<Rightarrow> int \<Rightarrow> int option" where
  "addMinor left right =
     (if left < 0 \<or> right < 0 \<or> left > max_i64 - right then None else Some (i64 (left + right)))"

section \<open>Purchase orders\<close>

definition normalizePurchaseOrderLine :: "unicode \<Rightarrow> nat \<Rightarrow> PurchaseOrderLine \<Rightarrow> PurchaseOrderLine option" where
  "normalizePurchaseOrderLine u index line0 =
     (let line1 = line0\<lparr>pol_ID := TrimSpace (pol_ID line0), pol_Description := TrimSpace (pol_Description line0),
            pol_Kind := ToLower u (TrimSpace (pol_Kind line0)), pol_AssetID := TrimSpace (pol_AssetID line0),
            pol_ModelID := TrimSpace (pol_ModelID line0), pol_LicenseID := TrimSpace (pol_LicenseID line0)\<rparr>;
          line2 = (if pol_ID line1 = '''' then line1\<lparr>pol_ID := ''line-'' @ format_nat (index + 1)\<rparr> else line1);
          line3 = (if pol_Quantity line2 = 0 then line2\<lparr>pol_Quantity := 1\<rparr> else line2)
      in if pol_AmountMinor line3 = 0 \<and>
            (pol_UnitCostMinor line3 < 0 \<or> pol_Quantity line3 < 1 \<or> pol_UnitCostMinor line3 > max_i64 div pol_Quantity line3)
         then None
         else let line = (if pol_AmountMinor line3 = 0
                          then line3\<lparr>pol_AmountMinor := i64 (pol_UnitCostMinor line3 * pol_Quantity line3)\<rparr> else line3)
              in if \<not> ledger_idPattern (pol_ID line) \<or> \<not> ledger_validTextRange (pol_Description line) 1 300 \<or>
                    pol_Kind line \<notin> {''asset'', ''model'', ''accessory'', ''software'', ''other''} \<or>
                    \<not> optionalID (pol_AssetID line) \<or> \<not> optionalID (pol_ModelID line) \<or> \<not> optionalID (pol_LicenseID line) \<or>
                    pol_Quantity line < 1 \<or> pol_Quantity line > 1000000 \<or> pol_UnitCostMinor line < 0 \<or> pol_AmountMinor line < 0
                 then None else Some line)"

fun normalize_lines :: "unicode \<Rightarrow> nat \<Rightarrow> string list \<Rightarrow> PurchaseOrderLine list \<Rightarrow> PurchaseOrderLine list option" where
  "normalize_lines u index seen [] = Some []"
| "normalize_lines u index seen (line0 # lines) =
     (case normalizePurchaseOrderLine u index line0 of
        None \<Rightarrow> None
      | Some line \<Rightarrow>
          if pol_ID line \<in> set seen then None
          else map_option (\<lambda>rest. line # rest) (normalize_lines u (index + 1) (pol_ID line # seen) lines))"

definition normalizePurchaseOrderLines :: "unicode \<Rightarrow> PurchaseOrderLine list \<Rightarrow> ledger_error + PurchaseOrderLine list" where
  "normalizePurchaseOrderLines u lines =
     (if length lines > 200 then Inl (Sentinel LedgerErrInvalidInput)
      else case normalize_lines u 0 [] lines of None \<Rightarrow> Inl (Sentinel LedgerErrInvalidInput) | Some ls \<Rightarrow> Inr ls)"

text \<open>The sum of the line amounts, in \<open>int64\<close> and without an overflow check, as the source adds them.\<close>

definition lines_total :: "PurchaseOrderLine list \<Rightarrow> int" where
  "lines_total lines = foldl (\<lambda>total line. i64 (total + pol_AmountMinor line)) 0 lines"

definition line_assets :: "PurchaseOrderLine list \<Rightarrow> string list" where
  "line_assets lines = filter (\<lambda>a. a \<noteq> '''') (map pol_AssetID lines)"

definition normalizePurchaseOrder :: "unicode \<Rightarrow> CreatePurchaseOrderInput \<Rightarrow> ledger_error + CreatePurchaseOrderInput" where
  "normalizePurchaseOrder u input0 =
     (let status = ToLower u (TrimSpace (cpi_Status input0));
          input1 = input0\<lparr>cpi_ID := TrimSpace (cpi_ID input0), cpi_Number := TrimSpace (cpi_Number input0),
            cpi_VendorID := TrimSpace (cpi_VendorID input0), cpi_Status := (if status = '''' then ''draft'' else status),
            cpi_Currency := ToUpper u (TrimSpace (cpi_Currency input0)), cpi_AssetIDs := normalizeIDs (cpi_AssetIDs input0),
            cpi_ReceiptDocumentIDs := normalizeIDs (cpi_ReceiptDocumentIDs input0)\<rparr>
      in case normalizePurchaseOrderLines u (cpi_Lines input1) of
           Inl e \<Rightarrow> Inl e
         | Inr lines \<Rightarrow>
             let input2 = input1\<lparr>cpi_Lines := lines\<rparr>;
                 input = (if lines \<noteq> []
                   then input2\<lparr>cpi_AssetIDs := uniqueSortedIDs (normalizeIDs (cpi_AssetIDs input2 @ line_assets lines)),
                               cpi_TotalMinor := (if cpi_TotalMinor input2 = 0 then lines_total lines else cpi_TotalMinor input2)\<rparr>
                   else input2)
             in if \<not> optionalID (cpi_ID input) \<or> \<not> ledger_validTextRange (cpi_Number input) 1 100 \<or>
                   \<not> ledger_idPattern (cpi_VendorID input) \<or> cpi_Status input \<notin> validPurchaseOrderStatuses \<or>
                   \<not> currencyPattern (cpi_Currency input) \<or> cpi_TotalMinor input < 0
                then Inl (Sentinel LedgerErrInvalidInput)
                else if \<not> allIDs (cpi_AssetIDs input) \<or> \<not> allIDs (cpi_ReceiptDocumentIDs input) \<or>
                        hasDuplicates (cpi_AssetIDs input) \<or> hasDuplicates (cpi_ReceiptDocumentIDs input)
                then Inl (Sentinel LedgerErrInvalidInput)
                else case cpi_OrderedOn input of
                       None \<Rightarrow> if cpi_Status input \<in> {''ordered'', ''partially_received'', ''received''}
                               then Inl (Sentinel LedgerErrInvalidInput) else Inr input
                     | Some d \<Rightarrow> (case normalizeDate d of None \<Rightarrow> Inl (Sentinel LedgerErrInvalidInput)
                                   | Some date \<Rightarrow> Inr (input\<lparr>cpi_OrderedOn := Some date\<rparr>)))"

section \<open>Contracts, commitments, budgets, costs\<close>

definition normalizeContract :: "unicode \<Rightarrow> CreateContractInput \<Rightarrow> ledger_error + CreateContractInput" where
  "normalizeContract u input0 =
     (let operational = ToLower u (TrimSpace (cci_OperationalStatus input0));
          financial = ToLower u (TrimSpace (cci_FinancialStatus input0));
          input = input0\<lparr>cci_ID := TrimSpace (cci_ID input0), cci_Name := TrimSpace (cci_Name input0),
            cci_VendorID := TrimSpace (cci_VendorID input0),
            cci_OperationalStatus := (if operational = '''' then ''planned'' else operational),
            cci_FinancialStatus := (if financial = '''' then ''planned'' else financial),
            cci_Currency := ToUpper u (TrimSpace (cci_Currency input0)), cci_DocumentIDs := normalizeIDs (cci_DocumentIDs input0)\<rparr>
      in case (normalizeDate (cci_StartsOn input), normalizeDate (cci_EndsOn input)) of
           (Some startsOn, Some endsOn) \<Rightarrow>
             if \<not> optionalID (cci_ID input) \<or> \<not> ledger_validTextRange (cci_Name input) 1 200 \<or> \<not> ledger_idPattern (cci_VendorID input) \<or>
                cci_OperationalStatus input \<notin> validOperationalStatuses \<or> cci_FinancialStatus input \<notin> validFinancialStatuses \<or>
                \<not> currencyPattern (cci_Currency input) \<or> cci_CeilingMinor input < 0 \<or> Before endsOn startsOn \<or>
                \<not> allIDs (cci_DocumentIDs input) \<or> hasDuplicates (cci_DocumentIDs input)
             then Inl (Sentinel LedgerErrInvalidInput)
             else let input' = input\<lparr>cci_StartsOn := startsOn, cci_EndsOn := endsOn\<rparr> in
               (case cci_RenewsOn input' of
                  None \<Rightarrow> Inr input'
                | Some d \<Rightarrow> (case normalizeDate d of
                      None \<Rightarrow> Inl (Sentinel LedgerErrInvalidInput)
                    | Some renewsOn \<Rightarrow> if Before renewsOn startsOn then Inl (Sentinel LedgerErrInvalidInput)
                                       else Inr (input'\<lparr>cci_RenewsOn := Some renewsOn\<rparr>)))
         | _ \<Rightarrow> Inl (Sentinel LedgerErrInvalidInput))"

definition normalizeCommitment :: "unicode \<Rightarrow> CreateCommitmentInput \<Rightarrow> ledger_error + CreateCommitmentInput" where
  "normalizeCommitment u input0 =
     (let input = input0\<lparr>cmi_ID := TrimSpace (cmi_ID input0), cmi_ContractID := TrimSpace (cmi_ContractID input0),
            cmi_Kind := ToLower u (TrimSpace (cmi_Kind input0)), cmi_Description := TrimSpace (cmi_Description input0),
            cmi_Currency := ToUpper u (TrimSpace (cmi_Currency input0)), cmi_FiscalPeriod := TrimSpace (cmi_FiscalPeriod input0),
            cmi_Scenario := ToLower u (TrimSpace (cmi_Scenario input0))\<rparr>
      in case (normalizeDate (cmi_StartsOn input), normalizeDate (cmi_EndsOn input)) of
           (Some startsOn, Some endsOn) \<Rightarrow>
             if \<not> optionalID (cmi_ID input) \<or> \<not> ledger_idPattern (cmi_ContractID input) \<or> cmi_Kind input \<notin> validCommitmentKinds \<or>
                \<not> ledger_validTextRange (cmi_Description input) 1 500 \<or> \<not> currencyPattern (cmi_Currency input) \<or> cmi_AmountMinor input < 0 \<or>
                Before endsOn startsOn \<or> \<not> fiscalPeriodPattern (cmi_FiscalPeriod input) \<or> \<not> scenarioPattern (cmi_Scenario input)
             then Inl (Sentinel LedgerErrInvalidInput)
             else Inr (input\<lparr>cmi_StartsOn := startsOn, cmi_EndsOn := endsOn\<rparr>)
         | _ \<Rightarrow> Inl (Sentinel LedgerErrInvalidInput))"

definition normalizeBudget :: "unicode \<Rightarrow> CreateBudgetInput \<Rightarrow> ledger_error + CreateBudgetInput" where
  "normalizeBudget u input0 =
     (let input = input0\<lparr>cbi_ID := TrimSpace (cbi_ID input0), cbi_Name := TrimSpace (cbi_Name input0),
            cbi_FiscalPeriod := TrimSpace (cbi_FiscalPeriod input0), cbi_Scenario := ToLower u (TrimSpace (cbi_Scenario input0)),
            cbi_DepartmentID := TrimSpace (cbi_DepartmentID input0), cbi_SiteID := TrimSpace (cbi_SiteID input0),
            cbi_Currency := ToUpper u (TrimSpace (cbi_Currency input0))\<rparr>
      in if \<not> optionalID (cbi_ID input) \<or> \<not> ledger_validTextRange (cbi_Name input) 1 200 \<or> \<not> fiscalPeriodPattern (cbi_FiscalPeriod input) \<or>
            \<not> scenarioPattern (cbi_Scenario input) \<or> \<not> optionalID (cbi_DepartmentID input) \<or> \<not> optionalID (cbi_SiteID input) \<or>
            \<not> currencyPattern (cbi_Currency input) \<or> cbi_AllocatedMinor input < 0
         then Inl (Sentinel LedgerErrInvalidInput) else Inr input)"

definition normalizeCost :: "unicode \<Rightarrow> ReconcileCostInput \<Rightarrow> ledger_error + ReconcileCostInput" where
  "normalizeCost u input0 =
     (let input = input0\<lparr>rci_ID := TrimSpace (rci_ID input0), rci_Description := TrimSpace (rci_Description input0),
            rci_Kind := ToLower u (TrimSpace (rci_Kind input0)), rci_Currency := ToUpper u (TrimSpace (rci_Currency input0)),
            rci_FiscalPeriod := TrimSpace (rci_FiscalPeriod input0), rci_Scenario := ToLower u (TrimSpace (rci_Scenario input0)),
            rci_PurchaseOrderID := TrimSpace (rci_PurchaseOrderID input0), rci_ContractID := TrimSpace (rci_ContractID input0),
            rci_AssetID := TrimSpace (rci_AssetID input0), rci_DepartmentID := TrimSpace (rci_DepartmentID input0),
            rci_SiteID := TrimSpace (rci_SiteID input0), rci_DocumentID := TrimSpace (rci_DocumentID input0),
            rci_ExternalReference := TrimSpace (rci_ExternalReference input0),
            rci_SourceSystemID := ToLower u (TrimSpace (rci_SourceSystemID input0)),
            rci_SourceRecordID := TrimSpace (rci_SourceRecordID input0)\<rparr>
      in if \<not> optionalID (rci_ID input) \<or> \<not> ledger_validTextRange (rci_Description input) 1 500 \<or> rci_Kind input \<notin> validCostKinds \<or>
            \<not> currencyPattern (rci_Currency input) \<or> rci_AmountMinor input < 0 \<or> \<not> fiscalPeriodPattern (rci_FiscalPeriod input) \<or>
            \<not> scenarioPattern (rci_Scenario input) \<or>
            \<not> allOptionalIDs [rci_PurchaseOrderID input, rci_ContractID input, rci_AssetID input, rci_DepartmentID input,
                 rci_SiteID input, rci_DocumentID input] \<or>
            \<not> ledger_validText (rci_ExternalReference input) 255 \<or> \<not> ledger_validText (rci_SourceSystemID input) 128 \<or>
            \<not> ledger_validText (rci_SourceRecordID input) 255 \<or>
            ((rci_SourceSystemID input = '''') \<noteq> (rci_SourceRecordID input = ''''))
         then Inl (Sentinel LedgerErrInvalidInput) else Inr input)"

definition costFromInput :: "ReconcileCostInput \<Rightarrow> string \<Rightarrow> string \<Rightarrow> gotime \<Rightarrow> gotime \<Rightarrow> int \<Rightarrow> CostRecord" where
  "costFromInput input id' organizationID createdAt updatedAt revision =
     \<lparr>cost_ID = id', cost_OrganizationID = organizationID, cost_Description = rci_Description input, cost_Kind = rci_Kind input,
      cost_Currency = rci_Currency input, cost_AmountMinor = rci_AmountMinor input, cost_FiscalPeriod = rci_FiscalPeriod input,
      cost_Scenario = rci_Scenario input, cost_PurchaseOrderID = rci_PurchaseOrderID input, cost_ContractID = rci_ContractID input,
      cost_AssetID = rci_AssetID input, cost_DepartmentID = rci_DepartmentID input, cost_SiteID = rci_SiteID input,
      cost_DocumentID = rci_DocumentID input, cost_ExternalReference = rci_ExternalReference input,
      cost_SourceSystemID = rci_SourceSystemID input, cost_SourceRecordID = rci_SourceRecordID input,
      cost_Revision = revision, cost_CreatedAt = createdAt, cost_UpdatedAt = updatedAt\<rparr>"

definition sameCost :: "CostRecord \<Rightarrow> CostRecord \<Rightarrow> bool" where
  "sameCost left right \<longleftrightarrow> cost_Description left = cost_Description right \<and> cost_Kind left = cost_Kind right \<and>
     cost_Currency left = cost_Currency right \<and> cost_AmountMinor left = cost_AmountMinor right \<and>
     cost_FiscalPeriod left = cost_FiscalPeriod right \<and> cost_Scenario left = cost_Scenario right \<and>
     cost_PurchaseOrderID left = cost_PurchaseOrderID right \<and> cost_ContractID left = cost_ContractID right \<and>
     cost_AssetID left = cost_AssetID right \<and> cost_DepartmentID left = cost_DepartmentID right \<and>
     cost_SiteID left = cost_SiteID right \<and> cost_DocumentID left = cost_DocumentID right \<and>
     cost_ExternalReference left = cost_ExternalReference right \<and> cost_SourceSystemID left = cost_SourceSystemID right \<and>
     cost_SourceRecordID left = cost_SourceRecordID right"

section \<open>Status machines\<close>

definition purchaseOrderTransition :: "string \<Rightarrow> string \<Rightarrow> bool" where
  "purchaseOrderTransition from to \<longleftrightarrow> from = to \<or>
     (from, to) \<in> {(''draft'', ''approved''), (''draft'', ''cancelled''), (''approved'', ''ordered''), (''approved'', ''cancelled''),
       (''ordered'', ''partially_received''), (''ordered'', ''received''), (''ordered'', ''cancelled''),
       (''partially_received'', ''received''), (''partially_received'', ''cancelled'')}"

definition contractOperationalTransition :: "string \<Rightarrow> string \<Rightarrow> bool" where
  "contractOperationalTransition from to \<longleftrightarrow> from = to \<or>
     (from, to) \<in> {(''planned'', ''active''), (''planned'', ''cancelled''), (''active'', ''suspended''), (''active'', ''expired''),
       (''active'', ''terminated''), (''suspended'', ''active''), (''suspended'', ''expired''), (''suspended'', ''terminated''),
       (''expired'', ''active'')}"

definition contractFinancialTransition :: "string \<Rightarrow> string \<Rightarrow> bool" where
  "contractFinancialTransition from to \<longleftrightarrow> from = to \<or>
     (from, to) \<in> {(''planned'', ''committed''), (''planned'', ''cancelled''), (''committed'', ''billed''), (''committed'', ''paid''),
       (''committed'', ''cancelled''), (''billed'', ''paid''), (''billed'', ''closed''), (''paid'', ''closed'')}"

section \<open>Cells and rows of the CSV export\<close>

definition firstNonEmpty :: "string list \<Rightarrow> string" where
  "firstNonEmpty values = (case find (\<lambda>v. v \<noteq> '''') values of None \<Rightarrow> '''' | Some v \<Rightarrow> v)"

definition formula_starts :: "char list" where
  "formula_starts = [CHR ''='', CHR ''+'', CHR ''-'', CHR ''@'', CHR 0x09, CHR 0x0D]"

definition safeCSVCell :: "string \<Rightarrow> string" where
  "safeCSVCell value = (case value of [] \<Rightarrow> [] | c # _ \<Rightarrow> if c \<in> set formula_starts then CHR 0x27 # value else value)"

end
