(* ===== verification/Ledger_Service.thy ===== *)
theory Ledger_Service
  imports Ledger_Store Ledger_Normalize
begin

text \<open>
  \<open>internal/ledger/service.go\<close>: the operations of the Ledger service, in the order of the source. The record
  carries what \<open>NewServiceWithExchangeImporter\<close> is given; the validators of assets, documents and directory
  entries belong to other features and are parameters, and so are the write gate and two functions of the
  standard library (the case tables and SHA-256).
\<close>

record ledger_service =
  lsv_organizationID :: string
  lsv_ValidateAssets :: "string list \<Rightarrow> ledger_error option"
  lsv_ValidateDocuments :: "string list \<Rightarrow> ledger_error option"
  lsv_ValidateDirectory :: "string \<Rightarrow> string \<Rightarrow> ledger_error option"
  lsv_writes :: "(string \<Rightarrow> string \<Rightarrow> ledger_error option) option"
  lsv_unicode :: unicode
  lsv_sha256 :: "string \<Rightarrow> string"

record reference_validator =
  rv_ValidateAssets :: "string list \<Rightarrow> ledger_error option"
  rv_ValidateDocuments :: "string list \<Rightarrow> ledger_error option"
  rv_ValidateDirectory :: "string \<Rightarrow> string \<Rightarrow> ledger_error option"

definition NewLedgerService ::
  "reference_validator option \<Rightarrow> (string \<Rightarrow> string \<Rightarrow> ledger_error option) option \<Rightarrow> unicode \<Rightarrow> (string \<Rightarrow> string) \<Rightarrow>
   string \<Rightarrow> string + ledger_service" where
  "NewLedgerService references writes u sha organizationID =
     (case references of
        None \<Rightarrow> Inl ''Ledger store, reference validator, and auditor are required''
      | Some rv \<Rightarrow>
          if TrimSpace organizationID = '''' then Inl ''Ledger organization id is required''
          else Inr \<lparr>lsv_organizationID = TrimSpace organizationID, lsv_ValidateAssets = rv_ValidateAssets rv,
                    lsv_ValidateDocuments = rv_ValidateDocuments rv, lsv_ValidateDirectory = rv_ValidateDirectory rv,
                    lsv_writes = writes, lsv_unicode = u, lsv_sha256 = sha\<rparr>)"

abbreviation ledger_fail :: "ledger_sentinel \<Rightarrow> 'a ledger_op" where
  "ledger_fail e \<equiv> raiseE (Sentinel e)"

section \<open>Context, clock, audit\<close>

definition ledger_actorFromContext :: "ledger_ctx \<Rightarrow> string" where
  "ledger_actorFromContext cx =
     (case cx_scope cx of
        Some sc \<Rightarrow> if TrimSpace (sc_ActorID sc) \<noteq> '''' then sc_ActorID sc else ''system:ledger''
      | None \<Rightarrow> ''system:ledger'')"

definition ledger_now :: "gotime ledger_op" where
  "ledger_now = tryE read_clock (\<lambda>t. returnE (Normalize t))"

definition ledger_id :: "string \<Rightarrow> string ledger_op" where
  "ledger_id value = (if value \<noteq> '''' then returnE value else wrapE ''create Ledger id'' NewCorrelationID)"

definition ledger_checkWrite :: "ledger_service \<Rightarrow> ledger_ctx \<Rightarrow> string \<Rightarrow> string \<Rightarrow> unit ledger_op" where
  "ledger_checkWrite sv cx recordType recordID =
     checkE (case lcx_import cx of
        Some _ \<Rightarrow> None
      | None \<Rightarrow> (case lsv_writes sv of None \<Rightarrow> None | Some gate \<Rightarrow> gate recordType recordID))"

definition mapReferenceError :: "ledger_error \<Rightarrow> ledger_error" where
  "mapReferenceError e = (if err_is e LedgerErrNotFound then Sentinel LedgerErrReferenceMissing else e)"

definition referenced :: "'a ledger_op \<Rightarrow> unit ledger_op" where
  "referenced m = tryE (attemptE m) (\<lambda>r. case r of Inl e \<Rightarrow> raiseE (mapReferenceError e) | Inr _ \<Rightarrow> returnE ())"

definition ledger_audit ::
  "ledger_service \<Rightarrow> ledger_ctx \<Rightarrow> string \<Rightarrow> string \<Rightarrow> string \<Rightarrow> (string, string) gomap \<Rightarrow> unit ledger_op" where
  "ledger_audit sv cx action resourceType resourceID metadata =
     tryE (case cx_scope cx of
             None \<Rightarrow> NewCorrelationID
           | Some sc \<Rightarrow> if sc_CorrelationID sc = '''' then NewCorrelationID else returnE (sc_CorrelationID sc)) (\<lambda>correlationID.
     tryE NewCorrelationID (\<lambda>eventID.
     tryE ledger_now (\<lambda>now.
     AuditorRecord
       \<lparr>ae_ID = eventID, ae_OrganizationID = lsv_organizationID sv, ae_ActorID = ledger_actorFromContext cx,
        ae_CorrelationID = correlationID, ae_Action = action, ae_ResourceType = resourceType,
        ae_ResourceID = resourceID, ae_OccurredAt = UTC now,
        ae_Metadata = AList.update ''requirementId'' ''REQ-LEDGER-001'' metadata\<rparr>)))"

section \<open>Reads\<close>

definition ledger_Snapshot :: "ledger_service \<Rightarrow> LedgerSnapshot ledger_op" where
  "ledger_Snapshot sv = storeLedgerSnapshot (lsv_organizationID sv)"

definition ledger_ExchangeSnapshot :: "ledger_service \<Rightarrow> int \<Rightarrow> LedgerSnapshot ledger_op" where
  "ledger_ExchangeSnapshot sv maximum =
     (if maximum < 1 then ledger_fail LedgerErrInvalidInput else storeExchangeSnapshot (lsv_organizationID sv) maximum)"

text \<open>The six lookups by id differ in the store method only.\<close>

definition ledger_GetBy :: "(string \<Rightarrow> string \<Rightarrow> 'r ledger_op) \<Rightarrow> ledger_service \<Rightarrow> string \<Rightarrow> 'r ledger_op" where
  "ledger_GetBy get sv id0 =
     (let id' = TrimSpace id0 in
      if \<not> ledger_idPattern id' then ledger_fail LedgerErrInvalidInput else get (lsv_organizationID sv) id')"

definition GetVendor :: "ledger_service \<Rightarrow> string \<Rightarrow> Vendor ledger_op" where
  "GetVendor = ledger_GetBy storeGetVendor"
definition GetPurchaseOrder :: "ledger_service \<Rightarrow> string \<Rightarrow> PurchaseOrder ledger_op" where
  "GetPurchaseOrder = ledger_GetBy storeGetPurchaseOrder"
definition GetContract :: "ledger_service \<Rightarrow> string \<Rightarrow> Contract ledger_op" where
  "GetContract = ledger_GetBy storeGetContract"
definition GetCommitment :: "ledger_service \<Rightarrow> string \<Rightarrow> Commitment ledger_op" where
  "GetCommitment = ledger_GetBy storeGetCommitment"
definition GetBudget :: "ledger_service \<Rightarrow> string \<Rightarrow> Budget ledger_op" where
  "GetBudget = ledger_GetBy storeGetBudget"
definition GetCost :: "ledger_service \<Rightarrow> string \<Rightarrow> CostRecord ledger_op" where
  "GetCost = ledger_GetBy storeGetCost"

section \<open>Vendors and purchase orders\<close>

definition validVendor :: "string \<Rightarrow> string \<Rightarrow> string \<Rightarrow> string \<Rightarrow> bool" where
  "validVendor id' name externalID status \<longleftrightarrow> optionalID id' \<and> ledger_validTextRange name 1 200 \<and>
     ledger_validText externalID 200 \<and> status \<in> validVendorStatuses"

definition CreateVendor :: "ledger_service \<Rightarrow> ledger_ctx \<Rightarrow> CreateVendorInput \<Rightarrow> Vendor ledger_op" where
  "CreateVendor sv cx input0 =
     (let status = ToLower (lsv_unicode sv) (TrimSpace (cvi_Status input0));
          input = input0\<lparr>cvi_ID := TrimSpace (cvi_ID input0), cvi_Name := TrimSpace (cvi_Name input0),
            cvi_ExternalID := TrimSpace (cvi_ExternalID input0), cvi_Status := (if status = '''' then ''active'' else status)\<rparr> in
      if \<not> validVendor (cvi_ID input) (cvi_Name input) (cvi_ExternalID input) (cvi_Status input)
      then ledger_fail LedgerErrInvalidInput else
      tryE (ledger_id (cvi_ID input)) (\<lambda>id'.
      tryE (ledger_checkWrite sv cx ''ledger.vendor'' id') (\<lambda>_.
      tryE ledger_now (\<lambda>now.
      tryE (storeCreateVendor (lsv_unicode sv)
         \<lparr>ven_ID = id', ven_OrganizationID = lsv_organizationID sv, ven_Name = cvi_Name input, ven_ExternalID = cvi_ExternalID input,
          ven_Status = cvi_Status input, ven_Revision = 1, ven_CreatedAt = UTC now, ven_UpdatedAt = UTC now\<rparr>) (\<lambda>vendor.
      tryE (wrapE ''audit Ledger vendor creation'' (ledger_audit sv cx ''ledger.vendor.created'' ''vendor'' (ven_ID vendor)
         [(''status'', ven_Status vendor)])) (\<lambda>_.
      returnE vendor))))))"

definition CreatePurchaseOrder :: "ledger_service \<Rightarrow> ledger_ctx \<Rightarrow> CreatePurchaseOrderInput \<Rightarrow> PurchaseOrder ledger_op" where
  "CreatePurchaseOrder sv cx input =
     tryE (liftE (normalizePurchaseOrder (lsv_unicode sv) input)) (\<lambda>normalized.
     tryE (referenced (storeGetVendor (lsv_organizationID sv) (cpi_VendorID normalized))) (\<lambda>_.
     tryE (checkE (lsv_ValidateAssets sv (cpi_AssetIDs normalized))) (\<lambda>_.
     tryE (checkE (lsv_ValidateDocuments sv (cpi_ReceiptDocumentIDs normalized))) (\<lambda>_.
     tryE (ledger_id (cpi_ID normalized)) (\<lambda>id'.
     tryE (ledger_checkWrite sv cx ''ledger.purchase-order'' id') (\<lambda>_.
     tryE ledger_now (\<lambda>now.
     tryE (storeCreatePurchaseOrder (lsv_unicode sv)
        \<lparr>po_ID = id', po_OrganizationID = lsv_organizationID sv, po_Number = cpi_Number normalized, po_VendorID = cpi_VendorID normalized,
         po_Status = cpi_Status normalized, po_Currency = cpi_Currency normalized, po_TotalMinor = cpi_TotalMinor normalized,
         po_OrderedOn = cpi_OrderedOn normalized, po_AssetIDs = cpi_AssetIDs normalized,
         po_ReceiptDocumentIDs = cpi_ReceiptDocumentIDs normalized, po_Lines = cpi_Lines normalized, po_Revision = 1,
         po_CreatedAt = UTC now, po_UpdatedAt = UTC now\<rparr>) (\<lambda>purchaseOrder.
     tryE (wrapE ''audit Ledger purchase order creation'' (ledger_audit sv cx ''ledger.purchase_order.created'' ''purchase'' (po_ID purchaseOrder)
        [(''status'', po_Status purchaseOrder), (''currency'', po_Currency purchaseOrder), (''revision'', ''1'')])) (\<lambda>_.
     returnE purchaseOrder)))))))))"

definition UpdatePurchaseOrderStatus :: "ledger_service \<Rightarrow> ledger_ctx \<Rightarrow> UpdatePurchaseOrderStatusInput \<Rightarrow> PurchaseOrder ledger_op" where
  "UpdatePurchaseOrderStatus sv cx input0 =
     (let input = input0\<lparr>upi_ID := TrimSpace (upi_ID input0), upi_Status := ToLower (lsv_unicode sv) (TrimSpace (upi_Status input0))\<rparr> in
      if \<not> ledger_idPattern (upi_ID input) \<or> upi_Revision input < 1 \<or> upi_Status input \<notin> validPurchaseOrderStatuses
      then ledger_fail LedgerErrInvalidInput else
      tryE (ledger_checkWrite sv cx ''ledger.purchase-order'' (upi_ID input)) (\<lambda>_.
      tryE (storeGetPurchaseOrder (lsv_organizationID sv) (upi_ID input)) (\<lambda>existing.
      if po_Revision existing \<noteq> upi_Revision input then ledger_fail LedgerErrConflict else
      if \<not> purchaseOrderTransition (po_Status existing) (upi_Status input) then ledger_fail LedgerErrInvalidTransition else
      tryE ledger_now (\<lambda>now.
      tryE (storeUpdatePurchaseOrder
         (existing\<lparr>po_Status := upi_Status input, po_Revision := i64 (po_Revision existing + 1),
                   po_UpdatedAt := Max now (po_UpdatedAt existing)\<rparr>) (po_Revision existing)) (\<lambda>updated.
      tryE (wrapE ''audit Ledger purchase order status'' (ledger_audit sv cx ''ledger.purchase_order.status_changed'' ''purchase'' (po_ID updated)
         [(''from'', po_Status existing), (''to'', po_Status updated), (''revision'', FormatInt (po_Revision updated))])) (\<lambda>_.
      returnE updated))))))"

section \<open>Contracts, commitments, budgets\<close>

definition CreateContract :: "ledger_service \<Rightarrow> ledger_ctx \<Rightarrow> CreateContractInput \<Rightarrow> Contract ledger_op" where
  "CreateContract sv cx input =
     tryE (liftE (normalizeContract (lsv_unicode sv) input)) (\<lambda>normalized.
     tryE (referenced (storeGetVendor (lsv_organizationID sv) (cci_VendorID normalized))) (\<lambda>_.
     tryE (checkE (lsv_ValidateDocuments sv (cci_DocumentIDs normalized))) (\<lambda>_.
     tryE (ledger_id (cci_ID normalized)) (\<lambda>id'.
     tryE (ledger_checkWrite sv cx ''ledger.contract'' id') (\<lambda>_.
     tryE ledger_now (\<lambda>now.
     tryE (storeCreateContract
        \<lparr>con_ID = id', con_OrganizationID = lsv_organizationID sv, con_Name = cci_Name normalized, con_VendorID = cci_VendorID normalized,
         con_OperationalStatus = cci_OperationalStatus normalized, con_FinancialStatus = cci_FinancialStatus normalized,
         con_Currency = cci_Currency normalized, con_CeilingMinor = cci_CeilingMinor normalized,
         con_StartsOn = cci_StartsOn normalized, con_EndsOn = cci_EndsOn normalized, con_RenewsOn = cci_RenewsOn normalized,
         con_DocumentIDs = cci_DocumentIDs normalized, con_Revision = 1, con_CreatedAt = UTC now, con_UpdatedAt = UTC now\<rparr>) (\<lambda>contract.
     tryE (wrapE ''audit Ledger contract creation'' (ledger_audit sv cx ''ledger.contract.created'' ''contract'' (con_ID contract)
        [(''operationalStatus'', con_OperationalStatus contract), (''financialStatus'', con_FinancialStatus contract), (''revision'', ''1'')])) (\<lambda>_.
     returnE contract))))))))"

definition UpdateContractStatus :: "ledger_service \<Rightarrow> ledger_ctx \<Rightarrow> UpdateContractStatusInput \<Rightarrow> Contract ledger_op" where
  "UpdateContractStatus sv cx input0 =
     (let input = input0\<lparr>uci_ID := TrimSpace (uci_ID input0),
            uci_OperationalStatus := ToLower (lsv_unicode sv) (TrimSpace (uci_OperationalStatus input0)),
            uci_FinancialStatus := ToLower (lsv_unicode sv) (TrimSpace (uci_FinancialStatus input0))\<rparr> in
      if \<not> ledger_idPattern (uci_ID input) \<or> uci_Revision input < 1 \<or> uci_OperationalStatus input \<notin> validOperationalStatuses \<or>
         uci_FinancialStatus input \<notin> validFinancialStatuses
      then ledger_fail LedgerErrInvalidInput else
      tryE (ledger_checkWrite sv cx ''ledger.contract'' (uci_ID input)) (\<lambda>_.
      tryE (storeGetContract (lsv_organizationID sv) (uci_ID input)) (\<lambda>existing.
      if con_Revision existing \<noteq> uci_Revision input then ledger_fail LedgerErrConflict else
      if \<not> contractOperationalTransition (con_OperationalStatus existing) (uci_OperationalStatus input) \<or>
         \<not> contractFinancialTransition (con_FinancialStatus existing) (uci_FinancialStatus input)
      then ledger_fail LedgerErrInvalidTransition else
      tryE ledger_now (\<lambda>now.
      tryE (storeUpdateContract
         (existing\<lparr>con_OperationalStatus := uci_OperationalStatus input, con_FinancialStatus := uci_FinancialStatus input,
                   con_Revision := i64 (con_Revision existing + 1), con_UpdatedAt := Max now (con_UpdatedAt existing)\<rparr>)
         (con_Revision existing)) (\<lambda>updated.
      tryE (wrapE ''audit Ledger contract status'' (ledger_audit sv cx ''ledger.contract.status_changed'' ''contract'' (con_ID updated)
         [(''operationalStatus'', con_OperationalStatus updated), (''financialStatus'', con_FinancialStatus updated),
          (''revision'', FormatInt (con_Revision updated))])) (\<lambda>_.
      returnE updated))))))"

definition CreateCommitment :: "ledger_service \<Rightarrow> ledger_ctx \<Rightarrow> CreateCommitmentInput \<Rightarrow> Commitment ledger_op" where
  "CreateCommitment sv cx input =
     tryE (liftE (normalizeCommitment (lsv_unicode sv) input)) (\<lambda>normalized.
     tryE (referenced (storeGetContract (lsv_organizationID sv) (cmi_ContractID normalized))) (\<lambda>_.
     tryE (ledger_id (cmi_ID normalized)) (\<lambda>id'.
     tryE (ledger_checkWrite sv cx ''ledger.commitment'' id') (\<lambda>_.
     tryE ledger_now (\<lambda>now.
     tryE (storeCreateCommitment
        \<lparr>com_ID = id', com_OrganizationID = lsv_organizationID sv, com_ContractID = cmi_ContractID normalized, com_Kind = cmi_Kind normalized,
         com_Description = cmi_Description normalized, com_Currency = cmi_Currency normalized, com_AmountMinor = cmi_AmountMinor normalized,
         com_StartsOn = cmi_StartsOn normalized, com_EndsOn = cmi_EndsOn normalized, com_FiscalPeriod = cmi_FiscalPeriod normalized,
         com_Scenario = cmi_Scenario normalized, com_Revision = 1, com_CreatedAt = UTC now, com_UpdatedAt = UTC now\<rparr>) (\<lambda>commitment.
     tryE (wrapE ''audit Ledger commitment creation'' (ledger_audit sv cx ''ledger.commitment.created'' ''commitment'' (com_ID commitment)
        [(''kind'', com_Kind commitment), (''fiscalPeriod'', com_FiscalPeriod commitment), (''scenario'', com_Scenario commitment)])) (\<lambda>_.
     returnE commitment)))))))"

definition CreateBudget :: "ledger_service \<Rightarrow> ledger_ctx \<Rightarrow> CreateBudgetInput \<Rightarrow> Budget ledger_op" where
  "CreateBudget sv cx input =
     tryE (liftE (normalizeBudget (lsv_unicode sv) input)) (\<lambda>normalized.
     tryE (checkE (lsv_ValidateDirectory sv (cbi_SiteID normalized) (cbi_DepartmentID normalized))) (\<lambda>_.
     tryE (ledger_id (cbi_ID normalized)) (\<lambda>id'.
     tryE (ledger_checkWrite sv cx ''ledger.budget'' id') (\<lambda>_.
     tryE ledger_now (\<lambda>now.
     tryE (storeCreateBudget (lsv_unicode sv)
        \<lparr>bud_ID = id', bud_OrganizationID = lsv_organizationID sv, bud_Name = cbi_Name normalized, bud_FiscalPeriod = cbi_FiscalPeriod normalized,
         bud_Scenario = cbi_Scenario normalized, bud_DepartmentID = cbi_DepartmentID normalized, bud_SiteID = cbi_SiteID normalized,
         bud_Currency = cbi_Currency normalized, bud_AllocatedMinor = cbi_AllocatedMinor normalized,
         bud_Revision = 1, bud_CreatedAt = UTC now, bud_UpdatedAt = UTC now\<rparr>) (\<lambda>budget.
     tryE (wrapE ''audit Ledger budget creation'' (ledger_audit sv cx ''ledger.budget.created'' ''budget'' (bud_ID budget)
        [(''fiscalPeriod'', bud_FiscalPeriod budget), (''scenario'', bud_Scenario budget), (''currency'', bud_Currency budget)])) (\<lambda>_.
     returnE budget)))))))"

section \<open>Costs\<close>

definition validateCostReferences :: "ledger_service \<Rightarrow> ReconcileCostInput \<Rightarrow> unit ledger_op" where
  "validateCostReferences sv input =
     tryE (if rci_PurchaseOrderID input \<noteq> ''''
           then referenced (storeGetPurchaseOrder (lsv_organizationID sv) (rci_PurchaseOrderID input)) else returnE ()) (\<lambda>_.
     tryE (if rci_ContractID input \<noteq> ''''
           then referenced (storeGetContract (lsv_organizationID sv) (rci_ContractID input)) else returnE ()) (\<lambda>_.
     tryE (if rci_AssetID input \<noteq> '''' then checkE (lsv_ValidateAssets sv [rci_AssetID input]) else returnE ()) (\<lambda>_.
     tryE (if rci_DocumentID input \<noteq> '''' then checkE (lsv_ValidateDocuments sv [rci_DocumentID input]) else returnE ()) (\<lambda>_.
     checkE (lsv_ValidateDirectory sv (rci_SiteID input) (rci_DepartmentID input))))))"

text \<open>The branch of \<open>ReconcileCost\<close> that found the source record, and the one that creates a cost.\<close>

definition reconcile_existing :: "ledger_service \<Rightarrow> ledger_ctx \<Rightarrow> ReconcileCostInput \<Rightarrow> CostRecord \<Rightarrow> ReconcileResult ledger_op" where
  "reconcile_existing sv cx normalized existing =
     tryE (ledger_checkWrite sv cx ''ledger.cost'' (cost_ID existing)) (\<lambda>_.
     tryE ledger_now (\<lambda>now.
     let candidate = costFromInput normalized (cost_ID existing) (lsv_organizationID sv) (cost_CreatedAt existing)
           (Max now (cost_UpdatedAt existing)) (i64 (cost_Revision existing + 1)) in
     if sameCost existing candidate then returnE \<lparr>rr_Record = existing, rr_Applied = False, rr_Created = False\<rparr> else
     tryE (storeUpdateCost candidate (cost_Revision existing)) (\<lambda>updated.
     tryE (wrapE ''audit Ledger cost reconciliation'' (ledger_audit sv cx ''ledger.cost.reconciled'' ''cost'' (cost_ID updated)
        [(''kind'', cost_Kind updated), (''sourceSystemId'', cost_SourceSystemID updated), (''revision'', FormatInt (cost_Revision updated))])) (\<lambda>_.
     returnE \<lparr>rr_Record = updated, rr_Applied = True, rr_Created = False\<rparr>))))"

definition reconcile_new :: "ledger_service \<Rightarrow> ledger_ctx \<Rightarrow> ReconcileCostInput \<Rightarrow> ReconcileResult ledger_op" where
  "reconcile_new sv cx normalized =
     tryE (ledger_id (rci_ID normalized)) (\<lambda>id'.
     tryE (ledger_checkWrite sv cx ''ledger.cost'' id') (\<lambda>_.
     tryE ledger_now (\<lambda>now.
     tryE (attemptE (storeCreateCost (lsv_unicode sv)
            (costFromInput normalized id' (lsv_organizationID sv) (UTC now) (UTC now) 1))) (\<lambda>made. case made of
       Inl e \<Rightarrow>
         if err_is e LedgerErrConflict \<and> rci_SourceSystemID normalized \<noteq> ''''
         then tryE (attemptE (storeGetCostBySource (lsv_unicode sv) (lsv_organizationID sv) (rci_SourceSystemID normalized) (rci_SourceRecordID normalized))) (\<lambda>got.
              case got of
                Inr existing \<Rightarrow>
                  if sameCost existing (costFromInput normalized (cost_ID existing) (lsv_organizationID sv) (cost_CreatedAt existing)
                        (cost_UpdatedAt existing) (cost_Revision existing))
                  then returnE \<lparr>rr_Record = existing, rr_Applied = False, rr_Created = False\<rparr> else raiseE e
              | Inl getErr \<Rightarrow> if \<not> err_is getErr LedgerErrNotFound then raiseE getErr else raiseE e)
         else raiseE e
     | Inr created \<Rightarrow>
         tryE (wrapE ''audit Ledger cost creation'' (ledger_audit sv cx ''ledger.cost.created'' ''cost'' (cost_ID created)
            [(''kind'', cost_Kind created), (''fiscalPeriod'', cost_FiscalPeriod created), (''scenario'', cost_Scenario created)])) (\<lambda>_.
         returnE \<lparr>rr_Record = created, rr_Applied = True, rr_Created = True\<rparr>)))))"

definition ReconcileCost :: "ledger_service \<Rightarrow> ledger_ctx \<Rightarrow> ReconcileCostInput \<Rightarrow> ReconcileResult ledger_op" where
  "ReconcileCost sv cx input =
     tryE (liftE (normalizeCost (lsv_unicode sv) input)) (\<lambda>normalized.
     tryE (validateCostReferences sv normalized) (\<lambda>_.
     if rci_SourceSystemID normalized \<noteq> ''''
     then tryE (attemptE (storeGetCostBySource (lsv_unicode sv) (lsv_organizationID sv) (rci_SourceSystemID normalized) (rci_SourceRecordID normalized))) (\<lambda>got.
          case got of
            Inr existing \<Rightarrow> reconcile_existing sv cx normalized existing
          | Inl e \<Rightarrow> if \<not> err_is e LedgerErrNotFound then raiseE e else reconcile_new sv cx normalized)
     else reconcile_new sv cx normalized))"

section \<open>Reports\<close>

definition in_period :: "string \<Rightarrow> string \<Rightarrow> string \<Rightarrow> string \<Rightarrow> bool" where
  "in_period fiscalPeriod scenario p s \<longleftrightarrow> p = fiscalPeriod \<and> s = scenario"

text \<open>The two loops of \<open>BudgetVariance\<close>; \<open>None\<close> is their early return with \<open>ErrConflict\<close>.\<close>

fun sum_budgets :: "string \<Rightarrow> string \<Rightarrow> int \<Rightarrow> string list \<Rightarrow> Budget list \<Rightarrow> (int \<times> string list) option" where
  "sum_budgets fp sc allocated currencies [] = Some (allocated, currencies)"
| "sum_budgets fp sc allocated currencies (b # bs) =
     (if in_period fp sc (bud_FiscalPeriod b) (bud_Scenario b)
      then case addMinor allocated (bud_AllocatedMinor b) of
             None \<Rightarrow> None
           | Some summed \<Rightarrow> sum_budgets fp sc summed (List.insert (bud_Currency b) currencies) bs
      else sum_budgets fp sc allocated currencies bs)"

definition recognized_kind :: "string \<Rightarrow> bool" where
  "recognized_kind kind \<longleftrightarrow> kind = ''actual'' \<or> kind = ''billed'' \<or> kind = ''paid'' \<or> kind = ''committed''"

definition map_at :: "(string, int) gomap \<Rightarrow> string \<Rightarrow> int" where
  "map_at m k = (case map_of m k of None \<Rightarrow> 0 | Some v \<Rightarrow> v)"

fun sum_costs :: "string \<Rightarrow> string \<Rightarrow> int \<Rightarrow> (string, int) gomap \<Rightarrow> string list \<Rightarrow> CostRecord list \<Rightarrow>
    (int \<times> (string, int) gomap \<times> string list) option" where
  "sum_costs fp sc recognized byKind currencies [] = Some (recognized, byKind, currencies)"
| "sum_costs fp sc recognized byKind currencies (c # cs) =
     (if \<not> in_period fp sc (cost_FiscalPeriod c) (cost_Scenario c) then sum_costs fp sc recognized byKind currencies cs
      else case addMinor (map_at byKind (cost_Kind c)) (cost_AmountMinor c) of
             None \<Rightarrow> None
           | Some amount \<Rightarrow>
               (case (if recognized_kind (cost_Kind c) then addMinor recognized (cost_AmountMinor c) else Some recognized) of
                  None \<Rightarrow> None
                | Some recognized' \<Rightarrow>
                    sum_costs fp sc recognized' (AList.update (cost_Kind c) amount byKind) (List.insert (cost_Currency c) currencies) cs))"

definition BudgetVariance :: "ledger_service \<Rightarrow> string \<Rightarrow> string \<Rightarrow> BudgetVarianceReport ledger_op" where
  "BudgetVariance sv fiscalPeriod0 scenario0 =
     (let fiscalPeriod = TrimSpace fiscalPeriod0; scenario = ToLower (lsv_unicode sv) (TrimSpace scenario0) in
      if \<not> fiscalPeriodPattern fiscalPeriod \<or> \<not> scenarioPattern scenario then ledger_fail LedgerErrInvalidInput else
      tryE (storeLedgerSnapshot (lsv_organizationID sv)) (\<lambda>snapshot.
      case sum_budgets fiscalPeriod scenario 0 [] (ls_Budgets snapshot) of
        None \<Rightarrow> ledger_fail LedgerErrConflict
      | Some (allocated, currencies) \<Rightarrow>
          (case sum_costs fiscalPeriod scenario 0 [] currencies (ls_Costs snapshot) of
             None \<Rightarrow> ledger_fail LedgerErrConflict
           | Some (recognized, byKind, currencies') \<Rightarrow>
               if length currencies' > 1 then ledger_fail LedgerErrConflict
               else let variance = i64 (allocated - recognized) in
                 returnE \<lparr>bv_FiscalPeriod = fiscalPeriod, bv_Scenario = scenario,
                   bv_Currency = (case currencies' of [] \<Rightarrow> '''' | c # _ \<Rightarrow> c), bv_AllocatedMinor = allocated,
                   bv_RecognizedMinor = recognized, bv_VarianceMinor = variance, bv_OverBudget = variance < 0,
                   bv_AmountsByKindMinor = byKind\<rparr>)))"

definition csv_header :: "string list" where
  "csv_header = [''record_type'', ''id'', ''description'', ''kind'', ''amount_minor'', ''currency'', ''fiscal_period'', ''scenario'', ''reference'']"

definition csv_budget :: "Budget \<Rightarrow> string list" where
  "csv_budget b = [''budget'', bud_ID b, safeCSVCell (bud_Name b), ''allocated'', FormatInt (bud_AllocatedMinor b), bud_Currency b,
     bud_FiscalPeriod b, bud_Scenario b, safeCSVCell (bud_DepartmentID b)]"

definition csv_commitment :: "Commitment \<Rightarrow> string list" where
  "csv_commitment c = [''commitment'', com_ID c, safeCSVCell (com_Description c), com_Kind c, FormatInt (com_AmountMinor c), com_Currency c,
     com_FiscalPeriod c, com_Scenario c, safeCSVCell (com_ContractID c)]"

definition csv_cost :: "CostRecord \<Rightarrow> string list" where
  "csv_cost c = [''cost'', cost_ID c, safeCSVCell (cost_Description c), cost_Kind c, FormatInt (cost_AmountMinor c), cost_Currency c,
     cost_FiscalPeriod c, cost_Scenario c,
     safeCSVCell (firstNonEmpty [cost_PurchaseOrderID c, cost_ContractID c, cost_AssetID c, cost_ExternalReference c])]"

definition csv_rows :: "string \<Rightarrow> string \<Rightarrow> LedgerSnapshot \<Rightarrow> string list list" where
  "csv_rows fp sc snapshot = csv_header #
     map csv_budget (filter (\<lambda>b. in_period fp sc (bud_FiscalPeriod b) (bud_Scenario b)) (ls_Budgets snapshot)) @
     map csv_commitment (filter (\<lambda>c. in_period fp sc (com_FiscalPeriod c) (com_Scenario c)) (ls_Commitments snapshot)) @
     map csv_cost (filter (\<lambda>c. in_period fp sc (cost_FiscalPeriod c) (cost_Scenario c)) (ls_Costs snapshot))"

definition ExportCSV :: "ledger_service \<Rightarrow> string \<Rightarrow> string \<Rightarrow> string ledger_op" where
  "ExportCSV sv fiscalPeriod0 scenario0 =
     (let fiscalPeriod = TrimSpace fiscalPeriod0; scenario = ToLower (lsv_unicode sv) (TrimSpace scenario0) in
      if \<not> fiscalPeriodPattern fiscalPeriod \<or> \<not> scenarioPattern scenario then ledger_fail LedgerErrInvalidInput else
      tryE (storeLedgerSnapshot (lsv_organizationID sv)) (\<lambda>snapshot.
      returnE (concat (map csv_write (csv_rows fiscalPeriod scenario snapshot)))))"

end
