(* ===== verification/Ledger_Exchange.thy ===== *)
theory Ledger_Exchange
  imports Ledger_Service
begin

text \<open>
  \<open>internal/ledger/exchange.go\<close>: the importer Exchange holds. It keeps the revision and the timestamps of the
  source record and writes one audit event whose id is a digest of the operation. Its methods return a result
  and an error at the same time, so an import is an operation whose value is the pair of both.
\<close>

type_synonym ledger_outcome = "LedgerImportResult \<times> ledger_error option"

definition ledger_no_result :: LedgerImportResult where
  "ledger_no_result = \<lparr>lres_Committed = False, lres_Created = False\<rparr>"

abbreviation import_fails :: "ledger_error \<Rightarrow> ledger_outcome ledger_op" where
  "import_fails e \<equiv> returnE (ledger_no_result, Some e)"

definition import_after :: "unit ledger_op \<Rightarrow> ledger_outcome ledger_op \<Rightarrow> ledger_outcome ledger_op" where
  "import_after m k = tryE (attemptE m) (\<lambda>r. case r of Inl e \<Rightarrow> import_fails e | Inr _ \<Rightarrow> k)"

text \<open>\<open>errors.Join\<close> of an error and a second one that may be nil.\<close>

definition join_errors :: "ledger_error \<Rightarrow> ledger_error option \<Rightarrow> ledger_error" where
  "join_errors e o' = Joined (e # (case o' of None \<Rightarrow> [] | Some e' \<Rightarrow> [e']))"

definition normalizeExchangeImportOperation :: "LedgerImportOperation \<Rightarrow> ledger_error + LedgerImportOperation" where
  "normalizeExchangeImportOperation operation0 =
     (let operation = operation0\<lparr>lop_Token := TrimSpace (lop_Token operation0), lop_OccurredAt := Normalize (lop_OccurredAt operation0)\<rparr> in
      if \<not> ledger_idPattern (lop_Token operation) \<or> IsZero (lop_OccurredAt operation) \<or>
         Year (lop_OccurredAt operation) < 2000 \<or> Year (lop_OccurredAt operation) > 9999
      then Inl (Sentinel LedgerErrInvalidInput) else Inr operation)"

definition validExchangeState :: "string \<Rightarrow> int \<Rightarrow> gotime \<Rightarrow> gotime \<Rightarrow> bool" where
  "validExchangeState id' revision createdAt updatedAt \<longleftrightarrow>
     ledger_idPattern id' \<and> revision \<ge> 1 \<and> \<not> IsZero createdAt \<and> \<not> Before updatedAt createdAt \<and>
     (revision \<noteq> 1 \<or> Equal createdAt updatedAt) \<and> IsCanonical createdAt \<and> IsCanonical updatedAt \<and>
     Year createdAt \<ge> 2000 \<and> Year updatedAt \<le> 9999"

definition auditExchange ::
  "ledger_service \<Rightarrow> LedgerImportOperation \<Rightarrow> string \<Rightarrow> string \<Rightarrow> string \<Rightarrow> (string, string) gomap \<Rightarrow> unit ledger_op" where
  "auditExchange sv operation action resourceType resourceID metadata =
     AuditorRecord
       \<lparr>ae_ID = hex_encode (lsv_sha256 sv (join_nul [lsv_organizationID sv, lop_Token operation, action, resourceType, resourceID])),
        ae_OrganizationID = lsv_organizationID sv, ae_ActorID = ''system:exchange'', ae_CorrelationID = lop_Token operation,
        ae_Action = action, ae_ResourceType = resourceType, ae_ResourceID = resourceID, ae_OccurredAt = lop_OccurredAt operation,
        ae_Metadata = AList.update ''exchangeRequirementId'' ''REQ-EXCHANGE-001'' (AList.update ''requirementId'' ''REQ-LEDGER-001'' metadata)\<rparr>"

definition importLedgerRecord ::
  "'r \<Rightarrow> 'r ledger_op \<Rightarrow> 'r ledger_op \<Rightarrow> ('r \<Rightarrow> 'r \<Rightarrow> bool) \<Rightarrow> unit ledger_op \<Rightarrow> ledger_outcome ledger_op" where
  "importLedgerRecord candidate get create same audit =
     tryE (attemptE get) (\<lambda>got. case got of
       Inr existing \<Rightarrow>
         if \<not> same existing candidate then import_fails (Sentinel LedgerErrConflict)
         else tryE (attemptE audit) (\<lambda>audited. returnE (\<lparr>lres_Committed = True, lres_Created = False\<rparr>, err_of audited))
     | Inl e \<Rightarrow>
         if \<not> err_is e LedgerErrNotFound then import_fails e
         else tryE (attemptE create) (\<lambda>made. case made of
           Inl e' \<Rightarrow>
             tryE (attemptE get) (\<lambda>seen. case seen of
               Inr observed \<Rightarrow>
                 if same observed candidate
                 then tryE (attemptE audit) (\<lambda>audited. returnE (\<lparr>lres_Committed = True, lres_Created = True\<rparr>, Some (join_errors e' (err_of audited))))
                 else import_fails (join_errors e' None)
             | Inl readErr \<Rightarrow> import_fails (join_errors e' (Some readErr)))
         | Inr _ \<Rightarrow> tryE (attemptE audit) (\<lambda>audited. returnE (\<lparr>lres_Committed = True, lres_Created = True\<rparr>, err_of audited))))"

section \<open>Equality of records across an import\<close>

definition equalExchangeOptionalTime :: "gotime option \<Rightarrow> gotime option \<Rightarrow> bool" where
  "equalExchangeOptionalTime left right =
     (case (left, right) of (None, None) \<Rightarrow> True | (Some l, Some r) \<Rightarrow> Equal l r | _ \<Rightarrow> False)"

fun equalStrings :: "string list \<Rightarrow> string list \<Rightarrow> bool" where
  "equalStrings [] [] = True"
| "equalStrings (l # ls) (r # rs) = (l = r \<and> equalStrings ls rs)"
| "equalStrings _ _ = False"

definition sameExchangeVendor :: "Vendor \<Rightarrow> Vendor \<Rightarrow> bool" where
  "sameExchangeVendor left right \<longleftrightarrow> ven_ID left = ven_ID right \<and> ven_Name left = ven_Name right \<and>
     ven_ExternalID left = ven_ExternalID right \<and> ven_Status left = ven_Status right \<and> ven_Revision left = ven_Revision right \<and>
     Equal (ven_CreatedAt left) (ven_CreatedAt right) \<and> Equal (ven_UpdatedAt left) (ven_UpdatedAt right)"

definition sameExchangePurchaseOrder :: "PurchaseOrder \<Rightarrow> PurchaseOrder \<Rightarrow> bool" where
  "sameExchangePurchaseOrder left right \<longleftrightarrow> po_ID left = po_ID right \<and> po_Number left = po_Number right \<and>
     po_VendorID left = po_VendorID right \<and> po_Status left = po_Status right \<and> po_Currency left = po_Currency right \<and>
     po_TotalMinor left = po_TotalMinor right \<and> equalExchangeOptionalTime (po_OrderedOn left) (po_OrderedOn right) \<and>
     equalStrings (po_AssetIDs left) (po_AssetIDs right) \<and> equalStrings (po_ReceiptDocumentIDs left) (po_ReceiptDocumentIDs right) \<and>
     po_Revision left = po_Revision right \<and> Equal (po_CreatedAt left) (po_CreatedAt right) \<and> Equal (po_UpdatedAt left) (po_UpdatedAt right)"

definition sameExchangeContract :: "Contract \<Rightarrow> Contract \<Rightarrow> bool" where
  "sameExchangeContract left right \<longleftrightarrow> con_ID left = con_ID right \<and> con_Name left = con_Name right \<and>
     con_VendorID left = con_VendorID right \<and> con_OperationalStatus left = con_OperationalStatus right \<and>
     con_FinancialStatus left = con_FinancialStatus right \<and> con_Currency left = con_Currency right \<and>
     con_CeilingMinor left = con_CeilingMinor right \<and> Equal (con_StartsOn left) (con_StartsOn right) \<and>
     Equal (con_EndsOn left) (con_EndsOn right) \<and> equalExchangeOptionalTime (con_RenewsOn left) (con_RenewsOn right) \<and>
     equalStrings (con_DocumentIDs left) (con_DocumentIDs right) \<and> con_Revision left = con_Revision right \<and>
     Equal (con_CreatedAt left) (con_CreatedAt right) \<and> Equal (con_UpdatedAt left) (con_UpdatedAt right)"

definition sameExchangeCommitment :: "Commitment \<Rightarrow> Commitment \<Rightarrow> bool" where
  "sameExchangeCommitment left right \<longleftrightarrow> com_ID left = com_ID right \<and> com_ContractID left = com_ContractID right \<and>
     com_Kind left = com_Kind right \<and> com_Description left = com_Description right \<and> com_Currency left = com_Currency right \<and>
     com_AmountMinor left = com_AmountMinor right \<and> Equal (com_StartsOn left) (com_StartsOn right) \<and>
     Equal (com_EndsOn left) (com_EndsOn right) \<and> com_FiscalPeriod left = com_FiscalPeriod right \<and>
     com_Scenario left = com_Scenario right \<and> com_Revision left = com_Revision right \<and>
     Equal (com_CreatedAt left) (com_CreatedAt right) \<and> Equal (com_UpdatedAt left) (com_UpdatedAt right)"

definition sameExchangeBudget :: "Budget \<Rightarrow> Budget \<Rightarrow> bool" where
  "sameExchangeBudget left right \<longleftrightarrow> bud_ID left = bud_ID right \<and> bud_Name left = bud_Name right \<and>
     bud_FiscalPeriod left = bud_FiscalPeriod right \<and> bud_Scenario left = bud_Scenario right \<and>
     bud_DepartmentID left = bud_DepartmentID right \<and> bud_SiteID left = bud_SiteID right \<and> bud_Currency left = bud_Currency right \<and>
     bud_AllocatedMinor left = bud_AllocatedMinor right \<and> bud_Revision left = bud_Revision right \<and>
     Equal (bud_CreatedAt left) (bud_CreatedAt right) \<and> Equal (bud_UpdatedAt left) (bud_UpdatedAt right)"

definition sameExchangeCost :: "CostRecord \<Rightarrow> CostRecord \<Rightarrow> bool" where
  "sameExchangeCost left right \<longleftrightarrow> cost_ID left = cost_ID right \<and> sameCost left right \<and> cost_Revision left = cost_Revision right \<and>
     Equal (cost_CreatedAt left) (cost_CreatedAt right) \<and> Equal (cost_UpdatedAt left) (cost_UpdatedAt right)"

definition sameExchangePurchaseOrderInput :: "PurchaseOrder \<Rightarrow> CreatePurchaseOrderInput \<Rightarrow> bool" where
  "sameExchangePurchaseOrderInput value input \<longleftrightarrow> po_ID value = cpi_ID input \<and> po_Number value = cpi_Number input \<and>
     po_VendorID value = cpi_VendorID input \<and> po_Status value = cpi_Status input \<and> po_Currency value = cpi_Currency input \<and>
     po_TotalMinor value = cpi_TotalMinor input \<and> equalExchangeOptionalTime (po_OrderedOn value) (cpi_OrderedOn input) \<and>
     equalStrings (po_AssetIDs value) (cpi_AssetIDs input) \<and> equalStrings (po_ReceiptDocumentIDs value) (cpi_ReceiptDocumentIDs input)"

definition sameExchangeContractInput :: "Contract \<Rightarrow> CreateContractInput \<Rightarrow> bool" where
  "sameExchangeContractInput value input \<longleftrightarrow> con_ID value = cci_ID input \<and> con_Name value = cci_Name input \<and>
     con_VendorID value = cci_VendorID input \<and> con_OperationalStatus value = cci_OperationalStatus input \<and>
     con_FinancialStatus value = cci_FinancialStatus input \<and> con_Currency value = cci_Currency input \<and>
     con_CeilingMinor value = cci_CeilingMinor input \<and> Equal (con_StartsOn value) (cci_StartsOn input) \<and>
     Equal (con_EndsOn value) (cci_EndsOn input) \<and> equalExchangeOptionalTime (con_RenewsOn value) (cci_RenewsOn input) \<and>
     equalStrings (con_DocumentIDs value) (cci_DocumentIDs input)"

definition sameExchangeCommitmentInput :: "Commitment \<Rightarrow> CreateCommitmentInput \<Rightarrow> bool" where
  "sameExchangeCommitmentInput value input \<longleftrightarrow> com_ID value = cmi_ID input \<and> com_ContractID value = cmi_ContractID input \<and>
     com_Kind value = cmi_Kind input \<and> com_Description value = cmi_Description input \<and> com_Currency value = cmi_Currency input \<and>
     com_AmountMinor value = cmi_AmountMinor input \<and> Equal (com_StartsOn value) (cmi_StartsOn input) \<and>
     Equal (com_EndsOn value) (cmi_EndsOn input) \<and> com_FiscalPeriod value = cmi_FiscalPeriod input \<and> com_Scenario value = cmi_Scenario input"

definition sameExchangeBudgetInput :: "Budget \<Rightarrow> CreateBudgetInput \<Rightarrow> bool" where
  "sameExchangeBudgetInput value input \<longleftrightarrow> bud_ID value = cbi_ID input \<and> bud_Name value = cbi_Name input \<and>
     bud_FiscalPeriod value = cbi_FiscalPeriod input \<and> bud_Scenario value = cbi_Scenario input \<and>
     bud_DepartmentID value = cbi_DepartmentID input \<and> bud_SiteID value = cbi_SiteID input \<and> bud_Currency value = cbi_Currency input \<and>
     bud_AllocatedMinor value = cbi_AllocatedMinor input"

definition sameExchangeCostInput :: "CostRecord \<Rightarrow> ReconcileCostInput \<Rightarrow> bool" where
  "sameExchangeCostInput value input =
     sameCost value (costFromInput input (cost_ID value) (cost_OrganizationID value) (cost_CreatedAt value) (cost_UpdatedAt value) (cost_Revision value))"

section \<open>Imports\<close>

definition ImportVendor :: "ledger_service \<Rightarrow> LedgerImportOperation \<Rightarrow> Vendor \<Rightarrow> ledger_outcome ledger_op" where
  "ImportVendor sv operation0 candidate0 =
     (case normalizeExchangeImportOperation operation0 of
        Inl _ \<Rightarrow> import_fails (Sentinel LedgerErrInvalidInput)
      | Inr operation \<Rightarrow>
          if \<not> validExchangeState (ven_ID candidate0) (ven_Revision candidate0) (ven_CreatedAt candidate0) (ven_UpdatedAt candidate0) \<or>
             ven_OrganizationID candidate0 \<noteq> '''' \<or> ven_Name candidate0 \<noteq> TrimSpace (ven_Name candidate0) \<or>
             ven_ExternalID candidate0 \<noteq> TrimSpace (ven_ExternalID candidate0) \<or>
             ven_Status candidate0 \<noteq> ToLower (lsv_unicode sv) (TrimSpace (ven_Status candidate0))
          then import_fails (Sentinel LedgerErrInvalidInput)
          else if \<not> validVendor (ven_ID candidate0) (ven_Name candidate0) (ven_ExternalID candidate0) (ven_Status candidate0)
          then import_fails (Sentinel LedgerErrInvalidInput)
          else let candidate = candidate0\<lparr>ven_OrganizationID := lsv_organizationID sv\<rparr> in
            importLedgerRecord candidate (storeGetVendor (lsv_organizationID sv) (ven_ID candidate))
              (storeCreateVendor (lsv_unicode sv) candidate) sameExchangeVendor
              (auditExchange sv operation ''ledger.vendor.created'' ''vendor'' (ven_ID candidate)
                 [(''status'', ven_Status candidate), (''revision'', FormatInt (ven_Revision candidate))]))"

definition po_import_input :: "PurchaseOrder \<Rightarrow> CreatePurchaseOrderInput" where
  "po_import_input p = \<lparr>cpi_ID = po_ID p, cpi_Number = po_Number p, cpi_VendorID = po_VendorID p, cpi_Status = po_Status p,
     cpi_Currency = po_Currency p, cpi_TotalMinor = po_TotalMinor p, cpi_OrderedOn = po_OrderedOn p, cpi_AssetIDs = po_AssetIDs p,
     cpi_ReceiptDocumentIDs = po_ReceiptDocumentIDs p, cpi_Lines = []\<rparr>"

definition ImportPurchaseOrder :: "ledger_service \<Rightarrow> LedgerImportOperation \<Rightarrow> PurchaseOrder \<Rightarrow> ledger_outcome ledger_op" where
  "ImportPurchaseOrder sv operation0 candidate0 =
     (case (normalizeExchangeImportOperation operation0, normalizePurchaseOrder (lsv_unicode sv) (po_import_input candidate0)) of
        (Inr operation, Inr normalized) \<Rightarrow>
          if \<not> validExchangeState (po_ID candidate0) (po_Revision candidate0) (po_CreatedAt candidate0) (po_UpdatedAt candidate0) \<or>
             po_OrganizationID candidate0 \<noteq> '''' \<or> \<not> sameExchangePurchaseOrderInput candidate0 normalized
          then import_fails (Sentinel LedgerErrInvalidInput)
          else import_after (referenced (storeGetVendor (lsv_organizationID sv) (po_VendorID candidate0)))
               (import_after (checkE (lsv_ValidateAssets sv (po_AssetIDs candidate0)))
               (import_after (checkE (lsv_ValidateDocuments sv (po_ReceiptDocumentIDs candidate0)))
               (let candidate = candidate0\<lparr>po_OrganizationID := lsv_organizationID sv\<rparr> in
                importLedgerRecord candidate (storeGetPurchaseOrder (lsv_organizationID sv) (po_ID candidate))
                  (storeCreatePurchaseOrder (lsv_unicode sv) candidate) sameExchangePurchaseOrder
                  (auditExchange sv operation ''ledger.purchase_order.created'' ''purchase'' (po_ID candidate)
                     [(''status'', po_Status candidate), (''currency'', po_Currency candidate), (''revision'', FormatInt (po_Revision candidate))]))))
      | _ \<Rightarrow> import_fails (Sentinel LedgerErrInvalidInput))"

definition ImportContract :: "ledger_service \<Rightarrow> LedgerImportOperation \<Rightarrow> Contract \<Rightarrow> ledger_outcome ledger_op" where
  "ImportContract sv operation0 candidate0 =
     (case (normalizeExchangeImportOperation operation0, normalizeContract (lsv_unicode sv)
              \<lparr>cci_ID = con_ID candidate0, cci_Name = con_Name candidate0, cci_VendorID = con_VendorID candidate0,
               cci_OperationalStatus = con_OperationalStatus candidate0, cci_FinancialStatus = con_FinancialStatus candidate0,
               cci_Currency = con_Currency candidate0, cci_CeilingMinor = con_CeilingMinor candidate0, cci_StartsOn = con_StartsOn candidate0,
               cci_EndsOn = con_EndsOn candidate0, cci_RenewsOn = con_RenewsOn candidate0, cci_DocumentIDs = con_DocumentIDs candidate0\<rparr>) of
        (Inr operation, Inr normalized) \<Rightarrow>
          if \<not> validExchangeState (con_ID candidate0) (con_Revision candidate0) (con_CreatedAt candidate0) (con_UpdatedAt candidate0) \<or>
             con_OrganizationID candidate0 \<noteq> '''' \<or> \<not> sameExchangeContractInput candidate0 normalized
          then import_fails (Sentinel LedgerErrInvalidInput)
          else import_after (referenced (storeGetVendor (lsv_organizationID sv) (con_VendorID candidate0)))
               (import_after (checkE (lsv_ValidateDocuments sv (con_DocumentIDs candidate0)))
               (let candidate = candidate0\<lparr>con_OrganizationID := lsv_organizationID sv\<rparr> in
                importLedgerRecord candidate (storeGetContract (lsv_organizationID sv) (con_ID candidate))
                  (storeCreateContract candidate) sameExchangeContract
                  (auditExchange sv operation ''ledger.contract.created'' ''contract'' (con_ID candidate)
                     [(''operationalStatus'', con_OperationalStatus candidate), (''financialStatus'', con_FinancialStatus candidate),
                      (''revision'', FormatInt (con_Revision candidate))])))
      | _ \<Rightarrow> import_fails (Sentinel LedgerErrInvalidInput))"

definition ImportCommitment :: "ledger_service \<Rightarrow> LedgerImportOperation \<Rightarrow> Commitment \<Rightarrow> ledger_outcome ledger_op" where
  "ImportCommitment sv operation0 candidate0 =
     (case (normalizeExchangeImportOperation operation0, normalizeCommitment (lsv_unicode sv)
              \<lparr>cmi_ID = com_ID candidate0, cmi_ContractID = com_ContractID candidate0, cmi_Kind = com_Kind candidate0,
               cmi_Description = com_Description candidate0, cmi_Currency = com_Currency candidate0, cmi_AmountMinor = com_AmountMinor candidate0,
               cmi_StartsOn = com_StartsOn candidate0, cmi_EndsOn = com_EndsOn candidate0, cmi_FiscalPeriod = com_FiscalPeriod candidate0,
               cmi_Scenario = com_Scenario candidate0\<rparr>) of
        (Inr operation, Inr normalized) \<Rightarrow>
          if \<not> validExchangeState (com_ID candidate0) (com_Revision candidate0) (com_CreatedAt candidate0) (com_UpdatedAt candidate0) \<or>
             com_OrganizationID candidate0 \<noteq> '''' \<or> \<not> sameExchangeCommitmentInput candidate0 normalized
          then import_fails (Sentinel LedgerErrInvalidInput)
          else import_after (referenced (storeGetContract (lsv_organizationID sv) (com_ContractID candidate0)))
               (let candidate = candidate0\<lparr>com_OrganizationID := lsv_organizationID sv\<rparr> in
                importLedgerRecord candidate (storeGetCommitment (lsv_organizationID sv) (com_ID candidate))
                  (storeCreateCommitment candidate) sameExchangeCommitment
                  (auditExchange sv operation ''ledger.commitment.created'' ''commitment'' (com_ID candidate)
                     [(''kind'', com_Kind candidate), (''fiscalPeriod'', com_FiscalPeriod candidate), (''scenario'', com_Scenario candidate),
                      (''revision'', FormatInt (com_Revision candidate))]))
      | _ \<Rightarrow> import_fails (Sentinel LedgerErrInvalidInput))"

definition ImportBudget :: "ledger_service \<Rightarrow> LedgerImportOperation \<Rightarrow> Budget \<Rightarrow> ledger_outcome ledger_op" where
  "ImportBudget sv operation0 candidate0 =
     (case (normalizeExchangeImportOperation operation0, normalizeBudget (lsv_unicode sv)
              \<lparr>cbi_ID = bud_ID candidate0, cbi_Name = bud_Name candidate0, cbi_FiscalPeriod = bud_FiscalPeriod candidate0,
               cbi_Scenario = bud_Scenario candidate0, cbi_DepartmentID = bud_DepartmentID candidate0, cbi_SiteID = bud_SiteID candidate0,
               cbi_Currency = bud_Currency candidate0, cbi_AllocatedMinor = bud_AllocatedMinor candidate0\<rparr>) of
        (Inr operation, Inr normalized) \<Rightarrow>
          if \<not> validExchangeState (bud_ID candidate0) (bud_Revision candidate0) (bud_CreatedAt candidate0) (bud_UpdatedAt candidate0) \<or>
             bud_OrganizationID candidate0 \<noteq> '''' \<or> \<not> sameExchangeBudgetInput candidate0 normalized
          then import_fails (Sentinel LedgerErrInvalidInput)
          else import_after (checkE (lsv_ValidateDirectory sv (bud_SiteID candidate0) (bud_DepartmentID candidate0)))
               (let candidate = candidate0\<lparr>bud_OrganizationID := lsv_organizationID sv\<rparr> in
                importLedgerRecord candidate (storeGetBudget (lsv_organizationID sv) (bud_ID candidate))
                  (storeCreateBudget (lsv_unicode sv) candidate) sameExchangeBudget
                  (auditExchange sv operation ''ledger.budget.created'' ''budget'' (bud_ID candidate)
                     [(''fiscalPeriod'', bud_FiscalPeriod candidate), (''scenario'', bud_Scenario candidate), (''currency'', bud_Currency candidate),
                      (''revision'', FormatInt (bud_Revision candidate))]))
      | _ \<Rightarrow> import_fails (Sentinel LedgerErrInvalidInput))"

definition cost_import_input :: "CostRecord \<Rightarrow> ReconcileCostInput" where
  "cost_import_input c = \<lparr>rci_ID = cost_ID c, rci_Description = cost_Description c, rci_Kind = cost_Kind c, rci_Currency = cost_Currency c,
     rci_AmountMinor = cost_AmountMinor c, rci_FiscalPeriod = cost_FiscalPeriod c, rci_Scenario = cost_Scenario c,
     rci_PurchaseOrderID = cost_PurchaseOrderID c, rci_ContractID = cost_ContractID c, rci_AssetID = cost_AssetID c,
     rci_DepartmentID = cost_DepartmentID c, rci_SiteID = cost_SiteID c, rci_DocumentID = cost_DocumentID c,
     rci_ExternalReference = cost_ExternalReference c, rci_SourceSystemID = cost_SourceSystemID c, rci_SourceRecordID = cost_SourceRecordID c\<rparr>"

definition ImportCost :: "ledger_service \<Rightarrow> LedgerImportOperation \<Rightarrow> CostRecord \<Rightarrow> ledger_outcome ledger_op" where
  "ImportCost sv operation0 candidate0 =
     (case (normalizeExchangeImportOperation operation0, normalizeCost (lsv_unicode sv) (cost_import_input candidate0)) of
        (Inr operation, Inr normalized) \<Rightarrow>
          if \<not> validExchangeState (cost_ID candidate0) (cost_Revision candidate0) (cost_CreatedAt candidate0) (cost_UpdatedAt candidate0) \<or>
             cost_OrganizationID candidate0 \<noteq> '''' \<or> \<not> sameExchangeCostInput candidate0 normalized
          then import_fails (Sentinel LedgerErrInvalidInput)
          else import_after (validateCostReferences sv normalized)
               (let candidate = candidate0\<lparr>cost_OrganizationID := lsv_organizationID sv\<rparr> in
                importLedgerRecord candidate (storeGetCost (lsv_organizationID sv) (cost_ID candidate))
                  (storeCreateCost (lsv_unicode sv) candidate) sameExchangeCost
                  (auditExchange sv operation ''ledger.cost.created'' ''cost'' (cost_ID candidate)
                     [(''kind'', cost_Kind candidate), (''fiscalPeriod'', cost_FiscalPeriod candidate), (''scenario'', cost_Scenario candidate),
                      (''revision'', FormatInt (cost_Revision candidate))]))
      | _ \<Rightarrow> import_fails (Sentinel LedgerErrInvalidInput))"

end
