(* ===== verification/Ledger_Spec.thy ===== *)
theory Ledger_Spec
  imports Ledger_Exchange
begin

text \<open>
  An abstract specification of Ledger. \<open>ledger_effect\<close> lists the only ways in which a step may change the store: nothing,
  one new record that is complete and refers to stored records, one move of a status machine, or one new revision of
  a reconciled cost. \<open>ledger_inv\<close> is what holds of a store that grows from the empty one by such effects. The theory
  \<open>Ledger_Refine\<close> shows that every operation of the service and of the importer is such an effect.
\<close>

section \<open>Complete records\<close>

definition stamps_ok :: "gotime \<Rightarrow> gotime \<Rightarrow> bool" where
  "stamps_ok created updated \<longleftrightarrow> IsCanonical created \<and> IsCanonical updated \<and> nanos created \<le> nanos updated"

definition sorted_ids :: "string list \<Rightarrow> bool" where
  "sorted_ids xs \<longleftrightarrow> allIDs xs \<and> sorted xs \<and> distinct xs"

definition stored :: "(string, 'r) gomap \<Rightarrow> string \<Rightarrow> string \<Rightarrow> bool" where
  "stored m org i \<longleftrightarrow> map_of m (ledgerKey org i) \<noteq> None"

definition stored_if_set :: "(string, 'r) gomap \<Rightarrow> string \<Rightarrow> string \<Rightarrow> bool" where
  "stored_if_set m org i \<longleftrightarrow> i = '''' \<or> (ledger_idPattern i \<and> stored m org i)"

definition renewal_ok :: "gotime \<Rightarrow> gotime option \<Rightarrow> bool" where
  "renewal_ok starts renews = (case renews of None \<Rightarrow> True | Some d \<Rightarrow> nanos starts \<le> nanos d)"

definition vendor_ok :: "string \<Rightarrow> Vendor \<Rightarrow> bool" where
  "vendor_ok org v \<longleftrightarrow> ven_OrganizationID v = org \<and> ledger_idPattern (ven_ID v) \<and>
     validVendor (ven_ID v) (ven_Name v) (ven_ExternalID v) (ven_Status v) \<and> stamps_ok (ven_CreatedAt v) (ven_UpdatedAt v)"

definition po_ok :: "string \<Rightarrow> (string, Vendor) gomap \<Rightarrow> PurchaseOrder \<Rightarrow> bool" where
  "po_ok org vs p \<longleftrightarrow> po_OrganizationID p = org \<and> ledger_idPattern (po_ID p) \<and> ledger_validTextRange (po_Number p) 1 100 \<and>
     stored vs org (po_VendorID p) \<and> po_Status p \<in> validPurchaseOrderStatuses \<and> currencyPattern (po_Currency p) \<and>
     0 \<le> po_TotalMinor p \<and> sorted_ids (po_AssetIDs p) \<and> sorted_ids (po_ReceiptDocumentIDs p) \<and>
     stamps_ok (po_CreatedAt p) (po_UpdatedAt p)"

definition contract_ok :: "string \<Rightarrow> (string, Vendor) gomap \<Rightarrow> Contract \<Rightarrow> bool" where
  "contract_ok org vs c \<longleftrightarrow> con_OrganizationID c = org \<and> ledger_idPattern (con_ID c) \<and> ledger_validTextRange (con_Name c) 1 200 \<and>
     stored vs org (con_VendorID c) \<and> con_OperationalStatus c \<in> validOperationalStatuses \<and>
     con_FinancialStatus c \<in> validFinancialStatuses \<and> currencyPattern (con_Currency c) \<and> 0 \<le> con_CeilingMinor c \<and>
     nanos (con_StartsOn c) \<le> nanos (con_EndsOn c) \<and>
     renewal_ok (con_StartsOn c) (con_RenewsOn c) \<and>
     sorted_ids (con_DocumentIDs c) \<and> stamps_ok (con_CreatedAt c) (con_UpdatedAt c)"

definition commitment_ok :: "string \<Rightarrow> (string, Contract) gomap \<Rightarrow> Commitment \<Rightarrow> bool" where
  "commitment_ok org cs m \<longleftrightarrow> com_OrganizationID m = org \<and> ledger_idPattern (com_ID m) \<and> stored cs org (com_ContractID m) \<and>
     ledger_idPattern (com_ContractID m) \<and>
     com_Kind m \<in> validCommitmentKinds \<and> ledger_validTextRange (com_Description m) 1 500 \<and> currencyPattern (com_Currency m) \<and>
     0 \<le> com_AmountMinor m \<and> nanos (com_StartsOn m) \<le> nanos (com_EndsOn m) \<and> fiscalPeriodPattern (com_FiscalPeriod m) \<and>
     scenarioPattern (com_Scenario m) \<and> stamps_ok (com_CreatedAt m) (com_UpdatedAt m)"

definition budget_ok :: "string \<Rightarrow> Budget \<Rightarrow> bool" where
  "budget_ok org b \<longleftrightarrow> bud_OrganizationID b = org \<and> ledger_idPattern (bud_ID b) \<and> ledger_validTextRange (bud_Name b) 1 200 \<and>
     fiscalPeriodPattern (bud_FiscalPeriod b) \<and> scenarioPattern (bud_Scenario b) \<and> optionalID (bud_DepartmentID b) \<and>
     optionalID (bud_SiteID b) \<and> currencyPattern (bud_Currency b) \<and> 0 \<le> bud_AllocatedMinor b \<and>
     stamps_ok (bud_CreatedAt b) (bud_UpdatedAt b)"

definition cost_ok :: "string \<Rightarrow> (string, PurchaseOrder) gomap \<Rightarrow> (string, Contract) gomap \<Rightarrow> CostRecord \<Rightarrow> bool" where
  "cost_ok org ps cs c \<longleftrightarrow> cost_OrganizationID c = org \<and> ledger_idPattern (cost_ID c) \<and> ledger_validTextRange (cost_Description c) 1 500 \<and>
     cost_Kind c \<in> validCostKinds \<and> currencyPattern (cost_Currency c) \<and> 0 \<le> cost_AmountMinor c \<and>
     fiscalPeriodPattern (cost_FiscalPeriod c) \<and> scenarioPattern (cost_Scenario c) \<and> optionalID (cost_AssetID c) \<and>
     stored_if_set ps org (cost_PurchaseOrderID c) \<and> stored_if_set cs org (cost_ContractID c) \<and>
     (cost_SourceSystemID c = '''' \<longleftrightarrow> cost_SourceRecordID c = '''') \<and> stamps_ok (cost_CreatedAt c) (cost_UpdatedAt c)"

lemmas record_ok_defs = vendor_ok_def po_ok_def contract_ok_def commitment_ok_def budget_ok_def cost_ok_def

section \<open>Effects\<close>

definition same_ledger :: "ledger_world \<Rightarrow> ledger_world \<Rightarrow> bool" where
  "same_ledger w w' \<longleftrightarrow> vendors w' = vendors w \<and> purchaseOrders w' = purchaseOrders w \<and> contracts w' = contracts w \<and>
     commitments w' = commitments w \<and> budgets w' = budgets w \<and> costs w' = costs w \<and> costSources w' = costSources w"

definition cost_source :: "unicode \<Rightarrow> CostRecord \<Rightarrow> string" where
  "cost_source u c = ledgerSourceKey u (cost_OrganizationID c) (cost_SourceSystemID c) (cost_SourceRecordID c)"

definition unique_by :: "('r \<Rightarrow> 'r \<Rightarrow> bool) \<Rightarrow> 'r set \<Rightarrow> bool" where
  "unique_by R S \<longleftrightarrow> (\<forall>x \<in> S. \<forall>y \<in> S. R x y \<longrightarrow> x = y)"

definition same_vendor_name :: "unicode \<Rightarrow> Vendor \<Rightarrow> Vendor \<Rightarrow> bool" where
  "same_vendor_name u x y \<longleftrightarrow> ven_OrganizationID x = ven_OrganizationID y \<and> EqualFold u (ven_Name x) (ven_Name y)"

definition same_po_number :: "unicode \<Rightarrow> PurchaseOrder \<Rightarrow> PurchaseOrder \<Rightarrow> bool" where
  "same_po_number u x y \<longleftrightarrow> po_OrganizationID x = po_OrganizationID y \<and> EqualFold u (po_Number x) (po_Number y)"

definition same_budget_name :: "unicode \<Rightarrow> Budget \<Rightarrow> Budget \<Rightarrow> bool" where
  "same_budget_name u x y \<longleftrightarrow> bud_OrganizationID x = bud_OrganizationID y \<and> bud_FiscalPeriod x = bud_FiscalPeriod y \<and>
     bud_Scenario x = bud_Scenario y \<and> bud_DepartmentID x = bud_DepartmentID y \<and> bud_SiteID x = bud_SiteID y \<and>
     EqualFold u (bud_Name x) (bud_Name y)"

inductive ledger_effect :: "ledger_service \<Rightarrow> ledger_world \<Rightarrow> ledger_world \<Rightarrow> bool" for sv where
  unchanged: "same_ledger w w' \<Longrightarrow> ledger_effect sv w w'"
| vendor_added: "vendor_ok (lsv_organizationID sv) v \<Longrightarrow> map_of (vendors w) (vendor_key v) = None \<Longrightarrow>
    \<not> (\<exists>x \<in> vals (vendors w). same_vendor_name (lsv_unicode sv) x v) \<Longrightarrow>
    same_ledger (w\<lparr>vendors := AList.update (vendor_key v) v (vendors w)\<rparr>) w' \<Longrightarrow> ledger_effect sv w w'"
| po_added: "po_ok (lsv_organizationID sv) (vendors w) p \<Longrightarrow> map_of (purchaseOrders w) (po_key p) = None \<Longrightarrow>
    \<not> (\<exists>x \<in> vals (purchaseOrders w). same_po_number (lsv_unicode sv) x p) \<Longrightarrow>
    same_ledger (w\<lparr>purchaseOrders := AList.update (po_key p) p (purchaseOrders w)\<rparr>) w' \<Longrightarrow> ledger_effect sv w w'"
| po_moved: "map_of (purchaseOrders w) (po_key p) = Some p \<Longrightarrow> purchaseOrderTransition (po_Status p) st \<Longrightarrow>
    st \<in> validPurchaseOrderStatuses \<Longrightarrow> p' = p\<lparr>po_Status := st, po_Revision := i64 (po_Revision p + 1), po_UpdatedAt := Max t (po_UpdatedAt p)\<rparr> \<Longrightarrow>
    same_ledger (w\<lparr>purchaseOrders := AList.update (po_key p') p' (purchaseOrders w)\<rparr>) w' \<Longrightarrow> ledger_effect sv w w'"
| contract_added: "contract_ok (lsv_organizationID sv) (vendors w) c \<Longrightarrow> map_of (contracts w) (contract_key c) = None \<Longrightarrow>
    same_ledger (w\<lparr>contracts := AList.update (contract_key c) c (contracts w)\<rparr>) w' \<Longrightarrow> ledger_effect sv w w'"
| contract_moved: "map_of (contracts w) (contract_key c) = Some c \<Longrightarrow> contractOperationalTransition (con_OperationalStatus c) ops \<Longrightarrow>
    contractFinancialTransition (con_FinancialStatus c) fin \<Longrightarrow> ops \<in> validOperationalStatuses \<Longrightarrow> fin \<in> validFinancialStatuses \<Longrightarrow>
    c' = c\<lparr>con_OperationalStatus := ops, con_FinancialStatus := fin, con_Revision := i64 (con_Revision c + 1),
           con_UpdatedAt := Max t (con_UpdatedAt c)\<rparr> \<Longrightarrow>
    same_ledger (w\<lparr>contracts := AList.update (contract_key c') c' (contracts w)\<rparr>) w' \<Longrightarrow> ledger_effect sv w w'"
| commitment_added: "commitment_ok (lsv_organizationID sv) (contracts w) m \<Longrightarrow> map_of (commitments w) (commitment_key m) = None \<Longrightarrow>
    same_ledger (w\<lparr>commitments := AList.update (commitment_key m) m (commitments w)\<rparr>) w' \<Longrightarrow> ledger_effect sv w w'"
| budget_added: "budget_ok (lsv_organizationID sv) b \<Longrightarrow> map_of (budgets w) (budget_key b) = None \<Longrightarrow>
    \<not> (\<exists>x \<in> vals (budgets w). same_budget_name (lsv_unicode sv) x b) \<Longrightarrow>
    same_ledger (w\<lparr>budgets := AList.update (budget_key b) b (budgets w)\<rparr>) w' \<Longrightarrow> ledger_effect sv w w'"
| cost_added: "cost_ok (lsv_organizationID sv) (purchaseOrders w) (contracts w) c \<Longrightarrow> map_of (costs w) (cost_key c) = None \<Longrightarrow>
    cost_SourceSystemID c = '''' \<or> map_of (costSources w) (cost_source (lsv_unicode sv) c) = None \<Longrightarrow>
    same_ledger (w\<lparr>costSources := (if cost_SourceSystemID c \<noteq> ''''
        then AList.update (cost_source (lsv_unicode sv) c) (cost_ID c) (costSources w) else costSources w),
      costs := AList.update (cost_key c) c (costs w)\<rparr>) w' \<Longrightarrow> ledger_effect sv w w'"
| cost_changed: "map_of (costs w) (cost_key c) = Some c \<Longrightarrow> cost_ok (lsv_organizationID sv) (purchaseOrders w) (contracts w) c' \<Longrightarrow>
    cost_ID c' = cost_ID c \<Longrightarrow> cost_SourceSystemID c' = cost_SourceSystemID c \<Longrightarrow> cost_SourceRecordID c' = cost_SourceRecordID c \<Longrightarrow>
    cost_CreatedAt c' = cost_CreatedAt c \<Longrightarrow> cost_UpdatedAt c' = Max t (cost_UpdatedAt c) \<Longrightarrow> cost_Revision c' = i64 (cost_Revision c + 1) \<Longrightarrow>
    same_ledger (w\<lparr>costs := AList.update (cost_key c') c' (costs w)\<rparr>) w' \<Longrightarrow> ledger_effect sv w w'"

inductive_cases ledger_effectE: "ledger_effect sv w w'"

section \<open>The invariant\<close>

definition keys_ok :: "ledger_world \<Rightarrow> bool" where
  "keys_ok w \<longleftrightarrow> well_keyed vendor_key (vendors w) \<and> well_keyed po_key (purchaseOrders w) \<and> well_keyed contract_key (contracts w) \<and>
     well_keyed commitment_key (commitments w) \<and> well_keyed budget_key (budgets w) \<and> well_keyed cost_key (costs w) \<and>
     distinct (map fst (costSources w))"

definition records_ok :: "string \<Rightarrow> ledger_world \<Rightarrow> bool" where
  "records_ok org w \<longleftrightarrow> (\<forall>v \<in> vals (vendors w). vendor_ok org v) \<and> (\<forall>p \<in> vals (purchaseOrders w). po_ok org (vendors w) p) \<and>
     (\<forall>c \<in> vals (contracts w). contract_ok org (vendors w) c) \<and> (\<forall>m \<in> vals (commitments w). commitment_ok org (contracts w) m) \<and>
     (\<forall>b \<in> vals (budgets w). budget_ok org b) \<and> (\<forall>c \<in> vals (costs w). cost_ok org (purchaseOrders w) (contracts w) c)"

definition names_ok :: "unicode \<Rightarrow> ledger_world \<Rightarrow> bool" where
  "names_ok u w \<longleftrightarrow> unique_by (same_vendor_name u) (vals (vendors w)) \<and> unique_by (same_po_number u) (vals (purchaseOrders w)) \<and>
     unique_by (same_budget_name u) (vals (budgets w))"

text \<open>The index of source records lists exactly the costs that have one, each under its own source.\<close>

definition sources_ok :: "unicode \<Rightarrow> string \<Rightarrow> ledger_world \<Rightarrow> bool" where
  "sources_ok u org w \<longleftrightarrow>
     (\<forall>c \<in> vals (costs w). cost_SourceSystemID c \<noteq> '''' \<longrightarrow> map_of (costSources w) (cost_source u c) = Some (cost_ID c)) \<and>
     (\<forall>k i. map_of (costSources w) k = Some i \<longrightarrow>
        (\<exists>c. map_of (costs w) (ledgerKey org i) = Some c \<and> cost_SourceSystemID c \<noteq> '''' \<and> k = cost_source u c))"

definition ledger_inv :: "ledger_service \<Rightarrow> ledger_world \<Rightarrow> bool" where
  "ledger_inv sv w \<longleftrightarrow> keys_ok w \<and> records_ok (lsv_organizationID sv) w \<and> names_ok (lsv_unicode sv) w \<and>
     sources_ok (lsv_unicode sv) (lsv_organizationID sv) w"

lemma same_ledger_refl [simp]: "same_ledger w w"
  by (simp add: same_ledger_def)

lemma ledger_inv_cong: "same_ledger w w' \<Longrightarrow> ledger_inv sv w' = ledger_inv sv w"
  by (simp add: same_ledger_def ledger_inv_def keys_ok_def records_ok_def names_ok_def sources_ok_def)

lemmas ledger_key_defs = vendor_key_def po_key_def contract_key_def commitment_key_def budget_key_def cost_key_def

section \<open>Effects keep the invariant\<close>

lemma stamps_ok_Max: "stamps_ok c u \<Longrightarrow> stamps_ok c (Max t u)"
  by (auto simp: stamps_ok_def Max_canonical Max_nanos Normalize_id)

lemma stored_update: "stored m org i \<Longrightarrow> stored (AList.update k v m) org i"
  by (simp add: stored_def)

lemma stored_if_set_update: "stored_if_set m org i \<Longrightarrow> stored_if_set (AList.update k v m) org i"
  by (auto simp: stored_if_set_def stored_update)

lemma ok_mono:
  "po_ok org vs p \<Longrightarrow> po_ok org (AList.update k v vs) p"
  "contract_ok org vs c \<Longrightarrow> contract_ok org (AList.update k v vs) c"
  "commitment_ok org cs m \<Longrightarrow> commitment_ok org (AList.update k' v' cs) m"
  "cost_ok org ps cs x \<Longrightarrow> cost_ok org (AList.update k'' v'' ps) cs x"
  "cost_ok org ps cs x \<Longrightarrow> cost_ok org ps (AList.update k' v' cs) x"
  by (simp_all add: po_ok_def contract_ok_def commitment_ok_def cost_ok_def stored_update stored_if_set_update)

lemma po_ok_moved:
  "po_ok org vs p \<Longrightarrow> st \<in> validPurchaseOrderStatuses \<Longrightarrow>
     po_ok org vs (p\<lparr>po_Status := st, po_Revision := n, po_UpdatedAt := Max t (po_UpdatedAt p)\<rparr>)"
  by (simp add: po_ok_def stamps_ok_Max)

lemma contract_ok_moved:
  "contract_ok org vs c \<Longrightarrow> ops \<in> validOperationalStatuses \<Longrightarrow> fin \<in> validFinancialStatuses \<Longrightarrow>
     contract_ok org vs (c\<lparr>con_OperationalStatus := ops, con_FinancialStatus := fin, con_Revision := n,
       con_UpdatedAt := Max t (con_UpdatedAt c)\<rparr>)"
  by (simp add: contract_ok_def stamps_ok_Max split: option.splits)

lemma effect_keys: "ledger_effect sv w w' \<Longrightarrow> keys_ok w \<Longrightarrow> keys_ok w'"
  by (induction rule: ledger_effect.induct) (auto simp: keys_ok_def same_ledger_def well_keyed_update distinct_update)

lemma effect_records:
  "ledger_effect sv w w' \<Longrightarrow> keys_ok w \<Longrightarrow> records_ok (lsv_organizationID sv) w \<Longrightarrow> records_ok (lsv_organizationID sv) w'"
proof (induction rule: ledger_effect.induct)
  case (po_moved w p st p' t w')
  then have "po_ok (lsv_organizationID sv) (vendors w) p" by (auto simp: records_ok_def dest: map_of_vals)
  then have "po_ok (lsv_organizationID sv) (vendors w) p'" using po_moved by (simp add: po_ok_moved)
  with po_moved show ?case by (auto simp: records_ok_def same_ledger_def keys_ok_def ok_mono vals_update)
next
  case (contract_moved w c ops fin c' t w')
  then have "contract_ok (lsv_organizationID sv) (vendors w) c" by (auto simp: records_ok_def dest: map_of_vals)
  then have "contract_ok (lsv_organizationID sv) (vendors w) c'" using contract_moved by (simp add: contract_ok_moved)
  with contract_moved show ?case by (auto simp: records_ok_def same_ledger_def keys_ok_def ok_mono vals_update)
qed (auto simp: records_ok_def same_ledger_def keys_ok_def ok_mono vals_update)

lemma unique_by_added:
  assumes "well_keyed key m" and "unique_by R (vals m)" and "\<not> (\<exists>x \<in> vals m. R x v)" and "symp R"
  shows "unique_by R (vals (AList.update (key v) v m))"
  using assms by (auto simp: unique_by_def vals_update dest: sympD)

lemma unique_by_replaced:
  assumes "well_keyed key m" and "unique_by R (vals m)" and "map_of m (key p) = Some p" and "key p' = key p"
    and "\<And>x. R x p' \<longleftrightarrow> R x p" and "\<And>x. R p' x \<longleftrightarrow> R p x"
  shows "unique_by R (vals (AList.update (key p') p' m))"
  using assms(1,2,4-6) map_of_vals[OF assms(3)] by (auto simp: unique_by_def vals_update)

lemma names_symp: "symp (same_vendor_name u)" "symp (same_po_number u)" "symp (same_budget_name u)"
  by (auto simp: symp_def same_vendor_name_def same_po_number_def same_budget_name_def dest: EqualFold_sym)

lemma effect_names:
  assumes "ledger_effect sv w w'" and "keys_ok w" and "names_ok (lsv_unicode sv) w"
  shows "names_ok (lsv_unicode sv) w'"
  using assms
proof (induction rule: ledger_effect.induct)
  case (po_moved w p st p' t w')
  have "po_key p' = po_key p" "\<And>x. same_po_number u x p' \<longleftrightarrow> same_po_number u x p" "\<And>x. same_po_number u p' x \<longleftrightarrow> same_po_number u p x" for u
    by (simp_all add: po_moved(4) po_key_def same_po_number_def)
  then have "unique_by (same_po_number (lsv_unicode sv)) (vals (AList.update (po_key p') p' (purchaseOrders w)))"
    using po_moved(1,6,7) unique_by_replaced by (metis keys_ok_def names_ok_def)
  with po_moved show ?case by (simp add: names_ok_def same_ledger_def)
qed (auto simp: names_ok_def same_ledger_def keys_ok_def names_symp intro!: unique_by_added)

text \<open>Under one organization the key of a record determines its id.\<close>

lemma ledgerKey_inj: "ledgerKey org i = ledgerKey org j \<longleftrightarrow> i = j"
  by (simp add: ledgerKey_def)

lemma sources_okD:
  "sources_ok u org w \<Longrightarrow> x \<in> vals (costs w) \<Longrightarrow> cost_SourceSystemID x \<noteq> '''' \<Longrightarrow> map_of (costSources w) (cost_source u x) = Some (cost_ID x)"
  "sources_ok u org w \<Longrightarrow> map_of (costSources w) k = Some i \<Longrightarrow>
     \<exists>c. map_of (costs w) (ledgerKey org i) = Some c \<and> cost_SourceSystemID c \<noteq> '''' \<and> k = cost_source u c"
  by (auto simp: sources_ok_def)

lemma effect_sources:
  assumes "ledger_effect sv w w'" and "keys_ok w" and "records_ok (lsv_organizationID sv) w"
    and "sources_ok (lsv_unicode sv) (lsv_organizationID sv) w"
  shows "sources_ok (lsv_unicode sv) (lsv_organizationID sv) w'"
  using assms
proof (induction rule: ledger_effect.induct)
  case (cost_added w c w')
  have org: "cost_OrganizationID c = lsv_organizationID sv" using cost_added by (simp add: cost_ok_def)
  have K: "costs w' = AList.update (cost_key c) c (costs w)" using cost_added by (simp add: same_ledger_def)
  have S: "costSources w' = (if cost_SourceSystemID c \<noteq> ''''
      then AList.update (cost_source (lsv_unicode sv) c) (cost_ID c) (costSources w) else costSources w)"
    using cost_added by (simp add: same_ledger_def)
  have wk: "well_keyed cost_key (costs w)" using cost_added by (simp add: keys_ok_def)
  show ?case unfolding sources_ok_def
  proof (intro conjI ballI allI impI)
    fix x assume "x \<in> vals (costs w')" and src: "cost_SourceSystemID x \<noteq> ''''"
    then consider "x = c" | "x \<in> vals (costs w)" by (auto simp: K vals_update[OF wk])
    then show "map_of (costSources w') (cost_source (lsv_unicode sv) x) = Some (cost_ID x)"
    proof cases
      case 1
      then show ?thesis using src by (simp add: S)
    next
      case 2
      then show ?thesis using sources_okD(1)[OF cost_added(7) 2 src] cost_added(3) by (auto simp: S)
    qed
  next
    fix k i assume "map_of (costSources w') k = Some i"
    then consider "cost_SourceSystemID c \<noteq> ''''" "k = cost_source (lsv_unicode sv) c" "i = cost_ID c"
      | "map_of (costSources w) k = Some i"
      by (cases "cost_SourceSystemID c = ''''"; cases "k = cost_source (lsv_unicode sv) c") (simp_all add: S)
    then show "\<exists>x. map_of (costs w') (ledgerKey (lsv_organizationID sv) i) = Some x \<and> cost_SourceSystemID x \<noteq> '''' \<and>
        k = cost_source (lsv_unicode sv) x"
    proof cases
      case 1
      then show ?thesis by (auto simp: K cost_key_def org)
    next
      case 2
      then obtain x where "map_of (costs w) (ledgerKey (lsv_organizationID sv) i) = Some x" "cost_SourceSystemID x \<noteq> ''''"
          "k = cost_source (lsv_unicode sv) x" using sources_okD(2)[OF cost_added(7)] by blast
      then show ?thesis using cost_added(2) by (auto simp: K)
    qed
  qed
next
  case (cost_changed w c c' t w')
  have c: "c \<in> vals (costs w)" using cost_changed by (auto dest: map_of_vals)
  then have org: "cost_OrganizationID c = lsv_organizationID sv" "cost_OrganizationID c' = lsv_organizationID sv"
    using cost_changed by (auto simp: records_ok_def cost_ok_def)
  have K: "costs w' = AList.update (cost_key c') c' (costs w)" and S: "costSources w' = costSources w"
    using cost_changed by (simp_all add: same_ledger_def)
  have same: "cost_key c' = cost_key c" "cost_source (lsv_unicode sv) c' = cost_source (lsv_unicode sv) c"
    using cost_changed org by (simp_all add: cost_key_def cost_source_def)
  have wk: "well_keyed cost_key (costs w)" using cost_changed by (simp add: keys_ok_def)
  show ?case unfolding sources_ok_def
  proof (intro conjI ballI allI impI)
    fix x assume "x \<in> vals (costs w')" and src: "cost_SourceSystemID x \<noteq> ''''"
    then consider "x = c'" | "x \<in> vals (costs w)" by (auto simp: K vals_update[OF wk])
    then show "map_of (costSources w') (cost_source (lsv_unicode sv) x) = Some (cost_ID x)"
    proof cases
      case 1
      then show ?thesis using sources_okD(1)[OF cost_changed(12) c] src same cost_changed(3,4) by (simp add: S)
    next
      case 2
      then show ?thesis using sources_okD(1)[OF cost_changed(12) 2 src] by (simp add: S)
    qed
  next
    fix k i assume "map_of (costSources w') k = Some i"
    then obtain x where x: "map_of (costs w) (ledgerKey (lsv_organizationID sv) i) = Some x" "cost_SourceSystemID x \<noteq> ''''"
        "k = cost_source (lsv_unicode sv) x" using sources_okD(2)[OF cost_changed(12), of k i] unfolding S by blast
    show "\<exists>x. map_of (costs w') (ledgerKey (lsv_organizationID sv) i) = Some x \<and> cost_SourceSystemID x \<noteq> '''' \<and>
        k = cost_source (lsv_unicode sv) x"
    proof (cases "ledgerKey (lsv_organizationID sv) i = cost_key c")
      case True
      then have "x = c" using x(1) cost_changed by simp
      then show ?thesis using x True same cost_changed by (auto simp: K)
    next
      case False
      then show ?thesis using x same by (auto simp: K)
    qed
  qed
qed (auto simp: sources_ok_def same_ledger_def)

theorem ledger_effect_inv: "ledger_effect sv w w' \<Longrightarrow> ledger_inv sv w \<Longrightarrow> ledger_inv sv w'"
  unfolding ledger_inv_def using effect_keys effect_records effect_names effect_sources by blast

definition empty_ledger :: "ledger_world \<Rightarrow> bool" where
  "empty_ledger w \<longleftrightarrow> vendors w = [] \<and> purchaseOrders w = [] \<and> contracts w = [] \<and> commitments w = [] \<and> budgets w = [] \<and>
     costs w = [] \<and> costSources w = []"

lemma empty_ledger_inv: "empty_ledger w \<Longrightarrow> ledger_inv sv w"
  by (simp add: empty_ledger_def ledger_inv_def keys_ok_def records_ok_def names_ok_def unique_by_def sources_ok_def)

lemma ledger_effects_inv: "(ledger_effect sv)\<^sup>*\<^sup>* w w' \<Longrightarrow> ledger_inv sv w \<Longrightarrow> ledger_inv sv w'"
  by (induction rule: rtranclp_induct) (auto dest: ledger_effect_inv)

end
