(* ===== verification/Ledger_Refine.thy ===== *)
theory Ledger_Refine
  imports Ledger_Spec
begin

text \<open>
  Every operation of the Ledger service and of its importer refines the abstract specification: from a store that
  satisfies the invariant, whatever the operation returns, its effect on the store is a \<open>ledger_effect\<close>.
\<close>

section \<open>What normalization establishes\<close>

lemma sorted_normalizeIDs [simp]: "sorted (normalizeIDs xs)"
  by (simp add: normalizeIDs_def)

lemma drop_repeats_sorted:
  "sorted (x # xs) \<Longrightarrow> sorted (x # drop_repeats x xs) \<and> distinct (x # drop_repeats x xs) \<and>
     set (x # drop_repeats x xs) = set (x # xs)"
proof (induction x xs rule: drop_repeats.induct)
  case (1 latest)
  then show ?case by simp
next
  case (2 latest v vs)
  show ?case
  proof (cases "v = latest")
    case True
    then show ?thesis using 2 by auto
  next
    case False
    then have "latest < v" using 2 by auto
    moreover have s: "sorted (v # vs)" using 2 by simp
    ultimately have "\<forall>y \<in> set (v # vs). latest < y" by auto
    moreover note 2(1)[OF False s]
    ultimately show ?thesis using False by auto
  qed
qed

lemma uniqueSortedIDs_spec:
  "sorted (uniqueSortedIDs xs) \<and> distinct (uniqueSortedIDs xs) \<and> set (uniqueSortedIDs xs) = set (normalizeIDs xs)"
proof (cases "normalizeIDs xs")
  case Nil
  then show ?thesis by (simp add: uniqueSortedIDs_def)
next
  case (Cons y ys)
  then have "sorted (y # ys)" using sorted_normalizeIDs[of xs] by simp
  from drop_repeats_sorted[OF this] Cons show ?thesis by (simp add: uniqueSortedIDs_def)
qed

lemma sorted_uniqueSortedIDs [simp]: "sorted (uniqueSortedIDs xs)"
  using uniqueSortedIDs_spec by blast

lemma hasDuplicates_sorted: "sorted xs \<Longrightarrow> hasDuplicates xs \<longleftrightarrow> \<not> distinct xs"
  by (induction xs rule: hasDuplicates.induct) (auto dest: order.antisym)

lemma equalStrings_iff [simp]: "equalStrings xs ys \<longleftrightarrow> xs = ys"
  by (induction xs ys rule: equalStrings.induct) auto

lemma UTC_Normalize [simp]: "UTC (Normalize t) = Normalize t"
  by (simp add: UTC_def Normalize_def Let_def)

lemma normalizePurchaseOrder_Inr:
  assumes "normalizePurchaseOrder u i = Inr n"
  shows "optionalID (cpi_ID n) \<and> ledger_validTextRange (cpi_Number n) 1 100 \<and> ledger_idPattern (cpi_VendorID n) \<and>
    cpi_Status n \<in> validPurchaseOrderStatuses \<and> currencyPattern (cpi_Currency n) \<and> 0 \<le> cpi_TotalMinor n \<and>
    sorted_ids (cpi_AssetIDs n) \<and> sorted_ids (cpi_ReceiptDocumentIDs n)"
  using assms
  by (auto simp: normalizePurchaseOrder_def Let_def sorted_ids_def hasDuplicates_sorted
      split: sum.splits option.splits if_splits)

lemma normalizeContract_Inr:
  assumes "normalizeContract u i = Inr n"
  shows "optionalID (cci_ID n) \<and> ledger_validTextRange (cci_Name n) 1 200 \<and> ledger_idPattern (cci_VendorID n) \<and>
    cci_OperationalStatus n \<in> validOperationalStatuses \<and> cci_FinancialStatus n \<in> validFinancialStatuses \<and>
    currencyPattern (cci_Currency n) \<and> 0 \<le> cci_CeilingMinor n \<and> nanos (cci_StartsOn n) \<le> nanos (cci_EndsOn n) \<and>
    renewal_ok (cci_StartsOn n) (cci_RenewsOn n) \<and> sorted_ids (cci_DocumentIDs n)"
  using assms
  by (auto simp: normalizeContract_def Let_def sorted_ids_def hasDuplicates_sorted Before_def renewal_ok_def
      split: option.splits if_splits)

lemma normalizeCommitment_Inr:
  assumes "normalizeCommitment u i = Inr n"
  shows "optionalID (cmi_ID n) \<and> ledger_idPattern (cmi_ContractID n) \<and> cmi_Kind n \<in> validCommitmentKinds \<and>
    ledger_validTextRange (cmi_Description n) 1 500 \<and> currencyPattern (cmi_Currency n) \<and> 0 \<le> cmi_AmountMinor n \<and>
    nanos (cmi_StartsOn n) \<le> nanos (cmi_EndsOn n) \<and> fiscalPeriodPattern (cmi_FiscalPeriod n) \<and> scenarioPattern (cmi_Scenario n)"
  using assms by (auto simp: normalizeCommitment_def Let_def Before_def split: option.splits if_splits)

lemma normalizeBudget_Inr:
  assumes "normalizeBudget u i = Inr n"
  shows "optionalID (cbi_ID n) \<and> ledger_validTextRange (cbi_Name n) 1 200 \<and> fiscalPeriodPattern (cbi_FiscalPeriod n) \<and>
    scenarioPattern (cbi_Scenario n) \<and> optionalID (cbi_DepartmentID n) \<and> optionalID (cbi_SiteID n) \<and>
    currencyPattern (cbi_Currency n) \<and> 0 \<le> cbi_AllocatedMinor n"
  using assms by (auto simp: normalizeBudget_def Let_def split: if_splits)

lemma normalizeCost_Inr:
  assumes "normalizeCost u i = Inr n"
  shows "optionalID (rci_ID n) \<and> ledger_validTextRange (rci_Description n) 1 500 \<and> rci_Kind n \<in> validCostKinds \<and>
    currencyPattern (rci_Currency n) \<and> 0 \<le> rci_AmountMinor n \<and> fiscalPeriodPattern (rci_FiscalPeriod n) \<and>
    scenarioPattern (rci_Scenario n) \<and> optionalID (rci_PurchaseOrderID n) \<and> optionalID (rci_ContractID n) \<and>
    optionalID (rci_AssetID n) \<and> (rci_SourceSystemID n = '''' \<longleftrightarrow> rci_SourceRecordID n = '''')"
  using assms by (auto simp: normalizeCost_def Let_def allOptionalIDs_def split: if_splits)

section \<open>Backward rules of the service's helpers\<close>

lemma wpI_ledger_now [wp_intro]:
  "(\<And>t. Q (Normalize t) (w\<lparr>ticks := Suc (ticks w)\<rparr>)) \<Longrightarrow> wp ledger_now Q E w"
  by (simp add: ledger_now_def wp_simps)

lemma wpI_ledger_id [wp_intro]:
  "(value \<noteq> '''' \<Longrightarrow> Q value w) \<Longrightarrow> (\<And>e. E e (w\<lparr>draws := Suc (draws w)\<rparr>)) \<Longrightarrow>
   (\<And>b. value = '''' \<Longrightarrow> Q (hex_encode (fill_buffer b)) (w\<lparr>draws := Suc (draws w)\<rparr>)) \<Longrightarrow> wp (ledger_id value) Q E w"
  by (auto simp: ledger_id_def wp_simps split: option.splits)

lemma wpI_ledger_checkWrite [wp_intro]: "(\<And>e. E e w) \<Longrightarrow> Q () w \<Longrightarrow> wp (ledger_checkWrite sv cx t i) Q E w"
  by (simp add: ledger_checkWrite_def wp_simps split: option.splits)

lemma wpI_referenced_get [wp_intro]:
  "(\<And>e. E e w) \<Longrightarrow> (map_of (field w) (ledgerKey org i) \<noteq> None \<Longrightarrow> Q () w) \<Longrightarrow> wp (referenced (ledger_get field org i)) Q E w"
  by (simp add: referenced_def ledger_get_def wp_simps split: option.splits)

lemma wpI_validateCostReferences [wp_intro]:
  "(\<And>e. E e w) \<Longrightarrow> ((rci_PurchaseOrderID n \<noteq> '''' \<Longrightarrow> stored (purchaseOrders w) (lsv_organizationID sv) (rci_PurchaseOrderID n)) \<Longrightarrow>
     (rci_ContractID n \<noteq> '''' \<Longrightarrow> stored (contracts w) (lsv_organizationID sv) (rci_ContractID n)) \<Longrightarrow> Q () w) \<Longrightarrow>
   wp (validateCostReferences sv n) Q E w"
  unfolding validateCostReferences_def store_get_defs by (intro wp_intro) (auto simp: stored_def)

lemma AuditorRecord_same_ledger: "wp (AuditorRecord ev) (\<lambda>_. same_ledger w) (\<lambda>_. same_ledger w) w"
  by (auto simp: wp_def AuditorRecord_def Let_def same_ledger_def split: option.splits audit_fault.splits)

lemma ledger_audit_same_ledger: "wp (ledger_audit sv cx a t i md) (\<lambda>_. same_ledger w) (\<lambda>_. same_ledger w) w"
  by (auto simp: ledger_audit_def ledger_now_def wp_simps same_ledger_def split: option.splits
      intro!: wp_mono[OF AuditorRecord_same_ledger])

lemma same_ledger_trans: "same_ledger w w' \<Longrightarrow> same_ledger w' w'' \<Longrightarrow> same_ledger w w''"
  by (simp add: same_ledger_def)

lemma effect_same: "ledger_effect sv w w' \<Longrightarrow> same_ledger w' w'' \<Longrightarrow> ledger_effect sv w w''"
  by (induction rule: ledger_effect.induct) (blast intro: ledger_effect.intros same_ledger_trans)+

lemma wpI_audit_effect:
  "ledger_effect sv w0 w \<Longrightarrow> (\<And>w'. ledger_effect sv w0 w' \<Longrightarrow> Q () w') \<Longrightarrow> (\<And>e w'. ledger_effect sv w0 w' \<Longrightarrow> E e w') \<Longrightarrow>
   wp (ledger_audit sv' cx a t i md) Q E w"
  by (rule wp_mono[OF ledger_audit_same_ledger]) (auto intro: effect_same)

text \<open>The effects, in the form in which the store methods make them.\<close>

lemma effect_vendor:
  "same_ledger w0 w \<Longrightarrow> vendor_ok (lsv_organizationID sv) v \<Longrightarrow> map_of (vendors w) (vendor_key v) = None \<Longrightarrow>
   \<not> (\<exists>x \<in> vals (vendors w). ven_OrganizationID x = ven_OrganizationID v \<and> EqualFold (lsv_unicode sv) (ven_Name x) (ven_Name v)) \<Longrightarrow>
   ledger_effect sv w0 (w\<lparr>vendors := AList.update (vendor_key v) v (vendors w)\<rparr>)"
  by (rule ledger_effect.vendor_added[of sv v]) (auto simp: same_ledger_def same_vendor_name_def)

lemma effect_po:
  "same_ledger w0 w \<Longrightarrow> po_ok (lsv_organizationID sv) (vendors w) p \<Longrightarrow> map_of (purchaseOrders w) (po_key p) = None \<Longrightarrow>
   \<not> (\<exists>x \<in> vals (purchaseOrders w). po_OrganizationID x = po_OrganizationID p \<and> EqualFold (lsv_unicode sv) (po_Number x) (po_Number p)) \<Longrightarrow>
   ledger_effect sv w0 (w\<lparr>purchaseOrders := AList.update (po_key p) p (purchaseOrders w)\<rparr>)"
  by (rule ledger_effect.po_added[of sv w0 p]) (auto simp: same_ledger_def same_po_number_def)

lemma effect_contract:
  "same_ledger w0 w \<Longrightarrow> contract_ok (lsv_organizationID sv) (vendors w) c \<Longrightarrow> map_of (contracts w) (contract_key c) = None \<Longrightarrow>
   ledger_effect sv w0 (w\<lparr>contracts := AList.update (contract_key c) c (contracts w)\<rparr>)"
  by (rule ledger_effect.contract_added[of sv w0 c]) (auto simp: same_ledger_def)

lemma effect_commitment:
  "same_ledger w0 w \<Longrightarrow> commitment_ok (lsv_organizationID sv) (contracts w) c \<Longrightarrow> map_of (commitments w) (commitment_key c) = None \<Longrightarrow>
   ledger_effect sv w0 (w\<lparr>commitments := AList.update (commitment_key c) c (commitments w)\<rparr>)"
  by (rule ledger_effect.commitment_added[of sv w0 c]) (auto simp: same_ledger_def)

lemma effect_budget:
  "same_ledger w0 w \<Longrightarrow> budget_ok (lsv_organizationID sv) b \<Longrightarrow> map_of (budgets w) (budget_key b) = None \<Longrightarrow>
   \<not> (\<exists>x \<in> vals (budgets w). bud_OrganizationID x = bud_OrganizationID b \<and> bud_FiscalPeriod x = bud_FiscalPeriod b \<and>
      bud_Scenario x = bud_Scenario b \<and> bud_DepartmentID x = bud_DepartmentID b \<and> bud_SiteID x = bud_SiteID b \<and>
      EqualFold (lsv_unicode sv) (bud_Name x) (bud_Name b)) \<Longrightarrow>
   ledger_effect sv w0 (w\<lparr>budgets := AList.update (budget_key b) b (budgets w)\<rparr>)"
  by (rule ledger_effect.budget_added[of sv b]) (auto simp: same_ledger_def same_budget_name_def)

lemma effect_cost:
  "same_ledger w0 w \<Longrightarrow> cost_ok (lsv_organizationID sv) (purchaseOrders w) (contracts w) c \<Longrightarrow> map_of (costs w) (cost_key c) = None \<Longrightarrow>
   (cost_SourceSystemID c \<noteq> '''' \<Longrightarrow> map_of (costSources w)
      (ledgerSourceKey (lsv_unicode sv) (cost_OrganizationID c) (cost_SourceSystemID c) (cost_SourceRecordID c)) = None) \<Longrightarrow>
   ledger_effect sv w0 (w\<lparr>costSources := (if cost_SourceSystemID c \<noteq> ''''
      then AList.update (ledgerSourceKey (lsv_unicode sv) (cost_OrganizationID c) (cost_SourceSystemID c) (cost_SourceRecordID c)) (cost_ID c) (costSources w)
      else costSources w), costs := AList.update (cost_key c) c (costs w)\<rparr>)"
  by (cases "cost_SourceSystemID c = ''''"; rule ledger_effect.cost_added[of sv w0 c]) (auto simp: same_ledger_def cost_source_def)

lemmas effect_added = effect_vendor effect_po effect_contract effect_commitment effect_budget effect_cost

lemma id_ok: "ledger_idPattern (hex_encode (fill_buffer b))"
  using correlation_id by (simp add: ledger_idPattern_def)

lemma stamps_now: "stamps_ok (Normalize t) (Normalize t)"
  by (simp add: stamps_ok_def Normalize_canonical)

lemmas new_record = id_ok stamps_now optionalID_def stored_def

section \<open>Operations that create\<close>

lemma CreateVendor_effect: "ledger_effect sv w (snd (CreateVendor sv cx input w))"
  apply (rule wp_snd)
  unfolding CreateVendor_def
  apply (intro wpI_audit_effect[of sv w] wp_intro effect_added)
  by (auto simp: same_ledger_def vendor_ok_def new_record validVendor_def intro!: ledger_effect.unchanged)


lemma CreatePurchaseOrder_effect: "ledger_effect sv w (snd (CreatePurchaseOrder sv cx input w))"
  apply (rule wp_snd)
  unfolding CreatePurchaseOrder_def store_get_defs
  apply (intro wpI_audit_effect[of sv w] wp_intro effect_added)
  by (auto simp: same_ledger_def po_ok_def new_record dest!: normalizePurchaseOrder_Inr intro!: ledger_effect.unchanged)

lemma CreateContract_effect: "ledger_effect sv w (snd (CreateContract sv cx input w))"
  apply (rule wp_snd)
  unfolding CreateContract_def store_get_defs
  apply (intro wpI_audit_effect[of sv w] wp_intro effect_added)
  by (auto simp: same_ledger_def contract_ok_def new_record dest!: normalizeContract_Inr intro!: ledger_effect.unchanged)

lemma CreateCommitment_effect: "ledger_effect sv w (snd (CreateCommitment sv cx input w))"
  apply (rule wp_snd)
  unfolding CreateCommitment_def store_get_defs
  apply (intro wpI_audit_effect[of sv w] wp_intro effect_added)
  by (auto simp: same_ledger_def commitment_ok_def new_record dest!: normalizeCommitment_Inr intro!: ledger_effect.unchanged)

lemma CreateBudget_effect: "ledger_effect sv w (snd (CreateBudget sv cx input w))"
  apply (rule wp_snd)
  unfolding CreateBudget_def
  apply (intro wpI_audit_effect[of sv w] wp_intro effect_added)
  by (auto simp: same_ledger_def budget_ok_def new_record dest!: normalizeBudget_Inr intro!: ledger_effect.unchanged)

section \<open>Operations that change\<close>

lemma effect_po_moved:
  "same_ledger w0 w \<Longrightarrow> map_of (purchaseOrders w) (po_key p) = Some p \<Longrightarrow> purchaseOrderTransition (po_Status p) st \<Longrightarrow>
   st \<in> validPurchaseOrderStatuses \<Longrightarrow>
   p' = p\<lparr>po_Status := st, po_Revision := i64 (po_Revision p + 1), po_UpdatedAt := Max t (po_UpdatedAt p)\<rparr> \<Longrightarrow>
   ledger_effect sv w0 (w\<lparr>purchaseOrders := AList.update (po_key p') p' (purchaseOrders w)\<rparr>)"
  by (rule ledger_effect.po_moved[of _ p st p' t]) (auto simp: same_ledger_def)

lemma effect_contract_moved:
  "same_ledger w0 w \<Longrightarrow> map_of (contracts w) (contract_key c) = Some c \<Longrightarrow> contractOperationalTransition (con_OperationalStatus c) ops \<Longrightarrow>
   contractFinancialTransition (con_FinancialStatus c) fin \<Longrightarrow> ops \<in> validOperationalStatuses \<Longrightarrow> fin \<in> validFinancialStatuses \<Longrightarrow>
   c' = c\<lparr>con_OperationalStatus := ops, con_FinancialStatus := fin, con_Revision := i64 (con_Revision c + 1),
          con_UpdatedAt := Max t (con_UpdatedAt c)\<rparr> \<Longrightarrow>
   ledger_effect sv w0 (w\<lparr>contracts := AList.update (contract_key c') c' (contracts w)\<rparr>)"
  by (rule ledger_effect.contract_moved[of _ c ops fin c' t]) (auto simp: same_ledger_def)

text \<open>A record of the organization that was found under an id sits under its own key.\<close>

lemma found_po: "ledger_inv sv w \<Longrightarrow> map_of (purchaseOrders w) k = Some p \<Longrightarrow> k = po_key p"
  by (auto simp: ledger_inv_def keys_ok_def dest: well_keyed_lookup)

lemma found_contract: "ledger_inv sv w \<Longrightarrow> map_of (contracts w) k = Some c \<Longrightarrow> k = contract_key c"
  by (auto simp: ledger_inv_def keys_ok_def dest: well_keyed_lookup)

lemma UpdatePurchaseOrderStatus_effect:
  assumes "ledger_inv sv w"
  shows "ledger_effect sv w (snd (UpdatePurchaseOrderStatus sv cx input w))"
  apply (rule wp_snd)
  unfolding UpdatePurchaseOrderStatus_def store_get_defs
  apply (intro wpI_audit_effect[of sv w] wp_intro effect_po_moved)
  using found_po[OF assms] by (auto simp: same_ledger_def intro!: ledger_effect.unchanged)

lemma UpdateContractStatus_effect:
  assumes "ledger_inv sv w"
  shows "ledger_effect sv w (snd (UpdateContractStatus sv cx input w))"
  apply (rule wp_snd)
  unfolding UpdateContractStatus_def store_get_defs
  apply (intro wpI_audit_effect[of sv w] wp_intro effect_contract_moved)
  using found_contract[OF assms] by (auto simp: same_ledger_def intro!: ledger_effect.unchanged)

section \<open>Costs\<close>

lemma effect_cost_changed:
  "same_ledger w0 w \<Longrightarrow> map_of (costs w) (cost_key c) = Some c \<Longrightarrow>
   cost_ok (lsv_organizationID sv) (purchaseOrders w) (contracts w) c' \<Longrightarrow> cost_ID c' = cost_ID c \<Longrightarrow>
   cost_SourceSystemID c' = cost_SourceSystemID c \<Longrightarrow> cost_SourceRecordID c' = cost_SourceRecordID c \<Longrightarrow>
   cost_CreatedAt c' = cost_CreatedAt c \<Longrightarrow> cost_UpdatedAt c' = Max t (cost_UpdatedAt c) \<Longrightarrow> cost_Revision c' = i64 (cost_Revision c + 1) \<Longrightarrow>
   ledger_effect sv w0 (w\<lparr>costs := AList.update (cost_key c') c' (costs w)\<rparr>)"
  by (rule ledger_effect.cost_changed[of _ c sv c' t]) (auto simp: same_ledger_def)

lemma found_source:
  assumes "ledger_inv sv w" and "map_of (costSources w) k = Some i"
  obtains c where "map_of (costs w) (ledgerKey (lsv_organizationID sv) i) = Some c" "map_of (costs w) (cost_key c) = Some c"
    "cost_ok (lsv_organizationID sv) (purchaseOrders w) (contracts w) c"
proof -
  obtain c where c: "map_of (costs w) (ledgerKey (lsv_organizationID sv) i) = Some c"
    using assms sources_okD(2) by (fastforce simp: ledger_inv_def)
  moreover from this have "cost_key c = ledgerKey (lsv_organizationID sv) i"
    using assms(1) by (auto simp: ledger_inv_def keys_ok_def dest: well_keyed_lookup)
  moreover from c have "cost_ok (lsv_organizationID sv) (purchaseOrders w) (contracts w) c"
    using assms(1) by (auto simp: ledger_inv_def records_ok_def dest: map_of_vals)
  ultimately show ?thesis using that by simp
qed

text \<open>The record built from a checked input is complete.\<close>

lemma costFromInput_ok:
  assumes "normalizeCost u i = Inr n" and "ledger_idPattern id'" and "stamps_ok t t'"
    and "rci_PurchaseOrderID n \<noteq> '''' \<Longrightarrow> stored ps org (rci_PurchaseOrderID n)"
    and "rci_ContractID n \<noteq> '''' \<Longrightarrow> stored cs org (rci_ContractID n)"
  shows "cost_ok org ps cs (costFromInput n id' org t t' r)"
  using normalizeCost_Inr[OF assms(1)] assms(2-)
  by (auto simp: cost_ok_def costFromInput_def stored_if_set_def optionalID_def)

lemma costFromInput_fields [simp]:
  "cost_ID (costFromInput n i org t t' r) = i" "cost_OrganizationID (costFromInput n i org t t' r) = org"
  "cost_SourceSystemID (costFromInput n i org t t' r) = rci_SourceSystemID n"
  "cost_SourceRecordID (costFromInput n i org t t' r) = rci_SourceRecordID n"
  "cost_CreatedAt (costFromInput n i org t t' r) = t" "cost_UpdatedAt (costFromInput n i org t t' r) = t'"
  "cost_Revision (costFromInput n i org t t' r) = r"
  "cost_key (costFromInput n i org t t' r) = ledgerKey org i"
  by (simp_all add: costFromInput_def cost_key_def)

lemma reconcile_existing_effect:
  assumes n: "normalizeCost u i = Inr n" and c: "map_of (costs w) (cost_key c) = Some c"
    and ok: "cost_ok (lsv_organizationID sv) (purchaseOrders w) (contracts w) c"
    and refs: "rci_PurchaseOrderID n \<noteq> '''' \<Longrightarrow> stored (purchaseOrders w) (lsv_organizationID sv) (rci_PurchaseOrderID n)"
      "rci_ContractID n \<noteq> '''' \<Longrightarrow> stored (contracts w) (lsv_organizationID sv) (rci_ContractID n)"
  shows "wp (reconcile_existing sv cx n c) (\<lambda>_. ledger_effect sv w) (\<lambda>_. ledger_effect sv w) w"
proof -
  have new: "cost_ok (lsv_organizationID sv) (purchaseOrders w) (contracts w) (costFromInput n (cost_ID c) (lsv_organizationID sv)
      (cost_CreatedAt c) (Max t (cost_UpdatedAt c)) r)" for t r
    using ok by (intro costFromInput_ok[OF n] refs) (auto simp: cost_ok_def stamps_ok_Max)
  have key: "ledgerKey (lsv_organizationID sv) (cost_ID c) = cost_key c" using ok by (simp add: cost_ok_def cost_key_def)
  show ?thesis unfolding reconcile_existing_def
    apply (intro wpI_audit_effect[of sv w] wp_intro effect_cost_changed[where c = c])
    using new c by (auto simp: same_ledger_def key intro!: ledger_effect.unchanged)
qed

lemma reconcile_new_effect:
  assumes n: "normalizeCost u i = Inr n"
    and refs: "rci_PurchaseOrderID n \<noteq> '''' \<Longrightarrow> stored (purchaseOrders w) (lsv_organizationID sv) (rci_PurchaseOrderID n)"
      "rci_ContractID n \<noteq> '''' \<Longrightarrow> stored (contracts w) (lsv_organizationID sv) (rci_ContractID n)"
  shows "wp (reconcile_new sv cx n) (\<lambda>_. ledger_effect sv w) (\<lambda>_. ledger_effect sv w) w"
proof -
  have new: "cost_ok (lsv_organizationID sv) (purchaseOrders w) (contracts w) (costFromInput n id' (lsv_organizationID sv)
      (Normalize t) (Normalize t) r)" if "ledger_idPattern id'" for id' t r
    using that by (intro costFromInput_ok[OF n] refs stamps_now)
  have "optionalID (rci_ID n)" using normalizeCost_Inr[OF n] by simp
  with new show ?thesis unfolding reconcile_new_def
    apply (intro wpI_attempt_case wpI_audit_effect[of sv w] wp_intro effect_added)
    by (auto simp: same_ledger_def id_ok optionalID_def intro!: ledger_effect.unchanged)
qed

lemma ReconcileCost_effect:
  assumes inv: "ledger_inv sv w"
  shows "ledger_effect sv w (snd (ReconcileCost sv cx input w))"
proof (rule wp_snd)
  have ex: "wp (reconcile_existing sv cx n (case map_of (costs w) (ledgerKey (lsv_organizationID sv) i) of None \<Rightarrow> zero_cost | Some c \<Rightarrow> c))
      (\<lambda>_. ledger_effect sv w) (\<lambda>_. ledger_effect sv w) w"
    if n: "normalizeCost (lsv_unicode sv) input = Inr n" and k: "map_of (costSources w) k = Some i"
      and refs: "rci_PurchaseOrderID n \<noteq> '''' \<Longrightarrow> stored (purchaseOrders w) (lsv_organizationID sv) (rci_PurchaseOrderID n)"
      "rci_ContractID n \<noteq> '''' \<Longrightarrow> stored (contracts w) (lsv_organizationID sv) (rci_ContractID n)" for n k i
  proof -
    obtain c where "map_of (costs w) (ledgerKey (lsv_organizationID sv) i) = Some c" "map_of (costs w) (cost_key c) = Some c"
      "cost_ok (lsv_organizationID sv) (purchaseOrders w) (contracts w) c" using found_source[OF inv k] by blast
    with reconcile_existing_effect[OF n this(2,3) refs] show ?thesis by simp
  qed
  show "wp (ReconcileCost sv cx input) (\<lambda>_. ledger_effect sv w) (\<lambda>_. ledger_effect sv w) w"
    unfolding ReconcileCost_def
    by (intro wpI_attempt_case wp_intro ex reconcile_new_effect) (auto intro: ledger_effect.unchanged)
qed

section \<open>Imports\<close>

lemma wpI_import_after [wp_intro]:
  "wp m (\<lambda>_. wp k Q E) (\<lambda>e. Q (ledger_no_result, Some e)) w \<Longrightarrow> wp (import_after m k) Q E w"
  unfolding import_after_def by (rule wpI_attempt_case, erule wp_mono) (simp_all add: wp_simps)

lemma importLedgerRecord_effect:
  assumes "wp create (\<lambda>_. ledger_effect sv w) (\<lambda>_. same_ledger w) w"
  shows "wp (importLedgerRecord cand (ledger_get field org i) create same (auditExchange sv' oper a t i' md))
    (\<lambda>_. ledger_effect sv w) (\<lambda>_. ledger_effect sv w) w"
proof -
  have audit: "wp (auditExchange sv' oper a t i' md) (\<lambda>_. ledger_effect sv w) (\<lambda>_. ledger_effect sv w) w1"
    if "ledger_effect sv w w1" for w1
    unfolding auditExchange_def by (rule wp_mono[OF AuditorRecord_same_ledger]) (auto intro: effect_same that)
  have finish: "wp (tryE (attemptE (auditExchange sv' oper a t i' md)) (\<lambda>audited. returnE (f audited)))
      (\<lambda>_. ledger_effect sv w) (\<lambda>_. ledger_effect sv w) w1" if "ledger_effect sv w w1" for f w1
    by (intro wp_intro wp_mono[OF audit[OF that]])
  have same: "ledger_effect sv w w1" if "same_ledger w w1" for w1 using that by (rule ledger_effect.unchanged)
  show ?thesis unfolding importLedgerRecord_def
    apply (rule wpI_attempt_case, rule wpI_ledger_get)
     apply (rule wpI_if, simp, rule wpI_attempt_case, rule wp_mono[OF assms])
      apply (erule finish)
     apply (rule wpI_attempt_case, rule wpI_ledger_get)
      apply (rule wpI_returnE, erule same)
     apply (rule wpI_if, erule finish[OF same], rule wpI_returnE, erule same)
    apply (rule wpI_if, rule wpI_returnE, rule same, simp, rule finish, rule same, simp)
    done
qed

lemma import_stamps: "validExchangeState i r c u \<Longrightarrow> stamps_ok c u \<and> ledger_idPattern i"
  by (auto simp: validExchangeState_def stamps_ok_def Before_def)

lemma ImportVendor_effect: "ledger_effect sv w (snd (ImportVendor sv oper cand w))"
  apply (rule wp_snd)
  unfolding ImportVendor_def store_get_defs
  apply (intro wp_intro importLedgerRecord_effect effect_added)
  by (auto simp: vendor_ok_def dest: import_stamps intro!: ledger_effect.unchanged)

lemma ImportPurchaseOrder_effect: "ledger_effect sv w (snd (ImportPurchaseOrder sv oper cand w))"
  apply (rule wp_snd)
  unfolding ImportPurchaseOrder_def store_get_defs
  apply (intro wp_intro importLedgerRecord_effect effect_added)
  by (auto simp: po_ok_def stored_def sameExchangePurchaseOrderInput_def dest!: normalizePurchaseOrder_Inr import_stamps
      intro!: ledger_effect.unchanged)

lemma Equal_renewal: "Equal s s' \<Longrightarrow> equalExchangeOptionalTime r r' \<Longrightarrow> renewal_ok s' r' \<Longrightarrow> renewal_ok s r"
  by (auto simp: Equal_def equalExchangeOptionalTime_def renewal_ok_def split: option.splits)

lemma ImportContract_effect: "ledger_effect sv w (snd (ImportContract sv oper cand w))"
  apply (rule wp_snd)
  unfolding ImportContract_def store_get_defs
  apply (intro wp_intro importLedgerRecord_effect effect_added)
  by (auto simp: contract_ok_def stored_def sameExchangeContractInput_def Equal_def dest!: normalizeContract_Inr import_stamps
      intro!: ledger_effect.unchanged intro: Equal_renewal)

lemma ImportCommitment_effect: "ledger_effect sv w (snd (ImportCommitment sv oper cand w))"
  apply (rule wp_snd)
  unfolding ImportCommitment_def store_get_defs
  apply (intro wp_intro importLedgerRecord_effect effect_added)
  by (auto simp: commitment_ok_def stored_def sameExchangeCommitmentInput_def Equal_def dest!: normalizeCommitment_Inr import_stamps
      intro!: ledger_effect.unchanged)

lemma ImportBudget_effect: "ledger_effect sv w (snd (ImportBudget sv oper cand w))"
  apply (rule wp_snd)
  unfolding ImportBudget_def store_get_defs
  apply (intro wp_intro importLedgerRecord_effect effect_added)
  by (auto simp: budget_ok_def sameExchangeBudgetInput_def dest!: normalizeBudget_Inr import_stamps intro!: ledger_effect.unchanged)

lemma ImportCost_effect: "ledger_effect sv w (snd (ImportCost sv oper cand w))"
  apply (rule wp_snd)
  unfolding ImportCost_def store_get_defs
  apply (intro wp_intro importLedgerRecord_effect effect_added)
  by (auto simp: cost_ok_def stored_if_set_def optionalID_def sameExchangeCostInput_def sameCost_def costFromInput_def
      dest!: normalizeCost_Inr import_stamps intro!: ledger_effect.unchanged)

section \<open>Runs\<close>

text \<open>One operation of the service or of the importer that may change the store, with any arguments and any outcome.\<close>

inductive ledger_step :: "ledger_service \<Rightarrow> ledger_world \<Rightarrow> ledger_world \<Rightarrow> bool" for sv where
  step_CreateVendor: "ledger_step sv w (snd (CreateVendor sv cx vi w))"
| step_CreatePurchaseOrder: "ledger_step sv w (snd (CreatePurchaseOrder sv cx pi' w))"
| step_UpdatePurchaseOrderStatus: "ledger_step sv w (snd (UpdatePurchaseOrderStatus sv cx ui w))"
| step_CreateContract: "ledger_step sv w (snd (CreateContract sv cx ci w))"
| step_UpdateContractStatus: "ledger_step sv w (snd (UpdateContractStatus sv cx si w))"
| step_CreateCommitment: "ledger_step sv w (snd (CreateCommitment sv cx mi w))"
| step_CreateBudget: "ledger_step sv w (snd (CreateBudget sv cx bi w))"
| step_ReconcileCost: "ledger_step sv w (snd (ReconcileCost sv cx ri w))"
| step_ImportVendor: "ledger_step sv w (snd (ImportVendor sv oper v w))"
| step_ImportPurchaseOrder: "ledger_step sv w (snd (ImportPurchaseOrder sv oper p w))"
| step_ImportContract: "ledger_step sv w (snd (ImportContract sv oper c w))"
| step_ImportCommitment: "ledger_step sv w (snd (ImportCommitment sv oper m w))"
| step_ImportBudget: "ledger_step sv w (snd (ImportBudget sv oper b w))"
| step_ImportCost: "ledger_step sv w (snd (ImportCost sv oper k w))"

lemmas operation_effects = CreateVendor_effect CreatePurchaseOrder_effect UpdatePurchaseOrderStatus_effect CreateContract_effect
  UpdateContractStatus_effect CreateCommitment_effect CreateBudget_effect ReconcileCost_effect ImportVendor_effect
  ImportPurchaseOrder_effect ImportContract_effect ImportCommitment_effect ImportBudget_effect ImportCost_effect

lemma ledger_step_effect: "ledger_step sv w w' \<Longrightarrow> ledger_inv sv w \<Longrightarrow> ledger_effect sv w w'"
  by (induction rule: ledger_step.induct) (rule operation_effects; assumption)+

lemma ledger_steps_effects:
  "(ledger_step sv)\<^sup>*\<^sup>* w w' \<Longrightarrow> ledger_inv sv w \<Longrightarrow> (ledger_effect sv)\<^sup>*\<^sup>* w w' \<and> ledger_inv sv w'"
proof (induction rule: rtranclp_induct)
  case (step y z)
  then have "ledger_effect sv y z" by (blast dest: ledger_step_effect)
  with step show ?case by (auto dest: ledger_effect_inv)
qed simp

lemma ledger_reachable: "(ledger_step sv)\<^sup>*\<^sup>* w0 w \<Longrightarrow> empty_ledger w0 \<Longrightarrow> ledger_inv sv w"
  using ledger_steps_effects empty_ledger_inv by blast

end
