(* ===== verification/Ledger_Properties.thy ===== *)
theory Ledger_Properties
  imports Ledger_Refine
begin

text \<open>
  The properties of the Ledger feature: every operation refines the abstract specification, what holds in every
  reachable store, how status machines and revisions evolve along a run, reconciliation of costs, the budget report, the
  CSV export, and the places where the code does less than it means to.
\<close>

section \<open>Concrete instances\<close>

definition ex_lsv :: ledger_service where
  "ex_lsv = \<lparr>lsv_organizationID = ''org'', lsv_ValidateAssets = (\<lambda>_. None), lsv_ValidateDocuments = (\<lambda>_. None),
     lsv_ValidateDirectory = (\<lambda>_ _. None), lsv_writes = None,
     lsv_unicode = \<lparr>ucd_lower = id, ucd_upper = id, ucd_fold = id\<rparr>, lsv_sha256 = id\<rparr>"

definition ex_lworld :: ledger_world where
  "ex_lworld = \<lparr>clock = (\<lambda>n. GoTime (1000 * int n + 1000) True), ticks = 0, entropy = (\<lambda>n. Some [char_of n]), draws = 0,
     audits = [], audit_faults = (\<lambda>_. None), audit_calls = 0, vendors = [], purchaseOrders = [], contracts = [], commitments = [],
     budgets = [], costs = [], costSources = []\<rparr>"

definition ex_lctx :: ledger_ctx where
  "ex_lctx = \<lparr>cx_scope = None, lcx_import = None\<rparr>"

definition ex_vendor_input :: CreateVendorInput where
  "ex_vendor_input = \<lparr>cvi_ID = ''v'', cvi_Name = ''V'', cvi_ExternalID = '''', cvi_Status = ''''\<rparr>"

definition ex_po_input :: CreatePurchaseOrderInput where
  "ex_po_input = \<lparr>cpi_ID = ''p'', cpi_Number = ''1'', cpi_VendorID = ''v'', cpi_Status = '''', cpi_Currency = ''eur'', cpi_TotalMinor = 5,
     cpi_OrderedOn = None, cpi_AssetIDs = [], cpi_ReceiptDocumentIDs = [], cpi_Lines = []\<rparr>"

definition ex_vendor_world :: ledger_world where
  "ex_vendor_world = snd (CreateVendor ex_lsv ex_lctx ex_vendor_input ex_lworld)"

definition ex_po_world :: ledger_world where
  "ex_po_world = snd (CreatePurchaseOrder ex_lsv ex_lctx ex_po_input ex_vendor_world)"

definition ex_move :: "string \<Rightarrow> int \<Rightarrow> UpdatePurchaseOrderStatusInput" where
  "ex_move st n = \<lparr>upi_ID = ''p'', upi_Status = st, upi_Revision = n\<rparr>"

definition ex_cancelled_world :: ledger_world where
  "ex_cancelled_world = snd (UpdatePurchaseOrderStatus ex_lsv ex_lctx (ex_move ''cancelled'' 1) ex_po_world)"

lemma ex_lworld_empty: "empty_ledger ex_lworld"
  by (simp add: empty_ledger_def ex_lworld_def)

lemma ex_lreaches_vendor: "(ledger_step ex_lsv)\<^sup>*\<^sup>* ex_lworld ex_vendor_world"
  unfolding ex_vendor_world_def by (rule r_into_rtranclp) (rule step_CreateVendor)

lemma ex_lreaches_po: "(ledger_step ex_lsv)\<^sup>*\<^sup>* ex_lworld ex_po_world"
  unfolding ex_po_world_def by (rule rtranclp.rtrancl_into_rtrancl[OF ex_lreaches_vendor]) (rule step_CreatePurchaseOrder)

lemma ex_lmoves: "(ledger_step ex_lsv)\<^sup>*\<^sup>* ex_po_world ex_cancelled_world"
  unfolding ex_cancelled_world_def by (rule r_into_rtranclp) (rule step_UpdatePurchaseOrderStatus)

lemma ex_po_stored: "(case map_of (purchaseOrders ex_po_world) (ledgerKey ''org'' ''p'') of Some p \<Rightarrow> po_Status p = ''draft'' \<and> po_VendorID p = ''v'' | None \<Rightarrow> False)"
  by code_simp

lemma ex_cancelled_stored: "(case map_of (purchaseOrders ex_cancelled_world) (ledgerKey ''org'' ''p'') of Some p \<Rightarrow> po_Status p = ''cancelled'' \<and> po_Revision p = 2 | None \<Rightarrow> False)"
  by code_simp

section \<open>Refinement and reachable stores\<close>

text \<open>C15: every operation refines the abstract specification: in a store reachable from the empty one, whatever an operation of the
  service or of the importer is given and whatever it returns, the store afterwards is one the specification allows - unchanged,
  with one new complete record that refers to stored records and whose name is new, or with one allowed status move or cost revision.\<close>

theorem ledger_refines:
  assumes "empty_ledger w0" and "(ledger_step sv)\<^sup>*\<^sup>* w0 w" and "ledger_step sv w w'"
  shows "ledger_effect sv w w'"
  using ledger_step_effect[OF assms(3) ledger_reachable[OF assms(2,1)]] .

theorem ledger_refines_witness: "ledger_effect ex_lsv ex_vendor_world ex_po_world"
  using ledger_refines[OF ex_lworld_empty ex_lreaches_vendor] unfolding ex_po_world_def by (blast intro: step_CreatePurchaseOrder)

text \<open>C16: in every reachable store each record is stored under its own key and is complete: amounts are not negative, statuses and kinds are of
  their vocabularies, ids and currencies match their patterns, lists of ids are sorted without repetition, dates are in order; purchase
  orders and contracts name stored vendors, commitments stored contracts and costs stored purchase orders and contracts; and names of vendors,
  numbers of purchase orders and names of budgets of one scope are unique under case folding.\<close>

theorem ledger_reachable_complete:
  assumes "empty_ledger w0" and "(ledger_step sv)\<^sup>*\<^sup>* w0 w"
  shows "keys_ok w \<and> records_ok (lsv_organizationID sv) w \<and> names_ok (lsv_unicode sv) w"
  using ledger_reachable[OF assms(2,1)] by (simp add: ledger_inv_def)

theorem ledger_reachable_complete_witness:
  "\<exists>p. map_of (purchaseOrders ex_po_world) (ledgerKey ''org'' ''p'') = Some p \<and> map_of (vendors ex_po_world) (ledgerKey ''org'' (po_VendorID p)) \<noteq> None"
proof -
  obtain p where p: "map_of (purchaseOrders ex_po_world) (ledgerKey ''org'' ''p'') = Some p"
    using ex_po_stored by (auto split: option.splits)
  then have "po_ok (lsv_organizationID ex_lsv) (vendors ex_po_world) p"
    using ledger_reachable_complete[OF ex_lworld_empty ex_lreaches_po] by (auto simp: records_ok_def dest: map_of_vals)
  with p show ?thesis by (simp add: po_ok_def stored_def ex_lsv_def)
qed

section \<open>Status machines\<close>

definition po_evolves :: "PurchaseOrder \<Rightarrow> PurchaseOrder \<Rightarrow> bool" where
  "po_evolves p p' \<longleftrightarrow> (\<exists>st n t. p' = p\<lparr>po_Status := st, po_Revision := n, po_UpdatedAt := t\<rparr> \<and>
     purchaseOrderTransition\<^sup>*\<^sup>* (po_Status p) st \<and> nanos (po_UpdatedAt p) \<le> nanos t)"

definition contract_evolves :: "Contract \<Rightarrow> Contract \<Rightarrow> bool" where
  "contract_evolves c c' \<longleftrightarrow> (\<exists>ops fin n t.
     c' = c\<lparr>con_OperationalStatus := ops, con_FinancialStatus := fin, con_Revision := n, con_UpdatedAt := t\<rparr> \<and>
     contractOperationalTransition\<^sup>*\<^sup>* (con_OperationalStatus c) ops \<and> contractFinancialTransition\<^sup>*\<^sup>* (con_FinancialStatus c) fin \<and>
     nanos (con_UpdatedAt c) \<le> nanos t)"

lemma po_evolves_refl: "po_evolves p p"
  unfolding po_evolves_def by (rule exI[of _ "po_Status p"], rule exI[of _ "po_Revision p"], rule exI[of _ "po_UpdatedAt p"]) simp

lemma contract_evolves_refl: "contract_evolves c c"
  unfolding contract_evolves_def
  by (rule exI[of _ "con_OperationalStatus c"], rule exI[of _ "con_FinancialStatus c"], rule exI[of _ "con_Revision c"],
      rule exI[of _ "con_UpdatedAt c"]) simp

lemma po_evolves_move:
  "po_evolves p q \<Longrightarrow> purchaseOrderTransition (po_Status q) st \<Longrightarrow> nanos (po_UpdatedAt q) \<le> nanos t \<Longrightarrow>
     po_evolves p (q\<lparr>po_Status := st, po_Revision := n, po_UpdatedAt := t\<rparr>)"
  unfolding po_evolves_def by (fastforce intro: rtranclp.rtrancl_into_rtrancl order.trans)

lemma contract_evolves_move:
  "contract_evolves p q \<Longrightarrow> contractOperationalTransition (con_OperationalStatus q) ops \<Longrightarrow>
   contractFinancialTransition (con_FinancialStatus q) fin \<Longrightarrow> nanos (con_UpdatedAt q) \<le> nanos t \<Longrightarrow>
     contract_evolves p (q\<lparr>con_OperationalStatus := ops, con_FinancialStatus := fin, con_Revision := n, con_UpdatedAt := t\<rparr>)"
  unfolding contract_evolves_def by (fastforce intro: rtranclp.rtrancl_into_rtrancl order.trans)

lemma Max_later: "IsCanonical u \<Longrightarrow> nanos u \<le> nanos (Max t u)"
  by (simp add: Max_nanos Normalize_id)

lemma effect_po_evolves:
  assumes "ledger_effect sv w w'" and "ledger_inv sv w" and "map_of (purchaseOrders w) k = Some q" and "po_evolves p q"
  shows "\<exists>p'. map_of (purchaseOrders w') k = Some p' \<and> po_evolves p p'"
  using assms
proof (induction rule: ledger_effect.induct)
  case (po_moved w r st r' t w')
  have wk: "well_keyed po_key (purchaseOrders w)" using po_moved by (simp add: ledger_inv_def keys_ok_def)
  have key: "po_key r' = po_key r" using po_moved by (simp add: po_key_def)
  show ?case
  proof (cases "k = po_key r")
    case True
    then have "q = r" using po_moved by simp
    moreover have "IsCanonical (po_UpdatedAt r)"
      using po_moved by (auto simp: ledger_inv_def records_ok_def po_ok_def stamps_ok_def dest: map_of_vals)
    ultimately have "po_evolves p r'" using po_moved by (simp add: po_evolves_move Max_later)
    then show ?thesis using po_moved True key by (simp add: same_ledger_def)
  next
    case False
    then show ?thesis using po_moved key by (auto simp: same_ledger_def)
  qed
qed (auto simp: same_ledger_def split: if_splits)

lemma effect_contract_evolves:
  assumes "ledger_effect sv w w'" and "ledger_inv sv w" and "map_of (contracts w) k = Some q" and "contract_evolves p q"
  shows "\<exists>p'. map_of (contracts w') k = Some p' \<and> contract_evolves p p'"
  using assms
proof (induction rule: ledger_effect.induct)
  case (contract_moved w r ops fin r' t w')
  have wk: "well_keyed contract_key (contracts w)" using contract_moved by (simp add: ledger_inv_def keys_ok_def)
  have key: "contract_key r' = contract_key r" using contract_moved by (simp add: contract_key_def)
  show ?case
  proof (cases "k = contract_key r")
    case True
    then have "q = r" using contract_moved by simp
    moreover have "IsCanonical (con_UpdatedAt r)"
      using contract_moved by (auto simp: ledger_inv_def records_ok_def contract_ok_def stamps_ok_def dest: map_of_vals)
    ultimately have "contract_evolves p r'" using contract_moved by (simp add: contract_evolves_move Max_later)
    then show ?thesis using contract_moved True key by (simp add: same_ledger_def)
  next
    case False
    then show ?thesis using contract_moved key by (auto simp: same_ledger_def)
  qed
qed (auto simp: same_ledger_def split: if_splits)

lemma effects_evolve:
  assumes "(ledger_effect sv)\<^sup>*\<^sup>* w w'" and "ledger_inv sv w"
  shows "map_of (purchaseOrders w) k = Some p \<Longrightarrow> \<exists>p'. map_of (purchaseOrders w') k = Some p' \<and> po_evolves p p'"
    and "map_of (contracts w) k = Some c \<Longrightarrow> \<exists>c'. map_of (contracts w') k = Some c' \<and> contract_evolves c c'"
  using assms
proof (induction rule: rtranclp_induct)
  case (step y z)
  { case 1
    then show ?case using step effect_po_evolves ledger_effects_inv by metis
  next
    case 2
    then show ?case using step effect_contract_evolves ledger_effects_inv by metis
  }
qed (auto intro: po_evolves_refl contract_evolves_refl)

lemma rtranclp_stuck: "R\<^sup>*\<^sup>* x y \<Longrightarrow> (\<And>z. R x z \<Longrightarrow> z = x) \<Longrightarrow> y = x"
  by (induction rule: rtranclp_induct) auto

lemma po_final: "purchaseOrderTransition x y \<Longrightarrow> x \<in> {''received'', ''cancelled''} \<Longrightarrow> y = x"
  by (auto simp: purchaseOrderTransition_def)

lemma contract_final:
  "contractOperationalTransition x y \<Longrightarrow> x \<in> {''terminated'', ''cancelled''} \<Longrightarrow> y = x"
  "contractFinancialTransition x' y' \<Longrightarrow> x' \<in> {''closed'', ''cancelled''} \<Longrightarrow> y' = x'"
  by (auto simp: contractOperationalTransition_def contractFinancialTransition_def)

text \<open>C17: along any run of the service and its importer a stored purchase order or contract is never removed or replaced: only its statuses,
  its revision and its update time change, the statuses only along their machines, the update time never backwards, and the final statuses
  of a purchase order and of a contract stay for good.\<close>

theorem ledger_statuses_evolve:
  assumes "empty_ledger w0" and "(ledger_step sv)\<^sup>*\<^sup>* w0 w" and "(ledger_step sv)\<^sup>*\<^sup>* w w'"
  shows "(\<forall>k p. map_of (purchaseOrders w) k = Some p \<longrightarrow>
      (\<exists>p'. map_of (purchaseOrders w') k = Some p' \<and> po_evolves p p' \<and>
        (po_Status p \<in> {''received'', ''cancelled''} \<longrightarrow> po_Status p' = po_Status p))) \<and>
    (\<forall>k c. map_of (contracts w) k = Some c \<longrightarrow>
      (\<exists>c'. map_of (contracts w') k = Some c' \<and> contract_evolves c c' \<and>
        (con_OperationalStatus c \<in> {''terminated'', ''cancelled''} \<longrightarrow> con_OperationalStatus c' = con_OperationalStatus c) \<and>
        (con_FinancialStatus c \<in> {''closed'', ''cancelled''} \<longrightarrow> con_FinancialStatus c' = con_FinancialStatus c)))"
proof (intro conjI allI impI)
  have run: "(ledger_effect sv)\<^sup>*\<^sup>* w w'" "ledger_inv sv w"
    using ledger_steps_effects[OF assms(3)] ledger_reachable[OF assms(2,1)] by auto
  fix k p assume "map_of (purchaseOrders w) k = Some p"
  then obtain p' where p': "map_of (purchaseOrders w') k = Some p'" "po_evolves p p'" using effects_evolve(1)[OF run] by blast
  then have "po_Status p \<in> {''received'', ''cancelled''} \<longrightarrow> po_Status p' = po_Status p"
    unfolding po_evolves_def by (auto dest!: rtranclp_stuck dest: po_final)
  with p' show "\<exists>p'. map_of (purchaseOrders w') k = Some p' \<and> po_evolves p p' \<and>
      (po_Status p \<in> {''received'', ''cancelled''} \<longrightarrow> po_Status p' = po_Status p)" by blast
next
  have run: "(ledger_effect sv)\<^sup>*\<^sup>* w w'" "ledger_inv sv w"
    using ledger_steps_effects[OF assms(3)] ledger_reachable[OF assms(2,1)] by auto
  fix k c assume "map_of (contracts w) k = Some c"
  then obtain c' where c': "map_of (contracts w') k = Some c'" "contract_evolves c c'" using effects_evolve(2)[OF run] by blast
  then have "con_OperationalStatus c \<in> {''terminated'', ''cancelled''} \<longrightarrow> con_OperationalStatus c' = con_OperationalStatus c"
    "con_FinancialStatus c \<in> {''closed'', ''cancelled''} \<longrightarrow> con_FinancialStatus c' = con_FinancialStatus c"
    unfolding contract_evolves_def by (auto dest!: rtranclp_stuck dest: contract_final)
  with c' show "\<exists>c'. map_of (contracts w') k = Some c' \<and> contract_evolves c c' \<and>
      (con_OperationalStatus c \<in> {''terminated'', ''cancelled''} \<longrightarrow> con_OperationalStatus c' = con_OperationalStatus c) \<and>
      (con_FinancialStatus c \<in> {''closed'', ''cancelled''} \<longrightarrow> con_FinancialStatus c' = con_FinancialStatus c)" by blast
qed

theorem ledger_statuses_evolve_witness:
  "\<exists>p p'. map_of (purchaseOrders ex_po_world) (ledgerKey ''org'' ''p'') = Some p \<and> po_Status p = ''draft'' \<and>
     map_of (purchaseOrders ex_cancelled_world) (ledgerKey ''org'' ''p'') = Some p' \<and> po_Status p' = ''cancelled'' \<and> po_evolves p p'"
proof -
  obtain p p' where p: "map_of (purchaseOrders ex_po_world) (ledgerKey ''org'' ''p'') = Some p" "po_Status p = ''draft''"
    and p': "map_of (purchaseOrders ex_cancelled_world) (ledgerKey ''org'' ''p'') = Some p'" "po_Status p' = ''cancelled''"
    using ex_po_stored ex_cancelled_stored by (auto split: option.splits)
  moreover have "po_evolves p p'"
    using ledger_statuses_evolve[OF ex_lworld_empty ex_lreaches_po ex_lmoves] p(1) p'(1) by (metis option.inject)
  ultimately show ?thesis by blast
qed

section \<open>Status updates\<close>

lemma wpI_ledger_audit:
  "(\<And>w'. same_ledger w w' \<Longrightarrow> Q () w') \<Longrightarrow> (\<And>e w'. same_ledger w w' \<Longrightarrow> E e w') \<Longrightarrow> wp (ledger_audit sv cx a t i md) Q E w"
  by (rule wp_mono[OF ledger_audit_same_ledger]) auto

lemma wpI_open_gate: "lsv_writes sv = None \<Longrightarrow> Q () w \<Longrightarrow> wp (ledger_checkWrite sv cx t i) Q E w"
  by (simp add: ledger_checkWrite_def wp_simps split: option.splits)

lemma wpI_now: "Q (Normalize (clock w (ticks w))) (w\<lparr>ticks := Suc (ticks w)\<rparr>) \<Longrightarrow> wp ledger_now Q E w"
  by (simp add: ledger_now_def wp_simps)

lemma wpI_update_found_po:
  "\<exists>old. map_of (purchaseOrders w) (po_key p) = Some old \<and> po_Revision old = n \<Longrightarrow>
   Q p (w\<lparr>purchaseOrders := AList.update (po_key p) p (purchaseOrders w)\<rparr>) \<Longrightarrow> wp (storeUpdatePurchaseOrder p n) Q E w"
  by (auto simp: storeUpdatePurchaseOrder_def wp_def po_key_def)

lemma found_po_again:
  "ledger_inv sv w \<Longrightarrow> map_of (purchaseOrders w) k = Some p \<Longrightarrow> map_of (purchaseOrders w) (ledgerKey (po_OrganizationID p) (po_ID p)) = Some p"
  using found_po[of sv w k p] by (simp add: po_key_def)

lemma Max_Normalize [simp]: "Max (Normalize t) u = Max t u"
  by (simp add: Max_def Normalize_id Normalize_canonical)

text \<open>The outcome of a status update, branch by branch, as a function of the stored order.\<close>

definition po_update_verdict :: "ledger_service \<Rightarrow> UpdatePurchaseOrderStatusInput \<Rightarrow> ledger_world \<Rightarrow> ledger_error + PurchaseOrder" where
  "po_update_verdict sv input w =
     (let i = TrimSpace (upi_ID input); st = ToLower (lsv_unicode sv) (TrimSpace (upi_Status input)) in
      if \<not> ledger_idPattern i \<or> upi_Revision input < 1 \<or> st \<notin> validPurchaseOrderStatuses then Inl (Sentinel LedgerErrInvalidInput)
      else case map_of (purchaseOrders w) (ledgerKey (lsv_organizationID sv) i) of
        None \<Rightarrow> Inl (Sentinel LedgerErrNotFound)
      | Some p \<Rightarrow> if po_Revision p \<noteq> upi_Revision input then Inl (Sentinel LedgerErrConflict)
                  else if \<not> purchaseOrderTransition (po_Status p) st then Inl (Sentinel LedgerErrInvalidTransition)
                  else Inr (p\<lparr>po_Status := st, po_Revision := i64 (po_Revision p + 1), po_UpdatedAt := Max (clock w (ticks w)) (po_UpdatedAt p)\<rparr>))"

text \<open>Without a write gate a status update of a purchase order does exactly what the stored order decides: an invalid request, an unknown
  order, a stale revision and a forbidden transition are reported as such and store nothing; otherwise the order is stored with the new status,
  the next revision and an update time that is at least the old one, and it is returned unless recording the audit event failed.\<close>

theorem UpdatePurchaseOrderStatus_decides:
  assumes "ledger_inv sv w" and "lsv_writes sv = None"
  shows "case po_update_verdict sv input w of
      Inl e \<Rightarrow> (\<exists>w'. UpdatePurchaseOrderStatus sv cx input w = (Inl e, w') \<and> same_ledger w w')
    | Inr p' \<Rightarrow> (\<exists>w'. (UpdatePurchaseOrderStatus sv cx input w = (Inr p', w') \<or>
          (\<exists>e. UpdatePurchaseOrderStatus sv cx input w = (Inl (Wrapf ''audit Ledger purchase order status'' e), w'))) \<and>
        same_ledger (w\<lparr>purchaseOrders := AList.update (po_key p') p' (purchaseOrders w)\<rparr>) w')"
proof -
  let ?V = "po_update_verdict sv input w"
  let ?S = "\<lambda>p' w'. same_ledger (w\<lparr>purchaseOrders := AList.update (po_key p') p' (purchaseOrders w)\<rparr>) w'"
  have "wp (UpdatePurchaseOrderStatus sv cx input) (\<lambda>p' w'. ?V = Inr p' \<and> ?S p' w')
    (\<lambda>e w'. ?V = Inl e \<and> same_ledger w w' \<or> (\<exists>e' p'. e = Wrapf ''audit Ledger purchase order status'' e' \<and> ?V = Inr p' \<and> ?S p' w')) w"
    unfolding UpdatePurchaseOrderStatus_def store_get_defs
    apply (intro wpI_ledger_audit wpI_open_gate[OF assms(2)] wpI_now wpI_update_found_po wp_intro)
    by (auto simp: po_update_verdict_def Let_def same_ledger_def po_key_def dest: found_po_again[OF assms(1)])
  then show ?thesis
    by (cases "UpdatePurchaseOrderStatus sv cx input w"; cases "fst (UpdatePurchaseOrderStatus sv cx input w)")
      (auto simp: wp_def split: sum.splits)
qed

lemma ex_po_inv: "ledger_inv ex_lsv ex_po_world"
  using ledger_reachable[OF ex_lreaches_po ex_lworld_empty] .

lemma ex_verdict: "(case po_update_verdict ex_lsv (ex_move ''cancelled'' 1) ex_po_world of Inr p \<Rightarrow> po_Status p = ''cancelled'' | Inl _ \<Rightarrow> False)"
  by code_simp

theorem UpdatePurchaseOrderStatus_decides_witness:
  "\<exists>p' w'. po_Status p' = ''cancelled'' \<and>
     same_ledger (ex_po_world\<lparr>purchaseOrders := AList.update (po_key p') p' (purchaseOrders ex_po_world)\<rparr>) w' \<and>
     w' = snd (UpdatePurchaseOrderStatus ex_lsv ex_lctx (ex_move ''cancelled'' 1) ex_po_world)"
proof -
  have "lsv_writes ex_lsv = None" by (simp add: ex_lsv_def)
  from UpdatePurchaseOrderStatus_decides[OF ex_po_inv this, where input = "ex_move ''cancelled'' 1" and cx = ex_lctx] ex_verdict
  show ?thesis by (auto split: sum.splits)
qed

section \<open>Costs and their sources\<close>

text \<open>C18: in every reachable store the index of source records is exact: looking up the source of a stored cost returns that very cost, so no two
  costs share a source, and the lookup never returns anything that is not stored.\<close>

theorem ledger_sources_exact:
  assumes "empty_ledger w0" and "(ledger_step sv)\<^sup>*\<^sup>* w0 w"
  shows "(\<forall>c \<in> vals (costs w). cost_SourceSystemID c \<noteq> '''' \<longrightarrow>
      storeGetCostBySource (lsv_unicode sv) (lsv_organizationID sv) (cost_SourceSystemID c) (cost_SourceRecordID c) w = (Inr c, w)) \<and>
    (\<forall>s r. case storeGetCostBySource (lsv_unicode sv) (lsv_organizationID sv) s r w of
       (Inr c, _) \<Rightarrow> c \<in> vals (costs w) | (Inl e, _) \<Rightarrow> e = Sentinel LedgerErrNotFound)"
proof -
  have inv: "ledger_inv sv w" using ledger_reachable[OF assms(2,1)] .
  have ok: "sources_ok (lsv_unicode sv) (lsv_organizationID sv) w" and wk: "well_keyed cost_key (costs w)"
    and rec: "\<And>c. c \<in> vals (costs w) \<Longrightarrow> cost_OrganizationID c = lsv_organizationID sv"
    using inv by (auto simp: ledger_inv_def keys_ok_def records_ok_def cost_ok_def)
  have "storeGetCostBySource (lsv_unicode sv) (lsv_organizationID sv) (cost_SourceSystemID c) (cost_SourceRecordID c) w = (Inr c, w)"
    if c: "c \<in> vals (costs w)" "cost_SourceSystemID c \<noteq> ''''" for c
  proof -
    have "map_of (costs w) (ledgerKey (lsv_organizationID sv) (cost_ID c)) = Some c"
      using c(1) vals_iff[OF wk, of c] rec[OF c(1)] by (simp add: cost_key_def)
    then show ?thesis
      using sources_okD(1)[OF ok c] rec[OF c(1)] by (simp add: storeGetCostBySource_def queryE_def cost_source_def)
  qed
  moreover have "case storeGetCostBySource (lsv_unicode sv) (lsv_organizationID sv) s r w of
      (Inr c, _) \<Rightarrow> c \<in> vals (costs w) | (Inl e, _) \<Rightarrow> e = Sentinel LedgerErrNotFound" for s r
  proof (cases "map_of (costSources w) (ledgerSourceKey (lsv_unicode sv) (lsv_organizationID sv) s r)")
    case (Some i)
    then obtain c where "map_of (costs w) (ledgerKey (lsv_organizationID sv) i) = Some c" using sources_okD(2)[OF ok] by blast
    then show ?thesis using Some by (auto simp: storeGetCostBySource_def queryE_def dest: map_of_vals)
  qed (simp add: storeGetCostBySource_def queryE_def)
  ultimately show ?thesis by blast
qed


definition ex_cost_input :: "int \<Rightarrow> ReconcileCostInput" where
  "ex_cost_input n = \<lparr>rci_ID = ''c'', rci_Description = ''D'', rci_Kind = ''paid'', rci_Currency = ''EUR'', rci_AmountMinor = n,
     rci_FiscalPeriod = ''F1'', rci_Scenario = ''base'', rci_PurchaseOrderID = '''', rci_ContractID = '''', rci_AssetID = '''',
     rci_DepartmentID = '''', rci_SiteID = '''', rci_DocumentID = '''', rci_ExternalReference = ''=1'', rci_SourceSystemID = ''Erp'',
     rci_SourceRecordID = ''7''\<rparr>"

definition ex_cost_world :: ledger_world where
  "ex_cost_world = snd (ReconcileCost ex_lsv ex_lctx (ex_cost_input 5) ex_lworld)"

lemma ex_lreaches_cost: "(ledger_step ex_lsv)\<^sup>*\<^sup>* ex_lworld ex_cost_world"
  unfolding ex_cost_world_def by (rule r_into_rtranclp) (rule step_ReconcileCost)

lemma ex_cost_stored: "(case map_of (costs ex_cost_world) (ledgerKey ''org'' ''c'') of
    Some c \<Rightarrow> cost_SourceSystemID c = ''erp'' \<and> cost_SourceRecordID c = ''7'' \<and> cost_AmountMinor c = 5 | None \<Rightarrow> False)"
  by code_simp

theorem ledger_sources_exact_witness:
  "\<exists>c \<in> vals (costs ex_cost_world). storeGetCostBySource (lsv_unicode ex_lsv) ''org'' ''erp'' ''7'' ex_cost_world = (Inr c, ex_cost_world)"
proof -
  obtain c where c: "map_of (costs ex_cost_world) (ledgerKey ''org'' ''c'') = Some c" "cost_SourceSystemID c = ''erp''" "cost_SourceRecordID c = ''7''"
    using ex_cost_stored by (auto split: option.splits)
  then have "c \<in> vals (costs ex_cost_world)" by (auto dest: map_of_vals)
  then show ?thesis
    using ledger_sources_exact[OF ex_lworld_empty ex_lreaches_cost] c(2,3) by (force simp: ex_lsv_def)
qed


section \<open>Reconciliation is idempotent\<close>

lemma validateCostReferences_reads: "snd (validateCostReferences sv n w) = w"
  by (rule wp_snd) (intro wp_intro; simp)

lemma validateCostReferences_cong:
  assumes "purchaseOrders w' = purchaseOrders w" and "contracts w' = contracts w"
  shows "fst (validateCostReferences sv n w') = fst (validateCostReferences sv n w)"
  using assms unfolding validateCostReferences_def store_get_defs
  by (simp add: tryE_def returnE_def raiseE_def checkE_def referenced_def ledger_get_def queryE_def attemptE_def
      split: option.splits sum.splits)

lemma wpI_validated:
  "(\<And>e. E e w) \<Longrightarrow> (fst (validateCostReferences sv n w) = Inr () \<Longrightarrow> Q () w) \<Longrightarrow> wp (validateCostReferences sv n) Q E w"
  using validateCostReferences_reads[of sv n w] by (auto simp: wp_def split: prod.splits sum.splits)

lemma sameCost_costFromInput:
  "sameCost c (costFromInput n i org t t' r) \<longleftrightarrow> sameCost c (costFromInput n i' org' u u' r')"
  by (simp add: sameCost_def costFromInput_def)

lemma sameCost_self: "sameCost (costFromInput n i org t t' r) (costFromInput n i' org' u u' r')"
  by (simp add: sameCost_def costFromInput_def)

text \<open>What a reconciliation with a source leaves behind.\<close>

definition reconciled :: "ledger_service \<Rightarrow> ReconcileCostInput \<Rightarrow> ReconcileResult \<Rightarrow> ledger_world \<Rightarrow> bool" where
  "reconciled sv n r w \<longleftrightarrow>
     (\<exists>i. map_of (costSources w) (ledgerSourceKey (lsv_unicode sv) (lsv_organizationID sv) (rci_SourceSystemID n) (rci_SourceRecordID n)) = Some i \<and>
        map_of (costs w) (ledgerKey (lsv_organizationID sv) i) = Some (rr_Record r)) \<and>
     (\<forall>i org t t' v. sameCost (rr_Record r) (costFromInput n i org t t' v))"

lemma reconciled_same: "reconciled sv n r w \<Longrightarrow> same_ledger w w' \<Longrightarrow> reconciled sv n r w'"
  by (simp add: reconciled_def same_ledger_def)

abbreviation left_behind :: "ledger_service \<Rightarrow> ReconcileCostInput \<Rightarrow> ledger_world \<Rightarrow> ReconcileResult \<Rightarrow> ledger_world \<Rightarrow> bool" where
  "left_behind sv n w r w' \<equiv> reconciled sv n r w' \<and> purchaseOrders w' = purchaseOrders w \<and> contracts w' = contracts w"

lemma left_behind_same: "left_behind sv n w r w1 \<Longrightarrow> same_ledger w1 w2 \<Longrightarrow> left_behind sv n w r w2"
  by (auto intro: reconciled_same simp: same_ledger_def)

lemma reconcile_existing_leaves:
  assumes "map_of (costSources w) (ledgerSourceKey (lsv_unicode sv) (lsv_organizationID sv) (rci_SourceSystemID n) (rci_SourceRecordID n)) = Some i"
    and "map_of (costs w) (ledgerKey (lsv_organizationID sv) i) = Some c" and "cost_ID c = i"
  shows "wp (reconcile_existing sv cx n c) (left_behind sv n w) (\<lambda>_ _. True) w"
  unfolding reconcile_existing_def
  apply (intro wpI_ledger_audit wp_intro TrueI)
  using assms by (auto simp: reconciled_def same_ledger_def sameCost_self intro: sameCost_costFromInput[THEN iffD1])

lemma reconcile_new_leaves:
  assumes inv: "ledger_inv sv w" and src: "rci_SourceSystemID n \<noteq> ''''"
  shows "wp (reconcile_new sv cx n) (left_behind sv n w) (\<lambda>_ _. True) w"
proof -
  have found: "\<exists>c. map_of (costs w) (ledgerKey (lsv_organizationID sv) i) = Some c"
    if "map_of (costSources w) k = Some i" for k i using found_source[OF inv that] by blast
  show ?thesis unfolding reconcile_new_def
    apply (intro wpI_attempt_case wpI_ledger_audit wp_intro TrueI)
    using src found by (auto simp: reconciled_def same_ledger_def sameCost_self intro: sameCost_costFromInput[THEN iffD1] dest!: found)
qed

lemma ReconcileCost_leaves:
  assumes inv: "ledger_inv sv w" and n: "normalizeCost (lsv_unicode sv) input = Inr n" and src: "rci_SourceSystemID n \<noteq> ''''"
  shows "wp (ReconcileCost sv cx input) (\<lambda>r w'. left_behind sv n w r w' \<and> fst (validateCostReferences sv n w) = Inr ()) (\<lambda>_ _. True) w"
proof -
  have ex: "wp (reconcile_existing sv cx n (case map_of (costs w) (ledgerKey (lsv_organizationID sv) i) of None \<Rightarrow> zero_cost | Some c \<Rightarrow> c))
      (left_behind sv n w) (\<lambda>_ _. True) w"
    if k: "map_of (costSources w) (ledgerSourceKey (lsv_unicode sv) (lsv_organizationID sv) (rci_SourceSystemID n) (rci_SourceRecordID n)) = Some i" for i
  proof -
    obtain c where c: "map_of (costs w) (ledgerKey (lsv_organizationID sv) i) = Some c" "map_of (costs w) (cost_key c) = Some c"
      "cost_ok (lsv_organizationID sv) (purchaseOrders w) (contracts w) c" using found_source[OF inv k] by blast
    moreover have "cost_ID c = i"
      using inv c by (auto simp: ledger_inv_def keys_ok_def cost_key_def cost_ok_def ledgerKey_inj dest: well_keyed_lookup)
    ultimately show ?thesis using reconcile_existing_leaves[OF k] by simp
  qed
  have *: "wp m (left_behind sv n w) (\<lambda>_ _. True) w \<Longrightarrow> fst (validateCostReferences sv n w) = Inr () \<Longrightarrow>
      wp m (\<lambda>r w'. left_behind sv n w r w' \<and> fst (validateCostReferences sv n w) = Inr ()) (\<lambda>_ _. True) w" for m
    by (erule wp_mono) auto
  show ?thesis unfolding ReconcileCost_def n
    by (intro wpI_attempt_case wpI_validated wp_intro TrueI) (auto simp: src intro!: * ex reconcile_new_leaves[OF inv src])
qed

lemma validateCostReferences_gate: "validateCostReferences (sv\<lparr>lsv_writes := g\<rparr>) n = validateCostReferences sv n"
  by (simp add: validateCostReferences_def)

text \<open>C19: reconciling a source record is idempotent. Once a reconciliation of an input with a source has succeeded, repeating the
  same input - by any caller, under any clock, and with whatever write gate then guards the ledger - changes no record: unless the
  write gate refuses the write to that cost, in which case the call fails with exactly the gate's error, it returns the same record,
  marked not applied and not created. A service with no gate, and a call on behalf of an import, always gets the record.\<close>

theorem ReconcileCost_idempotent:
  assumes "ledger_inv sv w" and "normalizeCost (lsv_unicode sv) input = Inr n" and "rci_SourceSystemID n \<noteq> ''''"
    and first: "ReconcileCost sv cx input w = (Inr r, w1)"
  shows "\<exists>w2. same_ledger w1 w2 \<and>
    ReconcileCost (sv\<lparr>lsv_writes := g\<rparr>) cx' input w1 =
      ((case (lcx_import cx', g) of
          (None, Some gate) \<Rightarrow>
            (case gate ''ledger.cost'' (cost_ID (rr_Record r)) of
               Some refusal \<Rightarrow> Inl refusal
             | None \<Rightarrow> Inr \<lparr>rr_Record = rr_Record r, rr_Applied = False, rr_Created = False\<rparr>)
        | _ \<Rightarrow> Inr \<lparr>rr_Record = rr_Record r, rr_Applied = False, rr_Created = False\<rparr>), w2)"
proof -
  note left = wp_Inr[OF ReconcileCost_leaves[OF assms(1,2,3)] first]
  then have "fst (validateCostReferences sv n w1) = Inr ()" using validateCostReferences_cong[of w1 w sv n] by simp
  then have v: "validateCostReferences sv n w1 = (Inr (), w1)" using validateCostReferences_reads[of sv n w1] by (metis prod.collapse)
  from left obtain i where i: "map_of (costSources w1) (ledgerSourceKey (lsv_unicode sv) (lsv_organizationID sv) (rci_SourceSystemID n) (rci_SourceRecordID n)) = Some i"
    "map_of (costs w1) (ledgerKey (lsv_organizationID sv) i) = Some (rr_Record r)" by (auto simp: reconciled_def)
  have s: "sameCost (rr_Record r) (costFromInput n i' org t t' v)" for i' org t t' v using left by (simp add: reconciled_def)
  show ?thesis using assms(2,3)
    by (simp add: ReconcileCost_def validateCostReferences_gate reconcile_existing_def tryE_def liftE_def v attemptE_def
        storeGetCostBySource_def queryE_def i s ledger_checkWrite_def checkE_def ledger_now_def read_clock_def returnE_def Let_def
        same_ledger_def split: option.splits)
qed

lemma ex_cost_normal: "(case normalizeCost (lsv_unicode ex_lsv) (ex_cost_input 5) of Inr n \<Rightarrow> rci_SourceSystemID n = ''erp'' | Inl _ \<Rightarrow> False)"
  by code_simp

lemma ex_cost_runs: "isl (fst (ReconcileCost ex_lsv ex_lctx (ex_cost_input 5) ex_lworld)) = False"
  by code_simp

theorem ReconcileCost_idempotent_witness:
  "\<exists>r. ReconcileCost ex_lsv ex_lctx (ex_cost_input 5) ex_lworld = (Inr r, ex_cost_world) \<and>
    (\<exists>w2. same_ledger ex_cost_world w2 \<and> ReconcileCost (ex_lsv\<lparr>lsv_writes := None\<rparr>) ex_lctx (ex_cost_input 5) ex_cost_world =
       (Inr \<lparr>rr_Record = rr_Record r, rr_Applied = False, rr_Created = False\<rparr>, w2)) \<and>
    (\<exists>w2. same_ledger ex_cost_world w2 \<and>
       ReconcileCost (ex_lsv\<lparr>lsv_writes := Some (\<lambda>_ _. Some (Sentinel LedgerErrConflict))\<rparr>) ex_lctx (ex_cost_input 5) ex_cost_world =
       (Inl (Sentinel LedgerErrConflict), w2))"
proof -
  obtain n where n: "normalizeCost (lsv_unicode ex_lsv) (ex_cost_input 5) = Inr n" "rci_SourceSystemID n \<noteq> ''''"
    using ex_cost_normal by (auto split: sum.splits)
  obtain r where r: "ReconcileCost ex_lsv ex_lctx (ex_cost_input 5) ex_lworld = (Inr r, ex_cost_world)"
    using ex_cost_runs unfolding ex_cost_world_def
    by (cases "ReconcileCost ex_lsv ex_lctx (ex_cost_input 5) ex_lworld"; cases "fst (ReconcileCost ex_lsv ex_lctx (ex_cost_input 5) ex_lworld)") auto
  note again = ReconcileCost_idempotent[OF empty_ledger_inv[OF ex_lworld_empty] n r]
  show ?thesis
    using r again[of None ex_lctx] again[of "Some (\<lambda>_ _. Some (Sentinel LedgerErrConflict))" ex_lctx]
    by (simp add: ex_lctx_def)
qed

end
