(* ===== verification/Ledger_Reports.thy ===== *)
theory Ledger_Reports
  imports Ledger_Properties
begin

text \<open>
  The reports of Ledger. The budget variance is exact: it returns the sums over the stored budgets and costs of the period, or
  reports a conflict when one of them does not fit or when currencies differ. The CSV export can be read back by a reader of RFC 4180,
  and no cell of it starts a spreadsheet formula.
\<close>

section \<open>Checked addition\<close>

lemma addMinor_Some: "addMinor a b = Some c \<longleftrightarrow> 0 \<le> a \<and> 0 \<le> b \<and> a + b \<le> max_i64 \<and> c = a + b"
  by (auto simp: addMinor_def i64_id is_i64_def min_i64_def)

lemma addMinor_None: "addMinor a b = None \<longleftrightarrow> a < 0 \<or> b < 0 \<or> max_i64 < a + b"
  by (auto simp: addMinor_def)

lemma addMinor_nonneg: "0 \<le> a \<Longrightarrow> 0 \<le> b \<Longrightarrow> addMinor a b = (if a + b \<le> max_i64 then Some (a + b) else None)"
  by (auto simp: addMinor_None addMinor_Some)

section \<open>The two loops\<close>

definition period_budgets :: "string \<Rightarrow> string \<Rightarrow> Budget list \<Rightarrow> Budget list" where
  "period_budgets fp sc bs = filter (\<lambda>b. in_period fp sc (bud_FiscalPeriod b) (bud_Scenario b)) bs"

definition period_costs :: "string \<Rightarrow> string \<Rightarrow> CostRecord list \<Rightarrow> CostRecord list" where
  "period_costs fp sc cs = filter (\<lambda>c. in_period fp sc (cost_FiscalPeriod c) (cost_Scenario c)) cs"

lemma sum_list_nonneg': "\<forall>x \<in> set xs. 0 \<le> f x \<Longrightarrow> 0 \<le> sum_list (map f xs)" for f :: "'a \<Rightarrow> int"
  by (induction xs) auto

lemma period_Cons:
  "period_budgets fp sc (b # bs) =
     (if in_period fp sc (bud_FiscalPeriod b) (bud_Scenario b) then b # period_budgets fp sc bs else period_budgets fp sc bs)"
  "period_costs fp sc (c # cs) =
     (if in_period fp sc (cost_FiscalPeriod c) (cost_Scenario c) then c # period_costs fp sc cs else period_costs fp sc cs)"
  "period_budgets fp sc [] = []" "period_costs fp sc [] = []"
  by (simp_all add: period_budgets_def period_costs_def)

definition allocated_sum :: "string \<Rightarrow> string \<Rightarrow> Budget list \<Rightarrow> int" where
  "allocated_sum fp sc bs = sum_list (map bud_AllocatedMinor (period_budgets fp sc bs))"

definition kind_sum :: "string \<Rightarrow> string \<Rightarrow> CostRecord list \<Rightarrow> string \<Rightarrow> int" where
  "kind_sum fp sc cs k = sum_list (map cost_AmountMinor (filter (\<lambda>c. cost_Kind c = k) (period_costs fp sc cs)))"

definition recognized_sum :: "string \<Rightarrow> string \<Rightarrow> CostRecord list \<Rightarrow> int" where
  "recognized_sum fp sc cs = sum_list (map cost_AmountMinor (filter (\<lambda>c. recognized_kind (cost_Kind c)) (period_costs fp sc cs)))"

lemmas sum_defs = allocated_sum_def kind_sum_def recognized_sum_def

lemma sums_nonneg:
  "\<forall>b \<in> set bs. 0 \<le> bud_AllocatedMinor b \<Longrightarrow> 0 \<le> allocated_sum fp sc bs"
  "\<forall>c \<in> set cs. 0 \<le> cost_AmountMinor c \<Longrightarrow> 0 \<le> kind_sum fp sc cs k"
  "\<forall>c \<in> set cs. 0 \<le> cost_AmountMinor c \<Longrightarrow> 0 \<le> recognized_sum fp sc cs"
  unfolding sum_defs by (rule sum_list_nonneg'; auto simp: period_budgets_def period_costs_def)+

lemma sum_budgets_spec:
  assumes "0 \<le> a" and "a \<le> max_i64" and "distinct cur" and "\<forall>b \<in> set bs. 0 \<le> bud_AllocatedMinor b"
  shows "case sum_budgets fp sc a cur bs of
      Some (s, cur') \<Rightarrow> s = a + allocated_sum fp sc bs \<and> s \<le> max_i64 \<and> distinct cur' \<and> set cur' = set cur \<union> bud_Currency ` set (period_budgets fp sc bs)
    | None \<Rightarrow> max_i64 < a + allocated_sum fp sc bs"
  using assms
proof (induction bs arbitrary: a cur)
  case (Cons b bs)
  have nn: "0 \<le> allocated_sum fp sc bs" using Cons.prems(4) by (simp add: sums_nonneg)
  consider "\<not> in_period fp sc (bud_FiscalPeriod b) (bud_Scenario b)"
    | "in_period fp sc (bud_FiscalPeriod b) (bud_Scenario b)" "a + bud_AllocatedMinor b \<le> max_i64"
    | "in_period fp sc (bud_FiscalPeriod b) (bud_Scenario b)" "max_i64 < a + bud_AllocatedMinor b" by linarith
  then show ?case
  proof cases
    case 1
    then have eqs: "allocated_sum fp sc (b # bs) = allocated_sum fp sc bs" "period_budgets fp sc (b # bs) = period_budgets fp sc bs"
      "sum_budgets fp sc a cur (b # bs) = sum_budgets fp sc a cur bs" by (simp_all add: period_Cons allocated_sum_def)
    show ?thesis unfolding eqs by (rule Cons.IH[OF Cons.prems(1-3)]) (use Cons.prems(4) in simp)
  next
    case 2
    then have "0 \<le> a + bud_AllocatedMinor b" "distinct (List.insert (bud_Currency b) cur)" using Cons.prems by simp_all
    from Cons.IH[OF this(1) 2(2) this(2)] 2 Cons.prems show ?thesis
      by (auto simp: period_Cons allocated_sum_def addMinor_nonneg add.assoc split: option.splits)
  next
    case 3
    then show ?thesis using Cons.prems nn by (simp add: period_Cons allocated_sum_def addMinor_nonneg)
  qed
qed (simp add: period_Cons allocated_sum_def)

lemma map_at_update: "map_at (AList.update k v m) x = (if x = k then v else map_at m x)"
  by (simp add: map_at_def)

lemma kind_sum_Cons:
  "in_period fp sc (cost_FiscalPeriod c) (cost_Scenario c) \<Longrightarrow>
     kind_sum fp sc (c # cs) k = (if cost_Kind c = k then cost_AmountMinor c else 0) + kind_sum fp sc cs k"
  "in_period fp sc (cost_FiscalPeriod c) (cost_Scenario c) \<Longrightarrow>
     recognized_sum fp sc (c # cs) = (if recognized_kind (cost_Kind c) then cost_AmountMinor c else 0) + recognized_sum fp sc cs"
  "\<not> in_period fp sc (cost_FiscalPeriod c) (cost_Scenario c) \<Longrightarrow> kind_sum fp sc (c # cs) k = kind_sum fp sc cs k"
  "\<not> in_period fp sc (cost_FiscalPeriod c) (cost_Scenario c) \<Longrightarrow> recognized_sum fp sc (c # cs) = recognized_sum fp sc cs"
  by (simp_all add: kind_sum_def recognized_sum_def period_Cons)

lemma sum_costs_spec:
  assumes "0 \<le> r" and "r \<le> max_i64" and "\<forall>k. 0 \<le> map_at m k \<and> map_at m k \<le> max_i64" and "distinct cur" and "\<forall>c \<in> set cs. 0 \<le> cost_AmountMinor c"
  shows "case sum_costs fp sc r m cur cs of
      Some (r', m', cur') \<Rightarrow> r' = r + recognized_sum fp sc cs \<and> r' \<le> max_i64 \<and>
        (\<forall>k. map_at m' k = map_at m k + kind_sum fp sc cs k \<and> map_at m' k \<le> max_i64) \<and>
        distinct cur' \<and> set cur' = set cur \<union> cost_Currency ` set (period_costs fp sc cs)
    | None \<Rightarrow> max_i64 < r + recognized_sum fp sc cs \<or> (\<exists>k. max_i64 < map_at m k + kind_sum fp sc cs k)"
  using assms
proof (induction cs arbitrary: r m cur)
  case (Cons c cs)
  have nn: "0 \<le> recognized_sum fp sc cs" "0 \<le> kind_sum fp sc cs k" for k using Cons.prems(5) by (simp_all add: sums_nonneg)
  let ?k = "cost_Kind c" and ?a = "cost_AmountMinor c"
  let ?r = "if recognized_kind ?k then r + ?a else r"
  consider "\<not> in_period fp sc (cost_FiscalPeriod c) (cost_Scenario c)"
    | "in_period fp sc (cost_FiscalPeriod c) (cost_Scenario c)" "max_i64 < map_at m ?k + ?a"
    | "in_period fp sc (cost_FiscalPeriod c) (cost_Scenario c)" "map_at m ?k + ?a \<le> max_i64" "recognized_kind ?k" "max_i64 < r + ?a"
    | "in_period fp sc (cost_FiscalPeriod c) (cost_Scenario c)" "map_at m ?k + ?a \<le> max_i64" "?r \<le> max_i64"
    using Cons.prems(2) by (cases "in_period fp sc (cost_FiscalPeriod c) (cost_Scenario c)"; cases "map_at m ?k + ?a \<le> max_i64";
      cases "recognized_kind ?k"; cases "r + ?a \<le> max_i64") auto
  then show ?case
  proof cases
    case 1
    then have eqs: "sum_costs fp sc r m cur (c # cs) = sum_costs fp sc r m cur cs" "period_costs fp sc (c # cs) = period_costs fp sc cs"
      "recognized_sum fp sc (c # cs) = recognized_sum fp sc cs" "kind_sum fp sc (c # cs) = kind_sum fp sc cs"
      by (simp_all add: period_Cons kind_sum_Cons fun_eq_iff)
    show ?thesis unfolding eqs by (rule Cons.IH[OF Cons.prems(1-4)]) (use Cons.prems(5) in simp)
  next
    case 2
    then have "max_i64 < map_at m ?k + kind_sum fp sc (c # cs) ?k" using nn(2)[of ?k] by (simp add: kind_sum_Cons)
    then show ?thesis using 2 Cons.prems by (auto simp: addMinor_nonneg)
  next
    case 3
    then have "max_i64 < r + recognized_sum fp sc (c # cs)" using nn(1) by (simp add: kind_sum_Cons)
    then show ?thesis using 3 Cons.prems by (simp add: addMinor_nonneg)
  next
    case 4
    let ?m = "AList.update ?k (map_at m ?k + ?a) m" and ?cur = "List.insert (cost_Currency c) cur"
    have step: "sum_costs fp sc r m cur (c # cs) = sum_costs fp sc ?r ?m ?cur cs"
      using 4 Cons.prems by (simp add: addMinor_nonneg split: if_splits)
    have "0 \<le> ?r" "distinct ?cur" "\<forall>k. 0 \<le> map_at ?m k \<and> map_at ?m k \<le> max_i64"
      using 4 Cons.prems by (auto simp: map_at_update)
    from Cons.IH[OF this(1) 4(3) this(3,2)] Cons.prems(5)
    have ih: "case sum_costs fp sc ?r ?m ?cur cs of
      Some (r', m', cur') \<Rightarrow> r' = ?r + recognized_sum fp sc cs \<and> r' \<le> max_i64 \<and>
        (\<forall>k. map_at m' k = map_at ?m k + kind_sum fp sc cs k \<and> map_at m' k \<le> max_i64) \<and>
        distinct cur' \<and> set cur' = set ?cur \<union> cost_Currency ` set (period_costs fp sc cs)
    | None \<Rightarrow> max_i64 < ?r + recognized_sum fp sc cs \<or> (\<exists>k. max_i64 < map_at ?m k + kind_sum fp sc cs k)" by simp
    have eqs: "map_at ?m k + kind_sum fp sc cs k = map_at m k + kind_sum fp sc (c # cs) k"
      "?r + recognized_sum fp sc cs = r + recognized_sum fp sc (c # cs)"
      "set ?cur \<union> cost_Currency ` set (period_costs fp sc cs) = set cur \<union> cost_Currency ` set (period_costs fp sc (c # cs))" for k
      using 4(1) by (auto simp: map_at_update kind_sum_Cons period_Cons)
    from ih show ?thesis unfolding step eqs .
  qed
qed (simp add: period_Cons kind_sum_def recognized_sum_def)


section \<open>Sums over the stored records\<close>

definition budgets_of :: "string \<Rightarrow> string \<Rightarrow> ledger_world \<Rightarrow> Budget set" where
  "budgets_of fp sc w = {b \<in> vals (budgets w). bud_FiscalPeriod b = fp \<and> bud_Scenario b = sc}"

definition costs_of :: "string \<Rightarrow> string \<Rightarrow> ledger_world \<Rightarrow> CostRecord set" where
  "costs_of fp sc w = {c \<in> vals (costs w). cost_FiscalPeriod c = fp \<and> cost_Scenario c = sc}"

definition currencies_of :: "string \<Rightarrow> string \<Rightarrow> ledger_world \<Rightarrow> string set" where
  "currencies_of fp sc w = bud_Currency ` budgets_of fp sc w \<union> cost_Currency ` costs_of fp sc w"

lemma well_keyed_distinct_vals: "well_keyed key m \<Longrightarrow> distinct (map snd m)"
  by (induction m) (force simp: well_keyed_def)+

lemma snapshot_lists:
  assumes "ledger_inv sv w"
  defines "snap \<equiv> ledger_snapshot (lsv_organizationID sv) w"
  shows "set (ls_Budgets snap) = vals (budgets w)" "distinct (ls_Budgets snap)"
    "set (ls_Costs snap) = vals (costs w)" "distinct (ls_Costs snap)" "set (ls_Commitments snap) = vals (commitments w)"
  using assms well_keyed_distinct_vals
  by (auto simp: ledger_snapshot_def ledger_inv_def keys_ok_def records_ok_def budget_ok_def cost_ok_def commitment_ok_def vals_def)

lemma period_sets:
  "set (period_budgets fp sc bs) = {b \<in> set bs. bud_FiscalPeriod b = fp \<and> bud_Scenario b = sc}"
  "set (period_costs fp sc cs) = {c \<in> set cs. cost_FiscalPeriod c = fp \<and> cost_Scenario c = sc}"
  by (auto simp: period_budgets_def period_costs_def in_period_def)

lemma snapshot_sums:
  assumes "ledger_inv sv w"
  defines "snap \<equiv> ledger_snapshot (lsv_organizationID sv) w"
  shows "allocated_sum fp sc (ls_Budgets snap) = sum bud_AllocatedMinor (budgets_of fp sc w)"
    "kind_sum fp sc (ls_Costs snap) k = sum cost_AmountMinor {c \<in> costs_of fp sc w. cost_Kind c = k}"
    "recognized_sum fp sc (ls_Costs snap) = sum cost_AmountMinor {c \<in> costs_of fp sc w. recognized_kind (cost_Kind c)}"
    "set (period_budgets fp sc (ls_Budgets snap)) = budgets_of fp sc w" "set (period_costs fp sc (ls_Costs snap)) = costs_of fp sc w"
  using snapshot_lists[OF assms(1)] unfolding snap_def[symmetric] sum_defs budgets_of_def costs_of_def
  by (simp_all add: sum_list_distinct_conv_sum_set period_sets period_budgets_def period_costs_def in_period_def)


section \<open>The budget report\<close>

text \<open>C20: the budget report is exact. For a valid period and scenario of a reachable store it returns the sum of the allocations of the stored
  budgets, the sums of the stored costs by kind, the sum of the recognized costs, their true difference - no addition wraps around - and the one
  currency they share; and it reports a conflict exactly when one of the sums exceeds the largest 64-bit amount or two currencies meet.\<close>

theorem BudgetVariance_exact:
  assumes inv: "ledger_inv sv w" and fp: "fp = TrimSpace fiscalPeriod" "fiscalPeriodPattern fp"
    and sc: "sc = ToLower (lsv_unicode sv) (TrimSpace scenario)" "scenarioPattern sc"
  defines "allocated \<equiv> sum bud_AllocatedMinor (budgets_of fp sc w)"
    and "recognized \<equiv> sum cost_AmountMinor {c \<in> costs_of fp sc w. recognized_kind (cost_Kind c)}"
    and "by_kind \<equiv> (\<lambda>k. sum cost_AmountMinor {c \<in> costs_of fp sc w. cost_Kind c = k})"
  shows "case BudgetVariance sv fiscalPeriod scenario w of
      (Inr report, w') \<Rightarrow> w' = w \<and> allocated \<le> max_i64 \<and> recognized \<le> max_i64 \<and> (\<forall>k. by_kind k \<le> max_i64) \<and>
        bv_AllocatedMinor report = allocated \<and> bv_RecognizedMinor report = recognized \<and>
        (\<forall>k. map_at (bv_AmountsByKindMinor report) k = by_kind k) \<and> bv_VarianceMinor report = allocated - recognized \<and>
        (bv_OverBudget report \<longleftrightarrow> allocated < recognized) \<and> currencies_of fp sc w \<subseteq> {bv_Currency report}
    | (Inl e, w') \<Rightarrow> w' = w \<and> e = Sentinel LedgerErrConflict \<and>
        (max_i64 < allocated \<or> max_i64 < recognized \<or> (\<exists>k. max_i64 < by_kind k) \<or> (\<exists>x \<in> currencies_of fp sc w. \<exists>y \<in> currencies_of fp sc w. x \<noteq> y))"
proof -
  let ?snap = "ledger_snapshot (lsv_organizationID sv) w"
  note sums = snapshot_sums[OF inv, where fp = fp and sc = sc]
  have nb: "\<forall>b \<in> set (ls_Budgets ?snap). 0 \<le> bud_AllocatedMinor b" and nc: "\<forall>c \<in> set (ls_Costs ?snap). 0 \<le> cost_AmountMinor c"
    using inv by (auto simp: snapshot_lists[OF inv] ledger_inv_def records_ok_def budget_ok_def cost_ok_def)
  have pos: "0 \<le> allocated" "0 \<le> recognized"
    using sums_nonneg(1)[OF nb] sums_nonneg(3)[OF nc] sums unfolding allocated_def recognized_def by metis+
  note B = sum_budgets_spec[of 0 "[]", OF _ _ _ nb, where fp = fp and sc = sc]
  have run: "BudgetVariance sv fiscalPeriod scenario w =
      (case sum_budgets fp sc 0 [] (ls_Budgets ?snap) of None \<Rightarrow> (Inl (Sentinel LedgerErrConflict), w)
       | Some (a, cur) \<Rightarrow> (case sum_costs fp sc 0 [] cur (ls_Costs ?snap) of None \<Rightarrow> (Inl (Sentinel LedgerErrConflict), w)
           | Some (r, m, cur') \<Rightarrow> if length cur' > 1 then (Inl (Sentinel LedgerErrConflict), w)
               else (Inr \<lparr>bv_FiscalPeriod = fp, bv_Scenario = sc, bv_Currency = (case cur' of [] \<Rightarrow> '''' | c # _ \<Rightarrow> c), bv_AllocatedMinor = a,
                   bv_RecognizedMinor = r, bv_VarianceMinor = i64 (a - r), bv_OverBudget = i64 (a - r) < 0, bv_AmountsByKindMinor = m\<rparr>, w)))"
    using fp sc by (simp add: BudgetVariance_def storeLedgerSnapshot_def tryE_def queryE_def raiseE_def returnE_def Let_def split: option.splits)
  show ?thesis
  proof (cases "sum_budgets fp sc 0 [] (ls_Budgets ?snap)")
    case None
    then show ?thesis using B sums run by (simp add: allocated_def max_i64_def)
  next
    case (Some p)
    then obtain cur where b: "sum_budgets fp sc 0 [] (ls_Budgets ?snap) = Some (allocated, cur)" "allocated \<le> max_i64" "distinct cur"
      "set cur = bud_Currency ` budgets_of fp sc w"
      using B sums by (cases p) (auto simp: allocated_def max_i64_def)
    have C: "case sum_costs fp sc 0 [] cur (ls_Costs ?snap) of
        Some (r, m, cur') \<Rightarrow> r = recognized \<and> r \<le> max_i64 \<and> (\<forall>k. map_at m k = by_kind k \<and> map_at m k \<le> max_i64) \<and> distinct cur' \<and>
          set cur' = currencies_of fp sc w
      | None \<Rightarrow> max_i64 < recognized \<or> (\<exists>k. max_i64 < by_kind k)"
    proof -
      have m: "map_at [] k = 0" for k :: string by (simp add: map_at_def)
      have eqs: "map_at [] k + kind_sum fp sc (ls_Costs ?snap) k = by_kind k" "0 + recognized_sum fp sc (ls_Costs ?snap) = recognized"
        "set cur \<union> cost_Currency ` set (period_costs fp sc (ls_Costs ?snap)) = currencies_of fp sc w" for k
        using sums b(4) by (simp_all add: m recognized_def by_kind_def currencies_of_def)
      show ?thesis using sum_costs_spec[of 0 "[]" cur, OF _ _ _ b(3) nc, where fp = fp and sc = sc] unfolding eqs
        by (simp add: m max_i64_def)
    qed
    show ?thesis
    proof (cases "sum_costs fp sc 0 [] cur (ls_Costs ?snap)")
      case None
      then show ?thesis using C b(1) run by auto
    next
      case (Some q)
      obtain r m cur' where eq: "q = (r, m, cur')" by (cases q)
      have q: "sum_costs fp sc 0 [] cur (ls_Costs ?snap) = Some (recognized, m, cur')" "recognized \<le> max_i64"
        "\<forall>k. map_at m k = by_kind k" "distinct cur'" "set cur' = currencies_of fp sc w"
        using C Some unfolding Some eq by simp_all
      have bounds: "by_kind k \<le> max_i64" for k
        using C unfolding Some eq by (simp only: option.case prod.case) metis
      have exact: "i64 (allocated - recognized) = allocated - recognized"
        using pos b(2) q(2) by (intro i64_id) (simp add: is_i64_def min_i64_def max_i64_def)
      have two: "\<exists>x \<in> currencies_of fp sc w. \<exists>y \<in> currencies_of fp sc w. x \<noteq> y" if "length cur' > 1"
        using that q(4) unfolding q(5)[symmetric] by (cases cur' rule: list.exhaust; cases "tl cur'") auto
      have one: "currencies_of fp sc w \<subseteq> {case cur' of [] \<Rightarrow> '''' | c # _ \<Rightarrow> c}" if "\<not> length cur' > 1"
        using that unfolding q(5)[symmetric] by (cases cur') auto
      show ?thesis using b q bounds two one by (auto simp: run exact)
    qed
  qed
qed

lemma ex_cost_inv: "ledger_inv ex_lsv ex_cost_world"
  by (rule ledger_reachable[OF ex_lreaches_cost ex_lworld_empty])

lemma ex_variance_runs: "(case BudgetVariance ex_lsv '' F1 '' ''Base'' ex_cost_world of (Inr r, _) \<Rightarrow> bv_VarianceMinor r = -5 | _ \<Rightarrow> False)"
  by code_simp

theorem BudgetVariance_exact_witness:
  "\<exists>report. BudgetVariance ex_lsv '' F1 '' ''Base'' ex_cost_world = (Inr report, ex_cost_world) \<and> bv_VarianceMinor report = -5 \<and>
     bv_OverBudget report \<and> bv_RecognizedMinor report = sum cost_AmountMinor {c \<in> costs_of ''F1'' ''base'' ex_cost_world. recognized_kind (cost_Kind c)}"
proof -
  have "''F1'' = TrimSpace '' F1 ''" "fiscalPeriodPattern ''F1''" "''base'' = ToLower (lsv_unicode ex_lsv) (TrimSpace ''Base'')" "scenarioPattern ''base''"
    by code_simp+
  from BudgetVariance_exact[OF ex_cost_inv this] ex_variance_runs show ?thesis
    by (cases "BudgetVariance ex_lsv '' F1 '' ''Base'' ex_cost_world"; cases "fst (BudgetVariance ex_lsv '' F1 '' ''Base'' ex_cost_world)") auto
qed


section \<open>Reading the export back\<close>

lemma csv_rows_nonempty: "[] \<notin> set (csv_rows fp sc snap)"
  by (auto simp: csv_rows_def csv_header_def csv_budget_def csv_commitment_def csv_cost_def)

lemma ExportCSV_run:
  "ExportCSV sv fiscalPeriod scenario w =
     (let fp = TrimSpace fiscalPeriod; sc = ToLower (lsv_unicode sv) (TrimSpace scenario) in
      if fiscalPeriodPattern fp \<and> scenarioPattern sc
      then (Inr (concat (map csv_write (csv_rows fp sc (ledger_snapshot (lsv_organizationID sv) w)))), w)
      else (Inl (Sentinel LedgerErrInvalidInput), w))"
  by (simp add: ExportCSV_def storeLedgerSnapshot_def tryE_def queryE_def raiseE_def returnE_def Let_def)

text \<open>The rows of the export of a store that keeps its invariant: one for every stored record of the period.\<close>

lemma csv_rows_stored:
  assumes inv: "ledger_inv sv w"
  defines "rows \<equiv> \<lambda>fp sc. tl (csv_rows fp sc (ledger_snapshot (lsv_organizationID sv) w))"
  shows "\<exists>bs ms cs. rows fp sc = map csv_budget bs @ map csv_commitment ms @ map csv_cost cs \<and>
    mset bs = mset_set {b \<in> vals (budgets w). bud_FiscalPeriod b = fp \<and> bud_Scenario b = sc} \<and>
    mset ms = mset_set {m \<in> vals (commitments w). com_FiscalPeriod m = fp \<and> com_Scenario m = sc} \<and>
    mset cs = mset_set {c \<in> vals (costs w). cost_FiscalPeriod c = fp \<and> cost_Scenario c = sc} \<and>
    (\<forall>b \<in> set bs. bud_FiscalPeriod b = fp \<and> bud_Scenario b = sc) \<and>
    (\<forall>m \<in> set ms. com_FiscalPeriod m = fp \<and> com_Scenario m = sc) \<and>
    (\<forall>c \<in> set cs. cost_FiscalPeriod c = fp \<and> cost_Scenario c = sc)"
proof -
  let ?snap = "ledger_snapshot (lsv_organizationID sv) w"
  have "distinct (ls_Commitments ?snap)"
    using inv well_keyed_distinct_vals[of commitment_key "commitments w"] by (simp add: ledger_snapshot_def ledger_inv_def keys_ok_def)
  then have *: "mset (filter P (ls_Budgets ?snap)) = mset_set {b \<in> vals (budgets w). P b}"
    "mset (filter Q (ls_Commitments ?snap)) = mset_set {m \<in> vals (commitments w). Q m}"
    "mset (filter R (ls_Costs ?snap)) = mset_set {c \<in> vals (costs w). R c}" for P Q R
    using snapshot_lists[OF inv] by (simp_all add: mset_set_set[symmetric] del: mset_filter)
  show ?thesis unfolding rows_def csv_rows_def list.sel in_period_def by (intro exI conjI, rule refl, (rule *)+) auto
qed

text \<open>C21: the CSV export is complete and exact. For a valid period and scenario the export of a reachable store succeeds, and a reader of
  RFC 4180 recovers from its bytes - whatever commas, quotes and line feeds the texts contain - the header and then exactly one row for
  every stored budget, after them one for every stored commitment and then one for every stored cost of that period and scenario, and no other row. The
  cells of a row are spelled out: the record's kind, id, amount, currency, period and scenario as they are stored; its text and its
  reference (of a cost the first that is set of purchase order, contract, asset and external reference) as they are stored, but with an
  apostrophe in front when they start with one of =, +, -, @, tab and carriage return.\<close>

theorem ExportCSV_reads_back:
  assumes "empty_ledger w0" and "(ledger_step sv)\<^sup>*\<^sup>* w0 w"
    and "fiscalPeriodPattern fp" and "fp = TrimSpace fiscalPeriod"
    and "scenarioPattern sc" and "sc = ToLower (lsv_unicode sv) (TrimSpace scenario)"
  defines "cell \<equiv> \<lambda>text. if text \<noteq> '''' \<and> hd text \<in> {CHR ''='', CHR ''+'', CHR ''-'', CHR ''@'', CHR 9, CHR 13} then CHR 39 # text else text"
  defines "budget_row \<equiv> \<lambda>b. [''budget'', bud_ID b, cell (bud_Name b), ''allocated'', FormatInt (bud_AllocatedMinor b), bud_Currency b,
       fp, sc, cell (bud_DepartmentID b)]"
    and "commitment_row \<equiv> \<lambda>m. [''commitment'', com_ID m, cell (com_Description m), com_Kind m, FormatInt (com_AmountMinor m), com_Currency m,
       fp, sc, cell (com_ContractID m)]"
    and "cost_row \<equiv> \<lambda>c. [''cost'', cost_ID c, cell (cost_Description c), cost_Kind c, FormatInt (cost_AmountMinor c), cost_Currency c, fp, sc,
       cell (if cost_PurchaseOrderID c \<noteq> '''' then cost_PurchaseOrderID c else if cost_ContractID c \<noteq> '''' then cost_ContractID c
             else if cost_AssetID c \<noteq> '''' then cost_AssetID c else cost_ExternalReference c)]"
  shows "\<exists>bytes bs ms cs. ExportCSV sv fiscalPeriod scenario w = (Inr bytes, w) \<and>
    csv_read bytes = Some
      ([''record_type'', ''id'', ''description'', ''kind'', ''amount_minor'', ''currency'', ''fiscal_period'', ''scenario'', ''reference''] #
       map budget_row bs @ map commitment_row ms @ map cost_row cs) \<and>
    mset bs = mset_set {b \<in> vals (budgets w). bud_FiscalPeriod b = fp \<and> bud_Scenario b = sc} \<and>
    mset ms = mset_set {m \<in> vals (commitments w). com_FiscalPeriod m = fp \<and> com_Scenario m = sc} \<and>
    mset cs = mset_set {c \<in> vals (costs w). cost_FiscalPeriod c = fp \<and> cost_Scenario c = sc}"
proof -
  have inv: "ledger_inv sv w" by (rule ledger_reachable[OF assms(2,1)])
  obtain bs ms cs where rows: "tl (csv_rows fp sc (ledger_snapshot (lsv_organizationID sv) w)) = map csv_budget bs @ map csv_commitment ms @ map csv_cost cs"
    and m: "mset bs = mset_set {b \<in> vals (budgets w). bud_FiscalPeriod b = fp \<and> bud_Scenario b = sc}"
    "mset ms = mset_set {m \<in> vals (commitments w). com_FiscalPeriod m = fp \<and> com_Scenario m = sc}"
    "mset cs = mset_set {c \<in> vals (costs w). cost_FiscalPeriod c = fp \<and> cost_Scenario c = sc}"
    and stored: "\<forall>b \<in> set bs. bud_FiscalPeriod b = fp \<and> bud_Scenario b = sc" "\<forall>m \<in> set ms. com_FiscalPeriod m = fp \<and> com_Scenario m = sc"
      "\<forall>c \<in> set cs. cost_FiscalPeriod c = fp \<and> cost_Scenario c = sc"
    using csv_rows_stored[OF inv] by blast
  have safe: "safeCSVCell s = cell s" for s by (cases s) (simp_all add: safeCSVCell_def cell_def formula_starts_def)
  have "map csv_budget bs = map budget_row bs" "map csv_commitment ms = map commitment_row ms" "map csv_cost cs = map cost_row cs"
    using stored unfolding csv_budget_def csv_commitment_def csv_cost_def safe budget_row_def commitment_row_def cost_row_def
    by (auto simp: firstNonEmpty_def)
  with rows have all_rows: "csv_rows fp sc (ledger_snapshot (lsv_organizationID sv) w) = csv_header # map budget_row bs @ map commitment_row ms @ map cost_row cs"
    by (simp add: csv_rows_def)
  have run: "ExportCSV sv fiscalPeriod scenario w = (Inr (concat (map csv_write (csv_rows fp sc (ledger_snapshot (lsv_organizationID sv) w)))), w)"
    using assms(3-6) by (simp add: ExportCSV_run Let_def)
  have read_back: "csv_read (concat (map csv_write (csv_rows fp sc (ledger_snapshot (lsv_organizationID sv) w)))) =
      Some (csv_header # map budget_row bs @ map commitment_row ms @ map cost_row cs)"
    unfolding csv_read_write[OF csv_rows_nonempty] by (simp only: all_rows)
  show ?thesis unfolding csv_header_def[symmetric] by (intro exI conjI) (rule run read_back m)+
qed

lemma ex_export_stored:
  "vals (budgets ex_cost_world) = {}" "vals (commitments ex_cost_world) = {}"
  "\<exists>c. vals (costs ex_cost_world) = {c} \<and> cost_FiscalPeriod c = ''F1'' \<and> cost_Scenario c = ''base'' \<and> cost_ID c = ''c'' \<and>
    cost_Description c = ''D'' \<and> cost_Kind c = ''paid'' \<and> FormatInt (cost_AmountMinor c) = ''5'' \<and> cost_Currency c = ''EUR'' \<and>
    cost_PurchaseOrderID c = '''' \<and> cost_ContractID c = '''' \<and> cost_AssetID c = '''' \<and> cost_ExternalReference c = ''=1''"
proof -
  have "map snd (budgets ex_cost_world) = []" "map snd (commitments ex_cost_world) = []" by code_simp+
  then show "vals (budgets ex_cost_world) = {}" "vals (commitments ex_cost_world) = {}" by (simp_all add: vals_def)
  have "case map snd (costs ex_cost_world) of [c] \<Rightarrow> cost_FiscalPeriod c = ''F1'' \<and> cost_Scenario c = ''base'' \<and> cost_ID c = ''c'' \<and>
    cost_Description c = ''D'' \<and> cost_Kind c = ''paid'' \<and> FormatInt (cost_AmountMinor c) = ''5'' \<and> cost_Currency c = ''EUR'' \<and>
    cost_PurchaseOrderID c = '''' \<and> cost_ContractID c = '''' \<and> cost_AssetID c = '''' \<and> cost_ExternalReference c = ''=1'' | _ \<Rightarrow> False"
    by code_simp
  then show "\<exists>c. vals (costs ex_cost_world) = {c} \<and> cost_FiscalPeriod c = ''F1'' \<and> cost_Scenario c = ''base'' \<and> cost_ID c = ''c'' \<and>
    cost_Description c = ''D'' \<and> cost_Kind c = ''paid'' \<and> FormatInt (cost_AmountMinor c) = ''5'' \<and> cost_Currency c = ''EUR'' \<and>
    cost_PurchaseOrderID c = '''' \<and> cost_ContractID c = '''' \<and> cost_AssetID c = '''' \<and> cost_ExternalReference c = ''=1''"
    unfolding vals_def set_map[symmetric] by (auto split: list.splits)
qed

theorem ExportCSV_reads_back_witness:
  "\<exists>bytes. ExportCSV ex_lsv '' F1 '' ''Base'' ex_cost_world = (Inr bytes, ex_cost_world) \<and>
    csv_read bytes = Some
      [[''record_type'', ''id'', ''description'', ''kind'', ''amount_minor'', ''currency'', ''fiscal_period'', ''scenario'', ''reference''],
       [''cost'', ''c'', ''D'', ''paid'', ''5'', ''EUR'', ''F1'', ''base'', [CHR 39, CHR ''='', CHR ''1'']]]"
proof -
  have valid: "fiscalPeriodPattern ''F1''" "''F1'' = TrimSpace '' F1 ''" "scenarioPattern ''base''" "''base'' = ToLower (lsv_unicode ex_lsv) (TrimSpace ''Base'')"
    by code_simp+
  obtain c where c: "vals (costs ex_cost_world) = {c}" "cost_FiscalPeriod c = ''F1''" "cost_Scenario c = ''base''" "cost_ID c = ''c''"
    "cost_Description c = ''D''" "cost_Kind c = ''paid''" "FormatInt (cost_AmountMinor c) = ''5''" "cost_Currency c = ''EUR''"
    "cost_PurchaseOrderID c = ''''" "cost_ContractID c = ''''" "cost_AssetID c = ''''" "cost_ExternalReference c = ''=1''"
    using ex_export_stored(3) by blast
  then have one: "{x \<in> vals (costs ex_cost_world). cost_FiscalPeriod x = ''F1'' \<and> cost_Scenario x = ''base''} = {c}" by auto
  from ExportCSV_reads_back[OF ex_lworld_empty ex_lreaches_cost valid] show ?thesis
    unfolding one unfolding ex_export_stored(1,2) by (auto simp: c)
qed

section \<open>No cell is a formula\<close>

definition no_formula :: "string \<Rightarrow> bool" where
  "no_formula cell \<longleftrightarrow> cell = [] \<or> hd cell \<notin> set formula_starts"

lemma no_formula_safe [simp]: "no_formula (safeCSVCell s)"
  by (cases s) (auto simp: no_formula_def safeCSVCell_def formula_starts_def)

lemma no_formula_alnum: "is_alnum c \<Longrightarrow> c \<notin> set formula_starts"
  by (auto simp: is_alnum_def is_lower_def is_upper_def is_digit_def formula_starts_def within_def)

lemma no_formula_head: "match_head_tail P Q n s \<Longrightarrow> (\<And>c. P c \<Longrightarrow> is_alnum c) \<Longrightarrow> no_formula s"
  using no_formula_alnum by (cases s) (auto simp: no_formula_def match_head_tail_def)

lemma no_formula_patterns:
  "ledger_idPattern s \<Longrightarrow> no_formula s" "fiscalPeriodPattern s \<Longrightarrow> no_formula s" "scenarioPattern s \<Longrightarrow> no_formula s"
  unfolding ledger_idPattern_def fiscalPeriodPattern_def scenarioPattern_def by (erule no_formula_head; auto simp: is_alnum_def)+

lemma no_formula_currency: "currencyPattern s \<Longrightarrow> no_formula s"
  using no_formula_alnum[of "hd s"] by (cases s) (simp_all add: currencyPattern_def no_formula_def is_alnum_def)

lemma no_formula_amount: "0 \<le> i \<Longrightarrow> no_formula (FormatInt i)"
  using format_nat_digits[of "nat i"] no_formula_alnum[of "hd (format_nat (nat i))"]
  by (cases "format_nat (nat i)") (auto simp: no_formula_def FormatInt_def is_alnum_def)

text \<open>C22: no cell of the CSV export of a reachable store starts a spreadsheet formula: whatever names, descriptions and references were stored,
  every cell that a reader recovers from the exported bytes is empty or starts with none of the characters =, +, -, @, tab and carriage return.\<close>

theorem ExportCSV_no_formula:
  assumes "empty_ledger w0" and "(ledger_step sv)\<^sup>*\<^sup>* w0 w" and "ExportCSV sv fiscalPeriod scenario w = (Inr bytes, w')"
  shows "\<exists>rows. csv_read bytes = Some rows \<and> (\<forall>row \<in> set rows. \<forall>cell \<in> set row. cell = [] \<or> hd cell \<notin> set formula_starts)"
proof -
  have inv: "ledger_inv sv w" by (rule ledger_reachable[OF assms(2,1)])
  let ?snap = "ledger_snapshot (lsv_organizationID sv) w"
  have header: "list_all no_formula csv_header" by code_simp
  have kinds: "no_formula k" if "k \<in> validCostKinds \<or> k \<in> validCommitmentKinds" for k
    using that by (auto simp: validCostKinds_def validCommitmentKinds_def no_formula_def formula_starts_def)
  have words: "no_formula ''budget''" "no_formula ''allocated''" "no_formula ''commitment''" "no_formula ''cost''" by code_simp+
  have "list_all no_formula (csv_budget b)" if "b \<in> vals (budgets w)" for b
    using inv that by (auto simp: ledger_inv_def records_ok_def budget_ok_def csv_budget_def words no_formula_patterns no_formula_currency no_formula_amount)
  moreover have "list_all no_formula (csv_commitment c)" if "c \<in> vals (commitments w)" for c
    using inv that by (auto simp: ledger_inv_def records_ok_def commitment_ok_def csv_commitment_def words kinds no_formula_patterns no_formula_currency no_formula_amount)
  moreover have "list_all no_formula (csv_cost c)" if "c \<in> vals (costs w)" for c
    using inv that by (auto simp: ledger_inv_def records_ok_def cost_ok_def csv_cost_def words kinds no_formula_patterns no_formula_currency no_formula_amount)
  ultimately have "\<forall>row \<in> set (csv_rows fp sc ?snap). list_all no_formula row" for fp sc
    using header by (auto simp: csv_rows_def snapshot_lists[OF inv])
  then show ?thesis using assms(3)
    by (auto simp: ExportCSV_run Let_def csv_read_write csv_rows_nonempty no_formula_def list_all_iff split: if_splits)
qed

theorem ExportCSV_no_formula_witness:
  "\<exists>bytes rows row. ExportCSV ex_lsv '' F1 '' ''Base'' ex_cost_world = (Inr bytes, ex_cost_world) \<and> csv_read bytes = Some rows \<and> row = rows ! 1 \<and>
     hd (row ! 8) \<notin> set formula_starts"
proof -
  have facts: "(case ExportCSV ex_lsv '' F1 '' ''Base'' ex_cost_world of (Inr bytes, w) \<Rightarrow>
      (case csv_read bytes of Some rows \<Rightarrow> length rows = 2 \<and> length (rows ! 1) = 9 \<and> rows ! 1 ! 8 \<noteq> [] | None \<Rightarrow> False) | _ \<Rightarrow> False)"
    by code_simp
  then obtain bytes w where run: "ExportCSV ex_lsv '' F1 '' ''Base'' ex_cost_world = (Inr bytes, w)" by (auto split: prod.splits sum.splits)
  with ExportCSV_no_formula[OF ex_lworld_empty ex_lreaches_cost run] facts
  obtain rows where "csv_read bytes = Some rows" "length rows = 2" "length (rows ! 1) = 9" "rows ! 1 ! 8 \<noteq> []"
    "\<forall>row \<in> set rows. \<forall>cell \<in> set row. cell = [] \<or> hd cell \<notin> set formula_starts" by auto
  moreover have "w = ex_cost_world" using run by (simp add: ExportCSV_run Let_def split: if_splits)
  moreover have "(1::nat) < 2" "(8::nat) < 9" by simp_all
  ultimately show ?thesis using run by (metis nth_mem)
qed

section \<open>The total of a purchase order\<close>

lemma i64_mod: "i64 (i64 a + b) = i64 (a + b)"
  by (simp add: i64_def mod_simps algebra_simps)

lemma lines_total_sum: "lines_total ls = i64 (sum_list (map pol_AmountMinor ls))"
proof -
  have "foldl (\<lambda>total line. i64 (total + pol_AmountMinor line)) (i64 a) ls = i64 (a + sum_list (map pol_AmountMinor ls))" for a
    by (induction ls arbitrary: a) (simp_all add: i64_mod add.assoc)
  from this[of 0] show ?thesis by (simp add: lines_total_def i64_id is_i64_def min_i64_def max_i64_def)
qed

lemma normalize_lines_amounts: "normalize_lines u i seen ls = Some ls' \<Longrightarrow> (\<forall>l \<in> set ls'. 0 \<le> pol_AmountMinor l) \<and> length ls' = length ls"
  by (induction ls arbitrary: i seen ls')
    (auto simp: normalizePurchaseOrderLine_def Let_def split: option.splits if_splits)

text \<open>C23: the total that a purchase order takes from its lines is a plain 64-bit sum. An order that is normalized without a total of its own gets the sum of
  its line amounts reduced to 64 bits, and that is their true sum exactly when the true sum fits; otherwise the order is accepted - as long as the
  wrapped sum is not negative - with a total that is not the sum of its lines.\<close>

theorem normalizePurchaseOrder_total:
  assumes n: "normalizePurchaseOrder u input = Inr n" and "cpi_TotalMinor input = 0" and "cpi_Lines input \<noteq> []"
  defines "true_sum \<equiv> sum_list (map pol_AmountMinor (cpi_Lines n))"
  shows "cpi_TotalMinor n = i64 true_sum \<and> 0 \<le> cpi_TotalMinor n \<and> 0 \<le> true_sum \<and> (cpi_TotalMinor n = true_sum \<longleftrightarrow> true_sum \<le> max_i64)"
proof -
  obtain ls where ls: "normalize_lines u 0 [] (cpi_Lines input) = Some ls" "cpi_Lines n = ls" "cpi_TotalMinor n = lines_total ls" "0 \<le> cpi_TotalMinor n"
    using assms(1-3)
    by (cases "normalize_lines u 0 [] (cpi_Lines input)")
      (fastforce simp: normalizePurchaseOrder_def normalizePurchaseOrderLines_def Let_def dest: normalize_lines_amounts split: option.splits if_splits)+
  then have "0 \<le> true_sum" using normalize_lines_amounts[OF ls(1)] unfolding true_sum_def by (auto intro: sum_list_nonneg')
  then show ?thesis using ls i64_bounds[of true_sum] i64_id[of true_sum]
    by (auto simp: lines_total_sum true_sum_def is_i64_def min_i64_def max_i64_def)
qed

definition ex_line :: "string \<Rightarrow> int \<Rightarrow> PurchaseOrderLine" where
  "ex_line i n = \<lparr>pol_ID = i, pol_Description = ''D'', pol_Kind = ''other'', pol_AssetID = '''', pol_ModelID = '''', pol_LicenseID = '''',
     pol_Quantity = 1, pol_UnitCostMinor = 0, pol_AmountMinor = n\<rparr>"

definition ex_wrapping_input :: CreatePurchaseOrderInput where
  "ex_wrapping_input = ex_po_input\<lparr>cpi_TotalMinor := 0, cpi_Lines := [ex_line ''a'' max_i64, ex_line ''b'' max_i64, ex_line ''c'' 2]\<rparr>"

theorem normalizePurchaseOrder_total_witness:
  "\<exists>n. normalizePurchaseOrder (lsv_unicode ex_lsv) ex_wrapping_input = Inr n \<and> cpi_TotalMinor n = 0 \<and>
     max_i64 < sum_list (map pol_AmountMinor (cpi_Lines n))"
proof -
  have "(case normalizePurchaseOrder (lsv_unicode ex_lsv) ex_wrapping_input of
      Inr n \<Rightarrow> sum_list (map pol_AmountMinor (cpi_Lines n)) = 2 * max_i64 + 2 | Inl _ \<Rightarrow> False)" by code_simp
  then obtain n where n: "normalizePurchaseOrder (lsv_unicode ex_lsv) ex_wrapping_input = Inr n"
    "sum_list (map pol_AmountMinor (cpi_Lines n)) = 2 * max_i64 + 2" by (auto split: sum.splits)
  have "i64 (2 * max_i64 + 2) = 0" "max_i64 < 2 * max_i64 + 2" by code_simp+
  with normalizePurchaseOrder_total[OF n(1)] n show ?thesis by (simp add: ex_wrapping_input_def)
qed

end
