(* ===== verification/Go_Base64.thy ===== *)
theory Go_Base64
  imports Go_Strings
begin

text \<open>
  \<open>encoding/base64\<close> without padding, as the program uses it: \<open>RawStdEncoding\<close> and \<open>RawURLEncoding\<close>, with
  \<open>Strict\<close> decoding. The decoder skips carriage returns and line feeds, as the standard library does, and in strict mode
  refuses trailing bits that are not zero. Decoding undoes encoding.
\<close>

definition b64_common :: string where
  "b64_common = ''ABCDEFGHIJKLMNOPQRSTUVWXYZabcdefghijklmnopqrstuvwxyz0123456789''"

definition RawStdEncoding :: string where "RawStdEncoding = b64_common @ ''+/''"
definition RawURLEncoding :: string where "RawURLEncoding = b64_common @ ''-_''"

text \<open>The six-bit groups of three, two or one bytes.\<close>

fun quanta :: "nat list \<Rightarrow> nat list" where
  "quanta [] = []"
| "quanta [a] = [a div 4, a mod 4 * 16]"
| "quanta [a, b] = [a div 4, a mod 4 * 16 + b div 16, b mod 16 * 4]"
| "quanta (a # b # c # s) =
     [a div 4, a mod 4 * 16 + b div 16, b mod 16 * 4 + c div 64, c mod 64] @ quanta s"

definition EncodeToString :: "string \<Rightarrow> string \<Rightarrow> string" where
  "EncodeToString enc s = map ((!) enc) (quanta (map of_char s))"

definition b64_value :: "string \<Rightarrow> char \<Rightarrow> nat option" where
  "b64_value enc c = map_of (zip enc [0..<64]) c"

fun decode_quanta :: "nat list \<Rightarrow> nat list option" where
  "decode_quanta [] = Some []"
| "decode_quanta [w] = None"
| "decode_quanta [w, x] = (if x mod 16 = 0 then Some [w * 4 + x div 16] else None)"
| "decode_quanta [w, x, y] = (if y mod 4 = 0 then Some [w * 4 + x div 16, x mod 16 * 16 + y div 4] else None)"
| "decode_quanta (w # x # y # z # vs) =
     map_option (\<lambda>s. [w * 4 + x div 16, x mod 16 * 16 + y div 4, y mod 4 * 64 + z] @ s) (decode_quanta vs)"

definition those_values :: "string \<Rightarrow> string \<Rightarrow> nat list option" where
  "those_values enc s = those (map (b64_value enc) s)"

definition DecodeString :: "string \<Rightarrow> string \<Rightarrow> string option" where
  "DecodeString enc s =
     (case those_values enc (filter (\<lambda>c. c \<noteq> CHR 0x0A \<and> c \<noteq> CHR 0x0D) s) of None \<Rightarrow> None | Some vs \<Rightarrow> map_option (map char_of) (decode_quanta vs))"

section \<open>Decoding undoes encoding\<close>

definition b64_alphabet :: "string \<Rightarrow> bool" where
  "b64_alphabet enc \<longleftrightarrow> length enc = 64 \<and> distinct enc \<and> CHR 0x0A \<notin> set enc \<and> CHR 0x0D \<notin> set enc"

lemma b64_alphabets [simp]: "b64_alphabet RawStdEncoding" "b64_alphabet RawURLEncoding"
  by code_simp+

lemma b64_value_nth: "b64_alphabet enc \<Longrightarrow> i < 64 \<Longrightarrow> b64_value enc (enc ! i) = Some i"
  by (auto simp: b64_value_def b64_alphabet_def map_of_zip_nth)

lemma quanta_bound: "\<forall>a \<in> set s. a < 256 \<Longrightarrow> \<forall>v \<in> set (quanta s). v < 64"
  by (induction s rule: quanta.induct) auto

lemma decode_quanta_quanta: "\<forall>a \<in> set s. a < 256 \<Longrightarrow> decode_quanta (quanta s) = Some s"
proof (induction s rule: quanta.induct)
  case (3 a b)
  then have "b div 16 < 16" by auto
  with 3 show ?case by (auto simp: div_add1_eq)
next
  case (4 a b c s)
  then have "b div 16 < 16" "c div 64 < 4" by auto
  with 4 show ?case by (auto simp: div_add1_eq)
qed auto

lemma those_map_Some: "(\<And>x. x \<in> set xs \<Longrightarrow> f (g x) = Some x) \<Longrightarrow> those (map f (map g xs)) = Some xs"
  by (induction xs) auto

lemma DecodeString_EncodeToString:
  assumes "b64_alphabet enc"
  shows "DecodeString enc (EncodeToString enc s) = Some s"
proof -
  have "set (map ((!) enc) (quanta (map of_char s))) \<subseteq> set enc"
    using assms quanta_bound[of "map of_char s"] by (auto simp: b64_alphabet_def)
  then have "filter (\<lambda>c. c \<noteq> CHR 0x0A \<and> c \<noteq> CHR 0x0D) (map ((!) enc) (quanta (map of_char s))) = map ((!) enc) (quanta (map of_char s))"
    using assms by (intro filter_True) (auto simp: b64_alphabet_def)
  moreover have "those_values enc (map ((!) enc) (quanta (map of_char s))) = Some (quanta (map of_char s))"
    unfolding those_values_def using assms quanta_bound[of "map of_char s"] by (intro those_map_Some) (auto intro: b64_value_nth)
  ultimately show ?thesis by (simp add: DecodeString_def EncodeToString_def decode_quanta_quanta comp_def)
qed

lemma length_quanta: "length (quanta s) = (4 * length s + 2) div 3"
  by (induction s rule: quanta.induct) (simp_all add: Let_def)

lemma EncodeToString_chars: "b64_alphabet enc \<Longrightarrow> set (EncodeToString enc s) \<subseteq> set enc"
  using quanta_bound[of "map of_char s"] by (auto simp: EncodeToString_def b64_alphabet_def)

end
