(* ===== verification/Guard_Types.thy ===== *)
theory Guard_Types
  imports Attempt_Limiter Go_Base64
begin

text \<open>
  Data of the package \<open>internal/guard\<close> (\<open>contracts.go\<close>): permissions, scopes, accounts, roles, policy bundles, role assignments,
  resource ownership, external identities, sign-in requests and sessions, with their \<open>Validate\<close> methods, and the operation
  that gives administrators the current permission catalog (\<open>access.go\<close>). \<open>Permission\<close> and \<open>ScopeKind\<close> are string
  types in Go and stay strings. A byte slice is a \<open>string\<close>.
\<close>

datatype guard_sentinel =
    GuardErrNotFound | ErrBootstrapComplete | ErrBootstrapDenied | ErrInvalidCredential | GuardErrInvalidInput | ErrRateLimited
  | ErrLoginProtectionUnavailable | ErrInvalidSession | ErrInvalidCSRF | ErrPermissionDenied | GuardErrConflict | ErrBuiltInRole
  | ErrManagedAssignment | ErrLastAdministrator | ErrResourceWriteLocked

type_synonym guard_error = "guard_sentinel err"
type_synonym Permission = string

definition MinimumPasswordCharacters :: nat where "MinimumPasswordCharacters = 15"

definition PermissionGuardManage :: Permission where "PermissionGuardManage = ''guard.manage''"

definition AdministratorBundlePermissions :: "Permission list" where
  "AdministratorBundlePermissions =
     [''organization.read'', ''assets.read'', ''assets.write'', ''directory.read'', ''directory.write'', ''goals.read'', ''goals.write'',
      ''storage.read'', ''storage.write'', ''finance.read'', ''finance.write'', ''software.read'', ''software.write'', ''planning.read'',
      ''planning.write'', ''integrations.read'', ''integrations.write'', ''signals.read'', ''signals.write'', ''messaging.read'',
      ''messaging.write'', ''labels.read'', ''labels.write'']"

definition SupportedPermissions :: "Permission list" where
  "SupportedPermissions =
     [''organization.read'', ''assets.read'', ''assets.write'', ''directory.read'', ''directory.write'', ''goals.read'', ''goals.write'',
      ''storage.read'', ''storage.write'', ''finance.read'', ''finance.write'', ''software.read'', ''software.write'', ''planning.read'',
      ''planning.write'', ''integrations.read'', ''integrations.write'', ''signals.read'', ''signals.write'', ''messaging.read'',
      ''messaging.write'', ''labels.read'', ''labels.write'', PermissionGuardManage]"

definition ScopeOrganization :: string where "ScopeOrganization = ''organization''"
definition ScopeSite :: string where "ScopeSite = ''site''"
definition ScopeDepartment :: string where "ScopeDepartment = ''department''"
definition ScopeResource :: string where "ScopeResource = ''resource''"

lemmas scope_kind_defs = ScopeOrganization_def ScopeSite_def ScopeDepartment_def ScopeResource_def

section \<open>Scopes\<close>

record GuardScope =
  gs_Kind :: string
  gs_OrganizationID :: string
  gs_ResourceID :: string

definition GuardScope_Validate :: "GuardScope \<Rightarrow> string option" where
  "GuardScope_Validate s =
     (if TrimSpace (gs_OrganizationID s) = '''' then Some ''organization scope is required''
      else if gs_Kind s = ScopeOrganization
      then (if gs_ResourceID s \<noteq> '''' \<and> gs_ResourceID s \<noteq> gs_OrganizationID s
            then Some ''organization scope resource must match the organization'' else None)
      else if gs_Kind s = ScopeSite \<or> gs_Kind s = ScopeDepartment \<or> gs_Kind s = ScopeResource
      then (if TrimSpace (gs_ResourceID s) = '''' then Some ''scoped resource id is required'' else None)
      else Some ''valid scope kind is required'')"

section \<open>Accounts, bundles and roles\<close>

record Account =
  acc_ID :: string
  acc_OrganizationID :: string
  acc_Username :: string
  acc_NormalizedUsername :: string
  acc_Email :: string
  acc_DisplayName :: string
  acc_PasswordHash :: string
  acc_Status :: string
  acc_CreatedAt :: gotime
  acc_UpdatedAt :: gotime

definition zero_account :: Account where
  "zero_account = \<lparr>acc_ID = '''', acc_OrganizationID = '''', acc_Username = '''', acc_NormalizedUsername = '''', acc_Email = '''',
     acc_DisplayName = '''', acc_PasswordHash = '''', acc_Status = '''', acc_CreatedAt = zero_time, acc_UpdatedAt = zero_time\<rparr>"

record PolicyBundle =
  pb_ID :: string
  pb_OrganizationID :: string
  pb_Name :: string
  pb_Description :: string
  pb_Permissions :: "Permission list"

record Role =
  role_ID :: string
  role_OrganizationID :: string
  role_Name :: string
  role_Description :: string
  role_Permissions :: "Permission list"
  role_PolicyBundleIDs :: "string list"
  role_Source :: string

definition BuiltInRoleSource :: string where "BuiltInRoleSource = ''builtin''"
definition LocalRoleSource :: string where "LocalRoleSource = ''local''"

definition Role_Validate :: "Role \<Rightarrow> string option" where
  "Role_Validate r =
     (let name = TrimSpace (role_Name r); description = TrimSpace (role_Description r) in
      if TrimSpace (role_ID r) = '''' \<or> TrimSpace (role_OrganizationID r) = '''' \<or> name = ''''
      then Some ''complete role identity and name are required''
      else if \<not> valid_string name \<or> rune_count name > 120 \<or> \<not> valid_string description \<or> rune_count description > 1000
      then Some ''valid role name and description lengths are required''
      else if role_Source r \<noteq> BuiltInRoleSource \<and> role_Source r \<noteq> LocalRoleSource then Some ''valid role source is required''
      else if role_Permissions r = [] \<and> role_PolicyBundleIDs r = []
      then Some ''at least one role permission or policy bundle is required'' else None)"

section \<open>Role assignments\<close>

record RoleAssignment =
  ra_ID :: string
  ra_OrganizationID :: string
  ra_AccountID :: string
  ra_RoleID :: string
  ra_Scope :: GuardScope
  ra_Source :: string
  ra_CreatedAt :: gotime

definition LocalAssignmentSource :: string where "LocalAssignmentSource = ''local''"

definition is_hex_digit :: "char \<Rightarrow> bool" where
  "is_hex_digit c \<longleftrightarrow> is_digit c \<or> within 97 102 c \<or> within 65 70 c"

text \<open>\<open>strings.Cut(source, ":")\<close> and \<open>hex.DecodeString\<close> of the rest, of which only the length is used.\<close>

definition validExternalAssignmentSource :: "string \<Rightarrow> bool" where
  "validExternalAssignmentSource source =
     (let protocol = takeWhile (\<lambda>c. c \<noteq> CHR '':'') source; rest = dropWhile (\<lambda>c. c \<noteq> CHR '':'') source in
      case rest of [] \<Rightarrow> False
      | _ # encoded \<Rightarrow> (protocol = ''oidc'' \<or> protocol = ''saml'') \<and> list_all is_hex_digit encoded \<and> length encoded = 32)"

definition RoleAssignment_Validate :: "RoleAssignment \<Rightarrow> string option" where
  "RoleAssignment_Validate a =
     (if TrimSpace (ra_ID a) = '''' \<or> TrimSpace (ra_OrganizationID a) = '''' \<or> TrimSpace (ra_AccountID a) = '''' \<or>
         TrimSpace (ra_RoleID a) = '''' \<or> IsZero (ra_CreatedAt a)
      then Some ''complete role assignment identity and creation time are required''
      else if gs_OrganizationID (ra_Scope a) \<noteq> ra_OrganizationID a then Some ''role assignment scope must match the organization''
      else case GuardScope_Validate (ra_Scope a) of Some e \<Rightarrow> Some e
      | None \<Rightarrow> if ra_Source a \<noteq> LocalAssignmentSource \<and> \<not> validExternalAssignmentSource (ra_Source a)
                then Some ''valid role assignment source is required'' else None)"

record AuthorizationDirectory =
  ad_Accounts :: "Account list"
  ad_Roles :: "Role list"
  ad_PolicyBundles :: "PolicyBundle list"
  ad_AvailablePermissions :: "Permission list"
  ad_Assignments :: "RoleAssignment list"

record CreateRoleInput =
  cri_Name :: string
  cri_Description :: string
  cri_Permissions :: "Permission list"
  cri_PolicyBundleIDs :: "string list"

record RoleAssignmentInput =
  rai_AccountID :: string
  rai_RoleID :: string
  rai_ScopeKind :: string
  rai_ResourceID :: string

section \<open>Resource ownership\<close>

record ResourceOwnership =
  ro_OrganizationID :: string
  ro_ResourceType :: string
  ro_ResourceID :: string
  ro_SourceSystemID :: string
  ro_SourceRecordID :: string
  ro_WriteLocked :: bool
  ro_RegisteredAt :: gotime
  ro_ClaimedBy :: string
  ro_ClaimedAt :: "gotime option"

definition ResourceOwnership_Validate :: "ResourceOwnership \<Rightarrow> string option" where
  "ResourceOwnership_Validate r =
     (if TrimSpace (ro_OrganizationID r) = '''' \<or> TrimSpace (ro_ResourceType r) = '''' \<or> TrimSpace (ro_ResourceID r) = '''' \<or>
         TrimSpace (ro_SourceSystemID r) = '''' \<or> TrimSpace (ro_SourceRecordID r) = '''' \<or> IsZero (ro_RegisteredAt r)
      then Some ''complete resource ownership identity, source, and registration time are required''
      else if ro_WriteLocked r
      then (if ro_ClaimedBy r \<noteq> '''' \<or> ro_ClaimedAt r \<noteq> None then Some ''write-locked ownership cannot be claimed'' else None)
      else case ro_ClaimedAt r of
        None \<Rightarrow> Some ''claimed ownership requires an actor and claim time''
      | Some t \<Rightarrow> if TrimSpace (ro_ClaimedBy r) = '''' \<or> IsZero t \<or> Before t (ro_RegisteredAt r)
                  then Some ''claimed ownership requires an actor and claim time'' else None)"

record ResourceOwnershipInput =
  roi_ResourceType :: string
  roi_ResourceID :: string
  roi_SourceSystemID :: string
  roi_SourceRecordID :: string

section \<open>External accounts\<close>

record ExternalIdentity =
  ei_OrganizationID :: string
  ei_Issuer :: string
  ei_Subject :: string
  ei_AccountID :: string
  ei_CreatedAt :: gotime
  ei_UpdatedAt :: gotime

record ExternalAccountProvisioning =
  eap_Account :: Account
  eap_Identity :: ExternalIdentity
  eap_Administrator :: bool
  eap_AdministratorAssignmentID :: string
  eap_AssignmentSource :: string

definition Provisioning_Validate :: "ExternalAccountProvisioning \<Rightarrow> string option" where
  "Provisioning_Validate p =
     (let account = eap_Account p; identity = eap_Identity p in
      if acc_ID account = '''' \<or> acc_OrganizationID account = '''' \<or> acc_Username account = '''' \<or> acc_NormalizedUsername account = '''' \<or>
         acc_Email account = '''' \<or> acc_DisplayName account = '''' \<or> acc_PasswordHash account \<noteq> '''' \<or> acc_Status account \<noteq> ''active'' \<or>
         IsZero (acc_CreatedAt account) \<or> IsZero (acc_UpdatedAt account)
      then Some ''complete external account is required''
      else if ei_OrganizationID identity \<noteq> acc_OrganizationID account \<or> ei_Issuer identity = '''' \<or> ei_Subject identity = '''' \<or>
         ei_AccountID identity \<noteq> acc_ID account \<or> IsZero (ei_CreatedAt identity) \<or> IsZero (ei_UpdatedAt identity)
      then Some ''complete external identity is required''
      else if \<not> validExternalAssignmentSource (eap_AssignmentSource p) then Some ''valid external assignment source is required''
      else if eap_Administrator p \<and> eap_AdministratorAssignmentID p = '''' then Some ''administrator mapping identity is required'' else None)"

record SAMLRequest =
  sr_OrganizationID :: string
  sr_StateHash :: string
  sr_RequestID :: string
  sr_CreatedAt :: gotime
  sr_ExpiresAt :: gotime

definition SAMLRequest_Validate :: "SAMLRequest \<Rightarrow> string option" where
  "SAMLRequest_Validate r =
     (if TrimSpace (sr_OrganizationID r) = '''' \<or> length (sr_StateHash r) \<noteq> 32 \<or> TrimSpace (sr_RequestID r) = '''' \<or>
         length (sr_RequestID r) > 512 \<or> IsZero (sr_CreatedAt r) \<or> IsZero (sr_ExpiresAt r) \<or> \<not> Before (sr_CreatedAt r) (sr_ExpiresAt r)
      then Some ''complete SAML request tracking data is required'' else None)"

section \<open>Bootstrap\<close>

record AdministratorBootstrap =
  ab_Account :: Account
  ab_Bundle :: PolicyBundle
  ab_Role :: Role
  ab_Assignment :: RoleAssignment

definition AdministratorBootstrap_Validate :: "AdministratorBootstrap \<Rightarrow> string option" where
  "AdministratorBootstrap_Validate b =
     (let account = ab_Account b; bundle = ab_Bundle b; role = ab_Role b; assignment = ab_Assignment b in
      if acc_ID account = '''' \<or> acc_OrganizationID account = '''' \<or> acc_Username account = '''' \<or> acc_NormalizedUsername account = '''' \<or>
         acc_Email account = '''' \<or> acc_DisplayName account = '''' \<or> acc_PasswordHash account = '''' \<or> acc_Status account \<noteq> ''active'' \<or>
         IsZero (acc_CreatedAt account) \<or> IsZero (acc_UpdatedAt account)
      then Some ''complete administrator account is required''
      else if pb_ID bundle = '''' \<or> pb_OrganizationID bundle \<noteq> acc_OrganizationID account \<or> pb_Permissions bundle = []
      then Some ''administrator policy bundle is required''
      else if role_ID role = '''' \<or> role_OrganizationID role \<noteq> acc_OrganizationID account \<or> role_Source role \<noteq> BuiltInRoleSource \<or>
         role_Permissions role = [] \<or> (case role_PolicyBundleIDs role of [] \<Rightarrow> True | i # _ \<Rightarrow> i \<noteq> pb_ID bundle)
      then Some ''administrator role is required''
      else if ra_OrganizationID assignment \<noteq> acc_OrganizationID account \<or> ra_AccountID assignment \<noteq> acc_ID account \<or>
         ra_RoleID assignment \<noteq> role_ID role \<or> ra_Source assignment \<noteq> LocalAssignmentSource \<or> RoleAssignment_Validate assignment \<noteq> None
      then Some ''administrator role assignment is required'' else None)"

section \<open>Access and sessions\<close>

record Grant =
  gr_Permission :: Permission
  gr_Scope :: GuardScope

record Access =
  ax_Account :: Account
  ax_Roles :: "Role list"
  ax_Grants :: "Grant list"

record Session =
  ses_ID :: string
  ses_OrganizationID :: string
  ses_AccountID :: string
  ses_TokenHash :: string
  ses_CSRFHash :: string
  ses_CreatedAt :: gotime
  ses_ExpiresAt :: gotime
  ses_RevokedAt :: "gotime option"

definition zero_session :: Session where
  "zero_session = \<lparr>ses_ID = '''', ses_OrganizationID = '''', ses_AccountID = '''', ses_TokenHash = '''', ses_CSRFHash = '''',
     ses_CreatedAt = zero_time, ses_ExpiresAt = zero_time, ses_RevokedAt = None\<rparr>"

record Principal =
  pr_Subject :: string
  pr_OrganizationID :: string
  pr_Username :: string
  pr_Email :: string
  pr_DisplayName :: string
  pr_Roles :: "string list"

record Authentication =
  au_Session :: Session
  au_Principal :: Principal
  au_Grants :: "Grant list"

record SessionCredentials =
  cr_Authentication :: Authentication
  cr_Token :: string
  cr_CSRFToken :: string

record BootstrapInput =
  bi_Username :: string
  bi_Email :: string
  bi_DisplayName :: string
  bi_Password :: string
  bi_BootstrapToken :: string

record LoginInput =
  li_Username :: string
  li_Password :: string
  li_RateKey :: string

section \<open>The permission catalog of administrators\<close>

text \<open>\<open>sort.Slice\<close> is not stable: where two grants agree in permission and resource, this is one of the orders it may produce.\<close>

definition sort_grants :: "Grant list \<Rightarrow> Grant list" where
  "sort_grants gs = sort_key (\<lambda>g. (gr_Permission g, gs_ResourceID (gr_Scope g))) gs"

definition organization_scope :: "string \<Rightarrow> GuardScope" where
  "organization_scope org = \<lparr>gs_Kind = ScopeOrganization, gs_OrganizationID = org, gs_ResourceID = org\<rparr>"

definition is_builtin_administrator :: "unicode \<Rightarrow> Role \<Rightarrow> bool" where
  "is_builtin_administrator u r \<longleftrightarrow> role_Source r = BuiltInRoleSource \<and> EqualFold u (TrimSpace (role_Name r)) ''administrator''"

definition AugmentAccessGrants :: "unicode \<Rightarrow> string \<Rightarrow> Access \<Rightarrow> Access" where
  "AugmentAccessGrants u organizationID access =
     (if organizationID = '''' \<or> \<not> list_ex (is_builtin_administrator u) (ax_Roles access) then access
      else
        let seen = map gr_Permission (filter (\<lambda>g. gs_Kind (gr_Scope g) = ScopeOrganization \<and> gs_OrganizationID (gr_Scope g) = organizationID)
              (ax_Grants access));
            missing = filter (\<lambda>p. p \<notin> set seen) AdministratorBundlePermissions
        in access\<lparr>ax_Grants := sort_grants (ax_Grants access @
             map (\<lambda>p. \<lparr>gr_Permission = p, gr_Scope = organization_scope organizationID\<rparr>) missing)\<rparr>)"

end
