(* ===== verification/Guard_Password.thy ===== *)
theory Guard_Password
  imports Guard_Types
begin

text \<open>
  \<open>internal/guard/password.go\<close>: the Argon2id password hasher, its encoded format and the parser of that format. The key derivation
  of \<open>golang.org/x/crypto/argon2\<close> is a parameter (record \<open>argon2\<close>); \<open>fmt.Sscanf\<close> is modelled for the two formats the parser uses.
  A hasher draws its salt from the shared random source: it is given the sequence of draws and the number of draws already made.
\<close>

record argon2 =
  a2_Version :: int
  a2_IDKey :: "string \<Rightarrow> string \<Rightarrow> nat \<Rightarrow> nat \<Rightarrow> nat \<Rightarrow> nat \<Rightarrow> string"

type_synonym hash_op = "(nat \<Rightarrow> string option) \<Rightarrow> nat \<Rightarrow> (string + string) \<times> nat"

record PasswordHasher =
  ph_Hash :: "string \<Rightarrow> hash_op"
  ph_Verify :: "string \<Rightarrow> string \<Rightarrow> string + (bool \<times> bool)"

definition argon2MemoryKiB :: nat where "argon2MemoryKiB = 19 * 1024"
definition argon2Iterations :: nat where "argon2Iterations = 2"
definition argon2Parallelism :: nat where "argon2Parallelism = 1"
definition argon2SaltBytes :: nat where "argon2SaltBytes = 16"
definition argon2KeyBytes :: nat where "argon2KeyBytes = 32"

lemmas argon2_constants = argon2MemoryKiB_def argon2Iterations_def argon2Parallelism_def argon2SaltBytes_def argon2KeyBytes_def

text \<open>\<open>rand.Read\<close> into a buffer of \<open>n\<close> bytes.\<close>

definition fill_bytes :: "nat \<Rightarrow> string \<Rightarrow> string" where
  "fill_bytes n b = take n (b @ replicate n (CHR 0x00))"

definition dollar :: string where "dollar = [CHR 0x24]"

definition encode_hash :: "argon2 \<Rightarrow> string \<Rightarrow> string \<Rightarrow> string" where
  "encode_hash a2 salt key =
     dollar @ ''argon2id'' @ dollar @ ''v='' @ FormatInt (a2_Version a2) @ dollar @
     ''m='' @ format_nat argon2MemoryKiB @ '',t='' @ format_nat argon2Iterations @ '',p='' @ format_nat argon2Parallelism @ dollar @
     EncodeToString RawStdEncoding salt @ dollar @ EncodeToString RawStdEncoding key"

definition Argon2idHash :: "argon2 \<Rightarrow> string \<Rightarrow> hash_op" where
  "Argon2idHash a2 password random n =
     (if password = '''' \<or> length password > 1024 then (Inl ''password length is invalid'', n)
      else case random n of
        None \<Rightarrow> (Inl ''generate password salt'', Suc n)
      | Some b \<Rightarrow>
          let salt = fill_bytes argon2SaltBytes b;
              key = a2_IDKey a2 password salt argon2Iterations argon2MemoryKiB argon2Parallelism argon2KeyBytes
          in (Inr (encode_hash a2 salt key), Suc n))"

section \<open>Scanning\<close>

text \<open>\<open>strings.Split\<close> by a separator of one byte.\<close>

fun split_on :: "char \<Rightarrow> string \<Rightarrow> string list" where
  "split_on sep [] = [[]]"
| "split_on sep (c # cs) =
     (if c = sep then [] # split_on sep cs else case split_on sep cs of f # fs \<Rightarrow> (c # f) # fs | [] \<Rightarrow> [[c]])"

text \<open>\<open>SkipSpace\<close> of package \<open>fmt\<close>: a line feed is an error, other white space is skipped.\<close>

function scan_space :: "string \<Rightarrow> string option" where
  "scan_space s =
     (if s \<noteq> [] \<and> hd s = CHR 0x0A then None
      else case find (starts_with s) space_encodings of None \<Rightarrow> Some s | Some e \<Rightarrow> scan_space (drop (length e) s))"
  by pat_completeness auto
termination
proof (relation "measure length", simp, goal_cases)
  case (1 s e)
  then have "starts_with s e" by (auto simp: find_Some_iff)
  then have "e \<noteq> [] \<and> s \<noteq> []" by (auto simp: starts_with_def)
  then show ?case by (simp add: diff_less)
qed

declare scan_space.simps [simp del]

definition scan_literal :: "string \<Rightarrow> string \<Rightarrow> string option" where
  "scan_literal lit s = (if take (length lit) s = lit then Some (drop (length lit) s) else None)"

definition scan_digits :: "string \<Rightarrow> (nat \<times> string) option" where
  "scan_digits s = (case parse_nat (takeWhile is_digit s) of None \<Rightarrow> None | Some n \<Rightarrow> Some (n, dropWhile is_digit s))"

text \<open>The verb \<open>%d\<close> into an unsigned integer of the given width, and into an \<open>int\<close>.\<close>

definition scan_uint :: "nat \<Rightarrow> string \<Rightarrow> (nat \<times> string) option" where
  "scan_uint bits s =
     (case scan_space s of None \<Rightarrow> None
      | Some s' \<Rightarrow> (case scan_digits s' of None \<Rightarrow> None | Some (n, rest) \<Rightarrow> if n < 2 ^ bits then Some (n, rest) else None))"

definition scan_int :: "string \<Rightarrow> (int \<times> string) option" where
  "scan_int s =
     (case scan_space s of None \<Rightarrow> None
      | Some s' \<Rightarrow>
          let negative = (s' \<noteq> [] \<and> hd s' = CHR ''-''); signed = (s' \<noteq> [] \<and> (hd s' = CHR ''-'' \<or> hd s' = CHR ''+'')) in
          (case scan_digits (if signed then tl s' else s') of
             None \<Rightarrow> None
           | Some (n, rest) \<Rightarrow> let i = (if negative then - int n else int n) in if is_i64 i then Some (i, rest) else None))"

definition scan_version :: "string \<Rightarrow> int option" where
  "scan_version s = Option.bind (scan_literal ''v='' s) (\<lambda>s. map_option fst (scan_int s))"

record argon2idParameters =
  ap_memoryKiB :: nat
  ap_iterations :: nat
  ap_parallelism :: nat

definition scan_parameters :: "string \<Rightarrow> argon2idParameters option" where
  "scan_parameters s =
     Option.bind (scan_literal ''m='' s) (\<lambda>s. Option.bind (scan_uint 32 s) (\<lambda>(m, s).
     Option.bind (scan_literal '',t='' s) (\<lambda>s. Option.bind (scan_uint 32 s) (\<lambda>(t, s).
     Option.bind (scan_literal '',p='' s) (\<lambda>s. Option.bind (scan_uint 8 s) (\<lambda>(p, s).
     Some \<lparr>ap_memoryKiB = m, ap_iterations = t, ap_parallelism = p\<rparr>))))))"

section \<open>Parsing and verification\<close>

definition safe_parameters :: "argon2idParameters \<Rightarrow> bool" where
  "safe_parameters p \<longleftrightarrow> 8 * 1024 \<le> ap_memoryKiB p \<and> ap_memoryKiB p \<le> 1024 * 1024 \<and> 1 \<le> ap_iterations p \<and> ap_iterations p \<le> 10 \<and>
     1 \<le> ap_parallelism p \<and> ap_parallelism p \<le> 16"

definition decode_block :: "string \<Rightarrow> string option" where
  "decode_block s =
     (case DecodeString RawStdEncoding s of None \<Rightarrow> None
      | Some b \<Rightarrow> if length b < 16 \<or> length b > 64 then None else Some b)"

definition parseArgon2idHash :: "argon2 \<Rightarrow> string \<Rightarrow> string + (argon2idParameters \<times> string \<times> string)" where
  "parseArgon2idHash a2 encoded =
     (if length encoded > 1024 then Inl ''password hash is too large''
      else case split_on (CHR 0x24) encoded of
        [p0, p1, p2, p3, p4, p5] \<Rightarrow>
          if p0 \<noteq> '''' \<or> p1 \<noteq> ''argon2id'' then Inl ''password hash format is invalid''
          else if scan_version p2 \<noteq> Some (a2_Version a2) then Inl ''password hash version is invalid''
          else (case scan_parameters p3 of
            None \<Rightarrow> Inl ''password hash parameters are invalid''
          | Some parameters \<Rightarrow>
              if \<not> safe_parameters parameters then Inl ''password hash parameters are outside safe bounds''
              else (case decode_block p4 of
                None \<Rightarrow> Inl ''password hash salt is invalid''
              | Some salt \<Rightarrow>
                  (case decode_block p5 of
                    None \<Rightarrow> Inl ''password hash key is invalid''
                  | Some expected \<Rightarrow> Inr (parameters, salt, expected))))
      | _ \<Rightarrow> Inl ''password hash format is invalid'')"

definition Argon2idVerify :: "argon2 \<Rightarrow> string \<Rightarrow> string \<Rightarrow> string + (bool \<times> bool)" where
  "Argon2idVerify a2 password encodedHash =
     (case parseArgon2idHash a2 encodedHash of
        Inl e \<Rightarrow> Inl e
      | Inr (parameters, salt, expected) \<Rightarrow>
          if length password > 1024 then Inr (False, False)
          else
            let actual = a2_IDKey a2 password salt (ap_iterations parameters) (ap_memoryKiB parameters) (ap_parallelism parameters) (length expected);
                needsRehash = (ap_memoryKiB parameters \<noteq> argon2MemoryKiB \<or> ap_iterations parameters \<noteq> argon2Iterations \<or>
                  ap_parallelism parameters \<noteq> argon2Parallelism \<or> length expected \<noteq> argon2KeyBytes)
            in Inr (actual = expected, needsRehash))"

definition Argon2idHasher :: "argon2 \<Rightarrow> PasswordHasher" where
  "Argon2idHasher a2 = \<lparr>ph_Hash = Argon2idHash a2, ph_Verify = Argon2idVerify a2\<rparr>"

section \<open>The encoded hash is read back\<close>

lemma split_on_nonempty: "split_on sep s \<noteq> []"
  by (induction s) (auto split: list.splits)

lemma split_on_last: "sep \<notin> set s \<Longrightarrow> split_on sep s = [s]"
  by (induction s) auto

lemma split_on_append: "sep \<notin> set s \<Longrightarrow> split_on sep (s @ sep # t) = s # split_on sep t"
  by (induction s) (auto split: list.splits)

lemma scan_space_digit: "s \<noteq> [] \<Longrightarrow> is_digit (hd s) \<Longrightarrow> scan_space s = Some s"
proof -
  assume "s \<noteq> []" and d: "is_digit (hd s)"
  then obtain c cs where s: "s = c # cs" by (cases s) auto
  have "\<not> starts_with s e" if "e \<in> set space_encodings" for e
    using that d s by (auto simp: space_encodings_def starts_with_def is_digit_def within_def)
  then have "find (starts_with s) space_encodings = None" by (auto simp: find_None_iff)
  moreover have "hd s \<noteq> CHR 0x0A" using d by (auto simp: is_digit_def within_def)
  ultimately show "scan_space s = Some s" by (subst scan_space.simps) simp
qed

lemma scan_digits_format:
  assumes "rest = [] \<or> \<not> is_digit (hd rest)"
  shows "scan_digits (format_nat n @ rest) = Some (n, rest)"
proof -
  have d: "\<forall>c \<in> set (format_nat n). is_digit c" using format_nat_digits[of n] by (simp add: list_all_iff)
  have "takeWhile is_digit rest = []" "dropWhile is_digit rest = rest" using assms by (cases rest; simp)+
  then have "takeWhile is_digit (format_nat n @ rest) = format_nat n" "dropWhile is_digit (format_nat n @ rest) = rest" using d by simp_all
  then show ?thesis by (simp add: scan_digits_def parse_format_nat)
qed

lemma format_nat_hd: "format_nat n \<noteq> []" "is_digit (hd (format_nat n @ rest))"
  using format_nat_digits[of n] by (cases "format_nat n"; simp)+

lemma scan_uint_format:
  assumes "rest = [] \<or> \<not> is_digit (hd rest)" and "n < 2 ^ bits"
  shows "scan_uint bits (format_nat n @ rest) = Some (n, rest)"
  using assms format_nat_hd[of n] by (simp add: scan_uint_def scan_space_digit scan_digits_format)

lemma scan_literal_append: "scan_literal lit (lit @ s) = Some s"
  by (simp add: scan_literal_def)

lemma scan_int_format:
  assumes "0 \<le> v" and "is_i64 v"
  shows "scan_int (FormatInt v) = Some (v, [])"
proof -
  have sc: "scan_space (format_nat (nat v)) = Some (format_nat (nat v))"
    using format_nat_hd[of "nat v"] format_nat_hd(2)[of "nat v" "[]"] by (simp add: scan_space_digit)
  have "hd (format_nat (nat v)) \<noteq> CHR ''-''" "hd (format_nat (nat v)) \<noteq> CHR ''+''"
    using format_nat_hd(2)[of "nat v" "[]"] by (auto simp: is_digit_def within_def)
  then show ?thesis using assms scan_digits_format[of "[]" "nat v"] by (simp add: scan_int_def FormatInt_def sc)
qed

lemma scan_parameters_format:
  assumes "m < 2 ^ 32" and "t < 2 ^ 32" and "p < 2 ^ 8"
  shows "scan_parameters (''m='' @ format_nat m @ '',t='' @ format_nat t @ '',p='' @ format_nat p) =
    Some \<lparr>ap_memoryKiB = m, ap_iterations = t, ap_parallelism = p\<rparr>"
proof -
  have comma: "\<not> is_digit (CHR '','')" by (simp add: is_digit_def within_def)
  have s: "scan_uint 32 (format_nat m @ '',t='' @ format_nat t @ '',p='' @ format_nat p) = Some (m, '',t='' @ format_nat t @ '',p='' @ format_nat p)"
    "scan_uint 32 (format_nat t @ '',p='' @ format_nat p) = Some (t, '',p='' @ format_nat p)"
    "scan_uint 8 (format_nat p) = Some (p, [])"
    using assms scan_uint_format[of "[]" p 8] comma by (simp_all add: scan_uint_format)
  show ?thesis unfolding scan_parameters_def scan_literal_append bind.simps s prod.case by (rule refl)
qed

lemma dollar_free:
  "CHR 0x24 \<notin> set (format_nat n)" "CHR 0x24 \<notin> set (EncodeToString RawStdEncoding s)"
proof -
  show "CHR 0x24 \<notin> set (format_nat n)" using format_nat_digits[of n] by (auto simp: list_all_iff is_digit_def within_def)
  have "CHR 0x24 \<notin> set RawStdEncoding" by code_simp
  then show "CHR 0x24 \<notin> set (EncodeToString RawStdEncoding s)" using EncodeToString_chars[of RawStdEncoding s] by auto
qed

lemma split_encode_hash:
  assumes "a2_Version a2 = 19"
  shows "split_on (CHR 0x24) (encode_hash a2 salt key) =
    ['''', ''argon2id'', ''v='' @ FormatInt 19, ''m='' @ format_nat argon2MemoryKiB @ '',t='' @ format_nat argon2Iterations @ '',p='' @ format_nat argon2Parallelism,
     EncodeToString RawStdEncoding salt, EncodeToString RawStdEncoding key]"
proof -
  let ?v = "''v='' @ FormatInt 19" and ?p = "''m='' @ format_nat argon2MemoryKiB @ '',t='' @ format_nat argon2Iterations @ '',p='' @ format_nat argon2Parallelism"
  let ?s = "EncodeToString RawStdEncoding salt" and ?k = "EncodeToString RawStdEncoding key" and ?d = "CHR 0x24"
  have "encode_hash a2 salt key = [] @ ?d # ''argon2id'' @ ?d # ?v @ ?d # ?p @ ?d # ?s @ ?d # ?k"
    by (simp add: encode_hash_def dollar_def assms)
  moreover have "?d \<notin> set ?v" by (simp add: FormatInt_def dollar_free)
  moreover have "?d \<notin> set ?p" by (simp add: dollar_free)
  moreover have "?d \<notin> set ''argon2id''" by simp
  ultimately show ?thesis by (simp only: split_on_append split_on_last dollar_free empty_iff list.set not_False_eq_True)
qed

lemma length_encode_hash:
  assumes "a2_Version a2 = 19" and "length salt \<le> 64" and "length key \<le> 64"
  shows "length (encode_hash a2 salt key) \<le> 1024"
proof -
  have "length (FormatInt 19) = 2" "length (format_nat argon2MemoryKiB) = 5" "length (format_nat argon2Iterations) = 1" "length (format_nat argon2Parallelism) = 1"
    by code_simp+
  then show ?thesis using assms by (simp add: encode_hash_def dollar_def EncodeToString_def length_quanta)
qed

lemma parse_encode_hash:
  assumes "a2_Version a2 = 19" and "16 \<le> length salt" "length salt \<le> 64" and "16 \<le> length key" "length key \<le> 64"
  shows "parseArgon2idHash a2 (encode_hash a2 salt key) =
    Inr (\<lparr>ap_memoryKiB = argon2MemoryKiB, ap_iterations = argon2Iterations, ap_parallelism = argon2Parallelism\<rparr>, salt, key)"
proof -
  have v: "scan_version (''v='' @ FormatInt 19) = Some 19"
    using scan_int_format[of 19] scan_literal_append[of "''v=''" "FormatInt 19"]
    by (simp add: scan_version_def is_i64_def min_i64_def max_i64_def)
  have p: "scan_parameters (''m='' @ format_nat argon2MemoryKiB @ '',t='' @ format_nat argon2Iterations @ '',p='' @ format_nat argon2Parallelism) =
      Some \<lparr>ap_memoryKiB = argon2MemoryKiB, ap_iterations = argon2Iterations, ap_parallelism = argon2Parallelism\<rparr>"
    by (rule scan_parameters_format) (simp_all add: argon2_constants)
  have safe: "safe_parameters \<lparr>ap_memoryKiB = argon2MemoryKiB, ap_iterations = argon2Iterations, ap_parallelism = argon2Parallelism\<rparr>"
    by (simp add: safe_parameters_def argon2_constants)
  have blocks: "decode_block (EncodeToString RawStdEncoding salt) = Some salt" "decode_block (EncodeToString RawStdEncoding key) = Some key"
    using assms by (simp_all add: decode_block_def DecodeString_EncodeToString)
  show ?thesis using length_encode_hash[OF assms(1,3,5)] assms(1)
    unfolding parseArgon2idHash_def split_encode_hash[OF assms(1)] by (simp add: v[simplified] p[simplified] safe blocks)
qed

text \<open>A stored password hash verifies exactly the passwords with its key. For every password the hasher accepts, the encoded hash it returns
  parses again, the password itself is accepted without asking for a new hash, and any other password of acceptable length
  is accepted only if it derives the same Argon2id key. The key derivation is assumed to return keys of the length asked for.\<close>

theorem Argon2id_verifies:
  assumes "a2_Version a2 = 19" and keys: "\<forall>p s t m l n. length (a2_IDKey a2 p s t m l n) = n"
    and hash: "Argon2idHash a2 password random n = (Inr encoded, n')"
  shows "Argon2idVerify a2 password encoded = Inr (True, False) \<and>
    (\<exists>salt. length salt = 16 \<and> (\<forall>other. length other \<le> 1024 \<longrightarrow>
       Argon2idVerify a2 other encoded = Inr (a2_IDKey a2 other salt 2 19456 1 32 = a2_IDKey a2 password salt 2 19456 1 32, False)))"
proof -
  obtain b where pw: "length password \<le> 1024" and b: "encoded = encode_hash a2 (fill_bytes argon2SaltBytes b)
      (a2_IDKey a2 password (fill_bytes argon2SaltBytes b) argon2Iterations argon2MemoryKiB argon2Parallelism argon2KeyBytes)"
    using hash by (auto simp: Argon2idHash_def Let_def split: if_splits option.splits)
  let ?salt = "fill_bytes argon2SaltBytes b"
  have l: "length ?salt = 16" by (simp add: fill_bytes_def argon2_constants)
  have "parseArgon2idHash a2 encoded = Inr (\<lparr>ap_memoryKiB = argon2MemoryKiB, ap_iterations = argon2Iterations, ap_parallelism = argon2Parallelism\<rparr>, ?salt,
      a2_IDKey a2 password ?salt argon2Iterations argon2MemoryKiB argon2Parallelism argon2KeyBytes)"
    unfolding b by (rule parse_encode_hash) (use assms(1) l keys in \<open>simp_all add: argon2_constants\<close>)
  then have "Argon2idVerify a2 other encoded = Inr (a2_IDKey a2 other ?salt 2 19456 1 32 = a2_IDKey a2 password ?salt 2 19456 1 32, False)"
    if "length other \<le> 1024" for other
    using that keys by (simp add: Argon2idVerify_def argon2_constants)
  then show ?thesis using pw l by auto
qed

definition ex_argon2 :: argon2 where
  "ex_argon2 = \<lparr>a2_Version = 19, a2_IDKey = (\<lambda>p s t m l n. take n (p @ s @ replicate n (CHR 0x00)))\<rparr>"

theorem Argon2id_verifies_witness:
  "\<exists>encoded. fst (Argon2idHash ex_argon2 ''correct horse'' (\<lambda>_. Some ''salt'') 0) = Inr encoded \<and>
     Argon2idVerify ex_argon2 ''correct horse'' encoded = Inr (True, False)"
proof -
  have v: "a2_Version ex_argon2 = 19" and k: "\<forall>p s t m l n. length (a2_IDKey ex_argon2 p s t m l n) = n"
    by (auto simp: ex_argon2_def min_def)
  obtain encoded where "Argon2idHash ex_argon2 ''correct horse'' (\<lambda>_. Some ''salt'') 0 = (Inr encoded, 1)"
    by (simp add: Argon2idHash_def Let_def)
  with Argon2id_verifies[OF v k this] show ?thesis by simp
qed

end
