(* ===== verification/Guard_Store.thy ===== *)
theory Guard_Store
  imports Guard_Password
begin

text \<open>
  \<open>internal/repository/memory_guard.go\<close>: the in-memory Guard store. Every method runs under the store's mutex and is one step on the record
  \<open>guard_world\<close>, which adds the store's maps and the state of the login limiter to the shared \<open>world\<close>. The clone helpers of the
  source copy slices so that callers do not alias stored records; the values of the model are immutable.
\<close>

record 'l guard_world = world +
  g_accounts :: "(string, Account) gomap"
  g_accountByUsername :: "(string, string) gomap"
  g_bundles :: "(string, PolicyBundle) gomap"
  g_roles :: "(string, Role) gomap"
  g_assignments :: "(string, RoleAssignment) gomap"
  g_resourceOwnership :: "(string, ResourceOwnership) gomap"
  g_externalIdentities :: "(string, ExternalIdentity) gomap"
  g_externalAssignments :: "(string, string) gomap"
  g_samlRequests :: "(string, SAMLRequest) gomap"
  g_sessions :: "(string, Session) gomap"
  g_sessionByTokenHash :: "(string, string) gomap"
  g_limiter :: 'l

type_synonym ('l, 'a) guard_op = "('l guard_world, guard_sentinel, 'a) op"

abbreviation guard_fail :: "guard_sentinel \<Rightarrow> ('l, 'a) guard_op" where
  "guard_fail e \<equiv> raiseE (Sentinel e)"

abbreviation guard_error :: "string \<Rightarrow> ('l, 'a) guard_op" where
  "guard_error m \<equiv> raiseE (Errorf m)"

definition nul :: string where "nul = [CHR 0x00]"

definition samlRequestKey :: "string \<Rightarrow> string \<Rightarrow> string" where
  "samlRequestKey organizationID stateHash = organizationID @ nul @ hex_encode stateHash"

definition guardUsernameKey :: "string \<Rightarrow> string \<Rightarrow> string" where
  "guardUsernameKey organizationID normalizedUsername = organizationID @ nul @ normalizedUsername"

definition guardExternalIdentityKey :: "string \<Rightarrow> string \<Rightarrow> string \<Rightarrow> string" where
  "guardExternalIdentityKey organizationID issuer subject = organizationID @ nul @ issuer @ nul @ subject"

definition guardExternalAssignmentKey :: "string \<Rightarrow> string \<Rightarrow> string \<Rightarrow> string" where
  "guardExternalAssignmentKey organizationID accountID source = organizationID @ nul @ accountID @ nul @ source"

definition guardResourceOwnershipKey :: "string \<Rightarrow> string \<Rightarrow> string \<Rightarrow> string" where
  "guardResourceOwnershipKey organizationID resourceType resourceID = organizationID @ nul @ resourceType @ nul @ resourceID"

section \<open>Sign-in requests\<close>

definition storeCreateSAMLRequest :: "SAMLRequest \<Rightarrow> ('l, unit) guard_op" where
  "storeCreateSAMLRequest request w =
     (case SAMLRequest_Validate request of Some e \<Rightarrow> (Inl (Errorf e), w)
      | None \<Rightarrow>
          let live = filter (\<lambda>(_, stored). Before (sr_CreatedAt request) (sr_ExpiresAt stored)) (g_samlRequests w);
              key = samlRequestKey (sr_OrganizationID request) (sr_StateHash request)
          in if map_of live key \<noteq> None then (Inl (Sentinel GuardErrConflict), w\<lparr>g_samlRequests := live\<rparr>)
             else (Inr (), w\<lparr>g_samlRequests := AList.update key request live\<rparr>))"

definition storeConsumeSAMLRequest :: "string \<Rightarrow> string \<Rightarrow> gotime \<Rightarrow> ('l, SAMLRequest) guard_op" where
  "storeConsumeSAMLRequest organizationID stateHash now w =
     (if organizationID = '''' \<or> stateHash = [] \<or> IsZero now
      then (Inl (Errorf ''organization, RelayState hash, and current time are required''), w)
      else
        let key = samlRequestKey organizationID stateHash; w' = w\<lparr>g_samlRequests := AList.delete key (g_samlRequests w)\<rparr>
        in case map_of (g_samlRequests w) key of
             None \<Rightarrow> (Inl (Sentinel GuardErrNotFound), w')
           | Some request \<Rightarrow>
               if \<not> Before now (sr_ExpiresAt request) then (Inl (Sentinel GuardErrNotFound), w') else (Inr request, w'))"

section \<open>Accounts\<close>

definition organization_has_account :: "string \<Rightarrow> 'l guard_world \<Rightarrow> bool" where
  "organization_has_account organizationID w = list_ex (\<lambda>(_, account). acc_OrganizationID account = organizationID) (g_accounts w)"

definition storeBootstrapRequired :: "string \<Rightarrow> ('l, bool) guard_op" where
  "storeBootstrapRequired organizationID =
     (if organizationID = '''' then guard_error ''organization id is required''
      else queryE (\<lambda>w. Inr (\<not> organization_has_account organizationID w)))"

definition storeBootstrapAdministrator :: "AdministratorBootstrap \<Rightarrow> ('l, Account) guard_op" where
  "storeBootstrapAdministrator b w =
     (case AdministratorBootstrap_Validate b of Some e \<Rightarrow> (Inl (Errorf e), w)
      | None \<Rightarrow>
          let account = ab_Account b; usernameKey = guardUsernameKey (acc_OrganizationID account) (acc_NormalizedUsername account) in
          if organization_has_account (acc_OrganizationID account) w \<or> map_of (g_accountByUsername w) usernameKey \<noteq> None
          then (Inl (Sentinel ErrBootstrapComplete), w)
          else (Inr account, w\<lparr>g_accounts := AList.update (acc_ID account) account (g_accounts w),
                 g_accountByUsername := AList.update usernameKey (acc_ID account) (g_accountByUsername w),
                 g_bundles := AList.update (pb_ID (ab_Bundle b)) (ab_Bundle b) (g_bundles w),
                 g_roles := AList.update (role_ID (ab_Role b)) (ab_Role b) (g_roles w),
                 g_assignments := AList.update (ra_ID (ab_Assignment b)) (ab_Assignment b) (g_assignments w)\<rparr>))"

definition storeFindAccountByUsername :: "string \<Rightarrow> string \<Rightarrow> ('l, Account) guard_op" where
  "storeFindAccountByUsername organizationID normalizedUsername = queryE (\<lambda>w.
     case map_of (g_accountByUsername w) (guardUsernameKey organizationID normalizedUsername) of
       None \<Rightarrow> Inl (Sentinel GuardErrNotFound)
     | Some accountID \<Rightarrow> Inr (case map_of (g_accounts w) accountID of None \<Rightarrow> zero_account | Some account \<Rightarrow> account))"

definition storeUpdatePasswordHash :: "string \<Rightarrow> string \<Rightarrow> gotime \<Rightarrow> ('l, unit) guard_op" where
  "storeUpdatePasswordHash accountID passwordHash updatedAt w =
     (if passwordHash = '''' \<or> IsZero updatedAt then (Inl (Errorf ''password hash and update time are required''), w)
      else case map_of (g_accounts w) accountID of
        None \<Rightarrow> (Inl (Sentinel GuardErrNotFound), w)
      | Some account \<Rightarrow>
          (Inr (), w\<lparr>g_accounts := AList.update accountID (account\<lparr>acc_PasswordHash := passwordHash, acc_UpdatedAt := updatedAt\<rparr>) (g_accounts w)\<rparr>))"

section \<open>External accounts\<close>

definition administrator_role_id :: "string \<Rightarrow> 'l guard_world \<Rightarrow> string option" where
  "administrator_role_id org w =
     map_option (\<lambda>(_, role). role_ID role) (find (\<lambda>(_, role). role_OrganizationID role = org \<and> role_Name role = ''Administrator'') (g_roles w))"

text \<open>The part of \<open>ProvisionExternalAccount\<close> that finds or creates the account.\<close>

definition provision_account :: "ExternalAccountProvisioning \<Rightarrow> ('l, Account \<times> bool) guard_op" where
  "provision_account p w =
     (let account = eap_Account p; identity = eap_Identity p;
          identityKey = guardExternalIdentityKey (ei_OrganizationID identity) (ei_Issuer identity) (ei_Subject identity)
      in case map_of (g_externalIdentities w) identityKey of
           Some externalIdentity \<Rightarrow>
             (case map_of (g_accounts w) (ei_AccountID externalIdentity) of
                None \<Rightarrow> (Inl (Sentinel GuardErrNotFound), w)
              | Some stored \<Rightarrow>
                  if acc_OrganizationID stored \<noteq> acc_OrganizationID account then (Inl (Sentinel GuardErrNotFound), w)
                  else (Inr (stored\<lparr>acc_Email := acc_Email account, acc_DisplayName := acc_DisplayName account,
                               acc_UpdatedAt := acc_UpdatedAt account\<rparr>, False),
                        w\<lparr>g_externalIdentities := AList.update identityKey (externalIdentity\<lparr>ei_UpdatedAt := ei_UpdatedAt identity\<rparr>)
                             (g_externalIdentities w)\<rparr>))
         | None \<Rightarrow>
             let usernameKey = guardUsernameKey (acc_OrganizationID account) (acc_NormalizedUsername account) in
             if map_of (g_accounts w) (acc_ID account) \<noteq> None then (Inl (Errorf ''external account already exists''), w)
             else if map_of (g_accountByUsername w) usernameKey \<noteq> None then (Inl (Errorf ''external account username already exists''), w)
             else (Inr (account, True),
                   w\<lparr>g_accounts := AList.update (acc_ID account) account (g_accounts w),
                     g_accountByUsername := AList.update usernameKey (acc_ID account) (g_accountByUsername w),
                     g_externalIdentities := AList.update identityKey identity (g_externalIdentities w)\<rparr>))"

text \<open>The part that grants or withdraws the provider-managed administrator assignment.\<close>

definition is_organization_administration :: "string \<Rightarrow> string \<Rightarrow> string \<Rightarrow> RoleAssignment \<Rightarrow> bool" where
  "is_organization_administration org accountID roleID a \<longleftrightarrow> ra_OrganizationID a = org \<and> ra_AccountID a = accountID \<and> ra_RoleID a = roleID \<and>
     gs_Kind (ra_Scope a) = ScopeOrganization \<and> gs_ResourceID (ra_Scope a) = org"

definition sync_administrator :: "ExternalAccountProvisioning \<Rightarrow> string \<Rightarrow> Account \<Rightarrow> 'l guard_world \<Rightarrow> 'l guard_world" where
  "sync_administrator p administratorRoleID account w =
     (let org = acc_OrganizationID account; assignmentKey = guardExternalAssignmentKey org (acc_ID account) (eap_AssignmentSource p) in
      if eap_Administrator p
      then (if list_ex (\<lambda>(_, a). is_organization_administration org (acc_ID account) administratorRoleID a) (g_assignments w) then w
            else w\<lparr>g_assignments := AList.update (eap_AdministratorAssignmentID p)
                     \<lparr>ra_ID = eap_AdministratorAssignmentID p, ra_OrganizationID = org, ra_AccountID = acc_ID account,
                      ra_RoleID = administratorRoleID, ra_Scope = organization_scope org, ra_Source = eap_AssignmentSource p,
                      ra_CreatedAt = acc_UpdatedAt (eap_Account p)\<rparr> (g_assignments w),
                   g_externalAssignments := AList.update assignmentKey (eap_AdministratorAssignmentID p) (g_externalAssignments w)\<rparr>)
      else case map_of (g_externalAssignments w) assignmentKey of
             None \<Rightarrow> w
           | Some assignmentID \<Rightarrow>
               if assignmentID = '''' then w
               else w\<lparr>g_assignments := AList.delete assignmentID (g_assignments w),
                      g_externalAssignments := AList.delete assignmentKey (g_externalAssignments w)\<rparr>)"

definition storeProvisionExternalAccount :: "ExternalAccountProvisioning \<Rightarrow> ('l, Account \<times> bool) guard_op" where
  "storeProvisionExternalAccount p =
     tryE (checkE (map_option Errorf (Provisioning_Validate p))) (\<lambda>_.
     tryE (if eap_Administrator p
           then queryE (\<lambda>w. case administrator_role_id (acc_OrganizationID (eap_Account p)) w of
                  None \<Rightarrow> Inl (Sentinel GuardErrNotFound) | Some i \<Rightarrow> if i = '''' then Inl (Sentinel GuardErrNotFound) else Inr i)
           else returnE '''') (\<lambda>administratorRoleID.
     tryE (provision_account p) (\<lambda>(account, created).
     tryE (modifyE (\<lambda>w. (sync_administrator p administratorRoleID account w))) (\<lambda>_.
     tryE (modifyE (\<lambda>w. w\<lparr>g_accounts := AList.update (acc_ID account) account (g_accounts w)\<rparr>)) (\<lambda>_.
     returnE (account, created))))))"

section \<open>Access\<close>

text \<open>The loop that keeps the first element of each key.\<close>

fun first_by :: "('a \<Rightarrow> 'k) \<Rightarrow> 'k list \<Rightarrow> 'a list \<Rightarrow> 'a list" where
  "first_by f seen [] = []"
| "first_by f seen (x # xs) = (if f x \<in> set seen then first_by f seen xs else x # first_by f (f x # seen) xs)"

definition bundle_permissions :: "'l guard_world \<Rightarrow> string \<Rightarrow> Permission list" where
  "bundle_permissions w bundleID = (case map_of (g_bundles w) bundleID of None \<Rightarrow> [] | Some b \<Rightarrow> pb_Permissions b)"

definition role_permissions :: "'l guard_world \<Rightarrow> Role \<Rightarrow> Permission list" where
  "role_permissions w role = role_Permissions role @ concat (map (bundle_permissions w) (role_PolicyBundleIDs role))"

definition grant_key :: "Grant \<Rightarrow> string" where
  "grant_key g = gr_Permission g @ nul @ gs_Kind (gr_Scope g) @ nul @ gs_OrganizationID (gr_Scope g) @ nul @ gs_ResourceID (gr_Scope g)"

definition account_roles :: "string \<Rightarrow> string \<Rightarrow> 'l guard_world \<Rightarrow> (RoleAssignment \<times> Role) list" where
  "account_roles organizationID accountID w =
     List.map_filter (\<lambda>(_, a). if ra_OrganizationID a \<noteq> organizationID \<or> ra_AccountID a \<noteq> accountID then None
        else map_option (Pair a) (map_of (g_roles w) (ra_RoleID a))) (g_assignments w)"

definition candidate_grants :: "'l guard_world \<Rightarrow> (RoleAssignment \<times> Role) list \<Rightarrow> Grant list" where
  "candidate_grants w ars = concat (map (\<lambda>(a, role). map (\<lambda>p. \<lparr>gr_Permission = p, gr_Scope = ra_Scope a\<rparr>) (role_permissions w role)) ars)"

definition storeAccessForAccount :: "unicode \<Rightarrow> string \<Rightarrow> string \<Rightarrow> ('l, Access) guard_op" where
  "storeAccessForAccount u organizationID accountID = queryE (\<lambda>w.
     case map_of (g_accounts w) accountID of
       None \<Rightarrow> Inl (Sentinel GuardErrNotFound)
     | Some account \<Rightarrow>
         if acc_OrganizationID account \<noteq> organizationID then Inl (Sentinel GuardErrNotFound)
         else let ars = account_roles organizationID accountID w in
           Inr (AugmentAccessGrants u organizationID
             \<lparr>ax_Account = account\<lparr>acc_PasswordHash := ''''\<rparr>, ax_Roles = sort_key role_Name (map snd ars),
              ax_Grants = sort_grants (first_by grant_key [] (candidate_grants w ars))\<rparr>))"

definition storeListAuthorization :: "string \<Rightarrow> ('l, AuthorizationDirectory) guard_op" where
  "storeListAuthorization organizationID =
     (if organizationID = '''' then guard_error ''organization id is required''
      else queryE (\<lambda>w. Inr
        \<lparr>ad_Accounts = sort_key (\<lambda>a. (acc_DisplayName a, acc_ID a))
           (map (\<lambda>a. a\<lparr>acc_PasswordHash := ''''\<rparr>) (filter (\<lambda>a. acc_OrganizationID a = organizationID) (map snd (g_accounts w)))),
         ad_Roles = sort_key (\<lambda>r. (role_Name r, role_ID r)) (filter (\<lambda>r. role_OrganizationID r = organizationID) (map snd (g_roles w))),
         ad_PolicyBundles = sort_key (\<lambda>b. (pb_Name b, pb_ID b)) (filter (\<lambda>b. pb_OrganizationID b = organizationID) (map snd (g_bundles w))),
         ad_AvailablePermissions = [],
         ad_Assignments = sort_key (\<lambda>a. (nanos (ra_CreatedAt a), ra_ID a))
           (filter (\<lambda>a. ra_OrganizationID a = organizationID) (map snd (g_assignments w)))\<rparr>))"

section \<open>Roles and assignments\<close>

definition storeCreateRole :: "unicode \<Rightarrow> Role \<Rightarrow> ('l, unit) guard_op" where
  "storeCreateRole u role w =
     (case Role_Validate role of Some e \<Rightarrow> (Inl (Errorf e), w)
      | None \<Rightarrow>
          if role_Source role \<noteq> LocalRoleSource then (Inl (Sentinel ErrBuiltInRole), w)
          else if map_of (g_roles w) (role_ID role) \<noteq> None then (Inl (Sentinel GuardErrConflict), w)
          else if list_ex (\<lambda>(_, existing). role_OrganizationID existing = role_OrganizationID role \<and>
                 ToLower u (TrimSpace (role_Name existing)) = ToLower u (TrimSpace (role_Name role))) (g_roles w)
          then (Inl (Sentinel GuardErrConflict), w)
          else if list_ex (\<lambda>bundleID. case map_of (g_bundles w) bundleID of None \<Rightarrow> True
                 | Some bundle \<Rightarrow> pb_OrganizationID bundle \<noteq> role_OrganizationID role) (role_PolicyBundleIDs role)
          then (Inl (Sentinel GuardErrNotFound), w)
          else (Inr (), w\<lparr>g_roles := AList.update (role_ID role) role (g_roles w)\<rparr>))"

definition storeDeleteRole :: "string \<Rightarrow> string \<Rightarrow> ('l, unit) guard_op" where
  "storeDeleteRole organizationID roleID w =
     (if organizationID = '''' \<or> roleID = '''' then (Inl (Errorf ''organization id and role id are required''), w)
      else case map_of (g_roles w) roleID of
        None \<Rightarrow> (Inl (Sentinel GuardErrNotFound), w)
      | Some role \<Rightarrow>
          if role_OrganizationID role \<noteq> organizationID then (Inl (Sentinel GuardErrNotFound), w)
          else if role_Source role \<noteq> LocalRoleSource then (Inl (Sentinel ErrBuiltInRole), w)
          else if list_ex (\<lambda>(_, a). ra_OrganizationID a = organizationID \<and> ra_RoleID a = roleID) (g_assignments w)
          then (Inl (Sentinel GuardErrConflict), w)
          else (Inr (), w\<lparr>g_roles := AList.delete roleID (g_roles w)\<rparr>))"

definition storeCreateRoleAssignment :: "RoleAssignment \<Rightarrow> ('l, unit) guard_op" where
  "storeCreateRoleAssignment assignment w =
     (case RoleAssignment_Validate assignment of Some e \<Rightarrow> (Inl (Errorf e), w)
      | None \<Rightarrow>
          if ra_Source assignment \<noteq> LocalAssignmentSource then (Inl (Sentinel ErrManagedAssignment), w)
          else case (map_of (g_accounts w) (ra_AccountID assignment), map_of (g_roles w) (ra_RoleID assignment)) of
            (Some account, Some role) \<Rightarrow>
              if acc_OrganizationID account \<noteq> ra_OrganizationID assignment \<or> role_OrganizationID role \<noteq> ra_OrganizationID assignment
              then (Inl (Sentinel GuardErrNotFound), w)
              else if map_of (g_assignments w) (ra_ID assignment) \<noteq> None then (Inl (Sentinel GuardErrConflict), w)
              else if list_ex (\<lambda>(_, existing). ra_OrganizationID existing = ra_OrganizationID assignment \<and>
                     ra_AccountID existing = ra_AccountID assignment \<and> ra_RoleID existing = ra_RoleID assignment \<and>
                     gs_Kind (ra_Scope existing) = gs_Kind (ra_Scope assignment) \<and>
                     gs_ResourceID (ra_Scope existing) = gs_ResourceID (ra_Scope assignment)) (g_assignments w)
              then (Inl (Sentinel GuardErrConflict), w)
              else (Inr (), w\<lparr>g_assignments := AList.update (ra_ID assignment) assignment (g_assignments w)\<rparr>)
          | _ \<Rightarrow> (Inl (Sentinel GuardErrNotFound), w))"

definition roleGrantsPermission :: "'l guard_world \<Rightarrow> string \<Rightarrow> Permission \<Rightarrow> bool" where
  "roleGrantsPermission w roleID permission =
     (case map_of (g_roles w) roleID of None \<Rightarrow> False
      | Some role \<Rightarrow> List.member (role_Permissions role) permission \<or>
          list_ex (\<lambda>bundleID. List.member (bundle_permissions w bundleID) permission) (role_PolicyBundleIDs role))"

definition is_manager_assignment :: "'l guard_world \<Rightarrow> string \<Rightarrow> RoleAssignment \<Rightarrow> bool" where
  "is_manager_assignment w organizationID a \<longleftrightarrow> gs_Kind (ra_Scope a) = ScopeOrganization \<and> gs_ResourceID (ra_Scope a) = organizationID \<and>
     roleGrantsPermission w (ra_RoleID a) PermissionGuardManage"

definition active_account :: "'l guard_world \<Rightarrow> string \<Rightarrow> string \<Rightarrow> bool" where
  "active_account w organizationID accountID =
     (case map_of (g_accounts w) accountID of None \<Rightarrow> False
      | Some account \<Rightarrow> acc_OrganizationID account = organizationID \<and> acc_Status account = ''active'')"

definition remainingManagers :: "'l guard_world \<Rightarrow> string \<Rightarrow> string \<Rightarrow> nat" where
  "remainingManagers w organizationID assignmentID =
     length (filter (\<lambda>(_, candidate). ra_ID candidate \<noteq> assignmentID \<and> ra_OrganizationID candidate = organizationID \<and>
       is_manager_assignment w organizationID candidate \<and> active_account w organizationID (ra_AccountID candidate)) (g_assignments w))"

definition storeDeleteRoleAssignment :: "string \<Rightarrow> string \<Rightarrow> ('l, RoleAssignment) guard_op" where
  "storeDeleteRoleAssignment organizationID assignmentID w =
     (if organizationID = '''' \<or> assignmentID = '''' then (Inl (Errorf ''organization id and assignment id are required''), w)
      else case map_of (g_assignments w) assignmentID of
        None \<Rightarrow> (Inl (Sentinel GuardErrNotFound), w)
      | Some assignment \<Rightarrow>
          if ra_OrganizationID assignment \<noteq> organizationID then (Inl (Sentinel GuardErrNotFound), w)
          else if ra_Source assignment \<noteq> LocalAssignmentSource then (Inl (Sentinel ErrManagedAssignment), w)
          else if is_manager_assignment w organizationID assignment \<and> remainingManagers w organizationID (ra_ID assignment) = 0
          then (Inl (Sentinel ErrLastAdministrator), w)
          else (Inr assignment, w\<lparr>g_assignments := AList.delete assignmentID (g_assignments w)\<rparr>))"

section \<open>Resource ownership\<close>

definition ownership_key :: "ResourceOwnership \<Rightarrow> string" where
  "ownership_key r = guardResourceOwnershipKey (ro_OrganizationID r) (ro_ResourceType r) (ro_ResourceID r)"

definition storeRegisterResourceOwnership :: "ResourceOwnership \<Rightarrow> ('l, ResourceOwnership \<times> bool) guard_op" where
  "storeRegisterResourceOwnership ownership w =
     (case ResourceOwnership_Validate ownership of Some e \<Rightarrow> (Inl (Errorf e), w)
      | None \<Rightarrow>
          if \<not> ro_WriteLocked ownership then (Inl (Errorf ''new resource ownership must be write-locked''), w)
          else case map_of (g_resourceOwnership w) (ownership_key ownership) of
            Some existing \<Rightarrow>
              if ro_SourceSystemID existing \<noteq> ro_SourceSystemID ownership \<or> ro_SourceRecordID existing \<noteq> ro_SourceRecordID ownership
              then (Inl (Sentinel GuardErrConflict), w) else (Inr (existing, False), w)
          | None \<Rightarrow>
              if list_ex (\<lambda>(_, existing). ro_OrganizationID existing = ro_OrganizationID ownership \<and>
                   ro_ResourceType existing = ro_ResourceType ownership \<and> ro_SourceSystemID existing = ro_SourceSystemID ownership \<and>
                   ro_SourceRecordID existing = ro_SourceRecordID ownership) (g_resourceOwnership w)
              then (Inl (Sentinel GuardErrConflict), w)
              else (Inr (ownership, True), w\<lparr>g_resourceOwnership := AList.update (ownership_key ownership) ownership (g_resourceOwnership w)\<rparr>))"

definition storeListResourceOwnership :: "string \<Rightarrow> ('l, ResourceOwnership list) guard_op" where
  "storeListResourceOwnership organizationID =
     (if organizationID = '''' then guard_error ''organization id is required''
      else queryE (\<lambda>w. Inr (sort_key (\<lambda>r. (nanos (ro_RegisteredAt r), ro_ResourceType r, ro_ResourceID r))
        (filter (\<lambda>r. ro_OrganizationID r = organizationID) (map snd (g_resourceOwnership w))))))"

definition storeGetResourceOwnership :: "string \<Rightarrow> string \<Rightarrow> string \<Rightarrow> ('l, ResourceOwnership) guard_op" where
  "storeGetResourceOwnership organizationID resourceType resourceID =
     (if organizationID = '''' \<or> resourceType = '''' \<or> resourceID = ''''
      then guard_error ''organization, resource type, and resource id are required''
      else queryE (\<lambda>w. case map_of (g_resourceOwnership w) (guardResourceOwnershipKey organizationID resourceType resourceID) of
        None \<Rightarrow> Inl (Sentinel GuardErrNotFound) | Some ownership \<Rightarrow> Inr ownership))"

definition storeClaimResourceOwnership :: "string \<Rightarrow> string \<Rightarrow> string \<Rightarrow> string \<Rightarrow> gotime \<Rightarrow> ('l, ResourceOwnership) guard_op" where
  "storeClaimResourceOwnership organizationID resourceType resourceID claimedBy claimedAt w =
     (if organizationID = '''' \<or> resourceType = '''' \<or> resourceID = '''' \<or> claimedBy = '''' \<or> IsZero claimedAt
      then (Inl (Errorf ''complete ownership claim is required''), w)
      else
        let key = guardResourceOwnershipKey organizationID resourceType resourceID in
        case map_of (g_resourceOwnership w) key of
          None \<Rightarrow> (Inl (Sentinel GuardErrNotFound), w)
        | Some ownership \<Rightarrow>
            if \<not> ro_WriteLocked ownership then (Inl (Sentinel GuardErrConflict), w)
            else if \<not> active_account w organizationID claimedBy then (Inl (Sentinel GuardErrNotFound), w)
            else let claimed = ownership\<lparr>ro_WriteLocked := False, ro_ClaimedBy := claimedBy, ro_ClaimedAt := Some claimedAt\<rparr>
                 in (Inr claimed, w\<lparr>g_resourceOwnership := AList.update key claimed (g_resourceOwnership w)\<rparr>))"

definition storeDeleteResourceOwnership :: "ResourceOwnership \<Rightarrow> ('l, unit) guard_op" where
  "storeDeleteResourceOwnership ownership w =
     (if ResourceOwnership_Validate ownership \<noteq> None \<or> \<not> ro_WriteLocked ownership
      then (Inl (Errorf ''valid write-locked ownership is required''), w)
      else case map_of (g_resourceOwnership w) (ownership_key ownership) of
        None \<Rightarrow> (Inl (Sentinel GuardErrNotFound), w)
      | Some existing \<Rightarrow>
          if ro_SourceSystemID existing \<noteq> ro_SourceSystemID ownership \<or> ro_SourceRecordID existing \<noteq> ro_SourceRecordID ownership \<or>
             \<not> ro_WriteLocked existing \<or> \<not> Equal (ro_RegisteredAt existing) (ro_RegisteredAt ownership)
          then (Inl (Sentinel GuardErrNotFound), w)
          else (Inr (), w\<lparr>g_resourceOwnership := AList.delete (ownership_key ownership) (g_resourceOwnership w)\<rparr>))"

definition same_claim_time :: "gotime option \<Rightarrow> gotime option \<Rightarrow> bool" where
  "same_claim_time x y = (case (x, y) of (Some t, Some t') \<Rightarrow> Equal t t' | _ \<Rightarrow> False)"

definition storeRestoreResourceOwnershipLock :: "ResourceOwnership \<Rightarrow> ('l, unit) guard_op" where
  "storeRestoreResourceOwnershipLock claimed w =
     (if ResourceOwnership_Validate claimed \<noteq> None \<or> ro_WriteLocked claimed \<or> ro_ClaimedAt claimed = None
      then (Inl (Errorf ''valid claimed ownership is required''), w)
      else case map_of (g_resourceOwnership w) (ownership_key claimed) of
        None \<Rightarrow> (Inl (Sentinel GuardErrNotFound), w)
      | Some existing \<Rightarrow>
          if ro_WriteLocked existing \<or> ro_SourceSystemID existing \<noteq> ro_SourceSystemID claimed \<or>
             ro_SourceRecordID existing \<noteq> ro_SourceRecordID claimed \<or> ro_ClaimedBy existing \<noteq> ro_ClaimedBy claimed \<or>
             \<not> same_claim_time (ro_ClaimedAt existing) (ro_ClaimedAt claimed)
          then (Inl (Sentinel GuardErrNotFound), w)
          else (Inr (), w\<lparr>g_resourceOwnership := AList.update (ownership_key claimed)
                  (existing\<lparr>ro_WriteLocked := True, ro_ClaimedBy := '''', ro_ClaimedAt := None\<rparr>) (g_resourceOwnership w)\<rparr>))"

section \<open>Sessions\<close>

definition storeCreateSession :: "Session \<Rightarrow> ('l, unit) guard_op" where
  "storeCreateSession session w =
     (if ses_ID session = '''' \<or> ses_OrganizationID session = '''' \<or> ses_AccountID session = '''' \<or> length (ses_TokenHash session) \<noteq> 32 \<or>
         length (ses_CSRFHash session) \<noteq> 32 \<or> IsZero (ses_CreatedAt session) \<or> \<not> Before (ses_CreatedAt session) (ses_ExpiresAt session)
      then (Inl (Errorf ''complete session identity, hashes, and lifetime are required''), w)
      else case map_of (g_accounts w) (ses_AccountID session) of
        None \<Rightarrow> (Inl (Sentinel GuardErrNotFound), w)
      | Some account \<Rightarrow>
          if acc_OrganizationID account \<noteq> ses_OrganizationID session then (Inl (Sentinel GuardErrNotFound), w)
          else let tokenKey = hex_encode (ses_TokenHash session) in
            if map_of (g_sessions w) (ses_ID session) \<noteq> None then (Inl (Errorf ''session already exists''), w)
            else if map_of (g_sessionByTokenHash w) tokenKey \<noteq> None then (Inl (Errorf ''session token already exists''), w)
            else (Inr (), w\<lparr>g_sessions := AList.update (ses_ID session) session (g_sessions w),
                            g_sessionByTokenHash := AList.update tokenKey (ses_ID session) (g_sessionByTokenHash w)\<rparr>))"

definition stored_session :: "'l guard_world \<Rightarrow> string \<Rightarrow> Session" where
  "stored_session w sessionID = (case map_of (g_sessions w) sessionID of None \<Rightarrow> zero_session | Some session \<Rightarrow> session)"

definition storeFindSessionByTokenHash :: "unicode \<Rightarrow> string \<Rightarrow> string \<Rightarrow> gotime \<Rightarrow> ('l, Session \<times> Access) guard_op" where
  "storeFindSessionByTokenHash u organizationID tokenHash now =
     (if length tokenHash \<noteq> 32 then guard_fail GuardErrNotFound
      else tryE (queryE (\<lambda>w. case map_of (g_sessionByTokenHash w) (hex_encode tokenHash) of
             None \<Rightarrow> Inl (Sentinel GuardErrNotFound)
           | Some sessionID \<Rightarrow>
               let session = stored_session w sessionID in
               if ses_OrganizationID session \<noteq> organizationID \<or> ses_RevokedAt session \<noteq> None \<or> \<not> Before now (ses_ExpiresAt session) \<or>
                  ses_TokenHash session \<noteq> tokenHash
               then Inl (Sentinel GuardErrNotFound) else Inr session)) (\<lambda>session.
           tryE (storeAccessForAccount u organizationID (ses_AccountID session)) (\<lambda>access.
           returnE (session, access))))"

definition storeUpdateSessionCSRF :: "string \<Rightarrow> string \<Rightarrow> ('l, unit) guard_op" where
  "storeUpdateSessionCSRF sessionID csrfHash w =
     (if length csrfHash \<noteq> 32 then (Inl (Errorf ''csrf hash must contain 32 bytes''), w)
      else case map_of (g_sessions w) sessionID of
        None \<Rightarrow> (Inl (Sentinel GuardErrNotFound), w)
      | Some session \<Rightarrow>
          if ses_RevokedAt session \<noteq> None then (Inl (Sentinel GuardErrNotFound), w)
          else (Inr (), w\<lparr>g_sessions := AList.update sessionID (session\<lparr>ses_CSRFHash := csrfHash\<rparr>) (g_sessions w)\<rparr>))"

definition storeRevokeSession :: "string \<Rightarrow> gotime \<Rightarrow> ('l, unit) guard_op" where
  "storeRevokeSession sessionID revokedAt w =
     (if IsZero revokedAt then (Inl (Errorf ''revocation time is required''), w)
      else case map_of (g_sessions w) sessionID of
        None \<Rightarrow> (Inl (Sentinel GuardErrNotFound), w)
      | Some session \<Rightarrow> (Inr (), w\<lparr>g_sessions := AList.update sessionID (session\<lparr>ses_RevokedAt := Some revokedAt\<rparr>) (g_sessions w)\<rparr>))"

end
