(* ===== verification/Guard_Service.thy ===== *)
theory Guard_Service
  imports Guard_Store
begin

text \<open>
  \<open>internal/guard/service.go\<close>: authentication, sessions, authorization and resource ownership. The service record carries what
  \<open>NewService\<close> is given: the password hasher, the login limiter (a record of operations on its own state, as \<open>AttemptLimiter\<close>
  is an interface), the organization, the bootstrap token and the session lifetime. SHA-256, the case tables and the address
  parser of \<open>net/mail\<close> are parameters. A request context may be cancelled between calls of the limiter, so it carries
  one context per call.
\<close>

record 'l limiter_ops =
  lo_Allow :: "cache_ctx \<Rightarrow> string \<Rightarrow> gotime \<Rightarrow> ('l, cache_sentinel, bool) op"
  lo_Failure :: "cache_ctx \<Rightarrow> string \<Rightarrow> gotime \<Rightarrow> ('l, cache_sentinel, unit) op"
  lo_Reset :: "cache_ctx \<Rightarrow> string \<Rightarrow> ('l, cache_sentinel, unit) op"

record 'l guard_service =
  gsv_organizationID :: string
  gsv_hasher :: PasswordHasher
  gsv_limiter :: "'l limiter_ops"
  gsv_bootstrapTokenHash :: string
  gsv_bootstrapTokenRequired :: bool
  gsv_sessionTTL :: duration
  gsv_dummyPasswordHash :: string
  gsv_unicode :: unicode
  gsv_sha256 :: "string \<Rightarrow> string"
  gsv_ParseAddress :: "string \<Rightarrow> string option"

record guard_ctx = ctx +
  gcx_limiter :: "nat \<Rightarrow> cache_ctx"

definition memory_limiter_ops :: "(string \<Rightarrow> string \<Rightarrow> string) \<Rightarrow> memory_limiter limiter_ops" where
  "memory_limiter_ops hmac = \<lparr>lo_Allow = limiter_Allow hmac, lo_Failure = limiter_Failure hmac, lo_Reset = limiter_Reset hmac\<rparr>"

definition limitE :: "('l, cache_sentinel, 'a) op \<Rightarrow> ('l, cache_error + 'a) guard_op" where
  "limitE m w = (case m (g_limiter w) of (r, l) \<Rightarrow> (Inr r, w\<lparr>g_limiter := l\<rparr>))"

text \<open>\<open>errors.Join\<close> of the errors of two calls.\<close>

definition join_errors :: "(cache_error + 'a) \<Rightarrow> (cache_error + 'b) \<Rightarrow> guard_error option" where
  "join_errors r s =
     (case (err_of r, err_of s) of
        (None, None) \<Rightarrow> None
      | (x, y) \<Rightarrow> Some (Joined (map foreign (case_option [] (\<lambda>e. [e]) x @ case_option [] (\<lambda>e. [e]) y))))"

section \<open>Patterns and secrets\<close>

definition usernamePattern :: "string \<Rightarrow> bool" where
  "usernamePattern s \<longleftrightarrow> match_head_tail (\<lambda>c. is_lower c \<or> is_digit c)
     (\<lambda>c. is_lower c \<or> is_digit c \<or> c \<in> {CHR ''.'', CHR ''_'', CHR ''-''}) 63 s \<and> length s \<ge> 3"

definition guardIDPattern :: "string \<Rightarrow> bool" where
  "guardIDPattern s \<longleftrightarrow> length s = 32 \<and> list_all (\<lambda>c. is_digit c \<or> within 97 102 c) s"

definition guardResourceIDPattern :: "string \<Rightarrow> bool" where
  "guardResourceIDPattern s = match_head_tail is_alnum is_id_char 127 s"

definition resourceTypePattern :: "string \<Rightarrow> bool" where
  "resourceTypePattern s = match_head_tail is_lower (\<lambda>c. is_lower c \<or> is_digit c \<or> c \<in> {CHR ''_'', CHR ''.'', CHR ''-''}) 63 s"

definition newSecret :: "(string \<Rightarrow> string) \<Rightarrow> ('l, string \<times> string) guard_op" where
  "newSecret sha w =
     (case entropy w (draws w) of
        None \<Rightarrow> (Inl (Errorf ''generate secure token''), w\<lparr>draws := Suc (draws w)\<rparr>)
      | Some b \<Rightarrow> let raw = EncodeToString RawURLEncoding (fill_bytes 32 b) in (Inr (raw, sha raw), w\<lparr>draws := Suc (draws w)\<rparr>))"

definition hashSecret :: "(string \<Rightarrow> string) \<Rightarrow> string \<Rightarrow> string option" where
  "hashSecret sha raw =
     (case DecodeString RawURLEncoding raw of None \<Rightarrow> None
      | Some decoded \<Rightarrow> if length decoded \<noteq> 32 then None else Some (sha raw))"

definition hash_password :: "'l guard_service \<Rightarrow> string \<Rightarrow> ('l, string) guard_op" where
  "hash_password sv password w =
     (case ph_Hash (gsv_hasher sv) password (entropy w) (draws w) of
        (Inl e, n) \<Rightarrow> (Inl (Errorf e), w\<lparr>draws := n\<rparr>) | (Inr h, n) \<Rightarrow> (Inr h, w\<lparr>draws := n\<rparr>))"

section \<open>The service\<close>

definition default_attempt_limiter :: "string option \<Rightarrow> string + memory_limiter" where
  "default_attempt_limiter random = NewMemoryAttemptLimiter random 5 (15 * Minute)"

text \<open>\<open>NewService\<close> with a store, a hasher, an auditor and a limiter (\<open>default_attempt_limiter\<close> when none is configured); the secret behind the
  dummy hash is drawn from the random source.\<close>

definition NewGuardService ::
  "PasswordHasher \<Rightarrow> 'l limiter_ops \<Rightarrow> unicode \<Rightarrow> (string \<Rightarrow> string) \<Rightarrow> (string \<Rightarrow> string option) \<Rightarrow> string \<Rightarrow> string \<Rightarrow> duration \<Rightarrow>
   (nat \<Rightarrow> string option) \<Rightarrow> nat \<Rightarrow> string + 'l guard_service" where
  "NewGuardService hasher limiter u sha addr organizationID0 bootstrapToken sessionTTL0 random n =
     (let organizationID = TrimSpace organizationID0; sessionTTL = (if sessionTTL0 = 0 then 12 * 60 * Minute else sessionTTL0) in
      if organizationID = '''' then Inl ''guard organization id is required''
      else if sessionTTL < 15 * Minute \<or> sessionTTL > 24 * 60 * Minute then Inl ''session ttl must be between 15 minutes and 24 hours''
      else if bootstrapToken \<noteq> '''' \<and> length bootstrapToken < 32 then Inl ''bootstrap token must contain at least 32 bytes''
      else case random n of
        None \<Rightarrow> Inl ''generate secure token''
      | Some b \<Rightarrow>
          (case fst (ph_Hash hasher (EncodeToString RawURLEncoding (fill_bytes 32 b)) random (Suc n)) of
             Inl e \<Rightarrow> Inl (''initialize credential comparison: '' @ e)
           | Inr h \<Rightarrow> Inr \<lparr>gsv_organizationID = organizationID, gsv_hasher = hasher, gsv_limiter = limiter,
               gsv_bootstrapTokenHash = (if bootstrapToken \<noteq> '''' then sha bootstrapToken else replicate 32 (CHR 0x00)),
               gsv_bootstrapTokenRequired = (bootstrapToken \<noteq> ''''), gsv_sessionTTL = sessionTTL, gsv_dummyPasswordHash = h,
               gsv_unicode = u, gsv_sha256 = sha, gsv_ParseAddress = addr\<rparr>))"

section \<open>Audit\<close>

definition guard_audit ::
  "'l guard_service \<Rightarrow> guard_ctx \<Rightarrow> string \<Rightarrow> string \<Rightarrow> string \<Rightarrow> string \<Rightarrow> (string, string) gomap \<Rightarrow> ('l, unit) guard_op" where
  "guard_audit sv cx actorID action resourceType resourceID metadata =
     tryE (case cx_scope cx of
             Some sc \<Rightarrow> if sc_CorrelationID sc = '''' then NewCorrelationID else returnE (sc_CorrelationID sc)
           | None \<Rightarrow> NewCorrelationID) (\<lambda>correlationID.
     tryE NewCorrelationID (\<lambda>eventID.
     tryE read_clock (\<lambda>now.
     AuditorRecord \<lparr>ae_ID = eventID, ae_OrganizationID = gsv_organizationID sv, ae_ActorID = actorID, ae_CorrelationID = correlationID,
       ae_Action = action, ae_ResourceType = resourceType, ae_ResourceID = resourceID, ae_OccurredAt = now,
       ae_Metadata = AList.update ''requirementId'' ''SEC-GUARD-001'' metadata\<rparr>)))"

definition recordSecurityEvent ::
  "'l guard_service \<Rightarrow> guard_ctx \<Rightarrow> string \<Rightarrow> string \<Rightarrow> string \<Rightarrow> string \<Rightarrow> (string, string) gomap \<Rightarrow> ('l, unit) guard_op" where
  "recordSecurityEvent sv cx actorID action resourceType resourceID metadata =
     tryE (attemptE (guard_audit sv cx actorID action resourceType resourceID metadata)) (\<lambda>_. returnE ())"

text \<open>An audit whose failure is answered by undoing the change it was to record.\<close>

definition audited_or_undone :: "string \<Rightarrow> ('l, unit) guard_op \<Rightarrow> ('l, 'b) guard_op \<Rightarrow> 'a \<Rightarrow> ('l, 'a) guard_op" where
  "audited_or_undone message audit rollback result =
     tryE (attemptE audit) (\<lambda>audited. case audited of
       Inr _ \<Rightarrow> returnE result
     | Inl e \<Rightarrow> tryE (attemptE rollback) (\<lambda>undone. raiseE (Wrapf message (Joined (e # (case undone of Inl e' \<Rightarrow> [e'] | Inr _ \<Rightarrow> []))))))"

section \<open>Sessions\<close>

definition authenticationFrom :: "Session \<Rightarrow> Access \<Rightarrow> Authentication" where
  "authenticationFrom session access =
     \<lparr>au_Session = session,
      au_Principal = \<lparr>pr_Subject = acc_ID (ax_Account access), pr_OrganizationID = acc_OrganizationID (ax_Account access),
        pr_Username = acc_Username (ax_Account access), pr_Email = acc_Email (ax_Account access),
        pr_DisplayName = acc_DisplayName (ax_Account access), pr_Roles = sort (map role_Name (first_by role_Name [] (ax_Roles access)))\<rparr>,
      au_Grants = ax_Grants access\<rparr>"

definition issueSession :: "'l guard_service \<Rightarrow> string \<Rightarrow> ('l, SessionCredentials) guard_op" where
  "issueSession sv accountID =
     tryE (wrapE ''load account access'' (storeAccessForAccount (gsv_unicode sv) (gsv_organizationID sv) accountID)) (\<lambda>access0.
     let access = AugmentAccessGrants (gsv_unicode sv) (gsv_organizationID sv) access0 in
     tryE (newSecret (gsv_sha256 sv)) (\<lambda>(token, tokenHash).
     tryE (newSecret (gsv_sha256 sv)) (\<lambda>(csrfToken, csrfHash).
     tryE NewCorrelationID (\<lambda>sessionID.
     tryE read_clock (\<lambda>now.
     let session = \<lparr>ses_ID = sessionID, ses_OrganizationID = gsv_organizationID sv, ses_AccountID = accountID, ses_TokenHash = tokenHash,
           ses_CSRFHash = csrfHash, ses_CreatedAt = now, ses_ExpiresAt = Add now (gsv_sessionTTL sv), ses_RevokedAt = None\<rparr> in
     tryE (wrapE ''create session'' (storeCreateSession session)) (\<lambda>_.
     returnE \<lparr>cr_Authentication = authenticationFrom session access, cr_Token = token, cr_CSRFToken = csrfToken\<rparr>))))))"

text \<open>A session that was issued but whose audit failed is revoked; the error of the revocation is ignored.\<close>

definition audited_session ::
  "'l guard_service \<Rightarrow> guard_ctx \<Rightarrow> string \<Rightarrow> string \<Rightarrow> string \<Rightarrow> (string, string) gomap \<Rightarrow> SessionCredentials \<Rightarrow> ('l, SessionCredentials) guard_op" where
  "audited_session sv cx message accountID action metadata credentials =
     tryE (attemptE (guard_audit sv cx accountID action ''account'' accountID metadata)) (\<lambda>audited. case audited of
       Inr _ \<Rightarrow> returnE credentials
     | Inl e \<Rightarrow> tryE read_clock (\<lambda>now.
         tryE (attemptE (storeRevokeSession (ses_ID (au_Session (cr_Authentication credentials))) now)) (\<lambda>_.
         raiseE (Wrapf message e))))"

definition AuthenticateSession :: "'l guard_service \<Rightarrow> string \<Rightarrow> ('l, Authentication) guard_op" where
  "AuthenticateSession sv rawToken =
     (case hashSecret (gsv_sha256 sv) rawToken of
        None \<Rightarrow> guard_fail ErrInvalidSession
      | Some tokenHash \<Rightarrow>
          tryE read_clock (\<lambda>now.
          tryE (attemptE (storeFindSessionByTokenHash (gsv_unicode sv) (gsv_organizationID sv) tokenHash now)) (\<lambda>found. case found of
            Inl e \<Rightarrow> if err_is e GuardErrNotFound \<or> err_is e ErrInvalidSession then guard_fail ErrInvalidSession else raiseE (Wrapf ''load session'' e)
          | Inr (session, access) \<Rightarrow>
              if acc_Status (ax_Account access) \<noteq> ''active'' then guard_fail ErrInvalidSession
              else returnE (authenticationFrom session access))))"

definition AuthenticateAccount :: "'l guard_service \<Rightarrow> string \<Rightarrow> ('l, Authentication) guard_op" where
  "AuthenticateAccount sv accountID0 =
     (let accountID = TrimSpace accountID0 in
      if \<not> guardIDPattern accountID then guard_fail ErrInvalidSession else
      tryE (attemptE (storeAccessForAccount (gsv_unicode sv) (gsv_organizationID sv) accountID)) (\<lambda>found. case found of
        Inl e \<Rightarrow> if err_is e GuardErrNotFound then guard_fail ErrInvalidSession else raiseE (Wrapf ''load account access'' e)
      | Inr access \<Rightarrow>
          if acc_Status (ax_Account access) \<noteq> ''active'' then guard_fail ErrInvalidSession
          else returnE (authenticationFrom zero_session access)))"

definition RefreshCSRF :: "'l guard_service \<Rightarrow> Authentication option \<Rightarrow> ('l, string \<times> Authentication) guard_op" where
  "RefreshCSRF sv authentication =
     (case authentication of
        None \<Rightarrow> guard_fail ErrInvalidSession
      | Some au \<Rightarrow>
          if ses_ID (au_Session au) = '''' then guard_fail ErrInvalidSession else
          tryE (newSecret (gsv_sha256 sv)) (\<lambda>(token, hash).
          tryE (wrapE ''rotate csrf token'' (storeUpdateSessionCSRF (ses_ID (au_Session au)) hash)) (\<lambda>_.
          returnE (token, au\<lparr>au_Session := (au_Session au)\<lparr>ses_CSRFHash := hash\<rparr>\<rparr>))))"

definition ValidateCSRF :: "'l guard_service \<Rightarrow> Authentication \<Rightarrow> string \<Rightarrow> guard_error option" where
  "ValidateCSRF sv au rawToken =
     (case hashSecret (gsv_sha256 sv) rawToken of
        None \<Rightarrow> Some (Sentinel ErrInvalidCSRF)
      | Some actual \<Rightarrow>
          if length (ses_CSRFHash (au_Session au)) \<noteq> 32 \<or> actual \<noteq> ses_CSRFHash (au_Session au) then Some (Sentinel ErrInvalidCSRF) else None)"

definition Logout :: "'l guard_service \<Rightarrow> guard_ctx \<Rightarrow> Authentication \<Rightarrow> ('l, unit) guard_op" where
  "Logout sv cx au =
     (if ses_ID (au_Session au) = '''' then guard_fail ErrInvalidSession else
      tryE read_clock (\<lambda>now.
      tryE (wrapE ''revoke session'' (storeRevokeSession (ses_ID (au_Session au)) now)) (\<lambda>_.
      guard_audit sv cx (pr_Subject (au_Principal au)) ''guard.logout.succeeded'' ''session'' (ses_ID (au_Session au)) [])))"

section \<open>Bootstrap and login\<close>

definition normalizeUsername :: "unicode \<Rightarrow> string \<Rightarrow> string" where
  "normalizeUsername u username = ToLower u (TrimSpace username)"

definition invalid_input :: "string \<Rightarrow> guard_error" where
  "invalid_input message = Wrapf message (Sentinel GuardErrInvalidInput)"

definition validateAccountInput :: "'l guard_service \<Rightarrow> BootstrapInput \<Rightarrow> guard_error + (string \<times> string \<times> string \<times> string)" where
  "validateAccountInput sv input =
     (let username = TrimSpace (bi_Username input); normalizedUsername = normalizeUsername (gsv_unicode sv) username;
          displayName = TrimSpace (bi_DisplayName input); email = TrimSpace (bi_Email input) in
      if \<not> usernamePattern normalizedUsername then Inl (invalid_input ''username must be 3 to 64 letters, numbers, periods, underscores, or hyphens'')
      else if displayName = '''' \<or> rune_count displayName > 200 then Inl (invalid_input ''display name must contain 1 to 200 characters'')
      else if gsv_ParseAddress sv email \<noteq> Some email \<or> length email > 320 then Inl (invalid_input ''a valid email address is required'')
      else Inr (username, normalizedUsername, ToLower (gsv_unicode sv) email, displayName))"

definition validatePassword :: "string \<Rightarrow> guard_error option" where
  "validatePassword password =
     (if \<not> valid_string password \<or> rune_count password < MinimumPasswordCharacters \<or> length password > 1024
      then Some (invalid_input ''password must contain at least 15 characters and no more than 1024 bytes'') else None)"

definition bootstrapAuthorized :: "'l guard_service \<Rightarrow> string \<Rightarrow> bool \<Rightarrow> bool" where
  "bootstrapAuthorized sv rawToken trustedRequest =
     (if \<not> gsv_bootstrapTokenRequired sv then trustedRequest else gsv_sha256 sv rawToken = gsv_bootstrapTokenHash sv)"

definition BootstrapStatus :: "'l guard_service \<Rightarrow> ('l, bool \<times> bool) guard_op" where
  "BootstrapStatus sv = tryE (storeBootstrapRequired (gsv_organizationID sv)) (\<lambda>required. returnE (required, gsv_bootstrapTokenRequired sv))"

definition administrator_bootstrap ::
  "'l guard_service \<Rightarrow> (string \<times> string \<times> string \<times> string) \<Rightarrow> string \<Rightarrow> gotime \<Rightarrow> string \<Rightarrow> string \<Rightarrow> string \<Rightarrow> string \<Rightarrow> AdministratorBootstrap" where
  "administrator_bootstrap sv names passwordHash now accountID bundleID roleID assignmentID =
     (case names of (username, normalizedUsername, email, displayName) \<Rightarrow>
      \<lparr>ab_Account = \<lparr>acc_ID = accountID, acc_OrganizationID = gsv_organizationID sv, acc_Username = username,
         acc_NormalizedUsername = normalizedUsername, acc_Email = email, acc_DisplayName = displayName, acc_PasswordHash = passwordHash,
         acc_Status = ''active'', acc_CreatedAt = now, acc_UpdatedAt = now\<rparr>,
       ab_Bundle = \<lparr>pb_ID = bundleID, pb_OrganizationID = gsv_organizationID sv, pb_Name = ''Core administration'',
         pb_Description = ''Common organization, inventory, directory, goals, and Vault permissions.'',
         pb_Permissions = AdministratorBundlePermissions\<rparr>,
       ab_Role = \<lparr>role_ID = roleID, role_OrganizationID = gsv_organizationID sv, role_Name = ''Administrator'',
         role_Description = ''Full organization administrator for the initial StewardMesh deployment.'',
         role_Permissions = [PermissionGuardManage], role_PolicyBundleIDs = [bundleID], role_Source = BuiltInRoleSource\<rparr>,
       ab_Assignment = \<lparr>ra_ID = assignmentID, ra_OrganizationID = gsv_organizationID sv, ra_AccountID = accountID, ra_RoleID = roleID,
         ra_Scope = organization_scope (gsv_organizationID sv), ra_Source = LocalAssignmentSource, ra_CreatedAt = now\<rparr>\<rparr>)"

definition Bootstrap :: "'l guard_service \<Rightarrow> guard_ctx \<Rightarrow> BootstrapInput \<Rightarrow> bool \<Rightarrow> ('l, SessionCredentials) guard_op" where
  "Bootstrap sv cx input trustedRequest =
     (if \<not> bootstrapAuthorized sv (bi_BootstrapToken input) trustedRequest
      then tryE (recordSecurityEvent sv cx ''anonymous'' ''guard.bootstrap.denied'' ''organization'' (gsv_organizationID sv) [(''reason'', ''access'')])
             (\<lambda>_. guard_fail ErrBootstrapDenied)
      else
      tryE (wrapE ''read bootstrap state'' (storeBootstrapRequired (gsv_organizationID sv))) (\<lambda>required.
      if \<not> required then guard_fail ErrBootstrapComplete else
      tryE (liftE (validateAccountInput sv input)) (\<lambda>names.
      tryE (checkE (validatePassword (bi_Password input))) (\<lambda>_.
      tryE (wrapE ''hash administrator password'' (hash_password sv (bi_Password input))) (\<lambda>passwordHash.
      tryE read_clock (\<lambda>now.
      tryE NewCorrelationID (\<lambda>accountID.
      tryE NewCorrelationID (\<lambda>bundleID.
      tryE NewCorrelationID (\<lambda>roleID.
      tryE NewCorrelationID (\<lambda>assignmentID.
      tryE (storeBootstrapAdministrator (administrator_bootstrap sv names passwordHash now accountID bundleID roleID assignmentID)) (\<lambda>account.
      tryE (issueSession sv (acc_ID account)) (\<lambda>credentials.
      audited_session sv cx ''audit administrator bootstrap'' (acc_ID account) ''guard.bootstrap.created'' [(''role'', ''Administrator'')]
        credentials))))))))))))"

abbreviation protection_event :: "'l guard_service \<Rightarrow> guard_ctx \<Rightarrow> string \<Rightarrow> string \<Rightarrow> ('l, unit) guard_op" where
  "protection_event sv cx action resourceID \<equiv> recordSecurityEvent sv cx ''anonymous'' action ''account'' resourceID []"

definition protection_unavailable :: "string \<Rightarrow> guard_error \<Rightarrow> guard_error" where
  "protection_unavailable message e = Joined [Sentinel ErrLoginProtectionUnavailable, Wrapf message e]"

text \<open>The end of a login with a wrong credential: both failures are counted before the answer.\<close>

definition login_failed :: "'l guard_service \<Rightarrow> guard_ctx \<Rightarrow> string \<Rightarrow> string \<Rightarrow> gotime \<Rightarrow> string \<Rightarrow> ('l, SessionCredentials) guard_op" where
  "login_failed sv cx clientRateKey accountRateKey now accountID =
     tryE (limitE (lo_Failure (gsv_limiter sv) (gcx_limiter cx 2) clientRateKey now)) (\<lambda>clientFailure.
     tryE (limitE (lo_Failure (gsv_limiter sv) (gcx_limiter cx 3) accountRateKey now)) (\<lambda>accountFailure.
     tryE (protection_event sv cx ''guard.login.failed'' (if accountID \<noteq> '''' then accountID else ''unknown'')) (\<lambda>_.
     case join_errors clientFailure accountFailure of
       Some e \<Rightarrow> tryE (protection_event sv cx ''guard.login.protection_unavailable'' ''unknown'')
                   (\<lambda>_. raiseE (protection_unavailable ''record failure counters'' e))
     | None \<Rightarrow> guard_fail ErrInvalidCredential)))"

definition login_succeeds :: "'l guard_service \<Rightarrow> guard_ctx \<Rightarrow> string \<Rightarrow> string \<Rightarrow> gotime \<Rightarrow> string \<Rightarrow> Account \<Rightarrow> bool \<Rightarrow> ('l, SessionCredentials) guard_op" where
  "login_succeeds sv cx clientRateKey accountRateKey now password account needsRehash =
     tryE (if needsRehash
           then tryE (wrapE ''refresh password hash'' (hash_password sv password)) (\<lambda>passwordHash.
                wrapE ''store refreshed password hash'' (storeUpdatePasswordHash (acc_ID account) passwordHash now))
           else returnE ()) (\<lambda>_.
     tryE (limitE (lo_Reset (gsv_limiter sv) (gcx_limiter cx 2) clientRateKey)) (\<lambda>clientReset.
     tryE (limitE (lo_Reset (gsv_limiter sv) (gcx_limiter cx 3) accountRateKey)) (\<lambda>accountReset.
     case join_errors clientReset accountReset of
       Some e \<Rightarrow> tryE (protection_event sv cx ''guard.login.protection_unavailable'' (acc_ID account))
                   (\<lambda>_. raiseE (protection_unavailable ''reset failure counters'' e))
     | None \<Rightarrow>
         tryE (issueSession sv (acc_ID account)) (\<lambda>credentials.
         audited_session sv cx ''audit login'' (acc_ID account) ''guard.login.succeeded'' [] credentials))))"

definition login_accepted :: "(guard_error + Account) \<Rightarrow> bool \<Rightarrow> string \<Rightarrow> bool" where
  "login_accepted found matches normalizedUsername =
     (case found of Inl _ \<Rightarrow> False
      | Inr account \<Rightarrow> acc_PasswordHash account \<noteq> '''' \<and> matches \<and> acc_Status account = ''active'' \<and> usernamePattern normalizedUsername)"

definition Login :: "'l guard_service \<Rightarrow> guard_ctx \<Rightarrow> LoginInput \<Rightarrow> ('l, SessionCredentials) guard_op" where
  "Login sv cx input =
     (let normalizedUsername = normalizeUsername (gsv_unicode sv) (li_Username input);
          clientRateKey = ''client|'' @ TrimSpace (li_RateKey input); accountRateKey = ''account|'' @ normalizedUsername in
      tryE read_clock (\<lambda>now.
      tryE (limitE (lo_Allow (gsv_limiter sv) (gcx_limiter cx 0) clientRateKey now)) (\<lambda>clientAllowed.
      tryE (limitE (lo_Allow (gsv_limiter sv) (gcx_limiter cx 1) accountRateKey now)) (\<lambda>accountAllowed.
      case join_errors clientAllowed accountAllowed of
        Some e \<Rightarrow> tryE (protection_event sv cx ''guard.login.protection_unavailable'' ''unknown'')
                    (\<lambda>_. raiseE (protection_unavailable ''check failure counters'' e))
      | None \<Rightarrow>
          if \<not> (clientAllowed = Inr True \<and> accountAllowed = Inr True)
          then tryE (protection_event sv cx ''guard.login.rate_limited'' ''unknown'') (\<lambda>_. guard_fail ErrRateLimited)
          else
          tryE (attemptE (storeFindAccountByUsername (gsv_organizationID sv) normalizedUsername)) (\<lambda>found.
          if (case found of Inl e \<Rightarrow> \<not> err_is e GuardErrNotFound | Inr _ \<Rightarrow> False)
          then raiseE (Wrapf ''load account'' (case found of Inl e \<Rightarrow> e | Inr _ \<Rightarrow> Errorf ''''))
          else
            let account = (case found of Inl _ \<Rightarrow> zero_account | Inr account \<Rightarrow> account);
                encodedHash = (if acc_PasswordHash account \<noteq> '''' then acc_PasswordHash account else gsv_dummyPasswordHash sv) in
            case ph_Verify (gsv_hasher sv) (li_Password input) encodedHash of
              Inl e \<Rightarrow> raiseE (Wrapf ''verify stored credential'' (Errorf e))
            | Inr (matches, needsRehash) \<Rightarrow>
                if login_accepted found matches normalizedUsername
                then login_succeeds sv cx clientRateKey accountRateKey now (li_Password input) account needsRehash
                else login_failed sv cx clientRateKey accountRateKey now (acc_ID account))))))"

section \<open>External sign-in\<close>

record externalPrincipal =
  ep_Issuer :: string
  ep_Subject :: string
  ep_Email :: string
  ep_DisplayName :: string
  ep_Administrator :: bool

definition externalUsername :: "(string \<Rightarrow> string) \<Rightarrow> string \<Rightarrow> string \<Rightarrow> string \<Rightarrow> string" where
  "externalUsername sha protocol issuer subject = protocol @ ''-'' @ hex_encode (take 12 (sha (issuer @ nul @ subject)))"

definition externalAssignmentSource :: "(string \<Rightarrow> string) \<Rightarrow> string \<Rightarrow> string \<Rightarrow> string" where
  "externalAssignmentSource sha protocol issuer = protocol @ '':'' @ hex_encode (take 16 (sha issuer))"

definition format_bool :: "bool \<Rightarrow> string" where
  "format_bool b = (if b then ''true'' else ''false'')"

definition external_provisioning ::
  "'l guard_service \<Rightarrow> string \<Rightarrow> string \<Rightarrow> string \<Rightarrow> string \<Rightarrow> string \<Rightarrow> bool \<Rightarrow> gotime \<Rightarrow> string \<Rightarrow> string \<Rightarrow> ExternalAccountProvisioning" where
  "external_provisioning sv protocol issuer subject email displayName administrator now accountID assignmentID =
     (let username = externalUsername (gsv_sha256 sv) protocol issuer subject in
      \<lparr>eap_Account = \<lparr>acc_ID = accountID, acc_OrganizationID = gsv_organizationID sv, acc_Username = username, acc_NormalizedUsername = username,
         acc_Email = email, acc_DisplayName = displayName, acc_PasswordHash = '''', acc_Status = ''active'', acc_CreatedAt = now, acc_UpdatedAt = now\<rparr>,
       eap_Identity = \<lparr>ei_OrganizationID = gsv_organizationID sv, ei_Issuer = issuer, ei_Subject = subject, ei_AccountID = accountID,
         ei_CreatedAt = now, ei_UpdatedAt = now\<rparr>,
       eap_Administrator = administrator, eap_AdministratorAssignmentID = assignmentID,
       eap_AssignmentSource = externalAssignmentSource (gsv_sha256 sv) protocol issuer\<rparr>)"

definition loginExternal :: "'l guard_service \<Rightarrow> guard_ctx \<Rightarrow> string \<Rightarrow> externalPrincipal \<Rightarrow> ('l, SessionCredentials) guard_op" where
  "loginExternal sv cx protocol ext =
     (let issuer = TrimSpace (ep_Issuer ext); subject = TrimSpace (ep_Subject ext);
          email = ToLower (gsv_unicode sv) (TrimSpace (ep_Email ext)); displayName = TrimSpace (ep_DisplayName ext);
          failureEvent = ''guard.'' @ protocol @ ''.login.failed'' in
      if protocol \<noteq> ''oidc'' \<and> protocol \<noteq> ''saml'' \<or> issuer = '''' \<or> length issuer > 2048 \<or> subject = '''' \<or> length subject > 512 \<or>
         gsv_ParseAddress sv email \<noteq> Some email \<or> length email > 320 \<or> displayName = '''' \<or> rune_count displayName > 200
      then tryE (recordSecurityEvent sv cx ''anonymous'' failureEvent ''external_identity'' ''unknown'' []) (\<lambda>_. guard_fail ErrInvalidCredential)
      else
      tryE read_clock (\<lambda>now.
      tryE NewCorrelationID (\<lambda>accountID.
      tryE NewCorrelationID (\<lambda>assignmentID.
      tryE (attemptE (storeProvisionExternalAccount
        (external_provisioning sv protocol issuer subject email displayName (ep_Administrator ext) now accountID assignmentID))) (\<lambda>provisioned.
      case provisioned of
        Inl e \<Rightarrow> tryE (recordSecurityEvent sv cx ''anonymous'' failureEvent ''external_identity'' ''unknown'' [])
                   (\<lambda>_. raiseE (Wrapf (''provision '' @ protocol @ '' account'') e))
      | Inr (account, created) \<Rightarrow>
          if acc_Status account \<noteq> ''active''
          then tryE (recordSecurityEvent sv cx (acc_ID account) failureEvent ''account'' (acc_ID account) [(''reason'', ''disabled'')])
                 (\<lambda>_. guard_fail ErrInvalidCredential)
          else
          tryE (issueSession sv (acc_ID account)) (\<lambda>credentials.
          audited_session sv cx (''audit '' @ protocol @ '' login'') (acc_ID account) (''guard.'' @ protocol @ ''.login.succeeded'')
            [(''created'', format_bool created), (''administratorMapped'', format_bool (ep_Administrator ext))] credentials))))))"

definition LoginOIDC :: "'l guard_service \<Rightarrow> guard_ctx \<Rightarrow> externalPrincipal \<Rightarrow> ('l, SessionCredentials) guard_op" where
  "LoginOIDC sv cx ext = loginExternal sv cx ''oidc'' ext"

definition LoginSAML :: "'l guard_service \<Rightarrow> guard_ctx \<Rightarrow> externalPrincipal \<Rightarrow> ('l, SessionCredentials) guard_op" where
  "LoginSAML sv cx ext = loginExternal sv cx ''saml'' ext"

definition RecordOIDCFailure :: "'l guard_service \<Rightarrow> guard_ctx \<Rightarrow> ('l, unit) guard_op" where
  "RecordOIDCFailure sv cx = recordSecurityEvent sv cx ''anonymous'' ''guard.oidc.login.failed'' ''external_identity'' ''unknown'' []"

definition RecordSAMLFailure :: "'l guard_service \<Rightarrow> guard_ctx \<Rightarrow> ('l, unit) guard_op" where
  "RecordSAMLFailure sv cx = recordSecurityEvent sv cx ''anonymous'' ''guard.saml.login.failed'' ''external_identity'' ''unknown'' []"

definition TrackSAMLRequest :: "'l guard_service \<Rightarrow> string \<Rightarrow> string \<Rightarrow> gotime \<Rightarrow> ('l, unit) guard_op" where
  "TrackSAMLRequest sv relayState requestID expiresAt =
     (case hashSecret (gsv_sha256 sv) relayState of
        None \<Rightarrow> guard_fail ErrInvalidCredential
      | Some stateHash \<Rightarrow>
          if TrimSpace requestID = '''' then guard_fail ErrInvalidCredential else
          tryE read_clock (\<lambda>now.
          if \<not> Before now expiresAt \<or> Before (Add now (15 * Minute)) expiresAt then guard_fail ErrInvalidCredential
          else wrapE ''track SAML authentication request'' (storeCreateSAMLRequest
            \<lparr>sr_OrganizationID = gsv_organizationID sv, sr_StateHash = stateHash, sr_RequestID = requestID, sr_CreatedAt = now, sr_ExpiresAt = expiresAt\<rparr>)))"

definition ConsumeSAMLRequest :: "'l guard_service \<Rightarrow> string \<Rightarrow> ('l, string) guard_op" where
  "ConsumeSAMLRequest sv relayState =
     (case hashSecret (gsv_sha256 sv) relayState of
        None \<Rightarrow> guard_fail ErrInvalidCredential
      | Some stateHash \<Rightarrow>
          tryE read_clock (\<lambda>now.
          tryE (attemptE (storeConsumeSAMLRequest (gsv_organizationID sv) stateHash now)) (\<lambda>consumed. case consumed of
            Inl e \<Rightarrow> if err_is e GuardErrNotFound then guard_fail ErrInvalidCredential
                     else raiseE (Wrapf ''consume SAML authentication request'' e)
          | Inr request \<Rightarrow> returnE (sr_RequestID request))))"

end
