(* ===== verification/Guard_Authorization.thy ===== *)
theory Guard_Authorization
  imports Guard_Service
begin

text \<open>
  The second half of \<open>internal/guard/service.go\<close>: permission checks, custom roles, role assignments and resource ownership.
\<close>

section \<open>Permissions\<close>

definition grant_covers :: "Permission \<Rightarrow> GuardScope \<Rightarrow> Grant \<Rightarrow> bool" where
  "grant_covers permission target g \<longleftrightarrow> gr_Permission g = permission \<and> gs_OrganizationID (gr_Scope g) = gs_OrganizationID target \<and>
     (gs_Kind (gr_Scope g) = ScopeOrganization \<or>
      (gs_Kind (gr_Scope g) = gs_Kind target \<and> gs_ResourceID (gr_Scope g) = gs_ResourceID target))"

definition CheckPermission :: "'l guard_service \<Rightarrow> guard_ctx \<Rightarrow> Authentication \<Rightarrow> Permission \<Rightarrow> GuardScope \<Rightarrow> ('l, unit) guard_op" where
  "CheckPermission sv cx au permission target =
     (if GuardScope_Validate target \<noteq> None then guard_fail ErrPermissionDenied
      else if list_ex (grant_covers permission target) (au_Grants au) then returnE ()
      else tryE (recordSecurityEvent sv cx (pr_Subject (au_Principal au)) ''guard.authorization.denied'' (gs_Kind target) (gs_ResourceID target)
             [(''permission'', permission)]) (\<lambda>_. guard_fail ErrPermissionDenied))"

definition requireOrganizationManager :: "'l guard_service \<Rightarrow> guard_ctx \<Rightarrow> Authentication \<Rightarrow> ('l, unit) guard_op" where
  "requireOrganizationManager sv cx au = CheckPermission sv cx au PermissionGuardManage (organization_scope (gsv_organizationID sv))"

definition ListAuthorization :: "'l guard_service \<Rightarrow> guard_ctx \<Rightarrow> Authentication \<Rightarrow> ('l, AuthorizationDirectory) guard_op" where
  "ListAuthorization sv cx au =
     tryE (requireOrganizationManager sv cx au) (\<lambda>_.
     tryE (wrapE ''list Guard authorization'' (storeListAuthorization (gsv_organizationID sv))) (\<lambda>directory.
     returnE (directory\<lparr>ad_AvailablePermissions := SupportedPermissions\<rparr>)))"

section \<open>Roles\<close>

definition normalizeRolePermissions :: "Permission list \<Rightarrow> guard_error + Permission list" where
  "normalizeRolePermissions values =
     (if \<not> list_all (\<lambda>p. p \<in> set SupportedPermissions) values then Inl (invalid_input ''unsupported role permission'')
      else Inr (sort (first_by id [] values)))"

definition normalizeRoleBundleIDs :: "string list \<Rightarrow> guard_error + string list" where
  "normalizeRoleBundleIDs values =
     (let trimmed = map TrimSpace values in
      if \<not> list_all guardIDPattern trimmed then Inl (invalid_input ''valid policy bundle ids are required'')
      else Inr (sort (first_by id [] trimmed)))"

definition GuardCreateRole :: "'l guard_service \<Rightarrow> guard_ctx \<Rightarrow> Authentication \<Rightarrow> CreateRoleInput \<Rightarrow> ('l, Role) guard_op" where
  "GuardCreateRole sv cx au input =
     tryE (requireOrganizationManager sv cx au) (\<lambda>_.
     let name = TrimSpace (cri_Name input); description = TrimSpace (cri_Description input) in
     if \<not> valid_string name \<or> rune_count name < 1 \<or> rune_count name > 120 \<or> \<not> valid_string description \<or> rune_count description > 1000
     then raiseE (invalid_input ''role name must contain 1 to 120 characters and description at most 1000'') else
     tryE (liftE (normalizeRolePermissions (cri_Permissions input))) (\<lambda>permissions.
     tryE (liftE (normalizeRoleBundleIDs (cri_PolicyBundleIDs input))) (\<lambda>bundleIDs.
     if permissions = [] \<and> bundleIDs = [] then raiseE (invalid_input ''select at least one permission or policy bundle'') else
     tryE NewCorrelationID (\<lambda>roleID.
     let role = \<lparr>role_ID = roleID, role_OrganizationID = gsv_organizationID sv, role_Name = name, role_Description = description,
           role_Permissions = permissions, role_PolicyBundleIDs = bundleIDs, role_Source = LocalRoleSource\<rparr> in
     tryE (wrapE ''create role'' (storeCreateRole (gsv_unicode sv) role)) (\<lambda>_.
     audited_or_undone ''audit role creation''
       (guard_audit sv cx (pr_Subject (au_Principal au)) ''guard.role.created'' ''role'' (role_ID role)
          [(''source'', LocalRoleSource), (''permissionCount'', format_nat (length permissions)), (''policyBundleCount'', format_nat (length bundleIDs))])
       (storeDeleteRole (gsv_organizationID sv) (role_ID role)) role)))))"

section \<open>Assignments\<close>

definition assignment_metadata :: "RoleAssignment \<Rightarrow> (string, string) gomap" where
  "assignment_metadata a = [(''accountId'', ra_AccountID a), (''roleId'', ra_RoleID a), (''scopeKind'', gs_Kind (ra_Scope a)),
     (''scopeId'', gs_ResourceID (ra_Scope a))]"

definition AssignRole :: "'l guard_service \<Rightarrow> guard_ctx \<Rightarrow> Authentication \<Rightarrow> RoleAssignmentInput \<Rightarrow> ('l, RoleAssignment) guard_op" where
  "AssignRole sv cx au input =
     tryE (requireOrganizationManager sv cx au) (\<lambda>_.
     let accountID = TrimSpace (rai_AccountID input); roleID = TrimSpace (rai_RoleID input); resourceID = TrimSpace (rai_ResourceID input) in
     if \<not> guardIDPattern accountID \<or> \<not> guardIDPattern roleID then raiseE (invalid_input ''valid account and role ids are required'') else
     let scope = \<lparr>gs_Kind = rai_ScopeKind input, gs_OrganizationID = gsv_organizationID sv,
           gs_ResourceID = (if rai_ScopeKind input = ScopeOrganization then gsv_organizationID sv else resourceID)\<rparr> in
     if (gs_Kind scope \<noteq> ScopeOrganization \<and> \<not> guardResourceIDPattern (gs_ResourceID scope)) \<or> GuardScope_Validate scope \<noteq> None
     then raiseE (invalid_input ''valid organization, site, department, or resource scope is required'') else
     tryE NewCorrelationID (\<lambda>assignmentID.
     tryE read_clock (\<lambda>now.
     let assignment = \<lparr>ra_ID = assignmentID, ra_OrganizationID = gsv_organizationID sv, ra_AccountID = accountID, ra_RoleID = roleID,
           ra_Scope = scope, ra_Source = LocalAssignmentSource, ra_CreatedAt = now\<rparr> in
     tryE (wrapE ''create role assignment'' (storeCreateRoleAssignment assignment)) (\<lambda>_.
     audited_or_undone ''audit role assignment creation''
       (guard_audit sv cx (pr_Subject (au_Principal au)) ''guard.role_assignment.created'' ''role_assignment'' (ra_ID assignment)
          (assignment_metadata assignment))
       (storeDeleteRoleAssignment (gsv_organizationID sv) (ra_ID assignment)) assignment))))"

definition RevokeRoleAssignment :: "'l guard_service \<Rightarrow> guard_ctx \<Rightarrow> Authentication \<Rightarrow> string \<Rightarrow> ('l, RoleAssignment) guard_op" where
  "RevokeRoleAssignment sv cx au assignmentID0 =
     tryE (requireOrganizationManager sv cx au) (\<lambda>_.
     let assignmentID = TrimSpace assignmentID0 in
     if \<not> guardIDPattern assignmentID then raiseE (invalid_input ''valid role assignment id is required'') else
     tryE (wrapE ''delete role assignment'' (storeDeleteRoleAssignment (gsv_organizationID sv) assignmentID)) (\<lambda>assignment.
     audited_or_undone ''audit role assignment revocation''
       (guard_audit sv cx (pr_Subject (au_Principal au)) ''guard.role_assignment.revoked'' ''role_assignment'' (ra_ID assignment)
          (assignment_metadata assignment))
       (storeCreateRoleAssignment assignment) assignment))"

section \<open>Resource ownership\<close>

definition validateOwnershipInput :: "ResourceOwnershipInput \<Rightarrow> guard_error + (string \<times> string \<times> string \<times> string)" where
  "validateOwnershipInput input =
     (let resourceType = TrimSpace (roi_ResourceType input); resourceID = TrimSpace (roi_ResourceID input);
          sourceSystemID = TrimSpace (roi_SourceSystemID input); sourceRecordID = TrimSpace (roi_SourceRecordID input) in
      if \<not> resourceTypePattern resourceType \<or> \<not> guardResourceIDPattern resourceID \<or> \<not> guardResourceIDPattern sourceSystemID \<or>
         sourceRecordID = '''' \<or> \<not> valid_string sourceRecordID \<or> rune_count sourceRecordID > 256
      then Inl (invalid_input ''valid resource and source identities are required'')
      else Inr (resourceType, resourceID, sourceSystemID, sourceRecordID))"

definition ownership_metadata :: "ResourceOwnership \<Rightarrow> (string, string) gomap" where
  "ownership_metadata r = [(''resourceType'', ro_ResourceType r), (''sourceSystemId'', ro_SourceSystemID r)]"

definition registerResourceOwnership ::
  "'l guard_service \<Rightarrow> guard_ctx \<Rightarrow> string \<Rightarrow> ResourceOwnershipInput \<Rightarrow> ('l, ResourceOwnership \<times> bool) guard_op" where
  "registerResourceOwnership sv cx actorID input =
     tryE (liftE (validateOwnershipInput input)) (\<lambda>(resourceType, resourceID, sourceSystemID, sourceRecordID).
     tryE read_clock (\<lambda>now.
     tryE (wrapE ''register resource ownership'' (storeRegisterResourceOwnership
       \<lparr>ro_OrganizationID = gsv_organizationID sv, ro_ResourceType = resourceType, ro_ResourceID = resourceID, ro_SourceSystemID = sourceSystemID,
        ro_SourceRecordID = sourceRecordID, ro_WriteLocked = True, ro_RegisteredAt = now, ro_ClaimedBy = '''', ro_ClaimedAt = None\<rparr>)) (\<lambda>(registered, created).
     if \<not> created then returnE (registered, False)
     else audited_or_undone ''audit resource ownership registration''
       (guard_audit sv cx actorID ''guard.ownership.locked'' (ro_ResourceType registered) (ro_ResourceID registered) (ownership_metadata registered))
       (storeDeleteResourceOwnership registered) (registered, True))))"

definition RegisterResourceOwnership ::
  "'l guard_service \<Rightarrow> guard_ctx \<Rightarrow> Authentication \<Rightarrow> ResourceOwnershipInput \<Rightarrow> ('l, ResourceOwnership \<times> bool) guard_op" where
  "RegisterResourceOwnership sv cx au input =
     tryE (requireOrganizationManager sv cx au) (\<lambda>_. registerResourceOwnership sv cx (pr_Subject (au_Principal au)) input)"

definition RegisterImportedResourceOwnership ::
  "'l guard_service \<Rightarrow> guard_ctx \<Rightarrow> string \<Rightarrow> ResourceOwnershipInput \<Rightarrow> ('l, ResourceOwnership \<times> bool) guard_op" where
  "RegisterImportedResourceOwnership sv cx actorID0 input =
     (let actorID = TrimSpace actorID0 in
      if actorID = '''' \<or> length actorID > 128 then raiseE (invalid_input ''import actor is required'')
      else registerResourceOwnership sv cx actorID input)"

definition ImportedResourceOwnership :: "'l guard_service \<Rightarrow> string \<Rightarrow> string \<Rightarrow> string \<Rightarrow> ('l, ResourceOwnership) guard_op" where
  "ImportedResourceOwnership sv organizationID resourceType resourceID =
     (if organizationID \<noteq> gsv_organizationID sv then guard_fail GuardErrNotFound
      else storeGetResourceOwnership organizationID resourceType resourceID)"

definition DeleteImportedResourceOwnership :: "'l guard_service \<Rightarrow> ResourceOwnership \<Rightarrow> ('l, unit) guard_op" where
  "DeleteImportedResourceOwnership sv ownership =
     (if ro_OrganizationID ownership \<noteq> gsv_organizationID sv \<or> \<not> ro_WriteLocked ownership
      then raiseE (invalid_input ''compensating ownership lock is invalid'') else storeDeleteResourceOwnership ownership)"

definition ListResourceOwnership :: "'l guard_service \<Rightarrow> guard_ctx \<Rightarrow> Authentication \<Rightarrow> ('l, ResourceOwnership list) guard_op" where
  "ListResourceOwnership sv cx au =
     tryE (requireOrganizationManager sv cx au) (\<lambda>_.
     wrapE ''list resource ownership'' (storeListResourceOwnership (gsv_organizationID sv)))"

definition ClaimResourceOwnership ::
  "'l guard_service \<Rightarrow> guard_ctx \<Rightarrow> Authentication \<Rightarrow> string \<Rightarrow> string \<Rightarrow> ('l, ResourceOwnership) guard_op" where
  "ClaimResourceOwnership sv cx au resourceType0 resourceID0 =
     tryE (requireOrganizationManager sv cx au) (\<lambda>_.
     let resourceType = TrimSpace resourceType0; resourceID = TrimSpace resourceID0 in
     if \<not> resourceTypePattern resourceType \<or> \<not> guardResourceIDPattern resourceID
     then raiseE (invalid_input ''valid resource type and id are required'') else
     tryE read_clock (\<lambda>now.
     tryE (wrapE ''claim resource ownership''
       (storeClaimResourceOwnership (gsv_organizationID sv) resourceType resourceID (pr_Subject (au_Principal au)) now)) (\<lambda>claimed.
     audited_or_undone ''audit resource ownership claim''
       (guard_audit sv cx (pr_Subject (au_Principal au)) ''guard.ownership.claimed'' (ro_ResourceType claimed) (ro_ResourceID claimed)
          (ownership_metadata claimed))
       (storeRestoreResourceOwnershipLock claimed) claimed)))"

definition CheckResourceWrite :: "'l guard_service \<Rightarrow> guard_ctx \<Rightarrow> Authentication \<Rightarrow> string \<Rightarrow> string \<Rightarrow> ('l, unit) guard_op" where
  "CheckResourceWrite sv cx au resourceType0 resourceID0 =
     (let resourceType = TrimSpace resourceType0; resourceID = TrimSpace resourceID0 in
      if \<not> resourceTypePattern resourceType \<or> \<not> guardResourceIDPattern resourceID
      then raiseE (invalid_input ''valid resource type and id are required'') else
      tryE (attemptE (storeGetResourceOwnership (gsv_organizationID sv) resourceType resourceID)) (\<lambda>found. case found of
        Inl e \<Rightarrow> if err_is e GuardErrNotFound then returnE () else raiseE (Wrapf ''read resource ownership'' e)
      | Inr ownership \<Rightarrow>
          if \<not> ro_WriteLocked ownership then returnE ()
          else tryE (attemptE (guard_audit sv cx (pr_Subject (au_Principal au)) ''guard.ownership.write_denied'' (ro_ResourceType ownership)
                 (ro_ResourceID ownership) [(''sourceSystemId'', ro_SourceSystemID ownership)])) (\<lambda>audited. case audited of
            Inl _ \<Rightarrow> raiseE (Wrapf ''audit write denial'' (Sentinel ErrResourceWriteLocked))
          | Inr _ \<Rightarrow> guard_fail ErrResourceWriteLocked)))"

end
