(* ===== verification/Guard_Invariant.thy ===== *)
theory Guard_Invariant
  imports Guard_Authorization
begin

text \<open>
  What holds of a Guard store that grew from the empty one. \<open>guard_effect\<close> lists the calls of the store that the service makes, with what the
  service ensures of their arguments; \<open>guard_inv\<close> is the invariant they keep: every map is keyed by the id of its
  records, the indexes of user names and session tokens are exact, and assignments, sessions and claims name stored
  accounts and roles. \<open>Guard_Steps\<close> shows that every operation of the service acts on the store only through these calls.
\<close>

section \<open>The invariant\<close>

definition stored_account :: "'l guard_world \<Rightarrow> string \<Rightarrow> bool" where
  "stored_account w i \<longleftrightarrow> map_of (g_accounts w) i \<noteq> None"

definition accounts_ok :: "string \<Rightarrow> 'l guard_world \<Rightarrow> bool" where
  "accounts_ok org w \<longleftrightarrow> well_keyed acc_ID (g_accounts w) \<and>
     (\<forall>a \<in> vals (g_accounts w). acc_OrganizationID a = org \<and>
        map_of (g_accountByUsername w) (guardUsernameKey org (acc_NormalizedUsername a)) = Some (acc_ID a)) \<and>
     (\<forall>k i. map_of (g_accountByUsername w) k = Some i \<longrightarrow>
        (\<exists>a. map_of (g_accounts w) i = Some a \<and> k = guardUsernameKey org (acc_NormalizedUsername a)))"

definition supported :: "string list \<Rightarrow> bool" where
  "supported ps \<longleftrightarrow> set ps \<subseteq> set SupportedPermissions"

definition bundles_ok :: "string \<Rightarrow> 'l guard_world \<Rightarrow> bool" where
  "bundles_ok org w \<longleftrightarrow> well_keyed pb_ID (g_bundles w) \<and> (\<forall>b \<in> vals (g_bundles w). pb_OrganizationID b = org \<and> supported (pb_Permissions b))"

definition role_label :: "unicode \<Rightarrow> Role \<Rightarrow> string" where
  "role_label u r = ToLower u (TrimSpace (role_Name r))"

definition roles_ok :: "unicode \<Rightarrow> string \<Rightarrow> 'l guard_world \<Rightarrow> bool" where
  "roles_ok u org w \<longleftrightarrow> well_keyed role_ID (g_roles w) \<and>
     (\<forall>r \<in> vals (g_roles w). role_OrganizationID r = org \<and> supported (role_Permissions r) \<and>
        (\<forall>i \<in> set (role_PolicyBundleIDs r). map_of (g_bundles w) i \<noteq> None)) \<and>
     inj_on (role_label u) (vals (g_roles w))"

definition assignment_target :: "RoleAssignment \<Rightarrow> string \<times> string \<times> string \<times> string" where
  "assignment_target a = (ra_AccountID a, ra_RoleID a, gs_Kind (ra_Scope a), gs_ResourceID (ra_Scope a))"

definition scope_kinds :: "string set" where
  "scope_kinds = {ScopeOrganization, ScopeSite, ScopeDepartment, ScopeResource}"

definition assignments_ok :: "string \<Rightarrow> 'l guard_world \<Rightarrow> bool" where
  "assignments_ok org w \<longleftrightarrow> well_keyed ra_ID (g_assignments w) \<and>
     (\<forall>a \<in> vals (g_assignments w). ra_OrganizationID a = org \<and> gs_OrganizationID (ra_Scope a) = org \<and> gs_Kind (ra_Scope a) \<in> scope_kinds \<and>
        stored_account w (ra_AccountID a) \<and>
        map_of (g_roles w) (ra_RoleID a) \<noteq> None) \<and>
     inj_on assignment_target (vals (g_assignments w))"

definition sessions_ok :: "string \<Rightarrow> 'l guard_world \<Rightarrow> bool" where
  "sessions_ok org w \<longleftrightarrow> well_keyed ses_ID (g_sessions w) \<and>
     (\<forall>s \<in> vals (g_sessions w). ses_OrganizationID s = org \<and> stored_account w (ses_AccountID s) \<and> length (ses_TokenHash s) = 32 \<and>
        length (ses_CSRFHash s) = 32 \<and> map_of (g_sessionByTokenHash w) (hex_encode (ses_TokenHash s)) = Some (ses_ID s)) \<and>
     (\<forall>k i. map_of (g_sessionByTokenHash w) k = Some i \<longrightarrow> (\<exists>s. map_of (g_sessions w) i = Some s \<and> k = hex_encode (ses_TokenHash s)))"

definition claim_ok :: "'l guard_world \<Rightarrow> ResourceOwnership \<Rightarrow> bool" where
  "claim_ok w r \<longleftrightarrow> (if ro_WriteLocked r then ro_ClaimedBy r = '''' \<and> ro_ClaimedAt r = None
     else ro_ClaimedAt r \<noteq> None \<and> stored_account w (ro_ClaimedBy r))"

definition source_of :: "ResourceOwnership \<Rightarrow> string \<times> string \<times> string" where
  "source_of r = (ro_ResourceType r, ro_SourceSystemID r, ro_SourceRecordID r)"

definition ownership_ok :: "string \<Rightarrow> 'l guard_world \<Rightarrow> bool" where
  "ownership_ok org w \<longleftrightarrow> well_keyed ownership_key (g_resourceOwnership w) \<and>
     (\<forall>r \<in> vals (g_resourceOwnership w). ro_OrganizationID r = org \<and> claim_ok w r) \<and>
     inj_on source_of (vals (g_resourceOwnership w))"

definition bootstrap_ok :: "'l guard_world \<Rightarrow> bool" where
  "bootstrap_ok w \<longleftrightarrow> g_accounts w = [] \<longrightarrow> g_roles w = [] \<and> g_bundles w = [] \<and> g_assignments w = []"

definition guard_inv :: "'l guard_service \<Rightarrow> 'l guard_world \<Rightarrow> bool" where
  "guard_inv sv w \<longleftrightarrow> accounts_ok (gsv_organizationID sv) w \<and> bundles_ok (gsv_organizationID sv) w \<and>
     roles_ok (gsv_unicode sv) (gsv_organizationID sv) w \<and> assignments_ok (gsv_organizationID sv) w \<and> sessions_ok (gsv_organizationID sv) w \<and>
     ownership_ok (gsv_organizationID sv) w \<and> bootstrap_ok w"

definition empty_guard :: "'l guard_world \<Rightarrow> bool" where
  "empty_guard w \<longleftrightarrow> g_accounts w = [] \<and> g_accountByUsername w = [] \<and> g_bundles w = [] \<and> g_roles w = [] \<and> g_assignments w = [] \<and>
     g_resourceOwnership w = [] \<and> g_externalIdentities w = [] \<and> g_externalAssignments w = [] \<and> g_samlRequests w = [] \<and>
     g_sessions w = [] \<and> g_sessionByTokenHash w = []"

definition same_guard :: "'l guard_world \<Rightarrow> 'l guard_world \<Rightarrow> bool" where
  "same_guard w w' \<longleftrightarrow> g_accounts w' = g_accounts w \<and> g_accountByUsername w' = g_accountByUsername w \<and> g_bundles w' = g_bundles w \<and>
     g_roles w' = g_roles w \<and> g_assignments w' = g_assignments w \<and> g_resourceOwnership w' = g_resourceOwnership w \<and>
     g_externalIdentities w' = g_externalIdentities w \<and> g_externalAssignments w' = g_externalAssignments w \<and>
     g_samlRequests w' = g_samlRequests w \<and> g_sessions w' = g_sessions w \<and> g_sessionByTokenHash w' = g_sessionByTokenHash w"

lemmas guard_ok_defs = accounts_ok_def bundles_ok_def roles_ok_def assignments_ok_def sessions_ok_def ownership_ok_def claim_ok_def
  bootstrap_ok_def stored_account_def

lemma empty_guard_inv: "empty_guard w \<Longrightarrow> guard_inv sv w"
  by (simp add: empty_guard_def guard_inv_def guard_ok_defs well_keyed_def vals_def)

lemma same_guard_refl [simp]: "same_guard w w"
  by (simp add: same_guard_def)

text \<open>Each part of the invariant depends on a few maps only, and on accounts, roles and bundles only through what they contain.\<close>

lemma accounts_frame:
  "accounts_ok org w \<Longrightarrow> g_accounts w' = g_accounts w \<Longrightarrow> g_accountByUsername w' = g_accountByUsername w \<Longrightarrow> accounts_ok org w'"
  by (simp add: accounts_ok_def)

lemma bundles_frame: "bundles_ok org w \<Longrightarrow> g_bundles w' = g_bundles w \<Longrightarrow> bundles_ok org w'"
  by (simp add: bundles_ok_def)

lemma roles_frame: "roles_ok u org w \<Longrightarrow> g_roles w' = g_roles w \<Longrightarrow> g_bundles w' = g_bundles w \<Longrightarrow> roles_ok u org w'"
  by (simp add: roles_ok_def)

lemma assignments_frame:
  "assignments_ok org w \<Longrightarrow> g_assignments w' = g_assignments w \<Longrightarrow> (\<And>i. stored_account w i \<Longrightarrow> stored_account w' i) \<Longrightarrow>
    (\<And>a. a \<in> vals (g_assignments w) \<Longrightarrow> map_of (g_roles w) (ra_RoleID a) \<noteq> None \<Longrightarrow> map_of (g_roles w') (ra_RoleID a) \<noteq> None) \<Longrightarrow> assignments_ok org w'"
  unfolding assignments_ok_def by simp

lemma sessions_frame:
  "sessions_ok org w \<Longrightarrow> g_sessions w' = g_sessions w \<Longrightarrow> g_sessionByTokenHash w' = g_sessionByTokenHash w \<Longrightarrow>
    (\<And>i. stored_account w i \<Longrightarrow> stored_account w' i) \<Longrightarrow> sessions_ok org w'"
  unfolding sessions_ok_def by simp

lemma ownership_frame:
  "ownership_ok org w \<Longrightarrow> g_resourceOwnership w' = g_resourceOwnership w \<Longrightarrow> (\<And>i. stored_account w i \<Longrightarrow> stored_account w' i) \<Longrightarrow> ownership_ok org w'"
  unfolding ownership_ok_def claim_ok_def by simp

lemma bootstrap_frame:
  "bootstrap_ok w \<Longrightarrow> g_accounts w' = g_accounts w \<Longrightarrow> g_roles w' = g_roles w \<Longrightarrow> g_bundles w' = g_bundles w \<Longrightarrow> g_assignments w' = g_assignments w \<Longrightarrow>
    bootstrap_ok w'"
  by (simp add: bootstrap_ok_def)

lemmas guard_frames = accounts_frame bundles_frame roles_frame assignments_frame sessions_frame ownership_frame bootstrap_frame

lemma same_guard_inv:
  assumes "same_guard w w'" and "guard_inv sv w"
  shows "guard_inv sv w'"
  using assms unfolding guard_inv_def same_guard_def
  by (auto elim!: guard_frames simp: stored_account_def)

section \<open>Calls of the store\<close>

datatype guard_label = Internal | External | Tracked string gotime | Consumed string

inductive guard_effect :: "'l guard_service \<Rightarrow> guard_label \<Rightarrow> 'l guard_world \<Rightarrow> 'l guard_world \<Rightarrow> bool" for sv where
  unchanged: "same_guard w w' \<Longrightarrow> guard_effect sv Internal w w'"
| tracked: "sr_OrganizationID r = gsv_organizationID sv \<Longrightarrow> guard_effect sv (Tracked (sr_StateHash r) (sr_CreatedAt r)) w (snd (storeCreateSAMLRequest r w))"
| consumed: "guard_effect sv (Consumed h) w (snd (storeConsumeSAMLRequest (gsv_organizationID sv) h t w))"
| bootstrapped: "guard_effect sv Internal w (snd (storeBootstrapAdministrator (administrator_bootstrap sv names ph t a b r i) w))"
| rehashed: "guard_effect sv Internal w (snd (storeUpdatePasswordHash i h t w))"
| provisioned: "guard_effect sv External w (snd (storeProvisionExternalAccount (external_provisioning sv protocol issuer subject email display administrator t a i) w))"
| role_created: "role_OrganizationID r = gsv_organizationID sv \<Longrightarrow> supported (role_Permissions r) \<Longrightarrow> g_accounts w \<noteq> [] \<Longrightarrow>
     guard_effect sv Internal w (snd (storeCreateRole (gsv_unicode sv) r w))"
| role_deleted: "guard_effect sv Internal w (snd (storeDeleteRole (gsv_organizationID sv) i w))"
| assigned: "ra_OrganizationID a = gsv_organizationID sv \<Longrightarrow> guard_effect sv Internal w (snd (storeCreateRoleAssignment a w))"
| unassigned: "guard_effect sv Internal w (snd (storeDeleteRoleAssignment (gsv_organizationID sv) i w))"
| registered: "ro_OrganizationID r = gsv_organizationID sv \<Longrightarrow> guard_effect sv Internal w (snd (storeRegisterResourceOwnership r w))"
| claimed: "guard_effect sv Internal w (snd (storeClaimResourceOwnership (gsv_organizationID sv) rt ri by' t w))"
| released: "guard_effect sv Internal w (snd (storeDeleteResourceOwnership r w))"
| session_created: "ses_OrganizationID s = gsv_organizationID sv \<Longrightarrow> guard_effect sv Internal w (snd (storeCreateSession s w))"
| csrf_rotated: "guard_effect sv Internal w (snd (storeUpdateSessionCSRF i h w))"
| session_revoked: "guard_effect sv Internal w (snd (storeRevokeSession i t w))"

section \<open>Every call keeps the invariant\<close>

lemma guard_invI:
  "accounts_ok (gsv_organizationID sv) w \<Longrightarrow> bundles_ok (gsv_organizationID sv) w \<Longrightarrow> roles_ok (gsv_unicode sv) (gsv_organizationID sv) w \<Longrightarrow>
   assignments_ok (gsv_organizationID sv) w \<Longrightarrow> sessions_ok (gsv_organizationID sv) w \<Longrightarrow> ownership_ok (gsv_organizationID sv) w \<Longrightarrow> bootstrap_ok w \<Longrightarrow>
   guard_inv sv w"
  by (simp add: guard_inv_def)

lemma guard_invD:
  "guard_inv sv w \<Longrightarrow> accounts_ok (gsv_organizationID sv) w" "guard_inv sv w \<Longrightarrow> bundles_ok (gsv_organizationID sv) w"
  "guard_inv sv w \<Longrightarrow> roles_ok (gsv_unicode sv) (gsv_organizationID sv) w" "guard_inv sv w \<Longrightarrow> assignments_ok (gsv_organizationID sv) w"
  "guard_inv sv w \<Longrightarrow> sessions_ok (gsv_organizationID sv) w" "guard_inv sv w \<Longrightarrow> ownership_ok (gsv_organizationID sv) w" "guard_inv sv w \<Longrightarrow> bootstrap_ok w"
  by (simp_all add: guard_inv_def)

lemma update_nonempty [simp]: "AList.update k v m \<noteq> []"
  by (cases m) auto

lemma usernameKey_inj [simp]: "guardUsernameKey org n = guardUsernameKey org n' \<longleftrightarrow> n = n'"
  by (simp add: guardUsernameKey_def)

lemma accounts_add:
  assumes "accounts_ok org w" and "map_of (g_accounts w) (acc_ID a) = None"
    and "map_of (g_accountByUsername w) (guardUsernameKey org (acc_NormalizedUsername a)) = None" and "acc_OrganizationID a = org"
    and "g_accounts w' = AList.update (acc_ID a) a (g_accounts w)"
    and "g_accountByUsername w' = AList.update (guardUsernameKey org (acc_NormalizedUsername a)) (acc_ID a) (g_accountByUsername w)"
  shows "accounts_ok org w'"
  using assms unfolding accounts_ok_def
  by (auto simp: well_keyed_update vals_update) (metis option.distinct(1))+

lemma accounts_change:
  assumes "accounts_ok org w" and "map_of (g_accounts w) (acc_ID a) = Some old" and "acc_NormalizedUsername a = acc_NormalizedUsername old"
    and "acc_OrganizationID a = org" and "g_accounts w' = AList.update (acc_ID a) a (g_accounts w)" and "g_accountByUsername w' = g_accountByUsername w"
  shows "accounts_ok org w'"
proof -
  have "acc_ID old = acc_ID a" "old \<in> vals (g_accounts w)" using assms(1,2) by (auto simp: accounts_ok_def dest: well_keyed_lookup map_of_vals)
  then show ?thesis using assms unfolding accounts_ok_def
    by (auto simp: well_keyed_update vals_update) (metis option.inject)
qed

lemma Rehash_inv: "guard_inv sv w \<Longrightarrow> guard_inv sv (snd (storeUpdatePasswordHash i h t w))"
proof (cases "map_of (g_accounts w) i")
  case (Some a)
  assume inv: "guard_inv sv w"
  then have a: "acc_ID a = i" "acc_OrganizationID a = gsv_organizationID sv"
    using Some by (auto simp: guard_inv_def accounts_ok_def dest: well_keyed_lookup map_of_vals)
  let ?w = "w\<lparr>g_accounts := AList.update i (a\<lparr>acc_PasswordHash := h, acc_UpdatedAt := t\<rparr>) (g_accounts w)\<rparr>"
  have "accounts_ok (gsv_organizationID sv) ?w"
    by (rule accounts_change[OF guard_invD(1)[OF inv], of "a\<lparr>acc_PasswordHash := h, acc_UpdatedAt := t\<rparr>" a]) (use a Some in simp_all)
  then have "guard_inv sv ?w" using inv unfolding guard_inv_def
    by (auto elim!: guard_frames simp: stored_account_def bootstrap_ok_def)
  then show ?thesis using inv Some by (simp add: storeUpdatePasswordHash_def)
qed (simp add: storeUpdatePasswordHash_def)

lemma samlRequests_inv: "guard_inv sv w \<Longrightarrow> guard_inv sv (w\<lparr>g_samlRequests := m\<rparr>)"
  unfolding guard_inv_def by (auto elim!: guard_frames simp: stored_account_def)

lemma Track_inv: "guard_inv sv w \<Longrightarrow> guard_inv sv (snd (storeCreateSAMLRequest r w))"
  by (auto simp: storeCreateSAMLRequest_def Let_def samlRequests_inv split: option.splits)

lemma Consume_inv: "guard_inv sv w \<Longrightarrow> guard_inv sv (snd (storeConsumeSAMLRequest org h t w))"
  by (auto simp: storeConsumeSAMLRequest_def Let_def samlRequests_inv split: option.splits)

section \<open>Roles and assignments\<close>

lemma inj_on_vals_update:
  assumes "well_keyed key m" and "inj_on f (vals m)" and "\<forall>v' \<in> vals m. key v' \<noteq> key v \<longrightarrow> f v' \<noteq> f v"
  shows "inj_on f (vals (AList.update (key v) v m))"
proof -
  have "inj_on f {v' \<in> vals m. key v' \<noteq> key v}" using assms(2) by (rule inj_on_subset) auto
  then show ?thesis using assms(3) by (auto simp: vals_update[OF assms(1) refl] image_iff)
qed

lemma CreateRole_cases:
  obtains e where "storeCreateRole u r w = (Inl e, w)"
  | "storeCreateRole u r w = (Inr (), w\<lparr>g_roles := AList.update (role_ID r) r (g_roles w)\<rparr>)" "role_Source r = LocalRoleSource"
    "map_of (g_roles w) (role_ID r) = None" "\<forall>i \<in> set (role_PolicyBundleIDs r). map_of (g_bundles w) i \<noteq> None"
    "\<forall>r' \<in> vals (g_roles w). role_OrganizationID r' = role_OrganizationID r \<longrightarrow> role_label u r' \<noteq> role_label u r"
proof (cases "Role_Validate r = None \<and> role_Source r = LocalRoleSource \<and> map_of (g_roles w) (role_ID r) = None \<and>
    \<not> (\<exists>r' \<in> vals (g_roles w). role_OrganizationID r' = role_OrganizationID r \<and> role_label u r' = role_label u r) \<and>
    \<not> list_ex (\<lambda>i. case map_of (g_bundles w) i of None \<Rightarrow> True | Some b \<Rightarrow> pb_OrganizationID b \<noteq> role_OrganizationID r) (role_PolicyBundleIDs r)")
  case True
  then have "\<forall>i \<in> set (role_PolicyBundleIDs r). map_of (g_bundles w) i \<noteq> None" by (fastforce simp: list_ex_iff split: option.splits)
  then show ?thesis using True by (intro that(2)) (auto simp: storeCreateRole_def list_ex_vals role_label_def)
next
  case False
  then have "\<exists>e. storeCreateRole u r w = (Inl e, w)"
    unfolding storeCreateRole_def list_ex_vals role_label_def[symmetric] by (cases "Role_Validate r") auto
  then show ?thesis using that(1) by blast
qed

lemma CreateRole_inv:
  assumes inv: "guard_inv sv w" and "role_OrganizationID r = gsv_organizationID sv" and "supported (role_Permissions r)"
    and ne: "g_accounts w \<noteq> []"
  shows "guard_inv sv (snd (storeCreateRole (gsv_unicode sv) r w))"
proof (cases rule: CreateRole_cases[of "gsv_unicode sv" r w])
  case 2
  let ?w = "w\<lparr>g_roles := AList.update (role_ID r) r (g_roles w)\<rparr>"
  have "inj_on (role_label (gsv_unicode sv)) (vals (AList.update (role_ID r) r (g_roles w)))"
    using guard_invD(3)[OF inv] 2(5) assms(2) by (intro inj_on_vals_update) (auto simp: roles_ok_def)
  then have "roles_ok (gsv_unicode sv) (gsv_organizationID sv) ?w"
    using guard_invD(3)[OF inv] 2(4) assms(2,3) by (auto simp: roles_ok_def well_keyed_update vals_update)
  then have "guard_inv sv ?w" using inv ne unfolding guard_inv_def
    by (auto elim!: guard_frames simp: stored_account_def bootstrap_ok_def)
  then show ?thesis using 2(1) by simp
qed (use inv in simp)

lemma DeleteRole_or:
  "(\<exists>e. storeDeleteRole org i w = (Inl e, w)) \<or>
   (storeDeleteRole org i w = (Inr (), w\<lparr>g_roles := AList.delete i (g_roles w)\<rparr>) \<and> (\<exists>r. map_of (g_roles w) i = Some r \<and> role_Source r = LocalRoleSource) \<and>
    (\<forall>a \<in> vals (g_assignments w). ra_OrganizationID a = org \<longrightarrow> ra_RoleID a \<noteq> i))"
  unfolding storeDeleteRole_def list_ex_vals by (simp split: option.split)

lemma DeleteRole_cases:
  obtains e where "storeDeleteRole org i w = (Inl e, w)"
  | r where "storeDeleteRole org i w = (Inr (), w\<lparr>g_roles := AList.delete i (g_roles w)\<rparr>)" "map_of (g_roles w) i = Some r"
    "role_Source r = LocalRoleSource" "\<forall>a \<in> vals (g_assignments w). ra_OrganizationID a = org \<longrightarrow> ra_RoleID a \<noteq> i"
  using DeleteRole_or by blast

lemma DeleteRole_inv:
  assumes inv: "guard_inv sv w"
  shows "guard_inv sv (snd (storeDeleteRole (gsv_organizationID sv) i w))"
proof (cases rule: DeleteRole_cases[of "gsv_organizationID sv" i w])
  case (2 r)
  let ?w = "w\<lparr>g_roles := AList.delete i (g_roles w)\<rparr>"
  have "roles_ok (gsv_unicode sv) (gsv_organizationID sv) ?w"
    using guard_invD(3)[OF inv] vals_delete[of i "g_roles w"] by (auto simp: roles_ok_def well_keyed_delete elim: inj_on_subset)
  moreover have "assignments_ok (gsv_organizationID sv) ?w"
    by (rule assignments_frame[OF guard_invD(4)[OF inv]])
      (use 2(4) guard_invD(4)[OF inv] in \<open>auto simp: stored_account_def assignments_ok_def\<close>)
  moreover have "bootstrap_ok ?w" using guard_invD(7)[OF inv] by (auto simp: bootstrap_ok_def AList.delete_eq)
  ultimately have "guard_inv sv ?w" using inv unfolding guard_inv_def
    by (auto elim!: guard_frames simp: stored_account_def)
  then show ?thesis using 2(1) by simp
qed (use inv in simp)

lemma assignments_inv:
  assumes inv: "guard_inv sv w" and "assignments_ok (gsv_organizationID sv) (w\<lparr>g_assignments := m\<rparr>)" and "g_accounts w = [] \<longrightarrow> m = []"
  shows "guard_inv sv (w\<lparr>g_assignments := m\<rparr>)"
  using assms unfolding guard_inv_def by (auto elim!: guard_frames simp: stored_account_def bootstrap_ok_def)

lemma assignments_add:
  assumes "assignments_ok org w" and "ra_OrganizationID a = org" and "gs_OrganizationID (ra_Scope a) = org \<and> gs_Kind (ra_Scope a) \<in> scope_kinds"
    and "stored_account w (ra_AccountID a)" and "map_of (g_roles w) (ra_RoleID a) \<noteq> None" and "\<forall>b \<in> vals (g_assignments w). assignment_target b \<noteq> assignment_target a"
  shows "assignments_ok org (w\<lparr>g_assignments := AList.update (ra_ID a) a (g_assignments w)\<rparr>)"
proof -
  have "inj_on assignment_target (vals (AList.update (ra_ID a) a (g_assignments w)))"
    using assms(1,6) by (intro inj_on_vals_update) (auto simp: assignments_ok_def)
  then show ?thesis using assms(1-5) unfolding assignments_ok_def
    by (auto simp: well_keyed_update vals_update stored_account_def)
qed

lemma CreateRoleAssignment_or:
  "(\<exists>e. storeCreateRoleAssignment a w = (Inl e, w)) \<or>
   (storeCreateRoleAssignment a w = (Inr (), w\<lparr>g_assignments := AList.update (ra_ID a) a (g_assignments w)\<rparr>) \<and>
    RoleAssignment_Validate a = None \<and> stored_account w (ra_AccountID a) \<and> map_of (g_roles w) (ra_RoleID a) \<noteq> None \<and>
    map_of (g_assignments w) (ra_ID a) = None \<and>
    (\<forall>b \<in> vals (g_assignments w). ra_OrganizationID b = ra_OrganizationID a \<longrightarrow> assignment_target b \<noteq> assignment_target a))"
  unfolding storeCreateRoleAssignment_def list_ex_vals stored_account_def by (simp add: assignment_target_def split: option.split)

lemma CreateRoleAssignment_cases:
  obtains e where "storeCreateRoleAssignment a w = (Inl e, w)"
  | "storeCreateRoleAssignment a w = (Inr (), w\<lparr>g_assignments := AList.update (ra_ID a) a (g_assignments w)\<rparr>)"
    "RoleAssignment_Validate a = None" "stored_account w (ra_AccountID a)" "map_of (g_roles w) (ra_RoleID a) \<noteq> None" "map_of (g_assignments w) (ra_ID a) = None"
    "\<forall>b \<in> vals (g_assignments w). ra_OrganizationID b = ra_OrganizationID a \<longrightarrow> assignment_target b \<noteq> assignment_target a"
  using CreateRoleAssignment_or[of a w] by (elim disjE exE conjE) (rule that(1), assumption, (rule that(2); assumption))

lemma CreateRoleAssignment_inv:
  assumes inv: "guard_inv sv w" and org: "ra_OrganizationID a = gsv_organizationID sv"
  shows "guard_inv sv (snd (storeCreateRoleAssignment a w))"
proof (cases rule: CreateRoleAssignment_cases[of a w])
  case 2
  have "gs_OrganizationID (ra_Scope a) = ra_OrganizationID a \<and> gs_Kind (ra_Scope a) \<in> scope_kinds" using 2(2)
    by (auto simp: RoleAssignment_Validate_def GuardScope_Validate_def scope_kinds_def split: if_splits)
  then have "assignments_ok (gsv_organizationID sv) (w\<lparr>g_assignments := AList.update (ra_ID a) a (g_assignments w)\<rparr>)"
    using 2(3,4,6) org guard_invD(4)[OF inv]
    by (intro assignments_add) (auto simp: assignments_ok_def)
  moreover have "g_accounts w \<noteq> []" using 2(3) by (auto simp: stored_account_def)
  ultimately show ?thesis using assignments_inv[OF inv] 2(1) by simp
qed (use inv in simp)

lemma assignments_delete:
  "assignments_ok org w \<Longrightarrow> assignments_ok org (w\<lparr>g_assignments := AList.delete i (g_assignments w)\<rparr>)"
  using vals_delete[of i "g_assignments w"] unfolding assignments_ok_def stored_account_def by (auto simp: well_keyed_delete elim: inj_on_subset)

lemma DeleteRoleAssignment_inv:
  assumes inv: "guard_inv sv w"
  shows "guard_inv sv (snd (storeDeleteRoleAssignment org i w))"
  using inv assignments_inv[OF inv assignments_delete[OF guard_invD(4)[OF inv]], of i] guard_invD(7)[OF inv]
  by (auto simp: storeDeleteRoleAssignment_def bootstrap_ok_def AList.delete_eq split: option.splits)

section \<open>Ownership and sessions\<close>

lemma ownership_inv:
  assumes "guard_inv sv w" and "ownership_ok (gsv_organizationID sv) (w\<lparr>g_resourceOwnership := m\<rparr>)"
  shows "guard_inv sv (w\<lparr>g_resourceOwnership := m\<rparr>)"
  using assms unfolding guard_inv_def by (auto elim!: guard_frames simp: stored_account_def)

lemma claim_ok_frame [simp]: "claim_ok (w\<lparr>g_resourceOwnership := m\<rparr>) r = claim_ok w r"
  by (simp add: claim_ok_def stored_account_def)

lemma Register_or:
  "snd (storeRegisterResourceOwnership r w) = w \<or>
   (storeRegisterResourceOwnership r w = (Inr (r, True), w\<lparr>g_resourceOwnership := AList.update (ownership_key r) r (g_resourceOwnership w)\<rparr>) \<and>
    ResourceOwnership_Validate r = None \<and> ro_WriteLocked r \<and> map_of (g_resourceOwnership w) (ownership_key r) = None \<and>
    (\<forall>s \<in> vals (g_resourceOwnership w). ro_OrganizationID s = ro_OrganizationID r \<longrightarrow> source_of s \<noteq> source_of r))"
  unfolding storeRegisterResourceOwnership_def list_ex_vals by (simp add: source_of_def split: option.split)

lemma locked_valid: "ResourceOwnership_Validate r = None \<Longrightarrow> ro_WriteLocked r \<Longrightarrow> ro_ClaimedBy r = '''' \<and> ro_ClaimedAt r = None"
  by (auto simp: ResourceOwnership_Validate_def split: if_splits)

lemma Register_inv:
  assumes inv: "guard_inv sv w" and org: "ro_OrganizationID r = gsv_organizationID sv"
  shows "guard_inv sv (snd (storeRegisterResourceOwnership r w))"
  using Register_or[of r w]
proof (elim disjE conjE)
  let ?m = "AList.update (ownership_key r) r (g_resourceOwnership w)"
  assume run: "storeRegisterResourceOwnership r w = (Inr (r, True), w\<lparr>g_resourceOwnership := ?m\<rparr>)" and v: "ResourceOwnership_Validate r = None"
    "ro_WriteLocked r" and new: "\<forall>s \<in> vals (g_resourceOwnership w). ro_OrganizationID s = ro_OrganizationID r \<longrightarrow> source_of s \<noteq> source_of r"
  have "inj_on source_of (vals ?m)"
    using guard_invD(6)[OF inv] new org by (intro inj_on_vals_update) (auto simp: ownership_ok_def)
  then have "ownership_ok (gsv_organizationID sv) (w\<lparr>g_resourceOwnership := ?m\<rparr>)"
    using guard_invD(6)[OF inv] org locked_valid[OF v] v(2) unfolding ownership_ok_def
    by (auto simp: well_keyed_update vals_update) (simp add: claim_ok_def)
  then show ?thesis using ownership_inv[OF inv] run by simp
qed (use inv in simp)

lemma ownership_change:
  assumes "ownership_ok org w" and "map_of (g_resourceOwnership w) (ownership_key r) = Some old" and "ro_OrganizationID r = org" and "claim_ok w r"
    and "source_of r = source_of old"
  shows "ownership_ok org (w\<lparr>g_resourceOwnership := AList.update (ownership_key r) r (g_resourceOwnership w)\<rparr>)"
proof -
  have o: "well_keyed ownership_key (g_resourceOwnership w)" "inj_on source_of (vals (g_resourceOwnership w))" "old \<in> vals (g_resourceOwnership w)"
    "ownership_key old = ownership_key r"
    using assms(1,2) by (auto simp: ownership_ok_def dest: well_keyed_lookup map_of_vals)
  have "inj_on source_of (vals (AList.update (ownership_key r) r (g_resourceOwnership w)))"
    using o assms(5) by (intro inj_on_vals_update) (auto dest: inj_onD)
  then show ?thesis using assms(1,3,4) o(1) unfolding ownership_ok_def by (auto simp: well_keyed_update vals_update)
qed

lemma Claim_or:
  "(\<exists>e. storeClaimResourceOwnership org rt ri by' t w = (Inl e, w)) \<or>
   (\<exists>old. map_of (g_resourceOwnership w) (guardResourceOwnershipKey org rt ri) = Some old \<and> ro_WriteLocked old \<and> active_account w org by' \<and> by' \<noteq> '''' \<and>
      storeClaimResourceOwnership org rt ri by' t w = (let new = old\<lparr>ro_WriteLocked := False, ro_ClaimedBy := by', ro_ClaimedAt := Some t\<rparr> in
        (Inr new, w\<lparr>g_resourceOwnership := AList.update (guardResourceOwnershipKey org rt ri) new (g_resourceOwnership w)\<rparr>)))"
  unfolding storeClaimResourceOwnership_def Let_def by (simp split: option.split)

lemma active_stored: "active_account w org i \<Longrightarrow> stored_account w i"
  by (auto simp: active_account_def stored_account_def split: option.splits)

lemma Claim_inv:
  assumes inv: "guard_inv sv w"
  shows "guard_inv sv (snd (storeClaimResourceOwnership (gsv_organizationID sv) rt ri by' t w))"
  using Claim_or[of "gsv_organizationID sv" rt ri by' t w]
proof (elim disjE exE conjE)
  fix old assume old: "map_of (g_resourceOwnership w) (guardResourceOwnershipKey (gsv_organizationID sv) rt ri) = Some old"
    and act: "active_account w (gsv_organizationID sv) by'"
    and run: "storeClaimResourceOwnership (gsv_organizationID sv) rt ri by' t w = (let new = old\<lparr>ro_WriteLocked := False, ro_ClaimedBy := by', ro_ClaimedAt := Some t\<rparr> in
        (Inr new, w\<lparr>g_resourceOwnership := AList.update (guardResourceOwnershipKey (gsv_organizationID sv) rt ri) new (g_resourceOwnership w)\<rparr>))"
  let ?new = "old\<lparr>ro_WriteLocked := False, ro_ClaimedBy := by', ro_ClaimedAt := Some t\<rparr>"
  have k: "guardResourceOwnershipKey (gsv_organizationID sv) rt ri = ownership_key old" "ro_OrganizationID old = gsv_organizationID sv"
    using old guard_invD(6)[OF inv] by (auto simp: ownership_ok_def dest: well_keyed_lookup map_of_vals)
  have "ownership_ok (gsv_organizationID sv) (w\<lparr>g_resourceOwnership := AList.update (ownership_key ?new) ?new (g_resourceOwnership w)\<rparr>)"
    by (rule ownership_change[OF guard_invD(6)[OF inv], of ?new old])
      (use k old active_stored[OF act] in \<open>simp_all add: ownership_key_def claim_ok_def source_of_def\<close>)
  then show ?thesis using ownership_inv[OF inv] run k(1) by (simp add: ownership_key_def Let_def)
qed (use inv in simp)

lemma Release_inv:
  assumes inv: "guard_inv sv w"
  shows "guard_inv sv (snd (storeDeleteResourceOwnership r w))"
proof -
  let ?m = "AList.delete (ownership_key r) (g_resourceOwnership w)"
  have "ownership_ok (gsv_organizationID sv) (w\<lparr>g_resourceOwnership := ?m\<rparr>)"
    using guard_invD(6)[OF inv] vals_delete[of "ownership_key r" "g_resourceOwnership w"] unfolding ownership_ok_def
    by (auto simp: well_keyed_delete elim: inj_on_subset)
  from ownership_inv[OF inv this] inv show ?thesis unfolding storeDeleteResourceOwnership_def by (simp split: option.split)
qed

lemma sessions_inv:
  assumes "guard_inv sv w" and "sessions_ok (gsv_organizationID sv) (w\<lparr>g_sessions := m, g_sessionByTokenHash := n\<rparr>)"
  shows "guard_inv sv (w\<lparr>g_sessions := m, g_sessionByTokenHash := n\<rparr>)"
  using assms unfolding guard_inv_def by (auto elim!: guard_frames simp: stored_account_def)

lemma hex_encode_inj: "hex_encode s = hex_encode t \<Longrightarrow> s = t"
proof (induction s arbitrary: t)
  case Nil
  then show ?case by (cases t) (simp_all add: hex_encode_def)
next
  case (Cons c s)
  then obtain d t' where t: "t = d # t'" by (cases t) (simp_all add: hex_encode_def)
  have inj: "hex_digit m = hex_digit n \<Longrightarrow> m < 16 \<Longrightarrow> n < 16 \<Longrightarrow> m = n" for m n
    by (auto simp: hex_digit_def split: if_splits dest!: arg_cong[where f = of_char])
  have "byte c div 16 = byte d div 16" "byte c mod 16 = byte d mod 16"
    using Cons.prems t nat_of_char_less_256[of c] nat_of_char_less_256[of d]
    by (auto simp: hex_encode_def intro!: inj less_mult_imp_div_less)
  then have "byte c = byte d" by (metis div_mult_mod_eq)
  then show ?case using Cons t by (auto simp: hex_encode_def)
qed

lemma CreateSession_or:
  "(\<exists>e. storeCreateSession s w = (Inl e, w)) \<or>
   (storeCreateSession s w = (Inr (), w\<lparr>g_sessions := AList.update (ses_ID s) s (g_sessions w),
       g_sessionByTokenHash := AList.update (hex_encode (ses_TokenHash s)) (ses_ID s) (g_sessionByTokenHash w)\<rparr>) \<and>
    ses_ID s \<noteq> '''' \<and> length (ses_TokenHash s) = 32 \<and> length (ses_CSRFHash s) = 32 \<and> stored_account w (ses_AccountID s) \<and>
    map_of (g_sessions w) (ses_ID s) = None \<and> map_of (g_sessionByTokenHash w) (hex_encode (ses_TokenHash s)) = None)"
  unfolding storeCreateSession_def Let_def stored_account_def by (simp split: option.split)

lemma CreateSession_inv:
  assumes inv: "guard_inv sv w" and org: "ses_OrganizationID s = gsv_organizationID sv"
  shows "guard_inv sv (snd (storeCreateSession s w))"
  using CreateSession_or[of s w]
proof (elim disjE exE conjE)
  let ?w = "w\<lparr>g_sessions := AList.update (ses_ID s) s (g_sessions w),
       g_sessionByTokenHash := AList.update (hex_encode (ses_TokenHash s)) (ses_ID s) (g_sessionByTokenHash w)\<rparr>"
  assume run: "storeCreateSession s w = (Inr (), ?w)" and s: "length (ses_TokenHash s) = 32" "length (ses_CSRFHash s) = 32" "stored_account w (ses_AccountID s)"
    "map_of (g_sessions w) (ses_ID s) = None" "map_of (g_sessionByTokenHash w) (hex_encode (ses_TokenHash s)) = None"
  have ok: "sessions_ok (gsv_organizationID sv) w" by (rule guard_invD(5)[OF inv])
  then have "map_of (g_sessionByTokenHash ?w) (hex_encode (ses_TokenHash x)) = Some (ses_ID x)" if "x \<in> vals (g_sessions w)" for x
    using that s(5) by (auto simp: sessions_ok_def)
  moreover have "\<exists>x. map_of (g_sessions ?w) i = Some x \<and> k = hex_encode (ses_TokenHash x)" if "map_of (g_sessionByTokenHash ?w) k = Some i" for k i
    using that ok s(4) by (cases "k = hex_encode (ses_TokenHash s)") (force simp: sessions_ok_def)+
  ultimately have "sessions_ok (gsv_organizationID sv) ?w"
    using ok s(1-3) org unfolding sessions_ok_def stored_account_def by (auto simp: well_keyed_update vals_update simp del: map_of_update) simp
  then show ?thesis using sessions_inv[OF inv] run by simp
qed (use inv in simp)

lemma session_change:
  assumes inv: "guard_inv sv w" and old: "map_of (g_sessions w) (ses_ID s) = Some old" and s: "ses_TokenHash s = ses_TokenHash old"
    "ses_OrganizationID s = ses_OrganizationID old" "ses_AccountID s = ses_AccountID old" "length (ses_CSRFHash s) = 32"
  shows "guard_inv sv (w\<lparr>g_sessions := AList.update (ses_ID s) s (g_sessions w)\<rparr>)"
proof -
  let ?w = "w\<lparr>g_sessions := AList.update (ses_ID s) s (g_sessions w)\<rparr>"
  have ok: "sessions_ok (gsv_organizationID sv) w" by (rule guard_invD(5)[OF inv])
  then have o: "old \<in> vals (g_sessions w)" "ses_ID old = ses_ID s" using old by (auto simp: sessions_ok_def dest: well_keyed_lookup map_of_vals)
  have "\<exists>x. map_of (g_sessions ?w) i = Some x \<and> k = hex_encode (ses_TokenHash x)" if "map_of (g_sessionByTokenHash w) k = Some i" for k i
    using that ok old s(1) by (force simp: sessions_ok_def)
  then have "sessions_ok (gsv_organizationID sv) ?w"
    using ok o s unfolding sessions_ok_def stored_account_def by (auto simp: well_keyed_update vals_update simp del: map_of_update)
  then show ?thesis using sessions_inv[OF inv, where n = "g_sessionByTokenHash w"] by simp
qed

lemma CSRF_inv: "guard_inv sv w \<Longrightarrow> guard_inv sv (snd (storeUpdateSessionCSRF i h w))"
proof -
  assume inv: "guard_inv sv w"
  have "guard_inv sv (w\<lparr>g_sessions := AList.update i (s\<lparr>ses_CSRFHash := h\<rparr>) (g_sessions w)\<rparr>)" if "map_of (g_sessions w) i = Some s" "length h = 32" for s
    using session_change[OF inv, of "s\<lparr>ses_CSRFHash := h\<rparr>" s] that guard_invD(5)[OF inv] by (auto simp: sessions_ok_def dest: well_keyed_lookup)
  then show ?thesis using inv unfolding storeUpdateSessionCSRF_def by (simp split: option.split)
qed

lemma Revoke_inv: "guard_inv sv w \<Longrightarrow> guard_inv sv (snd (storeRevokeSession i t w))"
proof -
  assume inv: "guard_inv sv w"
  have "guard_inv sv (w\<lparr>g_sessions := AList.update i (s\<lparr>ses_RevokedAt := Some t\<rparr>) (g_sessions w)\<rparr>)" if "map_of (g_sessions w) i = Some s" for s
    using session_change[OF inv, of "s\<lparr>ses_RevokedAt := Some t\<rparr>" s] that guard_invD(5)[OF inv]
    by (auto simp: sessions_ok_def dest: well_keyed_lookup map_of_vals)
  then show ?thesis using inv unfolding storeRevokeSession_def by (simp split: option.split)
qed

section \<open>Bootstrap and external accounts\<close>

lemma no_accounts:
  assumes "guard_inv sv w" and "\<not> organization_has_account (gsv_organizationID sv) w"
  shows "g_accounts w = []" "g_roles w = []" "g_bundles w = []" "g_assignments w = []" "map_of (g_accountByUsername w) k = None" "g_sessions w = []"
    "map_of (g_sessionByTokenHash w) k = None"
proof -
  have e: "vals (g_accounts w) = {}"
    using assms guard_invD(1)[OF assms(1)] by (auto simp: organization_has_account_def list_ex_vals accounts_ok_def)
  then show a: "g_accounts w = []" by (simp add: vals_def)
  then show "g_roles w = []" "g_bundles w = []" "g_assignments w = []" using guard_invD(7)[OF assms(1)] by (simp_all add: bootstrap_ok_def)
  show "map_of (g_accountByUsername w) k = None" using guard_invD(1)[OF assms(1)] a by (cases "map_of (g_accountByUsername w) k") (auto simp: accounts_ok_def)
  show s: "g_sessions w = []" using guard_invD(5)[OF assms(1)] a by (cases "g_sessions w") (auto simp: sessions_ok_def vals_def stored_account_def)
  show "map_of (g_sessionByTokenHash w) k = None" using guard_invD(5)[OF assms(1)] s
    by (cases "map_of (g_sessionByTokenHash w) k") (auto simp: sessions_ok_def)
qed

lemma Bootstrap_or:
  "(\<exists>e. storeBootstrapAdministrator b w = (Inl e, w)) \<or>
   (storeBootstrapAdministrator b w = (Inr (ab_Account b), w\<lparr>g_accounts := AList.update (acc_ID (ab_Account b)) (ab_Account b) (g_accounts w),
       g_accountByUsername := AList.update (guardUsernameKey (acc_OrganizationID (ab_Account b)) (acc_NormalizedUsername (ab_Account b)))
         (acc_ID (ab_Account b)) (g_accountByUsername w),
       g_bundles := AList.update (pb_ID (ab_Bundle b)) (ab_Bundle b) (g_bundles w), g_roles := AList.update (role_ID (ab_Role b)) (ab_Role b) (g_roles w),
       g_assignments := AList.update (ra_ID (ab_Assignment b)) (ab_Assignment b) (g_assignments w)\<rparr>) \<and>
    \<not> organization_has_account (acc_OrganizationID (ab_Account b)) w)"
  unfolding storeBootstrapAdministrator_def Let_def by (simp split: option.split)

lemma administrator_bootstrap_simps:
  "acc_ID (ab_Account (administrator_bootstrap sv names ph t a b r i)) = a"
  "acc_OrganizationID (ab_Account (administrator_bootstrap sv names ph t a b r i)) = gsv_organizationID sv"
  "acc_Status (ab_Account (administrator_bootstrap sv names ph t a b r i)) = ''active''"
  "acc_NormalizedUsername (ab_Account (administrator_bootstrap sv names ph t a b r i)) = fst (snd names)"
  "ab_Bundle (administrator_bootstrap sv names ph t a b r i) = \<lparr>pb_ID = b, pb_OrganizationID = gsv_organizationID sv, pb_Name = ''Core administration'',
         pb_Description = ''Common organization, inventory, directory, goals, and Vault permissions.'', pb_Permissions = AdministratorBundlePermissions\<rparr>"
  "ab_Role (administrator_bootstrap sv names ph t a b r i) = \<lparr>role_ID = r, role_OrganizationID = gsv_organizationID sv, role_Name = ''Administrator'',
         role_Description = ''Full organization administrator for the initial StewardMesh deployment.'',
         role_Permissions = [PermissionGuardManage], role_PolicyBundleIDs = [b], role_Source = BuiltInRoleSource\<rparr>"
  "ab_Assignment (administrator_bootstrap sv names ph t a b r i) = \<lparr>ra_ID = i, ra_OrganizationID = gsv_organizationID sv, ra_AccountID = a, ra_RoleID = r,
         ra_Scope = organization_scope (gsv_organizationID sv), ra_Source = LocalAssignmentSource, ra_CreatedAt = t\<rparr>"
  by (auto simp: administrator_bootstrap_def split: prod.splits)

lemma administrator_permissions [simp]: "supported AdministratorBundlePermissions"
  by (simp add: supported_def AdministratorBundlePermissions_def SupportedPermissions_def)

lemma Bootstrap_inv:
  assumes inv: "guard_inv sv w"
  shows "guard_inv sv (snd (storeBootstrapAdministrator (administrator_bootstrap sv names ph t a b r i) w))"
  using Bootstrap_or[of "administrator_bootstrap sv names ph t a b r i" w]
proof (elim disjE exE conjE)
  let ?b = "administrator_bootstrap sv names ph t a b r i"
  let ?w = "w\<lparr>g_accounts := AList.update (acc_ID (ab_Account ?b)) (ab_Account ?b) (g_accounts w),
       g_accountByUsername := AList.update (guardUsernameKey (acc_OrganizationID (ab_Account ?b)) (acc_NormalizedUsername (ab_Account ?b)))
         (acc_ID (ab_Account ?b)) (g_accountByUsername w),
       g_bundles := AList.update (pb_ID (ab_Bundle ?b)) (ab_Bundle ?b) (g_bundles w), g_roles := AList.update (role_ID (ab_Role ?b)) (ab_Role ?b) (g_roles w),
       g_assignments := AList.update (ra_ID (ab_Assignment ?b)) (ab_Assignment ?b) (g_assignments w)\<rparr>"
  assume run: "storeBootstrapAdministrator ?b w = (Inr (ab_Account ?b), ?w)" and "\<not> organization_has_account (acc_OrganizationID (ab_Account ?b)) w"
  then have "\<not> organization_has_account (gsv_organizationID sv) w" by (simp add: administrator_bootstrap_simps)
  note none = no_accounts[OF inv this]
  have "guard_inv sv ?w"
  proof (rule guard_invI)
    show "accounts_ok (gsv_organizationID sv) ?w" by (simp add: accounts_ok_def none administrator_bootstrap_simps well_keyed_def vals_def)
    show "bundles_ok (gsv_organizationID sv) ?w" using administrator_permissions by (simp add: bundles_ok_def none administrator_bootstrap_simps well_keyed_def vals_def)
    show "roles_ok (gsv_unicode sv) (gsv_organizationID sv) ?w" by (simp add: roles_ok_def none administrator_bootstrap_simps well_keyed_def vals_def supported_def SupportedPermissions_def)
    show "assignments_ok (gsv_organizationID sv) ?w"
      by (simp add: assignments_ok_def none administrator_bootstrap_simps well_keyed_def vals_def stored_account_def organization_scope_def scope_kinds_def)
    show "sessions_ok (gsv_organizationID sv) ?w" by (simp add: sessions_ok_def none)
    show "ownership_ok (gsv_organizationID sv) ?w"
      by (rule ownership_frame[OF guard_invD(6)[OF inv]]) (simp_all add: stored_account_def none)
    show "bootstrap_ok ?w" by (simp add: bootstrap_ok_def)
  qed
  then show ?thesis using run by simp
qed (use inv in simp)

lemma administrator_role_stored:
  assumes "guard_inv sv w" and "administrator_role_id org w = Some i"
  shows "\<exists>r. map_of (g_roles w) i = Some r \<and> role_Name r = ''Administrator''"
proof -
  obtain k r where "find (\<lambda>(_, role). role_OrganizationID role = org \<and> role_Name role = ''Administrator'') (g_roles w) = Some (k, r)" "i = role_ID r"
    using assms(2) by (auto simp: administrator_role_id_def)
  then have "(k, r) \<in> set (g_roles w)" "role_Name r = ''Administrator''" "i = role_ID r" by (auto simp: find_Some_iff in_set_conv_nth)
  then show ?thesis using guard_invD(3)[OF assms(1)] by (auto simp: roles_ok_def well_keyed_def)
qed

lemma account_change_inv:
  assumes inv: "guard_inv sv w" and "map_of (g_accounts w) (acc_ID a) = Some old" and "acc_NormalizedUsername a = acc_NormalizedUsername old"
    and "acc_OrganizationID a = gsv_organizationID sv"
  shows "guard_inv sv (w\<lparr>g_accounts := AList.update (acc_ID a) a (g_accounts w)\<rparr>)"
proof -
  have "accounts_ok (gsv_organizationID sv) (w\<lparr>g_accounts := AList.update (acc_ID a) a (g_accounts w)\<rparr>)"
    by (rule accounts_change[OF guard_invD(1)[OF inv] assms(2-4)]) simp_all
  then show ?thesis using inv unfolding guard_inv_def by (auto elim!: guard_frames simp: stored_account_def bootstrap_ok_def)
qed

text \<open>What \<open>provision_account\<close> leaves: the invariant, the same roles and assignments, and the account it returns stored under its id.\<close>

lemma provision_account_keeps:
  assumes inv: "guard_inv sv w" and org: "acc_OrganizationID (eap_Account p) = gsv_organizationID sv"
    and run: "provision_account p w = (Inr (account, created), w1)"
  shows "guard_inv sv w1" "g_roles w1 = g_roles w" "g_assignments w1 = g_assignments w" "acc_OrganizationID account = gsv_organizationID sv"
    "\<exists>old. map_of (g_accounts w1) (acc_ID account) = Some old \<and> acc_NormalizedUsername account = acc_NormalizedUsername old"
proof -
  let ?k = "guardExternalIdentityKey (ei_OrganizationID (eap_Identity p)) (ei_Issuer (eap_Identity p)) (ei_Subject (eap_Identity p))"
  have "guard_inv sv w1 \<and> g_roles w1 = g_roles w \<and> g_assignments w1 = g_assignments w \<and> acc_OrganizationID account = gsv_organizationID sv \<and>
    (\<exists>old. map_of (g_accounts w1) (acc_ID account) = Some old \<and> acc_NormalizedUsername account = acc_NormalizedUsername old)"
  proof (cases "map_of (g_externalIdentities w) ?k")
    case None
    let ?a = "eap_Account p"
    have n: "map_of (g_accounts w) (acc_ID ?a) = None" "map_of (g_accountByUsername w) (guardUsernameKey (acc_OrganizationID ?a) (acc_NormalizedUsername ?a)) = None"
      "account = ?a" "w1 = w\<lparr>g_accounts := AList.update (acc_ID ?a) ?a (g_accounts w),
          g_accountByUsername := AList.update (guardUsernameKey (acc_OrganizationID ?a) (acc_NormalizedUsername ?a)) (acc_ID ?a) (g_accountByUsername w),
          g_externalIdentities := AList.update ?k (eap_Identity p) (g_externalIdentities w)\<rparr>"
      using run None unfolding provision_account_def Let_def by (auto split: if_splits)
    have "accounts_ok (gsv_organizationID sv) w1" by (rule accounts_add[OF guard_invD(1)[OF inv], of ?a]) (use n org in simp_all)
    then have "guard_inv sv w1" using inv n(4) unfolding guard_inv_def
      by (auto elim!: guard_frames simp: stored_account_def bootstrap_ok_def)
    then show ?thesis using n org by simp
  next
    case (Some ident)
    then obtain stored where s: "map_of (g_accounts w) (ei_AccountID ident) = Some stored" "acc_OrganizationID stored = gsv_organizationID sv"
      "account = stored\<lparr>acc_Email := acc_Email (eap_Account p), acc_DisplayName := acc_DisplayName (eap_Account p), acc_UpdatedAt := acc_UpdatedAt (eap_Account p)\<rparr>"
      "w1 = w\<lparr>g_externalIdentities := AList.update ?k (ident\<lparr>ei_UpdatedAt := ei_UpdatedAt (eap_Identity p)\<rparr>) (g_externalIdentities w)\<rparr>"
      using run org unfolding provision_account_def Let_def by (simp split: option.splits if_splits)
    have "guard_inv sv w1" using inv s(4) unfolding guard_inv_def by (auto elim!: guard_frames simp: stored_account_def)
    moreover have "acc_ID stored = ei_AccountID ident" using s(1) guard_invD(1)[OF inv] by (auto simp: accounts_ok_def dest: well_keyed_lookup)
    ultimately show ?thesis using s by simp
  qed
  then show "guard_inv sv w1" "g_roles w1 = g_roles w" "g_assignments w1 = g_assignments w" "acc_OrganizationID account = gsv_organizationID sv"
    "\<exists>old. map_of (g_accounts w1) (acc_ID account) = Some old \<and> acc_NormalizedUsername account = acc_NormalizedUsername old" by blast+
qed

lemma sync_administrator_inv:
  assumes inv: "guard_inv sv w" and acc: "acc_OrganizationID account = gsv_organizationID sv" "stored_account w (acc_ID account)"
    and role: "eap_Administrator p \<longrightarrow> map_of (g_roles w) rid \<noteq> None"
  shows "guard_inv sv (sync_administrator p rid account w)" "g_accounts (sync_administrator p rid account w) = g_accounts w"
proof -
  let ?a = "\<lparr>ra_ID = eap_AdministratorAssignmentID p, ra_OrganizationID = acc_OrganizationID account, ra_AccountID = acc_ID account, ra_RoleID = rid,
      ra_Scope = organization_scope (acc_OrganizationID account), ra_Source = eap_AssignmentSource p, ra_CreatedAt = acc_UpdatedAt (eap_Account p)\<rparr>"
  have ext: "guard_inv sv v \<Longrightarrow> guard_inv sv (v\<lparr>g_externalAssignments := m\<rparr>)" for v :: "'a guard_world" and m
    unfolding guard_inv_def by (auto elim!: guard_frames simp: stored_account_def)
  have ne: "g_accounts w \<noteq> []" using acc(2) by (auto simp: stored_account_def)
  have "guard_inv sv (w\<lparr>g_assignments := AList.update (ra_ID ?a) ?a (g_assignments w)\<rparr>)"
    if "eap_Administrator p" "\<not> (\<exists>b \<in> vals (g_assignments w). is_organization_administration (acc_OrganizationID account) (acc_ID account) rid b)"
  proof -
    have "\<forall>b \<in> vals (g_assignments w). assignment_target b \<noteq> assignment_target ?a"
      using that(2) acc(1) guard_invD(4)[OF inv]
      by (auto simp: is_organization_administration_def assignment_target_def organization_scope_def assignments_ok_def)
    then have "assignments_ok (gsv_organizationID sv) (w\<lparr>g_assignments := AList.update (ra_ID ?a) ?a (g_assignments w)\<rparr>)"
      using acc role that(1) by (intro assignments_add guard_invD(4)[OF inv]) (simp_all add: organization_scope_def scope_kinds_def)
    then show ?thesis by (rule assignments_inv[OF inv]) (use ne in simp)
  qed
  moreover have "guard_inv sv (w\<lparr>g_assignments := AList.delete i (g_assignments w)\<rparr>)" for i
    by (rule assignments_inv[OF inv assignments_delete[OF guard_invD(4)[OF inv]]]) (use ne in simp)
  ultimately show "guard_inv sv (sync_administrator p rid account w)"
    using inv ext unfolding sync_administrator_def Let_def list_ex_vals by (simp split: option.split)
  show "g_accounts (sync_administrator p rid account w) = g_accounts w"
    unfolding sync_administrator_def Let_def by (simp split: option.split)
qed

definition provisioned_world :: "ExternalAccountProvisioning \<Rightarrow> string \<Rightarrow> Account \<Rightarrow> 'l guard_world \<Rightarrow> 'l guard_world" where
  "provisioned_world p rid account w1 = (let w2 = sync_administrator p rid account w1 in
     w2\<lparr>g_accounts := AList.update (acc_ID account) account (g_accounts w2)\<rparr>)"

lemma provision_account_Inl: "provision_account p w = (Inl e, w1) \<Longrightarrow> w1 = w"
  unfolding provision_account_def Let_def by (auto split: option.splits if_splits)

lemma Provision_or:
  "(\<exists>e. storeProvisionExternalAccount p w = (Inl e, w)) \<or>
   (\<exists>rid account created w1. provision_account p w = (Inr (account, created), w1) \<and> Provisioning_Validate p = None \<and>
      (eap_Administrator p \<longrightarrow> administrator_role_id (acc_OrganizationID (eap_Account p)) w = Some rid) \<and>
      storeProvisionExternalAccount p w = (Inr (account, created), provisioned_world p rid account w1))"
proof -
  have run: "(\<exists>e. tryE (provision_account p) (\<lambda>(account, created).
     tryE (modifyE (\<lambda>w. (sync_administrator p rid account w))) (\<lambda>_.
     tryE (modifyE (\<lambda>w. w\<lparr>g_accounts := AList.update (acc_ID account) account (g_accounts w)\<rparr>)) (\<lambda>_.
     returnE (account, created)))) w = (Inl e, w)) \<or>
    (\<exists>account created w1. provision_account p w = (Inr (account, created), w1) \<and> tryE (provision_account p) (\<lambda>(account, created).
     tryE (modifyE (\<lambda>w. (sync_administrator p rid account w))) (\<lambda>_.
     tryE (modifyE (\<lambda>w. w\<lparr>g_accounts := AList.update (acc_ID account) account (g_accounts w)\<rparr>)) (\<lambda>_.
     returnE (account, created)))) w = (Inr (account, created), provisioned_world p rid account w1))" for rid
    by (cases "provision_account p w"; cases "fst (provision_account p w)")
      (auto simp: tryE_def modifyE_def returnE_def provisioned_world_def Let_def dest: provision_account_Inl)
  show ?thesis
  proof (cases "Provisioning_Validate p = None \<and> (eap_Administrator p \<longrightarrow> (\<exists>rid. administrator_role_id (acc_OrganizationID (eap_Account p)) w = Some rid \<and> rid \<noteq> ''''))")
    case True
    then obtain rid where r: "eap_Administrator p \<longrightarrow> administrator_role_id (acc_OrganizationID (eap_Account p)) w = Some rid \<and> rid \<noteq> ''''"
      "\<not> eap_Administrator p \<longrightarrow> rid = ''''" by (cases "eap_Administrator p") auto
    then have eq: "storeProvisionExternalAccount p w = tryE (provision_account p) (\<lambda>(account, created).
     tryE (modifyE (\<lambda>w. (sync_administrator p rid account w))) (\<lambda>_.
     tryE (modifyE (\<lambda>w. w\<lparr>g_accounts := AList.update (acc_ID account) account (g_accounts w)\<rparr>)) (\<lambda>_.
     returnE (account, created)))) w"
      using True by (cases "eap_Administrator p") (simp_all add: storeProvisionExternalAccount_def tryE_branches tryE_def[of "checkE _"] tryE_def[of "queryE _"] checkE_def queryE_def)
    show ?thesis using run[of rid] True r(1) unfolding eq[symmetric] by (elim disjE exE conjE) auto
  next
    case False
    then have "\<exists>e. storeProvisionExternalAccount p w = (Inl e, w)"
      by (auto simp: storeProvisionExternalAccount_def tryE_def checkE_def queryE_def split: option.split)
    then show ?thesis by blast
  qed
qed

lemma provisioned_world_inv:
  assumes inv: "guard_inv sv w" and org: "acc_OrganizationID (eap_Account p) = gsv_organizationID sv"
    and run: "provision_account p w = (Inr (account, created), w1)"
    and role: "eap_Administrator p \<longrightarrow> administrator_role_id (acc_OrganizationID (eap_Account p)) w = Some rid"
  shows "guard_inv sv (provisioned_world p rid account w1)"
proof -
  note k = provision_account_keeps[OF inv org run]
  then obtain old where old: "map_of (g_accounts w1) (acc_ID account) = Some old" "acc_NormalizedUsername account = acc_NormalizedUsername old" by blast
  then have "stored_account w1 (acc_ID account)" by (simp add: stored_account_def)
  moreover have "eap_Administrator p \<longrightarrow> map_of (g_roles w1) rid \<noteq> None" using role administrator_role_stored[OF inv] k(2) by fastforce
  ultimately show ?thesis using sync_administrator_inv[OF k(1,4), of p rid] old unfolding provisioned_world_def Let_def
    by (intro account_change_inv[of _ _ _ old]) (simp_all add: k(4))
qed

lemma Provision_inv:
  assumes inv: "guard_inv sv w" and org: "acc_OrganizationID (eap_Account p) = gsv_organizationID sv"
  shows "guard_inv sv (snd (storeProvisionExternalAccount p w))"
  using Provision_or[of p w] provisioned_world_inv[OF inv org] inv by auto

lemma external_provisioning_org [simp]:
  "acc_OrganizationID (eap_Account (external_provisioning sv protocol issuer subject email display administrator t a i)) = gsv_organizationID sv"
  by (simp add: external_provisioning_def Let_def)

theorem guard_effect_inv: "guard_effect sv l w w' \<Longrightarrow> guard_inv sv w \<Longrightarrow> guard_inv sv w'"
  by (induction rule: guard_effect.induct)
    (simp_all add: same_guard_inv Track_inv Consume_inv Bootstrap_inv Rehash_inv Provision_inv CreateRole_inv DeleteRole_inv CreateRoleAssignment_inv
      DeleteRoleAssignment_inv Register_inv Claim_inv Release_inv CreateSession_inv CSRF_inv Revoke_inv)

end
