(* ===== verification/Guard_Steps.thy ===== *)
theory Guard_Steps
  imports Guard_Invariant
begin

text \<open>
  Every operation of the Guard service acts on the store only through the calls of \<open>guard_effect\<close>. The predicate \<open>acts\<close> says so of an operation and
  is closed under the ways operations are composed, so that the proof for an operation follows its text. \<open>guard_step\<close> is one
  operation of the service, whatever its arguments, its context and its outcome; the invariant holds of every store it can reach from the empty one.
\<close>

named_theorems acts_intro \<open>operations that act through calls of the store\<close>

definition guard_effects :: "'l guard_service \<Rightarrow> guard_label \<Rightarrow> 'l guard_world \<Rightarrow> 'l guard_world \<Rightarrow> bool" where
  "guard_effects sv l = (\<lambda>w w'. guard_effect sv Internal w w' \<or> guard_effect sv l w w')\<^sup>*\<^sup>*"

lemma guard_effects_inv: "guard_effects sv l w w' \<Longrightarrow> guard_inv sv w \<Longrightarrow> guard_inv sv w'"
  unfolding guard_effects_def by (induction rule: rtranclp_induct) (auto dest: guard_effect_inv)

lemma guard_effects_refl: "guard_effects sv l w w"
  by (simp add: guard_effects_def)

lemma guard_effects_one: "guard_effect sv m w w' \<Longrightarrow> m = Internal \<or> m = l \<Longrightarrow> guard_effects sv l w w'"
  unfolding guard_effects_def by (rule r_into_rtranclp) auto

lemma guard_effects_same: "same_guard w w' \<Longrightarrow> guard_effects sv l w w'"
  by (rule guard_effects_one[OF unchanged]) simp_all

lemma guard_effects_trans: "guard_effects sv l w w1 \<Longrightarrow> guard_effects sv l w1 w2 \<Longrightarrow> guard_effects sv l w w2"
  unfolding guard_effects_def by (rule rtranclp_trans)

section \<open>Accounts are never removed\<close>


lemma provisioned_world_accounts: "g_accounts (provisioned_world p rid a w) = AList.update (acc_ID a) a (g_accounts w)"
  unfolding provisioned_world_def sync_administrator_def Let_def by (simp split: option.split)

lemma Provision_stored: "stored_account w i \<Longrightarrow> stored_account (snd (storeProvisionExternalAccount p w)) i"
proof -
  assume s: "stored_account w i"
  then have "stored_account (snd (provision_account p w)) i"
    unfolding provision_account_def Let_def stored_account_def by (auto split: option.splits)
  then show ?thesis using s Provision_or[of p w] by (auto simp: stored_account_def provisioned_world_accounts)
qed

lemma effect_stored: "guard_effect sv l w w' \<Longrightarrow> stored_account w i \<Longrightarrow> stored_account w' i"
proof (induction rule: guard_effect.induct)
  case (bootstrapped w names ph t a b r j)
  then show ?case using Bootstrap_or[of "administrator_bootstrap sv names ph t a b r j" w] by (auto simp: stored_account_def)
next
  case (role_created r w)
  then show ?case by (cases rule: CreateRole_cases[of "gsv_unicode sv" r w]) (auto simp: stored_account_def)
next
  case (role_deleted w j)
  then show ?case by (cases rule: DeleteRole_cases[of "gsv_organizationID sv" j w]) (auto simp: stored_account_def)
next
  case (assigned a w)
  then show ?case using CreateRoleAssignment_or[of a w] by (auto simp: stored_account_def)
next
  case (registered r w)
  then show ?case using Register_or[of r w] by (auto simp: stored_account_def)
next
  case (claimed w rt ri b t)
  then show ?case using Claim_or[of "gsv_organizationID sv" rt ri b t w] by (auto simp: stored_account_def Let_def)
next
  case (session_created s w)
  then show ?case using CreateSession_or[of s w] by (auto simp: stored_account_def)
next
  case (provisioned w protocol issuer subject email display administrator t a j)
  then show ?case by (rule Provision_stored)
qed (auto simp: same_guard_def stored_account_def storeCreateSAMLRequest_def storeConsumeSAMLRequest_def storeUpdatePasswordHash_def
    storeDeleteRoleAssignment_def storeDeleteResourceOwnership_def storeUpdateSessionCSRF_def storeRevokeSession_def Let_def split: option.splits)

lemma effects_stored: "guard_effects sv l w w' \<Longrightarrow> stored_account w i \<Longrightarrow> stored_account w' i"
  unfolding guard_effects_def by (induction rule: rtranclp_induct) (auto dest: effect_stored)

section \<open>Operations that act through the store\<close>

definition acts :: "'l guard_service \<Rightarrow> guard_label \<Rightarrow> string set \<Rightarrow> ('l, 'a) guard_op \<Rightarrow> bool" where
  "acts sv l K m \<longleftrightarrow> (\<forall>w. guard_inv sv w \<longrightarrow> (\<forall>i \<in> K. stored_account w i) \<longrightarrow> guard_effects sv l w (snd (m w)))"

lemma acts_same: "(\<And>w. same_guard w (snd (m w))) \<Longrightarrow> acts sv l K m"
  by (simp add: acts_def guard_effects_same)

lemma acts_tryE_result:
  assumes "acts sv l K m" and "\<And>a s s'. m s = (Inr a, s') \<Longrightarrow> acts sv l K (k a)"
  shows "acts sv l K (tryE m k)"
  unfolding acts_def
proof (intro allI impI)
  fix w assume inv: "guard_inv sv w" and K: "\<forall>i \<in> K. stored_account w i"
  then have m: "guard_effects sv l w (snd (m w))" using assms(1) by (simp add: acts_def)
  show "guard_effects sv l w (snd (tryE m k w))"
  proof (cases "m w")
    case (Pair r w1)
    then show ?thesis
    proof (cases r)
      case (Inr a)
      have "guard_inv sv w1" "\<forall>i \<in> K. stored_account w1 i" using guard_effects_inv[OF m inv] effects_stored[OF m] K Pair by auto
      then have "guard_effects sv l w1 (snd (k a w1))" using assms(2) Pair Inr unfolding acts_def by blast
      then show ?thesis using m Pair Inr by (auto simp: tryE_def intro: guard_effects_trans)
    qed (use m Pair in \<open>simp add: tryE_def\<close>)
  qed
qed

lemma acts_tryE [acts_intro]: "acts sv l K m \<Longrightarrow> (\<And>a. acts sv l K (k a)) \<Longrightarrow> acts sv l K (tryE m k)"
  by (rule acts_tryE_result)

lemma acts_basic [acts_intro]:
  "acts sv l K (returnE a)" "acts sv l K (raiseE e)" "acts sv l K (liftE r)" "acts sv l K (checkE o')" "acts sv l K (queryE f)"
  "acts sv l K read_clock" "acts sv l K NewCorrelationID" "acts sv l K (newSecret sha)" "acts sv l K (limitE m)" "acts sv l K (hash_password sv password)"
  by (rule acts_same; simp add: returnE_def raiseE_def liftE_def checkE_def queryE_def read_clock_def NewCorrelationID_def newSecret_def limitE_def
      hash_password_def Let_def same_guard_def split: option.split prod.split sum.split)+

lemma AuditorRecord_same: "same_guard w (snd (AuditorRecord ev w))"
proof -
  have "same_guard w v" if "v \<in> {w, w\<lparr>audit_calls := Suc (audit_calls w)\<rparr>, w\<lparr>audit_calls := Suc (audit_calls w), audits := audit_insert ev (audits w)\<rparr>}" for v
    using that by (auto simp: same_guard_def)
  then show ?thesis using AuditorRecord_frame[of ev w] by blast
qed

lemma acts_AuditorRecord [acts_intro]: "acts sv l K (AuditorRecord ev)"
  by (rule acts_same) (rule AuditorRecord_same)

lemma same_guard_trans: "same_guard w w1 \<Longrightarrow> same_guard w1 w2 \<Longrightarrow> same_guard w w2"
  by (simp add: same_guard_def)

lemma wpI_AuditorRecord:
  fixes w :: "'l guard_world"
  assumes "\<And>r. same_guard w r \<Longrightarrow> Q () r" and "\<And>e r. same_guard w r \<Longrightarrow> E e r"
  shows "wp (AuditorRecord ev :: ('l, unit) guard_op) Q E w"
proof -
  obtain r v where run: "(AuditorRecord ev :: ('l, unit) guard_op) w = (r, v)" by fastforce
  have "same_guard w (snd ((AuditorRecord ev :: ('l, unit) guard_op) w))" by (rule AuditorRecord_same)
  then have "same_guard w v" using run by simp
  then show ?thesis using assms run by (cases r) (simp_all add: wp_def)
qed

lemma guard_audit_same: "same_guard w (snd (guard_audit sv cx actor action rt ri md w))"
  by (rule wp_snd) (unfold guard_audit_def, intro wp_intro wpI_AuditorRecord, auto simp: same_guard_def)

lemma acts_attemptE [acts_intro]: "acts sv l K m \<Longrightarrow> acts sv l K (attemptE m)"
  by (simp add: acts_def attemptE_def case_prod_beta)

lemma acts_wrapE [acts_intro]: "acts sv l K m \<Longrightarrow> acts sv l K (wrapE msg m)"
proof -
  have "snd (wrapE msg m w) = snd (m w)" for w by (simp add: wrapE_def split: prod.split sum.split)
  then show "acts sv l K m \<Longrightarrow> acts sv l K (wrapE msg m)" by (simp add: acts_def)
qed

lemma acts_branches [acts_intro]:
  "acts sv l K m \<Longrightarrow> acts sv l K m' \<Longrightarrow> acts sv l K (if b then m else m')"
  "(\<And>x y. acts sv l K (f x y)) \<Longrightarrow> acts sv l K (case p of (x, y) \<Rightarrow> f x y)"
  "acts sv l K n \<Longrightarrow> (\<And>x. acts sv l K (g x)) \<Longrightarrow> acts sv l K (case q of None \<Rightarrow> n | Some x \<Rightarrow> g x)"
  "(\<And>x. acts sv l K (h x)) \<Longrightarrow> (\<And>y. acts sv l K (h' y)) \<Longrightarrow> acts sv l K (case r of Inl x \<Rightarrow> h x | Inr y \<Rightarrow> h' y)"
  by (simp_all split: prod.split option.split sum.split)

lemma acts_effect: "(\<And>w. guard_inv sv w \<Longrightarrow> \<forall>i \<in> K. stored_account w i \<Longrightarrow> guard_effect sv m' w (snd (m w))) \<Longrightarrow> m' = Internal \<or> m' = l \<Longrightarrow> acts sv l K m"
  unfolding acts_def by (blast intro: guard_effects_one)

lemma acts_calls [acts_intro]:
  "acts sv l K (storeBootstrapAdministrator (administrator_bootstrap sv names ph t a b r i))"
  "acts sv l K (storeUpdatePasswordHash i h t)" "acts sv l K (storeDeleteRole (gsv_organizationID sv) i)"
  "acts sv l K (storeDeleteRoleAssignment (gsv_organizationID sv) i)" "acts sv l K (storeDeleteResourceOwnership o')"
  "acts sv l K (storeUpdateSessionCSRF i h)" "acts sv l K (storeRevokeSession i t)"
  "acts sv External K (storeProvisionExternalAccount (external_provisioning sv protocol issuer subject email display administrator t a i))"
  by (rule acts_effect, rule guard_effect.intros, simp)+

lemma acts_calls_if [acts_intro]:
  "sr_OrganizationID r = gsv_organizationID sv \<Longrightarrow> l = Tracked (sr_StateHash r) (sr_CreatedAt r) \<Longrightarrow> acts sv l K (storeCreateSAMLRequest r)"
  "ra_OrganizationID a = gsv_organizationID sv \<Longrightarrow> acts sv l K (storeCreateRoleAssignment a)"
  "ro_OrganizationID o' = gsv_organizationID sv \<Longrightarrow> acts sv l K (storeRegisterResourceOwnership o')"
  "ses_OrganizationID s = gsv_organizationID sv \<Longrightarrow> acts sv l K (storeCreateSession s)"
  by (rule acts_effect, erule guard_effect.intros, simp)+

lemma acts_consume [acts_intro]: "l = Consumed h \<Longrightarrow> acts sv l K (storeConsumeSAMLRequest (gsv_organizationID sv) h t)"
  by (rule acts_effect, rule consumed, simp)

lemma acts_CreateRole [acts_intro]:
  "role_OrganizationID r = gsv_organizationID sv \<Longrightarrow> supported (role_Permissions r) \<Longrightarrow> i \<in> K \<Longrightarrow> acts sv l K (storeCreateRole (gsv_unicode sv) r)"
  by (rule acts_effect, erule role_created) (auto simp: stored_account_def)

lemma acts_queries [acts_intro]:
  "acts sv l K (storeBootstrapRequired org)" "acts sv l K (storeFindAccountByUsername org n)" "acts sv l K (storeAccessForAccount u org i)"
  "acts sv l K (storeListAuthorization org)" "acts sv l K (storeListResourceOwnership org)" "acts sv l K (storeGetResourceOwnership org rt ri)"
  "acts sv l K (storeFindSessionByTokenHash u org h t)"
  unfolding storeBootstrapRequired_def storeFindAccountByUsername_def storeAccessForAccount_def storeListAuthorization_def storeListResourceOwnership_def
    storeGetResourceOwnership_def storeFindSessionByTokenHash_def
  by (intro acts_intro)+

section \<open>The operations\<close>

lemma acts_Let [acts_intro]: "(\<And>x. x = v \<Longrightarrow> acts sv l K (f x)) \<Longrightarrow> acts sv l K (let x = v in f x)"
  by simp

lemma acts_audit [acts_intro]: "acts sv l K (guard_audit sv cx actor action rt ri md)" "acts sv l K (recordSecurityEvent sv cx actor action rt ri md)"
  unfolding guard_audit_def recordSecurityEvent_def by (intro acts_intro)+

lemma acts_audited_or_undone [acts_intro]:
  "acts sv l K audit \<Longrightarrow> acts sv l K rollback \<Longrightarrow> acts sv l K (audited_or_undone msg audit rollback result)"
  unfolding audited_or_undone_def by (intro acts_intro)

lemma acts_issueSession [acts_intro]: "acts sv l K (issueSession sv i)"
  unfolding issueSession_def by (intro acts_intro) simp

lemma acts_audited_session [acts_intro]: "acts sv l K (audited_session sv cx msg i action md credentials)"
  unfolding audited_session_def by (intro acts_intro)

lemma acts_sessions [acts_intro]:
  "acts sv l K (AuthenticateSession sv raw)" "acts sv l K (AuthenticateAccount sv i)" "acts sv l K (RefreshCSRF sv au)" "acts sv l K (Logout sv cx au')"
  unfolding AuthenticateSession_def AuthenticateAccount_def RefreshCSRF_def Logout_def by (intro acts_intro)+

lemma acts_Bootstrap [acts_intro]: "acts sv l K (BootstrapStatus sv)" "acts sv l K (Bootstrap sv cx input trusted)"
  unfolding BootstrapStatus_def Bootstrap_def by (intro acts_intro)+

lemma acts_Login [acts_intro]: "acts sv l K (Login sv cx input)"
  unfolding Login_def login_failed_def login_succeeds_def by (intro acts_intro)

lemma acts_loginExternal [acts_intro]: "acts sv External K (LoginOIDC sv cx p)" "acts sv External K (LoginSAML sv cx p)"
  unfolding LoginOIDC_def LoginSAML_def loginExternal_def by (intro acts_intro)+

lemma acts_external_failures [acts_intro]: "acts sv l K (RecordOIDCFailure sv cx)" "acts sv l K (RecordSAMLFailure sv cx)"
  unfolding RecordOIDCFailure_def RecordSAMLFailure_def by (intro acts_intro)+

lemma hashSecret_sha: "hashSecret sha raw = Some h \<Longrightarrow> h = sha raw"
  by (auto simp: hashSecret_def split: option.splits if_splits)

text \<open>The label of the operation that tracks a request carries the digest of the relay state and the time that the operation reads; that of the
  operation that consumes one carries the digest.\<close>

lemma TrackSAMLRequest_effects:
  "guard_effects sv (Tracked (gsv_sha256 sv relayState) (clock w (ticks w))) w (snd (TrackSAMLRequest sv relayState requestID expiresAt w))"
proof -
  let ?w = "w\<lparr>ticks := Suc (ticks w)\<rparr>"
  let ?r = "\<lparr>sr_OrganizationID = gsv_organizationID sv, sr_StateHash = gsv_sha256 sv relayState, sr_RequestID = requestID,
    sr_CreatedAt = clock w (ticks w), sr_ExpiresAt = expiresAt\<rparr>"
  have tick: "guard_effects sv l w ?w" for l by (rule guard_effects_same) (simp add: same_guard_def)
  have "guard_effect sv (Tracked (gsv_sha256 sv relayState) (clock w (ticks w))) ?w (snd (storeCreateSAMLRequest ?r ?w))"
    using tracked[of ?r sv ?w] by simp
  then have "guard_effects sv (Tracked (gsv_sha256 sv relayState) (clock w (ticks w))) w (snd (storeCreateSAMLRequest ?r ?w))"
    using guard_effects_trans[OF tick guard_effects_one] by blast
  moreover have "snd (TrackSAMLRequest sv relayState requestID expiresAt w) \<in> {w, ?w, snd (storeCreateSAMLRequest ?r ?w)}"
    by (auto simp: TrackSAMLRequest_def tryE_def read_clock_def raiseE_def wrapE_def dest: hashSecret_sha split: option.splits prod.splits sum.splits)
  ultimately show ?thesis using tick guard_effects_refl by auto
qed

lemma acts_ConsumeSAMLRequest [acts_intro]: "acts sv (Consumed (gsv_sha256 sv relayState)) K (ConsumeSAMLRequest sv relayState)"
proof (cases "hashSecret (gsv_sha256 sv) relayState")
  case (Some h)
  then show ?thesis unfolding ConsumeSAMLRequest_def Some option.case hashSecret_sha[OF Some] by (intro acts_intro) simp_all
qed (simp add: ConsumeSAMLRequest_def acts_basic)

lemma acts_CheckPermission [acts_intro]: "acts sv l K (CheckPermission sv cx au p t)" "acts sv l K (requireOrganizationManager sv cx au)"
  unfolding requireOrganizationManager_def CheckPermission_def by (intro acts_intro)+

lemma acts_ListAuthorization [acts_intro]: "acts sv l K (ListAuthorization sv cx au)"
  unfolding ListAuthorization_def by (intro acts_intro)

lemma set_first_by: "set (first_by id seen xs) = set xs - set seen"
  by (induction xs arbitrary: seen) auto

lemma normalizeRolePermissions_Inr: "normalizeRolePermissions ps = Inr qs \<Longrightarrow> supported qs"
  by (auto simp: normalizeRolePermissions_def supported_def set_first_by list_all_iff split: if_splits)

lemma acts_GuardCreateRole: "i \<in> K \<Longrightarrow> acts sv l K (GuardCreateRole sv cx au input)"
  unfolding GuardCreateRole_def
  apply (rule acts_tryE, rule acts_CheckPermission, rule acts_Let, rule acts_Let, rule acts_branches, rule acts_basic, rule acts_tryE_result, rule acts_basic)
  by (intro acts_intro) (auto simp: liftE_def dest: normalizeRolePermissions_Inr)

lemma acts_AssignRole [acts_intro]: "acts sv l K (AssignRole sv cx au input)"
  unfolding AssignRole_def by (intro acts_intro) simp

lemma DeleteRoleAssignment_org: "storeDeleteRoleAssignment org i w = (Inr a, w') \<Longrightarrow> ra_OrganizationID a = org"
  by (auto simp: storeDeleteRoleAssignment_def split: option.splits if_splits)

lemma wrapE_Inr: "wrapE msg m w = (Inr a, w') \<longleftrightarrow> m w = (Inr a, w')"
  by (auto simp: wrapE_def split: prod.splits sum.splits)

lemma acts_RevokeRoleAssignment [acts_intro]: "acts sv l K (RevokeRoleAssignment sv cx au i)"
  unfolding RevokeRoleAssignment_def
  apply (rule acts_tryE, rule acts_CheckPermission, rule acts_Let, rule acts_branches, rule acts_basic, rule acts_tryE_result)
   apply (intro acts_intro)
  by (intro acts_intro) (simp add: wrapE_Inr DeleteRoleAssignment_org)

lemma acts_ownership [acts_intro]:
  "acts sv l K (registerResourceOwnership sv cx actor input)" "acts sv l K (RegisterResourceOwnership sv cx au input)"
  "acts sv l K (RegisterImportedResourceOwnership sv cx actor input)" "acts sv l K (ImportedResourceOwnership sv org rt ri)"
  "acts sv l K (DeleteImportedResourceOwnership sv own)" "acts sv l K (ListResourceOwnership sv cx au)" "acts sv l K (CheckResourceWrite sv cx au rt ri)"
  unfolding RegisterResourceOwnership_def RegisterImportedResourceOwnership_def registerResourceOwnership_def ImportedResourceOwnership_def
    DeleteImportedResourceOwnership_def ListResourceOwnership_def CheckResourceWrite_def
  by ((intro acts_intro; simp)+)

section \<open>Claims\<close>

lemma update_back: "map_of m k = Some v \<Longrightarrow> AList.update k v m = m"
  by (induction m) auto

text \<open>A claim whose audit failed and whose lock was restored leaves the record as it was before.\<close>

lemma restore_undoes:
  assumes inv: "guard_inv sv w" and old: "map_of (g_resourceOwnership w) k = Some old" and locked: "ro_WriteLocked old"
    and w1: "same_guard (w\<lparr>g_resourceOwnership := AList.update k (old\<lparr>ro_WriteLocked := False, ro_ClaimedBy := by', ro_ClaimedAt := Some t\<rparr>) (g_resourceOwnership w)\<rparr>) w1"
  shows "snd (storeRestoreResourceOwnershipLock (old\<lparr>ro_WriteLocked := False, ro_ClaimedBy := by', ro_ClaimedAt := Some t\<rparr>) w1) = w1 \<or>
    same_guard w (snd (storeRestoreResourceOwnershipLock (old\<lparr>ro_WriteLocked := False, ro_ClaimedBy := by', ro_ClaimedAt := Some t\<rparr>) w1))"
proof -
  let ?c = "old\<lparr>ro_WriteLocked := False, ro_ClaimedBy := by', ro_ClaimedAt := Some t\<rparr>"
  have k: "ownership_key ?c = k" "claim_ok w old"
    using old guard_invD(6)[OF inv] by (auto simp: ownership_ok_def ownership_key_def dest: well_keyed_lookup map_of_vals)
  have g: "g_resourceOwnership w1 = AList.update k ?c (g_resourceOwnership w)" using w1 by (simp add: same_guard_def)
  then have m: "map_of (g_resourceOwnership w1) k = Some ?c" by simp
  have undo: "?c\<lparr>ro_WriteLocked := True, ro_ClaimedBy := '''', ro_ClaimedAt := None\<rparr> = old" using k(2) locked by (simp add: claim_ok_def)
  have "same_guard w (w1\<lparr>g_resourceOwnership := AList.update k old (g_resourceOwnership w1)\<rparr>)"
    using w1 unfolding g by (simp add: same_guard_def update_back[OF old])
  then show ?thesis unfolding storeRestoreResourceOwnershipLock_def k(1) m using undo by simp
qed

lemma acts_ClaimResourceOwnership [acts_intro]: "acts sv l K (ClaimResourceOwnership sv cx au rt ri)"
proof -
  have claim: "acts sv l K (tryE (wrapE msg (storeClaimResourceOwnership (gsv_organizationID sv) rt' ri' by' t)) (\<lambda>claimed.
      audited_or_undone msg' (guard_audit sv cx actor (act claimed) (f claimed) (g claimed) (h claimed)) (storeRestoreResourceOwnershipLock claimed) claimed))" for msg rt' ri' by' t msg' actor act f g h
    unfolding acts_def
  proof (intro allI impI)
    fix w assume inv: "guard_inv sv w"
    let ?op = "tryE (wrapE msg (storeClaimResourceOwnership (gsv_organizationID sv) rt' ri' by' t)) (\<lambda>claimed.
      audited_or_undone msg' (guard_audit sv cx actor (act claimed) (f claimed) (g claimed) (h claimed)) (storeRestoreResourceOwnershipLock claimed) claimed)"
    show "guard_effects sv l w (snd (?op w))"
      using Claim_or[of "gsv_organizationID sv" rt' ri' by' t w]
    proof (elim disjE exE conjE)
      fix e assume "storeClaimResourceOwnership (gsv_organizationID sv) rt' ri' by' t w = (Inl e, w)"
      then show ?thesis by (simp add: tryE_def wrapE_def guard_effects_refl)
    next
      fix old :: ResourceOwnership let ?k = "guardResourceOwnershipKey (gsv_organizationID sv) rt' ri'"
      let ?c = "old\<lparr>ro_WriteLocked := False, ro_ClaimedBy := by', ro_ClaimedAt := Some t\<rparr>"
      let ?w = "w\<lparr>g_resourceOwnership := AList.update ?k ?c (g_resourceOwnership w)\<rparr>"
      assume old: "map_of (g_resourceOwnership w) ?k = Some old" "ro_WriteLocked old"
        and run: "storeClaimResourceOwnership (gsv_organizationID sv) rt' ri' by' t w = (let new = ?c in
          (Inr new, w\<lparr>g_resourceOwnership := AList.update ?k new (g_resourceOwnership w)\<rparr>))"
      have eff: "guard_effects sv l w ?w" using guard_effects_one[OF claimed[of sv w rt' ri' by' t]] run by (simp add: Let_def)
      obtain r w1 where a: "guard_audit sv cx actor (act ?c) (f ?c) (g ?c) (h ?c) ?w = (r, w1)" by fastforce
      have same: "same_guard ?w w1" using guard_audit_same[of ?w sv cx actor "act ?c" "f ?c" "g ?c" "h ?c"] a by simp
      have op: "snd (?op w) = (case r of Inr _ \<Rightarrow> w1 | Inl _ \<Rightarrow> snd (storeRestoreResourceOwnershipLock ?c w1))"
        using run a by (simp add: tryE_def wrapE_def Let_def audited_or_undone_def attemptE_def returnE_def raiseE_def split: sum.split prod.split)
      show ?thesis
      proof (cases r)
        case (Inr _)
        then show ?thesis using op eff guard_effects_same[OF same] by (auto intro: guard_effects_trans)
      next
        case (Inl _)
        from restore_undoes[OF inv old same] show ?thesis
          using op Inl eff guard_effects_same[OF same] by (auto intro: guard_effects_trans guard_effects_same)
      qed
    qed
  qed
  show ?thesis unfolding ClaimResourceOwnership_def by (intro acts_tryE acts_Let acts_branches acts_CheckPermission acts_basic claim)
qed

section \<open>Steps of the service\<close>

text \<open>One operation of the service. The arguments, the context and the outcome are arbitrary; where an operation is given an \<open>Authentication\<close>, its
  principal is a stored account, because only \<open>authenticationFrom\<close> makes one and accounts are never removed.\<close>

definition known :: "'l guard_world \<Rightarrow> Authentication \<Rightarrow> bool" where
  "known w au \<longleftrightarrow> stored_account w (pr_Subject (au_Principal au))"

inductive guard_step :: "'l guard_service \<Rightarrow> guard_label \<Rightarrow> 'l guard_world \<Rightarrow> 'l guard_world \<Rightarrow> bool" for sv where
  step_BootstrapStatus: "guard_step sv Internal w (snd (BootstrapStatus sv w))"
| step_Bootstrap: "guard_step sv Internal w (snd (Bootstrap sv cx input1 trusted w))"
| step_Login: "guard_step sv Internal w (snd (Login sv cx input2 w))"
| step_LoginOIDC: "guard_step sv External w (snd (LoginOIDC sv cx p w))"
| step_LoginSAML: "guard_step sv External w (snd (LoginSAML sv cx p w))"
| step_RecordOIDCFailure: "guard_step sv Internal w (snd (RecordOIDCFailure sv cx w))"
| step_RecordSAMLFailure: "guard_step sv Internal w (snd (RecordSAMLFailure sv cx w))"
| step_TrackSAMLRequest: "guard_step sv (Tracked (gsv_sha256 sv relayState) (clock w (ticks w))) w (snd (TrackSAMLRequest sv relayState requestID expiresAt w))"
| step_ConsumeSAMLRequest: "guard_step sv (Consumed (gsv_sha256 sv relayState)) w (snd (ConsumeSAMLRequest sv relayState w))"
| step_AuthenticateSession: "guard_step sv Internal w (snd (AuthenticateSession sv raw w))"
| step_AuthenticateAccount: "guard_step sv Internal w (snd (AuthenticateAccount sv i w))"
| step_RefreshCSRF: "guard_step sv Internal w (snd (RefreshCSRF sv oau w))"
| step_Logout: "known w au \<Longrightarrow> guard_step sv Internal w (snd (Logout sv cx au w))"
| step_CheckPermission: "known w au \<Longrightarrow> guard_step sv Internal w (snd (CheckPermission sv cx au perm target w))"
| step_ListAuthorization: "known w au \<Longrightarrow> guard_step sv Internal w (snd (ListAuthorization sv cx au w))"
| step_CreateRole: "known w au \<Longrightarrow> guard_step sv Internal w (snd (GuardCreateRole sv cx au input3 w))"
| step_AssignRole: "known w au \<Longrightarrow> guard_step sv Internal w (snd (AssignRole sv cx au input4 w))"
| step_RevokeRoleAssignment: "known w au \<Longrightarrow> guard_step sv Internal w (snd (RevokeRoleAssignment sv cx au i w))"
| step_RegisterResourceOwnership: "known w au \<Longrightarrow> guard_step sv Internal w (snd (RegisterResourceOwnership sv cx au input5 w))"
| step_RegisterImportedResourceOwnership: "guard_step sv Internal w (snd (RegisterImportedResourceOwnership sv cx actor input5 w))"
| step_ImportedResourceOwnership: "guard_step sv Internal w (snd (ImportedResourceOwnership sv org rt ri w))"
| step_DeleteImportedResourceOwnership: "guard_step sv Internal w (snd (DeleteImportedResourceOwnership sv own w))"
| step_ListResourceOwnership: "known w au \<Longrightarrow> guard_step sv Internal w (snd (ListResourceOwnership sv cx au w))"
| step_ClaimResourceOwnership: "known w au \<Longrightarrow> guard_step sv Internal w (snd (ClaimResourceOwnership sv cx au rt ri w))"
| step_CheckResourceWrite: "known w au \<Longrightarrow> guard_step sv Internal w (snd (CheckResourceWrite sv cx au rt ri w))"

lemma actsD: "acts sv l K m \<Longrightarrow> guard_inv sv w \<Longrightarrow> \<forall>i \<in> K. stored_account w i \<Longrightarrow> guard_effects sv l w (snd (m w))"
  by (simp add: acts_def)

lemma guard_step_effects: "guard_step sv l w w' \<Longrightarrow> guard_inv sv w \<Longrightarrow> guard_effects sv l w w'"
proof (induction rule: guard_step.induct)
  case (step_CreateRole w au cx input)
  then show ?case
    by (intro actsD[where K = "{pr_Subject (au_Principal au)}"] acts_GuardCreateRole) (auto simp: known_def)
next
  case (step_TrackSAMLRequest relayState w requestID expiresAt)
  show ?case by (rule TrackSAMLRequest_effects)
qed (rule actsD[where K = "{}"], intro acts_intro; simp)+

definition guard_run :: "'l guard_service \<Rightarrow> guard_label set \<Rightarrow> 'l guard_world \<Rightarrow> 'l guard_world \<Rightarrow> bool" where
  "guard_run sv L = (\<lambda>w w'. \<exists>l \<in> L. guard_step sv l w w')\<^sup>*\<^sup>*"

lemma guard_run_induct [consumes 2, case_names start step]:
  assumes "guard_run sv L w w'" and "guard_inv sv w" and "P w"
    and "\<And>y l z. guard_inv sv y \<Longrightarrow> P y \<Longrightarrow> l \<in> L \<Longrightarrow> guard_effect sv Internal y z \<or> guard_effect sv l y z \<Longrightarrow> P z"
  shows "P w'"
proof -
  have eff: "P z" if "guard_effects sv l y z" "P y" "guard_inv sv y" "l \<in> L" for l y z
  proof -
    from that(1) have "P z \<and> guard_inv sv z" unfolding guard_effects_def
    proof (induction rule: rtranclp_induct)
      case (step u v)
      then show ?case using assms(4) that(4) guard_effect_inv by blast
    qed (use that in simp)
    then show ?thesis by simp
  qed
  from assms(1) have "P w' \<and> guard_inv sv w'" unfolding guard_run_def
  proof (induction rule: rtranclp_induct)
    case (step y z)
    then obtain l where l: "l \<in> L" "guard_step sv l y z" by blast
    then have "guard_effects sv l y z" using guard_step_effects step.IH by blast
    then show ?case using eff l(1) step.IH guard_effects_inv by blast
  qed (use assms(2,3) in simp)
  then show ?thesis by simp
qed

lemma guard_run_inv: "guard_run sv L w w' \<Longrightarrow> guard_inv sv w \<Longrightarrow> guard_inv sv w'"
  by (rule guard_run_induct[where P = "guard_inv sv"]) (auto dest: guard_effect_inv)

lemma guard_reachable: "empty_guard w0 \<Longrightarrow> guard_run sv L w0 w \<Longrightarrow> guard_inv sv w"
  using guard_run_inv empty_guard_inv by blast

lemma guard_run_refl [simp]: "guard_run sv L w w"
  by (simp add: guard_run_def)

lemma guard_run_step: "guard_run sv L w w1 \<Longrightarrow> guard_step sv l w1 w2 \<Longrightarrow> l \<in> L \<Longrightarrow> guard_run sv L w w2"
  unfolding guard_run_def by (rule rtranclp.rtrancl_into_rtrancl) auto

lemma guard_run_trans: "guard_run sv L w w1 \<Longrightarrow> guard_run sv L w1 w2 \<Longrightarrow> guard_run sv L w w2"
  unfolding guard_run_def by (rule rtranclp_trans)

end
