(* ===== verification/Guard_Sessions.thy ===== *)
theory Guard_Sessions
  imports Guard_Steps Audit_Log
begin

text \<open>
  Sessions of the Guard service: who a session token authenticates, that a revoked session stays revoked, that a sign-in request is used
  once, and what a login leaves behind.
\<close>

section \<open>What becomes of a session\<close>

definition session_continues :: "Session \<Rightarrow> Session \<Rightarrow> bool" where
  "session_continues s s' \<longleftrightarrow> ses_ID s' = ses_ID s \<and> ses_TokenHash s' = ses_TokenHash s \<and> ses_AccountID s' = ses_AccountID s \<and>
     ses_ExpiresAt s' = ses_ExpiresAt s \<and> (ses_RevokedAt s \<noteq> None \<longrightarrow> ses_RevokedAt s' \<noteq> None)"

lemma session_continues_refl [simp]: "session_continues s s"
  by (simp add: session_continues_def)

lemma session_continues_trans: "session_continues s t \<Longrightarrow> session_continues t u \<Longrightarrow> session_continues s u"
  by (auto simp: session_continues_def)

text \<open>What each call of the store leaves alone.\<close>

named_theorems store_frame \<open>maps that a call of the store does not change\<close>

lemma SAML_frame [store_frame]:
  "g_accounts (snd (storeCreateSAMLRequest r w)) = g_accounts w" "g_accountByUsername (snd (storeCreateSAMLRequest r w)) = g_accountByUsername w"
  "g_bundles (snd (storeCreateSAMLRequest r w)) = g_bundles w" "g_roles (snd (storeCreateSAMLRequest r w)) = g_roles w"
  "g_assignments (snd (storeCreateSAMLRequest r w)) = g_assignments w" "g_resourceOwnership (snd (storeCreateSAMLRequest r w)) = g_resourceOwnership w"
  "g_sessions (snd (storeCreateSAMLRequest r w)) = g_sessions w" "g_sessionByTokenHash (snd (storeCreateSAMLRequest r w)) = g_sessionByTokenHash w"
  by (auto simp: storeCreateSAMLRequest_def Let_def split: option.split)

lemma consume_frame [store_frame]:
  "g_accounts (snd (storeConsumeSAMLRequest org h t w)) = g_accounts w" "g_accountByUsername (snd (storeConsumeSAMLRequest org h t w)) = g_accountByUsername w"
  "g_bundles (snd (storeConsumeSAMLRequest org h t w)) = g_bundles w" "g_roles (snd (storeConsumeSAMLRequest org h t w)) = g_roles w"
  "g_assignments (snd (storeConsumeSAMLRequest org h t w)) = g_assignments w" "g_resourceOwnership (snd (storeConsumeSAMLRequest org h t w)) = g_resourceOwnership w"
  "g_sessions (snd (storeConsumeSAMLRequest org h t w)) = g_sessions w" "g_sessionByTokenHash (snd (storeConsumeSAMLRequest org h t w)) = g_sessionByTokenHash w"
  by (auto simp: storeConsumeSAMLRequest_def Let_def split: option.split)

lemma bootstrap_access_frame [store_frame]:
  "g_resourceOwnership (snd (storeBootstrapAdministrator b w)) = g_resourceOwnership w" "g_samlRequests (snd (storeBootstrapAdministrator b w)) = g_samlRequests w"
  "g_sessions (snd (storeBootstrapAdministrator b w)) = g_sessions w" "g_sessionByTokenHash (snd (storeBootstrapAdministrator b w)) = g_sessionByTokenHash w"
  by (auto simp: storeBootstrapAdministrator_def Let_def split: option.split)

lemma rehash_frame [store_frame]:
  "g_accountByUsername (snd (storeUpdatePasswordHash i h t w)) = g_accountByUsername w" "g_bundles (snd (storeUpdatePasswordHash i h t w)) = g_bundles w"
  "g_roles (snd (storeUpdatePasswordHash i h t w)) = g_roles w" "g_assignments (snd (storeUpdatePasswordHash i h t w)) = g_assignments w"
  "g_resourceOwnership (snd (storeUpdatePasswordHash i h t w)) = g_resourceOwnership w" "g_samlRequests (snd (storeUpdatePasswordHash i h t w)) = g_samlRequests w"
  "g_sessions (snd (storeUpdatePasswordHash i h t w)) = g_sessions w" "g_sessionByTokenHash (snd (storeUpdatePasswordHash i h t w)) = g_sessionByTokenHash w"
  by (auto simp: storeUpdatePasswordHash_def Let_def split: option.split)

lemma create_role_frame [store_frame]:
  "g_accounts (snd (storeCreateRole u r w)) = g_accounts w" "g_accountByUsername (snd (storeCreateRole u r w)) = g_accountByUsername w"
  "g_bundles (snd (storeCreateRole u r w)) = g_bundles w" "g_assignments (snd (storeCreateRole u r w)) = g_assignments w"
  "g_resourceOwnership (snd (storeCreateRole u r w)) = g_resourceOwnership w" "g_samlRequests (snd (storeCreateRole u r w)) = g_samlRequests w"
  "g_sessions (snd (storeCreateRole u r w)) = g_sessions w" "g_sessionByTokenHash (snd (storeCreateRole u r w)) = g_sessionByTokenHash w"
  by (auto simp: storeCreateRole_def Let_def split: option.split)

lemma delete_role_frame [store_frame]:
  "g_accounts (snd (storeDeleteRole org i w)) = g_accounts w" "g_accountByUsername (snd (storeDeleteRole org i w)) = g_accountByUsername w"
  "g_bundles (snd (storeDeleteRole org i w)) = g_bundles w" "g_assignments (snd (storeDeleteRole org i w)) = g_assignments w"
  "g_resourceOwnership (snd (storeDeleteRole org i w)) = g_resourceOwnership w" "g_samlRequests (snd (storeDeleteRole org i w)) = g_samlRequests w"
  "g_sessions (snd (storeDeleteRole org i w)) = g_sessions w" "g_sessionByTokenHash (snd (storeDeleteRole org i w)) = g_sessionByTokenHash w"
  by (auto simp: storeDeleteRole_def Let_def split: option.split)

lemma assign_frame [store_frame]:
  "g_accounts (snd (storeCreateRoleAssignment a w)) = g_accounts w" "g_accountByUsername (snd (storeCreateRoleAssignment a w)) = g_accountByUsername w"
  "g_bundles (snd (storeCreateRoleAssignment a w)) = g_bundles w" "g_roles (snd (storeCreateRoleAssignment a w)) = g_roles w"
  "g_resourceOwnership (snd (storeCreateRoleAssignment a w)) = g_resourceOwnership w" "g_samlRequests (snd (storeCreateRoleAssignment a w)) = g_samlRequests w"
  "g_sessions (snd (storeCreateRoleAssignment a w)) = g_sessions w" "g_sessionByTokenHash (snd (storeCreateRoleAssignment a w)) = g_sessionByTokenHash w"
  by (auto simp: storeCreateRoleAssignment_def Let_def split: option.split)

lemma unassign_frame [store_frame]:
  "g_accounts (snd (storeDeleteRoleAssignment org i w)) = g_accounts w" "g_accountByUsername (snd (storeDeleteRoleAssignment org i w)) = g_accountByUsername w"
  "g_bundles (snd (storeDeleteRoleAssignment org i w)) = g_bundles w" "g_roles (snd (storeDeleteRoleAssignment org i w)) = g_roles w"
  "g_resourceOwnership (snd (storeDeleteRoleAssignment org i w)) = g_resourceOwnership w" "g_samlRequests (snd (storeDeleteRoleAssignment org i w)) = g_samlRequests w"
  "g_sessions (snd (storeDeleteRoleAssignment org i w)) = g_sessions w" "g_sessionByTokenHash (snd (storeDeleteRoleAssignment org i w)) = g_sessionByTokenHash w"
  by (auto simp: storeDeleteRoleAssignment_def Let_def split: option.split)

lemma register_frame [store_frame]:
  "g_accounts (snd (storeRegisterResourceOwnership r w)) = g_accounts w" "g_accountByUsername (snd (storeRegisterResourceOwnership r w)) = g_accountByUsername w"
  "g_bundles (snd (storeRegisterResourceOwnership r w)) = g_bundles w" "g_roles (snd (storeRegisterResourceOwnership r w)) = g_roles w"
  "g_assignments (snd (storeRegisterResourceOwnership r w)) = g_assignments w" "g_samlRequests (snd (storeRegisterResourceOwnership r w)) = g_samlRequests w"
  "g_sessions (snd (storeRegisterResourceOwnership r w)) = g_sessions w" "g_sessionByTokenHash (snd (storeRegisterResourceOwnership r w)) = g_sessionByTokenHash w"
  by (auto simp: storeRegisterResourceOwnership_def Let_def split: option.split)

lemma claim_frame [store_frame]:
  "g_accounts (snd (storeClaimResourceOwnership org rt ri by' t w)) = g_accounts w" "g_accountByUsername (snd (storeClaimResourceOwnership org rt ri by' t w)) = g_accountByUsername w"
  "g_bundles (snd (storeClaimResourceOwnership org rt ri by' t w)) = g_bundles w" "g_roles (snd (storeClaimResourceOwnership org rt ri by' t w)) = g_roles w"
  "g_assignments (snd (storeClaimResourceOwnership org rt ri by' t w)) = g_assignments w" "g_samlRequests (snd (storeClaimResourceOwnership org rt ri by' t w)) = g_samlRequests w"
  "g_sessions (snd (storeClaimResourceOwnership org rt ri by' t w)) = g_sessions w" "g_sessionByTokenHash (snd (storeClaimResourceOwnership org rt ri by' t w)) = g_sessionByTokenHash w"
  by (auto simp: storeClaimResourceOwnership_def Let_def split: option.split)

lemma release_frame [store_frame]:
  "g_accounts (snd (storeDeleteResourceOwnership r w)) = g_accounts w" "g_accountByUsername (snd (storeDeleteResourceOwnership r w)) = g_accountByUsername w"
  "g_bundles (snd (storeDeleteResourceOwnership r w)) = g_bundles w" "g_roles (snd (storeDeleteResourceOwnership r w)) = g_roles w"
  "g_assignments (snd (storeDeleteResourceOwnership r w)) = g_assignments w" "g_samlRequests (snd (storeDeleteResourceOwnership r w)) = g_samlRequests w"
  "g_sessions (snd (storeDeleteResourceOwnership r w)) = g_sessions w" "g_sessionByTokenHash (snd (storeDeleteResourceOwnership r w)) = g_sessionByTokenHash w"
  by (auto simp: storeDeleteResourceOwnership_def Let_def split: option.split)

lemma session_frame [store_frame]:
  "g_accounts (snd (storeCreateSession s w)) = g_accounts w" "g_accountByUsername (snd (storeCreateSession s w)) = g_accountByUsername w"
  "g_bundles (snd (storeCreateSession s w)) = g_bundles w" "g_roles (snd (storeCreateSession s w)) = g_roles w"
  "g_assignments (snd (storeCreateSession s w)) = g_assignments w" "g_resourceOwnership (snd (storeCreateSession s w)) = g_resourceOwnership w"
  "g_samlRequests (snd (storeCreateSession s w)) = g_samlRequests w"
  by (auto simp: storeCreateSession_def Let_def split: option.split)

lemma csrf_frame [store_frame]:
  "g_accounts (snd (storeUpdateSessionCSRF i h w)) = g_accounts w" "g_accountByUsername (snd (storeUpdateSessionCSRF i h w)) = g_accountByUsername w"
  "g_bundles (snd (storeUpdateSessionCSRF i h w)) = g_bundles w" "g_roles (snd (storeUpdateSessionCSRF i h w)) = g_roles w"
  "g_assignments (snd (storeUpdateSessionCSRF i h w)) = g_assignments w" "g_resourceOwnership (snd (storeUpdateSessionCSRF i h w)) = g_resourceOwnership w"
  "g_samlRequests (snd (storeUpdateSessionCSRF i h w)) = g_samlRequests w" "g_sessionByTokenHash (snd (storeUpdateSessionCSRF i h w)) = g_sessionByTokenHash w"
  by (auto simp: storeUpdateSessionCSRF_def Let_def split: option.split)

lemma revoke_frame [store_frame]:
  "g_accounts (snd (storeRevokeSession i t w)) = g_accounts w" "g_accountByUsername (snd (storeRevokeSession i t w)) = g_accountByUsername w"
  "g_bundles (snd (storeRevokeSession i t w)) = g_bundles w" "g_roles (snd (storeRevokeSession i t w)) = g_roles w"
  "g_assignments (snd (storeRevokeSession i t w)) = g_assignments w" "g_resourceOwnership (snd (storeRevokeSession i t w)) = g_resourceOwnership w"
  "g_samlRequests (snd (storeRevokeSession i t w)) = g_samlRequests w" "g_sessionByTokenHash (snd (storeRevokeSession i t w)) = g_sessionByTokenHash w"
  by (auto simp: storeRevokeSession_def Let_def split: option.split)


lemma provision_account_frame:
  "g_sessions (snd (provision_account p w)) = g_sessions w" "g_sessionByTokenHash (snd (provision_account p w)) = g_sessionByTokenHash w"
  "g_samlRequests (snd (provision_account p w)) = g_samlRequests w" "g_resourceOwnership (snd (provision_account p w)) = g_resourceOwnership w"
  by (auto simp: provision_account_def Let_def split: option.split)

lemma Provision_frame [store_frame]:
  "g_sessions (snd (storeProvisionExternalAccount p w)) = g_sessions w"
  "g_sessionByTokenHash (snd (storeProvisionExternalAccount p w)) = g_sessionByTokenHash w"
  "g_samlRequests (snd (storeProvisionExternalAccount p w)) = g_samlRequests w"
  "g_resourceOwnership (snd (storeProvisionExternalAccount p w)) = g_resourceOwnership w"
  using Provision_or[of p w] provision_account_frame[of p w]
  by (auto simp: provisioned_world_def sync_administrator_def Let_def split: option.splits)

lemma effect_session:
  assumes "guard_effect sv l w w'" and "map_of (g_sessions w) i = Some s"
  shows "\<exists>s'. map_of (g_sessions w') i = Some s' \<and> session_continues s s'"
  using assms
proof (induction rule: guard_effect.induct)
  case (session_created t w)
  then show ?case using CreateSession_or[of t w] by auto
qed (auto simp: store_frame same_guard_def session_continues_def storeUpdateSessionCSRF_def storeRevokeSession_def split: option.splits)

lemma run_session:
  assumes "guard_run sv L w w'" and "guard_inv sv w" and "map_of (g_sessions w) i = Some s"
  shows "\<exists>s'. map_of (g_sessions w') i = Some s' \<and> session_continues s s'"
  using assms(1,2)
proof (induction rule: guard_run_induct)
  case (step y l z)
  then obtain s' where s': "map_of (g_sessions y) i = Some s'" "session_continues s s'" by blast
  obtain m where "guard_effect sv m y z" using step(3) by blast
  from effect_session[OF this s'(1)] show ?case using session_continues_trans[OF s'(2)] by blast
qed (use assms(3) in simp)

section \<open>Authentication\<close>

lemma hashSecret_32: "hashSecret sha raw = Some h \<Longrightarrow> h = sha raw"
  by (auto simp: hashSecret_def split: option.splits if_splits)

lemma session_of_token:
  assumes "guard_inv sv w" and "s \<in> vals (g_sessions w)"
  shows "map_of (g_sessionByTokenHash w) (hex_encode (ses_TokenHash s)) = Some (ses_ID s)" "map_of (g_sessions w) (ses_ID s) = Some s"
    "length (ses_TokenHash s) = 32" "ses_OrganizationID s = gsv_organizationID sv" "stored_account w (ses_AccountID s)"
  using guard_invD(5)[OF assms(1)] assms(2) by (auto simp: sessions_ok_def vals_iff)

lemma token_unique:
  assumes "guard_inv sv w" and "s \<in> vals (g_sessions w)" and "t \<in> vals (g_sessions w)" and "ses_TokenHash s = ses_TokenHash t"
  shows "s = t"
  using session_of_token(1,2)[OF assms(1,2)] session_of_token(1,2)[OF assms(1,3)] assms(4) by simp

text \<open>The access of an account, as the store assembles it.\<close>

definition access_of :: "'l guard_service \<Rightarrow> 'l guard_world \<Rightarrow> Account \<Rightarrow> Access" where
  "access_of sv w a = (let ars = account_roles (gsv_organizationID sv) (acc_ID a) w in
     AugmentAccessGrants (gsv_unicode sv) (gsv_organizationID sv)
       \<lparr>ax_Account = a\<lparr>acc_PasswordHash := ''''\<rparr>, ax_Roles = sort_key role_Name (map snd ars),
        ax_Grants = sort_grants (first_by grant_key [] (candidate_grants w ars))\<rparr>)"

lemma AugmentAccessGrants_account [simp]: "ax_Account (AugmentAccessGrants u org x) = ax_Account x" "ax_Roles (AugmentAccessGrants u org x) = ax_Roles x"
  by (simp_all add: AugmentAccessGrants_def Let_def)

lemma access_of_account [simp]: "acc_Status (ax_Account (access_of sv w a)) = acc_Status a" "acc_ID (ax_Account (access_of sv w a)) = acc_ID a"
  by (simp_all add: access_of_def Let_def)

lemma storeAccess_run:
  assumes "guard_inv sv w" and "map_of (g_accounts w) i = Some a"
  shows "storeAccessForAccount (gsv_unicode sv) (gsv_organizationID sv) i w = (Inr (access_of sv w a), w)"
  using assms guard_invD(1)[OF assms(1)]
  by (auto simp: storeAccessForAccount_def queryE_def access_of_def Let_def accounts_ok_def dest: well_keyed_lookup map_of_vals)

definition live_session :: "'l guard_world \<Rightarrow> gotime \<Rightarrow> Session \<Rightarrow> bool" where
  "live_session w now s \<longleftrightarrow> s \<in> vals (g_sessions w) \<and> ses_RevokedAt s = None \<and> Before now (ses_ExpiresAt s)"

lemma find_live:
  assumes inv: "guard_inv sv w" and s: "live_session w now s" and a: "map_of (g_accounts w) (ses_AccountID s) = Some a"
  shows "storeFindSessionByTokenHash (gsv_unicode sv) (gsv_organizationID sv) (ses_TokenHash s) now w = (Inr (s, access_of sv w a), w)"
proof -
  have v: "s \<in> vals (g_sessions w)" "ses_RevokedAt s = None" "Before now (ses_ExpiresAt s)" using s by (simp_all add: live_session_def)
  note t = session_of_token[OF inv v(1)]
  have "stored_session w (ses_ID s) = s" using t(2) by (simp add: stored_session_def)
  then show ?thesis unfolding storeFindSessionByTokenHash_def
    by (simp add: tryE_def queryE_def t v storeAccess_run[OF inv a] returnE_def)
qed

lemma find_dead:
  assumes inv: "guard_inv sv w" and none: "\<nexists>s. live_session w now s \<and> ses_TokenHash s = h"
  shows "storeFindSessionByTokenHash (gsv_unicode sv) (gsv_organizationID sv) h now w = (Inl (Sentinel GuardErrNotFound), w)"
proof (cases "map_of (g_sessionByTokenHash w) (hex_encode h)")
  case None
  then show ?thesis by (simp add: storeFindSessionByTokenHash_def tryE_def queryE_def raiseE_def)
next
  case (Some i)
  then obtain s where s: "map_of (g_sessions w) i = Some s" "hex_encode h = hex_encode (ses_TokenHash s)"
    using guard_invD(5)[OF inv] unfolding sessions_ok_def by blast
  then have "s \<in> vals (g_sessions w)" "ses_TokenHash s = h" using hex_encode_inj by (auto dest: map_of_vals)
  then have "ses_RevokedAt s \<noteq> None \<or> \<not> Before now (ses_ExpiresAt s)" using none by (auto simp: live_session_def)
  moreover have "stored_session w i = s" using s(1) by (simp add: stored_session_def)
  ultimately show ?thesis using Some by (auto simp: storeFindSessionByTokenHash_def tryE_def queryE_def raiseE_def Let_def)
qed

lemma live_session_account:
  assumes "guard_inv sv w" and "live_session w now s"
  obtains a where "map_of (g_accounts w) (ses_AccountID s) = Some a"
  using session_of_token(5)[OF assms(1)] assms(2) by (auto simp: live_session_def stored_account_def)

text \<open>The clock is read first; reading it changes nothing that authentication looks at.\<close>

lemma same_guard_access:
  assumes "same_guard w w'"
  shows "access_of sv w' a = access_of sv w a" "live_session w' now s = live_session w now s"
proof -
  have "bundle_permissions w' = bundle_permissions w" using assms by (simp add: bundle_permissions_def[abs_def] same_guard_def)
  then have "role_permissions w' = role_permissions w" by (simp add: role_permissions_def[abs_def])
  then have "candidate_grants w' = candidate_grants w" by (simp add: candidate_grants_def[abs_def])
  moreover have "account_roles org i w' = account_roles org i w" for org i using assms by (simp add: account_roles_def same_guard_def cong: if_cong)
  ultimately show "access_of sv w' a = access_of sv w a" by (simp add: access_of_def)
  show "live_session w' now s = live_session w now s" using assms by (simp add: live_session_def same_guard_def)
qed

lemma tick_same: "same_guard w (w\<lparr>ticks := n\<rparr>)"
  by (simp add: same_guard_def)

lemmas tick_inv = same_guard_inv[OF tick_same] and tick_access [simp] = same_guard_access[OF tick_same]

lemma AuthenticateSession_live:
  assumes inv: "guard_inv sv w" and h: "hashSecret (gsv_sha256 sv) raw = Some (ses_TokenHash s)"
    and s: "live_session w (clock w (ticks w)) s" and a: "map_of (g_accounts w) (ses_AccountID s) = Some a"
  shows "fst (AuthenticateSession sv raw w) =
    (if acc_Status a = ''active'' then Inr (authenticationFrom s (access_of sv w a)) else Inl (Sentinel ErrInvalidSession))"
proof -
  let ?w = "w\<lparr>ticks := Suc (ticks w)\<rparr>"
  have "storeFindSessionByTokenHash (gsv_unicode sv) (gsv_organizationID sv) (ses_TokenHash s) (clock w (ticks w)) ?w = (Inr (s, access_of sv w a), ?w)"
    using find_live[OF tick_inv[OF inv], of "Suc (ticks w)" "clock w (ticks w)" s a] s a by simp
  then show ?thesis unfolding AuthenticateSession_def h by (simp add: tryE_def attemptE_def read_clock_def returnE_def raiseE_def)
qed

lemma AuthenticateSession_dead:
  assumes inv: "guard_inv sv w" and none: "\<nexists>s. live_session w (clock w (ticks w)) s \<and> hashSecret (gsv_sha256 sv) raw = Some (ses_TokenHash s)"
  shows "fst (AuthenticateSession sv raw w) = Inl (Sentinel ErrInvalidSession)"
proof (cases "hashSecret (gsv_sha256 sv) raw")
  case (Some h)
  let ?w = "w\<lparr>ticks := Suc (ticks w)\<rparr>"
  have "storeFindSessionByTokenHash (gsv_unicode sv) (gsv_organizationID sv) h (clock w (ticks w)) ?w = (Inl (Sentinel GuardErrNotFound), ?w)"
    using none Some by (intro find_dead[OF tick_inv[OF inv]]) auto
  then show ?thesis unfolding AuthenticateSession_def Some by (simp add: tryE_def attemptE_def read_clock_def returnE_def raiseE_def)
qed (simp add: AuthenticateSession_def raiseE_def)

lemma AuthenticateSession_iff:
  assumes inv: "guard_inv sv w"
  shows "(fst (AuthenticateSession sv raw w) = Inr au \<longleftrightarrow>
      (\<exists>s a. hashSecret (gsv_sha256 sv) raw = Some (ses_TokenHash s) \<and> live_session w (clock w (ticks w)) s \<and>
         map_of (g_accounts w) (ses_AccountID s) = Some a \<and> acc_Status a = ''active'' \<and> au = authenticationFrom s (access_of sv w a))) \<and>
    ((\<exists>au. fst (AuthenticateSession sv raw w) = Inr au) \<or> fst (AuthenticateSession sv raw w) = Inl (Sentinel ErrInvalidSession))"
proof (cases "\<exists>s. live_session w (clock w (ticks w)) s \<and> hashSecret (gsv_sha256 sv) raw = Some (ses_TokenHash s)")
  case False
  then show ?thesis using AuthenticateSession_dead[OF inv] by auto
next
  case True
  then obtain s where s: "hashSecret (gsv_sha256 sv) raw = Some (ses_TokenHash s)" "live_session w (clock w (ticks w)) s" by blast
  obtain a where a: "map_of (g_accounts w) (ses_AccountID s) = Some a" using live_session_account[OF inv s(2)] .
  have "t = s" if "ses_TokenHash s = ses_TokenHash t" "live_session w (clock w (ticks w)) t" for t
    using that s token_unique[OF inv] by (auto simp: live_session_def)
  then have "(\<exists>t b. hashSecret (gsv_sha256 sv) raw = Some (ses_TokenHash t) \<and> live_session w (clock w (ticks w)) t \<and>
      map_of (g_accounts w) (ses_AccountID t) = Some b \<and> acc_Status b = ''active'' \<and> au = authenticationFrom t (access_of sv w b)) \<longleftrightarrow>
    acc_Status a = ''active'' \<and> au = authenticationFrom s (access_of sv w a)"
    using s a by auto
  then show ?thesis using AuthenticateSession_live[OF inv s a] by auto
qed

section \<open>Claims and sign-in requests\<close>

lemma effect_claimed:
  assumes "guard_effect sv l w w'" and "map_of (g_resourceOwnership w) k = Some r" and "\<not> ro_WriteLocked r"
  shows "map_of (g_resourceOwnership w') k = Some r"
  using assms
proof (induction rule: guard_effect.induct)
  case (registered r' w)
  then show ?case using Register_or[of r' w] by auto
next
  case (claimed w rt ri b t)
  then show ?case using Claim_or[of "gsv_organizationID sv" rt ri b t w] by (auto simp: Let_def)
qed (auto simp: store_frame same_guard_def storeDeleteResourceOwnership_def split: option.splits)

lemma run_claimed:
  assumes "guard_run sv L w w'" and "guard_inv sv w" and "map_of (g_resourceOwnership w) k = Some r" and "\<not> ro_WriteLocked r"
  shows "map_of (g_resourceOwnership w') k = Some r"
  using assms(1,2)
proof (induction rule: guard_run_induct)
  case (step y l z)
  obtain m where "guard_effect sv m y z" using step(3) by blast
  from effect_claimed[OF this _ assms(4)] step(4) show ?case by blast
qed (use assms(3) in simp)

lemma samlRequestKey_inj [simp]: "samlRequestKey org h = samlRequestKey org h' \<longleftrightarrow> h = h'"
  by (auto simp: samlRequestKey_def dest: hex_encode_inj)

lemma map_of_filter_None: "map_of m k = None \<Longrightarrow> map_of (filter P m) k = None"
  by (induction m) (auto split: if_splits)

lemma effect_consumed:
  assumes "guard_effect sv l w w'" and "map_of (g_samlRequests w) (samlRequestKey (gsv_organizationID sv) h) = None" and "\<nexists>t. l = Tracked h t"
  shows "map_of (g_samlRequests w') (samlRequestKey (gsv_organizationID sv) h) = None"
  using assms
  by (induction rule: guard_effect.induct)
    (auto simp: store_frame same_guard_def storeCreateSAMLRequest_def storeConsumeSAMLRequest_def Let_def map_of_filter_None split: option.splits)

lemma run_consumed:
  assumes "guard_run sv {l. \<nexists>t. l = Tracked h t} w w'" and "guard_inv sv w"
    and "map_of (g_samlRequests w) (samlRequestKey (gsv_organizationID sv) h) = None"
  shows "map_of (g_samlRequests w') (samlRequestKey (gsv_organizationID sv) h) = None"
  using assms(1,2)
proof (induction rule: guard_run_induct)
  case (step y l z)
  obtain m where "guard_effect sv m y z" "\<nexists>t. m = Tracked h t" using step(2,3) by auto
  from effect_consumed[OF this(1) step(4) this(2)] show ?case .
qed (use assms(3) in simp)

text \<open>A tracked request stays until it is consumed, as long as the requests tracked in the meantime find it not expired.\<close>

lemma map_of_filter_Some: "map_of m k = Some r \<Longrightarrow> P (k, r) \<Longrightarrow> map_of (filter P m) k = Some r"
  by (induction m) (auto split: if_splits)

lemma effect_waiting:
  assumes "guard_effect sv l w w'" and "map_of (g_samlRequests w) (samlRequestKey (gsv_organizationID sv) h) = Some r"
    and "l \<noteq> Consumed h" and "\<forall>h' t. l = Tracked h' t \<longrightarrow> Before t (sr_ExpiresAt r)"
  shows "map_of (g_samlRequests w') (samlRequestKey (gsv_organizationID sv) h) = Some r"
  using assms
proof (induction rule: guard_effect.induct)
  case (tracked q w)
  then have "map_of (filter (\<lambda>(_, stored). Before (sr_CreatedAt q) (sr_ExpiresAt stored)) (g_samlRequests w)) (samlRequestKey (gsv_organizationID sv) h) = Some r"
    by (intro map_of_filter_Some) auto
  then show ?case using tracked by (auto simp: storeCreateSAMLRequest_def Let_def split: option.splits)
next
  case (consumed h' w t)
  then have "h' \<noteq> h" by auto
  then show ?case using consumed by (auto simp: storeConsumeSAMLRequest_def Let_def split: option.splits)
qed (auto simp: store_frame same_guard_def)

lemma run_waiting:
  assumes "guard_run sv {l. l \<noteq> Consumed h \<and> (\<forall>h' t. l = Tracked h' t \<longrightarrow> Before t (sr_ExpiresAt r))} w w'" and "guard_inv sv w"
    and "map_of (g_samlRequests w) (samlRequestKey (gsv_organizationID sv) h) = Some r"
  shows "map_of (g_samlRequests w') (samlRequestKey (gsv_organizationID sv) h) = Some r"
  using assms(1,2)
proof (induction rule: guard_run_induct)
  case (step y l z)
  obtain m where "guard_effect sv m y z" "m \<noteq> Consumed h" "\<forall>h' t. m = Tracked h' t \<longrightarrow> Before t (sr_ExpiresAt r)" using step(2,3) by auto
  from effect_waiting[OF this(1) step(4) this(2,3)] show ?case .
qed (use assms(3) in simp)

end
