(* ===== verification/Guard_Access.thy ===== *)
theory Guard_Access
  imports Guard_Sessions
begin

text \<open>
  Who may do what: the grants that the store assembles for an account, as a condition on the stored assignments and roles, and the
  organization managers that every operation other than an external sign-in leaves behind.
\<close>

section \<open>Grants\<close>

lemma first_by_subset: "set (first_by f seen xs) \<subseteq> set xs"
  by (induction xs arbitrary: seen) auto

lemma first_by_keys: "x \<in> set xs \<Longrightarrow> f x \<notin> set seen \<Longrightarrow> \<exists>y \<in> set (first_by f seen xs). f y = f x"
proof (induction xs arbitrary: seen)
  case (Cons z xs)
  show ?case
  proof (cases "f z \<in> set seen \<or> f x \<noteq> f z")
    case True
    then have "x \<in> set xs" using Cons.prems by auto
    then show ?thesis using Cons.IH[of seen] Cons.IH[of "f z # seen"] Cons.prems(2) True by auto
  next
    case False
    then show ?thesis by auto
  qed
qed simp

lemma first_by_inj: "inj_on f (set xs) \<Longrightarrow> set (first_by f [] xs) = set xs"
proof
  assume inj: "inj_on f (set xs)"
  show "set xs \<subseteq> set (first_by f [] xs)"
  proof
    fix x assume x: "x \<in> set xs"
    then obtain y where "y \<in> set (first_by f [] xs)" "f y = f x" using first_by_keys[of x xs f "[]"] by auto
    then show "x \<in> set (first_by f [] xs)" using inj x first_by_subset[of f "[]" xs] by (metis inj_onD subsetD)
  qed
qed (rule first_by_subset)

lemma prefix_split:
  assumes "a @ [z] @ b = a' @ [z] @ b'" and "z \<notin> set a" and "z \<notin> set a'"
  shows "a = a' \<and> b = b'"
  using assms
proof (induction a arbitrary: a')
  case Nil
  then show ?case by (cases a') auto
next
  case (Cons c a)
  then show ?case by (cases a') auto
qed

definition plain_grant :: "string \<Rightarrow> Grant \<Rightarrow> bool" where
  "plain_grant org g \<longleftrightarrow> CHR 0x00 \<notin> set (gr_Permission g) \<and> CHR 0x00 \<notin> set (gs_Kind (gr_Scope g)) \<and> gs_OrganizationID (gr_Scope g) = org"

lemma grant_key_inj: "inj_on grant_key {g. plain_grant org g}"
proof (rule inj_onI, clarsimp)
  fix g h assume p: "plain_grant org g" "plain_grant org h" and k: "grant_key g = grant_key h"
  from k have "gr_Permission g @ [CHR 0x00] @ gs_Kind (gr_Scope g) @ nul @ org @ nul @ gs_ResourceID (gr_Scope g) =
      gr_Permission h @ [CHR 0x00] @ gs_Kind (gr_Scope h) @ nul @ org @ nul @ gs_ResourceID (gr_Scope h)"
    using p by (simp add: grant_key_def plain_grant_def nul_def)
  from prefix_split[OF this] p have 1: "gr_Permission g = gr_Permission h"
    "gs_Kind (gr_Scope g) @ [CHR 0x00] @ org @ nul @ gs_ResourceID (gr_Scope g) = gs_Kind (gr_Scope h) @ [CHR 0x00] @ org @ nul @ gs_ResourceID (gr_Scope h)"
    by (auto simp: plain_grant_def nul_def)
  from prefix_split[OF 1(2)] p have "gs_Kind (gr_Scope g) = gs_Kind (gr_Scope h)" "gs_ResourceID (gr_Scope g) = gs_ResourceID (gr_Scope h)"
    by (auto simp: plain_grant_def nul_def)
  then show "g = h" using 1(1) p by (simp add: plain_grant_def)
qed

lemma supported_plain: "p \<in> set SupportedPermissions \<Longrightarrow> CHR 0x00 \<notin> set p"
proof -
  have "list_all (\<lambda>p. CHR 0x00 \<notin> set p) SupportedPermissions" by code_simp
  then show "p \<in> set SupportedPermissions \<Longrightarrow> CHR 0x00 \<notin> set p" by (simp add: list_all_iff)
qed

lemma scope_kinds_plain: "k \<in> scope_kinds \<Longrightarrow> CHR 0x00 \<notin> set k"
  by (auto simp: scope_kinds_def ScopeOrganization_def ScopeSite_def ScopeDepartment_def ScopeResource_def)

lemma role_permissions_supported:
  assumes "guard_inv sv w" and "r \<in> vals (g_roles w)" and "p \<in> set (role_permissions w r)"
  shows "p \<in> set SupportedPermissions"
proof -
  have bperms: "set (bundle_permissions w i) \<subseteq> set SupportedPermissions" for i
  proof (cases "map_of (g_bundles w) i")
    case (Some b)
    then have "b \<in> vals (g_bundles w)" by (rule map_of_vals)
    then show ?thesis using guard_invD(2)[OF assms(1)] Some by (simp add: bundle_permissions_def bundles_ok_def supported_def)
  qed (simp add: bundle_permissions_def)
  have "set (role_Permissions r) \<subseteq> set SupportedPermissions" using guard_invD(3)[OF assms(1)] assms(2) by (simp add: roles_ok_def supported_def)
  then show ?thesis using assms(3) bperms by (auto simp: role_permissions_def)
qed

text \<open>The roles an account holds, as stored.\<close>

definition holds_role :: "'l guard_world \<Rightarrow> string \<Rightarrow> RoleAssignment \<Rightarrow> Role \<Rightarrow> bool" where
  "holds_role w i a r \<longleftrightarrow> a \<in> vals (g_assignments w) \<and> ra_AccountID a = i \<and> map_of (g_roles w) (ra_RoleID a) = Some r"

lemma account_roles_set:
  assumes "guard_inv sv w"
  shows "set (account_roles (gsv_organizationID sv) i w) = {(a, r). holds_role w i a r}"
proof -
  have "\<forall>a \<in> vals (g_assignments w). ra_OrganizationID a = gsv_organizationID sv" using guard_invD(4)[OF assms] by (simp add: assignments_ok_def)
  then show ?thesis by (force simp: account_roles_def List.map_filter_def holds_role_def vals_def split: if_splits)
qed

lemma candidate_grants_set:
  assumes inv: "guard_inv sv w"
  shows "set (candidate_grants w (account_roles (gsv_organizationID sv) i w)) =
    {g. \<exists>a r. holds_role w i a r \<and> gr_Permission g \<in> set (role_permissions w r) \<and> gr_Scope g = ra_Scope a}"
  (is "?G = ?H")
proof -
  have "g \<in> ?G \<longleftrightarrow> g \<in> ?H" for g
    by (cases g) (auto simp: candidate_grants_def account_roles_set[OF inv] image_iff)
  then show ?thesis by blast
qed

lemma candidate_grants_plain:
  assumes inv: "guard_inv sv w" and g: "g \<in> set (candidate_grants w (account_roles (gsv_organizationID sv) i w))"
  shows "plain_grant (gsv_organizationID sv) g"
proof -
  obtain a r where "holds_role w i a r" "gr_Permission g \<in> set (role_permissions w r)" "gr_Scope g = ra_Scope a"
    using g unfolding candidate_grants_set[OF inv] by blast
  then show ?thesis using guard_invD(4)[OF inv] role_permissions_supported[OF inv, of r "gr_Permission g"]
    by (auto simp: plain_grant_def holds_role_def assignments_ok_def dest: map_of_vals supported_plain scope_kinds_plain)
qed

definition scope_covers :: "GuardScope \<Rightarrow> GuardScope \<Rightarrow> bool" where
  "scope_covers s target \<longleftrightarrow> gs_Kind s = ScopeOrganization \<or> (gs_Kind s = gs_Kind target \<and> gs_ResourceID s = gs_ResourceID target)"

definition permitted :: "'l guard_service \<Rightarrow> 'l guard_world \<Rightarrow> string \<Rightarrow> Permission \<Rightarrow> GuardScope \<Rightarrow> bool" where
  "permitted sv w i p target \<longleftrightarrow> (\<exists>a r. holds_role w i a r \<and>
     ((p \<in> set (role_permissions w r) \<and> scope_covers (ra_Scope a) target) \<or>
      (is_builtin_administrator (gsv_unicode sv) r \<and> p \<in> set AdministratorBundlePermissions)))"

lemma access_covers:
  assumes inv: "guard_inv sv w" and a: "map_of (g_accounts w) i = Some acc" and org: "gsv_organizationID sv \<noteq> ''''"
    and target: "gs_OrganizationID target = gsv_organizationID sv"
  shows "list_ex (grant_covers p target) (ax_Grants (access_of sv w acc)) \<longleftrightarrow> permitted sv w i p target"
proof -
  let ?org = "gsv_organizationID sv" and ?ars = "account_roles (gsv_organizationID sv) i w"
  have id: "acc_ID acc = i" using guard_invD(1)[OF inv] a by (auto simp: accounts_ok_def dest: well_keyed_lookup)
  let ?cand = "candidate_grants w ?ars"
  have "inj_on grant_key (set ?cand)"
    by (rule inj_on_subset[OF grant_key_inj]) (use candidate_grants_plain[OF inv] in auto)
  then have fb: "set (first_by grant_key [] ?cand) = set ?cand" by (rule first_by_inj)
  have scope: "gs_OrganizationID (ra_Scope a') = ?org" if "holds_role w i a' r'" for a' r'
    using that guard_invD(4)[OF inv] by (simp add: holds_role_def assignments_ok_def)
  have admin: "list_ex (is_builtin_administrator (gsv_unicode sv)) (sort_key role_Name (map snd ?ars)) \<longleftrightarrow>
      (\<exists>a' r'. holds_role w i a' r' \<and> is_builtin_administrator (gsv_unicode sv) r')"
    using account_roles_set[OF inv, of i] by (force simp: list_ex_iff)
  have cand: "(\<exists>g \<in> set ?cand. grant_covers p target g) \<longleftrightarrow>
      (\<exists>a' r'. holds_role w i a' r' \<and> p \<in> set (role_permissions w r') \<and> scope_covers (ra_Scope a') target)"
    unfolding candidate_grants_set[OF inv] using scope target
    by (auto simp: grant_covers_def scope_covers_def) (metis Grant.select_convs)+
  show ?thesis
  proof (cases "\<exists>a' r'. holds_role w i a' r' \<and> is_builtin_administrator (gsv_unicode sv) r'")
    case False
    then have "ax_Grants (access_of sv w acc) = sort_grants (first_by grant_key [] ?cand)"
      using admin by (simp add: access_of_def Let_def id AugmentAccessGrants_def)
    then show ?thesis using cand False fb by (auto simp: permitted_def list_ex_iff sort_grants_def)
  next
    case True
    let ?seen = "map gr_Permission (filter (\<lambda>g. gs_Kind (gr_Scope g) = ScopeOrganization \<and> gs_OrganizationID (gr_Scope g) = ?org)
        (sort_grants (first_by grant_key [] ?cand)))"
    have grants: "set (ax_Grants (access_of sv w acc)) = set ?cand \<union>
        (\<lambda>p. \<lparr>gr_Permission = p, gr_Scope = organization_scope ?org\<rparr>) ` {p \<in> set AdministratorBundlePermissions. p \<notin> set ?seen}"
      using True admin org by (simp add: access_of_def Let_def id AugmentAccessGrants_def sort_grants_def fb)
    have cover: "grant_covers p target \<lparr>gr_Permission = q, gr_Scope = organization_scope ?org\<rparr> \<longleftrightarrow> q = p" for q
      using target by (auto simp: grant_covers_def organization_scope_def)
    have seen: "\<exists>g \<in> set ?cand. grant_covers p target g" if seen: "p \<in> set ?seen"
    proof -
      obtain g where "g \<in> set ?cand" "gr_Permission g = p" "gs_Kind (gr_Scope g) = ScopeOrganization" "gs_OrganizationID (gr_Scope g) = ?org"
        using seen fb by (auto simp: sort_grants_def)
      then show ?thesis using target by (intro bexI[of _ g]) (simp_all add: grant_covers_def)
    qed
    have "(\<exists>g \<in> set (ax_Grants (access_of sv w acc)). grant_covers p target g) \<longleftrightarrow>
        (\<exists>g \<in> set ?cand. grant_covers p target g) \<or> (p \<in> set AdministratorBundlePermissions \<and> p \<notin> set ?seen)"
      unfolding grants bex_Un bex_simps using cover by simp
    then have "(\<exists>g \<in> set (ax_Grants (access_of sv w acc)). grant_covers p target g) \<longleftrightarrow>
        (\<exists>g \<in> set ?cand. grant_covers p target g) \<or> p \<in> set AdministratorBundlePermissions"
      using seen by blast
    moreover have "permitted sv w i p target \<longleftrightarrow> (\<exists>a' r'. holds_role w i a' r' \<and> p \<in> set (role_permissions w r') \<and> scope_covers (ra_Scope a') target) \<or>
        p \<in> set AdministratorBundlePermissions"
      using True unfolding permitted_def by blast
    ultimately show ?thesis using cand by (simp add: list_ex_iff)
  qed
qed

lemma CheckPermission_decides:
  assumes "GuardScope_Validate target = None"
  shows "fst (CheckPermission sv cx au p target w) =
    (if list_ex (grant_covers p target) (au_Grants au) then Inr () else Inl (Sentinel ErrPermissionDenied))"
  using assms by (auto simp: CheckPermission_def returnE_def raiseE_def tryE_def recordSecurityEvent_def attemptE_def split: prod.split)

section \<open>Organization managers\<close>

definition manages :: "'l guard_world \<Rightarrow> string \<Rightarrow> RoleAssignment \<Rightarrow> bool" where
  "manages w org a \<longleftrightarrow> a \<in> vals (g_assignments w) \<and> ra_OrganizationID a = org \<and> is_manager_assignment w org a \<and> active_account w org (ra_AccountID a)"

definition has_manager :: "'l guard_world \<Rightarrow> string \<Rightarrow> bool" where
  "has_manager w org \<longleftrightarrow> (\<exists>a. manages w org a)"

lemma manages_mono:
  assumes "manages w org a" and "a \<in> vals (g_assignments w')" and "map_of (g_roles w) (ra_RoleID a) = map_of (g_roles w') (ra_RoleID a)"
    and "g_bundles w' = g_bundles w" and "active_account w' org (ra_AccountID a)"
  shows "manages w' org a"
proof -
  have "bundle_permissions w' = bundle_permissions w" using assms(4) by (simp add: bundle_permissions_def[abs_def])
  then have "roleGrantsPermission w' (ra_RoleID a) p = roleGrantsPermission w (ra_RoleID a) p" for p
    unfolding roleGrantsPermission_def assms(3) by (simp cong: option.case_cong)
  then show ?thesis using assms by (simp add: manages_def is_manager_assignment_def)
qed

lemma manages_frame:
  assumes "manages w org a" and "g_assignments w' = g_assignments w" "g_roles w' = g_roles w" "g_bundles w' = g_bundles w" "g_accounts w' = g_accounts w"
  shows "manages w' org a"
  using assms by (intro manages_mono[OF assms(1)]) (auto simp: manages_def active_account_def)

lemma manager_role: "manages w org a \<Longrightarrow> map_of (g_roles w) (ra_RoleID a) \<noteq> None"
  by (auto simp: manages_def is_manager_assignment_def roleGrantsPermission_def split: option.splits)

lemma remaining_manager:
  "remainingManagers w org i \<noteq> 0 \<Longrightarrow> \<exists>b. manages w org b \<and> ra_ID b \<noteq> i"
  by (auto simp: remainingManagers_def filter_empty_conv manages_def vals_def) force

lemma Unassign_or:
  "snd (storeDeleteRoleAssignment org i w) = w \<or>
   (\<exists>c. map_of (g_assignments w) i = Some c \<and> snd (storeDeleteRoleAssignment org i w) = w\<lparr>g_assignments := AList.delete i (g_assignments w)\<rparr> \<and>
      (is_manager_assignment w org c \<longrightarrow> remainingManagers w org (ra_ID c) \<noteq> 0))"
  unfolding storeDeleteRoleAssignment_def by (simp split: option.split)

lemma Unassign_manager:
  assumes inv: "guard_inv sv w" and m: "manages w (gsv_organizationID sv) a"
  shows "has_manager (snd (storeDeleteRoleAssignment (gsv_organizationID sv) i w)) (gsv_organizationID sv)"
proof -
  let ?org = "gsv_organizationID sv" and ?w = "w\<lparr>g_assignments := AList.delete i (g_assignments w)\<rparr>"
  have keyed: "well_keyed ra_ID (g_assignments w)" using guard_invD(4)[OF inv] by (simp add: assignments_ok_def)
  have kept: "has_manager ?w ?org" if b: "manages w ?org b" "ra_ID b \<noteq> i" for b
  proof -
    have "map_of (g_assignments ?w) (ra_ID b) = Some b" using b keyed by (simp add: manages_def vals_iff)
    then have "b \<in> vals (g_assignments ?w)" by (rule map_of_vals)
    then have "manages ?w ?org b" using b(1) by (intro manages_mono[OF b(1)]) (simp_all add: manages_def active_account_def)
    then show ?thesis by (auto simp: has_manager_def)
  qed
  from Unassign_or[of ?org i w] show ?thesis
  proof (elim disjE exE conjE)
    assume "snd (storeDeleteRoleAssignment ?org i w) = w"
    then show ?thesis using m by (auto simp: has_manager_def)
  next
    fix c assume c: "map_of (g_assignments w) i = Some c" and w': "snd (storeDeleteRoleAssignment ?org i w) = ?w"
      and alt: "is_manager_assignment w ?org c \<longrightarrow> remainingManagers w ?org (ra_ID c) \<noteq> 0"
    have id: "ra_ID c = i" using c keyed by (auto dest: well_keyed_lookup)
    show ?thesis
    proof (cases "ra_ID a = i")
      case True
      then have "a = c" using m c keyed by (simp add: manages_def vals_iff)
      then have "remainingManagers w ?org i \<noteq> 0" using alt m id by (simp add: manages_def)
      then obtain b where "manages w ?org b" "ra_ID b \<noteq> i" using remaining_manager by blast
      then show ?thesis unfolding w' by (rule kept)
    next
      case False
      then show ?thesis unfolding w' by (rule kept[OF m])
    qed
  qed
qed

lemma effect_manager:
  assumes "guard_effect sv l w w'" and "guard_inv sv w" and "has_manager w (gsv_organizationID sv)" and "l \<noteq> External"
  shows "has_manager w' (gsv_organizationID sv)"
proof -
  obtain a where m: "manages w (gsv_organizationID sv) a" using assms(3) by (auto simp: has_manager_def)
  have inv: "guard_inv sv w" by fact
  have frame: "has_manager v (gsv_organizationID sv)"
    if "g_assignments v = g_assignments w" "g_roles v = g_roles w" "g_bundles v = g_bundles w" "g_accounts v = g_accounts w" for v
    using manages_frame[OF m that] by (auto simp: has_manager_def)
  show ?thesis using assms(1) m inv assms(4)
  proof (cases rule: guard_effect.cases)
    case (bootstrapped names ph t b c r j)
    have "organization_has_account (gsv_organizationID sv) w" using m
      by (auto simp: manages_def active_account_def organization_has_account_def list_ex_vals dest: map_of_vals split: option.splits)
    then show ?thesis using Bootstrap_or[of "administrator_bootstrap sv names ph t b c r j" w] bootstrapped assms(3)
      by (auto simp: administrator_bootstrap_simps)
  next
    case (rehashed i h t)
    have "manages w' (gsv_organizationID sv) a" unfolding rehashed using m
      by (intro manages_mono[OF m]) (auto simp: store_frame manages_def active_account_def storeUpdatePasswordHash_def split: option.splits)
    then show ?thesis by (auto simp: has_manager_def)
  next
    case (role_created r)
    have "manages w' (gsv_organizationID sv) a" unfolding role_created(2) using m manager_role[OF m]
      by (intro manages_mono[OF m]; cases rule: CreateRole_cases[of "gsv_unicode sv" r w]) (auto simp: store_frame manages_def active_account_def)
    then show ?thesis by (auto simp: has_manager_def)
  next
    case (role_deleted i)
    have "manages w' (gsv_organizationID sv) a" unfolding role_deleted(2) using m
      by (intro manages_mono[OF m]; cases rule: DeleteRole_cases[of "gsv_organizationID sv" i w]) (auto simp: store_frame manages_def active_account_def)
    then show ?thesis by (auto simp: has_manager_def)
  next
    case (assigned b)
    have "a \<in> vals (g_assignments w')" unfolding assigned(2) using m CreateRoleAssignment_or[of b w] guard_invD(4)[OF inv]
      by (auto simp: manages_def assignments_ok_def vals_update vals_iff)
    then have "manages w' (gsv_organizationID sv) a" using m unfolding assigned(2)
      by (intro manages_mono[OF m]) (auto simp: store_frame manages_def active_account_def)
    then show ?thesis by (auto simp: has_manager_def)
  next
    case (unassigned i)
    then show ?thesis using Unassign_manager[OF inv m] by simp
  qed (auto intro!: frame simp: store_frame same_guard_def)
qed

lemma run_manager:
  assumes "guard_run sv L w w'" and "guard_inv sv w" and "External \<notin> L" and "has_manager w (gsv_organizationID sv)"
  shows "has_manager w' (gsv_organizationID sv)"
  using assms(1,2)
proof (induction rule: guard_run_induct)
  case (step y l z)
  obtain m where "guard_effect sv m y z" "m \<noteq> External" using step(2,3) assms(3) by auto
  from effect_manager[OF this(1) step(1) step(4) this(2)] show ?case .
qed (use assms(4) in simp)

end
