(* ===== verification/Frames.thy ===== *)
theory Frames
  imports Prelude
begin

text \<open>
  Operations that move the state only along a preorder. \<open>keeps R m\<close> says so of an operation \<open>m\<close>; whatever the preorder, it is closed under the ways
  operations are composed. The locale states this once, and the components interpret it on their own relations.
\<close>

definition keeps :: "('s \<Rightarrow> 's \<Rightarrow> bool) \<Rightarrow> ('s, 'e, 'a) op \<Rightarrow> bool" where
  "keeps R m \<longleftrightarrow> (\<forall>w. R w (snd (m w)))"

named_theorems keeps_intro \<open>operations that keep a relation\<close>

locale frame =
  fixes R :: "'s \<Rightarrow> 's \<Rightarrow> bool"
  assumes refl: "R w w" and trans: "R w w1 \<Longrightarrow> R w1 w2 \<Longrightarrow> R w w2"
begin

lemma keepsI: "(\<And>w. R w (snd (m w))) \<Longrightarrow> keeps R m"
  by (simp add: keeps_def)

lemma keeps_pure [keeps_intro]:
  "keeps R (returnE a)" "keeps R (raiseE e)" "keeps R (liftE r)" "keeps R (queryE f)" "keeps R (checkE c)"
  by (rule keepsI; simp add: returnE_def raiseE_def liftE_def queryE_def checkE_def refl split: option.split)+

lemma keeps_tryE [keeps_intro]:
  assumes "keeps R m" and "\<And>a. keeps R (k a)"
  shows "keeps R (tryE m k)"
proof (rule keepsI)
  fix w
  obtain r w1 where m: "m w = (r, w1)" by fastforce
  then have "R w w1" using assms(1) unfolding keeps_def by (metis snd_conv)
  then show "R w (snd (tryE m k w))" using m assms(2)
    by (cases r) (auto simp: tryE_def keeps_def intro: trans)
qed

lemma keeps_attemptE [keeps_intro]: "keeps R m \<Longrightarrow> keeps R (attemptE m)"
  by (simp add: keeps_def attemptE_def case_prod_beta)

lemma keeps_wrapE [keeps_intro]: "keeps R m \<Longrightarrow> keeps R (wrapE msg m)"
proof -
  have "snd (wrapE msg m w) = snd (m w)" for w by (simp add: wrapE_def split: prod.split sum.split)
  then show "keeps R m \<Longrightarrow> keeps R (wrapE msg m)" by (simp add: keeps_def)
qed

lemma keeps_branches [keeps_intro]:
  "keeps R m \<Longrightarrow> keeps R m' \<Longrightarrow> keeps R (if b then m else m')"
  "(\<And>x y. keeps R (f x y)) \<Longrightarrow> keeps R (case p of (x, y) \<Rightarrow> f x y)"
  "keeps R n \<Longrightarrow> (\<And>x. keeps R (g x)) \<Longrightarrow> keeps R (case q of None \<Rightarrow> n | Some x \<Rightarrow> g x)"
  "(\<And>x. keeps R (h x)) \<Longrightarrow> (\<And>y. keeps R (h' y)) \<Longrightarrow> keeps R (case r of Inl x \<Rightarrow> h x | Inr y \<Rightarrow> h' y)"
  "(\<And>x. keeps R (d x)) \<Longrightarrow> keeps R (let x = v in d x)"
  by (simp_all split: prod.split option.split sum.split)

lemma wpI_keeps:
  assumes "keeps R m" and "\<And>a w'. m w = (Inr a, w') \<Longrightarrow> R w w' \<Longrightarrow> Q a w'" and "\<And>e w'. m w = (Inl e, w') \<Longrightarrow> R w w' \<Longrightarrow> E e w'"
  shows "wp m Q E w"
proof -
  obtain r w' where m: "m w = (r, w')" by fastforce
  then have "R w w'" using assms(1) unfolding keeps_def by (metis snd_conv)
  then show ?thesis using assms(2,3) m by (cases r) (auto simp: wp_def)
qed

end

end
