(* ===== verification/Guard_Login.thy ===== *)
theory Guard_Login
  imports Guard_Access Frames
begin

text \<open>
  What a login leaves behind: on success a live session of the account whose password was verified, and the event in the audit log; on
  failure no new session that is not revoked.
\<close>

section \<open>Operations that leave the store alone\<close>

definition quiet :: "'l guard_world \<Rightarrow> 'l guard_world \<Rightarrow> bool" where
  "quiet w w' \<longleftrightarrow> same_guard w w' \<and> clock w' = clock w \<and> log_grows (audits w) (audits w')"

lemma quiet_refl [simp]: "quiet w w"
  by (simp add: quiet_def)

lemma quiet_trans: "quiet w w1 \<Longrightarrow> quiet w1 w2 \<Longrightarrow> quiet w w2"
  by (auto simp: quiet_def dest: same_guard_trans log_grows_trans)

interpretation quiet: frame quiet
  by unfold_locales (simp, rule quiet_trans)

abbreviation calm :: "('l, 'a) guard_op \<Rightarrow> bool" where
  "calm \<equiv> keeps quiet"

lemma calm_basic [keeps_intro]:
  "calm read_clock" "calm NewCorrelationID" "calm (newSecret sha)" "calm (limitE m)" "calm (hash_password sv password)"
  by (rule quiet.keepsI; simp add: quiet_def read_clock_def NewCorrelationID_def newSecret_def limitE_def
      hash_password_def Let_def same_guard_def split: option.split prod.split sum.split)+

lemma AuditorRecord_quiet:
  fixes w :: "'l guard_world"
  shows "quiet w (snd ((AuditorRecord ev :: ('l, unit) guard_op) w))"
proof -
  have "quiet w v" if "v \<in> {w, w\<lparr>audit_calls := Suc (audit_calls w)\<rparr>, w\<lparr>audit_calls := Suc (audit_calls w), audits := audit_insert ev (audits w)\<rparr>}" for v
    using that audit_insert_append[of ev "audits w"] by (auto simp: quiet_def same_guard_def log_grows_def)
  then show ?thesis using AuditorRecord_frame[of ev w] by blast
qed

lemma calm_AuditorRecord [keeps_intro]: "calm (AuditorRecord ev)"
  by (rule quiet.keepsI) (rule AuditorRecord_quiet)

lemma calm_audit [keeps_intro]: "calm (guard_audit sv cx actor action rt ri md)" "calm (recordSecurityEvent sv cx actor action rt ri md)"
  unfolding guard_audit_def recordSecurityEvent_def by (intro keeps_intro)+

lemma calm_queries [keeps_intro]: "calm (storeFindAccountByUsername org n)" "calm (storeAccessForAccount u org i)"
  unfolding storeFindAccountByUsername_def storeAccessForAccount_def by (intro keeps_intro)+

lemma wpI_recorded:
  "(\<And>w'. audited (ae_OrganizationID ev) (ae_Action ev) (ae_ResourceType ev) (ae_ResourceID ev) (audits w') \<Longrightarrow> Q () w') \<Longrightarrow>
   (\<And>e w'. E e w') \<Longrightarrow> wp (AuditorRecord ev) Q E w"
  by (rule wp_mono[OF AuditorRecord_recorded]) auto

lemma guard_audit_recorded:
  assumes "guard_audit sv cx actor action rt ri md w = (Inr (), w')"
  shows "audited (gsv_organizationID sv) action rt ri (audits w')"
proof -
  have "wp (guard_audit sv cx actor action rt ri md) (\<lambda>_ w'. audited (gsv_organizationID sv) action rt ri (audits w')) (\<lambda>_ _. True) w"
    unfolding guard_audit_def by (intro wp_intro wpI_recorded) simp_all
  from wp_Inr[OF this assms] show ?thesis .
qed

section \<open>Issuing a session\<close>

lemma newSecret_hash: "newSecret sha w = (Inr (token, h), w') \<Longrightarrow> hashSecret sha token = Some h \<and> h = sha token"
proof -
  have "length (fill_bytes 32 b) = 32" for b by (simp add: fill_bytes_def)
  then show "newSecret sha w = (Inr (token, h), w') \<Longrightarrow> hashSecret sha token = Some h \<and> h = sha token"
    by (auto simp: newSecret_def Let_def hashSecret_def DecodeString_EncodeToString split: option.splits)
qed

text \<open>The state after a session of account \<open>i\<close> has been issued.\<close>

definition issued :: "'l guard_service \<Rightarrow> string \<Rightarrow> 'l guard_world \<Rightarrow> SessionCredentials \<Rightarrow> 'l guard_world \<Rightarrow> bool" where
  "issued sv i w cr w' \<longleftrightarrow> (let s = au_Session (cr_Authentication cr) in
     g_sessions w' = AList.update (ses_ID s) s (g_sessions w) \<and> map_of (g_sessions w) (ses_ID s) = None \<and> ses_AccountID s = i \<and> ses_RevokedAt s = None \<and>
     ses_ExpiresAt s = Add (ses_CreatedAt s) (gsv_sessionTTL sv) \<and> hashSecret (gsv_sha256 sv) (cr_Token cr) = Some (ses_TokenHash s) \<and>
     hashSecret (gsv_sha256 sv) (cr_CSRFToken cr) = Some (ses_CSRFHash s) \<and> ses_CSRFHash s = gsv_sha256 sv (cr_CSRFToken cr) \<and>
     g_accounts w' = g_accounts w \<and> clock w' = clock w)"

lemma authenticationFrom_session [simp]: "au_Session (authenticationFrom s x) = s"
  by (simp add: authenticationFrom_def)

lemma wpI_storeCreateSession:
  assumes "\<And>w'. g_sessions w' = AList.update (ses_ID s) s (g_sessions w) \<Longrightarrow> map_of (g_sessions w) (ses_ID s) = None \<Longrightarrow>
     g_accounts w' = g_accounts w \<Longrightarrow> clock w' = clock w \<Longrightarrow> Q () w'" and "\<And>e. E e w"
  shows "wp (storeCreateSession s) Q E w"
  using CreateSession_or[of s w]
proof (elim disjE exE conjE)
  fix e assume "storeCreateSession s w = (Inl e, w)"
  then show ?thesis using assms(2) by (simp add: wp_def)
next
  assume new: "map_of (g_sessions w) (ses_ID s) = None"
    and run: "storeCreateSession s w = (Inr (), w\<lparr>g_sessions := AList.update (ses_ID s) s (g_sessions w),
      g_sessionByTokenHash := AList.update (hex_encode (ses_TokenHash s)) (ses_ID s) (g_sessionByTokenHash w)\<rparr>)"
  show ?thesis unfolding wp_def run prod.case sum.case by (rule assms(1)) (simp_all add: new)
qed

lemma wpI_newSecret:
  assumes "\<And>token w'. quiet w w' \<Longrightarrow> hashSecret sha token = Some (sha token) \<Longrightarrow> Q (token, sha token) w'" and "\<And>e w'. quiet w w' \<Longrightarrow> E e w'"
  shows "wp (newSecret sha) Q E w"
proof (rule quiet.wpI_keeps[OF calm_basic(3)])
  fix a w' assume run: "newSecret sha w = (Inr a, w')" and q: "quiet w w'"
  obtain token h where a: "a = (token, h)" by fastforce
  from newSecret_hash[OF run[unfolded a]] show "Q a w'" using assms(1)[OF q, of token] a by simp
qed (rule assms(2))

lemmas quiet_defs = quiet_def same_guard_def log_grows_def

lemma issueSession_issued:
  "wp (issueSession sv i) (\<lambda>cr w'. issued sv i w cr w') (\<lambda>e w'. quiet w w') w"
  unfolding issueSession_def
  apply (intro wpI_tryE wpI_wrapE)
  apply (rule quiet.wpI_keeps[OF calm_queries(2)])
   apply (intro wp_intro wpI_newSecret wpI_storeCreateSession)
  apply (auto simp: issued_def Let_def quiet_defs)
  done

section \<open>The outcome of a login\<close>

definition same_sessions :: "'l guard_world \<Rightarrow> 'l guard_world \<Rightarrow> bool" where
  "same_sessions w w' \<longleftrightarrow> g_sessions w' = g_sessions w \<and> clock w' = clock w"

lemma quiet_sessions: "quiet w w' \<Longrightarrow> same_sessions w w'"
  by (simp add: quiet_defs same_sessions_def)

lemma same_sessions_trans: "same_sessions w w1 \<Longrightarrow> same_sessions w1 w2 \<Longrightarrow> same_sessions w w2"
  by (simp add: same_sessions_def)

definition no_new_session :: "'l guard_world \<Rightarrow> 'l guard_world \<Rightarrow> bool" where
  "no_new_session w w' \<longleftrightarrow> (\<forall>i s. map_of (g_sessions w) i = Some s \<longrightarrow> map_of (g_sessions w') i = Some s) \<and>
     (\<forall>i s. map_of (g_sessions w') i = Some s \<and> map_of (g_sessions w) i = None \<longrightarrow> ses_RevokedAt s \<noteq> None)"

lemma same_sessions_none: "same_sessions w w' \<Longrightarrow> no_new_session w w'"
  by (auto simp: same_sessions_def no_new_session_def)

lemma wpI_rehash:
  assumes "\<And>w'. same_sessions w w' \<Longrightarrow> Q () w'" and "\<And>e w'. same_sessions w w' \<Longrightarrow> E e w'"
  shows "wp (storeUpdatePasswordHash i h t) Q E w"
proof -
  have "same_sessions w (snd (storeUpdatePasswordHash i h t w))"
    by (auto simp: same_sessions_def storeUpdatePasswordHash_def split: option.split)
  then show ?thesis using assms by (auto simp: wp_iff)
qed

definition new_session :: "'l guard_service \<Rightarrow> string \<Rightarrow> 'l guard_world \<Rightarrow> SessionCredentials \<Rightarrow> 'l guard_world \<Rightarrow> bool" where
  "new_session sv i w cr w' \<longleftrightarrow> (let s = au_Session (cr_Authentication cr) in
     map_of (g_sessions w) (ses_ID s) = None \<and> map_of (g_sessions w') (ses_ID s) = Some s \<and> ses_AccountID s = i \<and> ses_RevokedAt s = None \<and>
     ses_ExpiresAt s = Add (ses_CreatedAt s) (gsv_sessionTTL sv) \<and> hashSecret (gsv_sha256 sv) (cr_Token cr) = Some (ses_TokenHash s))"

lemma audited_session_outcome:
  assumes new: "issued sv i w cr w1" and clock: "\<forall>n. \<not> IsZero (clock w n)"
  shows "wp (audited_session sv cx msg i action md cr)
    (\<lambda>cr' w'. cr' = cr \<and> new_session sv i w cr w' \<and> audited (gsv_organizationID sv) action ''account'' i (audits w'))
    (\<lambda>e w'. no_new_session w w') w1"
proof -
  let ?s = "au_Session (cr_Authentication cr)"
  have ok: "new_session sv i w cr w2" if "quiet w1 w2" for w2
    using new that by (simp add: issued_def new_session_def quiet_defs Let_def)
  have undo: "no_new_session w (snd (storeRevokeSession (ses_ID ?s) t w2))" if "quiet w1 w2" and "\<not> IsZero t" for w2 and t :: gotime
  proof -
    have s: "g_sessions w2 = AList.update (ses_ID ?s) ?s (g_sessions w)" "map_of (g_sessions w) (ses_ID ?s) = None"
      using new that(1) by (simp_all add: issued_def quiet_defs Let_def)
    show ?thesis using s that(2) by (auto simp: storeRevokeSession_def no_new_session_def)
  qed
  have "clock w1 = clock w" using new by (simp add: issued_def Let_def)
  then have time: "\<not> IsZero (clock w2 n)" if "quiet w1 w2" for w2 n using clock that by (simp add: quiet_defs)
  have tick: "quiet w1 w2 \<Longrightarrow> quiet w1 (w2\<lparr>ticks := n\<rparr>)" for w2 n by (auto simp: quiet_defs)
  show ?thesis unfolding audited_session_def wp_tryE wp_attemptE
  proof (rule quiet.wpI_keeps[OF calm_audit(1)], goal_cases)
    case (1 a w2)
    then have "audited (gsv_organizationID sv) action ''account'' i (audits w2)" using guard_audit_recorded[of sv cx i action "''account''" i md w1 w2] by simp
    then show ?case using ok[OF 1(2)] by (simp add: wp_simps)
  next
    case (2 e w2)
    have "tryE read_clock (\<lambda>now. tryE (attemptE (storeRevokeSession (ses_ID ?s) now)) (\<lambda>_. raiseE (Wrapf msg e))) w2 =
        (Inl (Wrapf msg e) :: guard_error + SessionCredentials, snd (storeRevokeSession (ses_ID ?s) (clock w2 (ticks w2)) (w2\<lparr>ticks := Suc (ticks w2)\<rparr>)))"
      by (simp add: tryE_def read_clock_def attemptE_def raiseE_def split: prod.split)
    then show ?case using undo[of "w2\<lparr>ticks := Suc (ticks w2)\<rparr>" "clock w2 (ticks w2)"] tick[OF 2(2)] time[OF 2(2)] by (simp add: wp_def)
  qed
qed

lemma login_succeeds_outcome:
  assumes clock: "\<forall>n. \<not> IsZero (clock w n)"
  shows "wp (login_succeeds sv cx k k' now pw account needsRehash)
    (\<lambda>cr w'. new_session sv (acc_ID account) w cr w' \<and> audited (gsv_organizationID sv) ''guard.login.succeeded'' ''account'' (acc_ID account) (audits w'))
    (\<lambda>e w'. no_new_session w w') w"
proof -
  have last: "wp (tryE (issueSession sv (acc_ID account)) (\<lambda>credentials.
         audited_session sv cx ''audit login'' (acc_ID account) ''guard.login.succeeded'' [] credentials))
    (\<lambda>cr w'. new_session sv (acc_ID account) w cr w' \<and> audited (gsv_organizationID sv) ''guard.login.succeeded'' ''account'' (acc_ID account) (audits w'))
    (\<lambda>e w'. no_new_session w w') v" if v: "same_sessions w v" for v
  proof -
    have time: "\<forall>n. \<not> IsZero (clock v n)" using v clock by (simp add: same_sessions_def)
    have new: "new_session sv i v cr w' = new_session sv i w cr w'" "no_new_session v w' = no_new_session w w'" for i cr w'
      using v by (simp_all add: new_session_def no_new_session_def same_sessions_def)
    show ?thesis unfolding wp_tryE
    proof (rule wp_mono[OF issueSession_issued])
      fix cr v' assume "issued sv (acc_ID account) v cr v'"
      from audited_session_outcome[OF this time] show "wp (audited_session sv cx ''audit login'' (acc_ID account) ''guard.login.succeeded'' [] cr)
        (\<lambda>cr w'. new_session sv (acc_ID account) w cr w' \<and> audited (gsv_organizationID sv) ''guard.login.succeeded'' ''account'' (acc_ID account) (audits w'))
        (\<lambda>e w'. no_new_session w w') v'"
        by (rule wp_mono) (simp_all add: new)
    next
      fix e v' assume "quiet v v'"
      then show "no_new_session w v'" using v quiet_sessions same_sessions_trans same_sessions_none by blast
    qed
  qed
  show ?thesis unfolding login_succeeds_def
    by (intro wp_intro quiet.wpI_keeps[OF calm_basic(5)] wpI_rehash quiet.wpI_keeps[OF calm_basic(4)] quiet.wpI_keeps[OF calm_audit(2)] last same_sessions_none)
      (auto dest!: quiet_sessions intro!: last[unfolded wp_tryE] simp: same_sessions_def)
qed

lemma FindAccount_cong: "same_guard w v \<Longrightarrow> fst (storeFindAccountByUsername org n v) = fst (storeFindAccountByUsername org n w)"
  by (simp add: storeFindAccountByUsername_def queryE_def same_guard_def cong: option.case_cong)

definition credential_of :: "'l guard_service \<Rightarrow> LoginInput \<Rightarrow> 'l guard_world \<Rightarrow> Account \<Rightarrow> bool" where
  "credential_of sv input w account \<longleftrightarrow>
     fst (storeFindAccountByUsername (gsv_organizationID sv) (normalizeUsername (gsv_unicode sv) (li_Username input)) w) = Inr account \<and>
     acc_Status account = ''active'' \<and> acc_PasswordHash account \<noteq> '''' \<and>
     (\<exists>needsRehash. ph_Verify (gsv_hasher sv) (li_Password input) (acc_PasswordHash account) = Inr (True, needsRehash))"

lemma credential_ofI:
  assumes "storeFindAccountByUsername (gsv_organizationID sv) (normalizeUsername (gsv_unicode sv) (li_Username input)) v = (Inr account, v')"
    and "same_guard w v" and "acc_Status account = ''active''" and "acc_PasswordHash account \<noteq> ''''"
    and "ph_Verify (gsv_hasher sv) (li_Password input) (acc_PasswordHash account) = Inr (True, needsRehash)"
  shows "credential_of sv input w account"
  using FindAccount_cong[OF assms(2), of "gsv_organizationID sv" "normalizeUsername (gsv_unicode sv) (li_Username input)"] assms(1,3-5)
  unfolding credential_of_def by auto

lemma Login_outcome:
  assumes clock: "\<forall>n. \<not> IsZero (clock w n)"
  shows "wp (Login sv cx input)
    (\<lambda>cr w'. \<exists>account. credential_of sv input w account \<and> new_session sv (acc_ID account) w cr w' \<and>
       audited (gsv_organizationID sv) ''guard.login.succeeded'' ''account'' (acc_ID account) (audits w'))
    (\<lambda>e w'. no_new_session w w') w"
proof -
  let ?n = "normalizeUsername (gsv_unicode sv) (li_Username input)"
  have accepted: "wp (login_succeeds sv cx k k' now (li_Password input) account needsRehash)
      (\<lambda>cr w'. \<exists>account. credential_of sv input w account \<and> new_session sv (acc_ID account) w cr w' \<and>
         audited (gsv_organizationID sv) ''guard.login.succeeded'' ''account'' (acc_ID account) (audits w'))
      (\<lambda>e w'. no_new_session w w') v"
    if q: "quiet w v" and cred: "credential_of sv input w account" for k k' now account needsRehash v
  proof -
    have time: "\<forall>n. \<not> IsZero (clock v n)" using q clock by (simp add: quiet_defs)
    have new: "new_session sv i v cr w' = new_session sv i w cr w'" "no_new_session v w' = no_new_session w w'" for i cr w'
      using q by (simp_all add: new_session_def no_new_session_def quiet_defs)
    show ?thesis by (rule wp_mono[OF login_succeeds_outcome[OF time]]) (use cred in \<open>auto simp: new\<close>)
  qed
  have failed: "quiet w v \<Longrightarrow> no_new_session w v" for v by (intro same_sessions_none quiet_sessions)
  show ?thesis
    unfolding Login_def Let_def login_failed_def
    apply (intro wp_intro quiet.wpI_keeps[OF calm_basic(1)] quiet.wpI_keeps[OF calm_basic(4)] quiet.wpI_keeps[OF calm_audit(2)] quiet.wpI_keeps[OF calm_queries(1)] accepted failed)
    apply (auto simp: quiet_defs)
     apply (erule credential_ofI; simp add: login_accepted_def same_guard_def)
    by (simp add: login_accepted_def)
qed

end
