(* ===== verification/Guard_External.thy ===== *)
theory Guard_External
  imports Guard_Login
begin

text \<open>
  External sign-in and the managers of the organization: what the sign-in of an identity that is no longer mapped to administrators leaves of
  the assignments.
\<close>

definition same_access :: "'l guard_world \<Rightarrow> 'l guard_world \<Rightarrow> bool" where
  "same_access w w' \<longleftrightarrow> g_accounts w' = g_accounts w \<and> g_roles w' = g_roles w \<and> g_bundles w' = g_bundles w \<and> g_assignments w' = g_assignments w"

interpretation same_access: frame same_access
  by unfold_locales (simp_all add: same_access_def)

lemma quiet_access: "quiet w w' \<Longrightarrow> same_access w w'"
  by (simp add: quiet_defs same_access_def)

lemma calm_access: "calm m \<Longrightarrow> keeps same_access m"
  by (simp add: keeps_def quiet_access)

lemma issuing_access [keeps_intro]: "keeps same_access (issueSession sv i)" "keeps same_access (audited_session sv cx msg i action md cr)"
proof -
  have s: "keeps same_access (storeCreateSession s)" "keeps same_access (storeRevokeSession j t)" for s j t
    by (simp_all add: keeps_def same_access_def store_frame)
  show "keeps same_access (issueSession sv i)"
    unfolding issueSession_def by (intro keeps_intro s calm_access[OF calm_queries(2)] calm_access[OF calm_basic(1)] calm_access[OF calm_basic(2)] calm_access[OF calm_basic(3)])
  show "keeps same_access (audited_session sv cx msg i action md cr)"
    unfolding audited_session_def by (intro keeps_intro s calm_access[OF calm_audit(1)] calm_access[OF calm_basic(1)])
qed

lemma has_manager_access: "same_access w w' \<Longrightarrow> has_manager w' org \<Longrightarrow> has_manager w org"
proof -
  assume s: "same_access w w'" and "has_manager w' org"
  then obtain a where "manages w' org a" by (auto simp: has_manager_def)
  then have "manages w org a" by (rule manages_frame) (use s in \<open>simp_all add: same_access_def\<close>)
  then show ?thesis by (auto simp: has_manager_def)
qed

text \<open>The session that is issued names the account.\<close>

lemma issueSession_subject:
  assumes inv: "guard_inv sv w" and a: "map_of (g_accounts w) i = Some a"
  shows "wp (issueSession sv i) (\<lambda>cr _. pr_Subject (au_Principal (cr_Authentication cr)) = i) (\<lambda>_ _. True) w"
proof -
  have "acc_ID a = i" using guard_invD(1)[OF inv] a by (auto simp: accounts_ok_def dest: well_keyed_lookup)
  then show ?thesis unfolding issueSession_def wp_tryE wp_wrapE wp_def[of "storeAccessForAccount _ _ _"] storeAccess_run[OF inv a] prod.case sum.case Let_def
    by (intro wp_intro quiet.wpI_keeps[OF calm_basic(3)] wpI_storeCreateSession) (simp_all add: authenticationFrom_def)
qed

lemma audited_session_same: "audited_session sv cx msg i action md cr w = (Inr cr', w') \<Longrightarrow> cr' = cr"
  by (auto simp: audited_session_def tryE_def attemptE_def returnE_def raiseE_def read_clock_def split: prod.splits sum.splits)

text \<open>Provisioning of an account that is not to administer.\<close>

lemma provision_account_access:
  assumes inv: "guard_inv sv w" and run: "provision_account p w = (Inr (account, created), w1)"
  shows "g_roles w1 = g_roles w" "g_bundles w1 = g_bundles w" "g_assignments w1 = g_assignments w" "g_externalAssignments w1 = g_externalAssignments w"
    "stored_account w i \<Longrightarrow> active_account (w1\<lparr>g_accounts := AList.update (acc_ID account) account (g_accounts w1)\<rparr>) org i \<Longrightarrow> active_account w org i"
proof -
  have keyed: "well_keyed acc_ID (g_accounts w)" using guard_invD(1)[OF inv] by (simp add: accounts_ok_def)
  show "g_roles w1 = g_roles w" "g_bundles w1 = g_bundles w" "g_assignments w1 = g_assignments w" "g_externalAssignments w1 = g_externalAssignments w"
    using run by (auto simp: provision_account_def Let_def split: option.splits if_splits)
  show "active_account w org i" if "stored_account w i" "active_account (w1\<lparr>g_accounts := AList.update (acc_ID account) account (g_accounts w1)\<rparr>) org i"
    using run that keyed
    by (auto simp: provision_account_def Let_def active_account_def stored_account_def split: option.splits if_splits dest: well_keyed_lookup)
qed

lemma demoted_no_manager:
  assumes inv: "guard_inv sv w" and org: "acc_OrganizationID (eap_Account p) = gsv_organizationID sv" and no: "\<not> eap_Administrator p"
    and run: "provision_account p w = (Inr (account, created), w1)"
    and only: "\<forall>a. manages w (gsv_organizationID sv) a \<longrightarrow> ra_ID a \<noteq> '''' \<and>
      map_of (g_externalAssignments w) (guardExternalAssignmentKey (gsv_organizationID sv) (acc_ID account) (eap_AssignmentSource p)) = Some (ra_ID a)"
  shows "\<not> has_manager (provisioned_world p rid account w1) (gsv_organizationID sv)"
proof
  let ?org = "gsv_organizationID sv" and ?w = "provisioned_world p rid account w1"
  let ?k = "guardExternalAssignmentKey ?org (acc_ID account) (eap_AssignmentSource p)"
  note k = provision_account_keeps(4)[OF inv org run] provision_account_access[OF inv run]
  assume "has_manager ?w ?org"
  then obtain a where a: "manages ?w ?org a" by (auto simp: has_manager_def)
  have frames: "g_roles ?w = g_roles w" "g_bundles ?w = g_bundles w"
    by (auto simp: provisioned_world_def sync_administrator_def Let_def no k split: option.split)
  have asg: "g_assignments ?w = (case map_of (g_externalAssignments w) ?k of None \<Rightarrow> g_assignments w
      | Some i \<Rightarrow> if i = '''' then g_assignments w else AList.delete i (g_assignments w))"
    by (auto simp: provisioned_world_def sync_administrator_def Let_def no k split: option.split)
  have keyed: "well_keyed ra_ID (g_assignments w)" using guard_invD(4)[OF inv] by (simp add: assignments_ok_def)
  have v: "a \<in> vals (g_assignments w)"
    using a by (auto simp: manages_def asg split: option.splits if_splits dest: subsetD[OF vals_delete])
  then have stored: "stored_account w (ra_AccountID a)" using guard_invD(4)[OF inv] by (simp add: assignments_ok_def)
  have "active_account (w1\<lparr>g_accounts := AList.update (acc_ID account) account (g_accounts w1)\<rparr>) ?org (ra_AccountID a)"
    using a by (auto simp: manages_def active_account_def provisioned_world_accounts)
  then have "active_account w ?org (ra_AccountID a)" by (rule k(6)[OF stored])
  then have "manages w ?org a" using a v frames by (intro manages_mono[OF a]) simp_all
  then have "ra_ID a \<noteq> ''''" "map_of (g_externalAssignments w) ?k = Some (ra_ID a)" using only by blast+
  then have "a \<in> vals (AList.delete (ra_ID a) (g_assignments w))" using a by (simp add: manages_def asg)
  then have "map_of (AList.delete (ra_ID a) (g_assignments w)) (ra_ID a) = Some a"
    by (simp only: vals_iff[OF well_keyed_delete[OF keyed]])
  then show False by simp
qed

lemma issueSession_run:
  assumes "tryE (issueSession sv i) (\<lambda>credentials. audited_session sv cx msg i action md credentials) w = (Inr cr, w')"
  shows "\<exists>w1. issueSession sv i w = (Inr cr, w1)" "same_access w w'"
proof -
  have "keeps same_access (tryE (issueSession sv i) (\<lambda>credentials. audited_session sv cx msg i action md credentials))" by (intro keeps_intro)
  then show "same_access w w'" using assms unfolding keeps_def by (metis snd_conv)
  show "\<exists>w1. issueSession sv i w = (Inr cr, w1)"
    using assms audited_session_same by (fastforce simp: tryE_def split: prod.splits sum.splits)
qed

lemma wpI_provision:
  assumes "\<And>rid account created w1. provision_account p w = (Inr (account, created), w1) \<Longrightarrow> Provisioning_Validate p = None \<Longrightarrow>
      (eap_Administrator p \<longrightarrow> administrator_role_id (acc_OrganizationID (eap_Account p)) w = Some rid) \<Longrightarrow> Q (account, created) (provisioned_world p rid account w1)"
    and "\<And>e. E e w"
  shows "wp (storeProvisionExternalAccount p) Q E w"
  using Provision_or[of p w]
proof (elim disjE exE conjE)
  fix e assume "storeProvisionExternalAccount p w = (Inl e, w)"
  then show ?thesis using assms(2) by (simp add: wp_def)
next
  fix rid account created w1
  assume "provision_account p w = (Inr (account, created), w1)" "Provisioning_Validate p = None"
    "eap_Administrator p \<longrightarrow> administrator_role_id (acc_OrganizationID (eap_Account p)) w = Some rid"
    and run: "storeProvisionExternalAccount p w = (Inr (account, created), provisioned_world p rid account w1)"
  from assms(1)[OF this(1-3)] show ?thesis unfolding wp_def run by simp
qed

lemma wpI_issue:
  assumes "\<And>cr w1 w'. issueSession sv i w = (Inr cr, w1) \<Longrightarrow> same_access w w' \<Longrightarrow> Q cr w'" and "\<And>e w'. E e w'"
  shows "wp (issueSession sv i) (\<lambda>credentials. wp (audited_session sv cx msg i action md credentials) Q E) E w"
  unfolding wp_tryE[symmetric] wp_iff
proof (intro conjI allI impI)
  fix cr w' assume run: "tryE (issueSession sv i) (audited_session sv cx msg i action md) w = (Inr cr, w')"
  obtain w1 where "issueSession sv i w = (Inr cr, w1)" using issueSession_run(1)[OF run] by blast
  then show "Q cr w'" using assms(1) issueSession_run(2)[OF run] by blast
qed (rule assms(2))

lemma OIDC_demotion:
  assumes inv: "guard_inv sv w" and login: "LoginOIDC sv cx ext w = (Inr cr, w')" and no: "\<not> ep_Administrator ext"
    and only: "\<forall>a. manages w (gsv_organizationID sv) a \<longrightarrow> ra_ID a \<noteq> '''' \<and> map_of (g_externalAssignments w) (guardExternalAssignmentKey (gsv_organizationID sv)
      (pr_Subject (au_Principal (cr_Authentication cr))) (externalAssignmentSource (gsv_sha256 sv) ''oidc'' (TrimSpace (ep_Issuer ext)))) = Some (ra_ID a)"
  shows "\<not> has_manager w' (gsv_organizationID sv)"
proof -
  let ?org = "gsv_organizationID sv" and ?source = "externalAssignmentSource (gsv_sha256 sv) ''oidc'' (TrimSpace (ep_Issuer ext))"
  have final: "cr' = cr \<longrightarrow> \<not> has_manager v' ?org"
    if v: "same_guard w v" and p: "acc_OrganizationID (eap_Account p) = ?org" "\<not> eap_Administrator p" "eap_AssignmentSource p = ?source"
      and run: "provision_account p v = (Inr (account, created), w1)"
      and issue: "issueSession sv (acc_ID account) (provisioned_world p rid account w1) = (Inr cr', w2)"
      and same: "same_access (provisioned_world p rid account w1) v'" for p v account created w1 w2 rid v' cr'
  proof
    assume "cr' = cr"
    have inv': "guard_inv sv v" by (rule same_guard_inv[OF v inv])
    have ok: "guard_inv sv (provisioned_world p rid account w1)" by (rule provisioned_world_inv[OF inv' p(1) run]) (simp add: p(2))
    have "map_of (g_accounts (provisioned_world p rid account w1)) (acc_ID account) = Some account" by (simp add: provisioned_world_accounts)
    from wp_Inr[OF issueSession_subject[OF ok this] issue] have subject: "pr_Subject (au_Principal (cr_Authentication cr')) = acc_ID account" .
    have "manages w ?org a" if "manages v ?org a" for a
      using v by (intro manages_frame[OF that]) (simp_all add: same_guard_def)
    then have "\<not> has_manager (provisioned_world p rid account w1) ?org"
      using only subject v \<open>cr' = cr\<close> by (intro demoted_no_manager[OF inv' p(1,2) run]) (simp add: p(3) same_guard_def)
    then show "\<not> has_manager v' ?org" using has_manager_access[OF same] by blast
  qed
  have "wp (LoginOIDC sv cx ext) (\<lambda>cr' w'. cr' = cr \<longrightarrow> \<not> has_manager w' ?org) (\<lambda>_ _. True) w"
    unfolding LoginOIDC_def loginExternal_def Let_def
    apply (intro wp_intro quiet.wpI_keeps[OF calm_basic(1)] quiet.wpI_keeps[OF calm_basic(2)] quiet.wpI_keeps[OF calm_audit(2)] wpI_provision wpI_issue TrueI)
    apply simp_all
    apply (rule final[rotated 4], assumption, assumption, assumption)
    by (simp_all add: no external_provisioning_def Let_def same_guard_def)
  from wp_Inr[OF this login] show ?thesis by simp
qed

end
