(* ===== verification/Guard_Properties.thy ===== *)
theory Guard_Properties
  imports Guard_External
begin

text \<open>
  The properties of the Guard component. \<open>guard_run sv L w w'\<close> is a sequence of operations of the service whose labels are in \<open>L\<close>; \<open>guard_inv\<close> is the invariant
  that every store reached from the empty one satisfies (the first theorem), and the other theorems hold of every store that satisfies it.
  The concrete service below, with a transparent hasher and digest, is the subject of the witnesses.
\<close>

declare sort_key_by_quicksort_code [code del]

lemma sort_key_by_insort [code]: "sort_key f xs = foldr (insort_key f) xs []"
  by (simp add: sort_key_def)

definition ex_g_unicode :: unicode where
  "ex_g_unicode = \<lparr>ucd_lower = id, ucd_upper = id, ucd_fold = id\<rparr>"

definition ex_sha :: "string \<Rightarrow> string" where
  "ex_sha s = take 32 (s @ replicate 32 (CHR ''x''))"

definition ex_hasher :: PasswordHasher where
  "ex_hasher = \<lparr>ph_Hash = (\<lambda>pw random n. (Inr (''h'' @ pw), Suc n)), ph_Verify = (\<lambda>pw h. Inr (h = ''h'' @ pw, False))\<rparr>"

definition ex_guard :: "memory_limiter guard_service" where
  "ex_guard = \<lparr>gsv_organizationID = ''org'', gsv_hasher = ex_hasher, gsv_limiter = memory_limiter_ops (\<lambda>k v. v), gsv_bootstrapTokenHash = '''',
     gsv_bootstrapTokenRequired = False, gsv_sessionTTL = 60 * Minute, gsv_dummyPasswordHash = ''none'', gsv_unicode = ex_g_unicode,
     gsv_sha256 = ex_sha, gsv_ParseAddress = Some\<rparr>"

definition ex_guard_world :: "memory_limiter guard_world" where
  "ex_guard_world = \<lparr>clock = (\<lambda>n. GoTime (int n + 1) True), ticks = 0, entropy = (\<lambda>n. Some [char_of (n + 1)]), draws = 0,
     audits = [], audit_faults = (\<lambda>_. None), audit_calls = 0, g_accounts = [], g_accountByUsername = [], g_bundles = [], g_roles = [],
     g_assignments = [], g_resourceOwnership = [], g_externalIdentities = [], g_externalAssignments = [], g_samlRequests = [], g_sessions = [],
     g_sessionByTokenHash = [],
     g_limiter = \<lparr>ml_key = ''k'', ml_maxFailures = 5, ml_window = 15 * Minute, ml_failures = [], ml_saturatedTo = zero_time\<rparr>\<rparr>"

definition ex_gctx :: guard_ctx where
  "ex_gctx = \<lparr>cx_scope = None, gcx_limiter = (\<lambda>_. \<lparr>cc_nil = False, cc_before = None, cc_locked = None\<rparr>)\<rparr>"

definition ex_bootstrap_input :: BootstrapInput where
  "ex_bootstrap_input = \<lparr>bi_Username = ''admin'', bi_Email = ''a@b'', bi_DisplayName = ''Admin'', bi_Password = ''fifteen letters'', bi_BootstrapToken = ''''\<rparr>"

definition ex_bootstrapped :: "memory_limiter guard_world" where
  "ex_bootstrapped = snd (Bootstrap ex_guard ex_gctx ex_bootstrap_input True ex_guard_world)"

lemma ex_bootstrapped_run: "guard_run ex_guard UNIV ex_guard_world ex_bootstrapped"
  unfolding ex_bootstrapped_def by (rule guard_run_step[OF guard_run_refl step_Bootstrap]) simp

lemma ex_bootstrapped_accounts: "g_accounts ex_bootstrapped \<noteq> []"
  by code_simp

text \<open>A store with two accounts: \<open>a\<close> administers the organization through an assignment that the provider manages, \<open>b\<close> holds the built-in
  administrator role at one site and a local role at another.\<close>

definition ex_account :: "string \<Rightarrow> Account" where
  "ex_account i = \<lparr>acc_ID = i, acc_OrganizationID = ''org'', acc_Username = i @ ''nn'', acc_NormalizedUsername = i @ ''nn'', acc_Email = ''a@b'', acc_DisplayName = i,
     acc_PasswordHash = ''hsecret'', acc_Status = ''active'', acc_CreatedAt = GoTime 1 True, acc_UpdatedAt = GoTime 1 True\<rparr>"

definition ex_role :: "string \<Rightarrow> string \<Rightarrow> Permission list \<Rightarrow> string \<Rightarrow> Role" where
  "ex_role i name ps source = \<lparr>role_ID = i, role_OrganizationID = ''org'', role_Name = name, role_Description = '''', role_Permissions = ps,
     role_PolicyBundleIDs = [], role_Source = source\<rparr>"

definition ex_assignment :: "string \<Rightarrow> string \<Rightarrow> string \<Rightarrow> GuardScope \<Rightarrow> string \<Rightarrow> RoleAssignment" where
  "ex_assignment i account role scope source = \<lparr>ra_ID = i, ra_OrganizationID = ''org'', ra_AccountID = account, ra_RoleID = role, ra_Scope = scope,
     ra_Source = source, ra_CreatedAt = GoTime 1 True\<rparr>"

definition ex_site :: "string \<Rightarrow> GuardScope" where
  "ex_site s = \<lparr>gs_Kind = ScopeSite, gs_OrganizationID = ''org'', gs_ResourceID = s\<rparr>"

definition ex_token :: string where
  "ex_token = EncodeToString RawURLEncoding (replicate 32 (CHR 0x00))"

definition ex_session :: Session where
  "ex_session = \<lparr>ses_ID = ''s'', ses_OrganizationID = ''org'', ses_AccountID = ''b'', ses_TokenHash = ex_sha ex_token, ses_CSRFHash = ex_sha ex_token,
     ses_CreatedAt = GoTime 1 True, ses_ExpiresAt = GoTime 100 True, ses_RevokedAt = None\<rparr>"

definition ex_ownership :: ResourceOwnership where
  "ex_ownership = \<lparr>ro_OrganizationID = ''org'', ro_ResourceType = ''asset'', ro_ResourceID = ''r'', ro_SourceSystemID = ''x'', ro_SourceRecordID = ''y'',
     ro_WriteLocked = True, ro_RegisteredAt = GoTime 1 True, ro_ClaimedBy = '''', ro_ClaimedAt = None\<rparr>"

definition ex_source :: string where
  "ex_source = externalAssignmentSource ex_sha ''oidc'' ''i''"

definition ex_staffed :: "memory_limiter guard_world" where
  "ex_staffed = ex_guard_world\<lparr>g_accounts := [(''a'', ex_account ''a''), (''b'', ex_account ''b'')],
     g_accountByUsername := [(guardUsernameKey ''org'' ''ann'', ''a''), (guardUsernameKey ''org'' ''bnn'', ''b'')],
     g_roles := [(''r'', ex_role ''r'' ''Administrator'' [PermissionGuardManage] BuiltInRoleSource), (''q'', ex_role ''q'' ''Reader'' [''assets.read''] LocalRoleSource)],
     g_assignments := [(''1'', ex_assignment ''1'' ''a'' ''r'' (organization_scope ''org'') ex_source),
       (''2'', ex_assignment ''2'' ''b'' ''r'' (ex_site ''north'') LocalAssignmentSource), (''3'', ex_assignment ''3'' ''b'' ''q'' (ex_site ''south'') LocalAssignmentSource)],
     g_externalIdentities := [(guardExternalIdentityKey ''org'' ''i'' ''alice'', \<lparr>ei_OrganizationID = ''org'', ei_Issuer = ''i'', ei_Subject = ''alice'', ei_AccountID = ''a'',
        ei_CreatedAt = GoTime 1 True, ei_UpdatedAt = GoTime 1 True\<rparr>)],
     g_externalAssignments := [(guardExternalAssignmentKey ''org'' ''a'' ex_source, ''1'')],
     g_resourceOwnership := [(ownership_key ex_ownership, ex_ownership)],
     g_sessions := [(''s'', ex_session)], g_sessionByTokenHash := [(hex_encode (ex_sha ex_token), ''s'')]\<rparr>"

lemma ex_staffed_inv: "guard_inv ex_guard ex_staffed"
proof -
  have l: "role_label ex_g_unicode (ex_role ''r'' ''Administrator'' [PermissionGuardManage] BuiltInRoleSource) \<noteq>
      role_label ex_g_unicode (ex_role ''q'' ''Reader'' [''assets.read''] LocalRoleSource)"
    by code_simp
  have h: "length (ex_sha ex_token) = 32" by (simp add: ex_sha_def)
  have p: "supported [PermissionGuardManage]" "supported [''assets.read'']" by (simp_all add: supported_def SupportedPermissions_def PermissionGuardManage_def)
  show ?thesis
    using l h p by (auto simp: guard_inv_def guard_ok_defs well_keyed_def vals_def inj_on_def assignment_target_def source_of_def scope_kinds_def
        ex_guard_def ex_staffed_def ex_guard_world_def ex_account_def ex_role_def ex_assignment_def ex_site_def organization_scope_def ex_session_def ex_ownership_def
        role_label_def)
qed

section \<open>Consistency of reachable stores\<close>

text \<open>C24: whatever operations a Guard service has run on an empty store, every account is found under its normalized user name, no two accounts
  share one, every session and every assignment belongs to a stored account, every assignment names a stored role and every role stored bundles, no two
  assignments give an account the same role in the same scope, no two roles share a normalized name, no two sessions share a token, and a
  claimed resource names the stored account that claimed it.\<close>

theorem guard_reachable_consistent:
  assumes "empty_guard w0" and "guard_run sv UNIV w0 w"
  shows "(\<forall>a \<in> vals (g_accounts w). fst (storeFindAccountByUsername (gsv_organizationID sv) (acc_NormalizedUsername a) w) = Inr a) \<and>
    inj_on acc_NormalizedUsername (vals (g_accounts w)) \<and>
    (\<forall>s \<in> vals (g_sessions w). map_of (g_accounts w) (ses_AccountID s) \<noteq> None) \<and> inj_on ses_TokenHash (vals (g_sessions w)) \<and>
    (\<forall>a \<in> vals (g_assignments w). map_of (g_accounts w) (ra_AccountID a) \<noteq> None \<and> map_of (g_roles w) (ra_RoleID a) \<noteq> None) \<and>
    inj_on assignment_target (vals (g_assignments w)) \<and> inj_on (role_label (gsv_unicode sv)) (vals (g_roles w)) \<and>
    (\<forall>r \<in> vals (g_roles w). \<forall>i \<in> set (role_PolicyBundleIDs r). map_of (g_bundles w) i \<noteq> None) \<and>
    (\<forall>r \<in> vals (g_resourceOwnership w). ro_WriteLocked r \<or> map_of (g_accounts w) (ro_ClaimedBy r) \<noteq> None)"
proof (intro conjI)
  have inv: "guard_inv sv w" by (rule guard_reachable[OF assms])
  note d = guard_invD[OF inv]
  show find: "\<forall>a \<in> vals (g_accounts w). fst (storeFindAccountByUsername (gsv_organizationID sv) (acc_NormalizedUsername a) w) = Inr a"
    using d(1) by (auto simp: accounts_ok_def storeFindAccountByUsername_def queryE_def vals_iff)
  then show "inj_on acc_NormalizedUsername (vals (g_accounts w))" by (metis inj_onI sum.inject(2))
  show "\<forall>s \<in> vals (g_sessions w). map_of (g_accounts w) (ses_AccountID s) \<noteq> None" using d(5) by (simp add: sessions_ok_def stored_account_def)
  show "inj_on ses_TokenHash (vals (g_sessions w))" using token_unique[OF inv] by (blast intro: inj_onI)
  show "\<forall>a \<in> vals (g_assignments w). map_of (g_accounts w) (ra_AccountID a) \<noteq> None \<and> map_of (g_roles w) (ra_RoleID a) \<noteq> None"
    using d(4) by (simp add: assignments_ok_def stored_account_def)
  show "inj_on assignment_target (vals (g_assignments w))" using d(4) by (simp add: assignments_ok_def)
  show "inj_on (role_label (gsv_unicode sv)) (vals (g_roles w))" "\<forall>r \<in> vals (g_roles w). \<forall>i \<in> set (role_PolicyBundleIDs r). map_of (g_bundles w) i \<noteq> None"
    using d(3) by (simp_all add: roles_ok_def)
  show "\<forall>r \<in> vals (g_resourceOwnership w). ro_WriteLocked r \<or> map_of (g_accounts w) (ro_ClaimedBy r) \<noteq> None"
    using d(6) by (auto simp: ownership_ok_def claim_ok_def stored_account_def split: if_splits)
qed

theorem guard_reachable_consistent_witness:
  "\<exists>a. a \<in> vals (g_accounts ex_bootstrapped) \<and> fst (storeFindAccountByUsername ''org'' (acc_NormalizedUsername a) ex_bootstrapped) = Inr a"
proof -
  obtain a where a: "a \<in> vals (g_accounts ex_bootstrapped)" using ex_bootstrapped_accounts by (cases "g_accounts ex_bootstrapped") (auto simp: vals_def)
  have "empty_guard ex_guard_world" by (simp add: empty_guard_def ex_guard_world_def)
  from guard_reachable_consistent[OF this ex_bootstrapped_run] a show ?thesis by (auto simp: ex_guard_def)
qed

section \<open>Sessions\<close>

text \<open>C25: a session token authenticates exactly when it is the token of a stored session that is neither revoked nor expired, of an active account, and
  then it authenticates that account with the access the store holds for it. Every other token is answered with the one error for invalid sessions.\<close>

theorem AuthenticateSession_exact:
  assumes inv: "guard_inv sv w"
  shows "(fst (AuthenticateSession sv raw w) = Inr au \<longleftrightarrow>
      (\<exists>s a. hashSecret (gsv_sha256 sv) raw = Some (ses_TokenHash s) \<and> live_session w (clock w (ticks w)) s \<and>
         map_of (g_accounts w) (ses_AccountID s) = Some a \<and> acc_Status a = ''active'' \<and> au = authenticationFrom s (access_of sv w a))) \<and>
    ((\<exists>au. fst (AuthenticateSession sv raw w) = Inr au) \<or> fst (AuthenticateSession sv raw w) = Inl (Sentinel ErrInvalidSession))"
  by (rule AuthenticateSession_iff[OF inv])

lemma ex_token_hash: "hashSecret ex_sha ex_token = Some (ses_TokenHash ex_session)"
  by (simp add: hashSecret_def ex_token_def DecodeString_EncodeToString ex_session_def)

lemma ex_session_live: "live_session ex_staffed (clock ex_staffed (ticks ex_staffed)) ex_session"
  by (simp add: live_session_def ex_staffed_def ex_guard_world_def ex_session_def vals_def Before_def)

theorem AuthenticateSession_exact_witness:
  "\<exists>au. fst (AuthenticateSession ex_guard ex_token ex_staffed) = Inr au \<and> pr_Subject (au_Principal au) = ''b''"
proof -
  let ?a = "ex_account ''b''"
  let ?au = "authenticationFrom ex_session (access_of ex_guard ex_staffed ?a)"
  have a: "map_of (g_accounts ex_staffed) (ses_AccountID ex_session) = Some ?a" "acc_Status ?a = ''active''" "acc_ID ?a = ''b''"
    by (simp_all add: ex_staffed_def ex_session_def ex_account_def)
  have h: "hashSecret (gsv_sha256 ex_guard) ex_token = Some (ses_TokenHash ex_session)" using ex_token_hash by (simp add: ex_guard_def)
  have "fst (AuthenticateSession ex_guard ex_token ex_staffed) = Inr ?au"
    using AuthenticateSession_exact[OF ex_staffed_inv, of ex_token ?au] h ex_session_live a by blast
  moreover have "pr_Subject (au_Principal ?au) = ''b''" using a(3) by (simp add: authenticationFrom_def)
  ultimately show ?thesis by blast
qed

text \<open>C26: after a logout, whether or not its audit event could be written, no operation of the service makes the token of that session authenticate anyone
  again.\<close>

theorem Logout_final:
  assumes inv: "guard_inv sv w" and s: "map_of (g_sessions w) (ses_ID (au_Session au)) = Some s" "ses_ID (au_Session au) \<noteq> ''''"
    and time: "\<not> IsZero (clock w (ticks w))" and token: "hashSecret (gsv_sha256 sv) raw = Some (ses_TokenHash s)"
    and run: "guard_run sv UNIV (snd (Logout sv cx au w)) w'"
  shows "fst (AuthenticateSession sv raw w') = Inl (Sentinel ErrInvalidSession)"
proof (rule AuthenticateSession_dead)
  let ?v = "w\<lparr>ticks := Suc (ticks w), g_sessions := AList.update (ses_ID (au_Session au)) (s\<lparr>ses_RevokedAt := Some (clock w (ticks w))\<rparr>) (g_sessions w)\<rparr>"
  have inv1: "guard_inv sv (snd (Logout sv cx au w))"
    by (rule guard_effects_inv[OF actsD[where K = "{}" and l = Internal, OF acts_sessions(4) inv] inv]) simp
  have "storeRevokeSession (ses_ID (au_Session au)) (clock w (ticks w)) (w\<lparr>ticks := Suc (ticks w)\<rparr>) = (Inr (), ?v)"
    using s time by (simp add: storeRevokeSession_def)
  then have "snd (Logout sv cx au w) = snd (guard_audit sv cx (pr_Subject (au_Principal au)) ''guard.logout.succeeded'' ''session'' (ses_ID (au_Session au)) [] ?v)"
    using s(2) by (simp add: Logout_def tryE_def read_clock_def wrapE_def)
  then have "same_guard ?v (snd (Logout sv cx au w))" using guard_audit_same[of ?v] by simp
  then have "map_of (g_sessions (snd (Logout sv cx au w))) (ses_ID (au_Session au)) = Some (s\<lparr>ses_RevokedAt := Some (clock w (ticks w))\<rparr>)"
    by (simp add: same_guard_def)
  from run_session[OF run inv1 this] obtain t where t: "map_of (g_sessions w') (ses_ID (au_Session au)) = Some t"
    "ses_TokenHash t = ses_TokenHash s" "ses_RevokedAt t \<noteq> None" by (auto simp: session_continues_def)
  show inv2: "guard_inv sv w'" by (rule guard_run_inv[OF run inv1])
  show "\<nexists>u. live_session w' (clock w' (ticks w')) u \<and> hashSecret (gsv_sha256 sv) raw = Some (ses_TokenHash u)"
    using token t token_unique[OF inv2, OF _ map_of_vals[OF t(1)]] by (auto simp: live_session_def)
qed

definition ex_principal :: Authentication where
  "ex_principal = authenticationFrom ex_session (access_of ex_guard ex_staffed (ex_account ''b''))"

theorem Logout_final_witness:
  "fst (AuthenticateSession ex_guard ex_token (snd (Bootstrap ex_guard ex_gctx ex_bootstrap_input True (snd (Logout ex_guard ex_gctx ex_principal ex_staffed))))) =
     Inl (Sentinel ErrInvalidSession)"
proof (rule Logout_final[OF ex_staffed_inv])
  show "map_of (g_sessions ex_staffed) (ses_ID (au_Session ex_principal)) = Some ex_session" "ses_ID (au_Session ex_principal) \<noteq> ''''"
    by (simp_all add: ex_principal_def ex_staffed_def ex_session_def)
  show "\<not> IsZero (clock ex_staffed (ticks ex_staffed))" by (simp add: ex_staffed_def ex_guard_world_def IsZero_def zero_time_def)
  show "hashSecret (gsv_sha256 ex_guard) ex_token = Some (ses_TokenHash ex_session)" using ex_token_hash by (simp add: ex_guard_def)
  show "guard_run ex_guard UNIV (snd (Logout ex_guard ex_gctx ex_principal ex_staffed))
      (snd (Bootstrap ex_guard ex_gctx ex_bootstrap_input True (snd (Logout ex_guard ex_gctx ex_principal ex_staffed))))"
    by (rule guard_run_step[OF guard_run_refl step_Bootstrap]) simp
qed

text \<open>A refreshed CSRF token is accepted with the session it was issued for, and with that session only tokens of the same digest are.\<close>

theorem RefreshCSRF_accepted:
  assumes "\<forall>s. length (gsv_sha256 sv s) = 32" and "RefreshCSRF sv (Some au) w = (Inr (token, au'), w')"
  shows "ValidateCSRF sv au' token = None \<and> (ValidateCSRF sv au' other = None \<longleftrightarrow> hashSecret (gsv_sha256 sv) other = Some (gsv_sha256 sv token)) \<and>
    (\<exists>s. map_of (g_sessions w') (ses_ID (au_Session au)) = Some s \<and> ses_CSRFHash s = ses_CSRFHash (au_Session au'))"
proof -
  have "wp (RefreshCSRF sv (Some au)) (\<lambda>(token, au') w'. hashSecret (gsv_sha256 sv) token = Some (gsv_sha256 sv token) \<and>
      ses_CSRFHash (au_Session au') = gsv_sha256 sv token \<and>
      (\<exists>s. map_of (g_sessions w') (ses_ID (au_Session au)) = Some s \<and> ses_CSRFHash s = gsv_sha256 sv token)) (\<lambda>_ _. True) w"
    unfolding RefreshCSRF_def
    by (simp only: option.case, cases "ses_ID (au_Session au) = ''''")
      (auto intro!: wpI_newSecret simp: wp_simps storeUpdateSessionCSRF_def wp_def[of "storeUpdateSessionCSRF _ _"] split: option.split)
  from wp_Inr[OF this assms(2)] show ?thesis using assms(1) by (auto simp: ValidateCSRF_def split: option.splits)
qed

theorem RefreshCSRF_accepted_witness:
  "\<exists>token au'. fst (RefreshCSRF ex_guard (Some ex_principal) ex_staffed) = Inr (token, au') \<and> ValidateCSRF ex_guard au' token = None"
proof -
  have len: "\<forall>s. length (gsv_sha256 ex_guard s) = 32" by (auto simp: ex_guard_def ex_sha_def min_def)
  have "\<exists>token au' w'. RefreshCSRF ex_guard (Some ex_principal) ex_staffed = (Inr (token, au'), w')"
    by (simp add: RefreshCSRF_def ex_principal_def ex_session_def tryE_def newSecret_def ex_staffed_def ex_guard_world_def Let_def wrapE_def returnE_def
        storeUpdateSessionCSRF_def ex_guard_def ex_sha_def)
  then obtain token au' w' where run: "RefreshCSRF ex_guard (Some ex_principal) ex_staffed = (Inr (token, au'), w')" by blast
  show ?thesis using RefreshCSRF_accepted[OF len run] run by auto
qed

section \<open>Permissions and managers\<close>

lemma CheckPermission_iff:
  assumes inv: "guard_inv sv w" and org: "gsv_organizationID sv \<noteq> ''''" and auth: "AuthenticateSession sv raw w = (Inr au, w')"
    and target: "GuardScope_Validate target = None" "gs_OrganizationID target = gsv_organizationID sv"
  shows "fst (CheckPermission sv cx au p target w') =
    (if permitted sv w (pr_Subject (au_Principal au)) p target then Inr () else Inl (Sentinel ErrPermissionDenied))"
proof -
  obtain s a where a: "map_of (g_accounts w) (ses_AccountID s) = Some a" and au: "au = authenticationFrom s (access_of sv w a)"
    using AuthenticateSession_iff[OF inv, of raw au] auth by auto
  have id: "acc_ID a = ses_AccountID s" using guard_invD(1)[OF inv] a by (auto simp: accounts_ok_def dest: well_keyed_lookup)
  show ?thesis unfolding CheckPermission_decides[OF target(1)]
    using access_covers[OF inv a org target(2), of p] by (simp add: au authenticationFrom_def id)
qed

text \<open>C27: an authenticated account is granted a permission on a target of its organization exactly when it holds a role that grants it, directly or through a
  policy bundle, in a scope that covers the target, or holds the built-in administrator role in any scope and the permission is one of that
  role's catalog. Everything else is refused with the error for denied permissions.\<close>

theorem CheckPermission_exact:
  assumes inv: "guard_inv sv w" and org: "gsv_organizationID sv \<noteq> ''''" and auth: "AuthenticateSession sv raw w = (Inr au, w')"
    and target: "GuardScope_Validate target = None" "gs_OrganizationID target = gsv_organizationID sv"
  shows "fst (CheckPermission sv cx au p target w') =
    (if permitted sv w (pr_Subject (au_Principal au)) p target then Inr () else Inl (Sentinel ErrPermissionDenied))"
  by (rule CheckPermission_iff[OF assms])

lemma ex_signed_in: "\<exists>w'. AuthenticateSession ex_guard ex_token ex_staffed = (Inr ex_principal, w') \<and> pr_Subject (au_Principal ex_principal) = ''b''"
proof -
  have h: "hashSecret (gsv_sha256 ex_guard) ex_token = Some (ses_TokenHash ex_session)" using ex_token_hash by (simp add: ex_guard_def)
  have a: "map_of (g_accounts ex_staffed) (ses_AccountID ex_session) = Some (ex_account ''b'')"
    by (simp add: ex_staffed_def ex_session_def)
  have "fst (AuthenticateSession ex_guard ex_token ex_staffed) = Inr ex_principal"
    using AuthenticateSession_live[OF ex_staffed_inv h ex_session_live a] by (simp add: ex_principal_def ex_account_def)
  moreover have "pr_Subject (au_Principal ex_principal) = ''b''" by (simp add: ex_principal_def authenticationFrom_def ex_account_def)
  ultimately show ?thesis by (metis prod.collapse)
qed

lemma ex_roles_held:
  "holds_role ex_staffed ''b'' (ex_assignment ''2'' ''b'' ''r'' (ex_site ''north'') LocalAssignmentSource)
     (ex_role ''r'' ''Administrator'' [PermissionGuardManage] BuiltInRoleSource)"
  "holds_role ex_staffed ''b'' (ex_assignment ''3'' ''b'' ''q'' (ex_site ''south'') LocalAssignmentSource) (ex_role ''q'' ''Reader'' [''assets.read''] LocalRoleSource)"
  by (simp_all add: holds_role_def ex_staffed_def vals_def ex_assignment_def)

theorem CheckPermission_exact_witness:
  "\<exists>w'. AuthenticateSession ex_guard ex_token ex_staffed = (Inr ex_principal, w') \<and>
     fst (CheckPermission ex_guard ex_gctx ex_principal ''assets.read'' (ex_site ''south'') w') = Inr ()"
proof -
  obtain w' where w': "AuthenticateSession ex_guard ex_token ex_staffed = (Inr ex_principal, w')" "pr_Subject (au_Principal ex_principal) = ''b''"
    using ex_signed_in by blast
  have site: "GuardScope_Validate (ex_site ''south'') = None" "gs_OrganizationID (ex_site ''south'') = gsv_organizationID ex_guard" "gsv_organizationID ex_guard \<noteq> ''''"
    by code_simp+
  have "permitted ex_guard ex_staffed ''b'' ''assets.read'' (ex_site ''south'')" unfolding permitted_def
    by (intro exI conjI disjI1, rule ex_roles_held(2)) (simp_all add: role_permissions_def ex_role_def scope_covers_def ex_assignment_def)
  then show ?thesis using CheckPermission_exact[OF ex_staffed_inv site(3) w'(1) site(1,2)] w' by simp
qed

text \<open>C28: as long as some active account holds the management of the organization, it stays so under every operation of the service other than an external
  sign-in; no removal, no undone assignment and no role change locks the organization out.\<close>

theorem managers_remain:
  assumes "guard_inv sv w" and "guard_run sv {l. l \<noteq> External} w w'"
    and "\<exists>a. manages w (gsv_organizationID sv) a"
  shows "\<exists>a. manages w' (gsv_organizationID sv) a"
  using run_manager[OF assms(2,1)] assms(3) by (simp add: has_manager_def)

definition ex_admin :: Authentication where
  "ex_admin = authenticationFrom (ex_session\<lparr>ses_AccountID := ''a''\<rparr>) (access_of ex_guard ex_staffed (ex_account ''a''))"

lemma ex_manager: "manages ex_staffed ''org'' (ex_assignment ''1'' ''a'' ''r'' (organization_scope ''org'') ex_source)"
  by code_simp

theorem managers_remain_witness:
  "\<exists>a. manages (snd (RevokeRoleAssignment ex_guard ex_gctx ex_admin ''1'' ex_staffed)) ''org'' a"
proof -
  have "guard_step ex_guard Internal ex_staffed (snd (RevokeRoleAssignment ex_guard ex_gctx ex_admin ''1'' ex_staffed))"
    by (rule step_RevokeRoleAssignment) (simp add: known_def ex_admin_def authenticationFrom_def ex_account_def stored_account_def ex_staffed_def)
  then have "guard_run ex_guard {l. l \<noteq> External} ex_staffed (snd (RevokeRoleAssignment ex_guard ex_gctx ex_admin ''1'' ex_staffed))"
    by (rule guard_run_step[OF guard_run_refl]) simp
  from managers_remain[OF ex_staffed_inv this] ex_manager show ?thesis by (auto simp: ex_guard_def)
qed







section \<open>Ownership claims\<close>

lemma calm_manager [keeps_intro]: "calm (requireOrganizationManager sv cx au)"
  unfolding requireOrganizationManager_def CheckPermission_def by (intro keeps_intro)

lemma undone_error: "wp m (\<lambda>a. wp (raiseE (f a)) Q (\<lambda>_ _. True)) (\<lambda>e. wp (raiseE (g e)) Q (\<lambda>_ _. True)) w"
  by (simp add: wp_iff raiseE_def)

lemma wpI_claim:
  assumes "\<And>old w'. ro_WriteLocked old \<Longrightarrow> org \<noteq> '''' \<Longrightarrow> rt \<noteq> '''' \<Longrightarrow> ri \<noteq> '''' \<Longrightarrow> active_account w org by' \<Longrightarrow>
      map_of (g_resourceOwnership w) (guardResourceOwnershipKey org rt ri) = Some old \<Longrightarrow>
      map_of (g_resourceOwnership w') (guardResourceOwnershipKey org rt ri) =
        Some (old\<lparr>ro_WriteLocked := False, ro_ClaimedBy := by', ro_ClaimedAt := Some t\<rparr>) \<Longrightarrow>
      Q (old\<lparr>ro_WriteLocked := False, ro_ClaimedBy := by', ro_ClaimedAt := Some t\<rparr>) w'" and "\<And>e w'. E e w'"
  shows "wp (storeClaimResourceOwnership org rt ri by' t) Q E w"
  unfolding wp_def storeClaimResourceOwnership_def Let_def by (simp add: assms split: option.split)

text \<open>What a claim that succeeds has done: the locked record of before is unlocked and names the caller.\<close>

definition claimed_by :: "'l guard_service \<Rightarrow> string \<Rightarrow> string \<Rightarrow> string \<Rightarrow> 'l guard_world \<Rightarrow> ResourceOwnership \<Rightarrow> bool" where
  "claimed_by sv account rt ri w r \<longleftrightarrow> active_account w (gsv_organizationID sv) account \<and>
     (\<exists>old t. map_of (g_resourceOwnership w) (guardResourceOwnershipKey (gsv_organizationID sv) rt ri) = Some old \<and> ro_WriteLocked old \<and>
        r = old\<lparr>ro_WriteLocked := False, ro_ClaimedBy := account, ro_ClaimedAt := Some t\<rparr>)"

lemma ClaimResourceOwnership_outcome:
  "wp (ClaimResourceOwnership sv cx au rt ri)
     (\<lambda>r w'. claimed_by sv (pr_Subject (au_Principal au)) (TrimSpace rt) (TrimSpace ri) w r \<and>
        resourceTypePattern (TrimSpace rt) \<and> guardResourceIDPattern (TrimSpace ri) \<and>
        gsv_organizationID sv \<noteq> '''' \<and> TrimSpace rt \<noteq> '''' \<and> TrimSpace ri \<noteq> '''' \<and>
        map_of (g_resourceOwnership w') (guardResourceOwnershipKey (gsv_organizationID sv) (TrimSpace rt) (TrimSpace ri)) = Some r)
     (\<lambda>_ _. True) w"
  unfolding ClaimResourceOwnership_def audited_or_undone_def Let_def claimed_by_def
  by (intro wp_intro quiet.wpI_keeps[OF calm_manager] wpI_claim quiet.wpI_keeps[OF calm_audit(1)] TrueI)
    (auto simp: quiet_def same_guard_def wp_simps undone_error active_account_def)

text \<open>C32: a claim of an imported resource names its claimer and lasts. A claim that succeeds was made by an active account on a resource that was
  registered and locked; the record it returns is the registered one, unlocked, and claimed by the account that made the call. After it,
  whatever the service does and whoever asks, the registry holds exactly that record, so it names that account, and the resource is
  writable; no later import, claim or deletion changes it.\<close>

theorem claim_lasts:
  assumes inv: "guard_inv sv w" and claim: "ClaimResourceOwnership sv cx au rt ri w = (Inr r, w1)" and run: "guard_run sv UNIV w1 w'"
  defines "key \<equiv> guardResourceOwnershipKey (gsv_organizationID sv) (TrimSpace rt) (TrimSpace ri)"
  shows "(\<exists>old t. map_of (g_resourceOwnership w) key = Some old \<and> ro_WriteLocked old \<and>
      r = old\<lparr>ro_WriteLocked := False, ro_ClaimedBy := pr_Subject (au_Principal au), ro_ClaimedAt := Some t\<rparr>) \<and>
    active_account w (gsv_organizationID sv) (pr_Subject (au_Principal au)) \<and>
    fst (CheckResourceWrite sv cx' au' rt ri w') = Inr () \<and>
    map_of (g_resourceOwnership w') key = Some r"
proof -
  note o = wp_Inr[OF ClaimResourceOwnership_outcome claim]
  then have unlocked: "\<not> ro_WriteLocked r" by (auto simp: claimed_by_def)
  have inv1: "guard_inv sv w1"
    using guard_effects_inv[OF actsD[where K = "{}" and l = Internal, OF acts_ClaimResourceOwnership inv] inv, of cx au rt ri] claim by simp
  have stored: "map_of (g_resourceOwnership w') key = Some r"
    unfolding key_def using o unlocked by (intro run_claimed[OF run inv1]) blast+
  then have "fst (CheckResourceWrite sv cx' au' rt ri w') = Inr ()" using o unlocked
    by (simp add: key_def CheckResourceWrite_def Let_def tryE_def attemptE_def storeGetResourceOwnership_def queryE_def returnE_def)
  then show ?thesis using o stored by (simp add: claimed_by_def key_def)
qed

definition ex_import :: ResourceOwnershipInput where
  "ex_import = \<lparr>roi_ResourceType = ''asset'', roi_ResourceID = ''r'', roi_SourceSystemID = ''x'', roi_SourceRecordID = ''y''\<rparr>"

theorem claim_lasts_witness:
  "\<exists>r w1. ClaimResourceOwnership ex_guard ex_gctx ex_admin ''asset'' ''r'' ex_staffed = (Inr r, w1) \<and> ro_ClaimedBy r = ''a'' \<and>
     fst (CheckResourceWrite ex_guard ex_gctx ex_principal ''asset'' ''r'' (snd (RegisterImportedResourceOwnership ex_guard ex_gctx ''importer'' ex_import w1))) = Inr ()"
proof -
  have "case fst (ClaimResourceOwnership ex_guard ex_gctx ex_admin ''asset'' ''r'' ex_staffed) of Inl _ \<Rightarrow> False | Inr r \<Rightarrow> True" by code_simp
  then obtain r w1 where claim: "ClaimResourceOwnership ex_guard ex_gctx ex_admin ''asset'' ''r'' ex_staffed = (Inr r, w1)"
    by (cases "ClaimResourceOwnership ex_guard ex_gctx ex_admin ''asset'' ''r'' ex_staffed") (auto split: sum.splits)
  have "guard_run ex_guard UNIV w1 (snd (RegisterImportedResourceOwnership ex_guard ex_gctx ''importer'' ex_import w1))"
    by (rule guard_run_step[OF guard_run_refl step_RegisterImportedResourceOwnership]) simp
  note lasts = claim_lasts[OF ex_staffed_inv claim this, of ex_gctx ex_principal]
  have "pr_Subject (au_Principal ex_admin) = ''a''" by (simp add: ex_admin_def authenticationFrom_def ex_account_def)
  then have "ro_ClaimedBy r = ''a''" using lasts by auto
  with lasts claim show ?thesis by blast
qed

section \<open>Sign-ins\<close>

text \<open>C30: a password login that succeeds was given the user name and the password of an active account; it leaves behind exactly the session it returns, not revoked,
  of that account, found by the returned token and expiring after the configured lifetime, with the event in the audit log. A login that fails for any
  reason keeps every session and leaves behind no new one that is not revoked.\<close>

theorem Login_sound:
  assumes "\<forall>n. \<not> IsZero (clock w n)"
  shows "case Login sv cx input w of
      (Inr cr, w') \<Rightarrow> \<exists>account. credential_of sv input w account \<and> new_session sv (acc_ID account) w cr w' \<and>
        audited (gsv_organizationID sv) ''guard.login.succeeded'' ''account'' (acc_ID account) (audits w')
    | (Inl e, w') \<Rightarrow> no_new_session w w'"
  using Login_outcome[OF assms, of sv cx input] by (simp add: wp_def split: prod.splits sum.splits)

theorem Login_sound_witness:
  "\<exists>cr w' (account :: Account). Login ex_guard ex_gctx \<lparr>li_Username = ''ann'', li_Password = ''secret'', li_RateKey = ''client''\<rparr> ex_staffed = (Inr cr, w') \<and>
     new_session ex_guard (acc_ID account) ex_staffed cr w'"
proof -
  let ?i = "\<lparr>li_Username = ''ann'', li_Password = ''secret'', li_RateKey = ''client''\<rparr>"
  have time: "\<forall>n. \<not> IsZero (clock ex_staffed n)" by (simp add: ex_staffed_def ex_guard_world_def IsZero_def zero_time_def)
  have "case fst (Login ex_guard ex_gctx ?i ex_staffed) of Inl _ \<Rightarrow> False | Inr cr \<Rightarrow> True" by code_simp
  then obtain cr w' where "Login ex_guard ex_gctx ?i ex_staffed = (Inr cr, w')"
    by (cases "Login ex_guard ex_gctx ?i ex_staffed") (auto split: sum.splits)
  then show ?thesis using Login_sound[OF time, where sv = ex_guard and cx = ex_gctx and input = ?i] by auto
qed

lemma TrackSAMLRequest_stored:
  assumes "TrackSAMLRequest sv relay rid expires w = (Inr (), w')"
  shows "\<exists>h request. hashSecret (gsv_sha256 sv) relay = Some h \<and> map_of (g_samlRequests w') (samlRequestKey (gsv_organizationID sv) h) = Some request \<and>
    sr_RequestID request = rid \<and> sr_ExpiresAt request = expires \<and> gsv_organizationID sv \<noteq> '''' \<and> h \<noteq> []"
  using assms
  by (auto simp: TrackSAMLRequest_def tryE_def read_clock_def raiseE_def wrapE_def storeCreateSAMLRequest_def SAMLRequest_Validate_def Let_def
      split: option.splits if_splits prod.splits sum.splits)

text \<open>C31: a tracked SAML request waits and is consumed exactly once. After a relay state was tracked with an expiry, whatever operations
  follow - others tracking and consuming requests of their own included - as long as none consumes this relay state and the expiry has not
  passed at any tracking in between, a consumption before the expiry succeeds and returns the identifier that was tracked. From then on, whatever runs
  without tracking the same relay state again, no consumption of it succeeds.\<close>

theorem SAML_request_once:
  assumes inv: "guard_inv sv w" and track: "TrackSAMLRequest sv relay rid expires w = (Inr (), w1)"
    and waiting: "guard_run sv {l. l \<noteq> Consumed (gsv_sha256 sv relay) \<and> (\<forall>h t. l = Tracked h t \<longrightarrow> Before t expires)} w1 w2"
    and time: "\<not> IsZero (clock w2 (ticks w2))" "Before (clock w2 (ticks w2)) expires"
    and later: "guard_run sv {l. \<nexists>t. l = Tracked (gsv_sha256 sv relay) t} (snd (ConsumeSAMLRequest sv relay w2)) w3"
  shows "fst (ConsumeSAMLRequest sv relay w2) = Inr rid \<and> (\<nexists>i. fst (ConsumeSAMLRequest sv relay w3) = Inr i)"
proof -
  obtain h request where h: "hashSecret (gsv_sha256 sv) relay = Some h" "gsv_organizationID sv \<noteq> ''''" "h \<noteq> []"
    "map_of (g_samlRequests w1) (samlRequestKey (gsv_organizationID sv) h) = Some request" "sr_RequestID request = rid" "sr_ExpiresAt request = expires"
    using TrackSAMLRequest_stored[OF track] by blast
  note sha = hashSecret_sha[OF h(1), symmetric]
  have "guard_step sv (Tracked (gsv_sha256 sv relay) (clock w (ticks w))) w w1" using step_TrackSAMLRequest[of sv relay w rid expires] track by simp
  then have inv1: "guard_inv sv w1" using guard_run_inv[OF guard_run_step[OF guard_run_refl], where L = UNIV] inv by blast
  have inv2: "guard_inv sv w2" by (rule guard_run_inv[OF waiting inv1])
  have inv3: "guard_inv sv (snd (ConsumeSAMLRequest sv relay w2))"
    by (rule guard_run_inv[OF guard_run_step[OF guard_run_refl step_ConsumeSAMLRequest, where L = UNIV] inv2]) simp
  have "map_of (g_samlRequests w2) (samlRequestKey (gsv_organizationID sv) h) = Some request"
    by (rule run_waiting[OF waiting[unfolded sha, folded h(6)] inv1 h(4)])
  then have consumed: "ConsumeSAMLRequest sv relay w2 = (Inr rid, w2\<lparr>ticks := Suc (ticks w2),
      g_samlRequests := AList.delete (samlRequestKey (gsv_organizationID sv) h) (g_samlRequests w2)\<rparr>)"
    using h time by (simp add: ConsumeSAMLRequest_def tryE_def read_clock_def attemptE_def storeConsumeSAMLRequest_def Let_def returnE_def)
  have "map_of (g_samlRequests w3) (samlRequestKey (gsv_organizationID sv) h) = None"
    by (rule run_consumed[OF later[unfolded sha] inv3]) (simp add: consumed)
  then have "\<nexists>i. fst (ConsumeSAMLRequest sv relay w3) = Inr i"
    using h by (auto simp: ConsumeSAMLRequest_def tryE_def read_clock_def attemptE_def storeConsumeSAMLRequest_def Let_def returnE_def raiseE_def split: if_splits)
  then show ?thesis using consumed by simp
qed

text \<open>Another sign-in is tracked between the two operations.\<close>

definition ex_token2 :: string where
  "ex_token2 = EncodeToString RawURLEncoding (replicate 32 (CHR 0x01))"

theorem SAML_request_once_witness:
  "\<exists>w1. TrackSAMLRequest ex_guard ex_token ''id'' (GoTime 50 True) ex_staffed = (Inr (), w1) \<and>
    fst (ConsumeSAMLRequest ex_guard ex_token (snd (TrackSAMLRequest ex_guard ex_token2 ''id2'' (GoTime 60 True) w1))) = Inr ''id'' \<and>
    (\<nexists>i. fst (ConsumeSAMLRequest ex_guard ex_token (snd (ConsumeSAMLRequest ex_guard ex_token
       (snd (TrackSAMLRequest ex_guard ex_token2 ''id2'' (GoTime 60 True) w1))))) = Inr i)"
proof -
  have "case TrackSAMLRequest ex_guard ex_token ''id'' (GoTime 50 True) ex_staffed of (Inl _, _) \<Rightarrow> False
      | (Inr _, w1) \<Rightarrow> Before (clock w1 (ticks w1)) (GoTime 50 True) \<and>
          (case snd (TrackSAMLRequest ex_guard ex_token2 ''id2'' (GoTime 60 True) w1) of
             w2 \<Rightarrow> \<not> IsZero (clock w2 (ticks w2)) \<and> Before (clock w2 (ticks w2)) (GoTime 50 True))" by code_simp
  then obtain w1 where w1: "TrackSAMLRequest ex_guard ex_token ''id'' (GoTime 50 True) ex_staffed = (Inr (), w1)" "Before (clock w1 (ticks w1)) (GoTime 50 True)"
    and w2: "\<not> IsZero (clock (snd (TrackSAMLRequest ex_guard ex_token2 ''id2'' (GoTime 60 True) w1)) (ticks (snd (TrackSAMLRequest ex_guard ex_token2 ''id2'' (GoTime 60 True) w1))))"
      "Before (clock (snd (TrackSAMLRequest ex_guard ex_token2 ''id2'' (GoTime 60 True) w1)) (ticks (snd (TrackSAMLRequest ex_guard ex_token2 ''id2'' (GoTime 60 True) w1)))) (GoTime 50 True)"
    by (cases "TrackSAMLRequest ex_guard ex_token ''id'' (GoTime 50 True) ex_staffed") (auto split: sum.splits)
  have "guard_run ex_guard {l. l \<noteq> Consumed (gsv_sha256 ex_guard ex_token) \<and> (\<forall>h t. l = Tracked h t \<longrightarrow> Before t (GoTime 50 True))} w1
      (snd (TrackSAMLRequest ex_guard ex_token2 ''id2'' (GoTime 60 True) w1))"
    by (rule guard_run_step[OF guard_run_refl step_TrackSAMLRequest]) (simp add: w1(2))
  from SAML_request_once[OF ex_staffed_inv w1(1) this w2 guard_run_refl] w1(1) show ?thesis by blast
qed

end
