(* ===== verification/Go_Calendar.thy ===== *)
theory Go_Calendar
  imports Go_Strings Go_Time
begin

text \<open>
  Calendar dates and the RFC 3339 form of instants: \<open>Format\<close> and \<open>Parse\<close> of package \<open>time\<close> for the layout \<open>RFC3339Nano\<close>, and the portable
  form of \<open>internal/portabletime\<close> built on them. A parsed numeric zone never has the location UTC.
\<close>

section \<open>Dates\<close>

definition days_before_year :: "int \<Rightarrow> int" where
  "days_before_year y = 365 * (y - 1) + (y - 1) div 4 - (y - 1) div 100 + (y - 1) div 400"

definition leap :: "int \<Rightarrow> bool" where
  "leap y \<longleftrightarrow> y mod 4 = 0 \<and> (y mod 100 \<noteq> 0 \<or> y mod 400 = 0)"

definition days_in :: "int \<Rightarrow> nat \<Rightarrow> int" where
  "days_in y m = (if m = 2 then (if leap y then 29 else 28) else if m \<in> {4, 6, 9, 11} then 30 else 31)"

definition days_before_month :: "int \<Rightarrow> nat \<Rightarrow> int" where
  "days_before_month y m = sum_list (map (days_in y) [1..<m])"

definition day_of_civil :: "int \<Rightarrow> nat \<Rightarrow> int \<Rightarrow> int" where
  "day_of_civil y m d = days_before_year y + days_before_month y m + (d - 1)"

fun month_walk :: "int \<Rightarrow> nat list \<Rightarrow> int \<Rightarrow> nat \<times> int" where
  "month_walk y [] r = (13, r)"
| "month_walk y (m # ms) r = (if r < days_in y m then (m, r) else month_walk y ms (r - days_in y m))"

definition civil_of_day :: "int \<Rightarrow> int \<times> nat \<times> int" where
  "civil_of_day d =
     (let y = year_of_day d in case month_walk y [1..<13] (d - days_before_year y) of (m, r) \<Rightarrow> (y, m, r + 1))"

lemma div_step: "0 < n \<Longrightarrow> y div n - (y - 1) div n = (if y mod n = 0 then 1 else 0)" for n y :: int
proof -
  assume n: "0 < n"
  have y: "y = n * (y div n) + y mod n" "0 \<le> y mod n" "y mod n < n" using n by simp_all
  show ?thesis
  proof (cases "y mod n = 0")
    case True
    then have "y - 1 = n * (y div n - 1) + (n - 1)" using y(1) by (simp add: algebra_simps)
    then have "(y - 1) div n = y div n - 1" using n int_div_pos_eq[of "y - 1" n "y div n - 1" "n - 1"] by linarith
    then show ?thesis using True by simp
  next
    case False
    then have "y - 1 = n * (y div n) + (y mod n - 1)" "0 \<le> y mod n - 1" "y mod n - 1 < n" using y by simp_all
    then have "(y - 1) div n = y div n" by (rule int_div_pos_eq)
    then show ?thesis using False by simp
  qed
qed

lemma leap_count: "(q \<Longrightarrow> p) \<Longrightarrow> (r \<Longrightarrow> q) \<Longrightarrow>
  (if p then 1 else 0) - (if q then 1 else 0) + (if r then 1 else 0) = (if p \<and> (\<not> q \<or> r) then 1 else (0 :: int))"
  by auto

lemma year_length: "days_before_year (y + 1) = days_before_year y + (if leap y then 366 else 365)"
proof -
  have "y mod 100 mod 4 = y mod 4" "y mod 400 mod 100 = y mod 100" by (rule mod_mod_cancel; simp)+
  then have "y mod 100 = 0 \<Longrightarrow> y mod 4 = 0" "y mod 400 = 0 \<Longrightarrow> y mod 100 = 0" by auto
  then have "(if y mod 4 = 0 then 1 else 0) - (if y mod 100 = 0 then 1 else 0) + (if y mod 400 = 0 then 1 else 0) = (if leap y then 1 else (0 :: int))"
    unfolding leap_def by (rule leap_count)
  moreover have "days_before_year (y + 1) = 365 + 365 * (y - 1) + y div 4 - y div 100 + y div 400"
    "days_before_year y = 365 * (y - 1) + (y - 1) div 4 - (y - 1) div 100 + (y - 1) div 400" by (simp_all add: days_before_year_def)
  moreover have "y div 4 - (y - 1) div 4 = (if y mod 4 = 0 then 1 else 0)" "y div 100 - (y - 1) div 100 = (if y mod 100 = 0 then 1 else 0)"
    "y div 400 - (y - 1) div 400 = (if y mod 400 = 0 then 1 else 0)" by (rule div_step; simp)+
  ultimately have "days_before_year (y + 1) = days_before_year y + 365 + (if leap y then 1 else 0)" by linarith
  then show ?thesis by simp
qed

lemma year_days: "(\<Sum>m \<leftarrow> [1..<13]. days_in y m) = (if leap y then 366 else 365)"
  by (simp add: upt_conv_Cons days_in_def)

lemma year_of_day_bounds: "days_before_year (year_of_day d) \<le> d \<and> d < days_before_year (year_of_day d + 1)"
proof -
  define a r400 where "a = d div 146097" and "r400 = d mod 146097"
  define b where "b = min 3 (r400 div 36524)"
  define r100 where "r100 = r400 - b * 36524"
  define c r4 where "c = r100 div 1461" and "r4 = r100 mod 1461"
  define e where "e = min 3 (r4 div 365)"
  let ?y = "400 * a + 100 * b + 4 * c + e + 1"
  have y: "year_of_day d = ?y"
    by (simp add: year_of_day_def Let_def a_def r400_def b_def r100_def c_def r4_def e_def)
  have d: "d = 146097 * a + r400" "0 \<le> r400" "r400 < 146097" by (simp_all add: a_def r400_def)
  have b: "0 \<le> b" "b \<le> 3" "r400 = 36524 * b + r100" "0 \<le> r100" "b < 3 \<Longrightarrow> r100 < 36524" "r100 \<le> 36524"
  proof -
    have q: "0 \<le> r400 div 36524" "r400 = 36524 * (r400 div 36524) + r400 mod 36524" "0 \<le> r400 mod 36524" "r400 mod 36524 < 36524"
      using d(2) by (simp_all add: pos_imp_zdiv_nonneg_iff)
    show "0 \<le> b" "b \<le> 3" "r400 = 36524 * b + r100" "0 \<le> r100" "b < 3 \<Longrightarrow> r100 < 36524" "r100 \<le> 36524"
      using q d(3) unfolding b_def r100_def by linarith+
  qed
  have c: "0 \<le> c" "c \<le> 24" "r100 = 1461 * c + r4" "0 \<le> r4" "r4 < 1461"
  proof -
    have q: "r100 = 1461 * (r100 div 1461) + r100 mod 1461" "0 \<le> r100 mod 1461" "r100 mod 1461 < 1461" by simp_all
    show "0 \<le> c" "c \<le> 24" "r100 = 1461 * c + r4" "0 \<le> r4" "r4 < 1461" using q b(4,6) unfolding c_def r4_def by linarith+
  qed
  have e: "0 \<le> e" "e \<le> 3" "365 * e \<le> r4" "e < 3 \<Longrightarrow> r4 < 365 * e + 365"
  proof -
    have q: "r4 = 365 * (r4 div 365) + r4 mod 365" "0 \<le> r4 mod 365" "r4 mod 365 < 365" by simp_all
    show "0 \<le> e" "e \<le> 3" "365 * e \<le> r4" "e < 3 \<Longrightarrow> r4 < 365 * e + 365" using q c(4) unfolding e_def by linarith+
  qed
  have div4: "(?y - 1) div 4 = 100 * a + 25 * b + c" using e(1,2) by (intro int_div_pos_eq[of _ _ _ e]) simp_all
  have div100: "(?y - 1) div 100 = 4 * a + b" using c(1,2) e(1,2) by (intro int_div_pos_eq[of _ _ _ "4 * c + e"]) simp_all
  have div400: "(?y - 1) div 400 = a" using b(1,2) c(1,2) e(1,2) by (intro int_div_pos_eq[of _ _ _ "100 * b + 4 * c + e"]) simp_all
  have before: "days_before_year ?y = 146097 * a + 36524 * b + 1461 * c + 365 * e"
    unfolding days_before_year_def div4 div100 div400 by simp
  have low: "days_before_year ?y \<le> d" using before d(1) b(3) c(3) e(3) by simp
  have "d < days_before_year ?y + (if leap ?y then 366 else 365)"
  proof (cases "e < 3")
    case True
    then show ?thesis using e(4) before d(1) b(3) c(3) by auto
  next
    case False
    then have e3: "e = 3" using e(2) by simp
    show ?thesis
    proof (cases "leap ?y")
      case True
      then show ?thesis using e3 before d(1) b(3) c(3,5) by simp
    next
      case False
      have "c = 24 \<and> b < 3"
      proof (rule ccontr)
        assume not: "\<not> (c = 24 \<and> b < 3)"
        have y4: "?y mod 4 = 0" using e3 by (intro int_mod_pos_eq[of _ _ "100 * a + 25 * b + c + 1"]) simp_all
        have "leap ?y"
        proof (cases "c = 24")
          case True
          then have "b = 3" using not b(2) by simp
          then have "?y mod 400 = 0" using True e3 by (intro int_mod_pos_eq[of _ _ "a + 1"]) simp_all
          then show ?thesis using y4 by (simp add: leap_def)
        next
          case c24: False
          have "?y mod 100 = 4 * c + 4" using c24 c(1,2) e3 by (intro int_mod_pos_eq[of _ _ "4 * a + b"]) simp_all
          then show ?thesis using y4 c(1) by (simp add: leap_def)
        qed
        then show False using False by simp
      qed
      then have "r4 < 1460" using b(5) c(3) by simp
      then show ?thesis using False e3 before d(1) b(3) c(3) by simp
    qed
  qed
  then show ?thesis using low year_length[of ?y] unfolding y by linarith
qed

lemma days_in_pos: "0 < days_in y m"
  by (simp add: days_in_def)

lemma month_walk_step:
  "0 \<le> r \<Longrightarrow> r < sum_list (map (days_in y) ms) \<Longrightarrow> month_walk y ms r = (m, q) \<Longrightarrow>
   \<exists>ps qs. ms = ps @ m # qs \<and> r = sum_list (map (days_in y) ps) + q \<and> 0 \<le> q \<and> q < days_in y m"
proof (induction ms arbitrary: r)
  case (Cons k ms)
  show ?case
  proof (cases "r < days_in y k")
    case True
    then show ?thesis using Cons.prems by (intro exI[of _ "[]"] exI[of _ ms]) simp
  next
    case False
    then obtain ps qs where "ms = ps @ m # qs" "r - days_in y k = sum_list (map (days_in y) ps) + q" "0 \<le> q" "q < days_in y m"
      using Cons.IH[of "r - days_in y k"] Cons.prems by auto
    then show ?thesis by (intro exI[of _ "k # ps"] exI[of _ qs]) simp
  qed
qed simp

text \<open>Every day has one date, and the date gives the day back.\<close>

lemma civil_of_day_inverse:
  assumes "civil_of_day d = (y, m, k)"
  shows "day_of_civil y m k = d \<and> y = year_of_day d \<and> 1 \<le> m \<and> m \<le> 12 \<and> 1 \<le> k \<and> k \<le> days_in y m"
proof -
  obtain q where w: "month_walk y [1..<13] (d - days_before_year y) = (m, q)" and y: "y = year_of_day d" and k: "k = q + 1"
    using assms by (auto simp: civil_of_day_def Let_def split: prod.splits)
  have "d - days_before_year y < sum_list (map (days_in y) [1..<13])" "0 \<le> d - days_before_year y"
    using year_of_day_bounds[of d] year_length[of y] unfolding year_days by (simp_all add: y)
  from month_walk_step[OF this(2,1) w] obtain ps qs where p: "[1..<13] = ps @ m # qs"
    "d - days_before_year y = sum_list (map (days_in y) ps) + q" "0 \<le> q" "q < days_in y m" by blast
  have m: "m = 1 + length ps" "m < 13"
  proof -
    have len: "length ps < length [1..<13]" by (simp only: p(1)) simp
    have "[1..<13] ! length ps = m" by (simp only: p(1)) simp
    then show "m = 1 + length ps" using len by simp
    then show "m < 13" using len by simp
  qed
  have "ps = take (length ps) [1..<13]" by (simp only: p(1)) simp
  then have "ps = [1..<m]" using m by (simp add: take_upt)
  then show ?thesis using p m k y by (simp add: day_of_civil_def days_before_month_def)
qed

section \<open>Formatting\<close>

fun digits :: "nat \<Rightarrow> nat \<Rightarrow> string" where
  "digits 0 n = []"
| "digits (Suc k) n = digits k (n div 10) @ [digit_char (n mod 10)]"

definition format_year :: "int \<Rightarrow> string" where
  "format_year y = (if y < 0 then ''-'' else '''') @ (let n = nat \<bar>y\<bar> in if n < 10000 then digits 4 n else format_nat n)"

definition trim_zeros :: "string \<Rightarrow> string" where
  "trim_zeros s = rev (dropWhile (\<lambda>c. c = CHR ''0'') (rev s))"

definition format_fraction :: "nat \<Rightarrow> string" where
  "format_fraction n = (if n = 0 then '''' else CHR ''.'' # trim_zeros (digits 9 n))"

definition format_clock :: "int \<Rightarrow> string" where
  "format_clock s = digits 2 (nat (s div 3600)) @ '':'' @ digits 2 (nat (s div 60 mod 60)) @ '':'' @ digits 2 (nat (s mod 60))"

text \<open>\<open>t.UTC().Format(time.RFC3339Nano)\<close>.\<close>

definition FormatRFC3339Nano :: "gotime \<Rightarrow> string" where
  "FormatRFC3339Nano t =
     (case civil_of_day (nanos t div day_nanos) of (y, m, d) \<Rightarrow>
        format_year y @ ''-'' @ digits 2 m @ ''-'' @ digits 2 (nat d) @ ''T'' @
        format_clock (nanos t mod day_nanos div 1000000000) @ format_fraction (nat (nanos t mod 1000000000)) @ ''Z'')"

text \<open>\<open>t.UTC().Format(time.RFC3339)\<close>, and the compact layout \<open>20060102T150405Z\<close>.\<close>

definition FormatRFC3339 :: "gotime \<Rightarrow> string" where
  "FormatRFC3339 t =
     (case civil_of_day (nanos t div day_nanos) of (y, m, d) \<Rightarrow>
        format_year y @ ''-'' @ digits 2 m @ ''-'' @ digits 2 (nat d) @ ''T'' @ format_clock (nanos t mod day_nanos div 1000000000) @ ''Z'')"

definition FormatCompact :: "gotime \<Rightarrow> string" where
  "FormatCompact t =
     (let s = nanos t mod day_nanos div 1000000000 in
      case civil_of_day (nanos t div day_nanos) of (y, m, d) \<Rightarrow>
        format_year y @ digits 2 m @ digits 2 (nat d) @ ''T'' @ digits 2 (nat (s div 3600)) @ digits 2 (nat (s div 60 mod 60)) @ digits 2 (nat (s mod 60)) @ ''Z'')"

section \<open>Parsing\<close>

definition number_in :: "nat \<Rightarrow> nat \<Rightarrow> string \<Rightarrow> nat option" where
  "number_in low high s = (case parse_nat s of None \<Rightarrow> None | Some n \<Rightarrow> if low \<le> n \<and> n \<le> high then Some n else None)"

definition slice :: "nat \<Rightarrow> nat \<Rightarrow> string \<Rightarrow> string" where
  "slice i j s = take (j - i) (drop i s)"

text \<open>The nanoseconds of a fraction: nine digits, padded with zeros; further digits are dropped.\<close>

definition fraction_nanos :: "string \<Rightarrow> nat" where
  "fraction_nanos ds = the (parse_nat (take 9 (ds @ replicate 9 (CHR ''0''))))"

definition parse_fraction :: "string \<Rightarrow> nat \<times> string" where
  "parse_fraction s =
     (case s of c # rest \<Rightarrow>
        let ds = takeWhile is_digit rest in
        if c = CHR ''.'' \<and> ds \<noteq> [] then (fraction_nanos ds, drop (length ds) rest) else (0, s)
      | [] \<Rightarrow> (0, s))"

definition parse_zone :: "string \<Rightarrow> (int \<times> bool) option" where
  "parse_zone s =
     (if s = ''Z'' then Some (0, True)
      else if length s \<noteq> 6 \<or> s ! 3 \<noteq> CHR '':'' \<or> (s ! 0 \<noteq> CHR ''+'' \<and> s ! 0 \<noteq> CHR ''-'') then None
      else case (number_in 0 23 (slice 1 3 s), number_in 0 59 (slice 4 6 s)) of
        (Some h, Some m) \<Rightarrow> let offset = (int h * 60 + int m) * 60 in Some (if s ! 0 = CHR ''-'' then - offset else offset, False)
      | _ \<Rightarrow> None)"

definition instant :: "int \<Rightarrow> nat \<Rightarrow> int \<Rightarrow> int \<Rightarrow> nat \<Rightarrow> int" where
  "instant y m d seconds n = day_of_civil y m d * day_nanos + seconds * 1000000000 + int n"

definition ParseRFC3339 :: "string \<Rightarrow> gotime option" where
  "ParseRFC3339 s =
     (if length s < 19 \<or> s ! 4 \<noteq> CHR ''-'' \<or> s ! 7 \<noteq> CHR ''-'' \<or> s ! 10 \<noteq> CHR ''T'' \<or> s ! 13 \<noteq> CHR '':'' \<or> s ! 16 \<noteq> CHR '':'' then None
      else case (number_in 0 9999 (slice 0 4 s), number_in 1 12 (slice 5 7 s)) of
        (Some y, Some m) \<Rightarrow>
          (case (number_in 1 (nat (days_in (int y) m)) (slice 8 10 s), number_in 0 23 (slice 11 13 s), number_in 0 59 (slice 14 16 s),
                 number_in 0 59 (slice 17 19 s)) of
             (Some d, Some h, Some mi, Some sec) \<Rightarrow>
               (case parse_fraction (drop 19 s) of (n, zone) \<Rightarrow>
                 (case parse_zone zone of
                    None \<Rightarrow> None
                  | Some (offset, utc) \<Rightarrow>
                      Some (GoTime (instant (int y) m (int d) (int h * 3600 + int mi * 60 + int sec) n - offset * 1000000000) utc)))
           | _ \<Rightarrow> None)
      | _ \<Rightarrow> None)"

section \<open>Package portabletime\<close>

definition FormatCanonical :: "gotime \<Rightarrow> string + string" where
  "FormatCanonical t = (if \<not> IsCanonical t then Inl ''format portable instant: value is not canonical'' else Inr (FormatRFC3339Nano t))"

definition ParseCanonical :: "string \<Rightarrow> string + gotime" where
  "ParseCanonical s =
     (case ParseRFC3339 s of
        None \<Rightarrow> Inl ''parse portable instant''
      | Some t \<Rightarrow> if \<not> IsCanonical t \<or> FormatRFC3339Nano t \<noteq> s then Inl ''parse portable instant: value is not canonical'' else Inr t)"

section \<open>Round trips\<close>

lemma length_digits [simp]: "length (digits k n) = k"
  by (induction k n rule: digits.induct) auto

lemma digits_digit: "list_all is_digit (digits k n)"
  by (induction k n rule: digits.induct) (auto simp: digit_char_digit)

lemma digits_value: "n < 10 ^ k \<Longrightarrow> foldl (\<lambda>acc c. acc * 10 + (byte c - 48)) 0 (digits k n) = n"
proof (induction k n rule: digits.induct)
  case (2 k n)
  then have "n div 10 < 10 ^ k" by (simp add: div_less_iff_less_mult mult.commute)
  from 2(1)[OF this] show ?case using digit_char_digit[of "n mod 10"] by simp
qed simp

lemma parse_digits: "0 < k \<Longrightarrow> n < 10 ^ k \<Longrightarrow> parse_nat (digits k n) = Some n"
  using digits_digit[of k n] digits_value[of n k] length_digits[of k n] by (auto simp: parse_nat_def simp del: length_digits)

lemma number_digits: "0 < k \<Longrightarrow> n < 10 ^ k \<Longrightarrow> low \<le> n \<Longrightarrow> n \<le> high \<Longrightarrow> number_in low high (digits k n) = Some n"
  by (simp add: number_in_def parse_digits)

lemma trim_zeros_pad: "\<exists>j. s = trim_zeros s @ replicate j (CHR ''0'')"
proof -
  have "rev s = takeWhile (\<lambda>c. c = CHR ''0'') (rev s) @ dropWhile (\<lambda>c. c = CHR ''0'') (rev s)" by simp
  moreover have "takeWhile (\<lambda>c. c = CHR ''0'') (rev s) = replicate (length (takeWhile (\<lambda>c. c = CHR ''0'') (rev s))) (CHR ''0'')"
    by (rule replicate_eqI) (auto dest: set_takeWhileD)
  ultimately have "rev (rev s) = trim_zeros s @ rev (replicate (length (takeWhile (\<lambda>c. c = CHR ''0'') (rev s))) (CHR ''0''))"
    unfolding trim_zeros_def by (metis rev_append)
  then show ?thesis by auto
qed

lemma digits_zero: "n < 10 ^ k \<Longrightarrow> list_all (\<lambda>c. c = CHR ''0'') (digits k n) \<Longrightarrow> n = 0"
proof (induction k n rule: digits.induct)
  case (2 k n)
  then have "n div 10 < 10 ^ k" by (simp add: div_less_iff_less_mult mult.commute)
  moreover have "byte (digit_char (n mod 10)) - 48 = n mod 10" using digit_char_digit[of "n mod 10"] by simp
  ultimately show ?case using 2 by (auto simp: char_of_def)
qed simp

lemma format_fraction_parse:
  assumes "n < 1000000000"
  shows "parse_fraction (format_fraction n @ ''Z'') = (n, ''Z'')"
proof (cases "n = 0")
  case True
  then show ?thesis by (simp add: format_fraction_def parse_fraction_def)
next
  case False
  let ?d = "digits 9 n" and ?t = "trim_zeros (digits 9 n)"
  obtain j where j: "?d = ?t @ replicate j (CHR ''0'')" using trim_zeros_pad by blast
  have dig: "list_all is_digit ?t" using digits_digit[of 9 n] j by (metis list_all_append)
  have "?t \<noteq> []"
  proof
    assume e: "?t = []"
    have "?d = replicate j (CHR ''0'')" using j unfolding e by simp
    then have "list_all (\<lambda>c. c = CHR ''0'') ?d" by (simp add: list_all_iff)
    then show False using digits_zero[of n 9] assms False by simp
  qed
  moreover have "takeWhile is_digit (?t @ ''Z'') = ?t"
    using dig by (subst takeWhile_append2) (auto simp: list_all_iff char_class_defs)
  moreover have "take 9 (?t @ replicate 9 (CHR ''0'')) = ?d"
  proof -
    have "length ?d = length ?t + j" by (subst j) simp
    then have len: "length ?t + j = 9" by simp
    then have "take 9 (?t @ replicate 9 (CHR ''0'')) = ?t @ replicate (9 - length ?t) (CHR ''0'')" by simp
    moreover have "9 - length ?t = j" using len by simp
    ultimately have "take 9 (?t @ replicate 9 (CHR ''0'')) = ?t @ replicate j (CHR ''0'')" by simp
    also note j[symmetric]
    finally show ?thesis .
  qed
  moreover have "parse_nat ?d = Some n" by (rule parse_digits) (use assms in simp_all)
  ultimately show ?thesis using False by (simp add: format_fraction_def parse_fraction_def fraction_nanos_def)
qed

lemma Year_civil: "civil_of_day (nanos t div day_nanos) = (y, m, d) \<Longrightarrow> Year t = y"
  using civil_of_day_inverse by (auto simp: Year_def)

lemma clock_parts:
  assumes s: "0 \<le> s" "s < 86400"
  shows "nat (s div 3600) \<le> 23 \<and> nat (s div 60 mod 60) \<le> 59 \<and> nat (s mod 60) \<le> 59 \<and>
    int (nat (s div 3600)) * 3600 + int (nat (s div 60 mod 60)) * 60 + int (nat (s mod 60)) = s"
proof -
  define q r where "q = s div 60" and "r = s mod 60"
  define h i where "h = q div 60" and "i = q mod 60"
  have h3600: "s div 3600 = h" unfolding h_def q_def using zdiv_zmult2_eq[of 60 s 60] by simp
  have 1: "s = 60 * q + r" "0 \<le> r" "r < 60" by (simp_all add: q_def r_def)
  have 2: "q = 60 * h + i" "0 \<le> i" "i < 60" by (simp_all add: h_def i_def)
  have 3: "0 \<le> h" "h \<le> 23" using 1 2 s by linarith+
  have "nat h \<le> 23" "nat i \<le> 59" "nat r \<le> 59" using 1 2 3 by linarith+
  moreover have "int (nat h) * 3600 + int (nat i) * 60 + int (nat r) = s" using 1 2 3 by simp
  ultimately show ?thesis unfolding h3600 q_def[symmetric] i_def[symmetric] r_def[symmetric] by simp
qed

lemma instant_parts:
  assumes day: "day_of_civil y m d = n div day_nanos"
  shows "instant y m d (n mod day_nanos div 1000000000) (nat (n mod 1000000000)) = n"
proof -
  define k r where "k = n div day_nanos" and "r = n mod day_nanos"
  have "r mod 1000000000 = n mod 1000000000" unfolding r_def day_nanos_def by (rule mod_mod_cancel) simp
  moreover have "r = 1000000000 * (r div 1000000000) + r mod 1000000000" by simp
  moreover have "n = k * day_nanos + r" by (simp add: k_def r_def)
  ultimately show ?thesis unfolding instant_def day k_def[symmetric] r_def[symmetric] by simp
qed

text \<open>An instant that is formatted in a year of four digits parses back.\<close>

lemma Parse_Format:
  assumes "is_utc t" and "0 \<le> Year t" and "Year t \<le> 9999"
  shows "ParseRFC3339 (FormatRFC3339Nano t) = Some t"
proof -
  obtain y m d where c: "civil_of_day (nanos t div day_nanos) = (y, m, d)" by (metis prod_cases3)
  note date = civil_of_day_inverse[OF c]
  define s where "s = nanos t mod day_nanos div 1000000000"
  define n where "n = nat (nanos t mod 1000000000)"
  have s: "0 \<le> s" "s < 86400" 
  proof -
    have "0 \<le> nanos t mod day_nanos" "nanos t mod day_nanos < 86400 * 1000000000" by (simp_all add: day_nanos_def)
    then show "0 \<le> s" "s < 86400" unfolding s_def by linarith+
  qed
  note clock = conjunct1[OF clock_parts[OF s]] clock_parts[OF s, THEN conjunct2, THEN conjunct1]
    clock_parts[OF s, THEN conjunct2, THEN conjunct2, THEN conjunct1] clock_parts[OF s, THEN conjunct2, THEN conjunct2, THEN conjunct2]
  have n: "n < 1000000000" by (simp add: n_def nat_less_iff)
  have y: "0 \<le> y" "nat \<bar>y\<bar> \<le> 9999" "int (nat \<bar>y\<bar>) = y" using assms(2,3) Year_civil[OF c] by auto
  let ?tail = "format_fraction n @ ''Z''"
  have fmt: "FormatRFC3339Nano t = digits 4 (nat \<bar>y\<bar>) @ ''-'' @ digits 2 m @ ''-'' @ digits 2 (nat d) @ ''T'' @
      digits 2 (nat (s div 3600)) @ '':'' @ digits 2 (nat (s div 60 mod 60)) @ '':'' @ digits 2 (nat (s mod 60)) @ ?tail"
    using y(1,2) by (simp add: FormatRFC3339Nano_def c format_year_def Let_def format_clock_def s_def n_def)
  have dim: "nat d \<le> nat (days_in y m)" "1 \<le> nat d" "nat (days_in y m) \<le> 31" "int (nat d) = d" using date by (auto simp: days_in_def)
  have nums: "number_in 0 9999 (digits 4 (nat \<bar>y\<bar>)) = Some (nat \<bar>y\<bar>)"
  proof (rule number_digits)
    show "nat \<bar>y\<bar> < 10 ^ 4" using y(2) by (rule le_less_trans) simp
  qed (use y(2) in simp_all)
  have nums2: "number_in 1 12 (digits 2 m) = Some m" using number_digits[of 2 m 1 12] date by simp
  have "nat d < 10 ^ 2" using dim(1,3) by simp
  then have nums3: "number_in 1 (nat (days_in (int (nat \<bar>y\<bar>)) m)) (digits 2 (nat d)) = Some (nat d)"
    unfolding y(3) using dim(1,2) by (intro number_digits) simp_all
  have nums4: "number_in 0 23 (digits 2 (nat (s div 3600))) = Some (nat (s div 3600))"
    "number_in 0 59 (digits 2 (nat (s div 60 mod 60))) = Some (nat (s div 60 mod 60))"
    "number_in 0 59 (digits 2 (nat (s mod 60))) = Some (nat (s mod 60))"
    using clock(1-3) by (simp_all add: number_digits)
  have slices: "slice 0 4 (FormatRFC3339Nano t) = digits 4 (nat \<bar>y\<bar>)" "slice 5 7 (FormatRFC3339Nano t) = digits 2 m"
    "slice 8 10 (FormatRFC3339Nano t) = digits 2 (nat d)" "slice 11 13 (FormatRFC3339Nano t) = digits 2 (nat (s div 3600))"
    "slice 14 16 (FormatRFC3339Nano t) = digits 2 (nat (s div 60 mod 60))" "slice 17 19 (FormatRFC3339Nano t) = digits 2 (nat (s mod 60))"
    "drop 19 (FormatRFC3339Nano t) = ?tail" "19 \<le> length (FormatRFC3339Nano t)"
    "FormatRFC3339Nano t ! 4 = CHR ''-''" "FormatRFC3339Nano t ! 7 = CHR ''-''" "FormatRFC3339Nano t ! 10 = CHR ''T''"
    "FormatRFC3339Nano t ! 13 = CHR '':''" "FormatRFC3339Nano t ! 16 = CHR '':''"
    unfolding fmt by (simp_all add: slice_def nth_append)
  have inst: "instant y m d s n = nanos t" unfolding s_def n_def by (rule instant_parts) (rule conjunct1[OF date])
  have zone: "parse_zone ''Z'' = Some (0, True)" by (simp add: parse_zone_def)
  have len: "(length (FormatRFC3339Nano t) < 19) = False" using slices(8) by simp
  have "ParseRFC3339 (FormatRFC3339Nano t) = Some (GoTime (instant y m d s n - 0 * 1000000000) True)"
    by (simp only: ParseRFC3339_def len slices(1-7,9-13) nums nums2 nums3[unfolded y(3)] nums4 option.case prod.case format_fraction_parse[OF n] zone clock(4) y(3) dim(4)
        simp_thms if_False)
  also have "\<dots> = Some t" using inst assms(1) by (cases t) simp
  finally show ?thesis .
qed

lemma format_nat_length: "10 ^ k \<le> n \<Longrightarrow> k < length (format_nat n)"
proof (induction n arbitrary: k rule: format_nat.induct)
  case (1 n)
  show ?case
  proof (cases "n < 10")
    case True
    have "k = 0"
    proof (rule ccontr)
      assume "k \<noteq> 0"
      then have "(10 :: nat) ^ 1 \<le> 10 ^ k" by (intro power_increasing) simp_all
      then show False using 1(2) True by simp
    qed
    then show ?thesis using True by (simp add: format_nat.simps)
  next
    case False
    show ?thesis
    proof (cases k)
      case (Suc j)
      then have "10 ^ j \<le> n div 10" using 1(2) by (simp add: less_eq_div_iff_mult_less_eq mult.commute)
      from 1(1)[OF False this] show ?thesis using False Suc by (subst format_nat.simps) simp
    qed (use False in \<open>simp add: format_nat.simps[of n]\<close>)
  qed
qed

text \<open>A year of more than four characters pushes the first separator out of its place.\<close>

lemma long_year:
  assumes "y < 0 \<or> 9999 < y"
  shows "4 < length (format_year y) \<and> is_digit (format_year y ! 4)"
proof -
  have dig: "list_all is_digit (if nat \<bar>y\<bar> < 10000 then digits 4 (nat \<bar>y\<bar>) else format_nat (nat \<bar>y\<bar>))" (is "list_all _ ?d")
    using digits_digit[of 4 "nat \<bar>y\<bar>"] format_nat_digits[of "nat \<bar>y\<bar>"] by simp
  have big: "4 < length (format_nat (nat \<bar>y\<bar>))" if "\<not> nat \<bar>y\<bar> < 10000" using format_nat_length[of 4 "nat \<bar>y\<bar>"] that by simp
  have fy: "format_year y = (if y < 0 then ''-'' else '''') @ ?d" by (simp add: format_year_def Let_def)
  show ?thesis
  proof (cases "y < 0")
    case True
    have "3 < length ?d" using big by auto
    then show ?thesis using dig True unfolding fy by (simp add: list_all_length)
  next
    case False
    then have n: "\<not> nat \<bar>y\<bar> < 10000" using assms by simp
    then show ?thesis using big[OF n] dig False unfolding fy by (simp add: list_all_length)
  qed
qed

lemma Parse_Format_long:
  assumes "Year t < 0 \<or> 9999 < Year t"
  shows "ParseRFC3339 (FormatRFC3339Nano t) = None"
proof -
  obtain y m d where c: "civil_of_day (nanos t div day_nanos) = (y, m, d)" by (metis prod_cases3)
  obtain rest where fmt: "FormatRFC3339Nano t = format_year y @ rest" by (simp add: FormatRFC3339Nano_def c)
  have "is_digit (FormatRFC3339Nano t ! 4)" using long_year[of y] assms Year_civil[OF c] by (simp add: fmt nth_append)
  then have "FormatRFC3339Nano t ! 4 \<noteq> CHR ''-''" by (auto simp: char_class_defs)
  then show ?thesis by (simp add: ParseRFC3339_def)
qed

text \<open>C39: portable instants round-trip. A canonical instant is written and read back exactly when its year has four digits, and whatever is accepted
  when reading is the one text that writing produces.\<close>

theorem portable_roundtrip:
  "(FormatCanonical t = Inr s \<longrightarrow> (ParseCanonical s = Inr t \<longleftrightarrow> 0 \<le> Year t \<and> Year t \<le> 9999)) \<and>
   (ParseCanonical s = Inr t \<longrightarrow> FormatCanonical t = Inr s)"
proof (intro conjI impI)
  assume f: "FormatCanonical t = Inr s"
  then have s: "s = FormatRFC3339Nano t" and c: "IsCanonical t" by (auto simp: FormatCanonical_def split: if_splits)
  then show "ParseCanonical s = Inr t \<longleftrightarrow> 0 \<le> Year t \<and> Year t \<le> 9999"
    using Parse_Format[of t] Parse_Format_long[of t] by (cases "0 \<le> Year t \<and> Year t \<le> 9999") (auto simp: ParseCanonical_def IsCanonical_iff not_le)
next
  assume "ParseCanonical s = Inr t"
  then show "FormatCanonical t = Inr s" by (auto simp: ParseCanonical_def FormatCanonical_def split: option.splits if_splits)
qed

theorem portable_roundtrip_witness:
  "\<exists>s. FormatCanonical (GoTime (63072000000123456000 + 5) True) = Inl s \<and> (\<exists>v. FormatCanonical (GoTime 63072000000123456000 True) = Inr v \<and>
     ParseCanonical v = Inr (GoTime 63072000000123456000 True))"
proof -
  have "FormatCanonical (GoTime (63072000000123456000 + 5) True) = Inl ''format portable instant: value is not canonical''" by code_simp
  moreover obtain v where v: "FormatCanonical (GoTime 63072000000123456000 True) = Inr v" by (simp add: FormatCanonical_def IsCanonical_iff)
  moreover have "ParseCanonical v = Inr (GoTime 63072000000123456000 True)"
    using portable_roundtrip[of "GoTime 63072000000123456000 True" v] v by (simp add: Year_def year_of_day_def Let_def day_nanos_def)
  ultimately show ?thesis by blast
qed

end
