(* ===== verification/Signals_Types.thy ===== *)
theory Signals_Types
  imports Foundation Go_Calendar
begin

text \<open>
  Data of the package \<open>internal/signals\<close> (\<open>contracts.go\<close>): alert rules, alerts with their history, subscriptions and the deliveries handed to Reach.
  \<open>Condition\<close>, \<open>Severity\<close> and \<open>AlertStatus\<close> are string types in Go and stay strings here. Revisions are \<open>int64\<close>, with the wrap-around written out where
  the code adds to them; counters of an evaluation and of delivery attempts stay far below the range of \<open>int\<close>. A pointer to a time is an option.
\<close>

datatype signals_sentinel =
  SignalsErrInvalidInput | SignalsErrNotFound | SignalsErrConflict | SignalsErrTooLarge | SignalsErrReferenceMissing

type_synonym signals_error = "signals_sentinel err"

definition MaximumRules :: nat where "MaximumRules = 100"
definition MaximumAlerts :: nat where "MaximumAlerts = 500"
definition MaximumSubscriptions :: nat where "MaximumSubscriptions = 100"
definition MaximumSubscriptionTargets :: nat where "MaximumSubscriptionTargets = 150"
definition MaximumDeliveryTries :: nat where "MaximumDeliveryTries = 8"

definition ConditionOverBudget :: string where "ConditionOverBudget = ''over_budget''"
definition ConditionForecastOverBudget :: string where "ConditionForecastOverBudget = ''forecast_over_budget''"
definition ConditionUnpaid :: string where "ConditionUnpaid = ''unpaid''"
definition ConditionOverdue :: string where "ConditionOverdue = ''overdue''"
definition ConditionExpiration :: string where "ConditionExpiration = ''expiration''"
definition ConditionRenewal :: string where "ConditionRenewal = ''renewal''"
definition ConditionUnusedCommitment :: string where "ConditionUnusedCommitment = ''unused_commitment''"
definition ConditionReconciliation :: string where "ConditionReconciliation = ''reconciliation''"

lemmas condition_defs = ConditionOverBudget_def ConditionForecastOverBudget_def ConditionUnpaid_def ConditionOverdue_def
  ConditionExpiration_def ConditionRenewal_def ConditionUnusedCommitment_def ConditionReconciliation_def

definition SeverityInfo :: string where "SeverityInfo = ''info''"
definition SeverityWarning :: string where "SeverityWarning = ''warning''"
definition SeverityCritical :: string where "SeverityCritical = ''critical''"

definition StatusActive :: string where "StatusActive = ''active''"
definition StatusAcknowledged :: string where "StatusAcknowledged = ''acknowledged''"
definition StatusResolved :: string where "StatusResolved = ''resolved''"

lemmas status_defs = StatusActive_def StatusAcknowledged_def StatusResolved_def

definition signal_conditions :: "string set" where
  "signal_conditions = {ConditionOverBudget, ConditionForecastOverBudget, ConditionUnpaid, ConditionOverdue, ConditionExpiration,
     ConditionRenewal, ConditionUnusedCommitment, ConditionReconciliation}"

definition signal_severities :: "string set" where
  "signal_severities = {SeverityInfo, SeverityWarning, SeverityCritical}"

definition signal_statuses :: "string set" where
  "signal_statuses = {StatusActive, StatusAcknowledged, StatusResolved}"

record SignalRule =
  sgr_ID :: string
  sgr_OrganizationID :: string
  sgr_Name :: string
  sgr_Condition :: string
  sgr_Severity :: string
  sgr_Enabled :: bool
  sgr_ThresholdDays :: "int list"
  sgr_FiscalPeriod :: string
  sgr_Scenario :: string
  sgr_CreatedBy :: string
  sgr_Revision :: int
  sgr_CreatedAt :: gotime
  sgr_UpdatedAt :: gotime

record CreateRuleInput =
  cru_ID :: string
  cru_Name :: string
  cru_Condition :: string
  cru_Severity :: string
  cru_Enabled :: "bool option"
  cru_ThresholdDays :: "int list"
  cru_FiscalPeriod :: string
  cru_Scenario :: string

record UpdateRuleInput =
  uru_Name :: string
  uru_Condition :: string
  uru_Severity :: string
  uru_Enabled :: bool
  uru_ThresholdDays :: "int list"
  uru_FiscalPeriod :: string
  uru_Scenario :: string
  uru_Revision :: int

record Candidate =
  cand_TargetType :: string
  cand_TargetID :: string
  cand_Title :: string
  cand_Summary :: string
  cand_DueAt :: "gotime option"
  cand_ThresholdDays :: int

record Alert =
  al_ID :: string
  al_OrganizationID :: string
  al_RuleID :: string
  al_Condition :: string
  al_Severity :: string
  al_Status :: string
  al_Title :: string
  al_Summary :: string
  al_TargetType :: string
  al_TargetID :: string
  al_DueAt :: "gotime option"
  al_ThresholdDays :: int
  al_DeduplicationKey :: string
  al_AssignedKind :: string
  al_AssignedID :: string
  al_AcknowledgedBy :: string
  al_AcknowledgedAt :: "gotime option"
  al_FirstDetectedAt :: gotime
  al_LastObservedAt :: gotime
  al_ResolvedAt :: "gotime option"
  al_Revision :: int

record AlertQuery =
  aq_RuleID :: string
  aq_Status :: string
  aq_Severity :: string
  aq_Condition :: string
  aq_Limit :: int

record AlertHistory =
  ah_ID :: string
  ah_OrganizationID :: string
  ah_AlertID :: string
  ah_Action :: string
  ah_ActorID :: string
  ah_OccurredAt :: gotime
  ah_Revision :: int

record AssignmentInput =
  asi_Kind :: string
  asi_TargetID :: string
  asi_Revision :: int

record Subscription =
  sub_ID :: string
  sub_OrganizationID :: string
  sub_RuleID :: string
  sub_TargetKind :: string
  sub_TargetID :: string
  sub_Enabled :: bool
  sub_CreatedBy :: string
  sub_Revision :: int
  sub_CreatedAt :: gotime
  sub_UpdatedAt :: gotime

record CreateSubscriptionInput =
  csi_ID :: string
  csi_RuleID :: string
  csi_TargetKind :: string
  csi_TargetID :: string

record SubscriptionTarget =
  st_TargetKind :: string
  st_TargetID :: string
  st_Label :: string

record SignalsSnapshot =
  ss_Rules :: "SignalRule list"
  ss_Subscriptions :: "Subscription list"

record SignalsImportOperation =
  sio_Token :: string
  sio_OccurredAt :: gotime

record SignalsImportResult =
  sir_Committed :: bool
  sir_Created :: bool

record Delivery =
  dl_ID :: string
  dl_OrganizationID :: string
  dl_AlertID :: string
  dl_SubscriptionID :: string
  dl_TargetKind :: string
  dl_TargetID :: string
  dl_Status :: string
  dl_Attempts :: nat
  dl_NextAttemptAt :: "gotime option"
  dl_LastErrorCode :: string
  dl_CreatedAt :: gotime
  dl_UpdatedAt :: gotime

record EvaluationResult =
  er_AsOf :: gotime
  er_Rules :: nat
  er_Created :: nat
  er_Refreshed :: nat
  er_Resolved :: nat

end
