(* ===== verification/Signals_Store.thy ===== *)
theory Signals_Store
  imports Signals_Types Store_Contract
begin

text \<open>
  \<open>internal/repository/memory_signals.go\<close>: the in-memory store of rules, alerts with their deduplication index and history, subscriptions and deliveries.
  Every method runs under the store's mutex, so it is one atomic step. The clone helpers copy slices and pointers so that callers do not
  alias stored records; values of the model are immutable. The loops over maps only count and look for a conflict, so their order does not matter.
\<close>

record signals_world = world +
  sg_rules :: "(string, SignalRule) gomap"
  sg_alerts :: "(string, Alert) gomap"
  sg_alertsByDedup :: "(string, string) gomap"
  sg_history :: "(string, AlertHistory list) gomap"
  sg_subscriptions :: "(string, Subscription) gomap"
  sg_deliveries :: "(string, Delivery) gomap"

type_synonym 'a signals_op = "(signals_world, signals_sentinel, 'a) op"

abbreviation signals_fail :: "signals_sentinel \<Rightarrow> 'a signals_op" where
  "signals_fail e \<equiv> raiseE (Sentinel e)"

definition signalsKey :: "string \<Rightarrow> string \<Rightarrow> string" where
  "signalsKey organizationID id' = organizationID @ [CHR 0x00] @ id'"

definition signals_lookup :: "(signals_world \<Rightarrow> (string, 'r) gomap) \<Rightarrow> string \<Rightarrow> string \<Rightarrow> 'r signals_op" where
  "signals_lookup table organizationID id' = queryE (\<lambda>w.
     case map_of (table w) (signalsKey organizationID id') of None \<Rightarrow> Inl (Sentinel SignalsErrNotFound) | Some item \<Rightarrow> Inr item)"

section \<open>Rules\<close>

definition storeSignalsSnapshot :: "string \<Rightarrow> int \<Rightarrow> SignalsSnapshot signals_op" where
  "storeSignalsSnapshot organizationID maximum = queryE (\<lambda>w.
     if maximum < 1 then Inl (Sentinel SignalsErrInvalidInput) else
     let rules = filter (\<lambda>r. sgr_OrganizationID r = organizationID) (map snd (sg_rules w));
         subscriptions = filter (\<lambda>s. sub_OrganizationID s = organizationID) (map snd (sg_subscriptions w))
     in if int (length rules + length subscriptions) > maximum then Inl (Sentinel SignalsErrTooLarge)
        else Inr \<lparr>ss_Rules = sort_key sgr_ID rules, ss_Subscriptions = sort_key sub_ID subscriptions\<rparr>)"

definition storeListRules :: "string \<Rightarrow> SignalRule list signals_op" where
  "storeListRules organizationID = queryE (\<lambda>w.
     Inr (sort_key (\<lambda>r. (sgr_Name r, sgr_ID r)) (filter (\<lambda>r. sgr_OrganizationID r = organizationID) (map snd (sg_rules w)))))"

definition storeGetRule :: "string \<Rightarrow> string \<Rightarrow> SignalRule signals_op" where
  "storeGetRule = signals_lookup sg_rules"

definition rule_name_taken :: "unicode \<Rightarrow> (string, SignalRule) gomap \<Rightarrow> SignalRule \<Rightarrow> bool" where
  "rule_name_taken u m item = list_ex (\<lambda>(_, existing). sgr_OrganizationID existing = sgr_OrganizationID item \<and> EqualFold u (sgr_Name existing) (sgr_Name item)) m"

definition rules_full :: "(string, SignalRule) gomap \<Rightarrow> SignalRule \<Rightarrow> bool" where
  "rules_full m item \<longleftrightarrow> length (filter (\<lambda>(_, existing). sgr_OrganizationID existing = sgr_OrganizationID item) m) \<ge> MaximumRules"

definition storeCreateRule :: "unicode \<Rightarrow> SignalRule \<Rightarrow> SignalRule signals_op" where
  "storeCreateRule u item w =
     (let key = signalsKey (sgr_OrganizationID item) (sgr_ID item) in
      if map_of (sg_rules w) key \<noteq> None \<or> rule_name_taken u (sg_rules w) item \<or> rules_full (sg_rules w) item
      then (Inl (Sentinel SignalsErrConflict), w) else (Inr item, w\<lparr>sg_rules := AList.update key item (sg_rules w)\<rparr>))"

definition storeUpdateRule :: "unicode \<Rightarrow> SignalRule \<Rightarrow> int \<Rightarrow> SignalRule signals_op" where
  "storeUpdateRule u item expectedRevision w =
     (let key = signalsKey (sgr_OrganizationID item) (sgr_ID item) in
      case map_of (sg_rules w) key of
        None \<Rightarrow> (Inl (Sentinel SignalsErrNotFound), w)
      | Some existing \<Rightarrow>
          if sgr_Revision existing \<noteq> expectedRevision then (Inl (Sentinel SignalsErrConflict), w)
          else if list_ex (\<lambda>(k, candidate). k \<noteq> key \<and> sgr_OrganizationID candidate = sgr_OrganizationID item \<and>
                 EqualFold u (sgr_Name candidate) (sgr_Name item)) (sg_rules w) then (Inl (Sentinel SignalsErrConflict), w)
          else (Inr item, w\<lparr>sg_rules := AList.update key item (sg_rules w)\<rparr>))"

definition storeImportRule :: "unicode \<Rightarrow> SignalRule \<Rightarrow> (SignalRule \<times> bool) signals_op" where
  "storeImportRule u item w =
     (let key = signalsKey (sgr_OrganizationID item) (sgr_ID item) in
      case map_of (sg_rules w) key of
        Some existing \<Rightarrow> (Inr (existing, False), w)
      | None \<Rightarrow> if rule_name_taken u (sg_rules w) item \<or> rules_full (sg_rules w) item then (Inl (Sentinel SignalsErrConflict), w)
                else (Inr (item, True), w\<lparr>sg_rules := AList.update key item (sg_rules w)\<rparr>))"

section \<open>Alerts\<close>

definition alert_matches :: "string \<Rightarrow> AlertQuery \<Rightarrow> Alert \<Rightarrow> bool" where
  "alert_matches organizationID query item \<longleftrightarrow> al_OrganizationID item = organizationID \<and>
     (aq_RuleID query = '''' \<or> al_RuleID item = aq_RuleID query) \<and> (aq_Status query = '''' \<or> al_Status item = aq_Status query) \<and>
     (aq_Severity query = '''' \<or> al_Severity item = aq_Severity query) \<and> (aq_Condition query = '''' \<or> al_Condition item = aq_Condition query)"

definition storeListAlerts :: "string \<Rightarrow> AlertQuery \<Rightarrow> Alert list signals_op" where
  "storeListAlerts organizationID query = queryE (\<lambda>w.
     Inr (take (nat (aq_Limit query)) (sort_key (\<lambda>a. (- nanos (al_LastObservedAt a), al_ID a))
       (filter (alert_matches organizationID query) (map snd (sg_alerts w))))))"

definition storeGetAlert :: "string \<Rightarrow> string \<Rightarrow> Alert signals_op" where
  "storeGetAlert = signals_lookup sg_alerts"

text \<open>A missing alert behind an index entry would be read as the zero value of the map; the invariant below rules it out.\<close>

definition zero_alert :: Alert where
  "zero_alert = \<lparr>al_ID = '''', al_OrganizationID = '''', al_RuleID = '''', al_Condition = '''', al_Severity = '''', al_Status = '''', al_Title = '''',
     al_Summary = '''', al_TargetType = '''', al_TargetID = '''', al_DueAt = None, al_ThresholdDays = 0, al_DeduplicationKey = '''',
     al_AssignedKind = '''', al_AssignedID = '''', al_AcknowledgedBy = '''', al_AcknowledgedAt = None, al_FirstDetectedAt = zero_time,
     al_LastObservedAt = zero_time, al_ResolvedAt = None, al_Revision = 0\<rparr>"

definition storeGetAlertByDeduplicationKey :: "string \<Rightarrow> string \<Rightarrow> Alert signals_op" where
  "storeGetAlertByDeduplicationKey organizationID dedup = queryE (\<lambda>w.
     case map_of (sg_alertsByDedup w) (signalsKey organizationID dedup) of
       None \<Rightarrow> Inl (Sentinel SignalsErrNotFound)
     | Some id' \<Rightarrow> Inr (case map_of (sg_alerts w) (signalsKey organizationID id') of None \<Rightarrow> zero_alert | Some item \<Rightarrow> item))"

definition append_history :: "string \<Rightarrow> AlertHistory \<Rightarrow> signals_world \<Rightarrow> signals_world" where
  "append_history key h w =
     w\<lparr>sg_history := AList.update key ((case map_of (sg_history w) key of None \<Rightarrow> [] | Some hs \<Rightarrow> hs) @ [h]) (sg_history w)\<rparr>"

definition storeCreateAlert :: "Alert \<Rightarrow> AlertHistory \<Rightarrow> Alert signals_op" where
  "storeCreateAlert alert h w =
     (let key = signalsKey (al_OrganizationID alert) (al_ID alert);
          dedupKey = signalsKey (al_OrganizationID alert) (al_DeduplicationKey alert) in
      if map_of (sg_alerts w) key \<noteq> None \<or> (case map_of (sg_alertsByDedup w) dedupKey of None \<Rightarrow> False | Some i \<Rightarrow> i \<noteq> '''')
      then (Inl (Sentinel SignalsErrConflict), w)
      else (Inr alert, append_history key h
        (w\<lparr>sg_alerts := AList.update key alert (sg_alerts w), sg_alertsByDedup := AList.update dedupKey (al_ID alert) (sg_alertsByDedup w)\<rparr>)))"

definition storeUpdateAlert :: "Alert \<Rightarrow> int \<Rightarrow> AlertHistory \<Rightarrow> Alert signals_op" where
  "storeUpdateAlert alert expectedRevision h w =
     (let key = signalsKey (al_OrganizationID alert) (al_ID alert) in
      case map_of (sg_alerts w) key of
        None \<Rightarrow> (Inl (Sentinel SignalsErrNotFound), w)
      | Some existing \<Rightarrow>
          if al_Revision existing \<noteq> expectedRevision \<or> al_DeduplicationKey existing \<noteq> al_DeduplicationKey alert
          then (Inl (Sentinel SignalsErrConflict), w)
          else (Inr alert, append_history key h (w\<lparr>sg_alerts := AList.update key alert (sg_alerts w)\<rparr>)))"

text \<open>The revisions of a history are distinct, so the order in which \<open>sort.Slice\<close> leaves equal ones does not arise.\<close>

definition storeListAlertHistory :: "string \<Rightarrow> string \<Rightarrow> AlertHistory list signals_op" where
  "storeListAlertHistory organizationID alertID = queryE (\<lambda>w.
     let key = signalsKey organizationID alertID in
     if map_of (sg_alerts w) key = None then Inl (Sentinel SignalsErrNotFound)
     else Inr (sort_key (\<lambda>h. - ah_Revision h) (case map_of (sg_history w) key of None \<Rightarrow> [] | Some hs \<Rightarrow> hs)))"

section \<open>Subscriptions\<close>

definition storeListSubscriptions :: "string \<Rightarrow> Subscription list signals_op" where
  "storeListSubscriptions organizationID = queryE (\<lambda>w.
     Inr (sort_key sub_ID (filter (\<lambda>s. sub_OrganizationID s = organizationID) (map snd (sg_subscriptions w)))))"

definition storeGetSubscription :: "string \<Rightarrow> string \<Rightarrow> Subscription signals_op" where
  "storeGetSubscription = signals_lookup sg_subscriptions"

definition subscription_refused :: "(string, Subscription) gomap \<Rightarrow> Subscription \<Rightarrow> bool" where
  "subscription_refused m item \<longleftrightarrow>
     list_ex (\<lambda>(_, existing). sub_OrganizationID existing = sub_OrganizationID item \<and> sub_RuleID existing = sub_RuleID item \<and>
       sub_TargetKind existing = sub_TargetKind item \<and> sub_TargetID existing = sub_TargetID item) m \<or>
     length (filter (\<lambda>(_, existing). sub_OrganizationID existing = sub_OrganizationID item) m) \<ge> MaximumSubscriptions"

definition storeCreateSubscription :: "Subscription \<Rightarrow> Subscription signals_op" where
  "storeCreateSubscription item w =
     (let key = signalsKey (sub_OrganizationID item) (sub_ID item) in
      if map_of (sg_subscriptions w) key \<noteq> None \<or> subscription_refused (sg_subscriptions w) item then (Inl (Sentinel SignalsErrConflict), w)
      else (Inr item, w\<lparr>sg_subscriptions := AList.update key item (sg_subscriptions w)\<rparr>))"

definition storeImportSubscription :: "Subscription \<Rightarrow> (Subscription \<times> bool) signals_op" where
  "storeImportSubscription item w =
     (let key = signalsKey (sub_OrganizationID item) (sub_ID item) in
      case map_of (sg_subscriptions w) key of
        Some existing \<Rightarrow> (Inr (existing, False), w)
      | None \<Rightarrow> if subscription_refused (sg_subscriptions w) item then (Inl (Sentinel SignalsErrConflict), w)
                else (Inr (item, True), w\<lparr>sg_subscriptions := AList.update key item (sg_subscriptions w)\<rparr>))"

definition storeDeleteSubscription :: "string \<Rightarrow> string \<Rightarrow> bool signals_op" where
  "storeDeleteSubscription organizationID id' w =
     (let key = signalsKey organizationID id' in
      if map_of (sg_subscriptions w) key = None then (Inr False, w)
      else (Inr True, w\<lparr>sg_subscriptions := AList.delete key (sg_subscriptions w),
        sg_deliveries := filter (\<lambda>(_, d). \<not> (dl_OrganizationID d = organizationID \<and> dl_SubscriptionID d = id')) (sg_deliveries w)\<rparr>))"

section \<open>Deliveries\<close>

definition storeCreateDelivery :: "Delivery \<Rightarrow> (Delivery \<times> bool) signals_op" where
  "storeCreateDelivery item w =
     (let key = signalsKey (dl_OrganizationID item) (dl_ID item) in
      case map_of (sg_deliveries w) key of
        Some existing \<Rightarrow> if existing = item then (Inr (existing, False), w) else (Inl (Sentinel SignalsErrConflict), w)
      | None \<Rightarrow> (Inr (item, True), w\<lparr>sg_deliveries := AList.update key item (sg_deliveries w)\<rparr>))"

definition delivery_pending :: "string \<Rightarrow> gotime \<Rightarrow> Delivery \<Rightarrow> bool" where
  "delivery_pending organizationID asOf d \<longleftrightarrow> dl_OrganizationID d = organizationID \<and> dl_Status d = ''pending'' \<and>
     (case dl_NextAttemptAt d of None \<Rightarrow> True | Some t \<Rightarrow> \<not> Before asOf t)"

definition storeListPendingDeliveries :: "string \<Rightarrow> gotime \<Rightarrow> int \<Rightarrow> Delivery list signals_op" where
  "storeListPendingDeliveries organizationID asOf limit = queryE (\<lambda>w.
     Inr (take (nat limit) (sort_key (\<lambda>d. (nanos (dl_CreatedAt d), dl_ID d))
       (filter (delivery_pending organizationID asOf) (map snd (sg_deliveries w))))))"

definition storeUpdateDelivery :: "Delivery \<Rightarrow> nat \<Rightarrow> Delivery signals_op" where
  "storeUpdateDelivery item expectedAttempts w =
     (let key = signalsKey (dl_OrganizationID item) (dl_ID item) in
      case map_of (sg_deliveries w) key of
        None \<Rightarrow> (Inl (Sentinel SignalsErrNotFound), w)
      | Some existing \<Rightarrow>
          if dl_Attempts existing \<noteq> expectedAttempts then (Inl (Sentinel SignalsErrConflict), w)
          else (Inr item, w\<lparr>sg_deliveries := AList.update key item (sg_deliveries w)\<rparr>))"

end
