(* ===== verification/Signals_Service.thy ===== *)
theory Signals_Service
  imports Signals_Store Go_CSV
begin

text \<open>
  \<open>internal/signals/service.go\<close>: rules, evaluation, alert actions, subscriptions and the hand-over of deliveries. The service record holds the organization and two
  parameters of the standard library (case tables and SHA-256). What other services answer during a request is part of its context: the evaluator's
  observations per rule, the catalog of subscription targets, the authority for imported target references and the write gate.
\<close>

record signals_service =
  ssv_organizationID :: string
  ssv_unicode :: unicode
  ssv_sha256 :: "string \<Rightarrow> string"

record signals_ctx = ctx +
  sgx_evaluate :: "SignalRule \<Rightarrow> gotime \<Rightarrow> signals_error + Candidate list"
  sgx_targets :: "string \<Rightarrow> signals_error + SubscriptionTarget list"
  sgx_targetRefs :: "(string \<Rightarrow> string \<Rightarrow> string \<Rightarrow> signals_error + bool) option"
  sgx_writes :: "(string \<Rightarrow> string \<Rightarrow> signals_error option) option"

section \<open>Patterns and texts\<close>

definition signal_id :: "string \<Rightarrow> bool" where
  "signal_id s = match_head_tail is_alnum is_id_char 127 s"

definition signal_period :: "string \<Rightarrow> bool" where
  "signal_period s = match_head_tail is_alnum is_id_char 31 s"

definition signal_scenario :: "string \<Rightarrow> bool" where
  "signal_scenario s = match_head_tail (\<lambda>c. is_lower c \<or> is_digit c)
     (\<lambda>c. is_lower c \<or> is_digit c \<or> c \<in> {CHR ''.'', CHR ''_'', CHR ''-''}) 63 s"

definition target_type_pattern :: "string \<Rightarrow> bool" where
  "target_type_pattern s = match_head_tail is_lower (\<lambda>c. is_lower c \<or> is_digit c \<or> c \<in> {CHR ''.'', CHR ''_'', CHR ''-''}) 63 s"

definition signal_optionalID :: "string \<Rightarrow> bool" where
  "signal_optionalID value \<longleftrightarrow> value = '''' \<or> signal_id value"

definition signal_validText :: "string \<Rightarrow> nat \<Rightarrow> nat \<Rightarrow> bool" where
  "signal_validText value minimum maximum \<longleftrightarrow>
     valid_string value \<and> rune_count value \<ge> minimum \<and> rune_count value \<le> maximum \<and> CHR 0x00 \<notin> set value"

definition safeCSV :: "string \<Rightarrow> string" where
  "safeCSV value = (case value of [] \<Rightarrow> [] | c # _ \<Rightarrow> if c \<in> set ''=+-@'' then CHR 0x27 # value else value)"

definition signal_actor :: "signals_ctx \<Rightarrow> string" where
  "signal_actor cx = (case cx_scope cx of None \<Rightarrow> ''system:signals''
     | Some sc \<Rightarrow> if TrimSpace (sc_ActorID sc) \<noteq> '''' then sc_ActorID sc else ''system:signals'')"

definition deduplicationKey :: "(string \<Rightarrow> string) \<Rightarrow> string list \<Rightarrow> string" where
  "deduplicationKey sha parts = hex_encode (sha (join_nul parts))"

section \<open>Normalization\<close>

definition needsThreshold :: "string \<Rightarrow> bool" where
  "needsThreshold c \<longleftrightarrow> c = ConditionRenewal \<or> c = ConditionExpiration \<or> c = ConditionOverdue \<or> c = ConditionUnpaid \<or> c = ConditionUnusedCommitment"

definition supportsPeriodFilter :: "string \<Rightarrow> bool" where
  "supportsPeriodFilter c \<longleftrightarrow> c = ConditionOverBudget \<or> c = ConditionForecastOverBudget \<or> c = ConditionUnusedCommitment \<or> c = ConditionReconciliation"

text \<open>The values become the keys of a map and are read back sorted, highest first.\<close>

definition normalizeThresholds :: "int list \<Rightarrow> int list option" where
  "normalizeThresholds values =
     (if list_all (\<lambda>v. 0 \<le> v \<and> v \<le> 3660) values \<and> distinct values then Some (rev (sort values)) else None)"

definition default_thresholds :: "string \<Rightarrow> int list \<Rightarrow> int list" where
  "default_thresholds condition values =
     (if condition = ConditionRenewal \<or> condition = ConditionExpiration then (if values = [] then [180, 90, 60, 30] else values)
      else if condition = ConditionOverdue \<or> condition = ConditionUnpaid \<or> condition = ConditionUnusedCommitment
        then (if values = [] then [30] else values)
      else values)"

definition normalizeRuleInput :: "unicode \<Rightarrow> CreateRuleInput \<Rightarrow> signals_error + CreateRuleInput" where
  "normalizeRuleInput u input0 =
     (let input = input0\<lparr>cru_ID := TrimSpace (cru_ID input0), cru_Name := TrimSpace (cru_Name input0),
            cru_Condition := ToLower u (TrimSpace (cru_Condition input0)), cru_Severity := ToLower u (TrimSpace (cru_Severity input0)),
            cru_FiscalPeriod := TrimSpace (cru_FiscalPeriod input0), cru_Scenario := ToLower u (TrimSpace (cru_Scenario input0))\<rparr>;
          condition = cru_Condition input in
      if \<not> signal_optionalID (cru_ID input) \<or> \<not> signal_validText (cru_Name input) 1 160 \<or> condition \<notin> signal_conditions \<or>
         cru_Severity input \<notin> signal_severities \<or> (cru_FiscalPeriod input \<noteq> '''' \<and> \<not> signal_period (cru_FiscalPeriod input)) \<or>
         (cru_Scenario input \<noteq> '''' \<and> \<not> signal_scenario (cru_Scenario input)) then Inl (Sentinel SignalsErrInvalidInput)
      else if (cru_FiscalPeriod input \<noteq> '''' \<or> cru_Scenario input \<noteq> '''') \<and> \<not> supportsPeriodFilter condition then Inl (Sentinel SignalsErrInvalidInput)
      else case normalizeThresholds (default_thresholds condition (cru_ThresholdDays input)) of
        None \<Rightarrow> Inl (Sentinel SignalsErrInvalidInput)
      | Some thresholds \<Rightarrow>
          if length thresholds > 8 then Inl (Sentinel SignalsErrInvalidInput)
          else if needsThreshold condition \<and> thresholds = [] \<or> \<not> needsThreshold condition \<and> thresholds \<noteq> [] then Inl (Sentinel SignalsErrInvalidInput)
          else Inr (input\<lparr>cru_ThresholdDays := thresholds\<rparr>))"

definition normalizeCandidate :: "unicode \<Rightarrow> Candidate \<Rightarrow> signals_error + Candidate" where
  "normalizeCandidate u c0 =
     (let c = c0\<lparr>cand_TargetType := ToLower u (TrimSpace (cand_TargetType c0)), cand_TargetID := TrimSpace (cand_TargetID c0),
            cand_Title := TrimSpace (cand_Title c0), cand_Summary := TrimSpace (cand_Summary c0)\<rparr> in
      if \<not> target_type_pattern (cand_TargetType c) \<or> \<not> signal_id (cand_TargetID c) \<or> \<not> signal_validText (cand_Title c) 1 200 \<or>
         \<not> signal_validText (cand_Summary c) 1 500 \<or> cand_ThresholdDays c < 0 \<or> cand_ThresholdDays c > 3660 then Inl (Sentinel SignalsErrInvalidInput)
      else case cand_DueAt c of
        None \<Rightarrow> Inr c
      | Some due0 \<Rightarrow>
          let due = UTC due0 in
          if Year due < 1970 \<or> Year due > 9999 then Inl (Sentinel SignalsErrInvalidInput) else Inr (c\<lparr>cand_DueAt := Some due\<rparr>))"

section \<open>Clock, gate, audit\<close>

definition signals_now :: "gotime signals_op" where
  "signals_now = tryE read_clock (\<lambda>t. returnE (Normalize t))"

definition signals_checkWrite :: "signals_ctx \<Rightarrow> string \<Rightarrow> string \<Rightarrow> unit signals_op" where
  "signals_checkWrite cx recordType id' = checkE (case sgx_writes cx of None \<Rightarrow> None | Some gate \<Rightarrow> gate recordType id')"

definition signals_audit :: "signals_service \<Rightarrow> signals_ctx \<Rightarrow> string \<Rightarrow> string \<Rightarrow> string \<Rightarrow> (string, string) gomap \<Rightarrow> unit signals_op" where
  "signals_audit sv cx action resourceType resourceID metadata =
     tryE (case cx_scope cx of
             None \<Rightarrow> NewCorrelationID
           | Some sc \<Rightarrow> if sc_CorrelationID sc = '''' then NewCorrelationID else returnE (sc_CorrelationID sc)) (\<lambda>correlationID.
     tryE NewCorrelationID (\<lambda>eventID.
     tryE signals_now (\<lambda>now.
     AuditorRecord
       \<lparr>ae_ID = eventID, ae_OrganizationID = ssv_organizationID sv, ae_ActorID = signal_actor cx, ae_CorrelationID = correlationID,
        ae_Action = action, ae_ResourceType = resourceType, ae_ResourceID = resourceID, ae_OccurredAt = UTC now,
        ae_Metadata = AList.update ''featureId'' ''alerts.rules'' (AList.update ''requirementId'' ''REQ-SIGNALS-001'' metadata)\<rparr>)))"

definition id_or_new :: "string \<Rightarrow> string \<Rightarrow> string signals_op" where
  "id_or_new message id' = (if id' \<noteq> '''' then returnE id' else if message = '''' then NewCorrelationID else wrapE message NewCorrelationID)"

section \<open>Rules\<close>

definition ListRules :: "signals_service \<Rightarrow> SignalRule list signals_op" where
  "ListRules sv = storeListRules (ssv_organizationID sv)"

definition CreateRule :: "signals_service \<Rightarrow> signals_ctx \<Rightarrow> CreateRuleInput \<Rightarrow> SignalRule signals_op" where
  "CreateRule sv cx input =
     tryE (liftE (normalizeRuleInput (ssv_unicode sv) input)) (\<lambda>normalized.
     tryE (id_or_new ''create Signals rule id'' (cru_ID normalized)) (\<lambda>id'.
     tryE (signals_checkWrite cx ''signals.rule'' id') (\<lambda>_.
     tryE signals_now (\<lambda>now.
     let rule = \<lparr>sgr_ID = id', sgr_OrganizationID = ssv_organizationID sv, sgr_Name = cru_Name normalized, sgr_Condition = cru_Condition normalized,
           sgr_Severity = cru_Severity normalized, sgr_Enabled = (case cru_Enabled normalized of None \<Rightarrow> True | Some e \<Rightarrow> e),
           sgr_ThresholdDays = cru_ThresholdDays normalized, sgr_FiscalPeriod = cru_FiscalPeriod normalized, sgr_Scenario = cru_Scenario normalized,
           sgr_CreatedBy = signal_actor cx, sgr_Revision = 1, sgr_CreatedAt = UTC now, sgr_UpdatedAt = UTC now\<rparr> in
     tryE (storeCreateRule (ssv_unicode sv) rule) (\<lambda>created.
     tryE (wrapE ''audit Signals rule creation'' (signals_audit sv cx ''signals.rule.created'' ''signal_rule'' (sgr_ID created)
       [(''condition'', sgr_Condition created), (''severity'', sgr_Severity created)])) (\<lambda>_.
     returnE created))))))"

definition UpdateRule :: "signals_service \<Rightarrow> signals_ctx \<Rightarrow> string \<Rightarrow> UpdateRuleInput \<Rightarrow> SignalRule signals_op" where
  "UpdateRule sv cx id0 input =
     (let id' = TrimSpace id0 in
      case normalizeRuleInput (ssv_unicode sv) \<lparr>cru_ID = '''', cru_Name = uru_Name input, cru_Condition = uru_Condition input, cru_Severity = uru_Severity input,
             cru_Enabled = Some (uru_Enabled input), cru_ThresholdDays = uru_ThresholdDays input, cru_FiscalPeriod = uru_FiscalPeriod input,
             cru_Scenario = uru_Scenario input\<rparr> of
        Inl _ \<Rightarrow> signals_fail SignalsErrInvalidInput
      | Inr normalized \<Rightarrow>
          if \<not> signal_id id' \<or> uru_Revision input < 1 then signals_fail SignalsErrInvalidInput else
          tryE (signals_checkWrite cx ''signals.rule'' id') (\<lambda>_.
          tryE (storeGetRule (ssv_organizationID sv) id') (\<lambda>existing.
          tryE signals_now (\<lambda>now.
          let updated = existing\<lparr>sgr_Name := cru_Name normalized, sgr_Condition := cru_Condition normalized, sgr_Severity := cru_Severity normalized,
                sgr_Enabled := uru_Enabled input, sgr_ThresholdDays := cru_ThresholdDays normalized, sgr_FiscalPeriod := cru_FiscalPeriod normalized,
                sgr_Scenario := cru_Scenario normalized, sgr_Revision := i64 (sgr_Revision existing + 1),
                sgr_UpdatedAt := Max now (sgr_UpdatedAt existing)\<rparr> in
          tryE (storeUpdateRule (ssv_unicode sv) updated (uru_Revision input)) (\<lambda>stored.
          tryE (wrapE ''audit Signals rule update'' (signals_audit sv cx ''signals.rule.updated'' ''signal_rule'' (sgr_ID stored)
            [(''condition'', sgr_Condition stored), (''severity'', sgr_Severity stored), (''enabled'', if sgr_Enabled stored then ''true'' else ''false'')])) (\<lambda>_.
          returnE stored))))))"

section \<open>Reading alerts\<close>

definition ListAlerts :: "signals_service \<Rightarrow> AlertQuery \<Rightarrow> Alert list signals_op" where
  "ListAlerts sv query0 =
     (let query = (if aq_Limit query0 = 0 then query0\<lparr>aq_Limit := 100\<rparr> else query0) in
      if aq_Limit query < 1 \<or> aq_Limit query > int MaximumAlerts \<or> \<not> signal_optionalID (aq_RuleID query) \<or>
         aq_Status query \<noteq> '''' \<and> aq_Status query \<notin> signal_statuses \<or> aq_Severity query \<noteq> '''' \<and> aq_Severity query \<notin> signal_severities \<or>
         aq_Condition query \<noteq> '''' \<and> aq_Condition query \<notin> signal_conditions
      then signals_fail SignalsErrInvalidInput else storeListAlerts (ssv_organizationID sv) query)"

definition GetAlert :: "signals_service \<Rightarrow> string \<Rightarrow> Alert signals_op" where
  "GetAlert sv id' = (if \<not> signal_id (TrimSpace id') then signals_fail SignalsErrInvalidInput else storeGetAlert (ssv_organizationID sv) (TrimSpace id'))"

definition ListAlertHistory :: "signals_service \<Rightarrow> string \<Rightarrow> AlertHistory list signals_op" where
  "ListAlertHistory sv alertID =
     (if \<not> signal_id (TrimSpace alertID) then signals_fail SignalsErrInvalidInput
      else storeListAlertHistory (ssv_organizationID sv) (TrimSpace alertID))"

section \<open>Evaluation\<close>

definition alert_history :: "signals_service \<Rightarrow> Alert \<Rightarrow> string \<Rightarrow> string \<Rightarrow> gotime \<Rightarrow> AlertHistory" where
  "alert_history sv alert action actorID at =
     \<lparr>ah_ID = hex_encode (take 16 (ssv_sha256 sv (join_nul [al_ID alert, FormatInt (al_Revision alert), action]))),
      ah_OrganizationID = ssv_organizationID sv, ah_AlertID = al_ID alert, ah_Action = action, ah_ActorID = actorID, ah_OccurredAt = UTC at,
      ah_Revision = al_Revision alert\<rparr>"

definition candidate_key :: "signals_service \<Rightarrow> SignalRule \<Rightarrow> Candidate \<Rightarrow> string" where
  "candidate_key sv rule c = deduplicationKey (ssv_sha256 sv) [ssv_organizationID sv, sgr_ID rule, cand_TargetType c, cand_TargetID c]"

definition refreshed_alert :: "SignalRule \<Rightarrow> Candidate \<Rightarrow> gotime \<Rightarrow> Alert \<Rightarrow> Alert \<times> string" where
  "refreshed_alert rule c asOf existing =
     (let updated = existing\<lparr>al_Condition := sgr_Condition rule, al_Severity := sgr_Severity rule, al_Title := cand_Title c, al_Summary := cand_Summary c,
            al_DueAt := cand_DueAt c, al_ThresholdDays := cand_ThresholdDays c, al_LastObservedAt := asOf\<rparr>;
          reopened = updated\<lparr>al_Status := StatusActive, al_ResolvedAt := None, al_AcknowledgedAt := None, al_AcknowledgedBy := ''''\<rparr>
      in if al_Status updated = StatusResolved then (reopened\<lparr>al_Revision := i64 (al_Revision reopened + 1)\<rparr>, ''reopened'')
         else (updated\<lparr>al_Revision := i64 (al_Revision updated + 1)\<rparr>, ''refreshed''))"

definition new_alert :: "signals_service \<Rightarrow> SignalRule \<Rightarrow> Candidate \<Rightarrow> string \<Rightarrow> gotime \<Rightarrow> Alert" where
  "new_alert sv rule c dedup asOf =
     zero_alert\<lparr>al_ID := take 32 dedup, al_OrganizationID := ssv_organizationID sv, al_RuleID := sgr_ID rule, al_Condition := sgr_Condition rule,
       al_Severity := sgr_Severity rule, al_Status := StatusActive, al_Title := cand_Title c, al_Summary := cand_Summary c,
       al_TargetType := cand_TargetType c, al_TargetID := cand_TargetID c, al_DueAt := cand_DueAt c, al_ThresholdDays := cand_ThresholdDays c,
       al_DeduplicationKey := dedup, al_FirstDetectedAt := asOf, al_LastObservedAt := asOf, al_Revision := 1\<rparr>"

definition upsertCandidate :: "signals_service \<Rightarrow> signals_ctx \<Rightarrow> SignalRule \<Rightarrow> Candidate \<Rightarrow> string \<Rightarrow> gotime \<Rightarrow> (Alert \<times> bool) signals_op" where
  "upsertCandidate sv cx rule c dedup asOf =
     tryE (attemptE (storeGetAlertByDeduplicationKey (ssv_organizationID sv) dedup)) (\<lambda>found. case found of
       Inr existing \<Rightarrow>
         (case refreshed_alert rule c asOf existing of (updated, action) \<Rightarrow>
            tryE (storeUpdateAlert updated (al_Revision existing) (alert_history sv updated action (signal_actor cx) asOf)) (\<lambda>stored.
            returnE (stored, False)))
     | Inl e \<Rightarrow>
         if \<not> err_is e SignalsErrNotFound then raiseE e else
         let alert = new_alert sv rule c dedup asOf in
         tryE (storeCreateAlert alert (alert_history sv alert ''created'' (signal_actor cx) asOf)) (\<lambda>created.
         returnE (created, True)))"

definition delivery_for :: "signals_service \<Rightarrow> Alert \<Rightarrow> gotime \<Rightarrow> Subscription \<Rightarrow> Delivery" where
  "delivery_for sv alert now s =
     \<lparr>dl_ID = hex_encode (take 16 (ssv_sha256 sv (join_nul [al_ID alert, FormatInt (al_Revision alert), sub_ID s]))),
      dl_OrganizationID = ssv_organizationID sv, dl_AlertID = al_ID alert, dl_SubscriptionID = sub_ID s, dl_TargetKind = sub_TargetKind s,
      dl_TargetID = sub_TargetID s, dl_Status = ''pending'', dl_Attempts = 0, dl_NextAttemptAt = Some now, dl_LastErrorCode = '''',
      dl_CreatedAt = now, dl_UpdatedAt = now\<rparr>"

definition subscription_matches :: "Alert \<Rightarrow> Subscription \<Rightarrow> bool" where
  "subscription_matches alert s \<longleftrightarrow> sub_Enabled s \<and> (sub_RuleID s = '''' \<or> sub_RuleID s = al_RuleID alert)"

fun enqueue_all :: "signals_service \<Rightarrow> Alert \<Rightarrow> gotime \<Rightarrow> Subscription list \<Rightarrow> unit signals_op" where
  "enqueue_all sv alert now [] = returnE ()"
| "enqueue_all sv alert now (s # ss) =
     (if \<not> subscription_matches alert s then enqueue_all sv alert now ss
      else tryE (storeCreateDelivery (delivery_for sv alert now s)) (\<lambda>_. enqueue_all sv alert now ss))"

definition enqueueDeliveries :: "signals_service \<Rightarrow> Alert \<Rightarrow> gotime \<Rightarrow> unit signals_op" where
  "enqueueDeliveries sv alert now = tryE (storeListSubscriptions (ssv_organizationID sv)) (enqueue_all sv alert now)"

text \<open>\<open>Evaluate\<close> returns its counters together with its error, so the loops below carry both.\<close>

type_synonym evaluation = "EvaluationResult \<times> signals_error option"

fun normalize_candidates :: "signals_service \<Rightarrow> SignalRule \<Rightarrow> string list \<Rightarrow> Candidate list \<Rightarrow> signals_error + Candidate list" where
  "normalize_candidates sv rule observed [] = Inr []"
| "normalize_candidates sv rule observed (c0 # cs) =
     (case normalizeCandidate (ssv_unicode sv) c0 of
        Inl e \<Rightarrow> Inl e
      | Inr c \<Rightarrow>
          if candidate_key sv rule c \<in> set observed then Inl (Sentinel SignalsErrConflict)
          else case normalize_candidates sv rule (candidate_key sv rule c # observed) cs of Inl e \<Rightarrow> Inl e | Inr rest \<Rightarrow> Inr (c # rest))"

definition list_open :: "signals_service \<Rightarrow> SignalRule \<Rightarrow> Alert list signals_op" where
  "list_open sv rule =
     (let query = (\<lambda>status. \<lparr>aq_RuleID = sgr_ID rule, aq_Status = status, aq_Severity = '''', aq_Condition = '''', aq_Limit = int MaximumAlerts\<rparr>) in
      tryE (storeListAlerts (ssv_organizationID sv) (query StatusActive)) (\<lambda>active.
      tryE (storeListAlerts (ssv_organizationID sv) (query StatusAcknowledged)) (\<lambda>acknowledged.
      returnE (active @ acknowledged))))"

fun upsert_all :: "signals_service \<Rightarrow> signals_ctx \<Rightarrow> SignalRule \<Rightarrow> gotime \<Rightarrow> Candidate list \<Rightarrow> EvaluationResult \<Rightarrow> evaluation signals_op" where
  "upsert_all sv cx rule asOf [] result = returnE (result, None)"
| "upsert_all sv cx rule asOf (c # cs) result =
     tryE (attemptE (upsertCandidate sv cx rule c (candidate_key sv rule c) asOf)) (\<lambda>upserted. case upserted of
       Inl e \<Rightarrow> returnE (result, Some e)
     | Inr (alert, created) \<Rightarrow>
         if created then
           let result' = result\<lparr>er_Created := Suc (er_Created result)\<rparr> in
           tryE (attemptE (enqueueDeliveries sv alert asOf)) (\<lambda>enqueued. case enqueued of
             Inl e \<Rightarrow> returnE (result', Some e)
           | Inr _ \<Rightarrow> upsert_all sv cx rule asOf cs result')
         else upsert_all sv cx rule asOf cs (result\<lparr>er_Refreshed := Suc (er_Refreshed result)\<rparr>))"

definition resolved_alert :: "gotime \<Rightarrow> Alert \<Rightarrow> Alert" where
  "resolved_alert asOf alert =
     alert\<lparr>al_Status := StatusResolved, al_ResolvedAt := Some asOf, al_LastObservedAt := asOf, al_Revision := i64 (al_Revision alert + 1)\<rparr>"

fun resolve_all :: "signals_service \<Rightarrow> signals_ctx \<Rightarrow> gotime \<Rightarrow> string set \<Rightarrow> Alert list \<Rightarrow> EvaluationResult \<Rightarrow> evaluation signals_op" where
  "resolve_all sv cx asOf observed [] result = returnE (result, None)"
| "resolve_all sv cx asOf observed (alert # alerts) result =
     (if al_DeduplicationKey alert \<in> observed then resolve_all sv cx asOf observed alerts result
      else let resolved = resolved_alert asOf alert in
        tryE (attemptE (storeUpdateAlert resolved (al_Revision alert) (alert_history sv resolved ''resolved'' (signal_actor cx) asOf))) (\<lambda>stored. case stored of
          Inl e \<Rightarrow> returnE (result, Some e)
        | Inr _ \<Rightarrow> resolve_all sv cx asOf observed alerts (result\<lparr>er_Resolved := Suc (er_Resolved result)\<rparr>)))"

definition evaluate_rule :: "signals_service \<Rightarrow> signals_ctx \<Rightarrow> gotime \<Rightarrow> SignalRule \<Rightarrow> EvaluationResult \<Rightarrow> evaluation signals_op" where
  "evaluate_rule sv cx asOf rule result0 =
     (let result = result0\<lparr>er_Rules := Suc (er_Rules result0)\<rparr> in
      case sgx_evaluate cx rule asOf of
        Inl e \<Rightarrow> returnE (result, Some (Wrapf (''evaluate '' @ sgr_Condition rule @ '' rule'') e))
      | Inr candidates \<Rightarrow>
          if length candidates > MaximumAlerts then returnE (result, Some (Sentinel SignalsErrConflict)) else
          case normalize_candidates sv rule [] candidates of
            Inl e \<Rightarrow> returnE (result, Some e)
          | Inr normalized \<Rightarrow>
              tryE (attemptE (list_open sv rule)) (\<lambda>listed. case listed of
                Inl e \<Rightarrow> returnE (result, Some e)
              | Inr openAlerts \<Rightarrow>
                  if length openAlerts > MaximumAlerts then returnE (result, Some (Sentinel SignalsErrConflict)) else
                  tryE (upsert_all sv cx rule asOf normalized result) (\<lambda>(result', failed). case failed of
                    Some e \<Rightarrow> returnE (result', Some e)
                  | None \<Rightarrow> resolve_all sv cx asOf (candidate_key sv rule ` set normalized) openAlerts result')))"

fun evaluate_rules :: "signals_service \<Rightarrow> signals_ctx \<Rightarrow> gotime \<Rightarrow> SignalRule list \<Rightarrow> EvaluationResult \<Rightarrow> evaluation signals_op" where
  "evaluate_rules sv cx asOf [] result = returnE (result, None)"
| "evaluate_rules sv cx asOf (rule # rules) result =
     (if \<not> sgr_Enabled rule then evaluate_rules sv cx asOf rules result
      else tryE (evaluate_rule sv cx asOf rule result) (\<lambda>(result', failed). case failed of
        Some e \<Rightarrow> returnE (result', Some e)
      | None \<Rightarrow> evaluate_rules sv cx asOf rules result'))"

definition no_evaluation :: "gotime \<Rightarrow> EvaluationResult" where
  "no_evaluation asOf = \<lparr>er_AsOf = asOf, er_Rules = 0, er_Created = 0, er_Refreshed = 0, er_Resolved = 0\<rparr>"

definition Evaluate :: "signals_service \<Rightarrow> signals_ctx \<Rightarrow> gotime \<Rightarrow> evaluation signals_op" where
  "Evaluate sv cx asOf0 =
     tryE (if IsZero asOf0 then signals_now else returnE asOf0) (\<lambda>asOf1.
     let asOf = UTC asOf1 in
     if Year asOf < 1970 \<or> Year asOf > 9999 then returnE (no_evaluation zero_time, Some (Sentinel SignalsErrInvalidInput)) else
     tryE (attemptE (storeListRules (ssv_organizationID sv))) (\<lambda>listed. case listed of
       Inl e \<Rightarrow> returnE (no_evaluation zero_time, Some e)
     | Inr rules \<Rightarrow>
         if length rules > MaximumRules then returnE (no_evaluation zero_time, Some (Sentinel SignalsErrConflict)) else
         tryE (evaluate_rules sv cx asOf rules (no_evaluation asOf)) (\<lambda>(result, failed). case failed of
           Some e \<Rightarrow> returnE (result, Some e)
         | None \<Rightarrow>
             tryE (attemptE (signals_audit sv cx ''signals.evaluation.completed'' ''signal_evaluation'' (FormatCompact asOf)
               [(''rules'', format_nat (er_Rules result)), (''created'', format_nat (er_Created result)),
                (''refreshed'', format_nat (er_Refreshed result)), (''resolved'', format_nat (er_Resolved result))])) (\<lambda>audited. case audited of
               Inl e \<Rightarrow> returnE (result, Some (Wrapf ''audit Signals evaluation'' e))
             | Inr _ \<Rightarrow> returnE (result, None)))))"

end
