(* ===== verification/Signals_Actions.thy ===== *)
theory Signals_Actions
  imports Signals_Service
begin

text \<open>
  The rest of \<open>internal/signals/service.go\<close>: acknowledging and assigning alerts, subscriptions and their targets, the attempts to deliver an alert, and the report.
\<close>

section \<open>Alert actions\<close>

definition Acknowledge :: "signals_service \<Rightarrow> signals_ctx \<Rightarrow> string \<Rightarrow> int \<Rightarrow> Alert signals_op" where
  "Acknowledge sv cx alertID revision =
     tryE (GetAlert sv alertID) (\<lambda>alert.
     if revision < 1 \<or> al_Revision alert \<noteq> revision \<or> al_Status alert = StatusResolved then signals_fail SignalsErrConflict else
     tryE signals_now (\<lambda>now.
     let acknowledged = alert\<lparr>al_Status := StatusAcknowledged, al_AcknowledgedBy := signal_actor cx, al_AcknowledgedAt := Some (UTC now),
           al_Revision := i64 (al_Revision alert + 1)\<rparr> in
     tryE (storeUpdateAlert acknowledged revision (alert_history sv acknowledged ''acknowledged'' (signal_actor cx) (UTC now))) (\<lambda>updated.
     tryE (wrapE ''audit Signals acknowledgment'' (signals_audit sv cx ''signals.alert.acknowledged'' ''signal_alert'' (al_ID updated)
       [(''condition'', al_Condition updated)])) (\<lambda>_.
     returnE updated))))"

definition AssignAlert :: "signals_service \<Rightarrow> signals_ctx \<Rightarrow> string \<Rightarrow> AssignmentInput \<Rightarrow> Alert signals_op" where
  "AssignAlert sv cx alertID input =
     (let kind = ToLower (ssv_unicode sv) (TrimSpace (asi_Kind input)); targetID = TrimSpace (asi_TargetID input) in
      if kind \<noteq> ''identity'' \<and> kind \<noteq> ''group'' \<or> \<not> signal_id targetID \<or> asi_Revision input < 1 then signals_fail SignalsErrInvalidInput else
      tryE (GetAlert sv alertID) (\<lambda>alert.
      if al_Revision alert \<noteq> asi_Revision input \<or> al_Status alert = StatusResolved then signals_fail SignalsErrConflict else
      tryE signals_now (\<lambda>now.
      let assigned = alert\<lparr>al_AssignedKind := kind, al_AssignedID := targetID, al_Revision := i64 (al_Revision alert + 1)\<rparr> in
      tryE (storeUpdateAlert assigned (asi_Revision input) (alert_history sv assigned ''assigned'' (signal_actor cx) (UTC now))) (\<lambda>updated.
      tryE (wrapE ''audit Signals assignment'' (signals_audit sv cx ''signals.alert.assigned'' ''signal_alert'' (al_ID updated)
        [(''assignedKind'', al_AssignedKind updated)])) (\<lambda>_.
      returnE updated)))))"

section \<open>Subscriptions\<close>

definition ListSubscriptions :: "signals_service \<Rightarrow> Subscription list signals_op" where
  "ListSubscriptions sv = storeListSubscriptions (ssv_organizationID sv)"

definition normalize_target :: "unicode \<Rightarrow> SubscriptionTarget \<Rightarrow> SubscriptionTarget" where
  "normalize_target u t = \<lparr>st_TargetKind = ToLower u (TrimSpace (st_TargetKind t)), st_TargetID = TrimSpace (st_TargetID t), st_Label = TrimSpace (st_Label t)\<rparr>"

definition target_ok :: "SubscriptionTarget \<Rightarrow> bool" where
  "target_ok t \<longleftrightarrow> (st_TargetKind t = ''group'' \<or> st_TargetKind t = ''webhook'') \<and> signal_id (st_TargetID t) \<and> signal_validText (st_Label t) 1 160"

definition target_key :: "SubscriptionTarget \<Rightarrow> string" where
  "target_key t = st_TargetKind t @ [CHR 0x00] @ st_TargetID t"

fun normalize_targets :: "unicode \<Rightarrow> string list \<Rightarrow> SubscriptionTarget list \<Rightarrow> SubscriptionTarget list option" where
  "normalize_targets u seen [] = Some []"
| "normalize_targets u seen (t0 # ts) =
     (let t = normalize_target u t0 in
      if \<not> target_ok t \<or> target_key t \<in> set seen then None
      else map_option ((#) t) (normalize_targets u (target_key t # seen) ts))"

definition ListSubscriptionTargets :: "signals_service \<Rightarrow> signals_ctx \<Rightarrow> SubscriptionTarget list signals_op" where
  "ListSubscriptionTargets sv cx =
     tryE (liftE (sgx_targets cx (ssv_organizationID sv))) (\<lambda>items.
     if length items > MaximumSubscriptionTargets then signals_fail SignalsErrConflict else
     case normalize_targets (ssv_unicode sv) [] items of
       None \<Rightarrow> signals_fail SignalsErrConflict
     | Some result \<Rightarrow> returnE (sort_key (\<lambda>t. (st_TargetKind t, st_TargetID t)) result))"

definition CreateSubscription :: "signals_service \<Rightarrow> signals_ctx \<Rightarrow> CreateSubscriptionInput \<Rightarrow> Subscription signals_op" where
  "CreateSubscription sv cx input =
     (let inputID = TrimSpace (csi_ID input); ruleID = TrimSpace (csi_RuleID input);
          kind = ToLower (ssv_unicode sv) (TrimSpace (csi_TargetKind input)); targetID = TrimSpace (csi_TargetID input) in
      if \<not> signal_optionalID inputID \<or> \<not> signal_optionalID ruleID \<or> (kind \<noteq> ''group'' \<and> kind \<noteq> ''webhook'') \<or> \<not> signal_id targetID
      then signals_fail SignalsErrInvalidInput else
      tryE (if ruleID = '''' then returnE () else tryE (storeGetRule (ssv_organizationID sv) ruleID) (\<lambda>_. returnE ())) (\<lambda>_.
      tryE (ListSubscriptionTargets sv cx) (\<lambda>targets.
      if \<not> list_ex (\<lambda>t. st_TargetKind t = kind \<and> st_TargetID t = targetID) targets then signals_fail SignalsErrInvalidInput else
      tryE (id_or_new '''' inputID) (\<lambda>id'.
      tryE (signals_checkWrite cx ''signals.subscription'' id') (\<lambda>_.
      tryE signals_now (\<lambda>now.
      let subscription = \<lparr>sub_ID = id', sub_OrganizationID = ssv_organizationID sv, sub_RuleID = ruleID, sub_TargetKind = kind, sub_TargetID = targetID,
            sub_Enabled = True, sub_CreatedBy = signal_actor cx, sub_Revision = 1, sub_CreatedAt = UTC now, sub_UpdatedAt = UTC now\<rparr> in
      tryE (storeCreateSubscription subscription) (\<lambda>created.
      tryE (wrapE ''audit Signals subscription'' (signals_audit sv cx ''signals.subscription.created'' ''signal_subscription'' (sub_ID created)
        [(''targetKind'', sub_TargetKind created), (''ruleScoped'', if sub_RuleID created \<noteq> '''' then ''true'' else ''false'')])) (\<lambda>_.
      returnE created))))))))"

definition DeleteSubscription :: "signals_service \<Rightarrow> signals_ctx \<Rightarrow> string \<Rightarrow> bool signals_op" where
  "DeleteSubscription sv cx id0 =
     (let id' = TrimSpace id0 in
      if \<not> signal_id id' then signals_fail SignalsErrInvalidInput else
      tryE (signals_checkWrite cx ''signals.subscription'' id') (\<lambda>_.
      tryE (storeDeleteSubscription (ssv_organizationID sv) id') (\<lambda>deleted.
      if \<not> deleted then returnE False else
      tryE (wrapE ''audit Signals subscription deletion'' (signals_audit sv cx ''signals.subscription.deleted'' ''signal_subscription'' id' [])) (\<lambda>_.
      returnE True))))"

section \<open>Deliveries\<close>

definition ListPendingDeliveries :: "signals_service \<Rightarrow> gotime \<Rightarrow> int \<Rightarrow> Delivery list signals_op" where
  "ListPendingDeliveries sv asOf0 limit0 =
     tryE (if IsZero asOf0 then signals_now else returnE asOf0) (\<lambda>asOf.
     let limit = (if limit0 = 0 then 100 else limit0) in
     if limit < 1 \<or> limit > 500 then signals_fail SignalsErrInvalidInput
     else storeListPendingDeliveries (ssv_organizationID sv) (UTC asOf) limit)"

function retry_loop :: "nat \<Rightarrow> nat \<Rightarrow> duration \<Rightarrow> duration" where
  "retry_loop index attempt delay =
     (if index < attempt \<and> delay < 24 * 60 * Minute then retry_loop (Suc index) attempt (delay * 2) else delay)"
  by auto
termination by (relation "measure (\<lambda>(index, attempt, delay). attempt - index)") auto

declare retry_loop.simps [simp del]

definition retryDelay :: "nat \<Rightarrow> duration" where
  "retryDelay attempt =
     (let delay = retry_loop 1 attempt (5 * Minute) in if delay > 24 * 60 * Minute then 24 * 60 * Minute else delay)"

text \<open>\<open>time.Date(9999, 12, 31, 0, 0, 0, 0, time.UTC)\<close>, by which every delivery is due.\<close>

definition end_of_time :: gotime where
  "end_of_time = GoTime (day_of_civil 9999 12 31 * day_nanos) True"

definition attempted :: "gotime \<Rightarrow> bool \<Rightarrow> bool \<Rightarrow> string \<Rightarrow> Delivery \<Rightarrow> Delivery" where
  "attempted now succeeded retryable errorCode d =
     (let tried = d\<lparr>dl_Attempts := Suc (dl_Attempts d), dl_UpdatedAt := now, dl_LastErrorCode := errorCode, dl_NextAttemptAt := None\<rparr> in
      if succeeded then tried\<lparr>dl_Status := ''delivered''\<rparr>
      else if retryable \<and> dl_Attempts tried < MaximumDeliveryTries
      then tried\<lparr>dl_Status := ''pending'', dl_NextAttemptAt := Some (Add now (retryDelay (dl_Attempts tried)))\<rparr>
      else tried\<lparr>dl_Status := ''failed''\<rparr>)"

definition RecordDeliveryAttempt :: "signals_service \<Rightarrow> string \<Rightarrow> bool \<Rightarrow> bool \<Rightarrow> string \<Rightarrow> Delivery signals_op" where
  "RecordDeliveryAttempt sv deliveryID0 succeeded retryable errorCode0 =
     (let deliveryID = TrimSpace deliveryID0; errorCode = ToLower (ssv_unicode sv) (TrimSpace errorCode0) in
      if \<not> signal_id deliveryID \<or> (\<not> succeeded \<and> \<not> signal_id errorCode) \<or> succeeded \<and> errorCode \<noteq> '''' then signals_fail SignalsErrInvalidInput else
      tryE (storeListPendingDeliveries (ssv_organizationID sv) end_of_time 500) (\<lambda>pending.
      case find (\<lambda>d. dl_ID d = deliveryID) pending of
        None \<Rightarrow> signals_fail SignalsErrNotFound
      | Some delivery \<Rightarrow>
          tryE signals_now (\<lambda>now.
          storeUpdateDelivery (attempted (UTC now) succeeded retryable errorCode delivery) (dl_Attempts delivery))))"

section \<open>The report\<close>

definition signals_header :: "string list" where
  "signals_header = [''alert_id'', ''rule_id'', ''condition'', ''severity'', ''status'', ''title'', ''target_type'', ''target_id'', ''due_at'',
     ''assigned_kind'', ''assigned_id'', ''first_detected_at'', ''last_observed_at'']"

definition csv_alert :: "Alert \<Rightarrow> string list" where
  "csv_alert a = [safeCSV (al_ID a), safeCSV (al_RuleID a), al_Condition a, al_Severity a, al_Status a, safeCSV (al_Title a), safeCSV (al_TargetType a),
     safeCSV (al_TargetID a), (case al_DueAt a of None \<Rightarrow> '''' | Some t \<Rightarrow> FormatRFC3339 t), al_AssignedKind a, safeCSV (al_AssignedID a),
     FormatRFC3339 (al_FirstDetectedAt a), FormatRFC3339 (al_LastObservedAt a)]"

definition signals_ExportCSV :: "signals_service \<Rightarrow> AlertQuery \<Rightarrow> string signals_op" where
  "signals_ExportCSV sv query =
     tryE (ListAlerts sv query) (\<lambda>alerts. returnE (concat (map csv_write (signals_header # map csv_alert alerts))))"

end
