(* ===== verification/Signals_Exchange.thy ===== *)
theory Signals_Exchange
  imports Signals_Actions
begin

text \<open>
  \<open>internal/signals/exchange.go\<close>: the importer of rules and subscriptions, and the reads that the exchange exports from. An import returns a result and an error
  side by side.
\<close>

type_synonym signals_outcome = "SignalsImportResult \<times> signals_error option"

definition signals_no_result :: SignalsImportResult where
  "signals_no_result = \<lparr>sir_Committed = False, sir_Created = False\<rparr>"

definition activeTargetReferenceExists :: "signals_ctx \<Rightarrow> string \<Rightarrow> string \<Rightarrow> string \<Rightarrow> signals_error + bool" where
  "activeTargetReferenceExists cx organizationID targetKind targetID =
     (case sgx_targets cx organizationID of
        Inl e \<Rightarrow> Inl e
      | Inr targets \<Rightarrow> Inr (list_ex (\<lambda>t. st_TargetKind t = targetKind \<and> st_TargetID t = targetID) targets))"

definition SubscriptionTargetReferenceExists :: "signals_ctx \<Rightarrow> string \<Rightarrow> string \<Rightarrow> string \<Rightarrow> signals_error + bool" where
  "SubscriptionTargetReferenceExists cx = (case sgx_targetRefs cx of None \<Rightarrow> activeTargetReferenceExists cx | Some refs \<Rightarrow> refs)"

definition signals_ExchangeSnapshot :: "signals_service \<Rightarrow> int \<Rightarrow> SignalsSnapshot signals_op" where
  "signals_ExchangeSnapshot sv maximum =
     (if maximum < 1 then signals_fail SignalsErrInvalidInput else storeSignalsSnapshot (ssv_organizationID sv) maximum)"

definition ExchangeSubscription :: "signals_service \<Rightarrow> string \<Rightarrow> Subscription signals_op" where
  "ExchangeSubscription sv id0 =
     (let id' = TrimSpace id0 in
      if \<not> signal_id id' then signals_fail SignalsErrInvalidInput else storeGetSubscription (ssv_organizationID sv) id')"

definition ExchangeRule :: "signals_service \<Rightarrow> string \<Rightarrow> SignalRule signals_op" where
  "ExchangeRule sv id0 =
     (let id' = TrimSpace id0 in if \<not> signal_id id' then signals_fail SignalsErrInvalidInput else storeGetRule (ssv_organizationID sv) id')"

section \<open>Validation\<close>

definition signals_validTime :: "gotime \<Rightarrow> bool" where
  "signals_validTime value \<longleftrightarrow> \<not> IsZero value \<and> Year value \<ge> 1970 \<and> Year value \<le> 9999 \<and> IsCanonical value"

definition signals_normalizeImport :: "SignalsImportOperation \<Rightarrow> SignalsImportOperation option" where
  "signals_normalizeImport operation0 =
     (let operation = \<lparr>sio_Token = TrimSpace (sio_Token operation0), sio_OccurredAt = Normalize (sio_OccurredAt operation0)\<rparr> in
      if \<not> signal_id (sio_Token operation) \<or> \<not> signals_validTime (sio_OccurredAt operation) then None else Some operation)"

definition validRevisionTimes :: "int \<Rightarrow> gotime \<Rightarrow> gotime \<Rightarrow> bool" where
  "validRevisionTimes revision createdAt updatedAt \<longleftrightarrow> revision > 0 \<and> signals_validTime createdAt \<and> signals_validTime updatedAt \<and>
     \<not> Before updatedAt createdAt \<and> (revision \<noteq> 1 \<or> Equal createdAt updatedAt)"

definition validExchangeRule :: "unicode \<Rightarrow> SignalRule \<Rightarrow> bool" where
  "validExchangeRule u candidate =
     (case normalizeRuleInput u \<lparr>cru_ID = sgr_ID candidate, cru_Name = sgr_Name candidate, cru_Condition = sgr_Condition candidate,
             cru_Severity = sgr_Severity candidate, cru_Enabled = Some (sgr_Enabled candidate), cru_ThresholdDays = sgr_ThresholdDays candidate,
             cru_FiscalPeriod = sgr_FiscalPeriod candidate, cru_Scenario = sgr_Scenario candidate\<rparr> of
        Inl _ \<Rightarrow> False
      | Inr normalized \<Rightarrow> sgr_ID candidate = cru_ID normalized \<and> sgr_Name candidate = cru_Name normalized \<and>
          sgr_Condition candidate = cru_Condition normalized \<and> sgr_Severity candidate = cru_Severity normalized \<and>
          Some (sgr_Enabled candidate) = cru_Enabled normalized \<and> sgr_ThresholdDays candidate = cru_ThresholdDays normalized \<and>
          sgr_FiscalPeriod candidate = cru_FiscalPeriod normalized \<and> sgr_Scenario candidate = cru_Scenario normalized \<and>
          validRevisionTimes (sgr_Revision candidate) (sgr_CreatedAt candidate) (sgr_UpdatedAt candidate))"

definition validExchangeSubscription :: "Subscription \<Rightarrow> bool" where
  "validExchangeSubscription candidate \<longleftrightarrow> signal_id (sub_ID candidate) \<and> signal_optionalID (sub_RuleID candidate) \<and>
     (sub_TargetKind candidate = ''group'' \<or> sub_TargetKind candidate = ''webhook'') \<and> signal_id (sub_TargetID candidate) \<and>
     validRevisionTimes (sub_Revision candidate) (sub_CreatedAt candidate) (sub_UpdatedAt candidate)"

definition sameExchangeRule :: "SignalRule \<Rightarrow> SignalRule \<Rightarrow> bool" where
  "sameExchangeRule left right \<longleftrightarrow> sgr_ID left = sgr_ID right \<and> sgr_Name left = sgr_Name right \<and> sgr_Condition left = sgr_Condition right \<and>
     sgr_Severity left = sgr_Severity right \<and> sgr_Enabled left = sgr_Enabled right \<and> sgr_ThresholdDays left = sgr_ThresholdDays right \<and>
     sgr_FiscalPeriod left = sgr_FiscalPeriod right \<and> sgr_Scenario left = sgr_Scenario right \<and> sgr_Revision left = sgr_Revision right \<and>
     Equal (sgr_CreatedAt left) (sgr_CreatedAt right) \<and> Equal (sgr_UpdatedAt left) (sgr_UpdatedAt right)"

definition sameExchangeSubscription :: "Subscription \<Rightarrow> Subscription \<Rightarrow> bool" where
  "sameExchangeSubscription left right \<longleftrightarrow> sub_ID left = sub_ID right \<and> sub_RuleID left = sub_RuleID right \<and>
     sub_TargetKind left = sub_TargetKind right \<and> sub_TargetID left = sub_TargetID right \<and> sub_Enabled left = sub_Enabled right \<and>
     sub_Revision left = sub_Revision right \<and> Equal (sub_CreatedAt left) (sub_CreatedAt right) \<and> Equal (sub_UpdatedAt left) (sub_UpdatedAt right)"

definition ruleExchangeAuditMetadata :: "SignalRule \<Rightarrow> (string, string) gomap" where
  "ruleExchangeAuditMetadata rule = [(''condition'', sgr_Condition rule), (''severity'', sgr_Severity rule), (''revision'', FormatInt (sgr_Revision rule))]"

definition subscriptionExchangeAuditMetadata :: "Subscription \<Rightarrow> (string, string) gomap" where
  "subscriptionExchangeAuditMetadata s = [(''targetKind'', sub_TargetKind s), (''ruleScoped'', if sub_RuleID s \<noteq> '''' then ''true'' else ''false''),
     (''revision'', FormatInt (sub_Revision s))]"

definition signals_auditExchange ::
  "signals_service \<Rightarrow> SignalsImportOperation \<Rightarrow> string \<Rightarrow> string \<Rightarrow> string \<Rightarrow> (string, string) gomap \<Rightarrow> unit signals_op" where
  "signals_auditExchange sv operation action resourceType resourceID metadata =
     AuditorRecord
       \<lparr>ae_ID = deduplicationKey (ssv_sha256 sv) [ssv_organizationID sv, sio_Token operation, action, resourceType, resourceID],
        ae_OrganizationID = ssv_organizationID sv, ae_ActorID = ''system:exchange'', ae_CorrelationID = sio_Token operation, ae_Action = action,
        ae_ResourceType = resourceType, ae_ResourceID = resourceID, ae_OccurredAt = sio_OccurredAt operation,
        ae_Metadata = AList.update ''featureId'' ''alerts.rules'' (AList.update ''requirementId'' ''REQ-SIGNALS-001'' metadata)\<rparr>"

section \<open>Imports\<close>

text \<open>Both imports audit what is stored and report it as committed.\<close>

definition signals_committed :: "unit signals_op \<Rightarrow> bool \<Rightarrow> signals_outcome signals_op" where
  "signals_committed audit created =
     tryE (attemptE audit) (\<lambda>audited. returnE (\<lparr>sir_Committed = True, sir_Created = created\<rparr>, err_of audited))"

definition signals_joined :: "signals_error \<Rightarrow> unit signals_op \<Rightarrow> SignalsImportResult \<Rightarrow> signals_outcome signals_op" where
  "signals_joined writeErr audit result =
     tryE (attemptE audit) (\<lambda>audited. returnE (result, Some (Joined (writeErr # (case err_of audited of None \<Rightarrow> [] | Some e \<Rightarrow> [e])))))"

definition ImportRule :: "signals_service \<Rightarrow> SignalsImportOperation \<Rightarrow> SignalRule \<Rightarrow> signals_outcome signals_op" where
  "ImportRule sv operation0 candidate0 =
     (case signals_normalizeImport operation0 of
        None \<Rightarrow> returnE (signals_no_result, Some (Sentinel SignalsErrInvalidInput))
      | Some operation \<Rightarrow>
          if sgr_OrganizationID candidate0 \<noteq> '''' \<and> sgr_OrganizationID candidate0 \<noteq> ssv_organizationID sv \<or> sgr_CreatedBy candidate0 \<noteq> ''''
          then returnE (signals_no_result, Some (Sentinel SignalsErrInvalidInput)) else
          let candidate = candidate0\<lparr>sgr_OrganizationID := ssv_organizationID sv, sgr_CreatedBy := ''system:exchange''\<rparr>;
              audit = (\<lambda>stored. signals_auditExchange sv operation ''signals.rule.imported'' ''signal_rule'' (sgr_ID stored) (ruleExchangeAuditMetadata stored)) in
          if \<not> validExchangeRule (ssv_unicode sv) candidate then returnE (signals_no_result, Some (Sentinel SignalsErrInvalidInput)) else
          tryE (attemptE (storeGetRule (ssv_organizationID sv) (sgr_ID candidate))) (\<lambda>got. case got of
            Inr existing \<Rightarrow>
              if \<not> sameExchangeRule existing candidate then returnE (signals_no_result, Some (Sentinel SignalsErrConflict))
              else signals_committed (audit existing) False
          | Inl e \<Rightarrow>
              if \<not> err_is e SignalsErrNotFound then returnE (signals_no_result, Some e) else
              tryE (attemptE (storeImportRule (ssv_unicode sv) candidate)) (\<lambda>written. case written of
                Inr (persisted, created) \<Rightarrow>
                  if \<not> sameExchangeRule persisted candidate then returnE (signals_no_result, Some (Sentinel SignalsErrConflict))
                  else signals_committed (audit persisted) created
              | Inl writeErr \<Rightarrow>
                  tryE (attemptE (storeGetRule (ssv_organizationID sv) (sgr_ID candidate))) (\<lambda>observed. case observed of
                    Inr stored \<Rightarrow>
                      if sameExchangeRule stored candidate then signals_joined writeErr (audit stored) \<lparr>sir_Committed = True, sir_Created = False\<rparr>
                      else returnE (signals_no_result, Some writeErr)
                  | Inl _ \<Rightarrow> returnE (signals_no_result, Some writeErr)))))"

definition ImportSubscription :: "signals_service \<Rightarrow> signals_ctx \<Rightarrow> SignalsImportOperation \<Rightarrow> Subscription \<Rightarrow> signals_outcome signals_op" where
  "ImportSubscription sv cx operation0 candidate0 =
     (case signals_normalizeImport operation0 of
        None \<Rightarrow> returnE (signals_no_result, Some (Sentinel SignalsErrInvalidInput))
      | Some operation \<Rightarrow>
          if sub_OrganizationID candidate0 \<noteq> '''' \<and> sub_OrganizationID candidate0 \<noteq> ssv_organizationID sv \<or> sub_CreatedBy candidate0 \<noteq> ''''
          then returnE (signals_no_result, Some (Sentinel SignalsErrInvalidInput)) else
          let candidate = candidate0\<lparr>sub_OrganizationID := ssv_organizationID sv, sub_CreatedBy := ''system:exchange''\<rparr>;
              audit = (\<lambda>stored. signals_auditExchange sv operation ''signals.subscription.imported'' ''signal_subscription'' (sub_ID stored)
                (subscriptionExchangeAuditMetadata stored)) in
          if \<not> validExchangeSubscription candidate then returnE (signals_no_result, Some (Sentinel SignalsErrInvalidInput)) else
          tryE (attemptE (storeGetSubscription (ssv_organizationID sv) (sub_ID candidate))) (\<lambda>got. case got of
            Inr existing \<Rightarrow>
              if \<not> sameExchangeSubscription existing candidate then returnE (signals_no_result, Some (Sentinel SignalsErrConflict))
              else signals_committed (audit existing) False
          | Inl e \<Rightarrow>
              if \<not> err_is e SignalsErrNotFound then returnE (signals_no_result, Some e) else
              tryE (attemptE (if sub_RuleID candidate = '''' then returnE () else
                tryE (storeGetRule (ssv_organizationID sv) (sub_RuleID candidate)) (\<lambda>_. returnE ()))) (\<lambda>referenced. case referenced of
                Inl e' \<Rightarrow> returnE (signals_no_result, Some (if err_is e' SignalsErrNotFound then Sentinel SignalsErrReferenceMissing else e'))
              | Inr _ \<Rightarrow>
              (case SubscriptionTargetReferenceExists cx (ssv_organizationID sv) (sub_TargetKind candidate) (sub_TargetID candidate) of
                Inl e' \<Rightarrow> returnE (signals_no_result, Some e')
              | Inr False \<Rightarrow> returnE (signals_no_result, Some (Sentinel SignalsErrReferenceMissing))
              | Inr True \<Rightarrow>
              tryE (attemptE (storeImportSubscription candidate)) (\<lambda>written. case written of
                Inr (persisted, created) \<Rightarrow>
                  if \<not> sameExchangeSubscription persisted candidate then returnE (signals_no_result, Some (Sentinel SignalsErrConflict))
                  else signals_committed (audit persisted) created
              | Inl writeErr \<Rightarrow>
                  tryE (attemptE (storeGetSubscription (ssv_organizationID sv) (sub_ID candidate))) (\<lambda>observed.
                    let fallback = returnE (signals_no_result,
                      Some (if err_is writeErr SignalsErrNotFound then Sentinel SignalsErrReferenceMissing else writeErr)) in
                    case observed of
                      Inr stored \<Rightarrow>
                        if sameExchangeSubscription stored candidate then signals_joined writeErr (audit stored) \<lparr>sir_Committed = True, sir_Created = False\<rparr>
                        else fallback
                    | Inl _ \<Rightarrow> fallback))))))"

end
