(* ===== verification/Signals_Invariant.thy ===== *)
theory Signals_Invariant
  imports Signals_Exchange Frames
begin

text \<open>
  The invariant of the Signals store and its preservation by the two writes of alerts. The status of an alert is the replay of its recorded
  history, its revision counts that history (with the wrap-around of \<open>int64\<close>), and the deduplication index names exactly the stored alerts.
\<close>

section \<open>Replaying a history\<close>

definition status_step :: "string \<Rightarrow> string \<Rightarrow> string" where
  "status_step status action =
     (if action = ''created'' \<or> action = ''reopened'' then StatusActive
      else if action = ''acknowledged'' then StatusAcknowledged
      else if action = ''resolved'' then StatusResolved else status)"

definition replay_status :: "AlertHistory list \<Rightarrow> string" where
  "replay_status hs = foldl status_step '''' (map ah_Action hs)"

definition numbered :: "AlertHistory list \<Rightarrow> bool" where
  "numbered hs \<longleftrightarrow> map ah_Revision hs = map (\<lambda>n. i64 (int n)) [1..<Suc (length hs)]"

lemma i64_step: "i64 (i64 x + 1) = i64 (x + 1)"
  unfolding i64_def by (simp add: mod_simps)

lemma numbered_append: "numbered hs \<Longrightarrow> ah_Revision h = i64 (int (Suc (length hs))) \<Longrightarrow> numbered (hs @ [h])"
  by (simp add: numbered_def)

lemma replay_append: "replay_status (hs @ [h]) = status_step (replay_status hs) (ah_Action h)"
  by (simp add: replay_status_def)

section \<open>The invariant\<close>

definition sg_rule_key :: "SignalRule \<Rightarrow> string" where "sg_rule_key r = signalsKey (sgr_OrganizationID r) (sgr_ID r)"
definition sg_alert_key :: "Alert \<Rightarrow> string" where "sg_alert_key a = signalsKey (al_OrganizationID a) (al_ID a)"
definition sg_sub_key :: "Subscription \<Rightarrow> string" where "sg_sub_key s = signalsKey (sub_OrganizationID s) (sub_ID s)"
definition sg_delivery_key :: "Delivery \<Rightarrow> string" where "sg_delivery_key d = signalsKey (dl_OrganizationID d) (dl_ID d)"

lemmas sg_key_defs = sg_rule_key_def sg_alert_key_def sg_sub_key_def sg_delivery_key_def

lemma signalsKey_inj [simp]: "signalsKey org i = signalsKey org j \<longleftrightarrow> i = j"
  by (simp add: signalsKey_def)

definition signal_rules_ok :: "signals_service \<Rightarrow> signals_world \<Rightarrow> bool" where
  "signal_rules_ok sv w \<longleftrightarrow> well_keyed sg_rule_key (sg_rules w) \<and> (\<forall>r \<in> vals (sg_rules w). sgr_OrganizationID r = ssv_organizationID sv) \<and>
     (\<forall>r \<in> vals (sg_rules w). \<forall>r' \<in> vals (sg_rules w). EqualFold (ssv_unicode sv) (sgr_Name r) (sgr_Name r') \<longrightarrow> r = r') \<and>
     length (sg_rules w) \<le> MaximumRules"

definition alert_identity :: "signals_service \<Rightarrow> Alert \<Rightarrow> bool" where
  "alert_identity sv a \<longleftrightarrow> al_OrganizationID a = ssv_organizationID sv \<and>
     al_DeduplicationKey a = deduplicationKey (ssv_sha256 sv) [ssv_organizationID sv, al_RuleID a, al_TargetType a, al_TargetID a] \<and>
     al_ID a = take 32 (al_DeduplicationKey a)"

definition alert_coherent :: "Alert \<Rightarrow> bool" where
  "alert_coherent a \<longleftrightarrow> al_Status a \<in> signal_statuses \<and> (al_Status a = StatusResolved \<longleftrightarrow> al_ResolvedAt a \<noteq> None) \<and>
     (al_Status a = StatusAcknowledged \<longrightarrow> al_AcknowledgedAt a \<noteq> None \<and> al_AcknowledgedBy a \<noteq> '''')"

definition alert_recorded :: "signals_world \<Rightarrow> Alert \<Rightarrow> bool" where
  "alert_recorded w a \<longleftrightarrow> (\<exists>hs. map_of (sg_history w) (sg_alert_key a) = Some hs \<and> hs \<noteq> [] \<and> numbered hs \<and>
     al_Revision a = i64 (int (length hs)) \<and> al_Status a = replay_status hs)"

definition alerts_ok :: "signals_service \<Rightarrow> signals_world \<Rightarrow> bool" where
  "alerts_ok sv w \<longleftrightarrow> well_keyed sg_alert_key (sg_alerts w) \<and>
     (\<forall>a \<in> vals (sg_alerts w). alert_identity sv a \<and> alert_coherent a \<and> alert_recorded w a \<and>
        map_of (sg_alertsByDedup w) (signalsKey (ssv_organizationID sv) (al_DeduplicationKey a)) = Some (al_ID a)) \<and>
     (\<forall>k i. map_of (sg_alertsByDedup w) k = Some i \<longrightarrow>
        (\<exists>a \<in> vals (sg_alerts w). k = signalsKey (ssv_organizationID sv) (al_DeduplicationKey a) \<and> i = al_ID a)) \<and>
     (\<forall>k. map_of (sg_history w) k \<noteq> None \<longrightarrow> map_of (sg_alerts w) k \<noteq> None)"

definition subscription_target :: "Subscription \<Rightarrow> string \<times> string \<times> string" where
  "subscription_target s = (sub_RuleID s, sub_TargetKind s, sub_TargetID s)"

definition subscriptions_ok :: "signals_service \<Rightarrow> signals_world \<Rightarrow> bool" where
  "subscriptions_ok sv w \<longleftrightarrow> well_keyed sg_sub_key (sg_subscriptions w) \<and>
     (\<forall>s \<in> vals (sg_subscriptions w). sub_OrganizationID s = ssv_organizationID sv) \<and>
     inj_on subscription_target (vals (sg_subscriptions w)) \<and> length (sg_subscriptions w) \<le> MaximumSubscriptions"

definition delivery_ok :: "Delivery \<Rightarrow> bool" where
  "delivery_ok d \<longleftrightarrow> dl_Status d \<in> {''pending'', ''delivered'', ''failed''} \<and> (dl_Status d = ''pending'' \<longleftrightarrow> dl_NextAttemptAt d \<noteq> None) \<and>
     dl_Attempts d \<le> MaximumDeliveryTries \<and> (dl_Status d = ''pending'' \<longrightarrow> dl_Attempts d < MaximumDeliveryTries) \<and>
     (dl_Status d \<noteq> ''pending'' \<longrightarrow> 0 < dl_Attempts d)"

definition deliveries_ok :: "signals_service \<Rightarrow> signals_world \<Rightarrow> bool" where
  "deliveries_ok sv w \<longleftrightarrow> well_keyed sg_delivery_key (sg_deliveries w) \<and>
     (\<forall>d \<in> vals (sg_deliveries w). dl_OrganizationID d = ssv_organizationID sv \<and> delivery_ok d)"

definition signals_inv :: "signals_service \<Rightarrow> signals_world \<Rightarrow> bool" where
  "signals_inv sv w \<longleftrightarrow> signal_rules_ok sv w \<and> alerts_ok sv w \<and> subscriptions_ok sv w \<and> deliveries_ok sv w"

lemma signals_invD:
  "signals_inv sv w \<Longrightarrow> signal_rules_ok sv w" "signals_inv sv w \<Longrightarrow> alerts_ok sv w"
  "signals_inv sv w \<Longrightarrow> subscriptions_ok sv w" "signals_inv sv w \<Longrightarrow> deliveries_ok sv w"
  by (simp_all add: signals_inv_def)

text \<open>Clock readings, random bytes and audit calls leave the store alone.\<close>

definition same_signals :: "signals_world \<Rightarrow> signals_world \<Rightarrow> bool" where
  "same_signals w w' \<longleftrightarrow> sg_rules w' = sg_rules w \<and> sg_alerts w' = sg_alerts w \<and> sg_alertsByDedup w' = sg_alertsByDedup w \<and>
     sg_history w' = sg_history w \<and> sg_subscriptions w' = sg_subscriptions w \<and> sg_deliveries w' = sg_deliveries w"

lemma same_signals_refl [simp]: "same_signals w w"
  by (simp add: same_signals_def)

lemma same_signals_inv: "same_signals w w' \<Longrightarrow> signals_inv sv w \<Longrightarrow> signals_inv sv w'"
  unfolding signals_inv_def signal_rules_ok_def alerts_ok_def alert_recorded_def subscriptions_ok_def deliveries_ok_def same_signals_def by simp

interpretation still: frame same_signals
  by unfold_locales (auto simp: same_signals_def)

section \<open>Writing alerts\<close>

definition stored_alert :: "signals_world \<Rightarrow> Alert \<Rightarrow> bool" where
  "stored_alert w a \<longleftrightarrow> map_of (sg_alerts w) (sg_alert_key a) = Some a"

lemma stored_alert_vals: "alerts_ok sv w \<Longrightarrow> a \<in> vals (sg_alerts w) \<longleftrightarrow> stored_alert w a"
  unfolding stored_alert_def by (rule vals_iff) (simp add: alerts_ok_def)

definition alert_evolves :: "Alert \<Rightarrow> Alert \<Rightarrow> string \<Rightarrow> bool" where
  "alert_evolves a b action \<longleftrightarrow> al_ID b = al_ID a \<and> al_OrganizationID b = al_OrganizationID a \<and> al_RuleID b = al_RuleID a \<and>
     al_TargetType b = al_TargetType a \<and> al_TargetID b = al_TargetID a \<and> al_DeduplicationKey b = al_DeduplicationKey a \<and>
     al_Revision b = i64 (al_Revision a + 1) \<and> al_Status b = status_step (al_Status a) action \<and> alert_coherent b"

lemma updated_alert_ok:
  assumes ok: "alerts_ok sv w" and a: "stored_alert w a" and b: "alert_evolves a b (ah_Action h)" and h: "ah_Revision h = al_Revision b"
  shows "alerts_ok sv (append_history (sg_alert_key b) h (w\<lparr>sg_alerts := AList.update (sg_alert_key b) b (sg_alerts w)\<rparr>))" (is "alerts_ok sv ?w")
proof -
  have key: "sg_alert_key b = sg_alert_key a" using b by (simp add: alert_evolves_def sg_alert_key_def)
  have wk: "well_keyed sg_alert_key (sg_alerts w)" using ok by (simp add: alerts_ok_def)
  have va: "a \<in> vals (sg_alerts w)" using a stored_alert_vals[OF ok] by simp
  note oka = ok[unfolded alerts_ok_def, THEN conjunct2, THEN conjunct1, rule_format, OF va]
  obtain hs where hs: "map_of (sg_history w) (sg_alert_key a) = Some hs" "hs \<noteq> []" "numbered hs" "al_Revision a = i64 (int (length hs))" "al_Status a = replay_status hs"
    using oka by (auto simp: alert_recorded_def)
  have hist: "map_of (sg_history ?w) = (map_of (sg_history w))(sg_alert_key b \<mapsto> hs @ [h])"
    using hs(1) by (simp add: append_history_def key)
  have alerts: "sg_alerts ?w = AList.update (sg_alert_key b) b (sg_alerts w)" and index: "sg_alertsByDedup ?w = sg_alertsByDedup w"
    by (simp_all add: append_history_def)
  have vals: "vals (sg_alerts ?w) = insert b {c \<in> vals (sg_alerts w). sg_alert_key c \<noteq> sg_alert_key b}"
    unfolding alerts by (rule vals_update[OF wk]) simp
  have rev: "al_Revision b = i64 (int (Suc (length hs)))" using b hs(4) i64_step[of "int (length hs)"] by (simp add: alert_evolves_def add.commute)
  have recorded: "alert_recorded ?w b"
    using hs b h rev numbered_append[OF hs(3), of h] by (auto simp: alert_recorded_def hist replay_append alert_evolves_def)
  have other: "alert_recorded ?w c" if "c \<in> vals (sg_alerts w)" "sg_alert_key c \<noteq> sg_alert_key b" for c
    using that ok by (auto simp: alerts_ok_def alert_recorded_def hist)
  have b_ok: "alert_identity sv b \<and> alert_coherent b \<and>
      map_of (sg_alertsByDedup w) (signalsKey (ssv_organizationID sv) (al_DeduplicationKey b)) = Some (al_ID b)"
  proof -
    have ids: "al_OrganizationID b = al_OrganizationID a" "al_RuleID b = al_RuleID a" "al_TargetType b = al_TargetType a" "al_TargetID b = al_TargetID a"
      "al_DeduplicationKey b = al_DeduplicationKey a" "al_ID b = al_ID a" using b by (simp_all add: alert_evolves_def)
    have "alert_coherent b" using b by (simp add: alert_evolves_def)
    then show ?thesis using oka unfolding alert_identity_def ids by blast
  qed
  show ?thesis unfolding alerts_ok_def
  proof (intro conjI)
    show "well_keyed sg_alert_key (sg_alerts ?w)" unfolding alerts by (rule well_keyed_update[OF wk]) simp
    show "\<forall>c \<in> vals (sg_alerts ?w). alert_identity sv c \<and> alert_coherent c \<and> alert_recorded ?w c \<and>
        map_of (sg_alertsByDedup ?w) (signalsKey (ssv_organizationID sv) (al_DeduplicationKey c)) = Some (al_ID c)"
      unfolding vals index using recorded other b_ok ok by (auto simp: alerts_ok_def)
    show "\<forall>k i. map_of (sg_alertsByDedup ?w) k = Some i \<longrightarrow>
        (\<exists>c \<in> vals (sg_alerts ?w). k = signalsKey (ssv_organizationID sv) (al_DeduplicationKey c) \<and> i = al_ID c)"
    proof (intro allI impI)
      fix k i assume "map_of (sg_alertsByDedup ?w) k = Some i"
      then obtain c where c: "c \<in> vals (sg_alerts w)" "k = signalsKey (ssv_organizationID sv) (al_DeduplicationKey c)" "i = al_ID c"
        using ok unfolding index alerts_ok_def by blast
      show "\<exists>c \<in> vals (sg_alerts ?w). k = signalsKey (ssv_organizationID sv) (al_DeduplicationKey c) \<and> i = al_ID c"
      proof (cases "sg_alert_key c = sg_alert_key a")
        case True
        then have "c = a" using c(1) va by (simp add: vals_iff[OF wk])
        then have "k = signalsKey (ssv_organizationID sv) (al_DeduplicationKey b)" "i = al_ID b" using c(2,3) b by (simp_all add: alert_evolves_def)
        then show ?thesis unfolding vals by blast
      next
        case False
        then have "sg_alert_key c \<noteq> sg_alert_key b" using key by simp
        then show ?thesis unfolding vals using c by blast
      qed
    qed
    show "\<forall>k. map_of (sg_history ?w) k \<noteq> None \<longrightarrow> map_of (sg_alerts ?w) k \<noteq> None"
      using ok by (auto simp: hist alerts alerts_ok_def)
  qed
qed

lemma created_alert_ok:
  assumes ok: "alerts_ok sv w" and new: "map_of (sg_alerts w) (sg_alert_key b) = None"
    and b: "alert_identity sv b" "alert_coherent b" "al_Revision b = 1" "al_Status b = StatusActive"
    and h: "ah_Revision h = 1" "ah_Action h = ''created''"
  shows "alerts_ok sv (append_history (sg_alert_key b) h (w\<lparr>sg_alerts := AList.update (sg_alert_key b) b (sg_alerts w),
    sg_alertsByDedup := AList.update (signalsKey (ssv_organizationID sv) (al_DeduplicationKey b)) (al_ID b) (sg_alertsByDedup w)\<rparr>))" (is "alerts_ok sv ?w")
proof -
  have wk: "well_keyed sg_alert_key (sg_alerts w)" using ok by (simp add: alerts_ok_def)
  have nohist: "map_of (sg_history w) (sg_alert_key b) = None" using ok new by (auto simp: alerts_ok_def)
  have hist: "map_of (sg_history ?w) = (map_of (sg_history w))(sg_alert_key b \<mapsto> [h])" using nohist by (simp add: append_history_def)
  have alerts: "sg_alerts ?w = AList.update (sg_alert_key b) b (sg_alerts w)"
    and index: "map_of (sg_alertsByDedup ?w) = (map_of (sg_alertsByDedup w))(signalsKey (ssv_organizationID sv) (al_DeduplicationKey b) \<mapsto> al_ID b)"
    by (simp_all add: append_history_def)
  have fresh: "sg_alert_key c \<noteq> sg_alert_key b" if "c \<in> vals (sg_alerts w)" for c
    using that new by (auto simp: vals_iff[OF wk])
  have vals: "vals (sg_alerts ?w) = insert b (vals (sg_alerts w))"
    unfolding alerts using vals_update[OF wk, of "sg_alert_key b" b] fresh by auto
  have recorded: "alert_recorded ?w b"
    using b(3,4) h by (simp add: alert_recorded_def hist numbered_def replay_status_def status_step_def i64_def)
  have okc: "alert_identity sv c \<and> alert_coherent c \<and> alert_recorded w c \<and>
        map_of (sg_alertsByDedup w) (signalsKey (ssv_organizationID sv) (al_DeduplicationKey c)) = Some (al_ID c)" if "c \<in> vals (sg_alerts w)" for c
    using that ok by (simp add: alerts_ok_def)
  have other: "alert_recorded ?w c" if "c \<in> vals (sg_alerts w)" for c
    using okc[OF that] fresh[OF that] by (simp add: alert_recorded_def hist)
  have indexed: "map_of (sg_alertsByDedup ?w) (signalsKey (ssv_organizationID sv) (al_DeduplicationKey c)) = Some (al_ID c)" if "c \<in> vals (sg_alerts w)" for c
  proof (cases "al_DeduplicationKey c = al_DeduplicationKey b")
    case True
    then have "al_ID c = al_ID b" using okc[OF that] b(1) by (simp add: alert_identity_def)
    then show ?thesis using True by (simp add: index)
  next
    case False
    then show ?thesis using okc[OF that] by (simp add: index)
  qed
  show ?thesis unfolding alerts_ok_def
  proof (intro conjI)
    show "well_keyed sg_alert_key (sg_alerts ?w)" unfolding alerts by (rule well_keyed_update[OF wk]) simp
    show "\<forall>c \<in> vals (sg_alerts ?w). alert_identity sv c \<and> alert_coherent c \<and> alert_recorded ?w c \<and>
        map_of (sg_alertsByDedup ?w) (signalsKey (ssv_organizationID sv) (al_DeduplicationKey c)) = Some (al_ID c)"
    proof
      fix c assume "c \<in> vals (sg_alerts ?w)"
      then consider "c = b" | "c \<in> vals (sg_alerts w)" unfolding vals by blast
      then show "alert_identity sv c \<and> alert_coherent c \<and> alert_recorded ?w c \<and>
        map_of (sg_alertsByDedup ?w) (signalsKey (ssv_organizationID sv) (al_DeduplicationKey c)) = Some (al_ID c)"
      proof cases
        case 1
        then show ?thesis using recorded b(1,2) by (simp add: index)
      next
        case 2
        then show ?thesis using other[OF 2] okc[OF 2] indexed[OF 2] by blast
      qed
    qed
    show "\<forall>k i. map_of (sg_alertsByDedup ?w) k = Some i \<longrightarrow>
        (\<exists>c \<in> vals (sg_alerts ?w). k = signalsKey (ssv_organizationID sv) (al_DeduplicationKey c) \<and> i = al_ID c)"
    proof (intro allI impI)
      fix k i assume *: "map_of (sg_alertsByDedup ?w) k = Some i"
      show "\<exists>c \<in> vals (sg_alerts ?w). k = signalsKey (ssv_organizationID sv) (al_DeduplicationKey c) \<and> i = al_ID c"
      proof (cases "k = signalsKey (ssv_organizationID sv) (al_DeduplicationKey b)")
        case True
        then have "i = al_ID b" using * by (simp add: index)
        then show ?thesis unfolding vals using True by blast
      next
        case False
        then have "map_of (sg_alertsByDedup w) k = Some i" using * by (simp add: index)
        then show ?thesis unfolding vals using ok unfolding alerts_ok_def by blast
      qed
    qed
    show "\<forall>k. map_of (sg_history ?w) k \<noteq> None \<longrightarrow> map_of (sg_alerts ?w) k \<noteq> None"
      using ok by (auto simp: hist alerts alerts_ok_def)
  qed
qed

lemma vals_update_fresh:
  assumes wk: "well_keyed key m" and new: "map_of m (key v) = None"
  shows "vals (AList.update (key v) v m) = insert v (vals m)"
proof -
  have "{v' \<in> vals m. key v' \<noteq> key v} = vals m" using new by (auto simp: vals_iff[OF wk])
  then show ?thesis using vals_update[OF wk, of "key v" v] by simp
qed

section \<open>The two writes as rules\<close>

text \<open>The history of an alert only grows.\<close>

definition history_extends :: "signals_world \<Rightarrow> signals_world \<Rightarrow> bool" where
  "history_extends w w' \<longleftrightarrow> (\<forall>k hs. map_of (sg_history w) k = Some hs \<longrightarrow> (\<exists>hs'. map_of (sg_history w') k = Some (hs @ hs')))"

lemma history_extends_refl [simp]: "history_extends w w"
  by (simp add: history_extends_def)

lemma history_extends_trans: "history_extends w w1 \<Longrightarrow> history_extends w1 w2 \<Longrightarrow> history_extends w w2"
  unfolding history_extends_def by (metis append_assoc)

lemma history_extends_same: "sg_history w' = sg_history w \<Longrightarrow> history_extends w w'"
  by (simp add: history_extends_def)

lemma append_history_extends: "sg_history v = sg_history w \<Longrightarrow> history_extends w (append_history k h v)"
  unfolding history_extends_def append_history_def by (auto split: option.split)

text \<open>An operation on alerts leaves the other tables alone.\<close>

definition same_others :: "signals_world \<Rightarrow> signals_world \<Rightarrow> bool" where
  "same_others w w' \<longleftrightarrow> sg_rules w' = sg_rules w \<and> sg_subscriptions w' = sg_subscriptions w \<and> sg_deliveries w' = sg_deliveries w"

lemma same_others_inv: "same_others w w' \<Longrightarrow> signals_inv sv w \<Longrightarrow> alerts_ok sv w' \<Longrightarrow> signals_inv sv w'"
  unfolding same_others_def signals_inv_def signal_rules_ok_def subscriptions_ok_def deliveries_ok_def by simp

lemma same_others_refl [simp]: "same_others w w"
  by (simp add: same_others_def)

lemma same_others_trans: "same_others w w1 \<Longrightarrow> same_others w1 w2 \<Longrightarrow> same_others w w2"
  by (simp add: same_others_def)

lemma alert_ok: "signals_inv sv w \<Longrightarrow> a \<in> vals (sg_alerts w) \<Longrightarrow> alert_identity sv a \<and> alert_coherent a \<and> alert_recorded w a"
proof -
  assume inv: "signals_inv sv w" and va: "a \<in> vals (sg_alerts w)"
  note ok = signals_invD(2)[OF inv]
  show ?thesis using ok[unfolded alerts_ok_def, THEN conjunct2, THEN conjunct1, rule_format, OF va] by blast
qed

lemma alerts_keyed: "signals_inv sv w \<Longrightarrow> well_keyed sg_alert_key (sg_alerts w)"
  using signals_invD(2) by (auto simp: alerts_ok_def)

lemma dedup_unique:
  assumes inv: "signals_inv sv w" and a: "a \<in> vals (sg_alerts w)" and b: "b \<in> vals (sg_alerts w)" and key: "al_DeduplicationKey a = al_DeduplicationKey b"
  shows "a = b"
proof -
  have "alert_identity sv a" "alert_identity sv b" using alert_ok[OF inv] a b by simp_all
  then have "sg_alert_key a = sg_alert_key b" using key by (simp add: alert_identity_def sg_alert_key_def)
  then show ?thesis using a b by (simp add: vals_iff[OF alerts_keyed[OF inv]])
qed

lemma wpI_storeUpdateAlert:
  assumes inv: "signals_inv sv w" and va: "a \<in> vals (sg_alerts w)" and b: "alert_evolves a b (ah_Action h)" and h: "ah_Revision h = al_Revision b"
    and n: "n = al_Revision a"
    and done': "\<And>w'. signals_inv sv w' \<Longrightarrow> vals (sg_alerts w') = insert b (vals (sg_alerts w) - {a}) \<Longrightarrow> same_others w w' \<Longrightarrow>
      history_extends w w' \<Longrightarrow> Q b w'"
  shows "wp (storeUpdateAlert b n h) Q E w"
proof -
  let ?w = "append_history (sg_alert_key b) h (w\<lparr>sg_alerts := AList.update (sg_alert_key b) b (sg_alerts w)\<rparr>)"
  note wk = alerts_keyed[OF inv]
  have a: "stored_alert w a" using va stored_alert_vals[OF signals_invD(2)[OF inv]] by simp
  have ids: "al_OrganizationID b = al_OrganizationID a" "al_ID b = al_ID a" "al_DeduplicationKey b = al_DeduplicationKey a"
    using b by (simp_all add: alert_evolves_def)
  have key: "sg_alert_key b = sg_alert_key a" by (simp add: sg_alert_key_def ids)
  have run: "storeUpdateAlert b n h w = (Inr b, ?w)"
    using a n by (simp add: storeUpdateAlert_def Let_def stored_alert_def sg_alert_key_def ids)
  have others: "same_others w ?w" by (simp add: same_others_def append_history_def)
  have inv': "signals_inv sv ?w" by (rule same_others_inv[OF others inv updated_alert_ok[OF signals_invD(2)[OF inv] a b h]])
  have "{c \<in> vals (sg_alerts w). sg_alert_key c \<noteq> sg_alert_key b} = vals (sg_alerts w) - {a}"
    using va by (auto simp: vals_iff[OF wk] key)
  then have vals: "vals (sg_alerts ?w) = insert b (vals (sg_alerts w) - {a})"
    using vals_update[OF wk, of "sg_alert_key b" b] by (simp add: append_history_def)
  have "history_extends w ?w" by (simp add: append_history_extends)
  then show ?thesis unfolding wp_def run using done'[OF inv' vals others] by simp
qed

lemma wpI_storeCreateAlert:
  assumes inv: "signals_inv sv w" and index: "map_of (sg_alertsByDedup w) (signalsKey (ssv_organizationID sv) (al_DeduplicationKey b)) = None"
    and b: "alert_identity sv b" "alert_coherent b" "al_Revision b = 1" "al_Status b = StatusActive"
    and h: "ah_Revision h = 1" "ah_Action h = ''created''"
    and done': "\<And>w'. signals_inv sv w' \<Longrightarrow> vals (sg_alerts w') = insert b (vals (sg_alerts w)) \<Longrightarrow> same_others w w' \<Longrightarrow> history_extends w w' \<Longrightarrow> Q b w'"
    and refused: "\<And>e. E e w"
  shows "wp (storeCreateAlert b h) Q E w"
proof (cases "map_of (sg_alerts w) (sg_alert_key b) = None")
  case False
  then show ?thesis using refused by (simp add: wp_def storeCreateAlert_def Let_def sg_alert_key_def)
next
  case True
  note wk = alerts_keyed[OF inv]
  have org: "al_OrganizationID b = ssv_organizationID sv" using b(1) by (simp add: alert_identity_def)
  let ?w = "append_history (sg_alert_key b) h (w\<lparr>sg_alerts := AList.update (sg_alert_key b) b (sg_alerts w),
    sg_alertsByDedup := AList.update (signalsKey (ssv_organizationID sv) (al_DeduplicationKey b)) (al_ID b) (sg_alertsByDedup w)\<rparr>)"
  have run: "storeCreateAlert b h w = (Inr b, ?w)" using True index by (simp add: storeCreateAlert_def Let_def sg_alert_key_def org)
  have others: "same_others w ?w" by (simp add: same_others_def append_history_def)
  have inv': "signals_inv sv ?w" by (rule same_others_inv[OF others inv created_alert_ok[OF signals_invD(2)[OF inv] True b h]])
  have vals: "vals (sg_alerts ?w) = insert b (vals (sg_alerts w))"
    using vals_update_fresh[OF wk True] by (simp add: append_history_def)
  have "history_extends w ?w" by (simp add: append_history_extends)
  then show ?thesis unfolding wp_def run using done'[OF inv' vals others] by simp
qed

text \<open>The deduplication index names the one stored alert of a key.\<close>

lemma wpI_by_dedup:
  assumes inv: "signals_inv sv w"
    and found: "\<And>a. a \<in> vals (sg_alerts w) \<Longrightarrow> al_DeduplicationKey a = k \<Longrightarrow> Q a w"
    and missing: "map_of (sg_alertsByDedup w) (signalsKey (ssv_organizationID sv) k) = None \<Longrightarrow> E (Sentinel SignalsErrNotFound) w"
  shows "wp (storeGetAlertByDeduplicationKey (ssv_organizationID sv) k) Q E w"
proof (cases "map_of (sg_alertsByDedup w) (signalsKey (ssv_organizationID sv) k)")
  case None
  then show ?thesis using missing by (simp add: storeGetAlertByDeduplicationKey_def wp_simps)
next
  case (Some i)
  have ok: "alerts_ok sv w" by (rule signals_invD(2)[OF inv])
  obtain a where a: "a \<in> vals (sg_alerts w)" "al_DeduplicationKey a = k" "i = al_ID a" using ok Some unfolding alerts_ok_def by fastforce
  have s: "stored_alert w a" using a(1) stored_alert_vals[OF ok] by simp
  have "al_OrganizationID a = ssv_organizationID sv" using alert_ok[OF inv a(1)] by (simp add: alert_identity_def)
  then show ?thesis using Some s a found[OF a(1,2)] by (simp add: storeGetAlertByDeduplicationKey_def wp_simps stored_alert_def sg_alert_key_def)
qed

lemma wpI_stored_alert:
  assumes inv: "signals_inv sv w" and "\<And>a. a \<in> vals (sg_alerts w) \<Longrightarrow> Q a w" and "\<And>e. E e w"
  shows "wp (storeGetAlert (ssv_organizationID sv) i) Q E w"
  using assms(2,3) map_of_vals by (fastforce simp: storeGetAlert_def signals_lookup_def wp_simps split: option.split)

end
