(* ===== verification/Signals_Steps.thy ===== *)
theory Signals_Steps
  imports Signals_Invariant
begin

text \<open>
  What every operation of the Signals service does to the store: it keeps the invariant, lets histories only grow and gives no delivery more attempts than it had
  left. \<open>signals_step\<close> is one operation, whatever its arguments, its context and its outcome.
\<close>

section \<open>Progress\<close>

text \<open>The attempts that may still be recorded for the delivery with a given id.\<close>

definition remaining :: "signals_service \<Rightarrow> string \<Rightarrow> signals_world \<Rightarrow> nat" where
  "remaining sv i w =
     (case map_of (sg_deliveries w) (signalsKey (ssv_organizationID sv) i) of
        None \<Rightarrow> MaximumDeliveryTries
      | Some d \<Rightarrow> if dl_Status d = ''pending'' then MaximumDeliveryTries - dl_Attempts d else 0)"

definition signals_progress :: "signals_service \<Rightarrow> signals_world \<Rightarrow> signals_world \<Rightarrow> bool" where
  "signals_progress sv w w' \<longleftrightarrow>
     (signals_inv sv w \<longrightarrow> signals_inv sv w' \<and> history_extends w w' \<and> (\<forall>i. remaining sv i w' \<le> remaining sv i w))"

interpretation progress: frame "signals_progress sv" for sv
  by unfold_locales (auto simp: signals_progress_def intro: history_extends_trans order_trans)

lemma progressI:
  "(signals_inv sv w \<Longrightarrow> signals_inv sv w') \<Longrightarrow> sg_history w' = sg_history w \<Longrightarrow> sg_deliveries w' = sg_deliveries w \<Longrightarrow> signals_progress sv w w'"
  by (simp add: signals_progress_def history_extends_same remaining_def)

lemma progress_same: "same_signals w w' \<Longrightarrow> signals_progress sv w w'"
  by (intro progressI) (auto simp: same_signals_def intro: same_signals_inv)

lemma progress_still: "keeps same_signals m \<Longrightarrow> keeps (signals_progress sv) m"
  by (simp add: keeps_def progress_same)

lemma progress_alerts: "signals_inv sv w' \<Longrightarrow> history_extends w w' \<Longrightarrow> same_others w w' \<Longrightarrow> signals_progress sv w w'"
  by (simp add: signals_progress_def same_others_def remaining_def)

lemma progress_wp: "(\<And>w. signals_inv sv w \<Longrightarrow> wp m (\<lambda>_. signals_progress sv w) (\<lambda>_. signals_progress sv w) w) \<Longrightarrow> keeps (signals_progress sv) m"
  unfolding keeps_def using wp_snd[of m "signals_progress sv w" w for w] by (auto simp: signals_progress_def)

section \<open>Calls that leave the store alone\<close>

lemma still_basic [keeps_intro]: "keeps same_signals read_clock" "keeps same_signals NewCorrelationID"
  by (simp_all add: keeps_def read_clock_def NewCorrelationID_def Let_def same_signals_def split: option.split)

lemma still_AuditorRecord [keeps_intro]: "keeps same_signals (AuditorRecord ev)"
  unfolding keeps_def
proof
  fix w :: signals_world
  have "same_signals w v" if "v \<in> {w, w\<lparr>audit_calls := Suc (audit_calls w)\<rparr>, w\<lparr>audit_calls := Suc (audit_calls w), audits := audit_insert ev (audits w)\<rparr>}" for v
    using that by (auto simp: same_signals_def)
  then show "same_signals w (snd (AuditorRecord ev w))" using AuditorRecord_frame[of ev w] by blast
qed

lemma still_helpers [keeps_intro]:
  "keeps same_signals signals_now" "keeps same_signals (signals_checkWrite cx t i)" "keeps same_signals (signals_audit sv cx a rt ri md)"
  "keeps same_signals (signals_auditExchange sv operation a rt ri md)" "keeps same_signals (id_or_new msg i)"
  unfolding signals_now_def signals_checkWrite_def signals_audit_def signals_auditExchange_def id_or_new_def by (intro keeps_intro)+

lemma still_queries [keeps_intro]:
  "keeps same_signals (storeSignalsSnapshot org maximum)" "keeps same_signals (storeListRules org)" "keeps same_signals (storeGetRule org i)"
  "keeps same_signals (storeListAlerts org query)" "keeps same_signals (storeGetAlert org i)" "keeps same_signals (storeGetAlertByDeduplicationKey org k)"
  "keeps same_signals (storeListAlertHistory org i)" "keeps same_signals (storeListSubscriptions org)" "keeps same_signals (storeGetSubscription org i)"
  "keeps same_signals (storeListPendingDeliveries org t n)"
  unfolding storeSignalsSnapshot_def storeListRules_def storeGetRule_def storeListAlerts_def storeGetAlert_def storeGetAlertByDeduplicationKey_def
    storeListAlertHistory_def storeListSubscriptions_def storeGetSubscription_def storeListPendingDeliveries_def signals_lookup_def
  by (intro keeps_intro)+

lemma still_reads [keeps_intro]:
  "keeps same_signals (ListRules sv)" "keeps same_signals (ListAlerts sv query)" "keeps same_signals (GetAlert sv i)"
  "keeps same_signals (ListAlertHistory sv i)" "keeps same_signals (ListSubscriptions sv)" "keeps same_signals (ListSubscriptionTargets sv cx)"
  "keeps same_signals (ListPendingDeliveries sv t n)" "keeps same_signals (signals_ExportCSV sv query)"
  "keeps same_signals (signals_ExchangeSnapshot sv maximum)" "keeps same_signals (ExchangeSubscription sv i)" "keeps same_signals (ExchangeRule sv i)"
  unfolding ListRules_def ListAlerts_def GetAlert_def ListAlertHistory_def ListSubscriptions_def ListSubscriptionTargets_def
    ListPendingDeliveries_def signals_ExportCSV_def signals_ExchangeSnapshot_def ExchangeSubscription_def ExchangeRule_def
  by (intro keeps_intro)+

section \<open>Writing rules\<close>

lemma rule_added_ok:
  assumes ok: "signal_rules_ok sv w" and org: "sgr_OrganizationID item = ssv_organizationID sv" and new: "map_of (sg_rules w) (signalsKey (ssv_organizationID sv) (sgr_ID item)) = None"
    and name: "\<not> rule_name_taken (ssv_unicode sv) (sg_rules w) item" and room: "\<not> rules_full (sg_rules w) item"
  shows "signal_rules_ok sv (w\<lparr>sg_rules := AList.update (signalsKey (ssv_organizationID sv) (sgr_ID item)) item (sg_rules w)\<rparr>)"
proof -
  have key: "signalsKey (ssv_organizationID sv) (sgr_ID item) = sg_rule_key item" by (simp add: sg_rule_key_def org)
  have wk: "well_keyed sg_rule_key (sg_rules w)" and orgs: "\<forall>r \<in> vals (sg_rules w). sgr_OrganizationID r = ssv_organizationID sv"
    and names: "\<forall>r \<in> vals (sg_rules w). \<forall>r' \<in> vals (sg_rules w). EqualFold (ssv_unicode sv) (sgr_Name r) (sgr_Name r') \<longrightarrow> r = r'"
    using ok by (simp_all add: signal_rules_ok_def)
  have "filter (\<lambda>(_, r). sgr_OrganizationID r = sgr_OrganizationID item) (sg_rules w) = sg_rules w"
    using orgs org by (intro filter_True) (auto simp: vals_def)
  then have len: "length (sg_rules w) < MaximumRules" using room unfolding rules_full_def by simp
  have fresh: "\<forall>r \<in> vals (sg_rules w). \<not> EqualFold (ssv_unicode sv) (sgr_Name r) (sgr_Name item)"
    using name orgs org by (auto simp: rule_name_taken_def list_ex_vals)
  have vals: "vals (AList.update (sg_rule_key item) item (sg_rules w)) = insert item (vals (sg_rules w))"
    using new[unfolded key] by (rule vals_update_fresh[OF wk])
  have "r = r'" if "r \<in> insert item (vals (sg_rules w))" "r' \<in> insert item (vals (sg_rules w))" "EqualFold (ssv_unicode sv) (sgr_Name r) (sgr_Name r')" for r r'
    using that names fresh by (auto dest: EqualFold_sym)
  then show ?thesis unfolding signal_rules_ok_def key
    using well_keyed_update[OF wk, of "sg_rule_key item" item] orgs org len new[unfolded key]
    by (simp add: vals length_update_absent)
qed

lemma rule_replaced_ok:
  assumes ok: "signal_rules_ok sv w" and org: "sgr_OrganizationID item = ssv_organizationID sv" and old: "map_of (sg_rules w) (signalsKey (ssv_organizationID sv) (sgr_ID item)) \<noteq> None"
    and name: "\<not> list_ex (\<lambda>(k, candidate). k \<noteq> signalsKey (ssv_organizationID sv) (sgr_ID item) \<and> sgr_OrganizationID candidate = ssv_organizationID sv \<and>
       EqualFold (ssv_unicode sv) (sgr_Name candidate) (sgr_Name item)) (sg_rules w)"
  shows "signal_rules_ok sv (w\<lparr>sg_rules := AList.update (signalsKey (ssv_organizationID sv) (sgr_ID item)) item (sg_rules w)\<rparr>)"
proof -
  have key: "signalsKey (ssv_organizationID sv) (sgr_ID item) = sg_rule_key item" by (simp add: sg_rule_key_def org)
  have wk: "well_keyed sg_rule_key (sg_rules w)" and orgs: "\<forall>r \<in> vals (sg_rules w). sgr_OrganizationID r = ssv_organizationID sv"
    and names: "\<forall>r \<in> vals (sg_rules w). \<forall>r' \<in> vals (sg_rules w). EqualFold (ssv_unicode sv) (sgr_Name r) (sgr_Name r') \<longrightarrow> r = r'"
    and len: "length (sg_rules w) \<le> MaximumRules"
    using ok by (simp_all add: signal_rules_ok_def)
  have vals: "vals (AList.update (sg_rule_key item) item (sg_rules w)) = insert item {r \<in> vals (sg_rules w). sg_rule_key r \<noteq> sg_rule_key item}"
    by (rule vals_update[OF wk refl])
  have fresh: "\<not> EqualFold (ssv_unicode sv) (sgr_Name r) (sgr_Name item)" if "r \<in> vals (sg_rules w)" "sg_rule_key r \<noteq> sg_rule_key item" for r
  proof
    assume "EqualFold (ssv_unicode sv) (sgr_Name r) (sgr_Name item)"
    moreover have "(sg_rule_key r, r) \<in> set (sg_rules w)" using that(1) by (simp add: vals_iff[OF wk] map_of_SomeD)
    ultimately show False using name[unfolded key] that(2) orgs that(1) org by (auto simp: list_ex_iff)
  qed
  then have "r = r'" if "r \<in> insert item {r \<in> vals (sg_rules w). sg_rule_key r \<noteq> sg_rule_key item}"
      "r' \<in> insert item {r \<in> vals (sg_rules w). sg_rule_key r \<noteq> sg_rule_key item}" "EqualFold (ssv_unicode sv) (sgr_Name r) (sgr_Name r')" for r r'
    using that names by (auto dest: EqualFold_sym)
  then show ?thesis unfolding signal_rules_ok_def key
    using well_keyed_update[OF wk, of "sg_rule_key item" item] orgs org len old[unfolded key]
    by (simp add: vals length_update_present)
qed

lemma progress_rules: "(signal_rules_ok sv w \<Longrightarrow> signal_rules_ok sv (w\<lparr>sg_rules := m\<rparr>)) \<Longrightarrow> signals_progress sv w (w\<lparr>sg_rules := m\<rparr>)"
  by (rule progressI) (simp_all add: signals_inv_def alerts_ok_def alert_recorded_def subscriptions_ok_def deliveries_ok_def)

lemma keeps_storeCreateRule [keeps_intro]:
  "sgr_OrganizationID item = ssv_organizationID sv \<Longrightarrow> keeps (signals_progress sv) (storeCreateRule (ssv_unicode sv) item)"
  by (rule progress.keepsI)
     (auto simp: storeCreateRule_def Let_def progress.refl intro!: progress_rules rule_added_ok)

lemma keeps_storeImportRule [keeps_intro]:
  "sgr_OrganizationID item = ssv_organizationID sv \<Longrightarrow> keeps (signals_progress sv) (storeImportRule (ssv_unicode sv) item)"
  by (rule progress.keepsI)
     (auto simp: storeImportRule_def Let_def progress.refl intro!: progress_rules rule_added_ok split: option.split)

lemma keeps_storeUpdateRule [keeps_intro]:
  "sgr_OrganizationID item = ssv_organizationID sv \<Longrightarrow> keeps (signals_progress sv) (storeUpdateRule (ssv_unicode sv) item n)"
  by (rule progress.keepsI)
     (auto simp: storeUpdateRule_def Let_def progress.refl intro!: progress_rules rule_replaced_ok split: option.split)

section \<open>Writing subscriptions\<close>

lemma subscription_added_ok:
  assumes ok: "subscriptions_ok sv w" and org: "sub_OrganizationID item = ssv_organizationID sv"
    and new: "map_of (sg_subscriptions w) (signalsKey (ssv_organizationID sv) (sub_ID item)) = None"
    and accepted: "\<not> subscription_refused (sg_subscriptions w) item"
  shows "subscriptions_ok sv (w\<lparr>sg_subscriptions := AList.update (signalsKey (ssv_organizationID sv) (sub_ID item)) item (sg_subscriptions w)\<rparr>)"
proof -
  have key: "signalsKey (ssv_organizationID sv) (sub_ID item) = sg_sub_key item" by (simp add: sg_sub_key_def org)
  have wk: "well_keyed sg_sub_key (sg_subscriptions w)" and orgs: "\<forall>s \<in> vals (sg_subscriptions w). sub_OrganizationID s = ssv_organizationID sv"
    and inj: "inj_on subscription_target (vals (sg_subscriptions w))"
    using ok by (simp_all add: subscriptions_ok_def)
  have "filter (\<lambda>(_, s). sub_OrganizationID s = sub_OrganizationID item) (sg_subscriptions w) = sg_subscriptions w"
    using orgs org by (intro filter_True) (auto simp: vals_def)
  then have len: "length (sg_subscriptions w) < MaximumSubscriptions" using accepted unfolding subscription_refused_def by simp
  have fresh: "subscription_target item \<notin> subscription_target ` vals (sg_subscriptions w)"
    using accepted orgs org by (auto simp: subscription_refused_def list_ex_vals subscription_target_def)
  have vals: "vals (AList.update (sg_sub_key item) item (sg_subscriptions w)) = insert item (vals (sg_subscriptions w))"
    using new[unfolded key] by (rule vals_update_fresh[OF wk])
  have "inj_on subscription_target (insert item (vals (sg_subscriptions w)))" using inj fresh by (auto simp: inj_on_insert)
  then show ?thesis unfolding subscriptions_ok_def key
    using well_keyed_update[OF wk, of "sg_sub_key item" item] orgs org len new[unfolded key]
    by (simp add: vals length_update_absent)
qed

lemma progress_subscriptions: "(subscriptions_ok sv w \<Longrightarrow> subscriptions_ok sv (w\<lparr>sg_subscriptions := m\<rparr>)) \<Longrightarrow> signals_progress sv w (w\<lparr>sg_subscriptions := m\<rparr>)"
  by (rule progressI) (simp_all add: signals_inv_def alerts_ok_def alert_recorded_def signal_rules_ok_def deliveries_ok_def)

lemma keeps_storeSubscription [keeps_intro]:
  assumes "sub_OrganizationID item = ssv_organizationID sv"
  shows "keeps (signals_progress sv) (storeCreateSubscription item)" "keeps (signals_progress sv) (storeImportSubscription item)"
  using assms by (auto simp: keeps_def storeCreateSubscription_def storeImportSubscription_def Let_def progress.refl
      intro!: progress_subscriptions subscription_added_ok split: option.split)

lemma well_keyed_filter: "well_keyed key m \<Longrightarrow> well_keyed key (filter P m)"
  by (auto simp: well_keyed_def distinct_map_filter)

text \<open>Deleting a subscription deletes its deliveries with it.\<close>

lemma storeDeleteSubscription_inv:
  assumes "signals_inv sv w"
  shows "signals_inv sv (snd (storeDeleteSubscription org i w)) \<and> history_extends w (snd (storeDeleteSubscription org i w))"
proof -
  have s: "subscriptions_ok sv w" and d: "deliveries_ok sv w" using signals_invD[OF assms] by simp_all
  let ?w = "w\<lparr>sg_subscriptions := AList.delete (signalsKey org i) (sg_subscriptions w),
        sg_deliveries := filter (\<lambda>(_, d). \<not> (dl_OrganizationID d = org \<and> dl_SubscriptionID d = i)) (sg_deliveries w)\<rparr>"
  have sub: "vals (AList.delete (signalsKey org i) (sg_subscriptions w)) \<subseteq> vals (sg_subscriptions w)" by (rule vals_delete)
  have "subscriptions_ok sv ?w" unfolding subscriptions_ok_def using s sub length_delete_le[of "signalsKey org i" "sg_subscriptions w"]
    by (auto simp: subscriptions_ok_def well_keyed_delete intro: inj_on_subset)
  moreover have "deliveries_ok sv ?w" unfolding deliveries_ok_def using d
    by (auto simp: deliveries_ok_def vals_def intro!: well_keyed_filter)
  ultimately have "signals_inv sv ?w" using assms by (simp add: signals_inv_def alerts_ok_def alert_recorded_def signal_rules_ok_def)
  then show ?thesis using assms by (simp add: storeDeleteSubscription_def Let_def history_extends_same)
qed

section \<open>Deliveries\<close>

lemma deliveries_inv: "signals_inv sv w \<Longrightarrow> deliveries_ok sv (w\<lparr>sg_deliveries := m\<rparr>) \<Longrightarrow> signals_inv sv (w\<lparr>sg_deliveries := m\<rparr>)"
  by (simp add: signals_inv_def alerts_ok_def alert_recorded_def signal_rules_ok_def subscriptions_ok_def)

lemma storeCreateDelivery_progress:
  assumes org: "dl_OrganizationID item = ssv_organizationID sv" and fresh: "dl_Status item = ''pending''" "dl_Attempts item = 0" "dl_NextAttemptAt item \<noteq> None"
  shows "keeps (signals_progress sv) (storeCreateDelivery item)"
proof (rule progress.keepsI)
  fix w :: signals_world
  let ?k = "signalsKey (dl_OrganizationID item) (dl_ID item)" let ?w = "w\<lparr>sg_deliveries := AList.update ?k item (sg_deliveries w)\<rparr>"
  have key: "?k = sg_delivery_key item" by (simp add: sg_delivery_key_def)
  show "signals_progress sv w (snd (storeCreateDelivery item w))"
  proof (cases "map_of (sg_deliveries w) ?k")
    case None
    have "signals_progress sv w ?w" unfolding signals_progress_def
    proof (intro impI conjI allI)
      assume inv: "signals_inv sv w"
      then have wk: "well_keyed sg_delivery_key (sg_deliveries w)" by (simp add: signals_inv_def deliveries_ok_def)
      have "delivery_ok item" using fresh by (simp add: delivery_ok_def MaximumDeliveryTries_def)
      then have "deliveries_ok sv ?w" using signals_invD(4)[OF inv] well_keyed_update[OF wk refl, of item] vals_update_fresh[OF wk None[unfolded key]] org
        unfolding key deliveries_ok_def by simp
      then show "signals_inv sv ?w" by (rule deliveries_inv[OF inv])
      show "history_extends w ?w" by (simp add: history_extends_same)
      show "remaining sv i ?w \<le> remaining sv i w" for i using None fresh org by (auto simp: remaining_def)
    qed
    then show ?thesis using None by (simp add: storeCreateDelivery_def Let_def)
  qed (simp add: storeCreateDelivery_def Let_def progress.refl)
qed

lemma attempted_ok:
  "delivery_ok d \<Longrightarrow> dl_Status d = ''pending'' \<Longrightarrow> delivery_ok (attempted now succeeded retryable code d)"
  by (auto simp: delivery_ok_def attempted_def Let_def MaximumDeliveryTries_def)

lemma attempted_frame [simp]:
  "dl_ID (attempted now s r c d) = dl_ID d" "dl_OrganizationID (attempted now s r c d) = dl_OrganizationID d"
  "dl_Attempts (attempted now s r c d) = Suc (dl_Attempts d)"
  by (simp_all add: attempted_def Let_def)

text \<open>A recorded attempt uses up one of the attempts the delivery had left.\<close>

lemma attempt_recorded:
  assumes inv: "signals_inv sv w" and d: "d \<in> vals (sg_deliveries w)" "dl_Status d = ''pending''"
    and w': "w' = w\<lparr>sg_deliveries := AList.update (sg_delivery_key d) (attempted now s r c d) (sg_deliveries w)\<rparr>"
  shows "signals_progress sv w w' \<and> remaining sv (dl_ID d) w' < remaining sv (dl_ID d) w"
proof -
  have wk: "well_keyed sg_delivery_key (sg_deliveries w)" and org: "dl_OrganizationID d = ssv_organizationID sv" and ok: "delivery_ok d"
    using inv d by (simp_all add: signals_inv_def deliveries_ok_def)
  let ?b = "attempted now s r c d"
  have key: "sg_delivery_key d = sg_delivery_key ?b" by (simp add: sg_delivery_key_def)
  have old: "map_of (sg_deliveries w) (sg_delivery_key d) = Some d" using d(1) by (simp add: vals_iff[OF wk])
  have left: "dl_Attempts d < MaximumDeliveryTries" using ok d(2) by (simp add: delivery_ok_def)
  have "deliveries_ok sv w'"
    using signals_invD(4)[OF inv] well_keyed_update[OF wk key] vals_update[OF wk key] attempted_ok[OF ok d(2)] org unfolding w' deliveries_ok_def by auto
  then have "signals_inv sv w'" unfolding w' by (rule deliveries_inv[OF inv])
  moreover have "history_extends w w'" unfolding w' by (simp add: history_extends_same)
  moreover have less: "remaining sv (dl_ID d) w' < remaining sv (dl_ID d) w"
    using old d(2) left unfolding w' by (auto simp: remaining_def sg_delivery_key_def org)
  moreover have "remaining sv i w' \<le> remaining sv i w" for i
  proof (cases "i = dl_ID d")
    case False
    then show ?thesis unfolding w' by (simp add: remaining_def sg_delivery_key_def org)
  qed (use less in simp)
  ultimately show ?thesis by (simp add: signals_progress_def)
qed

lemma wpI_RecordDeliveryAttempt:
  assumes inv: "signals_inv sv w"
    and ok: "\<And>d now w'. d \<in> vals (sg_deliveries w) \<Longrightarrow> dl_ID d = TrimSpace i \<Longrightarrow> signals_progress sv w w' \<Longrightarrow>
      remaining sv (TrimSpace i) w' < remaining sv (TrimSpace i) w \<Longrightarrow> Q (attempted now s r (ToLower (ssv_unicode sv) (TrimSpace code)) d) w'"
    and failed: "\<And>e w'. same_signals w w' \<Longrightarrow> E e w'"
  shows "wp (RecordDeliveryAttempt sv i s r code) Q E w"
proof -
  have wk: "well_keyed sg_delivery_key (sg_deliveries w)" using inv by (simp add: signals_inv_def deliveries_ok_def)
  have run: "wp (storeUpdateDelivery (attempted now s r (ToLower (ssv_unicode sv) (TrimSpace code)) d) (dl_Attempts d)) Q E w1"
    if "find (\<lambda>d. dl_ID d = TrimSpace i) pending = Some d" "set pending \<subseteq> {d \<in> vals (sg_deliveries w). dl_Status d = ''pending''}" "same_signals w w1"
    for d pending now w1
  proof -
    have d: "d \<in> vals (sg_deliveries w)" "dl_Status d = ''pending''" "dl_ID d = TrimSpace i" using that(1,2) by (auto simp: find_Some_iff set_conv_nth)
    have g: "sg_deliveries w1 = sg_deliveries w" using that(3) by (simp add: same_signals_def)
    have d1: "d \<in> vals (sg_deliveries w1)" using d(1) g by simp
    have inv1: "signals_inv sv w1" by (rule same_signals_inv[OF that(3) inv])
    have old: "map_of (sg_deliveries w) (sg_delivery_key d) = Some d" using d(1) by (simp add: vals_iff[OF wk])
    note prog = attempt_recorded[OF inv1 d1 d(2) refl, of now s r "ToLower (ssv_unicode sv) (TrimSpace code)"]
    have same: "remaining sv j w1 = remaining sv j w" for j by (simp add: remaining_def g)
    have "storeUpdateDelivery (attempted now s r (ToLower (ssv_unicode sv) (TrimSpace code)) d) (dl_Attempts d) w1 =
        (Inr (attempted now s r (ToLower (ssv_unicode sv) (TrimSpace code)) d), w1\<lparr>sg_deliveries := AList.update (sg_delivery_key d)
           (attempted now s r (ToLower (ssv_unicode sv) (TrimSpace code)) d) (sg_deliveries w1)\<rparr>)"
      using old by (simp add: storeUpdateDelivery_def Let_def g sg_delivery_key_def)
    then show ?thesis using prog progress.trans[OF progress_same[OF that(3)]] same d(3) by (auto simp: wp_def intro!: ok[OF d(1,3)])
  qed
  have sub: "set (take (nat 500) (sort_key (\<lambda>d. (nanos (dl_CreatedAt d), dl_ID d)) (filter (delivery_pending (ssv_organizationID sv) end_of_time)
      (map snd (sg_deliveries w))))) \<subseteq> {d \<in> vals (sg_deliveries w). dl_Status d = ''pending''}"
    by (auto simp: delivery_pending_def vals_def dest!: in_set_takeD)
  show ?thesis unfolding RecordDeliveryAttempt_def Let_def storeListPendingDeliveries_def
  proof (intro wp_intro still.wpI_keeps[OF still_helpers(1)], goal_cases)
    case (4 pending d now w1)
    show ?case by (rule run[OF _ sub 4(5)]) (use 4 in simp)
  qed (simp_all add: failed)
qed

end
