(* ===== verification/Signals_Evaluate.thy ===== *)
theory Signals_Evaluate
  imports Signals_Steps
begin

text \<open>
  Evaluation of the alert rules: what one candidate, one rule and one whole evaluation do to the stored alerts.
\<close>

section \<open>Alerts that follow an alert\<close>

lemma alert_history_frame [simp]:
  "ah_Action (alert_history sv a action actor t) = action" "ah_Revision (alert_history sv a action actor t) = al_Revision a"
  by (simp_all add: alert_history_def)

lemma refreshed_frame:
  "refreshed_alert rule c asOf a = (b, action) \<Longrightarrow> al_RuleID b = al_RuleID a \<and> al_DeduplicationKey b = al_DeduplicationKey a \<and> al_Status b \<noteq> StatusResolved"
  by (auto simp: refreshed_alert_def Let_def status_defs split: if_splits)

lemma refreshed_evolves:
  assumes "alert_coherent a" and "refreshed_alert rule c asOf a = (b, action)"
  shows "alert_evolves a b action"
proof (cases "al_Status a = StatusResolved")
  case True
  then have "action = ''reopened''" and b: "b = fst (refreshed_alert rule c asOf a)" using assms(2) by (auto simp: refreshed_alert_def Let_def)
  then show ?thesis unfolding b refreshed_alert_def Let_def alert_evolves_def status_step_def
    using True by (simp add: alert_coherent_def status_defs signal_statuses_def)
next
  case False
  then have "action = ''refreshed''" and b: "b = fst (refreshed_alert rule c asOf a)" using assms(2) by (auto simp: refreshed_alert_def Let_def)
  then show ?thesis unfolding b refreshed_alert_def Let_def alert_evolves_def status_step_def
    using False assms(1) by (simp add: alert_coherent_def)
qed

lemma new_alert_frame [simp]:
  "al_DeduplicationKey (new_alert sv rule c k asOf) = k" "al_RuleID (new_alert sv rule c k asOf) = sgr_ID rule"
  "al_Status (new_alert sv rule c k asOf) = StatusActive" "al_Revision (new_alert sv rule c k asOf) = 1"
  by (simp_all add: new_alert_def)

lemma new_alert_ok:
  "alert_identity sv (new_alert sv rule c (candidate_key sv rule c) asOf)" "alert_coherent (new_alert sv rule c k asOf)"
  by (simp_all add: new_alert_def zero_alert_def alert_identity_def candidate_key_def alert_coherent_def status_defs signal_statuses_def)

lemma resolved_frame [simp]:
  "al_DeduplicationKey (resolved_alert asOf a) = al_DeduplicationKey a" "al_RuleID (resolved_alert asOf a) = al_RuleID a"
  "al_Status (resolved_alert asOf a) = StatusResolved"
  by (simp_all add: resolved_alert_def)

lemma resolved_evolves: "alert_coherent a \<Longrightarrow> alert_evolves a (resolved_alert asOf a) ''resolved''"
  by (simp add: resolved_alert_def alert_evolves_def alert_coherent_def status_step_def status_defs signal_statuses_def)

section \<open>One candidate\<close>

lemma returned: "wp (returnE a) Q E = Q a"
  by (rule ext) (simp add: wp_returnE)

text \<open>An operation on the alerts under the keys \<open>K\<close> that may touch other alerts' records nowhere else.\<close>

definition alert_step :: "signals_service \<Rightarrow> string set \<Rightarrow> signals_world \<Rightarrow> signals_world \<Rightarrow> bool" where
  "alert_step sv K w w' \<longleftrightarrow> signals_inv sv w' \<and> signals_progress sv w w' \<and>
     {a \<in> vals (sg_alerts w'). al_DeduplicationKey a \<notin> K} = {a \<in> vals (sg_alerts w). al_DeduplicationKey a \<notin> K} \<and>
     sg_rules w' = sg_rules w \<and> sg_subscriptions w' = sg_subscriptions w"

lemma alert_step_refl: "signals_inv sv w \<Longrightarrow> alert_step sv K w w"
  by (simp add: alert_step_def progress.refl)

lemma alert_step_trans: "alert_step sv K w w1 \<Longrightarrow> alert_step sv K w1 w2 \<Longrightarrow> alert_step sv K w w2"
  unfolding alert_step_def using progress.trans by auto

lemma alert_step_mono: "alert_step sv K w w' \<Longrightarrow> K \<subseteq> L \<Longrightarrow> alert_step sv L w w'"
  unfolding alert_step_def by auto

definition open_alerts :: "signals_world \<Rightarrow> Alert set" where
  "open_alerts w = {a \<in> vals (sg_alerts w). al_Status a \<noteq> StatusResolved}"

text \<open>The one alert of a candidate's key is open afterwards, and keeps its rule if it was there before.\<close>

lemma wpI_upsertCandidate:
  assumes inv: "signals_inv sv w"
    and ok: "\<And>b created w'. alert_step sv {candidate_key sv rule c} w w' \<Longrightarrow> b \<in> open_alerts w' \<Longrightarrow> al_DeduplicationKey b = candidate_key sv rule c \<Longrightarrow>
      (\<And>a. a \<in> vals (sg_alerts w) \<Longrightarrow> al_DeduplicationKey a = candidate_key sv rule c \<Longrightarrow> al_RuleID b = al_RuleID a) \<Longrightarrow>
      (al_RuleID b = sgr_ID rule \<or> (\<exists>a \<in> vals (sg_alerts w). al_DeduplicationKey a = candidate_key sv rule c)) \<Longrightarrow> Q (b, created) w'"
    and failed: "\<And>e. E e w"
  shows "wp (upsertCandidate sv cx rule c (candidate_key sv rule c) asOf) Q E w"
proof -
  let ?k = "candidate_key sv rule c"
  have update: "wp (storeUpdateAlert b (al_Revision a) (alert_history sv b action (signal_actor cx) asOf)) (\<lambda>stored. Q (stored, False)) E w"
    if a: "a \<in> vals (sg_alerts w)" "al_DeduplicationKey a = ?k" and b: "refreshed_alert rule c asOf a = (b, action)" for a b action
  proof (rule wpI_storeUpdateAlert[OF inv a(1)])
    have "alert_coherent a" using alert_ok[OF inv a(1)] by simp
    then show "alert_evolves a b (ah_Action (alert_history sv b action (signal_actor cx) asOf))" using refreshed_evolves b by simp
    note frame = refreshed_frame[OF b]
    fix w' assume w': "signals_inv sv w'" "vals (sg_alerts w') = insert b (vals (sg_alerts w) - {a})" "same_others w w'" "history_extends w w'"
    show "Q (b, False) w'"
    proof (rule ok)
      show "alert_step sv {?k} w w'" using w' frame a(2) progress_alerts[OF w'(1,4,3)] by (auto simp: alert_step_def same_others_def)
      show "b \<in> open_alerts w'" using w'(2) frame by (simp add: open_alerts_def)
      show "al_RuleID b = al_RuleID a'" if "a' \<in> vals (sg_alerts w)" "al_DeduplicationKey a' = ?k" for a'
        using dedup_unique[OF inv that(1) a(1)] that(2) a(2) frame by simp
    qed (use frame a in auto)
  qed simp_all
  have create: "wp (storeCreateAlert (new_alert sv rule c ?k asOf) (alert_history sv (new_alert sv rule c ?k asOf) ''created'' (signal_actor cx) asOf))
      (\<lambda>stored. Q (stored, True)) E w"
    if none: "map_of (sg_alertsByDedup w) (signalsKey (ssv_organizationID sv) ?k) = None"
  proof (rule wpI_storeCreateAlert[OF inv])
    let ?b = "new_alert sv rule c ?k asOf"
    have unused: "al_DeduplicationKey a \<noteq> ?k" if "a \<in> vals (sg_alerts w)" for a
      using none that signals_invD(2)[OF inv] by (auto simp: alerts_ok_def)
    fix w' assume w': "signals_inv sv w'" "vals (sg_alerts w') = insert ?b (vals (sg_alerts w))" "same_others w w'" "history_extends w w'"
    show "Q (?b, True) w'"
    proof (rule ok)
      show "alert_step sv {?k} w w'" using w' progress_alerts[OF w'(1,4,3)] by (auto simp: alert_step_def same_others_def)
      show "?b \<in> open_alerts w'" using w'(2) by (simp add: open_alerts_def status_defs)
    qed (use unused in auto)
  qed (use none new_alert_ok failed in simp_all)
  show ?thesis unfolding upsertCandidate_def Let_def
    by (intro wp_intro wpI_by_dedup[OF inv] update create) (simp_all add: failed returned update create)
qed

section \<open>The candidates of a rule\<close>

definition open_keys :: "signals_world \<Rightarrow> string set" where
  "open_keys w = al_DeduplicationKey ` open_alerts w"

text \<open>Alerts keep the rule they were created for; new ones belong to the rule being evaluated.\<close>

definition owners :: "string \<Rightarrow> string set \<Rightarrow> signals_world \<Rightarrow> signals_world \<Rightarrow> bool" where
  "owners rid K w w' \<longleftrightarrow> (\<forall>b \<in> vals (sg_alerts w').
     (\<exists>a \<in> vals (sg_alerts w). al_DeduplicationKey a = al_DeduplicationKey b \<and> al_RuleID a = al_RuleID b) \<or> (al_DeduplicationKey b \<in> K \<and> al_RuleID b = rid))"

definition upsert_step :: "signals_service \<Rightarrow> string \<Rightarrow> string set \<Rightarrow> signals_world \<Rightarrow> signals_world \<Rightarrow> bool" where
  "upsert_step sv rid K w w' \<longleftrightarrow> alert_step sv K w w' \<and> owners rid K w w' \<and> open_keys w \<subseteq> open_keys w'"

lemma owners_refl: "owners rid K w w"
  by (auto simp: owners_def)

lemma owners_trans: "owners rid K w w1 \<Longrightarrow> owners rid K w1 w2 \<Longrightarrow> owners rid K w w2"
  unfolding owners_def by (metis (no_types, lifting))

lemma upsert_step_refl: "signals_inv sv w \<Longrightarrow> upsert_step sv rid K w w"
  by (simp add: upsert_step_def alert_step_refl owners_refl)

lemma upsert_step_trans: "upsert_step sv rid K w w1 \<Longrightarrow> upsert_step sv rid K w1 w2 \<Longrightarrow> upsert_step sv rid K w w2"
  unfolding upsert_step_def by (blast intro: alert_step_trans owners_trans)

lemma upsert_step_inv: "upsert_step sv rid K w w' \<Longrightarrow> signals_inv sv w'"
  by (simp add: upsert_step_def alert_step_def)

lemma upsert_step_open: "upsert_step sv rid K w w' \<Longrightarrow> k \<in> open_keys w \<Longrightarrow> k \<in> open_keys w'"
  by (auto simp: upsert_step_def)

text \<open>Handing an alert over to the subscriptions only adds deliveries.\<close>

definition delivery_step :: "signals_service \<Rightarrow> signals_world \<Rightarrow> signals_world \<Rightarrow> bool" where
  "delivery_step sv w w' \<longleftrightarrow> signals_progress sv w w' \<and> sg_alerts w' = sg_alerts w \<and> sg_rules w' = sg_rules w \<and> sg_subscriptions w' = sg_subscriptions w"

interpretation delivering: frame "delivery_step sv" for sv
  by unfold_locales (auto simp: delivery_step_def progress.refl intro: progress.trans)

lemma delivery_step_upsert: "delivery_step sv w w' \<Longrightarrow> signals_inv sv w \<Longrightarrow> upsert_step sv rid K w w'"
  by (auto simp: delivery_step_def upsert_step_def alert_step_def owners_def open_keys_def open_alerts_def signals_progress_def)

lemma delivering_create [keeps_intro]: "keeps (delivery_step sv) (storeCreateDelivery (delivery_for sv alert now s))"
proof -
  have "keeps (signals_progress sv) (storeCreateDelivery (delivery_for sv alert now s))"
    by (rule storeCreateDelivery_progress) (simp_all add: delivery_for_def)
  then show ?thesis
    by (simp add: keeps_def delivery_step_def storeCreateDelivery_def Let_def split: option.split)
qed

lemma delivering_enqueue_all [keeps_intro]: "keeps (delivery_step sv) (enqueue_all sv alert now ss)"
  by (induction ss) (auto intro!: keeps_intro)

lemma delivering_enqueue [keeps_intro]: "keeps (delivery_step sv) (enqueueDeliveries sv alert now)"
  unfolding enqueueDeliveries_def storeListSubscriptions_def by (intro keeps_intro)

lemma upsert_stepI:
  assumes step: "alert_step sv {k} w w'" and b: "b \<in> open_alerts w'" "al_DeduplicationKey b = k"
    and kept: "\<And>a. a \<in> vals (sg_alerts w) \<Longrightarrow> al_DeduplicationKey a = k \<Longrightarrow> al_RuleID b = al_RuleID a"
    and owner: "al_RuleID b = rid \<or> (\<exists>a \<in> vals (sg_alerts w). al_DeduplicationKey a = k)" and k: "k \<in> K"
  shows "upsert_step sv rid K w w'"
proof -
  have outside: "a \<in> vals (sg_alerts w') \<longleftrightarrow> a \<in> vals (sg_alerts w)" if "al_DeduplicationKey a \<noteq> k" for a
    using step that unfolding alert_step_def by blast
  have inv: "signals_inv sv w'" using step by (simp add: alert_step_def)
  have vb: "b \<in> vals (sg_alerts w')" using b(1) by (simp add: open_alerts_def)
  have "owners rid K w w'" unfolding owners_def
  proof
    fix b' assume b': "b' \<in> vals (sg_alerts w')"
    show "(\<exists>a \<in> vals (sg_alerts w). al_DeduplicationKey a = al_DeduplicationKey b' \<and> al_RuleID a = al_RuleID b') \<or> (al_DeduplicationKey b' \<in> K \<and> al_RuleID b' = rid)"
    proof (cases "al_DeduplicationKey b' = k")
      case True
      then have "b' = b" using dedup_unique[OF inv b' vb] b(2) by simp
      then show ?thesis using owner kept b(2) k by metis
    qed (use outside b' in blast)
  qed
  moreover have "open_keys w \<subseteq> open_keys w'"
  proof
    fix x assume "x \<in> open_keys w"
    then obtain a where "a \<in> vals (sg_alerts w)" "al_Status a \<noteq> StatusResolved" "x = al_DeduplicationKey a" by (auto simp: open_keys_def open_alerts_def)
    then show "x \<in> open_keys w'" using b outside by (cases "x = k") (force simp: open_keys_def open_alerts_def)+
  qed
  ultimately show ?thesis using alert_step_mono[OF step] k by (simp add: upsert_step_def)
qed

lemma wpI_upsert_step:
  assumes "signals_inv sv w" and "candidate_key sv rule c \<in> K"
    and "\<And>b created w'. upsert_step sv (sgr_ID rule) K w w' \<Longrightarrow> candidate_key sv rule c \<in> open_keys w' \<Longrightarrow> Q (b, created) w'" and "\<And>e. E e w"
  shows "wp (upsertCandidate sv cx rule c (candidate_key sv rule c) asOf) Q E w"
proof (rule wpI_upsertCandidate[OF assms(1)])
  fix b created w'
  assume step: "alert_step sv {candidate_key sv rule c} w w'" "b \<in> open_alerts w'" "al_DeduplicationKey b = candidate_key sv rule c"
    "\<And>a. a \<in> vals (sg_alerts w) \<Longrightarrow> al_DeduplicationKey a = candidate_key sv rule c \<Longrightarrow> al_RuleID b = al_RuleID a"
    "al_RuleID b = sgr_ID rule \<or> (\<exists>a \<in> vals (sg_alerts w). al_DeduplicationKey a = candidate_key sv rule c)"
  have "candidate_key sv rule c \<in> open_keys w'" using step(2,3) by (force simp: open_keys_def)
  then show "Q (b, created) w'" using assms(3) upsert_stepI[OF step assms(2)] by blast
qed (rule assms(4))

lemma wp_upsert_all:
  assumes "signals_inv sv w" and "candidate_key sv rule ` set cs \<subseteq> K"
  shows "wp (upsert_all sv cx rule asOf cs result)
    (\<lambda>(_, failed) w'. upsert_step sv (sgr_ID rule) K w w' \<and> (failed = None \<longrightarrow> candidate_key sv rule ` set cs \<subseteq> open_keys w')) (\<lambda>_ _. False) w"
  using assms
proof (induction cs arbitrary: result w)
  case Nil
  then show ?case by (simp add: wp_simps upsert_step_refl)
next
  case (Cons c cs)
  let ?k = "candidate_key sv rule c"
  have k: "?k \<in> K" using Cons.prems by simp
  have again: "wp (upsert_all sv cx rule asOf cs result')
      (\<lambda>(_, failed) w'. upsert_step sv (sgr_ID rule) K w w' \<and> (failed = None \<longrightarrow> candidate_key sv rule ` set (c # cs) \<subseteq> open_keys w')) (\<lambda>_ _. False) w1"
    if "upsert_step sv (sgr_ID rule) K w w1" "?k \<in> open_keys w1" for w1 result'
  proof (rule wp_mono[OF Cons.IH[OF upsert_step_inv[OF that(1)], of result']])
    show "candidate_key sv rule ` set cs \<subseteq> K" using Cons.prems(2) by simp
  qed (use that(2) upsert_step_open in \<open>auto intro: upsert_step_trans[OF that(1)]\<close>)
  have delivered: "upsert_step sv (sgr_ID rule) K w w2 \<and> ?k \<in> open_keys w2"
    if "upsert_step sv (sgr_ID rule) K w w1" "?k \<in> open_keys w1" "delivery_step sv w1 w2" for w1 w2
  proof -
    have "upsert_step sv (sgr_ID rule) K w1 w2" by (rule delivery_step_upsert[OF that(3) upsert_step_inv[OF that(1)]])
    then show ?thesis using upsert_step_trans[OF that(1)] upsert_step_open that(2) by blast
  qed
  show ?case unfolding upsert_all.simps Let_def
    by (intro wp_intro wpI_upsert_step[OF Cons.prems(1) k] delivering.wpI_keeps[OF delivering_enqueue])
       (auto simp: upsert_step_refl[OF Cons.prems(1)] dest: delivered intro!: again[simplified])
qed

end
