(* ===== verification/Signals_Exact.thy ===== *)
theory Signals_Exact
  imports Signals_Evaluate
begin

text \<open>
  A whole evaluation: alerts of a rule that are no longer observed are resolved, and after an evaluation without error the open alerts of every enabled rule are
  those of its candidates.
\<close>

section \<open>Resolving what is no longer observed\<close>

definition unobserved :: "string set \<Rightarrow> Alert list \<Rightarrow> string set" where
  "unobserved observed alerts = al_DeduplicationKey ` set alerts - observed"

definition resolve_step :: "signals_service \<Rightarrow> string set \<Rightarrow> signals_world \<Rightarrow> signals_world \<Rightarrow> bool" where
  "resolve_step sv K w w' \<longleftrightarrow> alert_step sv K w w' \<and> owners '''' {} w w' \<and> open_keys w' \<subseteq> open_keys w"

lemma resolve_step_refl: "signals_inv sv w \<Longrightarrow> resolve_step sv K w w"
  by (simp add: resolve_step_def alert_step_refl owners_refl)

lemma resolve_step_trans: "resolve_step sv K w w1 \<Longrightarrow> resolve_step sv K w1 w2 \<Longrightarrow> resolve_step sv K w w2"
  unfolding resolve_step_def by (blast intro: alert_step_trans owners_trans)

lemma resolve_stepI:
  assumes inv: "signals_inv sv w" and a: "a \<in> vals (sg_alerts w)" and k: "al_DeduplicationKey a \<in> K"
    and w': "signals_inv sv w'" "vals (sg_alerts w') = insert (resolved_alert t a) (vals (sg_alerts w) - {a})" "same_others w w'" "history_extends w w'"
  shows "resolve_step sv K w w'" and "al_DeduplicationKey a \<notin> open_keys w'"
proof -
  have unique: "c = a" if "c \<in> vals (sg_alerts w)" "al_DeduplicationKey c = al_DeduplicationKey a" for c
    by (rule dedup_unique[OF inv that(1) a that(2)])
  have before: "\<exists>c \<in> vals (sg_alerts w). al_DeduplicationKey c = al_DeduplicationKey b \<and> al_RuleID c = al_RuleID b \<and> (al_Status b \<noteq> StatusResolved \<longrightarrow> c = b)"
    if "b \<in> vals (sg_alerts w')" for b
  proof (cases "b = resolved_alert t a")
    case True
    then show ?thesis using a by (intro bexI[of _ a]) simp_all
  next
    case False
    then show ?thesis using that w'(2) by blast
  qed
  have "{b \<in> vals (sg_alerts w'). al_DeduplicationKey b \<notin> K} = {b \<in> vals (sg_alerts w). al_DeduplicationKey b \<notin> K}"
    unfolding w'(2) using k by auto
  then have "alert_step sv K w w'" using w'(1,3) progress_alerts[OF w'(1,4,3)] by (simp add: alert_step_def same_others_def)
  moreover have "owners '''' {} w w'" unfolding owners_def using before by blast
  moreover have "open_keys w' \<subseteq> open_keys w"
  proof
    fix x assume "x \<in> open_keys w'"
    then obtain b where b: "b \<in> vals (sg_alerts w')" "al_Status b \<noteq> StatusResolved" "x = al_DeduplicationKey b" by (auto simp: open_keys_def open_alerts_def)
    obtain c where "c \<in> vals (sg_alerts w)" "al_Status b \<noteq> StatusResolved \<longrightarrow> c = b" using before[OF b(1)] by blast
    then have "b \<in> open_alerts w" using b(2) by (simp add: open_alerts_def)
    then show "x \<in> open_keys w" using b(3) by (simp add: open_keys_def)
  qed
  ultimately show "resolve_step sv K w w'" by (simp add: resolve_step_def)
  show "al_DeduplicationKey a \<notin> open_keys w'"
  proof
    assume "al_DeduplicationKey a \<in> open_keys w'"
    then obtain b where b: "b \<in> vals (sg_alerts w')" "al_Status b \<noteq> StatusResolved" "al_DeduplicationKey b = al_DeduplicationKey a"
      by (auto simp: open_keys_def open_alerts_def)
    have "b \<noteq> resolved_alert t a" using b(2) resolved_frame(3)[of t a] by metis
    then have "b \<in> vals (sg_alerts w) - {a}" using b(1) unfolding w'(2) by blast
    then show False using unique b(3) by blast
  qed
qed

lemma wp_resolve_all:
  assumes "signals_inv sv w" and "distinct alerts" and "\<And>a. a \<in> set alerts \<Longrightarrow> al_DeduplicationKey a \<notin> observed \<Longrightarrow> a \<in> vals (sg_alerts w)"
    and "unobserved observed alerts \<subseteq> K"
  shows "wp (resolve_all sv cx asOf observed alerts result)
    (\<lambda>(_, failed) w'. resolve_step sv K w w' \<and> (failed = None \<longrightarrow> unobserved observed alerts \<inter> open_keys w' = {})) (\<lambda>_ _. False) w"
  using assms
proof (induction alerts arbitrary: result w)
  case Nil
  then show ?case by (simp add: wp_simps resolve_step_refl unobserved_def)
next
  case (Cons a alerts)
  have rest: "unobserved observed alerts \<subseteq> K" using Cons.prems(4) by (auto simp: unobserved_def)
  show ?case
  proof (cases "al_DeduplicationKey a \<in> observed")
    case True
    have "unobserved observed (a # alerts) = unobserved observed alerts" using True by (auto simp: unobserved_def)
    then show ?thesis using Cons.IH[OF Cons.prems(1) _ _ rest] Cons.prems(2,3) True by simp
  next
    case False
    let ?k = "al_DeduplicationKey a"
    have a: "a \<in> vals (sg_alerts w)" using Cons.prems(3) False by simp
    have k: "?k \<in> K" using Cons.prems(4) False by (auto simp: unobserved_def)
    have coherent: "alert_coherent a" using alert_ok[OF Cons.prems(1) a] by simp
    have next': "wp (resolve_all sv cx asOf observed alerts result')
        (\<lambda>(_, failed) w'. resolve_step sv K w w' \<and> (failed = None \<longrightarrow> unobserved observed (a # alerts) \<inter> open_keys w' = {})) (\<lambda>_ _. False) w1"
      if w1: "signals_inv sv w1" "vals (sg_alerts w1) = insert (resolved_alert asOf a) (vals (sg_alerts w) - {a})" "same_others w w1" "history_extends w w1"
      for w1 result'
    proof (rule wp_mono[OF Cons.IH[OF w1(1) _ _ rest, of result']])
      note step = resolve_stepI[OF Cons.prems(1) a k w1]
      show "distinct alerts" using Cons.prems(2) by simp
      show "b \<in> vals (sg_alerts w1)" if "b \<in> set alerts" "al_DeduplicationKey b \<notin> observed" for b
        using that Cons.prems(2,3) w1(2) by auto
      fix r w2 assume r: "(case r of (_, failed) \<Rightarrow> \<lambda>w'. resolve_step sv K w1 w' \<and> (failed = None \<longrightarrow> unobserved observed alerts \<inter> open_keys w' = {})) w2"
      obtain res failed where [simp]: "r = (res, failed)" by fastforce
      have w2: "resolve_step sv K w1 w2" "failed = None \<Longrightarrow> unobserved observed alerts \<inter> open_keys w2 = {}" using r by simp_all
      have "?k \<notin> open_keys w2" using w2(1) step(2) by (auto simp: resolve_step_def)
      moreover have "unobserved observed (a # alerts) = insert ?k (unobserved observed alerts)" using False by (auto simp: unobserved_def)
      ultimately show "(case r of (_, failed) \<Rightarrow> \<lambda>w'. resolve_step sv K w w' \<and> (failed = None \<longrightarrow> unobserved observed (a # alerts) \<inter> open_keys w' = {})) w2"
        using resolve_step_trans[OF step(1) w2(1)] w2(2) by simp
    qed
    show ?thesis unfolding resolve_all.simps Let_def
      using False by (intro wp_intro wpI_storeUpdateAlert[OF Cons.prems(1) a]) (simp_all add: resolved_evolves[OF coherent] next')
  qed
qed

section \<open>One rule\<close>

definition observed :: "signals_service \<Rightarrow> signals_ctx \<Rightarrow> gotime \<Rightarrow> SignalRule \<Rightarrow> Candidate list" where
  "observed sv cx asOf rule =
     (case sgx_evaluate cx rule asOf of Inl _ \<Rightarrow> [] | Inr cs \<Rightarrow> (case normalize_candidates sv rule [] cs of Inl _ \<Rightarrow> [] | Inr normalized \<Rightarrow> normalized))"

definition observed_keys :: "signals_service \<Rightarrow> signals_ctx \<Rightarrow> gotime \<Rightarrow> SignalRule \<Rightarrow> string set" where
  "observed_keys sv cx asOf rule = candidate_key sv rule ` set (observed sv cx asOf rule)"

definition open_of :: "string \<Rightarrow> signals_world \<Rightarrow> Alert set" where
  "open_of rid w = {a \<in> open_alerts w. al_RuleID a = rid}"

definition rule_alerts :: "string \<Rightarrow> signals_world \<Rightarrow> Alert set" where
  "rule_alerts rid w = {a \<in> vals (sg_alerts w). al_RuleID a = rid}"

lemma distinct_values: "well_keyed key m \<Longrightarrow> distinct (map snd m)"
proof (induction m)
  case (Cons p m)
  have m: "well_keyed key m" using Cons.prems by (simp add: well_keyed_def)
  have "snd p \<notin> snd ` set m"
  proof
    assume "snd p \<in> snd ` set m"
    then obtain k where k: "(k, snd p) \<in> set m" by auto
    then have "k = key (snd p)" "fst p = key (snd p)" using Cons.prems by (auto simp: well_keyed_def)
    then have "fst p \<in> fst ` set m" using k by force
    then show False using Cons.prems by (simp add: well_keyed_def)
  qed
  then show ?case using Cons.IH[OF m] by simp
qed simp

lemma signals_listed:
  assumes wk: "well_keyed key m" and n: "card {a \<in> vals m. P a} \<le> n"
  shows "set (take n (sort_key f (filter P (map snd m)))) = {a \<in> vals m. P a}"
proof -
  have "distinct (filter P (map snd m))" by (rule distinct_filter[OF distinct_values[OF wk]])
  from distinct_card[OF this] have "card {a \<in> vals m. P a} = length (filter P (map snd m))"
    by (simp add: vals_def)
  then show ?thesis using n by (auto simp: vals_def)
qed

lemma listed_distinct: "well_keyed key m \<Longrightarrow> distinct (take n (sort_key f (filter P (map snd m))))"
  by (intro distinct_take) (simp add: distinct_filter distinct_values)

lemma listed_subset: "set (take n (sort_key f (filter P (map snd m)))) \<subseteq> {a \<in> vals m. P a}"
  by (auto simp: vals_def dest!: in_set_takeD)

lemma status_query:
  assumes "signals_inv sv w"
  shows "{a \<in> vals (sg_alerts w). alert_matches (ssv_organizationID sv) \<lparr>aq_RuleID = rid, aq_Status = s, aq_Severity = '''', aq_Condition = '''', aq_Limit = n\<rparr> a} =
    {a \<in> vals (sg_alerts w). (rid = '''' \<or> al_RuleID a = rid) \<and> (s = '''' \<or> al_Status a = s)}"
  using alert_ok[OF assms] by (auto simp: alert_matches_def alert_identity_def)

text \<open>The open alerts of a rule are listed completely while there are at most 500 of them.\<close>

lemma wpI_list_open:
  assumes inv: "signals_inv sv w"
    and ok: "\<And>alerts. distinct alerts \<Longrightarrow> set alerts \<subseteq> vals (sg_alerts w) \<Longrightarrow>
      (sgr_ID rule \<noteq> '''' \<Longrightarrow> set alerts \<subseteq> open_of (sgr_ID rule) w) \<Longrightarrow>
      (sgr_ID rule \<noteq> '''' \<Longrightarrow> card (open_of (sgr_ID rule) w) \<le> MaximumAlerts \<Longrightarrow> set alerts = open_of (sgr_ID rule) w) \<Longrightarrow> Q alerts w"
  shows "wp (list_open sv rule) Q E w"
proof -
  note wk = alerts_keyed[OF inv]
  let ?q = "\<lambda>s. \<lparr>aq_RuleID = sgr_ID rule, aq_Status = s, aq_Severity = '''', aq_Condition = '''', aq_Limit = int MaximumAlerts\<rparr>"
  let ?l = "\<lambda>s. take (nat (aq_Limit (?q s))) (sort_key (\<lambda>a. (- nanos (al_LastObservedAt a), al_ID a))
       (filter (alert_matches (ssv_organizationID sv) (?q s)) (map snd (sg_alerts w))))"
  let ?S = "\<lambda>s. {a \<in> vals (sg_alerts w). (sgr_ID rule = '''' \<or> al_RuleID a = sgr_ID rule) \<and> (s = '''' \<or> al_Status a = s)}"
  note q = status_query[OF inv, of "sgr_ID rule" _ "int MaximumAlerts"]
  have sub: "set (?l s) \<subseteq> ?S s" for s
    unfolding q[symmetric] by (rule listed_subset)
  have ne: "StatusActive \<noteq> ''''" "StatusAcknowledged \<noteq> ''''" "StatusActive \<noteq> StatusAcknowledged" by (simp_all add: status_defs)
  have all: "open_of (sgr_ID rule) w = ?S StatusActive \<union> ?S StatusAcknowledged" if "sgr_ID rule \<noteq> ''''"
    using alert_ok[OF inv] that by (auto simp: open_of_def open_alerts_def alert_coherent_def signal_statuses_def status_defs)
  show ?thesis unfolding list_open_def Let_def storeListAlerts_def
  proof (intro wp_intro)
    fix active acknowledged assume "Inr (?l StatusActive) = Inr active" "Inr (?l StatusAcknowledged) = Inr acknowledged"
    then have a: "active = ?l StatusActive" "acknowledged = ?l StatusAcknowledged" by simp_all
    show "Q (active @ acknowledged) w"
    proof (rule ok)
      have "?S StatusActive \<inter> ?S StatusAcknowledged = {}" using ne by auto
      then have "set active \<inter> set acknowledged = {}" using sub[of StatusActive] sub[of StatusAcknowledged] unfolding a by blast
      moreover have "distinct active" "distinct acknowledged" unfolding a by (rule listed_distinct[OF wk])+
      ultimately show "distinct (active @ acknowledged)" by simp
      show "set (active @ acknowledged) \<subseteq> vals (sg_alerts w)"
        unfolding a set_append using sub[of StatusActive] sub[of StatusAcknowledged] by blast
      show "set (active @ acknowledged) \<subseteq> open_of (sgr_ID rule) w" if "sgr_ID rule \<noteq> ''''"
        unfolding a set_append all[OF that] using sub by (rule Un_mono[OF _ sub])
      assume rid: "sgr_ID rule \<noteq> ''''" and small: "card (open_of (sgr_ID rule) w) \<le> MaximumAlerts"
      have fin: "finite (open_of (sgr_ID rule) w)" by (simp add: open_of_def open_alerts_def vals_def)
      have "set (?l s) = ?S s" if s: "s = StatusActive \<or> s = StatusAcknowledged" for s
      proof -
        have "?S s \<subseteq> open_of (sgr_ID rule) w" unfolding all[OF rid] using s by (elim disjE) simp_all
        then have "card (?S s) \<le> card (open_of (sgr_ID rule) w)" by (rule card_mono[OF fin])
        then have n: "card (?S s) \<le> nat (aq_Limit (?q s))" using small by simp
        show ?thesis using signals_listed[OF wk n[folded q]] unfolding q .
      qed
      then show "set (active @ acknowledged) = open_of (sgr_ID rule) w" unfolding a all[OF rid] set_append by blast
    qed
  qed simp_all
qed

text \<open>No alert of another rule has the key of a candidate of this rule: their keys are digests of different names.\<close>

definition keys_own :: "signals_service \<Rightarrow> signals_ctx \<Rightarrow> gotime \<Rightarrow> SignalRule \<Rightarrow> signals_world \<Rightarrow> bool" where
  "keys_own sv cx asOf rule w \<longleftrightarrow> sgr_ID rule \<noteq> '''' \<and> (\<forall>a \<in> vals (sg_alerts w). al_DeduplicationKey a \<in> observed_keys sv cx asOf rule \<longrightarrow> al_RuleID a = sgr_ID rule)"

definition rule_done :: "signals_service \<Rightarrow> signals_ctx \<Rightarrow> gotime \<Rightarrow> SignalRule \<Rightarrow> bool \<Rightarrow> signals_world \<Rightarrow> signals_world \<Rightarrow> bool" where
  "rule_done sv cx asOf rule complete w w' \<longleftrightarrow> signals_inv sv w' \<and> signals_progress sv w w' \<and> sg_rules w' = sg_rules w \<and>
     owners (sgr_ID rule) (observed_keys sv cx asOf rule) w w' \<and>
     (keys_own sv cx asOf rule w \<longrightarrow> vals (sg_alerts w') - rule_alerts (sgr_ID rule) w' = vals (sg_alerts w) - rule_alerts (sgr_ID rule) w) \<and>
     (complete \<and> keys_own sv cx asOf rule w \<and> card (open_of (sgr_ID rule) w) \<le> MaximumAlerts \<longrightarrow>
        al_DeduplicationKey ` open_of (sgr_ID rule) w' = observed_keys sv cx asOf rule)"

lemma rule_done_refl: "signals_inv sv w \<Longrightarrow> rule_done sv cx asOf rule False w w"
  by (simp add: rule_done_def progress.refl owners_refl)

lemma owners_weaken: "owners '''' {} w w' \<Longrightarrow> owners rid K w w'"
  unfolding owners_def by blast

lemma outside_eq: "alert_step sv K w w' \<Longrightarrow> al_DeduplicationKey b \<notin> K \<Longrightarrow> b \<in> vals (sg_alerts w') \<longleftrightarrow> b \<in> vals (sg_alerts w)"
  unfolding alert_step_def by blast

lemma ruleset_evaluated:
  assumes inv: "signals_inv sv w" and up: "upsert_step sv (sgr_ID rule) K w w1" and res: "resolve_step sv K2 w1 w2"
    and K: "K = observed_keys sv cx asOf rule" and K2: "K2 = unobserved K alerts" "sgr_ID rule \<noteq> '''' \<Longrightarrow> set alerts \<subseteq> open_of (sgr_ID rule) w"
    and complete: "complete \<Longrightarrow> sgr_ID rule \<noteq> '''' \<Longrightarrow> K \<subseteq> open_keys w1 \<and> K2 \<inter> open_keys w2 = {} \<and> (card (open_of (sgr_ID rule) w) \<le> MaximumAlerts \<longrightarrow> set alerts = open_of (sgr_ID rule) w)"
  shows "rule_done sv cx asOf rule complete w w2"
proof -
  let ?r = "sgr_ID rule"
  note step1 = up[unfolded upsert_step_def, THEN conjunct1] and step2 = res[unfolded resolve_step_def, THEN conjunct1]
  have own1: "owners ?r K w w1" using up by (simp add: upsert_step_def)
  have own: "owners ?r K w w2" using own1 owners_weaken owners_trans res unfolding resolve_step_def by blast
  have inv2: "signals_inv sv w2" using step2 by (simp add: alert_step_def)
  have in_K2: "\<exists>a \<in> rule_alerts ?r w. al_DeduplicationKey a = k" if "sgr_ID rule \<noteq> ''''" "k \<in> K2" for k
    using that(2) K2(1) K2(2)[OF that(1)] by (auto simp: unobserved_def open_of_def open_alerts_def rule_alerts_def)
  have outside: "b \<in> vals (sg_alerts w2) \<longleftrightarrow> b \<in> vals (sg_alerts w)" if "al_DeduplicationKey b \<notin> K" "al_DeduplicationKey b \<notin> K2" for b
    using outside_eq[OF step1 that(1)] outside_eq[OF step2 that(2)] by simp
  have mine: "al_RuleID a = ?r" if own: "keys_own sv cx asOf rule w" and va: "a \<in> vals (sg_alerts w)" and k: "al_DeduplicationKey a \<in> K \<or> al_DeduplicationKey a \<in> K2" for a
    using k
  proof
    assume "al_DeduplicationKey a \<in> K2"
    then obtain a' where "a' \<in> rule_alerts ?r w" "al_DeduplicationKey a' = al_DeduplicationKey a" using in_K2 own unfolding keys_own_def by blast
    then show ?thesis using dedup_unique[OF inv, of a' a] va by (auto simp: rule_alerts_def)
  qed (use own va K in \<open>auto simp: keys_own_def\<close>)
  have kept: "b \<in> vals (sg_alerts w2) \<longleftrightarrow> b \<in> vals (sg_alerts w)" if h: "keys_own sv cx asOf rule w" and b: "al_RuleID b \<noteq> ?r" for b
  proof
    assume b2: "b \<in> vals (sg_alerts w2)"
    then obtain a where a: "a \<in> vals (sg_alerts w)" "al_DeduplicationKey a = al_DeduplicationKey b" "al_RuleID a = al_RuleID b"
      using own b unfolding owners_def by blast
    have "al_DeduplicationKey b \<notin> K" "al_DeduplicationKey b \<notin> K2" using mine[OF h a(1)] a(2,3) b by auto
    then show "b \<in> vals (sg_alerts w)" using outside b2 by blast
  next
    assume b0: "b \<in> vals (sg_alerts w)"
    have "al_DeduplicationKey b \<notin> K" "al_DeduplicationKey b \<notin> K2" using mine[OF h b0] b by auto
    then show "b \<in> vals (sg_alerts w2)" using outside b0 by blast
  qed
  have exact: "al_DeduplicationKey ` open_of ?r w2 = K"
    if c: "complete" and h: "keys_own sv cx asOf rule w" and n: "card (open_of ?r w) \<le> MaximumAlerts"
  proof
    note c = complete[OF c h[unfolded keys_own_def, THEN conjunct1]]
    show "al_DeduplicationKey ` open_of ?r w2 \<subseteq> K"
    proof
      fix k assume "k \<in> al_DeduplicationKey ` open_of ?r w2"
      then obtain b where b: "b \<in> open_of ?r w2" "k = al_DeduplicationKey b" by blast
      show "k \<in> K"
      proof (rule ccontr)
        assume k: "k \<notin> K"
        have "k \<in> open_keys w2" using b by (auto simp: open_keys_def open_of_def)
        then have k2: "k \<notin> K2" using c by blast
        have "b \<in> open_of ?r w" using b(1) outside[of b] k k2 b(2) by (simp add: open_of_def open_alerts_def)
        then have "b \<in> set alerts" using c n by blast
        then show False using k k2 b(2) by (auto simp: K2(1) unobserved_def)
      qed
    qed
    show "K \<subseteq> al_DeduplicationKey ` open_of ?r w2"
    proof
      fix k assume k: "k \<in> K"
      then obtain b where b: "b \<in> open_alerts w1" "al_DeduplicationKey b = k" using c by (auto simp: open_keys_def)
      have vb: "b \<in> vals (sg_alerts w1)" using b(1) by (simp add: open_alerts_def)
      have "k \<notin> K2" using k by (simp add: K2(1) unobserved_def)
      then have "b \<in> open_alerts w2" using outside_eq[OF step2, of b] b by (simp add: open_alerts_def)
      moreover have "al_RuleID b = ?r"
      proof -
        have "(\<exists>a \<in> vals (sg_alerts w). al_DeduplicationKey a = al_DeduplicationKey b \<and> al_RuleID a = al_RuleID b) \<or> al_RuleID b = ?r"
          using own1 vb unfolding owners_def by blast
        then show ?thesis using mine[OF h] b(2) k by auto
      qed
      ultimately have "b \<in> open_of ?r w2" by (simp add: open_of_def)
      then show "k \<in> al_DeduplicationKey ` open_of ?r w2" using b(2) by blast
    qed
  qed
  have "signals_progress sv w w2" using step1 step2 progress.trans unfolding alert_step_def by blast
  moreover have "sg_rules w2 = sg_rules w" using step1 step2 by (simp add: alert_step_def)
  moreover have "vals (sg_alerts w2) - rule_alerts ?r w2 = vals (sg_alerts w) - rule_alerts ?r w" if "keys_own sv cx asOf rule w"
    using kept[OF that] by (auto simp: rule_alerts_def)
  ultimately show ?thesis unfolding rule_done_def using inv2 own exact unfolding K by blast
qed

lemma wp_evaluate_rule:
  assumes inv: "signals_inv sv w"
  shows "wp (evaluate_rule sv cx asOf rule result) (\<lambda>(_, failed) w'. rule_done sv cx asOf rule (failed = None) w w') (\<lambda>_ _. False) w"
proof (cases "sgx_evaluate cx rule asOf")
  case (Inl e)
  then show ?thesis by (simp add: evaluate_rule_def Let_def wp_simps rule_done_refl[OF inv])
next
  case (Inr candidates)
  show ?thesis
  proof (cases "normalize_candidates sv rule [] candidates")
    case (Inl e)
    then show ?thesis using Inr by (simp add: evaluate_rule_def Let_def wp_simps rule_done_refl[OF inv])
  next
    case n: (Inr normalized)
    let ?K = "observed_keys sv cx asOf rule"
    have K: "?K = candidate_key sv rule ` set normalized" using Inr n by (simp add: observed_keys_def observed_def)
    have loops: "wp (tryE (upsert_all sv cx rule asOf normalized result') (\<lambda>(result', failed). case failed of
         Some e \<Rightarrow> returnE (result', Some e) | None \<Rightarrow> resolve_all sv cx asOf ?K alerts result'))
       (\<lambda>(_, failed) w'. rule_done sv cx asOf rule (failed = None) w w') (\<lambda>_ _. False) w"
      if a: "distinct alerts" "set alerts \<subseteq> vals (sg_alerts w)" "sgr_ID rule \<noteq> '''' \<Longrightarrow> set alerts \<subseteq> open_of (sgr_ID rule) w"
        "sgr_ID rule \<noteq> '''' \<Longrightarrow> card (open_of (sgr_ID rule) w) \<le> MaximumAlerts \<Longrightarrow> set alerts = open_of (sgr_ID rule) w"
      for alerts result'
      unfolding wp_tryE
    proof (rule wp_mono[OF wp_upsert_all[OF inv, of rule normalized ?K]])
      fix r1 :: evaluation and w1 :: signals_world
      assume r1: "(case r1 of (_, failed) \<Rightarrow> \<lambda>w'. upsert_step sv (sgr_ID rule) ?K w w' \<and>
        (failed = None \<longrightarrow> candidate_key sv rule ` set normalized \<subseteq> open_keys w')) w1"
      obtain result1 failed1 where [simp]: "r1 = (result1, failed1)" by fastforce
      have up: "upsert_step sv (sgr_ID rule) ?K w w1" and open1: "failed1 = None \<Longrightarrow> ?K \<subseteq> open_keys w1" using r1 by (simp_all add: K)
      note inv1 = upsert_step_inv[OF up]
      show "wp (case r1 of (result', failed) \<Rightarrow> (case failed of Some e \<Rightarrow> returnE (result', Some e) | None \<Rightarrow> resolve_all sv cx asOf ?K alerts result'))
         (\<lambda>(_, failed) w'. rule_done sv cx asOf rule (failed = None) w w') (\<lambda>_ _. False) w1"
      proof (cases failed1)
        case (Some e)
        have "rule_done sv cx asOf rule False w w1"
          by (rule ruleset_evaluated[OF inv up resolve_step_refl[OF inv1] refl refl a(3)]) simp_all
        then show ?thesis using Some by (simp add: wp_simps)
      next
        case None
        have listed: "b \<in> vals (sg_alerts w1)" if "b \<in> set alerts" "al_DeduplicationKey b \<notin> ?K" for b
          using that a(2) outside_eq[OF up[unfolded upsert_step_def, THEN conjunct1] that(2)] by auto
        have "wp (resolve_all sv cx asOf ?K alerts result1)
            (\<lambda>(_, failed) w'. resolve_step sv (unobserved ?K alerts) w1 w' \<and> (failed = None \<longrightarrow> unobserved ?K alerts \<inter> open_keys w' = {})) (\<lambda>_ _. False) w1"
          by (rule wp_resolve_all[OF inv1 a(1) listed order_refl])
        then have "wp (resolve_all sv cx asOf ?K alerts result1) (\<lambda>(_, failed) w'. rule_done sv cx asOf rule (failed = None) w w') (\<lambda>_ _. False) w1"
          by (rule wp_mono) (use open1[OF None] a(3,4) in \<open>auto intro!: ruleset_evaluated[OF inv up _ refl refl]\<close>)
        then show ?thesis using None by simp
      qed
    qed (simp_all add: K)
    show ?thesis unfolding evaluate_rule_def Let_def Inr n sum.case K[symmetric]
      by (intro wp_intro wpI_list_open[OF inv] loops) (simp_all add: rule_done_refl[OF inv])
  qed
qed

section \<open>All rules\<close>

definition enabled_rules :: "SignalRule list \<Rightarrow> SignalRule set" where
  "enabled_rules rules = {r \<in> set rules. sgr_Enabled r}"

text \<open>
  The keys of the observed candidates belong to their rule alone: no stored alert of another rule and no candidate of another rule has the same digest.
\<close>

definition keys_apart :: "signals_service \<Rightarrow> signals_ctx \<Rightarrow> gotime \<Rightarrow> SignalRule list \<Rightarrow> signals_world \<Rightarrow> bool" where
  "keys_apart sv cx asOf rules w \<longleftrightarrow> (\<forall>r \<in> enabled_rules rules. keys_own sv cx asOf r w) \<and>
     (\<forall>r \<in> enabled_rules rules. \<forall>r' \<in> enabled_rules rules. r \<noteq> r' \<longrightarrow> observed_keys sv cx asOf r \<inter> observed_keys sv cx asOf r' = {})"

definition few_open :: "SignalRule list \<Rightarrow> signals_world \<Rightarrow> bool" where
  "few_open rules w \<longleftrightarrow> (\<forall>r \<in> enabled_rules rules. card (open_of (sgr_ID r) w) \<le> MaximumAlerts)"

definition exact :: "signals_service \<Rightarrow> signals_ctx \<Rightarrow> gotime \<Rightarrow> SignalRule list \<Rightarrow> signals_world \<Rightarrow> bool" where
  "exact sv cx asOf rules w \<longleftrightarrow> (\<forall>r \<in> enabled_rules rules. al_DeduplicationKey ` open_of (sgr_ID r) w = observed_keys sv cx asOf r)"

lemma enabled_Cons: "enabled_rules (r # rs) = (if sgr_Enabled r then insert r (enabled_rules rs) else enabled_rules rs)"
  by (auto simp: enabled_rules_def)

lemma kept_rule:
  "vals (sg_alerts w') - rule_alerts rid w' = vals (sg_alerts w) - rule_alerts rid w \<Longrightarrow> r \<noteq> rid \<Longrightarrow> open_of r w' = open_of r w"
  by (auto simp: rule_alerts_def open_of_def open_alerts_def set_eq_iff)

lemma keys_apart_next:
  assumes apart: "keys_apart sv cx asOf (rule # rules) w" and rule: "sgr_Enabled rule" and new: "rule \<notin> set rules"
    and done': "rule_done sv cx asOf rule complete w w1"
  shows "keys_apart sv cx asOf rules w1"
proof -
  have "keys_own sv cx asOf r w1" if r: "r \<in> enabled_rules rules" for r
    unfolding keys_own_def
  proof (intro conjI ballI impI)
    have own: "keys_own sv cx asOf r w" and ne: "r \<noteq> rule"
      using apart r rule new unfolding keys_apart_def by (auto simp: enabled_Cons enabled_rules_def)
    then have disjoint: "observed_keys sv cx asOf rule \<inter> observed_keys sv cx asOf r = {}"
      using apart r rule unfolding keys_apart_def by (auto simp: enabled_Cons)
    show "sgr_ID r \<noteq> ''''" using own by (simp add: keys_own_def)
    fix b assume b: "b \<in> vals (sg_alerts w1)" "al_DeduplicationKey b \<in> observed_keys sv cx asOf r"
    then obtain a where "a \<in> vals (sg_alerts w)" "al_DeduplicationKey a = al_DeduplicationKey b" "al_RuleID a = al_RuleID b"
      using done' disjoint unfolding rule_done_def owners_def by blast
    then show "al_RuleID b = sgr_ID r" using own b(2) unfolding keys_own_def by metis
  qed
  then show ?thesis using apart unfolding keys_apart_def by (simp add: enabled_Cons split: if_splits)
qed

definition rules_done :: "signals_service \<Rightarrow> signals_ctx \<Rightarrow> gotime \<Rightarrow> SignalRule list \<Rightarrow> bool \<Rightarrow> signals_world \<Rightarrow> signals_world \<Rightarrow> bool" where
  "rules_done sv cx asOf rules complete w w' \<longleftrightarrow> signals_inv sv w' \<and> signals_progress sv w w' \<and> sg_rules w' = sg_rules w \<and>
     (distinct (map sgr_ID rules) \<and> keys_apart sv cx asOf rules w \<longrightarrow>
        (\<forall>rid. rid \<notin> sgr_ID ` set rules \<longrightarrow> open_of rid w' = open_of rid w) \<and>
        (complete \<and> few_open rules w \<longrightarrow> exact sv cx asOf rules w'))"

lemma rules_done_step:
  assumes rule: "sgr_Enabled rule" and step: "rule_done sv cx asOf rule True w w1" and rest: "rules_done sv cx asOf rules complete w1 w2"
  shows "rules_done sv cx asOf (rule # rules) complete w w2"
  unfolding rules_done_def
proof (intro conjI impI allI)
  show "signals_inv sv w2" "sg_rules w2 = sg_rules w" using step rest by (simp_all add: rules_done_def rule_done_def)
  show "signals_progress sv w w2" using step rest progress.trans unfolding rules_done_def rule_done_def by blast
next
  assume a: "distinct (map sgr_ID (rule # rules)) \<and> keys_apart sv cx asOf (rule # rules) w"
  then have new: "sgr_ID rule \<notin> sgr_ID ` set rules" and d: "distinct (map sgr_ID rules)" by auto
  have own: "keys_own sv cx asOf rule w" using a rule by (simp add: keys_apart_def enabled_Cons)
  have apart1: "keys_apart sv cx asOf rules w1" by (rule keys_apart_next[OF _ rule _ step]) (use a new in auto)
  have same: "open_of rid w1 = open_of rid w" if "rid \<noteq> sgr_ID rule" for rid
    by (rule kept_rule[OF _ that]) (use step own in \<open>simp add: rule_done_def\<close>)
  have later: "open_of rid w2 = open_of rid w1" if "rid \<notin> sgr_ID ` set rules" for rid
    using rest d apart1 that by (simp add: rules_done_def)
  show "open_of rid w2 = open_of rid w" if "rid \<notin> sgr_ID ` set (rule # rules)" for rid
    using same[of rid] later[of rid] that by simp
  assume c: "complete \<and> few_open (rule # rules) w"
  then have few: "card (open_of (sgr_ID rule) w) \<le> MaximumAlerts" using rule by (simp add: few_open_def enabled_Cons)
  have "few_open rules w1" unfolding few_open_def
  proof
    fix r assume r: "r \<in> enabled_rules rules"
    then have "sgr_ID r \<noteq> sgr_ID rule" using new by (metis (no_types, lifting) enabled_rules_def image_eqI mem_Collect_eq)
    then show "card (open_of (sgr_ID r) w1) \<le> MaximumAlerts" using same c r rule by (simp add: few_open_def enabled_Cons)
  qed
  then have ex: "exact sv cx asOf rules w2" using rest d apart1 c by (simp add: rules_done_def)
  have "al_DeduplicationKey ` open_of (sgr_ID rule) w2 = observed_keys sv cx asOf rule"
    using later[OF new] step own few by (simp add: rule_done_def)
  then show "exact sv cx asOf (rule # rules) w2" using ex rule by (simp add: exact_def enabled_Cons)
qed

lemma rules_done_stop:
  assumes rule: "sgr_Enabled rule" and step: "rule_done sv cx asOf rule complete w w1"
  shows "rules_done sv cx asOf (rule # rules) False w w1"
proof -
  have "open_of rid w1 = open_of rid w" if "keys_apart sv cx asOf (rule # rules) w" "rid \<noteq> sgr_ID rule" for rid
    by (rule kept_rule[OF _ that(2)]) (use step that(1) rule in \<open>simp add: rule_done_def keys_apart_def enabled_Cons\<close>)
  then show ?thesis using step by (simp add: rules_done_def rule_done_def)
qed

lemma rules_done_skip: "\<not> sgr_Enabled rule \<Longrightarrow> rules_done sv cx asOf rules complete w w' \<Longrightarrow> rules_done sv cx asOf (rule # rules) complete w w'"
  by (simp add: rules_done_def keys_apart_def few_open_def exact_def enabled_Cons)

lemma rules_done_inv: "rule_done sv cx asOf rule complete w w1 \<Longrightarrow> signals_inv sv w1"
  by (simp add: rule_done_def)

lemma wp_evaluate_rules:
  assumes "signals_inv sv w"
  shows "wp (evaluate_rules sv cx asOf rules result) (\<lambda>(_, failed) w'. rules_done sv cx asOf rules (failed = None) w w') (\<lambda>_ _. False) w"
  using assms
proof (induction rules arbitrary: result w)
  case Nil
  then show ?case by (simp add: wp_simps rules_done_def progress.refl exact_def enabled_rules_def)
next
  case (Cons rule rules)
  show ?case
  proof (cases "sgr_Enabled rule")
    case False
    show ?thesis using wp_mono[OF Cons.IH[OF Cons.prems, of result]] rules_done_skip[OF False] False by (fastforce simp: split_beta)
  next
    case True
    have "wp (tryE (evaluate_rule sv cx asOf rule result) (\<lambda>(result', failed). case failed of
        Some e \<Rightarrow> returnE (result', Some e) | None \<Rightarrow> evaluate_rules sv cx asOf rules result'))
      (\<lambda>(_, failed) w'. rules_done sv cx asOf (rule # rules) (failed = None) w w') (\<lambda>_ _. False) w"
      unfolding wp_tryE
    proof (rule wp_mono[OF wp_evaluate_rule[OF Cons.prems]])
      fix r1 :: evaluation and w1 :: signals_world
      assume r1: "(case r1 of (_, failed) \<Rightarrow> rule_done sv cx asOf rule (failed = None) w) w1"
      obtain result1 failed1 where [simp]: "r1 = (result1, failed1)" by fastforce
      have step: "rule_done sv cx asOf rule (failed1 = None) w w1" using r1 by simp
      show "wp (case r1 of (result', failed) \<Rightarrow> (case failed of
          Some e \<Rightarrow> returnE (result', Some e) | None \<Rightarrow> evaluate_rules sv cx asOf rules result'))
        (\<lambda>(_, failed) w'. rules_done sv cx asOf (rule # rules) (failed = None) w w') (\<lambda>_ _. False) w1"
      proof (cases failed1)
        case None
        then have "rule_done sv cx asOf rule True w w1" using step by simp
        note next' = rules_done_step[OF True this]
        show ?thesis using wp_mono[OF Cons.IH[OF rules_done_inv[OF step], of result1]] next' None by (fastforce simp: split_beta)
      next
        case (Some e)
        then show ?thesis using rules_done_stop[OF True step] by (simp add: wp_simps)
      qed
    qed simp
    then show ?thesis using True by simp
  qed
qed

section \<open>The evaluation\<close>

lemma listed_rules:
  assumes inv: "signals_inv sv w"
  defines "rules \<equiv> sort_key (\<lambda>r. (sgr_Name r, sgr_ID r)) (filter (\<lambda>r. sgr_OrganizationID r = ssv_organizationID sv) (map snd (sg_rules w)))"
  shows "set rules = vals (sg_rules w)" and "distinct (map sgr_ID rules)"
proof -
  have wk: "well_keyed sg_rule_key (sg_rules w)" and orgs: "\<forall>r \<in> vals (sg_rules w). sgr_OrganizationID r = ssv_organizationID sv"
    using signals_invD(1)[OF inv] by (simp_all add: signal_rules_ok_def)
  show s: "set rules = vals (sg_rules w)" unfolding rules_def using orgs by (auto simp: vals_def)
  have "inj_on sgr_ID (vals (sg_rules w))"
  proof (rule inj_onI)
    fix r r' assume r: "r \<in> vals (sg_rules w)" "r' \<in> vals (sg_rules w)" "sgr_ID r = sgr_ID r'"
    then have "sg_rule_key r = sg_rule_key r'" using orgs by (simp add: sg_rule_key_def)
    then show "r = r'" using r(1,2) by (simp add: vals_iff[OF wk])
  qed
  moreover have "distinct rules" unfolding rules_def using distinct_values[OF wk] by (simp add: distinct_filter)
  ultimately show "distinct (map sgr_ID rules)" by (simp add: distinct_map s)
qed

lemma enabled_set: "set rules = set rules' \<Longrightarrow> enabled_rules rules = enabled_rules rules'"
  by (simp add: enabled_rules_def)

definition evaluated :: "signals_service \<Rightarrow> signals_ctx \<Rightarrow> gotime \<Rightarrow> bool \<Rightarrow> signals_world \<Rightarrow> signals_world \<Rightarrow> bool" where
  "evaluated sv cx asOf complete w w' \<longleftrightarrow> signals_progress sv w w' \<and>
     (complete \<and> keys_apart sv cx asOf (map snd (sg_rules w)) w \<and> few_open (map snd (sg_rules w)) w \<longrightarrow> exact sv cx asOf (map snd (sg_rules w)) w')"

lemma evaluated_stop: "same_signals w w' \<Longrightarrow> evaluated sv cx asOf False w w'"
  by (simp add: evaluated_def progress_same)

lemma same_signals_exact: "same_signals w w' \<Longrightarrow> exact sv cx asOf rules w' = exact sv cx asOf rules w"
  by (simp add: exact_def open_of_def open_alerts_def same_signals_def)

lemma evaluated_audit: "evaluated sv cx asOf complete w w1 \<Longrightarrow> same_signals w1 w2 \<Longrightarrow> evaluated sv cx asOf complete w w2"
  unfolding evaluated_def using same_signals_exact[of w1 w2] progress.trans[OF _ progress_same[of w1 w2]] by blast

lemma same_signals_apart: "same_signals w w' \<Longrightarrow> keys_apart sv cx asOf rules w' = keys_apart sv cx asOf rules w" "same_signals w w' \<Longrightarrow> few_open rules w' = few_open rules w"
  by (simp_all add: keys_apart_def keys_own_def few_open_def open_of_def open_alerts_def same_signals_def)

lemma rules_done_evaluated:
  assumes inv: "signals_inv sv w" and run: "rules_done sv cx asOf (sort_key (\<lambda>r. (sgr_Name r, sgr_ID r))
      (filter (\<lambda>r. sgr_OrganizationID r = ssv_organizationID sv) (map snd (sg_rules w)))) complete w w'"
  shows "evaluated sv cx asOf complete w w'"
proof -
  note rules = listed_rules[OF inv]
  have e: "enabled_rules (sort_key (\<lambda>r. (sgr_Name r, sgr_ID r)) (filter (\<lambda>r. sgr_OrganizationID r = ssv_organizationID sv) (map snd (sg_rules w)))) =
      enabled_rules (map snd (sg_rules w))"
    by (rule enabled_set) (use rules(1) in \<open>simp add: vals_def\<close>)
  show ?thesis using run rules(2) unfolding evaluated_def rules_done_def keys_apart_def few_open_def exact_def e by blast
qed

lemma wpI_evaluation:
  assumes inv: "signals_inv sv w"
    and ok: "\<And>result' failed w'. evaluated sv cx asOf (failed = None) w w' \<Longrightarrow> Q (result', failed) w'"
  shows "wp (evaluate_rules sv cx asOf (sort_key (\<lambda>r. (sgr_Name r, sgr_ID r))
    (filter (\<lambda>r. sgr_OrganizationID r = ssv_organizationID sv) (map snd (sg_rules w)))) result) Q E w"
  by (rule wp_mono[OF wp_evaluate_rules[OF inv]]) (auto intro: ok rules_done_evaluated[OF inv])

lemma evaluated_weaken: "evaluated sv cx asOf True w w' \<Longrightarrow> evaluated sv cx asOf complete w w'"
  by (simp add: evaluated_def)

lemma wp_evaluation_audit:
  assumes "evaluated sv cx asOf (failed = None) w w'"
  shows "wp (case failed of None \<Rightarrow> tryE (attemptE (signals_audit sv cx a rt ri md))
        (case_sum (\<lambda>e. returnE (result, Some (Wrapf msg e))) (\<lambda>_. returnE (result, None))) | Some e \<Rightarrow> returnE (result, Some e))
      (\<lambda>(_, failed). evaluated sv cx asOf (failed = None) w) (\<lambda>_ _. False) w'"
proof (cases failed)
  case None
  then have e: "evaluated sv cx asOf True w w'" using assms by simp
  show ?thesis unfolding None option.case
    by (intro wp_intro still.wpI_keeps[OF still_helpers(3)])
       (auto intro: evaluated_weaken evaluated_audit[OF e])
qed (use assms in \<open>simp add: wp_simps\<close>)

lemma wp_Evaluate:
  assumes inv: "signals_inv sv w" and t: "\<not> IsZero asOf"
  shows "wp (Evaluate sv cx asOf) (\<lambda>(_, failed). evaluated sv cx (UTC asOf) (failed = None) w) (\<lambda>_ _. False) w"
  unfolding Evaluate_def Let_def storeListRules_def using t
  by (intro wp_intro)
     (auto simp: evaluated_stop intro!: wpI_evaluation[OF inv] wp_evaluation_audit)

lemma keeps_evaluate_rules [keeps_intro]: "keeps (signals_progress sv) (evaluate_rules sv cx asOf rules result)"
  by (rule progress_wp) (rule wp_mono[OF wp_evaluate_rules]; auto simp: rules_done_def)

lemma keeps_Evaluate [keeps_intro]: "keeps (signals_progress sv) (Evaluate sv cx asOf)"
  unfolding Evaluate_def by (intro keeps_intro progress_still[OF still_helpers(1)] progress_still[OF still_helpers(3)] progress_still[OF still_queries(2)])

end
