(* ===== verification/Signals_Runs.thy ===== *)
theory Signals_Runs
  imports Signals_Exact
begin

text \<open>
  The operations of the Signals service and runs of them. A step is one operation; its label names the delivery for which it recorded an attempt, if it did, or says
  that it deleted a subscription.
\<close>

section \<open>The operations keep the invariant\<close>

lemmas still_progress = still_helpers[THEN progress_still] still_queries[THEN progress_still] still_reads[THEN progress_still] still_basic[THEN progress_still]

lemma keeps_case_bool [keeps_intro]: "keeps R m \<Longrightarrow> keeps R m' \<Longrightarrow> keeps R (case b of True \<Rightarrow> m | False \<Rightarrow> m')"
  by (cases b) simp_all

lemma keeps_CreateRule: "keeps (signals_progress sv) (CreateRule sv cx input)"
  unfolding CreateRule_def Let_def by (intro keeps_intro still_progress) simp

lemma keeps_ImportRule: "keeps (signals_progress sv) (ImportRule sv operation candidate)"
  unfolding ImportRule_def signals_committed_def signals_joined_def Let_def by (intro keeps_intro still_progress) simp_all

lemma keeps_CreateSubscription: "keeps (signals_progress sv) (CreateSubscription sv cx input)"
  unfolding CreateSubscription_def Let_def by (intro keeps_intro still_progress) simp_all

lemma keeps_ImportSubscription: "keeps (signals_progress sv) (ImportSubscription sv cx operation candidate)"
  unfolding ImportSubscription_def signals_committed_def signals_joined_def Let_def by (intro keeps_intro still_progress) simp_all

text \<open>A rule read from the store belongs to the organization of the service.\<close>

lemma keeps_read_rule:
  assumes "\<And>r. sgr_OrganizationID r = ssv_organizationID sv \<Longrightarrow> keeps (signals_progress sv) (k r)"
  shows "keeps (signals_progress sv) (tryE (storeGetRule (ssv_organizationID sv) i) k)"
proof (rule progress_wp)
  fix w assume inv: "signals_inv sv w"
  have "wp (k r) (\<lambda>_. signals_progress sv w) (\<lambda>_. signals_progress sv w) w" if "map_of (sg_rules w) (signalsKey (ssv_organizationID sv) i) = Some r" for r
  proof (rule progress.wpI_keeps[OF assms])
    show "sgr_OrganizationID r = ssv_organizationID sv" using map_of_vals[OF that] signals_invD(1)[OF inv] by (simp add: signal_rules_ok_def)
  qed auto
  then show "wp (tryE (storeGetRule (ssv_organizationID sv) i) k) (\<lambda>_. signals_progress sv w) (\<lambda>_. signals_progress sv w) w"
    by (simp add: wp_simps storeGetRule_def signals_lookup_def progress.refl split: option.split)
qed

lemma keeps_UpdateRule: "keeps (signals_progress sv) (UpdateRule sv cx i input)"
  unfolding UpdateRule_def Let_def by (intro keeps_read_rule keeps_intro still_progress) simp_all

text \<open>An alert read from the store may be replaced by one that evolves from it.\<close>

lemma keeps_read_alert:
  assumes read: "\<And>a w w1. signals_inv sv w1 \<Longrightarrow> a \<in> vals (sg_alerts w1) \<Longrightarrow> same_signals w w1 \<Longrightarrow>
      wp (k a) (\<lambda>_. signals_progress sv w) (\<lambda>_. signals_progress sv w) w1"
  shows "keeps (signals_progress sv) (tryE (GetAlert sv i) k)"
proof (rule progress_wp)
  fix w assume inv: "signals_inv sv w"
  show "wp (tryE (GetAlert sv i) k) (\<lambda>_. signals_progress sv w) (\<lambda>_. signals_progress sv w) w"
    unfolding GetAlert_def by (intro wp_intro wpI_stored_alert[OF inv] read[OF inv]) (simp_all add: progress.refl)
qed

lemma wp_store_evolved:
  assumes inv: "signals_inv sv w1" and a: "a \<in> vals (sg_alerts w1)" and same: "same_signals w w1"
    and b: "alert_evolves a b action" and n: "n = al_Revision a" and k: "\<And>x. keeps (signals_progress sv) (k x)"
  shows "wp (storeUpdateAlert b n (alert_history sv b action actor t))
    (\<lambda>x. wp (k x) (\<lambda>_. signals_progress sv w) (\<lambda>_. signals_progress sv w)) (\<lambda>_. signals_progress sv w) w1"
proof (rule wpI_storeUpdateAlert[OF inv a])
  show "alert_evolves a b (ah_Action (alert_history sv b action actor t))" using b by simp
  fix w' assume w': "signals_inv sv w'" "vals (sg_alerts w') = insert b (vals (sg_alerts w1) - {a})" "same_others w1 w'" "history_extends w1 w'"
  have "signals_progress sv w w'" by (rule progress.trans[OF progress_same[OF same] progress_alerts[OF w'(1,4,3)]])
  then show "wp (k b) (\<lambda>_. signals_progress sv w) (\<lambda>_. signals_progress sv w) w'"
    using progress.trans by (intro progress.wpI_keeps[OF k]) blast+
qed (simp_all add: n)

lemma acknowledged_evolves:
  "alert_coherent a \<Longrightarrow> al_Status a \<noteq> StatusResolved \<Longrightarrow> actor \<noteq> '''' \<Longrightarrow>
   alert_evolves a (a\<lparr>al_Status := StatusAcknowledged, al_AcknowledgedBy := actor, al_AcknowledgedAt := Some t, al_Revision := i64 (al_Revision a + 1)\<rparr>) ''acknowledged''"
  by (simp add: alert_evolves_def alert_coherent_def status_step_def status_defs signal_statuses_def)

lemma assigned_evolves:
  "alert_coherent a \<Longrightarrow> alert_evolves a (a\<lparr>al_AssignedKind := kind, al_AssignedID := target, al_Revision := i64 (al_Revision a + 1)\<rparr>) ''assigned''"
  by (simp add: alert_evolves_def alert_coherent_def status_step_def)

lemma signal_actor_nonempty: "signal_actor cx \<noteq> ''''"
  by (auto simp: signal_actor_def split: option.split)

lemma same_alerts: "same_signals w w' \<Longrightarrow> sg_alerts w' = sg_alerts w"
  by (simp add: same_signals_def)

lemma same_signals_trans: "same_signals w w1 \<Longrightarrow> same_signals w1 w2 \<Longrightarrow> same_signals w w2"
  by (simp add: same_signals_def)

lemma keeps_audited: "keeps (signals_progress sv) (tryE (wrapE m (signals_audit sv cx ac rt ri md)) (\<lambda>_. returnE (x :: Alert)))"
  by (intro keeps_intro still_progress)

lemma evolves_after_clock:
  assumes r: "signals_inv sv w1" "a \<in> vals (sg_alerts w1)" "same_signals w w1" and c: "same_signals w1 w2"
  shows "signals_inv sv w2" "a \<in> vals (sg_alerts w2)" "same_signals w w2"
  using same_signals_inv[OF c r(1)] same_alerts[OF c] r(2) same_signals_trans[OF r(3) c] by simp_all

lemma keeps_Acknowledge: "keeps (signals_progress sv) (Acknowledge sv cx i n)"
  unfolding Acknowledge_def Let_def
proof (rule keeps_read_alert, intro wpI_if wpI_raiseE wpI_tryE still.wpI_keeps[OF still_helpers(1)], goal_cases)
  case (2 a w w1 now w2)
  note r = evolves_after_clock[OF 2(1-3,6)]
  have c: "alert_coherent a" using alert_ok[OF 2(1,2)] by simp
  show ?case
    by (rule wp_store_evolved[OF r acknowledged_evolves[OF c _ signal_actor_nonempty] _ keeps_audited]) (use 2(4) in auto)
qed (auto simp: progress_same intro: same_signals_trans progress_same)

lemma keeps_AssignAlert: "keeps (signals_progress sv) (AssignAlert sv cx i input)"
  unfolding AssignAlert_def Let_def
proof (rule progress.keeps_branches(1), rule progress.keeps_pure(2), rule keeps_read_alert, intro wpI_if wpI_raiseE wpI_tryE still.wpI_keeps[OF still_helpers(1)], goal_cases)
  case (2 a w w1 now w2)
  note r = evolves_after_clock[OF 2(1-3,6)]
  have c: "alert_coherent a" using alert_ok[OF 2(1,2)] by simp
  show ?case
    by (rule wp_store_evolved[OF r assigned_evolves[OF c] _ keeps_audited]) (use 2(4) in auto)
qed (auto simp: progress_same intro: same_signals_trans progress_same)

section \<open>Runs\<close>

datatype signals_label = Attempted string | Unsubscribed | Other

inductive signals_step :: "signals_service \<Rightarrow> signals_label \<Rightarrow> signals_world \<Rightarrow> signals_world \<Rightarrow> bool" for sv where
  elsewhere: "same_signals w w' \<Longrightarrow> signals_step sv Other w w'"
| create_rule: "signals_step sv Other w (snd (CreateRule sv cx rule_input w))"
| update_rule: "signals_step sv Other w (snd (UpdateRule sv cx i update_input w))"
| import_rule: "signals_step sv Other w (snd (ImportRule sv operation rule w))"
| evaluate: "signals_step sv Other w (snd (Evaluate sv cx asOf w))"
| acknowledge: "signals_step sv Other w (snd (Acknowledge sv cx i n w))"
| assign: "signals_step sv Other w (snd (AssignAlert sv cx i assignment w))"
| subscribe: "signals_step sv Other w (snd (CreateSubscription sv cx subscription_input w))"
| import_subscription: "signals_step sv Other w (snd (ImportSubscription sv cx operation subscription w))"
| unsubscribe: "signals_step sv Unsubscribed w (snd (DeleteSubscription sv cx i w))"
| attempt: "RecordDeliveryAttempt sv i s r code w = (Inr d, w') \<Longrightarrow> signals_step sv (Attempted (TrimSpace i)) w w'"
| attempt_refused: "RecordDeliveryAttempt sv i s r code w = (Inl e, w') \<Longrightarrow> signals_step sv Other w w'"

inductive signals_path :: "signals_service \<Rightarrow> signals_world \<Rightarrow> signals_label list \<Rightarrow> signals_world \<Rightarrow> bool" for sv w where
  here: "signals_path sv w [] w"
| further: "signals_path sv w ls w1 \<Longrightarrow> signals_step sv l w1 w2 \<Longrightarrow> signals_path sv w (ls @ [l]) w2"

inductive_cases signals_step_attempted: "signals_step sv (Attempted i) w w'"

definition signals_empty :: "signals_world \<Rightarrow> bool" where
  "signals_empty w \<longleftrightarrow> sg_rules w = [] \<and> sg_alerts w = [] \<and> sg_alertsByDedup w = [] \<and> sg_history w = [] \<and> sg_subscriptions w = [] \<and> sg_deliveries w = []"

lemma signals_empty_inv: "signals_empty w \<Longrightarrow> signals_inv sv w"
  by (simp add: signals_empty_def signals_inv_def signal_rules_ok_def alerts_ok_def subscriptions_ok_def deliveries_ok_def)

definition grows :: "signals_service \<Rightarrow> signals_world \<Rightarrow> signals_world \<Rightarrow> bool" where
  "grows sv w w' \<longleftrightarrow> (signals_inv sv w \<longrightarrow> signals_inv sv w' \<and> history_extends w w')"

interpretation growing: frame "grows sv" for sv
  by unfold_locales (auto simp: grows_def intro: history_extends_trans)

lemma progress_grows: "signals_progress sv w w' \<Longrightarrow> grows sv w w'"
  by (simp add: signals_progress_def grows_def)

lemma grows_DeleteSubscription: "keeps (grows sv) (DeleteSubscription sv cx i)"
proof -
  have d: "keeps (grows sv) (storeDeleteSubscription org j)" for org j
    using storeDeleteSubscription_inv by (simp add: keeps_def grows_def)
  have still: "keeps (grows sv) m" if "keeps same_signals m" for m :: "'b signals_op"
    using that progress_grows[OF progress_same] by (simp add: keeps_def)
  show ?thesis unfolding DeleteSubscription_def Let_def
    by (intro keeps_intro still[OF still_helpers(2)] still[OF still_helpers(3)] d)
qed

lemma RecordDeliveryAttempt_step:
  assumes inv: "signals_inv sv w" and run: "RecordDeliveryAttempt sv i s r code w = (res, w')"
  shows "signals_progress sv w w'" and "res = Inr d \<Longrightarrow> remaining sv (TrimSpace i) w' < remaining sv (TrimSpace i) w"
proof -
  have *: "wp (RecordDeliveryAttempt sv i s r code) (\<lambda>_ w'. signals_progress sv w w' \<and> remaining sv (TrimSpace i) w' < remaining sv (TrimSpace i) w)
      (\<lambda>_. signals_progress sv w) w"
    by (rule wpI_RecordDeliveryAttempt[OF inv]) (simp_all add: progress_same)
  show "signals_progress sv w w'" using * run by (cases res) (auto simp: wp_iff)
  show "res = Inr d \<Longrightarrow> remaining sv (TrimSpace i) w' < remaining sv (TrimSpace i) w" using * run by (auto simp: wp_iff)
qed

lemma keeps_snd: "keeps R m \<Longrightarrow> R w (snd (m w))"
  by (simp add: keeps_def)

lemma step_progress: "signals_step sv l w w' \<Longrightarrow> signals_inv sv w \<Longrightarrow> l \<noteq> Unsubscribed \<Longrightarrow> signals_progress sv w w'"
  by (induction rule: signals_step.induct)
     (auto intro: progress_same keeps_snd keeps_CreateRule keeps_UpdateRule keeps_ImportRule keeps_Evaluate keeps_Acknowledge keeps_AssignAlert
        keeps_CreateSubscription keeps_ImportSubscription RecordDeliveryAttempt_step(1))

lemma step_grows: "signals_step sv l w w' \<Longrightarrow> grows sv w w'"
proof (cases "l = Unsubscribed")
  case True
  assume "signals_step sv l w w'"
  then show ?thesis using True by cases (auto intro: keeps_snd[OF grows_DeleteSubscription])
next
  case False
  assume step: "signals_step sv l w w'"
  have "signals_progress sv w w'" if "signals_inv sv w" by (rule step_progress[OF step that False])
  then show ?thesis unfolding grows_def signals_progress_def by blast
qed

lemma path_grows: "signals_path sv w ls w' \<Longrightarrow> grows sv w w'"
  by (induction rule: signals_path.induct) (auto intro: growing.refl growing.trans step_grows)

lemma step_attempts:
  assumes "signals_step sv l w w'" and "signals_inv sv w" and "l \<noteq> Unsubscribed"
  shows "(if l = Attempted i then 1 else 0) + remaining sv i w' \<le> remaining sv i w"
proof (cases "l = Attempted i")
  case True
  then have "signals_step sv (Attempted i) w w'" using assms(1) by simp
  then obtain j s r code d where run: "i = TrimSpace j" "RecordDeliveryAttempt sv j s r code w = (Inr d, w')"
    by (rule signals_step_attempted)
  then show ?thesis using RecordDeliveryAttempt_step(2)[OF assms(2) run(2) refl] True by simp
next
  case False
  then show ?thesis using step_progress[OF assms] assms(2) by (simp add: signals_progress_def)
qed

lemma path_attempts:
  assumes "signals_path sv w ls w'" and inv: "signals_inv sv w" and "Unsubscribed \<notin> set ls"
  shows "count_list ls (Attempted i) + remaining sv i w' \<le> remaining sv i w"
  using assms(1,3)
proof (induction rule: signals_path.induct)
  case (further ls w1 l w2)
  have inv1: "signals_inv sv w1" using path_grows[OF further.hyps(1)] inv by (simp add: grows_def)
  have "(if l = Attempted i then 1 else 0) + remaining sv i w2 \<le> remaining sv i w1"
    using further.prems by (intro step_attempts[OF further.hyps(2) inv1]) auto
  moreover have "count_list ls (Attempted i) + remaining sv i w1 \<le> remaining sv i w" using further.IH further.prems by simp
  ultimately show ?case by (simp split: if_splits)
qed simp

end
