(* ===== verification/Signals_Delivery.thy ===== *)
theory Signals_Delivery
  imports Signals_Runs
begin

text \<open>Deliveries: which are enqueued for a new alert, what an attempt leaves behind, and the delays between attempts.\<close>

section \<open>Enqueueing\<close>

lemma wp_enqueue_all:
  assumes "well_keyed sg_delivery_key (sg_deliveries w)"
  shows "wp (enqueue_all sv alert now ss) (\<lambda>_ w'. well_keyed sg_delivery_key (sg_deliveries w') \<and>
     vals (sg_deliveries w') = vals (sg_deliveries w) \<union> delivery_for sv alert now ` {s \<in> set ss. subscription_matches alert s}) (\<lambda>_ _. True) w"
  using assms
proof (induction ss arbitrary: w)
  case Nil
  then show ?case by (simp add: wp_simps)
next
  case (Cons s ss)
  show ?case
  proof (cases "subscription_matches alert s")
    case False
    then have "{x \<in> set (s # ss). subscription_matches alert x} = {x \<in> set ss. subscription_matches alert x}" by auto
    then show ?thesis using Cons.IH[OF Cons.prems] False by simp
  next
    case True
    let ?d = "delivery_for sv alert now s"
    have rest: "wp (enqueue_all sv alert now ss) (\<lambda>_ w'. well_keyed sg_delivery_key (sg_deliveries w') \<and>
        vals (sg_deliveries w') = vals (sg_deliveries w) \<union> delivery_for sv alert now ` {x \<in> set (s # ss). subscription_matches alert x}) (\<lambda>_ _. True) w1"
      if w1: "well_keyed sg_delivery_key (sg_deliveries w1)" "vals (sg_deliveries w1) = insert ?d (vals (sg_deliveries w))" for w1
      by (rule wp_mono[OF Cons.IH[OF w1(1)]]) (use w1(2) True in auto)
    show ?thesis
    proof (cases "map_of (sg_deliveries w) (sg_delivery_key ?d)")
      case None
      let ?w = "w\<lparr>sg_deliveries := AList.update (sg_delivery_key ?d) ?d (sg_deliveries w)\<rparr>"
      have "storeCreateDelivery ?d w = (Inr (?d, True), ?w)" using None by (simp add: storeCreateDelivery_def Let_def sg_delivery_key_def)
      moreover have "well_keyed sg_delivery_key (sg_deliveries ?w)" using well_keyed_update[OF Cons.prems refl] by simp
      moreover have "vals (sg_deliveries ?w) = insert ?d (vals (sg_deliveries w))" using vals_update_fresh[OF Cons.prems None] by simp
      ultimately show ?thesis using True rest[of ?w] by (simp add: wp_tryE) (simp add: wp_def)
    next
      case (Some old)
      have in_vals: "vals (sg_deliveries w) = insert old (vals (sg_deliveries w))" using map_of_vals[OF Some] by blast
      have "storeCreateDelivery ?d w = (if old = ?d then (Inr (old, False), w) else (Inl (Sentinel SignalsErrConflict), w))"
        using Some by (simp add: storeCreateDelivery_def Let_def sg_delivery_key_def)
      then show ?thesis using True rest[OF Cons.prems] in_vals by (cases "old = ?d") (simp_all add: wp_tryE, simp_all add: wp_def)
    qed
  qed
qed

lemma wp_enqueueDeliveries:
  assumes inv: "signals_inv sv w"
  shows "wp (enqueueDeliveries sv alert now) (\<lambda>_ w'. vals (sg_deliveries w') =
     vals (sg_deliveries w) \<union> delivery_for sv alert now ` {s \<in> vals (sg_subscriptions w). subscription_matches alert s}) (\<lambda>_ _. True) w"
proof -
  let ?subs = "sort_key sub_ID (filter (\<lambda>s. sub_OrganizationID s = ssv_organizationID sv) (map snd (sg_subscriptions w)))"
  have wk: "well_keyed sg_delivery_key (sg_deliveries w)" using signals_invD(4)[OF inv] by (simp add: deliveries_ok_def)
  have "set ?subs = vals (sg_subscriptions w)" using signals_invD(3)[OF inv] by (auto simp: subscriptions_ok_def vals_def)
  then have "{s \<in> set ?subs. subscription_matches alert s} = {s \<in> vals (sg_subscriptions w). subscription_matches alert s}" by simp
  with wp_enqueue_all[OF wk, of sv alert now ?subs]
  show ?thesis unfolding enqueueDeliveries_def storeListSubscriptions_def by (simp add: wp_tryE wp_queryE) (erule wp_mono; simp)
qed

section \<open>Delays\<close>

text \<open>The loop doubles once per earlier attempt and stops beyond the cap, below which nothing is lost.\<close>

lemma retry_loop_capped:
  assumes "i \<le> n" and "0 < d"
  shows "min (24 * 60 * Minute) (retry_loop i n d) = min (24 * 60 * Minute) (d * 2 ^ (n - i))"
  using assms
proof (induction i n d rule: retry_loop.induct)
  case (1 i n d)
  show ?case
  proof (cases "i < n \<and> d < 24 * 60 * Minute")
    case True
    then have "n - i = Suc (n - Suc i)" by (simp add: Suc_diff_Suc)
    then show ?thesis using 1 True by (subst retry_loop.simps) (simp add: mult.assoc)
  next
    case False
    have stop: "retry_loop i n d = d" using False by (subst retry_loop.simps) auto
    show ?thesis
    proof (cases "i < n")
      case True
      then have c: "24 * 60 * Minute \<le> d" using False by simp
      have "d * 1 \<le> d * 2 ^ (n - i)" using 1(3) by (intro mult_left_mono) simp_all
      then show ?thesis using c stop by simp
    next
      case False
      then show ?thesis using 1(2) stop by simp
    qed
  qed
qed

lemma retryDelay_capped: "retryDelay n = min (24 * 60 * Minute) (5 * Minute * 2 ^ (n - 1))"
proof -
  have pos: "0 < 5 * Minute" by (simp add: Minute_def Second_def)
  have "min (24 * 60 * Minute) (retry_loop 1 n (5 * Minute)) = min (24 * 60 * Minute) (5 * Minute * 2 ^ (n - 1))"
  proof (cases n)
    case 0
    then show ?thesis by (subst retry_loop.simps) simp
  next
    case (Suc m)
    then show ?thesis by (intro retry_loop_capped pos) simp
  qed
  moreover have "retryDelay n = min (24 * 60 * Minute) (retry_loop 1 n (5 * Minute))"
    unfolding retryDelay_def Let_def min_def by simp
  ultimately show ?thesis by simp
qed

section \<open>Attempts\<close>

lemma remaining_zero:
  assumes inv: "signals_inv sv w"
  shows "remaining sv i w = 0 \<longleftrightarrow> (\<exists>d. map_of (sg_deliveries w) (signalsKey (ssv_organizationID sv) i) = Some d \<and> dl_Status d \<noteq> ''pending'')"
proof (cases "map_of (sg_deliveries w) (signalsKey (ssv_organizationID sv) i)")
  case None
  then show ?thesis by (simp add: remaining_def MaximumDeliveryTries_def)
next
  case (Some d)
  have "delivery_ok d" using signals_invD(4)[OF inv] map_of_vals[OF Some] by (simp add: deliveries_ok_def)
  then show ?thesis using Some by (auto simp: remaining_def delivery_ok_def)
qed

text \<open>A pending delivery is found among the listed ones while at most 500 are pending.\<close>

lemma pending_found:
  assumes inv: "signals_inv sv w" and d: "d \<in> vals (sg_deliveries w)" "delivery_pending (ssv_organizationID sv) t d"
    and few: "card {x \<in> vals (sg_deliveries w). dl_Status x = ''pending''} \<le> n"
  shows "find (\<lambda>x. dl_ID x = dl_ID d) (take n (sort_key f (filter (delivery_pending (ssv_organizationID sv) t) (map snd (sg_deliveries w))))) = Some d"
    (is "find ?P ?l = _")
proof -
  have wk: "well_keyed sg_delivery_key (sg_deliveries w)" and orgs: "\<forall>x \<in> vals (sg_deliveries w). dl_OrganizationID x = ssv_organizationID sv"
    using signals_invD(4)[OF inv] by (simp_all add: deliveries_ok_def)
  have "{x \<in> vals (sg_deliveries w). delivery_pending (ssv_organizationID sv) t x} \<subseteq> {x \<in> vals (sg_deliveries w). dl_Status x = ''pending''}"
    by (auto simp: delivery_pending_def)
  moreover have "finite {x \<in> vals (sg_deliveries w). dl_Status x = ''pending''}" by (simp add: vals_def)
  ultimately have "card {x \<in> vals (sg_deliveries w). delivery_pending (ssv_organizationID sv) t x} \<le> n"
    using few by (meson card_mono order_trans)
  then have l: "set ?l = {x \<in> vals (sg_deliveries w). delivery_pending (ssv_organizationID sv) t x}" by (rule signals_listed[OF wk])
  have unique: "x = d" if "x \<in> set ?l" "?P x" for x
  proof -
    have x: "x \<in> vals (sg_deliveries w)" using that(1) l by blast
    have "sg_delivery_key x = sg_delivery_key d" using that(2) orgs x d(1) by (simp add: sg_delivery_key_def)
    then show ?thesis using x d(1) by (simp add: vals_iff[OF wk])
  qed
  have "d \<in> set ?l" using d l by blast
  then obtain x where x: "find ?P ?l = Some x" by (cases "find ?P ?l") (auto simp: find_None_iff)
  then have "x \<in> set ?l" "?P x" by (auto simp: find_Some_iff in_set_conv_nth simp del: set_take_subset)
  then show ?thesis using unique x by simp
qed

lemma signals_now_run: "signals_now w = (Inr (Normalize (clock w (ticks w))), w\<lparr>ticks := Suc (ticks w)\<rparr>)"
  by (simp add: signals_now_def tryE_def read_clock_def returnE_def)

lemma ToLower_Nil: "ToLower u '''' = ''''"
  by (simp add: ToLower_def map_runes_def)

lemma RecordDeliveryAttempt_run:
  assumes inv: "signals_inv sv w" and d: "d \<in> vals (sg_deliveries w)" "delivery_pending (ssv_organizationID sv) end_of_time d"
    and few: "card {x \<in> vals (sg_deliveries w). dl_Status x = ''pending''} \<le> 500"
    and i: "TrimSpace i = dl_ID d" "signal_id (dl_ID d)"
    and code: "if succeeded then TrimSpace code = '''' else signal_id (ToLower (ssv_unicode sv) (TrimSpace code))"
    and d': "d' = attempted (UTC (Normalize (clock w (ticks w)))) succeeded retryable (ToLower (ssv_unicode sv) (TrimSpace code)) d"
  shows "RecordDeliveryAttempt sv i succeeded retryable code w =
    (Inr d', w\<lparr>ticks := Suc (ticks w), sg_deliveries := AList.update (sg_delivery_key d) d' (sg_deliveries w)\<rparr>)"
proof -
  have wk: "well_keyed sg_delivery_key (sg_deliveries w)" using signals_invD(4)[OF inv] by (simp add: deliveries_ok_def)
  have old: "map_of (sg_deliveries w) (signalsKey (dl_OrganizationID d) (dl_ID d)) = Some d"
    using d(1) by (simp add: vals_iff[OF wk] flip: sg_delivery_key_def)
  have valid: "\<not> (\<not> signal_id (dl_ID d) \<or> \<not> succeeded \<and> \<not> signal_id (ToLower (ssv_unicode sv) (TrimSpace code)) \<or>
      succeeded \<and> ToLower (ssv_unicode sv) (TrimSpace code) \<noteq> '''')"
    using i(2) code by (auto simp: ToLower_Nil split: if_splits)
  have nat500: "nat 500 = (500 :: nat)" by simp
  note found = pending_found[OF inv d few, of "\<lambda>d. (nanos (dl_CreatedAt d), dl_ID d)"]
  show ?thesis unfolding RecordDeliveryAttempt_def Let_def i(1) if_not_P[OF valid] storeListPendingDeliveries_def
    by (simp add: tryE_def queryE_def found signals_now_run storeUpdateDelivery_def Let_def old d' sg_delivery_key_def)
qed

text \<open>A delivery that is not due by the end of time is not found, however few are pending.\<close>

lemma RecordDeliveryAttempt_late:
  assumes inv: "signals_inv sv w" and d: "d \<in> vals (sg_deliveries w)" "\<not> delivery_pending (ssv_organizationID sv) end_of_time d"
    and i: "TrimSpace i = dl_ID d" "signal_id (dl_ID d)"
    and code: "if succeeded then TrimSpace code = '''' else signal_id (ToLower (ssv_unicode sv) (TrimSpace code))"
  shows "RecordDeliveryAttempt sv i succeeded retryable code w = (Inl (Sentinel SignalsErrNotFound), w)"
proof -
  have wk: "well_keyed sg_delivery_key (sg_deliveries w)" and orgs: "\<forall>x \<in> vals (sg_deliveries w). dl_OrganizationID x = ssv_organizationID sv"
    using signals_invD(4)[OF inv] by (simp_all add: deliveries_ok_def)
  have valid: "\<not> (\<not> signal_id (dl_ID d) \<or> \<not> succeeded \<and> \<not> signal_id (ToLower (ssv_unicode sv) (TrimSpace code)) \<or>
      succeeded \<and> ToLower (ssv_unicode sv) (TrimSpace code) \<noteq> '''')"
    using i(2) code by (auto simp: ToLower_Nil split: if_splits)
  have other: "dl_ID x \<noteq> dl_ID d" if "x \<in> vals (sg_deliveries w)" "delivery_pending (ssv_organizationID sv) end_of_time x" for x
  proof
    assume "dl_ID x = dl_ID d"
    then have "sg_delivery_key x = sg_delivery_key d" using orgs that(1) d(1) by (simp add: sg_delivery_key_def)
    then have "x = d" using that(1) d(1) by (simp add: vals_iff[OF wk])
    then show False using that(2) d(2) by blast
  qed
  have "find (\<lambda>x. dl_ID x = dl_ID d) (take (nat 500) (sort_key (\<lambda>d. (nanos (dl_CreatedAt d), dl_ID d))
      (filter (delivery_pending (ssv_organizationID sv) end_of_time) (map snd (sg_deliveries w))))) = None"
    unfolding find_None_iff using other by (auto simp: vals_def dest!: in_set_takeD)
  then show ?thesis unfolding RecordDeliveryAttempt_def Let_def i(1) if_not_P[OF valid] storeListPendingDeliveries_def
    by (simp add: tryE_def queryE_def raiseE_def)
qed

end
