(* ===== verification/Signals_Properties.thy ===== *)
theory Signals_Properties
  imports Signals_Delivery
begin

text \<open>
  The properties of the Signals component. The concrete service and store below are the subject of the witnesses; its digest is a plain rearrangement of the input.
\<close>

declare sort_key_by_quicksort_code [code del]

lemma sort_key_insertion [code]: "sort_key f xs = foldr (insort_key f) xs []"
  by (simp add: sort_key_def)

definition ex_signals :: signals_service where
  "ex_signals = \<lparr>ssv_organizationID = ''org'', ssv_unicode = \<lparr>ucd_lower = id, ucd_upper = id, ucd_fold = id\<rparr>, ssv_sha256 = (\<lambda>s. take 3 (rev s) @ take 12 s @ rev s)\<rparr>"

definition ex_signals_ctx :: "string list \<Rightarrow> signals_ctx" where
  "ex_signals_ctx targets = \<lparr>cx_scope = None,
     sgx_evaluate = (\<lambda>rule t. Inr (map (\<lambda>i. \<lparr>cand_TargetType = ''budget'', cand_TargetID = i, cand_Title = ''Over budget'', cand_Summary = ''spent too much'',
       cand_DueAt = None, cand_ThresholdDays = 0\<rparr>) targets)),
     sgx_targets = (\<lambda>_. Inr [\<lparr>st_TargetKind = ''group'', st_TargetID = ''ops'', st_Label = ''Operations''\<rparr>]), sgx_targetRefs = None, sgx_writes = None\<rparr>"

definition ex_signals_world :: signals_world where
  "ex_signals_world = \<lparr>clock = (\<lambda>n. GoTime (int n * Second) True), ticks = 0, entropy = (\<lambda>n. Some [char_of (n + 1)]), draws = 0,
     audits = [], audit_faults = (\<lambda>_. None), audit_calls = 0, sg_rules = [], sg_alerts = [], sg_alertsByDedup = [], sg_history = [],
     sg_subscriptions = [], sg_deliveries = []\<rparr>"

definition ex_rule_input :: CreateRuleInput where
  "ex_rule_input = \<lparr>cru_ID = ''r1'', cru_Name = ''Budgets'', cru_Condition = ''over_budget'', cru_Severity = ''warning'', cru_Enabled = None,
     cru_ThresholdDays = [], cru_FiscalPeriod = '''', cru_Scenario = ''''\<rparr>"

definition ex_subscription_input :: CreateSubscriptionInput where
  "ex_subscription_input = \<lparr>csi_ID = ''s1'', csi_RuleID = ''r1'', csi_TargetKind = ''group'', csi_TargetID = ''ops''\<rparr>"

definition ex_time :: gotime where
  "ex_time = GoTime (day_of_civil 2024 1 1 * day_nanos) True"

text \<open>A rule, a subscription to it, and an evaluation that reports one target.\<close>

definition ex_ruled :: signals_world where
  "ex_ruled = snd (CreateSubscription ex_signals (ex_signals_ctx []) ex_subscription_input (snd (CreateRule ex_signals (ex_signals_ctx []) ex_rule_input ex_signals_world)))"

definition ex_alerted :: signals_world where
  "ex_alerted = snd (Evaluate ex_signals (ex_signals_ctx [''t1'']) ex_time ex_ruled)"

lemma ex_ruled_path: "signals_path ex_signals ex_signals_world [Other, Other] ex_ruled"
  using further[OF further[OF here create_rule] subscribe] unfolding ex_ruled_def by simp

lemma ex_alerted_path: "signals_path ex_signals ex_signals_world [Other, Other, Other] ex_alerted"
  using further[OF ex_ruled_path evaluate] unfolding ex_alerted_def by simp

lemma ex_empty: "signals_empty ex_signals_world"
  by (simp add: signals_empty_def ex_signals_world_def)

lemma ex_alerted_inv: "signals_inv ex_signals ex_alerted"
  using path_grows[OF ex_alerted_path] signals_empty_inv[OF ex_empty] by (simp add: grows_def)

lemma ex_ruled_inv: "signals_inv ex_signals ex_ruled"
  using path_grows[OF ex_ruled_path] signals_empty_inv[OF ex_empty] by (simp add: grows_def)

section \<open>The store\<close>

text \<open>C33: whatever operations have run, the Signals store satisfies its invariant: the status of every alert is the replay of its recorded history and its revision numbers
  that history, the deduplication index names exactly the stored alerts, rule names and subscriptions are unique, there are at most 100 of each, and every delivery is
  either pending with a next attempt and fewer than eight attempts behind it or finished. Further operations only append to the histories.
\<close>

theorem signals_reachable_inv:
  assumes "signals_empty w0" and "signals_path sv w0 ls w" and "signals_path sv w ls' w'"
  shows "signals_inv sv w' \<and> history_extends w w'"
  using path_grows[OF assms(2)] path_grows[OF assms(3)] signals_empty_inv[OF assms(1), of sv] by (simp add: grows_def)

theorem signals_reachable_inv_witness:
  "signals_empty ex_signals_world \<and> signals_inv ex_signals ex_alerted \<and> history_extends ex_ruled ex_alerted \<and> length (sg_alerts ex_alerted) = 1 \<and>
     length (sg_deliveries ex_alerted) = 1"
proof -
  have "signals_path ex_signals ex_ruled [Other] ex_alerted"
    using further[OF here evaluate] unfolding ex_alerted_def by simp
  from signals_reachable_inv[OF ex_empty ex_ruled_path this] ex_empty
  have "signals_empty ex_signals_world \<and> signals_inv ex_signals ex_alerted \<and> history_extends ex_ruled ex_alerted" by simp
  moreover have "length (sg_alerts ex_alerted) = 1 \<and> length (sg_deliveries ex_alerted) = 1" by code_simp
  ultimately show ?thesis by simp
qed

section \<open>Evaluation\<close>

text \<open>C34: after an evaluation that returns no error, the alerts of every enabled rule that are not resolved are exactly those of the candidates its evaluator reported:
  every candidate has its alert open, new or reopened, and every other alert of the rule is resolved. Assumed are that the digests of alerts of different rules differ and
  that no rule has more than 500 open alerts, the number one listing returns.
\<close>

theorem Evaluate_exact:
  assumes "signals_inv sv w" and "\<not> IsZero asOf" and "keys_apart sv cx (UTC asOf) (map snd (sg_rules w)) w" and "few_open (map snd (sg_rules w)) w"
    and "Evaluate sv cx asOf w = (Inr (result, None), w')"
  shows "exact sv cx (UTC asOf) (map snd (sg_rules w)) w'"
  using wp_Inr[OF wp_Evaluate[OF assms(1,2)] assms(5)] assms(3,4) by (simp add: evaluated_def)

theorem Evaluate_exact_witness:
  "keys_apart ex_signals (ex_signals_ctx [''t2'']) (UTC ex_time) (map snd (sg_rules ex_alerted)) ex_alerted \<and>
   exact ex_signals (ex_signals_ctx [''t2'']) (UTC ex_time) (map snd (sg_rules ex_alerted)) (snd (Evaluate ex_signals (ex_signals_ctx [''t2'']) ex_time ex_alerted)) \<and>
   fst (Evaluate ex_signals (ex_signals_ctx [''t2'']) ex_time ex_alerted) =
     Inr (\<lparr>er_AsOf = UTC ex_time, er_Rules = 1, er_Created = 1, er_Refreshed = 0, er_Resolved = 1\<rparr>, None)"
proof -
  let ?r = "\<lparr>er_AsOf = UTC ex_time, er_Rules = 1, er_Created = 1, er_Refreshed = 0, er_Resolved = 1\<rparr>"
  have run: "fst (Evaluate ex_signals (ex_signals_ctx [''t2'']) ex_time ex_alerted) = Inr (?r, None)" by code_simp
  then have e: "Evaluate ex_signals (ex_signals_ctx [''t2'']) ex_time ex_alerted = (Inr (?r, None), snd (Evaluate ex_signals (ex_signals_ctx [''t2'']) ex_time ex_alerted))"
    by (metis prod.collapse)
  have k: "keys_apart ex_signals (ex_signals_ctx [''t2'']) (UTC ex_time) (map snd (sg_rules ex_alerted)) ex_alerted" by code_simp
  have f: "few_open (map snd (sg_rules ex_alerted)) ex_alerted" by code_simp
  have z: "\<not> IsZero ex_time" by code_simp
  show ?thesis using Evaluate_exact[OF ex_alerted_inv z k f e] k run by simp
qed

section \<open>Deliveries\<close>

text \<open>C35: a new alert is handed over exactly to its subscriptions: when \<open>enqueueDeliveries\<close> succeeds, the deliveries are those of before and, for every
  subscription that is enabled and names the alert's rule or no rule, one pending delivery of that alert to the subscription's target, without an
  attempt and due now, whose id is derived from the alert, its revision and the subscription; there is no other. In particular a subscription that is
  disabled, or names another rule, gets none.
\<close>

theorem enqueueDeliveries_exact:
  assumes "signals_inv sv w" and "enqueueDeliveries sv alert now w = (Inr (), w')"
  shows "vals (sg_deliveries w') = vals (sg_deliveries w) \<union>
    (\<lambda>s. \<lparr>dl_ID = hex_encode (take 16 (ssv_sha256 sv (join_nul [al_ID alert, FormatInt (al_Revision alert), sub_ID s]))),
          dl_OrganizationID = ssv_organizationID sv, dl_AlertID = al_ID alert, dl_SubscriptionID = sub_ID s, dl_TargetKind = sub_TargetKind s,
          dl_TargetID = sub_TargetID s, dl_Status = ''pending'', dl_Attempts = 0, dl_NextAttemptAt = Some now, dl_LastErrorCode = '''',
          dl_CreatedAt = now, dl_UpdatedAt = now\<rparr>) `
      {s \<in> vals (sg_subscriptions w). sub_Enabled s \<and> (sub_RuleID s = '''' \<or> sub_RuleID s = al_RuleID alert)}"
  using wp_Inr[OF wp_enqueueDeliveries[OF assms(1)] assms(2)] unfolding delivery_for_def subscription_matches_def .

definition ex_other_alert :: Alert where
  "ex_other_alert = zero_alert\<lparr>al_ID := ''a'', al_RuleID := ''r1'', al_Revision := 1\<rparr>"

text \<open>A second subscription, imported as a disabled one to all rules.\<close>

definition ex_disabled_subscription :: Subscription where
  "ex_disabled_subscription = \<lparr>sub_ID = ''s2'', sub_OrganizationID = ''org'', sub_RuleID = [], sub_TargetKind = ''group'', sub_TargetID = ''ops'',
     sub_Enabled = False, sub_CreatedBy = [], sub_Revision = 1, sub_CreatedAt = ex_time, sub_UpdatedAt = ex_time\<rparr>"

definition ex_two_subscribed :: signals_world where
  "ex_two_subscribed = snd (ImportSubscription ex_signals (ex_signals_ctx []) \<lparr>sio_Token = ''op1'', sio_OccurredAt = ex_time\<rparr> ex_disabled_subscription ex_ruled)"

lemma ex_two_subscribed_inv: "signals_inv ex_signals ex_two_subscribed"
  using path_grows[OF further[OF ex_ruled_path import_subscription]] signals_empty_inv[OF ex_empty] unfolding ex_two_subscribed_def grows_def by blast

theorem enqueueDeliveries_exact_witness:
  "fst (enqueueDeliveries ex_signals ex_other_alert ex_time ex_two_subscribed) = Inr () \<and>
   card (vals (sg_subscriptions ex_two_subscribed)) = 2 \<and>
   dl_TargetID ` vals (sg_deliveries (snd (enqueueDeliveries ex_signals ex_other_alert ex_time ex_two_subscribed))) = {''ops''}"
proof -
  have run: "fst (enqueueDeliveries ex_signals ex_other_alert ex_time ex_two_subscribed) = Inr ()" by code_simp
  then have e: "enqueueDeliveries ex_signals ex_other_alert ex_time ex_two_subscribed =
      (Inr (), snd (enqueueDeliveries ex_signals ex_other_alert ex_time ex_two_subscribed))"
    by (metis prod.collapse)
  have c: "card (vals (sg_subscriptions ex_two_subscribed)) = 2" by code_simp
  have none: "vals (sg_deliveries ex_two_subscribed) = {}" by code_simp
  have sel: "sub_TargetID ` {s \<in> vals (sg_subscriptions ex_two_subscribed). sub_Enabled s \<and> (sub_RuleID s = '''' \<or> sub_RuleID s = al_RuleID ex_other_alert)} = {''ops''}"
    by code_simp
  show ?thesis using run c sel unfolding enqueueDeliveries_exact[OF ex_two_subscribed_inv e] none by (simp add: image_image)
qed

text \<open>C36: deliveries are not retried for ever: in any run in which no subscription is deleted, at most eight attempts are recorded for one delivery, and after the eighth
  it is finished.
\<close>

theorem delivery_attempts_end:
  assumes "signals_inv sv w" and "signals_path sv w ls w'" and "Unsubscribed \<notin> set ls"
  shows "count_list ls (Attempted i) \<le> MaximumDeliveryTries \<and>
    (count_list ls (Attempted i) = MaximumDeliveryTries \<longrightarrow>
      (\<exists>d. map_of (sg_deliveries w') (signalsKey (ssv_organizationID sv) i) = Some d \<and> dl_Status d \<noteq> ''pending''))"
proof -
  have inv': "signals_inv sv w'" using path_grows[OF assms(2)] assms(1) by (simp add: grows_def)
  have "count_list ls (Attempted i) + remaining sv i w' \<le> remaining sv i w" by (rule path_attempts[OF assms(2,1,3)])
  moreover have "remaining sv i w \<le> MaximumDeliveryTries" by (simp add: remaining_def split: option.split)
  ultimately show ?thesis using remaining_zero[OF inv', of i] by auto
qed

definition ex_delivery_id :: string where
  "ex_delivery_id = (case map snd (sg_deliveries ex_alerted) of d # _ \<Rightarrow> dl_ID d | [] \<Rightarrow> '''')"

definition ex_delivered :: signals_world where
  "ex_delivered = snd (RecordDeliveryAttempt ex_signals ex_delivery_id True False '''' ex_alerted)"

theorem delivery_attempts_end_witness:
  "signals_path ex_signals ex_alerted [Attempted ex_delivery_id] ex_delivered \<and> count_list [Attempted ex_delivery_id] (Attempted ex_delivery_id) \<le> MaximumDeliveryTries"
proof -
  have "fst (RecordDeliveryAttempt ex_signals ex_delivery_id True False '''' ex_alerted) \<noteq> Inl (Sentinel SignalsErrInvalidInput) \<and>
      isl (fst (RecordDeliveryAttempt ex_signals ex_delivery_id True False '''' ex_alerted)) = False \<and> TrimSpace ex_delivery_id = ex_delivery_id" by code_simp
  then obtain d where "RecordDeliveryAttempt ex_signals ex_delivery_id True False '''' ex_alerted = (Inr d, ex_delivered)" and t: "TrimSpace ex_delivery_id = ex_delivery_id"
    unfolding ex_delivered_def by (metis isl_def old.sum.exhaust prod.collapse)
  from attempt[OF this(1)] t have "signals_step ex_signals (Attempted ex_delivery_id) ex_alerted ex_delivered" by simp
  then have p: "signals_path ex_signals ex_alerted [Attempted ex_delivery_id] ex_delivered"
    using further[OF here] by fastforce
  then show ?thesis using delivery_attempts_end[OF ex_alerted_inv p, of ex_delivery_id] by simp
qed

text \<open>C37: the report of an attempt on a pending delivery, while at most 500 are pending, is accepted exactly when the delivery is due by
  9999-12-31T00:00:00Z, the moment up to which the service lists deliveries: it then leaves it delivered, failed, or pending again with one attempt
  more and a next attempt later by the delay for that many attempts - whatever the clock says and however far ahead the next attempt was set. A delivery that is only due
  after that moment is answered with \<open>ErrNotFound\<close> and nothing changes, so it stays pending.
\<close>

theorem RecordDeliveryAttempt_answers:
  assumes "signals_inv sv w" and "d \<in> vals (sg_deliveries w)" and "dl_Status d = ''pending''" and "dl_NextAttemptAt d = Some due"
    and "card {x \<in> vals (sg_deliveries w). dl_Status x = ''pending''} \<le> 500"
    and "TrimSpace i = dl_ID d" and "signal_id (dl_ID d)"
    and "if succeeded then TrimSpace code = '''' else signal_id (ToLower (ssv_unicode sv) (TrimSpace code))"
    and "now = UTC (Normalize (clock w (ticks w)))"
  shows "if nanos due \<le> day_of_civil 9999 12 31 * day_nanos
    then \<exists>d' w'. RecordDeliveryAttempt sv i succeeded retryable code w = (Inr d', w') \<and> map_of (sg_deliveries w') (sg_delivery_key d) = Some d' \<and>
      dl_Attempts d' = Suc (dl_Attempts d) \<and>
      (dl_Status d', dl_NextAttemptAt d') =
        (if succeeded then (''delivered'', None)
         else if retryable \<and> Suc (dl_Attempts d) < MaximumDeliveryTries then (''pending'', Some (Add now (retryDelay (Suc (dl_Attempts d)))))
         else (''failed'', None))
    else RecordDeliveryAttempt sv i succeeded retryable code w = (Inl (Sentinel SignalsErrNotFound), w)"
proof (cases "nanos due \<le> day_of_civil 9999 12 31 * day_nanos")
  case True
  have "dl_OrganizationID d = ssv_organizationID sv" using signals_invD(4)[OF assms(1)] assms(2) by (simp add: deliveries_ok_def)
  then have "delivery_pending (ssv_organizationID sv) end_of_time d" using True assms(3,4) by (simp add: delivery_pending_def Before_def end_of_time_def)
  from RecordDeliveryAttempt_run[OF assms(1,2) this assms(5-8) refl] True show ?thesis by (simp add: attempted_def Let_def assms(9))
next
  case False
  then have "\<not> delivery_pending (ssv_organizationID sv) end_of_time d" using assms(4) by (simp add: delivery_pending_def Before_def end_of_time_def)
  from RecordDeliveryAttempt_late[OF assms(1,2) this assms(6-8)] False show ?thesis by simp
qed

text \<open>The evaluation of the last second of 9999: its delivery is due after the moment up to which deliveries are listed.\<close>

definition ex_late :: signals_world where
  "ex_late = snd (Evaluate ex_signals (ex_signals_ctx [''t1'']) (GoTime (day_of_civil 9999 12 31 * day_nanos + Second) True) ex_ruled)"

lemma ex_late_inv: "signals_inv ex_signals ex_late"
  using path_grows[OF further[OF ex_ruled_path evaluate]] signals_empty_inv[OF ex_empty] unfolding ex_late_def grows_def by blast

lemma one_pending:
  assumes "map snd ds = [d]"
  shows "vals ds = {d}" and "card {x \<in> vals ds. dl_Status x = ''pending''} \<le> 500"
proof -
  show v: "vals ds = {d}" using arg_cong[OF assms, of set] by (simp add: vals_def)
  have "{x \<in> vals ds. dl_Status x = ''pending''} \<subseteq> {d}" using v by blast
  from card_mono[OF _ this] show "card {x \<in> vals ds. dl_Status x = ''pending''} \<le> 500" by simp
qed

lemma ex_first_delivery:
  "case map snd (sg_deliveries ex_alerted) of [d] \<Rightarrow> dl_ID d = ex_delivery_id \<and> dl_Attempts d = 0 \<and> dl_Status d = ''pending'' \<and>
     (case dl_NextAttemptAt d of Some t \<Rightarrow> nanos t \<le> day_of_civil 9999 12 31 * day_nanos | None \<Rightarrow> False) | _ \<Rightarrow> False"
  "case map snd (sg_deliveries ex_late) of [d] \<Rightarrow> dl_Status d = ''pending'' \<and> TrimSpace (dl_ID d) = dl_ID d \<and> signal_id (dl_ID d) \<and>
     (case dl_NextAttemptAt d of Some t \<Rightarrow> \<not> nanos t \<le> day_of_civil 9999 12 31 * day_nanos | None \<Rightarrow> False) | _ \<Rightarrow> False"
  by code_simp+

theorem RecordDeliveryAttempt_answers_witness:
  "(\<exists>d d' w'. RecordDeliveryAttempt ex_signals ex_delivery_id False True ''timeout'' ex_alerted = (Inr d', w') \<and>
     map_of (sg_deliveries w') (sg_delivery_key d) = Some d' \<and> dl_Status d' = ''pending'' \<and> dl_Attempts d' = 1) \<and>
   (\<exists>d \<in> vals (sg_deliveries ex_late). dl_Status d = ''pending'' \<and>
     RecordDeliveryAttempt ex_signals (dl_ID d) True False '''' ex_late = (Inl (Sentinel SignalsErrNotFound), ex_late))"
proof
  obtain d t where d: "map snd (sg_deliveries ex_alerted) = [d]" "dl_ID d = ex_delivery_id" "dl_Attempts d = 0" "dl_Status d = ''pending''"
      "dl_NextAttemptAt d = Some t" "nanos t \<le> day_of_civil 9999 12 31 * day_nanos"
    using ex_first_delivery(1) by (auto split: list.splits option.splits)
  note one = one_pending[OF d(1)]
  have i: "TrimSpace ex_delivery_id = dl_ID d" "signal_id (dl_ID d)"
    "if False then TrimSpace ''timeout'' = '''' else signal_id (ToLower (ssv_unicode ex_signals) (TrimSpace ''timeout''))" unfolding d(2) by code_simp+
  have "d \<in> vals (sg_deliveries ex_alerted)" using one(1) by simp
  from RecordDeliveryAttempt_answers[OF ex_alerted_inv this d(4,5) one(2) i refl, of True]
  show "\<exists>d d' w'. RecordDeliveryAttempt ex_signals ex_delivery_id False True ''timeout'' ex_alerted = (Inr d', w') \<and>
     map_of (sg_deliveries w') (sg_delivery_key d) = Some d' \<and> dl_Status d' = ''pending'' \<and> dl_Attempts d' = 1"
    using d(3,6) by (auto simp: MaximumDeliveryTries_def)
next
  obtain d t where d: "map snd (sg_deliveries ex_late) = [d]" "dl_Status d = ''pending''" "TrimSpace (dl_ID d) = dl_ID d" "signal_id (dl_ID d)"
      "dl_NextAttemptAt d = Some t" "\<not> nanos t \<le> day_of_civil 9999 12 31 * day_nanos"
    using ex_first_delivery(2) by (auto split: list.splits option.splits)
  note one = one_pending[OF d(1)]
  have code: "if True then TrimSpace '''' = '''' else signal_id (ToLower (ssv_unicode ex_signals) (TrimSpace ''''))" by code_simp
  have m: "d \<in> vals (sg_deliveries ex_late)" using one(1) by simp
  from RecordDeliveryAttempt_answers[OF ex_late_inv m d(2,5) one(2) d(3,4) code refl, of False] d(2,6) m
  show "\<exists>d \<in> vals (sg_deliveries ex_late). dl_Status d = ''pending'' \<and>
     RecordDeliveryAttempt ex_signals (dl_ID d) True False '''' ex_late = (Inl (Sentinel SignalsErrNotFound), ex_late)" by auto
qed

text \<open>C38: the delay before the next attempt doubles from five minutes with every attempt made and is capped at one day; the loop that computes it equals the closed form for
  every number of attempts.
\<close>

theorem retryDelay_closed: "retryDelay n = min (24 * 60 * Minute) (5 * Minute * 2 ^ (n - 1))"
  by (rule retryDelay_capped)

end
