(* ===== verification/Spec2Isabelle.thy ===== *)
theory Spec2Isabelle
  imports Threads_Properties Cache_Properties Limiter_Properties Ledger_Reports Guard_Properties Signals_Properties
begin

text \<open>
  StewardMesh in Isabelle/HOL.
\<close>

end
